(* ===== verification/Prelude.thy ===== *)
theory Prelude
  imports Complex_Main "HOL-Library.AList"
begin

text \<open>
  Shared vocabulary of the development.

  \<^item> Python strings are lists of code points (\<open>pystr\<close>), so that \<open>len\<close>, indexing and the
    failure of \<open>encode\<close> on a lone surrogate are the ones of the source; byte strings are lists
    of numbers below 256 (\<open>bytes\<close>). \<open>lit\<close> writes an ASCII literal.
  \<^item> Every exception the sources raise or catch is a constructor of \<open>exn\<close>; a fallible call
    returns \<open>exn + 'a\<close>. Static messages are kept; the interpolated part of an f-string is not.
  \<^item> A \<open>dict\<close> is an association list in insertion order: \<open>AList.update\<close> overwrites in place
    or appends, \<open>AList.delete\<close> removes, exactly as Python orders them.
  \<^item> Two generic interfaces: \<open>bounded_buffer\<close> (a buffer that keeps the newest entries) and
    \<open>transition_system\<close> (reachable states and invariants).
\<close>

section \<open>Types, exceptions and results\<close>

type_synonym pystr = "nat list"
type_synonym bytes = "nat list"
type_synonym ('k, 'v) dict = "('k \<times> 'v) list"

datatype exn =
    HTTPException int string
  | IndexError
  | KeyError
  | TypeError
  | AttributeError
  | UnicodeError
  | OverflowError
  | InvalidTokenError
  | TimeoutError
  | WebSocketDisconnect
  | CancelledError
  | UnsupportedAlgorithm
  | SSLWantReadError
  | SSLWantWriteError
  | SubprocessError
  | GitHubError bool
  | ValueError string
  | RuntimeError string
  | OSError string
  | SSLError string
  | VersionError string
  | ReleaseError string
  | SystemExit string

type_synonym 'a result = "exn + 'a"

text \<open>What \<open>except Exception\<close> catches: everything but the cancellation of a task and the exit.\<close>

definition is_exception :: "exn \<Rightarrow> bool" where
  "is_exception e \<longleftrightarrow> (case e of CancelledError \<Rightarrow> False | SystemExit _ \<Rightarrow> False | _ \<Rightarrow> True)"

named_theorems result_simps \<open>unfolding of the result combinators\<close>
named_theorems str_simps \<open>unfolding of the string operations\<close>

definition bind_r :: "'a result \<Rightarrow> ('a \<Rightarrow> 'b result) \<Rightarrow> 'b result" where
  "bind_r r f = (case r of Inl e \<Rightarrow> Inl e | Inr x \<Rightarrow> f x)"

definition guard_r :: "bool \<Rightarrow> exn \<Rightarrow> 'a result \<Rightarrow> 'a result" where
  "guard_r c e r = (if c then r else Inl e)"

text \<open>\<open>any(f(x) for x in xs)\<close>: stops at the first true element or at the first exception.\<close>

fun any_r :: "('a \<Rightarrow> bool result) \<Rightarrow> 'a list \<Rightarrow> bool result" where
  "any_r f [] = Inr False"
| "any_r f (x # xs) = bind_r (f x) (\<lambda>b. if b then Inr True else any_r f xs)"

text \<open>A \<open>for\<close> loop whose body may raise.\<close>

fun each_r :: "('a \<Rightarrow> unit result) \<Rightarrow> 'a list \<Rightarrow> unit result" where
  "each_r f [] = Inr ()"
| "each_r f (x # xs) = bind_r (f x) (\<lambda>_. each_r f xs)"

text \<open>A list comprehension whose element expression may raise.\<close>

fun map_r :: "('a \<Rightarrow> 'b result) \<Rightarrow> 'a list \<Rightarrow> 'b list result" where
  "map_r f [] = Inr []"
| "map_r f (x # xs) = bind_r (f x) (\<lambda>y. bind_r (map_r f xs) (\<lambda>ys. Inr (y # ys)))"

lemma bind_r_simps [simp, result_simps]:
  "bind_r (Inl e) f = Inl e"
  "bind_r (Inr x) f = f x"
  by (simp_all add: bind_r_def)

lemma bind_r_Inr_iff: "bind_r r f = Inr y \<longleftrightarrow> (\<exists>x. r = Inr x \<and> f x = Inr y)"
  by (cases r) simp_all

lemma bind_r_Inl_iff: "bind_r r f = Inl e \<longleftrightarrow> r = Inl e \<or> (\<exists>x. r = Inr x \<and> f x = Inl e)"
  by (cases r) simp_all

lemma guard_r_Inr_iff [simp]: "guard_r c e r = Inr y \<longleftrightarrow> c \<and> r = Inr y"
  by (simp add: guard_r_def)

lemma guard_r_Inl_iff: "guard_r c e r = Inl e' \<longleftrightarrow> (\<not> c \<and> e' = e) \<or> (c \<and> r = Inl e')"
  by (auto simp: guard_r_def)

lemma guard_r_simps [simp, result_simps]:
  "guard_r True e r = r"
  "guard_r False e r = Inl e"
  by (simp_all add: guard_r_def)

lemma any_r_pure: "any_r (\<lambda>x. Inr (P x)) xs = Inr (\<exists>x\<in>set xs. P x)"
  by (induction xs) auto

lemma any_r_cong_Inr:
  "(\<And>x. x \<in> set xs \<Longrightarrow> f x = Inr (P x)) \<Longrightarrow> any_r f xs = Inr (\<exists>x\<in>set xs. P x)"
  by (induction xs) auto

lemma each_r_Inr_iff: "each_r f xs = Inr () \<longleftrightarrow> (\<forall>x\<in>set xs. f x = Inr ())"
  by (induction xs) (auto simp: bind_r_Inr_iff)

lemma map_r_Inr_length: "map_r f xs = Inr ys \<Longrightarrow> length ys = length xs"
  by (induction xs arbitrary: ys) (auto simp: bind_r_Inr_iff)

lemma map_r_Inr_iff: "map_r f xs = Inr ys \<longleftrightarrow> list_all2 (\<lambda>x y. f x = Inr y) xs ys"
proof (induction xs arbitrary: ys)
  case Nil
  then show ?case by auto
next
  case (Cons x xs)
  then show ?case by (cases ys) (auto simp: bind_r_Inr_iff)
qed

lemma isl_each_r: "(\<exists>e. each_r f xs = Inl e) \<longleftrightarrow> (\<exists>x\<in>set xs. \<exists>e. f x = Inl e)"
proof (induction xs)
  case (Cons x xs)
  then show ?case by (cases "f x") auto
qed simp

section \<open>Strings\<close>

definition lit :: "string \<Rightarrow> pystr" where
  "lit s = map of_char s"

lemma lit_eq_iff [simp]: "lit a = lit b \<longleftrightarrow> a = b"
  by (simp add: lit_def inj_map_eq_map [OF inj_of_char])

lemma lit_Nil [simp]: "lit [] = []"
  by (simp add: lit_def)

lemma lit_Nil_iff [simp]: "lit s = [] \<longleftrightarrow> s = []" "[] = lit s \<longleftrightarrow> s = []"
  by (auto simp: lit_def)

text \<open>\<open>s.split(c)\<close> for a one-character separator: never the empty list.\<close>

fun split_on :: "nat \<Rightarrow> pystr \<Rightarrow> pystr list" where
  "split_on c [] = [[]]"
| "split_on c (x # xs) =
    (if x = c then [] # split_on c xs
     else (case split_on c xs of l # ls \<Rightarrow> (x # l) # ls | [] \<Rightarrow> [[x]]))"

fun join_on :: "nat \<Rightarrow> pystr list \<Rightarrow> pystr" where
  "join_on c [] = []"
| "join_on c [l] = l"
| "join_on c (l # ls) = l @ c # join_on c ls"

definition startswith :: "pystr \<Rightarrow> pystr \<Rightarrow> bool" where
  "startswith s p \<longleftrightarrow> take (length p) s = p"

text \<open>\<open>str.isspace\<close> on one code point; \<open>str.strip\<close> removes these at both ends.\<close>

definition is_space :: "nat \<Rightarrow> bool" where
  "is_space c \<longleftrightarrow> 9 \<le> c \<and> c \<le> 13 \<or> 28 \<le> c \<and> c \<le> 32 \<or> c = 133 \<or> c = 160 \<or> c = 5760
     \<or> 8192 \<le> c \<and> c \<le> 8202 \<or> c = 8232 \<or> c = 8233 \<or> c = 8239 \<or> c = 8287 \<or> c = 12288"

definition lstrip :: "pystr \<Rightarrow> pystr" where
  "lstrip s = dropWhile is_space s"

definition strip :: "pystr \<Rightarrow> pystr" where
  "strip s = rev (dropWhile is_space (rev (dropWhile is_space s)))"

text \<open>
  \<open>str.lower\<close> and \<open>str.upper\<close>: exact on ASCII; the mapping of every other code point is the
  Unicode table of the interpreter, the argument \<open>uni\<close>.
\<close>

definition py_lower :: "(nat \<Rightarrow> pystr) \<Rightarrow> pystr \<Rightarrow> pystr" where
  "py_lower uni s =
     concat (map (\<lambda>c. if 65 \<le> c \<and> c \<le> 90 then [c + 32] else if c < 128 then [c] else uni c) s)"

definition py_upper :: "(nat \<Rightarrow> pystr) \<Rightarrow> pystr \<Rightarrow> pystr" where
  "py_upper uni s =
     concat (map (\<lambda>c. if 97 \<le> c \<and> c \<le> 122 then [c - 32] else if c < 128 then [c] else uni c) s)"

text \<open>The decimal rendering of an integer (\<open>str(n)\<close>).\<close>

fun nat_digits :: "nat \<Rightarrow> pystr" where
  "nat_digits n = (if n < 10 then [48 + n] else nat_digits (n div 10) @ [48 + n mod 10])"

declare nat_digits.simps [simp del]

definition int_str :: "int \<Rightarrow> pystr" where
  "int_str i = (if i < 0 then 45 # nat_digits (nat (- i)) else nat_digits (nat i))"

definition is_digit :: "nat \<Rightarrow> bool" where
  "is_digit c \<longleftrightarrow> 48 \<le> c \<and> c \<le> 57"

definition is_hex_lower :: "nat \<Rightarrow> bool" where
  "is_hex_lower c \<longleftrightarrow> is_digit c \<or> 97 \<le> c \<and> c \<le> 102"

text \<open>\<open>int(s)\<close> on a string of ASCII digits.\<close>

definition digits_val :: "pystr \<Rightarrow> nat" where
  "digits_val s = foldl (\<lambda>a c. 10 * a + (c - 48)) 0 s"

lemma split_on_not_Nil [simp]: "split_on c s \<noteq> []"
  by (induction s) (auto split: list.splits)

lemma join_on_Cons: "ls \<noteq> [] \<Longrightarrow> join_on c (l # ls) = l @ c # join_on c ls"
  by (cases ls) simp_all

lemma join_split [simp]: "join_on c (split_on c s) = s"
proof (induction s)
  case (Cons x s)
  obtain l ls where sp: "split_on c s = l # ls"
    by (cases "split_on c s") auto
  with Cons show ?case by (cases ls) auto
qed simp

lemma split_on_no_sep: "l \<in> set (split_on c s) \<Longrightarrow> c \<notin> set l"
proof (induction s arbitrary: l)
  case (Cons x s)
  obtain k ks where sp: "split_on c s = k # ks"
    by (cases "split_on c s") auto
  with Cons show ?case by (auto split: if_splits)
qed simp

lemma split_on_append: "c \<notin> set l \<Longrightarrow> split_on c (l @ c # s) = l # split_on c s"
  by (induction l) auto

lemma split_on_word: "c \<notin> set l \<Longrightarrow> split_on c l = [l]"
  by (induction l) auto

lemma split_join [simp]: "ls \<noteq> [] \<Longrightarrow> (\<And>l. l \<in> set ls \<Longrightarrow> c \<notin> set l) \<Longrightarrow> split_on c (join_on c ls) = ls"
proof (induction c ls rule: join_on.induct)
  case (3 c l v va)
  then show ?case by (simp add: split_on_append)
qed (simp_all add: split_on_word)

lemma split_on_eq_iff [simp]: "split_on c s = split_on c t \<longleftrightarrow> s = t"
  by (metis join_split)

lemma set_join_on: "set (join_on c ls) \<subseteq> insert c (\<Union>l\<in>set ls. set l)"
  by (induction c ls rule: join_on.induct) auto

lemma set_split_on: "l \<in> set (split_on c s) \<Longrightarrow> set l \<subseteq> set s"
proof (induction s arbitrary: l)
  case (Cons x s)
  obtain k ks where sp: "split_on c s = k # ks"
    by (cases "split_on c s") auto
  have IH: "\<And>l. l = k \<or> l \<in> set ks \<Longrightarrow> set l \<subseteq> set s"
    using Cons.IH sp by auto
  show ?case using Cons.prems sp IH [of k] IH [of l] by (auto split: if_splits)
qed simp

lemma startswith_Nil [simp]: "startswith s []"
  by (simp add: startswith_def)

lemma startswith_char: "startswith s [c] \<longleftrightarrow> (\<exists>t. s = c # t)"
  by (cases s) (auto simp: startswith_def)

lemma startswith_append [simp]: "startswith (p @ s) p"
  by (simp add: startswith_def)

lemma startswith_iff: "startswith s p \<longleftrightarrow> (\<exists>t. s = p @ t)"
  unfolding startswith_def by (metis append_take_drop_id append_eq_conv_conj)

lemma strip_subset: "set (strip s) \<subseteq> set s"
  unfolding strip_def by (metis set_dropWhileD set_rev subsetI)

lemma nat_digits_not_Nil [simp]: "nat_digits n \<noteq> []"
  by (subst nat_digits.simps) simp

lemma nat_digits_are_digits: "c \<in> set (nat_digits n) \<Longrightarrow> is_digit c"
proof (induction n arbitrary: c rule: nat_digits.induct)
  case (1 n)
  show ?case
  proof (cases "n < 10")
    case True
    with "1.prems" show ?thesis by (simp add: nat_digits.simps [of n] is_digit_def)
  next
    case False
    with 1 show ?thesis
      by (auto simp: nat_digits.simps [of n] is_digit_def)
  qed
qed

lemma digits_val_snoc: "digits_val (s @ [c]) = 10 * digits_val s + (c - 48)"
  by (simp add: digits_val_def)

lemma digits_val_nat_digits [simp]: "digits_val (nat_digits n) = n"
proof (induction n rule: nat_digits.induct)
  case (1 n)
  show ?case
  proof (cases "n < 10")
    case True
    then show ?thesis by (simp add: nat_digits.simps [of n] digits_val_def)
  next
    case False
    with 1 show ?thesis by (simp add: nat_digits.simps [of n] digits_val_snoc)
  qed
qed

lemma nat_digits_inj [simp]: "nat_digits a = nat_digits b \<longleftrightarrow> a = b"
  by (metis digits_val_nat_digits)

section \<open>Dictionaries\<close>

text \<open>\<open>d.get(k)\<close> is \<open>map_of d k\<close>; \<open>d.pop(k, None)\<close> is a lookup and a deletion.\<close>

definition wf_dict :: "('k, 'v) dict \<Rightarrow> bool" where
  "wf_dict d \<longleftrightarrow> distinct (map fst d)"

lemma wf_dict_Nil [simp]: "wf_dict []"
  by (simp add: wf_dict_def)

lemma wf_dict_update [simp, intro]: "wf_dict d \<Longrightarrow> wf_dict (AList.update k v d)"
  by (simp add: wf_dict_def distinct_update)

lemma wf_dict_delete [simp, intro]: "wf_dict d \<Longrightarrow> wf_dict (AList.delete k d)"
  by (simp add: wf_dict_def distinct_delete)

lemma map_of_update [simp]: "map_of (AList.update k v d) = (map_of d)(k \<mapsto> v)"
  by (rule update_conv')

lemma map_of_delete [simp]: "map_of (AList.delete k d) = (map_of d)(k := None)"
  by (rule delete_conv')

lemma update_fresh: "map_of d k = None \<Longrightarrow> AList.update k v d = d @ [(k, v)]"
  by (induction d) (auto split: if_splits)

lemma keys_update: "fst ` set (AList.update k v d) = insert k (fst ` set d)"
  by (simp add: dom_update)

lemma keys_delete: "fst ` set (AList.delete k d) = fst ` set d - {k}"
  by (simp flip: dom_map_of_conv_image_fst)

lemma length_delete_absent: "map_of d k = None \<Longrightarrow> AList.delete k d = d"
  by (induction d) (auto split: if_splits)

lemma length_delete_present:
  "wf_dict d \<Longrightarrow> map_of d k = Some v \<Longrightarrow> Suc (length (AList.delete k d)) = length d"
proof (induction d)
  case (Cons p d)
  show ?case
  proof (cases "fst p = k")
    case True
    with Cons.prems(1) have "map_of d k = None"
      by (auto simp: wf_dict_def map_of_eq_None_iff)
    with True show ?thesis
      by (cases p) (simp add: length_delete_absent)
  next
    case False
    with Cons show ?thesis by (cases p) (simp add: wf_dict_def)
  qed
qed simp

section \<open>Buffers that keep the newest entries\<close>

text \<open>The last \<open>n\<close> elements of a list.\<close>

definition newest :: "nat \<Rightarrow> 'a list \<Rightarrow> 'a list" where
  "newest n xs = drop (length xs - n) xs"

lemma length_newest [simp]: "length (newest n xs) = min n (length xs)"
  by (simp add: newest_def)

lemma newest_short: "length xs \<le> n \<Longrightarrow> newest n xs = xs"
  by (simp add: newest_def)

lemma newest_absorb: "newest n (newest n xs @ ys) = newest n (xs @ ys)"
  by (simp add: newest_def) (metis (no_types, opaque_lifting) diff_add_inverse2 diff_diff_left
      drop_append drop_drop le_add_diff_inverse2 linorder_le_cases diff_is_0_eq add.commute
      add_diff_cancel_right' append_Nil drop0)

text \<open>
  The contract shared by the network thread's deque (\<open>deque(maxlen=n)\<close>) and by the message
  queue (\<open>asyncio.Queue(maxsize=n)\<close> with the oldest entry dropped when it is full).
\<close>

locale bounded_buffer =
  fixes cap :: nat
    and push :: "'a \<Rightarrow> 'b \<Rightarrow> 'b"
    and contents :: "'b \<Rightarrow> 'a list"
  assumes contents_push: "length (contents b) \<le> cap \<Longrightarrow> contents (push x b) = newest cap (contents b @ [x])"
begin

lemma push_bounded: "length (contents b) \<le> cap \<Longrightarrow> length (contents (push x b)) \<le> cap"
  by (simp add: contents_push)

lemma push_all:
  "length (contents b) \<le> cap \<Longrightarrow> contents (fold push xs b) = newest cap (contents b @ xs)"
proof (induction xs arbitrary: b)
  case Nil
  then show ?case by (simp add: newest_short)
next
  case (Cons x xs)
  then have "contents (fold push xs (push x b)) = newest cap (contents (push x b) @ xs)"
    by (simp add: push_bounded)
  with Cons.prems show ?case by (simp add: contents_push newest_absorb)
qed

lemma push_all_lossless:
  "length (contents b) + length xs \<le> cap \<Longrightarrow> contents (fold push xs b) = contents b @ xs"
  by (simp add: push_all newest_short)

end

section \<open>Transition systems\<close>

text \<open>
  A component whose steps interleave: initial states, a step relation, an invariant that the
  initial states have and every step keeps. The invariant then holds in every reachable state.
\<close>

locale transition_system =
  fixes init :: "'s \<Rightarrow> bool"
    and step :: "'s \<Rightarrow> 's \<Rightarrow> bool"
    and inv :: "'s \<Rightarrow> bool"
  assumes inv_init: "init s \<Longrightarrow> inv s"
    and inv_step: "inv s \<Longrightarrow> step s t \<Longrightarrow> inv t"
begin

lemma inv_steps: "step\<^sup>*\<^sup>* s t \<Longrightarrow> inv s \<Longrightarrow> inv t"
  by (induction rule: rtranclp_induct) (auto intro: inv_step)

lemma inv_reachable: "init s \<Longrightarrow> step\<^sup>*\<^sup>* s t \<Longrightarrow> inv t"
  by (blast intro: inv_init inv_steps)

end

end
