(* ===== verification/Utf8.thy ===== *)
theory Utf8
  imports Prelude
begin

text \<open>
  \<open>str.encode("utf-8")\<close> and \<open>bytes.decode("utf-8")\<close> of the Python runtime, in the strict mode and
  in the \<open>errors="replace"\<close> mode the gateway uses for MQTT payloads. Encoding fails on a lone
  surrogate; decoding rejects overlong forms, surrogates and values above U+10FFFF, and the
  replacing decoder emits one U+FFFD per maximal ill-formed prefix. The lemmas give the round trip
  in both modes and that a payload never decodes to more characters than it has bytes.
\<close>

definition is_surrogate :: "nat \<Rightarrow> bool" where
  "is_surrogate c \<longleftrightarrow> 55296 \<le> c \<and> c \<le> 57343"

definition utf8_cp :: "nat \<Rightarrow> bytes option" where
  "utf8_cp c =
     (if c < 128 then Some [c]
      else if c < 2048 then Some [192 + c div 64, 128 + c mod 64]
      else if is_surrogate c then None
      else if c < 65536 then Some [224 + c div 4096, 128 + c div 64 mod 64, 128 + c mod 64]
      else if c < 1114112 then
        Some [240 + c div 262144, 128 + c div 4096 mod 64, 128 + c div 64 mod 64, 128 + c mod 64]
      else None)"

fun utf8_encode :: "pystr \<Rightarrow> bytes result" where
  "utf8_encode [] = Inr []"
| "utf8_encode (c # s) =
     (case utf8_cp c of
        None \<Rightarrow> Inl UnicodeError
      | Some b \<Rightarrow> bind_r (utf8_encode s) (\<lambda>bs. Inr (b @ bs)))"

definition cont :: "nat \<Rightarrow> bool" where
  "cont b \<longleftrightarrow> 128 \<le> b \<and> b \<le> 191"

definition second3 :: "nat \<Rightarrow> nat \<Rightarrow> bool" where
  "second3 b b1 \<longleftrightarrow> (if b = 224 then 160 \<le> b1 \<and> b1 \<le> 191
                      else if b = 237 then 128 \<le> b1 \<and> b1 \<le> 159 else cont b1)"

definition second4 :: "nat \<Rightarrow> nat \<Rightarrow> bool" where
  "second4 b b1 \<longleftrightarrow> (if b = 240 then 144 \<le> b1 \<and> b1 \<le> 191
                      else if b = 244 then 128 \<le> b1 \<and> b1 \<le> 143 else cont b1)"

text \<open>
  One decoding step after the lead byte \<open>b\<close> with the bytes \<open>r\<close> behind it: the code point, or
  \<open>None\<close> for an ill-formed sequence, and the number of bytes of \<open>r\<close> that belong to it.
\<close>

definition utf8_step :: "nat \<Rightarrow> bytes \<Rightarrow> nat option \<times> nat" where
  "utf8_step b r =
     (if b < 128 then (Some b, 0)
      else if 194 \<le> b \<and> b \<le> 223 then
        (case r of b1 # _ \<Rightarrow> (if cont b1 then (Some ((b - 192) * 64 + (b1 - 128)), 1) else (None, 0))
         | [] \<Rightarrow> (None, 0))
      else if 224 \<le> b \<and> b \<le> 239 then
        (case r of
           b1 # r1 \<Rightarrow>
             (if second3 b b1 then
                (case r1 of
                   b2 # _ \<Rightarrow> (if cont b2
                     then (Some ((b - 224) * 4096 + (b1 - 128) * 64 + (b2 - 128)), 2)
                     else (None, 1))
                 | [] \<Rightarrow> (None, 1))
              else (None, 0))
         | [] \<Rightarrow> (None, 0))
      else if 240 \<le> b \<and> b \<le> 244 then
        (case r of
           b1 # r1 \<Rightarrow>
             (if second4 b b1 then
                (case r1 of
                   b2 # r2 \<Rightarrow>
                     (if cont b2 then
                        (case r2 of
                           b3 # _ \<Rightarrow> (if cont b3
                             then (Some ((b - 240) * 262144 + (b1 - 128) * 4096
                                         + (b2 - 128) * 64 + (b3 - 128)), 3)
                             else (None, 2))
                         | [] \<Rightarrow> (None, 2))
                      else (None, 1))
                 | [] \<Rightarrow> (None, 1))
              else (None, 0))
         | [] \<Rightarrow> (None, 0))
      else (None, 0))"

fun utf8_decode :: "bytes \<Rightarrow> pystr result" where
  "utf8_decode [] = Inr []"
| "utf8_decode (b # r) =
     (case fst (utf8_step b r) of
        None \<Rightarrow> Inl UnicodeError
      | Some c \<Rightarrow> bind_r (utf8_decode (drop (snd (utf8_step b r)) r)) (\<lambda>s. Inr (c # s)))"

fun utf8_decode_replace :: "bytes \<Rightarrow> pystr" where
  "utf8_decode_replace [] = []"
| "utf8_decode_replace (b # r) =
     (case fst (utf8_step b r) of None \<Rightarrow> 65533 | Some c \<Rightarrow> c)
       # utf8_decode_replace (drop (snd (utf8_step b r)) r)"

lemma digits64_3: "c div 4096 * 4096 + c div 64 mod 64 * 64 + c mod 64 = (c :: nat)"
proof -
  have "c div 4096 = c div 64 div 64"
    by (simp add: div_mult2_eq [symmetric])
  then show ?thesis
    using div_mult_mod_eq [of "c div 64" 64] div_mult_mod_eq [of c 64] by linarith
qed

lemma digits64_4:
  "c div 262144 * 262144 + c div 4096 mod 64 * 4096 + c div 64 mod 64 * 64 + c mod 64 = (c :: nat)"
proof -
  have "c div 262144 = c div 4096 div 64"
    by (simp add: div_mult2_eq [symmetric])
  then show ?thesis
    using div_mult_mod_eq [of "c div 4096" 64] digits64_3 [of c] by linarith
qed

lemma second_byte_237:
  assumes "c div 4096 = 13" and "\<not> 55296 \<le> c"
  shows "c div 64 mod 64 \<le> (31 :: nat)"
proof -
  define d where "d = c div 64"
  have "d div 64 = 13"
    using assms(1) unfolding d_def by (simp add: div_mult2_eq [symmetric])
  moreover have "d < 864"
    using assms(2) unfolding d_def by (simp add: less_mult_imp_div_less)
  moreover have "d = 64 * (d div 64) + d mod 64"
    by simp
  ultimately show ?thesis unfolding d_def by linarith
qed

lemma second_byte_244:
  assumes "c div 262144 = 4" and "c < 1114112"
  shows "c div 4096 mod 64 \<le> (15 :: nat)"
proof -
  define d where "d = c div 4096"
  have "d div 64 = 4"
    using assms(1) unfolding d_def by (simp add: div_mult2_eq [symmetric])
  moreover have "d < 272"
    using assms(2) unfolding d_def by (simp add: less_mult_imp_div_less)
  moreover have "d = 64 * (d div 64) + d mod 64"
    by simp
  ultimately show ?thesis unfolding d_def by linarith
qed

lemma cont_mod64: "cont (128 + x mod 64)"
  using mod_less_divisor [of 64 x] unfolding cont_def by linarith

lemma utf8_step_inverse:
  assumes "utf8_cp c = Some (b # r)"
  shows "utf8_step b (r @ rest) = (Some c, length r)"
proof -
  consider (one) "c < 128" | (two) "128 \<le> c" "c < 2048"
    | (three) "2048 \<le> c" "\<not> is_surrogate c" "c < 65536"
    | (four) "65536 \<le> c" "\<not> is_surrogate c" "c < 1114112"
    using assms by (fastforce simp: utf8_cp_def split: if_splits)
  then show ?thesis
  proof cases
    case one
    with assms show ?thesis by (auto simp: utf8_cp_def utf8_step_def)
  next
    case two
    with assms show ?thesis by (auto simp: utf8_cp_def utf8_step_def cont_def)
  next
    case three
    with assms have br: "b = 224 + c div 4096" "r = [128 + c div 64 mod 64, 128 + c mod 64]"
      by (auto simp: utf8_cp_def)
    have "second3 b (128 + c div 64 mod 64)"
      using three br(1) unfolding second3_def is_surrogate_def cont_def
      by (auto simp: second_byte_237)
    moreover have "c div 4096 * 4096 + c div 64 mod 64 * 64 + c mod 64 = c"
      by (rule digits64_3)
    ultimately show ?thesis using three br by (auto simp: utf8_step_def cont_mod64 less_mult_imp_div_less)
  next
    case four
    with assms have br: "b = 240 + c div 262144"
      "r = [128 + c div 4096 mod 64, 128 + c div 64 mod 64, 128 + c mod 64]"
      by (auto simp: utf8_cp_def)
    have "second4 b (128 + c div 4096 mod 64)"
      using four br(1) unfolding second4_def cont_def
      by (auto simp: second_byte_244)
    moreover have "c div 262144 * 262144 + c div 4096 mod 64 * 4096 + c div 64 mod 64 * 64 + c mod 64 = c"
      by (rule digits64_4)
    ultimately show ?thesis using four br by (auto simp: utf8_step_def cont_mod64 less_mult_imp_div_less)
  qed
qed

lemma utf8_cp_not_Nil: "utf8_cp c = Some bs \<Longrightarrow> bs \<noteq> []"
  by (auto simp: utf8_cp_def split: if_splits)

lemma utf8_encode_Cons:
  "utf8_encode (c # s) = Inr bs \<Longrightarrow>
     \<exists>b r t. utf8_cp c = Some (b # r) \<and> utf8_encode s = Inr t \<and> bs = b # r @ t"
  by (auto simp: bind_r_Inr_iff split: option.splits dest: utf8_cp_not_Nil)
    (metis append_Cons neq_Nil_conv utf8_cp_not_Nil)

lemma utf8_decode_encode: "utf8_encode s = Inr bs \<Longrightarrow> utf8_decode bs = Inr s"
proof (induction s arbitrary: bs)
  case (Cons c s)
  then obtain b r t where "utf8_cp c = Some (b # r)" "utf8_encode s = Inr t" "bs = b # r @ t"
    using utf8_encode_Cons by blast
  with Cons.IH show ?case by (simp add: utf8_step_inverse)
qed simp

lemma utf8_replace_encode: "utf8_encode s = Inr bs \<Longrightarrow> utf8_decode_replace bs = s"
proof (induction s arbitrary: bs)
  case (Cons c s)
  then obtain b r t where "utf8_cp c = Some (b # r)" "utf8_encode s = Inr t" "bs = b # r @ t"
    using utf8_encode_Cons by blast
  with Cons.IH show ?case by (simp add: utf8_step_inverse)
qed simp

lemma utf8_replace_agrees: "utf8_decode bs = Inr s \<Longrightarrow> utf8_decode_replace bs = s"
  by (induction bs arbitrary: s rule: utf8_decode.induct)
    (auto simp: bind_r_Inr_iff split: option.splits)

lemma utf8_replace_length: "length (utf8_decode_replace bs) \<le> length bs"
  by (induction bs rule: utf8_decode_replace.induct) (auto intro: order_trans)

lemma utf8_encode_length: "utf8_encode s = Inr bs \<Longrightarrow> length s \<le> length bs"
  using utf8_replace_encode utf8_replace_length by metis

lemma utf8_encode_ascii: "\<forall>c\<in>set s. c < 128 \<Longrightarrow> utf8_encode s = Inr s"
  by (induction s) (auto simp: utf8_cp_def)

lemma utf8_encode_surrogate: "c \<in> set s \<Longrightarrow> is_surrogate c \<Longrightarrow> utf8_encode s = Inl UnicodeError"
proof (induction s)
  case (Cons x s)
  have "is_surrogate x \<Longrightarrow> utf8_cp x = None"
    by (auto simp: utf8_cp_def is_surrogate_def)
  with Cons show ?case by (auto split: option.splits)
qed simp

end
