(* ===== verification/Config.thy ===== *)
theory Config
  imports Passwords
begin

text \<open>
  \<open>core/config.py\<close>: the settings of the gateway, the constraints of their fields and the
  validators. \<open>Settings_init\<close> is the construction of a \<open>Settings\<close> object from the values its
  sources supply: a violated constraint or a raising validator prevents the object (and so the
  start of the application). The lemmas show what every constructed object satisfies
  (\<open>settings_wf\<close>), which the other components rely on.
\<close>

record settings =
  app_name :: pystr
  app_version :: pystr
  debug :: bool
  host :: pystr
  port :: int
  mqtt_broker_host :: pystr
  mqtt_broker_port :: int
  mqtt_username :: pystr
  mqtt_password :: pystr
  mqtt_client_id :: pystr
  mqtt_keepalive :: int
  mqtt_clean_session :: bool
  mqtt_use_tls :: bool
  mqtt_ca_certs :: pystr
  mqtt_certfile :: pystr
  mqtt_keyfile :: pystr
  api_username :: pystr
  api_password_hash :: pystr
  jwt_secret_key :: pystr
  jwt_algorithm :: pystr
  jwt_access_token_expire_minutes :: int
  jwt_refresh_token_expire_days :: int
  cors_allowed_origins :: "pystr list"
  rate_limit_enabled :: bool
  rate_limit_requests :: int
  rate_limit_window_seconds :: int
  default_topic_prefix :: pystr
  allowed_topic_patterns :: "pystr list"
  blocked_topic_patterns :: "pystr list"
  retained_query_timeout :: real
  mqtt_queue_size :: int
  websocket_queue_size :: int
  websocket_max_topics :: int
  websocket_auth_timeout :: real
  websocket_send_timeout :: real
  max_message_bytes :: int
  log_level :: pystr
  log_format :: pystr

text \<open>The defaults of the fields that have one; the three credentials have none.\<close>

definition default_settings :: "pystr \<Rightarrow> pystr \<Rightarrow> pystr \<Rightarrow> pystr \<Rightarrow> settings" where
  "default_settings version username password_hash secret = \<lparr>
     app_name = lit ''FastAPI MQTT Gateway'', app_version = version, debug = False,
     host = lit ''0.0.0.0'', port = 8000,
     mqtt_broker_host = lit ''mqtt-broker'', mqtt_broker_port = 1883,
     mqtt_username = [], mqtt_password = [], mqtt_client_id = lit ''fastapi-mqtt-gateway'',
     mqtt_keepalive = 60, mqtt_clean_session = True, mqtt_use_tls = False,
     mqtt_ca_certs = [], mqtt_certfile = [], mqtt_keyfile = [],
     api_username = username, api_password_hash = password_hash,
     jwt_secret_key = secret, jwt_algorithm = lit ''HS256'',
     jwt_access_token_expire_minutes = 30, jwt_refresh_token_expire_days = 7,
     cors_allowed_origins = [],
     rate_limit_enabled = True, rate_limit_requests = 100, rate_limit_window_seconds = 60,
     default_topic_prefix = lit ''gateway'',
     allowed_topic_patterns = [lit ''#''],
     blocked_topic_patterns = [lit ''$SYS/#'', lit ''$share/#''],
     retained_query_timeout = 5,
     mqtt_queue_size = 256, websocket_queue_size = 64, websocket_max_topics = 32,
     websocket_auth_timeout = 5, websocket_send_timeout = 10, max_message_bytes = 1048576,
     log_level = lit ''INFO'', log_format = lit ''json'' \<rparr>"

section \<open>Validators\<close>

definition reject_placeholder_credentials :: "(nat \<Rightarrow> pystr) \<Rightarrow> pystr \<Rightarrow> pystr result" where
  "reject_placeholder_credentials uni value =
     (let normalized = py_lower uni (strip value)
      in if normalized = [] \<or> startswith normalized (lit ''change-me'')
            \<or> startswith normalized (lit ''replace-me'') \<or> startswith normalized (lit ''your-'')
         then Inl (ValueError ''Configure a non-placeholder API credential or JWT signing secret'')
         else Inr value)"

definition check_password_hash :: "pystr \<Rightarrow> pystr result" where
  "check_password_hash value = validate_password_hash value"

definition log_levels :: "pystr list" where
  "log_levels = [lit ''DEBUG'', lit ''INFO'', lit ''WARNING'', lit ''ERROR'', lit ''CRITICAL'']"

definition validate_log_level :: "(nat \<Rightarrow> pystr) \<Rightarrow> pystr \<Rightarrow> pystr result" where
  "validate_log_level uni v =
     (if py_upper uni v \<notin> set log_levels then Inl (ValueError ''log_level must be one of'')
      else Inr (py_upper uni v))"

text \<open>A pattern setting as its source supplies it: a comma-separated string, or a list.\<close>

datatype patterns_input = PatternStr pystr | PatternList "pystr list"

fun parse_patterns :: "patterns_input \<Rightarrow> pystr list" where
  "parse_patterns (PatternStr v) = map strip (filter (\<lambda>p. strip p \<noteq> []) (split_on 44 v))"
| "parse_patterns (PatternList v) = v"

definition acl_level_bad :: "nat \<Rightarrow> nat \<Rightarrow> pystr \<Rightarrow> bool" where
  "acl_level_bad n index level \<longleftrightarrow>
     (43 \<in> set level \<and> level \<noteq> lit ''+'')
     \<or> (35 \<in> set level \<and> (level \<noteq> lit ''#'' \<or> index \<noteq> n - 1))"

definition validate_acl_pattern :: "pystr \<Rightarrow> unit result" where
  "validate_acl_pattern pattern =
     (let levels = split_on 47 pattern;
          bad_filter = Inl (ValueError ''Invalid MQTT ACL filter'')
      in if pattern = [] \<or> 0 \<in> set pattern then bad_filter
         else bind_r (utf8_encode pattern) (\<lambda>raw.
           if length raw > 65535 then bad_filter
           else each_r (\<lambda>(index, level).
                  if acl_level_bad (length levels) index level
                  then Inl (ValueError ''Invalid MQTT ACL wildcard'') else Inr ())
                (List.enumerate 0 levels)))"

definition validate_acl_patterns :: "pystr list \<Rightarrow> pystr list result" where
  "validate_acl_patterns patterns =
     bind_r (each_r validate_acl_pattern patterns) (\<lambda>_. Inr patterns)"

text \<open>The \<open>Field\<close> constraints, in the order of the class body.\<close>

definition field_constraints :: "settings \<Rightarrow> bool" where
  "field_constraints s \<longleftrightarrow>
     1 \<le> length (api_username s) \<and> length (api_username s) \<le> 256
     \<and> 32 \<le> length (jwt_secret_key s)
     \<and> jwt_algorithm s = lit ''HS256''
     \<and> 1 \<le> jwt_access_token_expire_minutes s \<and> jwt_access_token_expire_minutes s \<le> 1440
     \<and> 1 \<le> mqtt_queue_size s \<and> mqtt_queue_size s \<le> 4096
     \<and> 1 \<le> websocket_queue_size s \<and> websocket_queue_size s \<le> 1024
     \<and> 1 \<le> websocket_max_topics s \<and> websocket_max_topics s \<le> 256
     \<and> 0 < websocket_auth_timeout s \<and> websocket_auth_timeout s \<le> 30
     \<and> 0 < websocket_send_timeout s \<and> websocket_send_timeout s \<le> 60
     \<and> 1 \<le> max_message_bytes s \<and> max_message_bytes s \<le> 1048576"

text \<open>
  Building a \<open>Settings\<close> object: \<open>s\<close> holds the supplied values, the three list settings come in the
  form their source has (the "before" validator \<open>parse_patterns\<close> reads it); \<open>lo\<close> and \<open>up\<close> are the
  Unicode case tables.
\<close>

definition Settings_init ::
  "(nat \<Rightarrow> pystr) \<Rightarrow> (nat \<Rightarrow> pystr) \<Rightarrow> settings \<Rightarrow> patterns_input \<Rightarrow> patterns_input \<Rightarrow> patterns_input
   \<Rightarrow> settings result" where
  "Settings_init lo up s allowed blocked origins =
     guard_r (field_constraints s) (ValueError ''field constraint'')
     (bind_r (reject_placeholder_credentials lo (api_username s)) (\<lambda>user.
      bind_r (reject_placeholder_credentials lo (jwt_secret_key s)) (\<lambda>secret.
      bind_r (check_password_hash (api_password_hash s)) (\<lambda>hash.
      bind_r (validate_log_level up (log_level s)) (\<lambda>level.
      bind_r (validate_acl_patterns (parse_patterns allowed)) (\<lambda>al.
      bind_r (validate_acl_patterns (parse_patterns blocked)) (\<lambda>bl.
      Inr (s\<lparr>api_username := user, jwt_secret_key := secret, api_password_hash := hash,
             log_level := level, allowed_topic_patterns := al, blocked_topic_patterns := bl,
             cors_allowed_origins := parse_patterns origins\<rparr>))))))))"

definition mqtt_broker_url :: "settings \<Rightarrow> pystr" where
  "mqtt_broker_url s =
     (let scheme = (if mqtt_use_tls s then lit ''mqtts'' else lit ''mqtt'');
          auth = (if mqtt_username s \<noteq> []
                  then mqtt_username s @ lit '':'' @ mqtt_password s @ lit ''@'' else [])
      in scheme @ lit ''://'' @ auth @ mqtt_broker_host s @ lit '':'' @ int_str (mqtt_broker_port s))"

section \<open>What a constructed object satisfies\<close>

text \<open>A well-formed MQTT filter, read off the levels: wildcards stand alone, \<open>#\<close> only at the end.\<close>

fun filter_levels :: "pystr list \<Rightarrow> bool" where
  "filter_levels [] = True"
| "filter_levels [l] = ((43 \<in> set l \<longrightarrow> l = [43]) \<and> (35 \<in> set l \<longrightarrow> l = [35]))"
| "filter_levels (l # ls) = ((43 \<in> set l \<longrightarrow> l = [43]) \<and> 35 \<notin> set l \<and> filter_levels ls)"

definition wf_filter :: "pystr \<Rightarrow> bool" where
  "wf_filter f \<longleftrightarrow> f \<noteq> [] \<and> 0 \<notin> set f \<and> filter_levels (split_on 47 f)"

definition settings_wf :: "settings \<Rightarrow> bool" where
  "settings_wf s \<longleftrightarrow> field_constraints s \<and> pattern_fullmatch (api_password_hash s) \<noteq> None
     \<and> log_level s \<in> set log_levels
     \<and> (\<forall>p\<in>set (allowed_topic_patterns s). wf_filter p)
     \<and> (\<forall>p\<in>set (blocked_topic_patterns s). wf_filter p)"

lemma lit_plus: "lit ''+'' = [43]" and lit_hash: "lit ''#'' = [35]" and lit_slash: "lit ''/'' = [47]"
  and lit_dollar: "lit ''$'' = [36]"
  by (simp_all add: lit_def)

lemma filter_levels_Cons:
  "ls \<noteq> [] \<Longrightarrow> filter_levels (l # ls) \<longleftrightarrow> (43 \<in> set l \<longrightarrow> l = [43]) \<and> 35 \<notin> set l \<and> filter_levels ls"
  by (cases ls) simp_all

lemma enumerate_levels:
  "ls \<noteq> [] \<Longrightarrow> i + length ls = n \<Longrightarrow>
     (\<forall>(k, l)\<in>set (List.enumerate i ls). \<not> acl_level_bad n k l) \<longleftrightarrow> filter_levels ls"
proof (induction ls arbitrary: i)
  case (Cons l ls)
  show ?case
  proof (cases ls)
    case Nil
    with Cons.prems show ?thesis by (auto simp: acl_level_bad_def lit_plus lit_hash)
  next
    case (Cons l' ls')
    with Cons.IH [of "Suc i"] Cons.prems show ?thesis
      by (simp add: filter_levels_Cons) (auto simp: acl_level_bad_def lit_plus lit_hash)
  qed
qed simp

lemma validate_acl_pattern_iff:
  "validate_acl_pattern p = Inr () \<longleftrightarrow>
     wf_filter p \<and> (\<exists>raw. utf8_encode p = Inr raw \<and> length raw \<le> 65535)"
proof -
  have "each_r (\<lambda>(k, l). if acl_level_bad (length (split_on 47 p)) k l
          then Inl (ValueError ''Invalid MQTT ACL wildcard'') else Inr ())
        (List.enumerate 0 (split_on 47 p)) = Inr () \<longleftrightarrow> filter_levels (split_on 47 p)"
    using enumerate_levels [of "split_on 47 p" 0 "length (split_on 47 p)"]
    by (auto simp: each_r_Inr_iff split: if_splits prod.splits)
  then show ?thesis
    by (cases "utf8_encode p") (auto simp: validate_acl_pattern_def wf_filter_def Let_def)
qed

lemma validate_acl_patterns_iff:
  "validate_acl_patterns ps = Inr qs \<longleftrightarrow> qs = ps \<and> (\<forall>p\<in>set ps. validate_acl_pattern p = Inr ())"
  by (auto simp: validate_acl_patterns_def bind_r_Inr_iff each_r_Inr_iff)

lemma settings_wf_bounds:
  assumes "settings_wf s"
  shows "1 \<le> mqtt_queue_size s" and "1 \<le> websocket_queue_size s" and "1 \<le> max_message_bytes s"
    and "1 \<le> websocket_max_topics s"
  using assms by (auto simp: settings_wf_def field_constraints_def)

text \<open>A concrete configuration, used to show that hypotheses about settings can hold.\<close>

definition example_settings :: settings where
  "example_settings =
     default_settings (lit ''1.0.0'') (lit ''operator'')
       (pattern_prefix @ replicate 32 48 @ lit ''$'' @ replicate 64 48) (replicate 32 120)"

lemma example_patterns:
  "allowed_topic_patterns example_settings = [lit ''#'']"
  "blocked_topic_patterns example_settings = [lit ''$SYS/#'', lit ''$share/#'']"
  by (simp_all add: example_settings_def default_settings_def)

lemma example_settings_wf: "settings_wf example_settings"
proof -
  have "pattern_fullmatch (pattern_prefix @ replicate 32 48 @ lit ''$'' @ replicate 64 48) \<noteq> None"
    by (subst pattern_fullmatch_built) (simp_all add: list_all_iff is_hex_lower_def is_digit_def)
  then show ?thesis
    by (simp add: settings_wf_def example_settings_def default_settings_def field_constraints_def
        wf_filter_def log_levels_def) (simp add: lit_def)
qed

text \<open>What the constructor asks for, stated on the values.\<close>

definition credential_ok :: "(nat \<Rightarrow> pystr) \<Rightarrow> pystr \<Rightarrow> bool" where
  "credential_ok lo v \<longleftrightarrow>
     py_lower lo (strip v) \<noteq> []
     \<and> list_all (\<lambda>p. \<not> startswith (py_lower lo (strip v)) (lit p)) [''change-me'', ''replace-me'', ''your-'']"

definition acl_filter_ok :: "pystr \<Rightarrow> bool" where
  "acl_filter_ok p \<longleftrightarrow> wf_filter p \<and> (case utf8_encode p of Inr raw \<Rightarrow> length raw \<le> 65535 | Inl _ \<Rightarrow> False)"

definition settings_accepted ::
  "(nat \<Rightarrow> pystr) \<Rightarrow> (nat \<Rightarrow> pystr) \<Rightarrow> settings \<Rightarrow> patterns_input \<Rightarrow> patterns_input \<Rightarrow> bool" where
  "settings_accepted lo up s al bl \<longleftrightarrow>
     field_constraints s \<and> credential_ok lo (api_username s) \<and> credential_ok lo (jwt_secret_key s)
     \<and> pattern_fullmatch (api_password_hash s) \<noteq> None \<and> py_upper up (log_level s) \<in> set log_levels
     \<and> list_all acl_filter_ok (parse_patterns al) \<and> list_all acl_filter_ok (parse_patterns bl)"

lemma acl_filter_ok_iff: "acl_filter_ok p \<longleftrightarrow> wf_filter p \<and> (\<exists>raw. utf8_encode p = Inr raw \<and> length raw \<le> 65535)"
  by (auto simp: acl_filter_ok_def split: sum.splits)

lemma reject_placeholder_Inr: "reject_placeholder_credentials lo v = Inr w \<longleftrightarrow> w = v \<and> credential_ok lo v"
  by (auto simp: reject_placeholder_credentials_def credential_ok_def Let_def)

lemma check_password_hash_Inr: "check_password_hash v = Inr w \<longleftrightarrow> w = v \<and> pattern_fullmatch v \<noteq> None"
  by (auto simp: check_password_hash_def validate_password_hash_def)

lemma validate_log_level_Inr: "validate_log_level up v = Inr w \<longleftrightarrow> w = py_upper up v \<and> py_upper up v \<in> set log_levels"
  by (auto simp: validate_log_level_def)

lemma Settings_init_Inr:
  "Settings_init lo up s al bl co = Inr s' \<longleftrightarrow>
     settings_accepted lo up s al bl
     \<and> s' = s\<lparr>log_level := py_upper up (log_level s), allowed_topic_patterns := parse_patterns al,
           blocked_topic_patterns := parse_patterns bl, cors_allowed_origins := parse_patterns co\<rparr>"
  by (auto simp: Settings_init_def bind_r_Inr_iff guard_r_Inr_iff settings_accepted_def reject_placeholder_Inr
      check_password_hash_Inr validate_log_level_Inr validate_acl_patterns_iff validate_acl_pattern_iff list_all_iff acl_filter_ok_iff)

text \<open>
  C15: Settings that were built are well formed, and are built whenever they can be: the constructor returns
  exactly for values within every field constraint, credentials that are no placeholder, a password verifier
  of the right format, a known log level and access lists of valid MQTT filters of at most 65535 bytes; and the object it returns
  has well-formed fields, the given access lists and the given queue sizes.
\<close>

theorem settings_are_well_formed:
  "(case Settings_init lo up s al bl co of
      Inl _ \<Rightarrow> \<not> settings_accepted lo up s al bl
    | Inr s' \<Rightarrow> settings_accepted lo up s al bl \<and> settings_wf s' \<and> allowed_topic_patterns s' = parse_patterns al
        \<and> blocked_topic_patterns s' = parse_patterns bl \<and> mqtt_queue_size s' = mqtt_queue_size s
        \<and> websocket_queue_size s' = websocket_queue_size s)"
proof (cases "Settings_init lo up s al bl co")
  case (Inl e)
  then show ?thesis using Settings_init_Inr [of lo up s al bl co] by auto
next
  case (Inr s')
  then have s: "settings_accepted lo up s al bl" "s' = s\<lparr>log_level := py_upper up (log_level s),
      allowed_topic_patterns := parse_patterns al, blocked_topic_patterns := parse_patterns bl,
      cors_allowed_origins := parse_patterns co\<rparr>"
    using Settings_init_Inr [of lo up s al bl co s'] by blast+
  then have "settings_wf s'"
    by (auto simp: settings_accepted_def settings_wf_def field_constraints_def list_all_iff acl_filter_ok_iff)
  with Inr s show ?thesis by simp
qed

end
