(* ===== verification/Models.thy ===== *)
theory Models
  imports Config
begin

text \<open>
  \<open>models/__init__.py\<close>: the request and response bodies, with the field constraints the framework
  checks before a handler runs, and the JSON values that tokens and frames carry.
\<close>

datatype json =
    JNull
  | JBool bool
  | JInt int
  | JFloat real
  | JStr pystr
  | JList "json list"
  | JObj "(pystr \<times> json) list"

type_synonym json_dict = "(pystr, json) dict"

text \<open>\<open>isinstance(v, str)\<close>, the string itself, and \<open>d.get(k, v)\<close>.\<close>

fun is_jstr :: "json \<Rightarrow> bool" where
  "is_jstr (JStr _) = True"
| "is_jstr _ = False"

fun jstr_val :: "json \<Rightarrow> pystr" where
  "jstr_val (JStr s) = s"
| "jstr_val _ = []"

definition dict_get :: "json_dict \<Rightarrow> pystr \<Rightarrow> json \<Rightarrow> json" where
  "dict_get d k v = (case map_of d k of Some x \<Rightarrow> x | None \<Rightarrow> v)"


record token_response =
  access_token :: pystr
  token_type :: pystr
  expires_in :: int

record publish_request =
  pub_topic :: pystr
  pub_payload :: pystr
  pub_qos :: int
  pub_retain :: bool

record publish_response =
  presp_success :: bool
  presp_message_id :: "int option"
  presp_topic :: pystr

record subscribe_request =
  sub_topic :: pystr
  sub_qos :: int

record subscribe_response =
  sresp_success :: bool
  sresp_topic :: pystr
  sresp_qos :: int

record unsubscribe_request =
  unsub_topic :: pystr

record unsubscribe_response =
  uresp_success :: bool
  uresp_topic :: pystr

record retained_request =
  ret_topic :: pystr

record retained_message =
  rmsg_topic :: pystr
  rmsg_payload :: pystr
  rmsg_qos :: int
  rmsg_retain :: bool

record retained_response =
  rresp_success :: bool
  rresp_message :: "retained_message option"
  rresp_error :: "pystr option"

record mqtt_message =
  mm_topic :: pystr
  mm_payload :: pystr
  mm_qos :: int
  mm_retain :: bool
  mm_timestamp :: real

record topic_info =
  ti_topic :: pystr
  ti_message_count :: int
  ti_last_message :: "mqtt_message option"

record health_response =
  h_status :: pystr
  h_version :: pystr
  h_mqtt_connected :: bool

definition topic_field :: "pystr \<Rightarrow> bool" where
  "topic_field t \<longleftrightarrow> 1 \<le> length t \<and> length t \<le> 65535"

definition qos_field :: "int \<Rightarrow> bool" where
  "qos_field q \<longleftrightarrow> 0 \<le> q \<and> q \<le> 2"

definition publish_request_ok :: "publish_request \<Rightarrow> bool" where
  "publish_request_ok r \<longleftrightarrow>
     topic_field (pub_topic r) \<and> length (pub_payload r) \<le> 1048576 \<and> qos_field (pub_qos r)"

definition subscribe_request_ok :: "subscribe_request \<Rightarrow> bool" where
  "subscribe_request_ok r \<longleftrightarrow> topic_field (sub_topic r) \<and> qos_field (sub_qos r)"

definition unsubscribe_request_ok :: "unsubscribe_request \<Rightarrow> bool" where
  "unsubscribe_request_ok r \<longleftrightarrow> topic_field (unsub_topic r)"

definition retained_request_ok :: "retained_request \<Rightarrow> bool" where
  "retained_request_ok r \<longleftrightarrow> topic_field (ret_topic r)"

end
