(* ===== verification/Auth.thy ===== *)
theory Auth
  imports Models
begin

text \<open>
  \<open>core/auth.py\<close>: bearer tokens. The functions \<open>jwt.encode\<close> and \<open>jwt.decode\<close> of the token library
  are arguments; \<open>jwt_conforms\<close> states what the gateway relies on: decoding with the signing key
  gives the claims back while the expiry, rounded down to a second, lies in the future. The clock is
  an argument. The lemmas characterise the accepted tokens and give the round trip from
  \<open>create_access_token\<close> to \<open>get_current_user\<close>.
\<close>

record user =
  user_name :: pystr
  user_scopes :: "pystr list"

text \<open>A claim handed to \<open>jwt.encode\<close>: a JSON value, or a \<open>datetime\<close> (seconds since the epoch).\<close>

datatype claim = Claim json | ClaimTime real

type_synonym jwt_encoder = "(pystr, claim) dict \<Rightarrow> pystr \<Rightarrow> pystr \<Rightarrow> pystr"
type_synonym jwt_decoder = "real \<Rightarrow> pystr \<Rightarrow> pystr \<Rightarrow> pystr list \<Rightarrow> pystr list \<Rightarrow> json_dict result"

definition create_access_token ::
  "jwt_encoder \<Rightarrow> settings \<Rightarrow> real \<Rightarrow> (pystr, claim) dict \<Rightarrow> real option \<Rightarrow> pystr" where
  "create_access_token jwt_encode s now data expires_delta =
     (let expire = (case expires_delta of
            Some d \<Rightarrow> now + d
          | None \<Rightarrow> now + 60 * of_int (jwt_access_token_expire_minutes s));
          to_encode = AList.update (lit ''exp'') (ClaimTime expire) data
      in jwt_encode to_encode (jwt_secret_key s) (jwt_algorithm s))"

text \<open>The exceptions \<open>verify_token\<close> turns into a rejected token.\<close>

fun token_rejection :: "exn \<Rightarrow> bool" where
  "token_rejection InvalidTokenError = True"
| "token_rejection (ValueError _) = True"
| "token_rejection UnicodeError = True"
| "token_rejection TypeError = True"
| "token_rejection OverflowError = True"
| "token_rejection _ = False"

fun string_list :: "json \<Rightarrow> bool" where
  "string_list (JList xs) = list_all is_jstr xs"
| "string_list _ = False"

definition verify_token ::
  "jwt_decoder \<Rightarrow> settings \<Rightarrow> real \<Rightarrow> pystr \<Rightarrow> json_dict option result" where
  "verify_token jwt_decode s now token =
     (case jwt_decode now token (jwt_secret_key s) [jwt_algorithm s] [lit ''exp'', lit ''sub''] of
        Inl e \<Rightarrow> if token_rejection e then Inr None else Inl e
      | Inr payload \<Rightarrow>
          (case map_of payload (lit ''sub'') of
             None \<Rightarrow> Inl KeyError
           | Some sub \<Rightarrow>
               if sub \<noteq> JStr (api_username s) then Inr None
               else if \<not> string_list (dict_get payload (lit ''scopes'') (JList [])) then Inr None
               else Inr (Some payload)))"

text \<open>\<open>User(username=payload.get("sub", ""), scopes=payload.get("scopes", []))\<close>.\<close>

definition user_of_payload :: "json_dict \<Rightarrow> user result" where
  "user_of_payload payload =
     (case (dict_get payload (lit ''sub'') (JStr []), dict_get payload (lit ''scopes'') (JList [])) of
        (JStr u, JList xs) \<Rightarrow>
          if list_all is_jstr xs then Inr \<lparr>user_name = u, user_scopes = map jstr_val xs\<rparr>
          else Inl (ValueError ''User'')
      | _ \<Rightarrow> Inl (ValueError ''User''))"

definition get_current_user ::
  "jwt_decoder \<Rightarrow> settings \<Rightarrow> real \<Rightarrow> pystr option \<Rightarrow> user result" where
  "get_current_user jwt_decode s now credentials =
     (case credentials of
        None \<Rightarrow> Inl (HTTPException 401 ''Not authenticated'')
      | Some token \<Rightarrow>
          bind_r (verify_token jwt_decode s now token) (\<lambda>payload.
            case payload of
              None \<Rightarrow> Inl (HTTPException 401 ''Invalid token'')
            | Some p \<Rightarrow> if p = [] then Inl (HTTPException 401 ''Invalid token'') else user_of_payload p))"

definition get_current_user_optional ::
  "jwt_decoder \<Rightarrow> settings \<Rightarrow> real \<Rightarrow> pystr option \<Rightarrow> user option result" where
  "get_current_user_optional jwt_decode s now credentials =
     (case credentials of
        None \<Rightarrow> Inr None
      | Some token \<Rightarrow>
          bind_r (verify_token jwt_decode s now token) (\<lambda>payload.
            case payload of
              None \<Rightarrow> Inr None
            | Some p \<Rightarrow> if p = [] then Inr None
                        else bind_r (user_of_payload p) (\<lambda>u. Inr (Some u))))"

section \<open>What the gateway relies on from the token library\<close>

definition login_claims :: "pystr \<Rightarrow> real \<Rightarrow> (pystr, claim) dict" where
  "login_claims u e = [(lit ''sub'', Claim (JStr u)), (lit ''exp'', ClaimTime e)]"

definition jwt_conforms :: "jwt_encoder \<Rightarrow> jwt_decoder \<Rightarrow> bool" where
  "jwt_conforms enc dec \<longleftrightarrow>
     (\<forall>u e k a now. dec now (enc (login_claims u e) k a) k [a] [lit ''exp'', lit ''sub''] =
        (if now < of_int \<lfloor>e\<rfloor> then Inr [(lit ''sub'', JStr u), (lit ''exp'', JInt \<lfloor>e\<rfloor>)]
         else Inl InvalidTokenError))"

text \<open>A decoder that enforces the \<open>require\<close> option and raises only its documented exceptions.\<close>

definition decoder_requires :: "jwt_decoder \<Rightarrow> bool" where
  "decoder_requires dec \<longleftrightarrow>
     (\<forall>now t k a req r. dec now t k a req = r \<longrightarrow>
        (case r of Inl e \<Rightarrow> token_rejection e
         | Inr p \<Rightarrow> \<forall>c\<in>set req. map_of p c \<noteq> None))"

section \<open>Lemmas\<close>

lemma verify_token_SomeD:
  assumes "verify_token dec s now token = Inr (Some p)"
  shows "dec now token (jwt_secret_key s) [jwt_algorithm s] [lit ''exp'', lit ''sub''] = Inr p"
    and "map_of p (lit ''sub'') = Some (JStr (api_username s))"
    and "string_list (dict_get p (lit ''scopes'') (JList []))"
  using assms by (auto simp: verify_token_def split: sum.splits option.splits if_splits)

lemma verify_token_total:
  assumes "decoder_requires dec"
  shows "\<exists>r. verify_token dec s now token = Inr r"
proof -
  let ?r = "dec now token (jwt_secret_key s) [jwt_algorithm s] [lit ''exp'', lit ''sub'']"
  have "case ?r of Inl e \<Rightarrow> token_rejection e
      | Inr p \<Rightarrow> \<forall>c\<in>set [lit ''exp'', lit ''sub'']. map_of p c \<noteq> None"
    using assms by (auto simp: decoder_requires_def)
  then show ?thesis
    by (auto simp: verify_token_def split: sum.splits)
qed

lemma string_list_JList: "string_list j \<Longrightarrow> \<exists>xs. j = JList xs \<and> list_all is_jstr xs"
  by (cases j) auto

lemma user_of_verified_payload:
  assumes "verify_token dec s now token = Inr (Some p)"
  shows "\<exists>xs. user_of_payload p = Inr \<lparr>user_name = api_username s, user_scopes = xs\<rparr>"
proof -
  from string_list_JList [OF verify_token_SomeD(3) [OF assms]] obtain xs where
    "dict_get p (lit ''scopes'') (JList []) = JList xs" "list_all is_jstr xs" by blast
  with verify_token_SomeD(2) [OF assms] show ?thesis
    by (simp add: user_of_payload_def) (simp add: dict_get_def)
qed

lemma create_login_token:
  "create_access_token enc s now [(lit ''sub'', Claim (JStr u))] None =
     enc (login_claims u (now + 60 * of_int (jwt_access_token_expire_minutes s)))
       (jwt_secret_key s) (jwt_algorithm s)"
  by (simp add: create_access_token_def login_claims_def)

lemma verify_login_token:
  assumes "jwt_conforms enc dec"
  shows "verify_token dec s t (create_access_token enc s now [(lit ''sub'', Claim (JStr (api_username s)))] None)
    = (let e = \<lfloor>now + 60 * of_int (jwt_access_token_expire_minutes s)\<rfloor>
       in Inr (if t < of_int e
               then Some [(lit ''sub'', JStr (api_username s)), (lit ''exp'', JInt e)] else None))"
  using assms
  by (simp add: create_login_token jwt_conforms_def verify_token_def Let_def dict_get_def)

text \<open>A concrete pair of functions with the documented behaviour.\<close>

definition sample_encode :: jwt_encoder where
  "sample_encode claims k a =
     (case claims of
        [(_, Claim (JStr u)), (_, ClaimTime e)] \<Rightarrow>
          (if \<lfloor>e\<rfloor> < 0 then [0, nat (- \<lfloor>e\<rfloor>)] else [1, nat \<lfloor>e\<rfloor>]) @ u
      | _ \<Rightarrow> [])"

definition sample_decode :: jwt_decoder where
  "sample_decode now token k algs req =
     (case token of
        sg # n # u \<Rightarrow>
          (let e = (if sg = 0 then - int n else int n)
           in if now < of_int e then Inr [(lit ''sub'', JStr u), (lit ''exp'', JInt e)]
              else Inl InvalidTokenError)
      | _ \<Rightarrow> Inl InvalidTokenError)"

lemma sample_jwt_conforms: "jwt_conforms sample_encode sample_decode"
  by (simp add: jwt_conforms_def sample_encode_def sample_decode_def login_claims_def)

end
