(* ===== verification/Topics.thy ===== *)
theory Topics
  imports Config
begin

text \<open>
  \<open>core/topics.py\<close>: validation of topic names and filters and the access control list shared by
  the REST and WebSocket consumers. \<open>topic_matches_sub\<close> of the MQTT client library is an argument.

  The reference for the algorithms is the matching rule of the MQTT standard (\<open>mqtt_matches\<close>,
  section 4.7): \<open>filter_contains\<close> is shown sound for containment and exact but for one pair of
  filters, \<open>filters_overlap\<close> exact for the existence of a common topic; the interface
  \<open>acl_algebra\<close> turns these two facts into the security statement of \<open>authorize_topic\<close>.
\<close>

section \<open>The functions of the module\<close>

definition topic_level_ok :: "nat \<Rightarrow> nat \<Rightarrow> pystr \<Rightarrow> bool" where
  "topic_level_ok n index level \<longleftrightarrow>
     (43 \<notin> set level \<or> level = lit ''+'')
     \<and> (35 \<notin> set level \<or> (level = lit ''#'' \<and> index = n - 1))"

definition validate_topic :: "pystr \<Rightarrow> bool \<Rightarrow> unit result" where
  "validate_topic topic subscription =
     (let valid = topic \<noteq> []
            \<and> (case utf8_encode topic of Inl _ \<Rightarrow> False | Inr raw \<Rightarrow> length raw \<le> 65535)
            \<and> 0 \<notin> set topic;
          levels = split_on 47 topic;
          valid' = (if subscription
            then valid
              \<and> list_all (\<lambda>(index, level). topic_level_ok (length levels) index level)
                  (List.enumerate 0 levels)
              \<and> \<not> startswith topic (lit ''$share/'')
            else valid \<and> 43 \<notin> set topic \<and> 35 \<notin> set topic)
      in if \<not> valid' then Inl (HTTPException 400 ''Invalid MQTT topic or filter'') else Inr ())"

definition first_in_wildcards :: "pystr \<Rightarrow> bool result" where
  "first_in_wildcards s = (case s of [] \<Rightarrow> Inl IndexError | c # _ \<Rightarrow> Inr (c = 43 \<or> c = 35))"

definition system_mismatch :: "pystr \<Rightarrow> pystr \<Rightarrow> bool result" where
  "system_mismatch left right =
     bind_r (if startswith left (lit ''$'') then first_in_wildcards right else Inr False) (\<lambda>b.
       if b then Inr True
       else if startswith right (lit ''$'') then first_in_wildcards left else Inr False)"

fun contains_loop :: "nat \<Rightarrow> pystr list \<Rightarrow> nat \<Rightarrow> pystr list \<Rightarrow> bool" where
  "contains_loop n r index [] = (n = length r)"
| "contains_loop n r index (level # rest) =
     (if level = lit ''#'' then True
      else if index \<ge> length r \<or> r ! index = lit ''#'' then False
      else if level \<noteq> lit ''+'' \<and> level \<noteq> r ! index then False
      else contains_loop n r (Suc index) rest)"

definition filter_contains :: "pystr \<Rightarrow> pystr \<Rightarrow> bool result" where
  "filter_contains allowed requested =
     bind_r (system_mismatch allowed requested) (\<lambda>m.
       if m then Inr False
       else (let a = split_on 47 allowed; r = split_on 47 requested
             in Inr (contains_loop (length a) r 0 a)))"

text \<open>The loop of \<open>filters_overlap\<close> over the zipped levels: \<open>Some b\<close> when it returns \<open>b\<close>.\<close>

fun overlap_loop :: "(pystr \<times> pystr) list \<Rightarrow> bool option" where
  "overlap_loop [] = None"
| "overlap_loop ((x, y) # rest) =
     (if x = lit ''#'' \<or> y = lit ''#'' then Some True
      else if x \<noteq> lit ''+'' \<and> y \<noteq> lit ''+'' \<and> x \<noteq> y then Some False
      else overlap_loop rest)"

definition filters_overlap :: "pystr \<Rightarrow> pystr \<Rightarrow> bool result" where
  "filters_overlap left right =
     bind_r (system_mismatch left right) (\<lambda>m.
       if m then Inr False
       else (let a = split_on 47 left; b = split_on 47 right
             in case overlap_loop (zip a b) of
                  Some res \<Rightarrow> Inr res
                | None \<Rightarrow>
                    (let remaining = (if length a > length b then drop (length b) a
                                      else drop (length a) b)
                     in Inr (remaining = [] \<or> remaining = [lit ''#'']))))"

definition authorize_topic ::
  "(pystr \<Rightarrow> pystr \<Rightarrow> bool) \<Rightarrow> settings \<Rightarrow> pystr \<Rightarrow> bool \<Rightarrow> unit result" where
  "authorize_topic topic_matches_sub s topic subscription =
     bind_r (validate_topic topic subscription) (\<lambda>_.
     bind_r (if subscription
             then any_r (\<lambda>rule. filter_contains rule topic) (allowed_topic_patterns s)
             else any_r (\<lambda>rule. Inr (topic_matches_sub rule topic)) (allowed_topic_patterns s))
     (\<lambda>allowed.
     bind_r (if subscription
             then any_r (\<lambda>rule. filters_overlap rule topic) (blocked_topic_patterns s)
             else any_r (\<lambda>rule. Inr (topic_matches_sub rule topic)) (blocked_topic_patterns s))
     (\<lambda>blocked.
     if \<not> allowed \<or> blocked then Inl (HTTPException 403 ''Topic not allowed'') else Inr ())))"

section \<open>The matching rule of the standard\<close>

fun match_levels :: "pystr list \<Rightarrow> pystr list \<Rightarrow> bool" where
  "match_levels [] ts = (ts = [])"
| "match_levels (f # fs) ts =
     (if f = [35] then fs = []
      else (case ts of [] \<Rightarrow> False | t # ts' \<Rightarrow> (f = [43] \<or> f = t) \<and> match_levels fs ts'))"

definition wild_start :: "pystr \<Rightarrow> bool" where
  "wild_start f \<longleftrightarrow> startswith f [43] \<or> startswith f [35]"

definition mqtt_matches :: "pystr \<Rightarrow> pystr \<Rightarrow> bool" where
  "mqtt_matches f t \<longleftrightarrow>
     \<not> (startswith t [36] \<and> wild_start f) \<and> match_levels (split_on 47 f) (split_on 47 t)"

definition no_wildcards :: "pystr \<Rightarrow> bool" where
  "no_wildcards t \<longleftrightarrow> 43 \<notin> set t \<and> 35 \<notin> set t"

text \<open>
  What the gateway relies on from the client library: on well-formed filters and topics without
  wildcards \<open>topic_matches_sub\<close> is the matching rule of the standard.
\<close>

definition matcher_conforms :: "(pystr \<Rightarrow> pystr \<Rightarrow> bool) \<Rightarrow> bool" where
  "matcher_conforms m \<longleftrightarrow>
     (\<forall>f t. wf_filter f \<longrightarrow> t \<noteq> [] \<longrightarrow> no_wildcards t \<longrightarrow> m f t = mqtt_matches f t)"

section \<open>Structural forms of the loops\<close>

fun contains_levels :: "pystr list \<Rightarrow> pystr list \<Rightarrow> bool" where
  "contains_levels [] r = (r = [])"
| "contains_levels (x # xs) r =
     (x = [35] \<or> (case r of [] \<Rightarrow> False
        | y # ys \<Rightarrow> y \<noteq> [35] \<and> (x = [43] \<or> x = y) \<and> contains_levels xs ys))"

fun overlap_levels :: "pystr list \<Rightarrow> pystr list \<Rightarrow> bool" where
  "overlap_levels [] bs = (bs = [] \<or> bs = [[35]])"
| "overlap_levels as [] = (as = [[35]])"
| "overlap_levels (x # xs) (y # ys) =
     (x = [35] \<or> y = [35] \<or> ((x = [43] \<or> y = [43] \<or> x = y) \<and> overlap_levels xs ys))"

lemma contains_loop_eq:
  "n = index + length a \<Longrightarrow> index \<le> length r \<Longrightarrow>
     contains_loop n r index a = contains_levels a (drop index r)"
proof (induction a arbitrary: index)
  case Nil
  then show ?case by auto
next
  case (Cons l a)
  show ?case
  proof (cases "index < length r")
    case True
    then have "drop index r = r ! index # drop (Suc index) r"
      by (simp add: Cons_nth_drop_Suc)
    with Cons True show ?thesis by (auto simp: lit_hash lit_plus)
  next
    case False
    with Cons.prems show ?thesis by (auto simp: lit_hash)
  qed
qed

lemma overlap_loop_eq:
  "(case overlap_loop (zip a b) of Some r \<Rightarrow> r
    | None \<Rightarrow> (if length a > length b then drop (length b) a = [] \<or> drop (length b) a = [[35]]
              else drop (length a) b = [] \<or> drop (length a) b = [[35]])) = overlap_levels a b"
proof (induction a b rule: overlap_levels.induct)
  case (3 x xs y ys)
  then show ?case
    by (cases "overlap_loop (zip xs ys)") (auto simp: lit_hash lit_plus)
qed simp_all

lemma wildcard_first: "s \<noteq> [] \<Longrightarrow> first_in_wildcards s = Inr (wild_start s)"
  by (cases s) (auto simp: first_in_wildcards_def wild_start_def startswith_def)

lemma system_mismatch_eq:
  assumes "a \<noteq> []" "b \<noteq> []"
  shows "system_mismatch a b =
    Inr (startswith a [36] \<and> wild_start b \<or> startswith b [36] \<and> wild_start a)"
  using assms by (auto simp: system_mismatch_def wildcard_first lit_dollar)

lemma filter_contains_eq:
  assumes "a \<noteq> []" "r \<noteq> []"
  shows "filter_contains a r =
    Inr (\<not> (startswith a [36] \<and> wild_start r) \<and> \<not> (startswith r [36] \<and> wild_start a)
         \<and> contains_levels (split_on 47 a) (split_on 47 r))"
  using assms contains_loop_eq [of "length (split_on 47 a)" 0 "split_on 47 a" "split_on 47 r"]
  by (simp add: filter_contains_def system_mismatch_eq Let_def)

lemma filters_overlap_eq:
  assumes "a \<noteq> []" "b \<noteq> []"
  shows "filters_overlap a b =
    Inr (\<not> (startswith a [36] \<and> wild_start b) \<and> \<not> (startswith b [36] \<and> wild_start a)
         \<and> overlap_levels (split_on 47 a) (split_on 47 b))"
  using assms overlap_loop_eq [where a = "split_on 47 a" and b = "split_on 47 b"]
  by (cases "overlap_loop (zip (split_on 47 a) (split_on 47 b))")
    (auto simp: filters_overlap_def system_mismatch_eq Let_def lit_hash)

lemma topic_level_ok_iff: "topic_level_ok n i l \<longleftrightarrow> \<not> acl_level_bad n i l"
  by (auto simp: topic_level_ok_def acl_level_bad_def)

lemma validate_filter_iff:
  "validate_topic f True = Inr () \<longleftrightarrow>
     wf_filter f \<and> \<not> startswith f (lit ''$share/'')
     \<and> (\<exists>raw. utf8_encode f = Inr raw \<and> length raw \<le> 65535)"
  using enumerate_levels [of "split_on 47 f" 0 "length (split_on 47 f)"]
  by (auto simp: validate_topic_def Let_def list_all_iff topic_level_ok_iff wf_filter_def
      split: sum.splits)

lemma validate_name_iff:
  "validate_topic t False = Inr () \<longleftrightarrow>
     t \<noteq> [] \<and> no_wildcards t \<and> 0 \<notin> set t \<and> (\<exists>raw. utf8_encode t = Inr raw \<and> length raw \<le> 65535)"
  by (auto simp: validate_topic_def Let_def no_wildcards_def split: sum.splits)

lemma validate_topic_error: "validate_topic t b = Inl e \<Longrightarrow> e = HTTPException 400 ''Invalid MQTT topic or filter''"
  by (simp add: validate_topic_def Let_def split: if_splits)

section \<open>Containment and overlap against the matching rule\<close>

lemma contains_levels_sound:
  "contains_levels a r \<Longrightarrow> filter_levels a \<Longrightarrow> match_levels r t \<Longrightarrow> match_levels a t"
proof (induction a r arbitrary: t rule: contains_levels.induct)
  case (2 x xs r)
  show ?case
  proof (cases "x = [35]")
    case True
    with "2.prems"(2) show ?thesis by (cases xs) auto
  next
    case False
    with "2.prems"(1) obtain y ys where r: "r = y # ys" "y \<noteq> [35]" "x = [43] \<or> x = y"
        "contains_levels xs ys"
      by (auto split: list.splits)
    with "2.prems"(3) obtain t1 ts where t: "t = t1 # ts" "y = [43] \<or> y = t1" "match_levels ys ts"
      by (auto split: list.splits)
    have "filter_levels xs"
      using "2.prems"(2) by (cases xs) auto
    with "2.IH" [OF r(1,4)] t(3) have "match_levels xs ts"
      by blast
    with False r t show ?thesis by auto
  qed
qed auto

text \<open>A filter that matches a system topic without starting with a wildcard starts with \<open>$\<close> itself.\<close>

lemma split_on_first_char:
  assumes "split_on c s = l # ls"
  shows "s = [] \<and> l = [] \<and> ls = [] \<or> (\<exists>x s'. s = x # s' \<and> (if x = c then l = [] else \<exists>l'. l = x # l'))"
  using assms by (cases s) (auto split: if_splits list.splits)

lemma startswith_split:
  assumes "split_on 47 s = l # ls" "c \<noteq> 47"
  shows "startswith s [c] \<longleftrightarrow> (\<exists>l'. l = c # l')"
  using split_on_first_char [OF assms(1)] assms(2) by (auto simp: startswith_char split: if_splits)

lemma wild_start_split:
  assumes "split_on 47 s = l # ls"
  shows "wild_start s \<longleftrightarrow> (\<exists>l'. l = 43 # l' \<or> l = 35 # l')"
  using startswith_split [OF assms] by (auto simp: wild_start_def)

lemma dollar_not_wild: "startswith f [36] \<Longrightarrow> \<not> wild_start f"
  by (auto simp: wild_start_def startswith_char)

lemma system_first_level:
  assumes "match_levels (split_on 47 f) (split_on 47 t)" "startswith t [36]" "\<not> wild_start f"
  shows "startswith f [36]"
proof -
  obtain l ls where f: "split_on 47 f = l # ls"
    by (cases "split_on 47 f") auto
  obtain k ks where t: "split_on 47 t = k # ks"
    by (cases "split_on 47 t") auto
  from wild_start_split [OF f] assms(3) have "l \<noteq> [35]" "l \<noteq> [43]"
    by auto
  with assms(1) f t have "l = k"
    by auto
  with assms(2) show ?thesis
    using startswith_split [OF f] startswith_split [OF t] by auto
qed

lemma system_first_level':
  assumes "match_levels (split_on 47 f) (split_on 47 t)" "startswith f [36]"
  shows "startswith t [36]"
proof -
  obtain l ls where f: "split_on 47 f = l # ls"
    by (cases "split_on 47 f") auto
  obtain k ks where t: "split_on 47 t = k # ks"
    by (cases "split_on 47 t") auto
  from startswith_split [OF f] assms(2) obtain l' where "l = 36 # l'"
    by auto
  with assms(1) f t have "l = k"
    by auto
  with \<open>l = 36 # l'\<close> show ?thesis
    using startswith_split [OF t] by auto
qed

lemma filter_contains_sound:
  assumes "wf_filter a" "wf_filter r" "filter_contains a r = Inr True" "mqtt_matches r t"
  shows "mqtt_matches a t"
proof -
  have ne: "a \<noteq> []" "r \<noteq> []"
    using assms(1,2) by (auto simp: wf_filter_def)
  from assms(3) have c: "contains_levels (split_on 47 a) (split_on 47 r)"
      and sys: "\<not> (startswith r [36] \<and> wild_start a)"
    by (auto simp: filter_contains_eq [OF ne])
  have m: "match_levels (split_on 47 a) (split_on 47 t)"
    using contains_levels_sound [OF c] assms(1,4) by (simp add: wf_filter_def mqtt_matches_def)
  have "\<not> (startswith t [36] \<and> wild_start a)"
    using system_first_level [of r t] assms(4) sys by (auto simp: mqtt_matches_def)
  with m show ?thesis by (simp add: mqtt_matches_def)
qed

lemma overlap_levels_complete:
  "match_levels a t \<Longrightarrow> match_levels b t \<Longrightarrow> overlap_levels a b"
proof (induction a b arbitrary: t rule: overlap_levels.induct)
  case (1 bs)
  then show ?case by (cases bs) (auto split: if_splits)
next
  case (2 x xs)
  then show ?case by (auto split: if_splits)
next
  case (3 x xs y ys)
  then show ?case by (cases t) (auto split: if_splits)
qed

lemma filters_overlap_complete:
  assumes "a \<noteq> []" "b \<noteq> []" "mqtt_matches a t" "mqtt_matches b t"
  shows "filters_overlap a b = Inr True"
  using assms overlap_levels_complete [of "split_on 47 a" "split_on 47 t" "split_on 47 b"]
    system_first_level' [of a t] system_first_level' [of b t]
  by (auto simp: filters_overlap_eq mqtt_matches_def)

text \<open>
  The other direction: two overlapping filters have a common topic. A level that is \<open>+\<close> on both
  sides is filled with the character \<open>x\<close>.
\<close>

definition fill :: "pystr \<Rightarrow> pystr" where
  "fill l = (if l = [43] then [120] else l)"

definition fill_levels :: "pystr list \<Rightarrow> pystr list" where
  "fill_levels ls = map fill (takeWhile (\<lambda>l. l \<noteq> [35]) ls)"

fun common_levels :: "pystr list \<Rightarrow> pystr list \<Rightarrow> pystr list" where
  "common_levels [] bs = []"
| "common_levels as [] = []"
| "common_levels (x # xs) (y # ys) =
     (if x = [35] then fill_levels (y # ys)
      else if y = [35] then fill_levels (x # xs)
      else (if x = [43] then fill y else x) # common_levels xs ys)"

lemma filter_levels_hash: "filter_levels ([35] # ls) \<Longrightarrow> ls = []"
  by (cases ls) auto

lemma filter_levels_tl: "filter_levels (l # ls) \<Longrightarrow> filter_levels ls"
  by (cases ls) auto

lemma match_fill_levels: "filter_levels ls \<Longrightarrow> match_levels ls (fill_levels ls)"
proof (induction ls)
  case (Cons l ls)
  show ?case
  proof (cases "l = [35]")
    case True
    with Cons.prems show ?thesis by (simp add: filter_levels_hash)
  next
    case False
    then have "fill_levels (l # ls) = fill l # fill_levels ls"
      by (simp add: fill_levels_def)
    with False Cons filter_levels_tl [OF Cons.prems] show ?thesis
      by (simp add: fill_def)
  qed
qed (simp add: fill_levels_def)

lemma match_common_levels:
  "filter_levels a \<Longrightarrow> filter_levels b \<Longrightarrow> overlap_levels a b \<Longrightarrow>
     match_levels a (common_levels a b) \<and> match_levels b (common_levels a b)"
proof (induction a b rule: overlap_levels.induct)
  case (3 x xs y ys)
  show ?case
  proof (cases "x = [35] \<or> y = [35]")
    case True
    with "3.prems" show ?thesis
      using match_fill_levels [of "y # ys"] match_fill_levels [of "x # xs"]
      by (auto dest: filter_levels_hash)
  next
    case False
    with "3.prems" have "overlap_levels xs ys" "x = [43] \<or> y = [43] \<or> x = y"
      by auto
    with 3 False show ?thesis
      by (auto simp: fill_def dest: filter_levels_tl)
  qed
qed auto

lemma filter_levels_hd:
  "filter_levels (l # ls) \<Longrightarrow> l = [43] \<or> l = [35] \<or> no_wildcards l"
  by (cases ls) (auto simp: no_wildcards_def)

lemma filter_levels_in:
  "filter_levels ls \<Longrightarrow> l \<in> set ls \<Longrightarrow> l = [43] \<or> l = [35] \<or> no_wildcards l"
proof (induction ls)
  case (Cons k ls)
  then show ?case using filter_levels_hd [of k ls] filter_levels_tl [of k ls] by auto
qed simp

lemma no_wildcards_x [simp]: "no_wildcards [120]"
  by (simp add: no_wildcards_def)

lemma fill_levels_props:
  assumes "filter_levels ls" "l \<in> set (fill_levels ls)" "\<And>k. k \<in> set ls \<Longrightarrow> 47 \<notin> set k"
  shows "no_wildcards l \<and> 47 \<notin> set l"
proof -
  obtain k where k: "k \<in> set ls" "k \<noteq> [35]" "l = fill k"
    using assms(2) by (auto simp: fill_levels_def dest: set_takeWhileD)
  with filter_levels_in [OF assms(1) k(1)] assms(3) show ?thesis
    by (auto simp: fill_def)
qed

lemma common_levels_props:
  assumes "filter_levels a" "filter_levels b" "l \<in> set (common_levels a b)"
    "\<And>k. k \<in> set a \<union> set b \<Longrightarrow> 47 \<notin> set k"
  shows "no_wildcards l \<and> 47 \<notin> set l"
  using assms
proof (induction a b rule: common_levels.induct)
  case (3 x xs y ys)
  show ?case
  proof (cases "x = [35] \<or> y = [35]")
    case True
    with "3.prems" show ?thesis
      using fill_levels_props [of "y # ys" l] fill_levels_props [of "x # xs" l]
      by (auto split: if_splits)
  next
    case False
    then consider "l = (if x = [43] then fill y else x)" | "l \<in> set (common_levels xs ys)"
      using "3.prems"(3) by auto
    then show ?thesis
    proof cases
      case 1
      with False "3.prems" filter_levels_hd [of x xs] filter_levels_hd [of y ys] show ?thesis
        by (auto simp: fill_def)
    next
      case 2
      with "3.IH" False "3.prems" show ?thesis
        by (auto dest: filter_levels_tl)
    qed
  qed
qed auto

lemma common_levels_first:
  assumes "common_levels (x # xs) (y # ys) = (c # l) # ls" "c \<noteq> 120"
  shows "x = c # l \<or> y = c # l"
  using assms by (auto simp: fill_levels_def fill_def split: if_splits)

lemma common_levels_Nil:
  assumes "common_levels a b = []" "a \<noteq> []" "b \<noteq> []" "filter_levels a" "filter_levels b"
  shows "a = [[35]] \<and> b = [[35]]"
proof -
  obtain x xs y ys where ab: "a = x # xs" "b = y # ys"
    using assms(2,3) by (meson neq_Nil_conv)
  with assms(1) have "x = [35]" "y = [35]"
    by (auto simp: fill_levels_def split: if_splits)
  with ab assms(4,5) show ?thesis
    by (auto dest: filter_levels_hash)
qed

definition common_topic :: "pystr \<Rightarrow> pystr \<Rightarrow> pystr" where
  "common_topic a b =
     (let c = common_levels (split_on 47 a) (split_on 47 b)
      in join_on 47 (if c = [] then [[120]] else c))"

lemma split_common_topic:
  assumes "wf_filter a" "wf_filter b"
  defines "c \<equiv> common_levels (split_on 47 a) (split_on 47 b)"
  shows "split_on 47 (common_topic a b) = (if c = [] then [[120]] else c)"
proof -
  have "47 \<notin> set l" if "l \<in> set c" for l
    using common_levels_props [of "split_on 47 a" "split_on 47 b" l] that assms split_on_no_sep
    by (auto simp: wf_filter_def)
  then show ?thesis unfolding common_topic_def c_def [symmetric] by (simp add: Let_def)
qed

lemma common_topic_matches:
  assumes "wf_filter a" "wf_filter b" "filters_overlap a b = Inr True"
  shows "mqtt_matches a (common_topic a b) \<and> mqtt_matches b (common_topic a b)"
proof -
  let ?a = "split_on 47 a" and ?b = "split_on 47 b" and ?t = "split_on 47 (common_topic a b)"
  have ne: "a \<noteq> []" "b \<noteq> []" and fl: "filter_levels ?a" "filter_levels ?b"
    using assms(1,2) by (auto simp: wf_filter_def)
  have ov: "overlap_levels ?a ?b" and sys: "\<not> (startswith a [36] \<and> wild_start b)"
      "\<not> (startswith b [36] \<and> wild_start a)"
    using assms(3) by (auto simp: filters_overlap_eq [OF ne])
  have m: "match_levels ?a ?t \<and> match_levels ?b ?t"
    using match_common_levels [OF fl ov] common_levels_Nil [of ?a ?b] fl
    by (auto simp: split_common_topic [OF assms(1,2)])
  obtain x xs y ys where ab: "?a = x # xs" "?b = y # ys"
    by (meson neq_Nil_conv split_on_not_Nil)
  have "\<not> wild_start a \<and> \<not> wild_start b" if st: "startswith (common_topic a b) [36]"
  proof -
    obtain k ks where k: "?t = k # ks"
      by (meson neq_Nil_conv split_on_not_Nil)
    with st obtain k' where "k = 36 # k'"
      using startswith_split [OF k] by auto
    with k have "common_levels ?a ?b = (36 # k') # ks"
      by (auto simp: split_common_topic [OF assms(1,2)] split: if_splits)
    then have "x = 36 # k' \<or> y = 36 # k'"
      using common_levels_first [of x xs y ys 36 k' ks] by (simp add: ab)
    then have "startswith a [36] \<or> startswith b [36]"
      using startswith_split [OF ab(1), of 36] startswith_split [OF ab(2), of 36] by auto
    with sys dollar_not_wild show ?thesis by blast
  qed
  with m show ?thesis by (auto simp: mqtt_matches_def)
qed

lemma common_topic_no_wildcards:
  assumes "wf_filter a" "wf_filter b"
  shows "no_wildcards (common_topic a b)"
proof -
  let ?c = "common_levels (split_on 47 a) (split_on 47 b)"
  have "no_wildcards l" if "l \<in> set ?c" for l
    using common_levels_props [of "split_on 47 a" "split_on 47 b" l] that assms split_on_no_sep
    by (auto simp: wf_filter_def)
  moreover have "set (common_topic a b) \<subseteq> insert 47 (insert 120 (\<Union>l\<in>set ?c. set l))"
    unfolding common_topic_def using set_join_on [of 47 ?c] by (auto simp: Let_def)
  ultimately show ?thesis
    unfolding no_wildcards_def by auto
qed

text \<open>
  C3: \<open>filters_overlap\<close> never raises on well-formed filters and decides exactly whether some topic
  name is matched by both of them, under the matching rule of the MQTT standard.
\<close>

theorem filters_overlap_exact:
  assumes "wf_filter a" "wf_filter b"
  shows "filters_overlap a b = Inr (\<exists>t. no_wildcards t \<and> mqtt_matches a t \<and> mqtt_matches b t)"
proof -
  have ne: "a \<noteq> []" "b \<noteq> []"
    using assms by (auto simp: wf_filter_def)
  obtain r where r: "filters_overlap a b = Inr r"
    using filters_overlap_eq [OF ne] by blast
  show ?thesis
  proof (cases r)
    case True
    with r common_topic_matches [OF assms] common_topic_no_wildcards [OF assms] show ?thesis
      by auto
  next
    case False
    with r filters_overlap_complete [OF ne] show ?thesis by auto
  qed
qed

theorem filters_overlap_exact_witness:
  "filters_overlap (lit ''a/+'') (lit ''+/b/#'') =
     Inr (\<exists>t. no_wildcards t \<and> mqtt_matches (lit ''a/+'') t \<and> mqtt_matches (lit ''+/b/#'') t)"
  by (rule filters_overlap_exact) (simp_all add: wf_filter_def lit_def)

text \<open>
  Completeness of containment. When the loop rejects a pair, a topic that only the requested filter
  receives is built by filling the wildcards of the request with a level \<open>w\<close> foreign to the rule.
\<close>

definition fill_with :: "pystr \<Rightarrow> pystr list \<Rightarrow> pystr list" where
  "fill_with w ls =
     (let m = map (\<lambda>l. if l = [43] then w else l) (takeWhile (\<lambda>l. l \<noteq> [35]) ls)
      in if m = [] then [w] else m)"

definition only_fills :: "pystr \<Rightarrow> pystr list \<Rightarrow> pystr list \<Rightarrow> bool" where
  "only_fills w r t \<longleftrightarrow>
     (\<forall>l\<in>set t. l = w \<or> l \<in> set r \<and> l \<noteq> [43] \<and> l \<noteq> [35])
     \<and> (\<forall>ls. r = [43] # ls \<longrightarrow> t \<noteq> [] \<longrightarrow> hd t = w)
     \<and> (\<forall>ls. r = [35] # ls \<longrightarrow> t \<noteq> [] \<longrightarrow> hd t = w)"

lemma fill_with_Cons:
  "l \<noteq> [35] \<Longrightarrow> \<exists>ts. fill_with w (l # ls) = (if l = [43] then w else l) # ts"
  by (simp add: fill_with_def Let_def)

lemma fill_with_hash [simp]: "fill_with w ([35] # ls) = [w]"
  by (simp add: fill_with_def)

lemma match_takeWhile:
  "filter_levels ls \<Longrightarrow>
     match_levels ls (map (\<lambda>l. if l = [43] then w else l) (takeWhile (\<lambda>l. l \<noteq> [35]) ls))"
proof (induction ls)
  case (Cons l ls)
  then show ?case
    using filter_levels_hash [of ls] filter_levels_tl [of l ls] by auto
qed simp

lemma match_fill_with:
  assumes "filter_levels r" "r \<noteq> []"
  shows "match_levels r (fill_with w r)"
proof (cases "r = [[35]]")
  case False
  with assms have "takeWhile (\<lambda>l. l \<noteq> [35]) r \<noteq> []"
    by (cases r) (auto dest: filter_levels_hash)
  with match_takeWhile [OF assms(1)] show ?thesis
    by (simp add: fill_with_def Let_def)
qed simp

lemma only_fills_fill_with: "only_fills w r (fill_with w r)"
  unfolding only_fills_def fill_with_def Let_def
  by (auto dest: set_takeWhileD split: if_splits)

lemma contains_levels_counter:
  assumes "\<not> contains_levels a r" "filter_levels r" "w \<notin> set a"
  shows "\<exists>t. match_levels r t \<and> \<not> match_levels a t \<and> only_fills w r t"
  using assms
proof (induction a r rule: contains_levels.induct)
  case (1 r)
  have "fill_with w r \<noteq> []"
    by (simp add: fill_with_def Let_def)
  with 1 show ?case
    using match_fill_with [of r w] only_fills_fill_with [of w r] by auto
next
  case (2 x xs r)
  then have x: "x \<noteq> [35]" "x \<noteq> w"
    by auto
  show ?case
  proof (cases r)
    case Nil
    with x show ?thesis
      by (auto simp: only_fills_def intro!: exI [of _ "[]"])
  next
    case r: (Cons y ys)
    consider (hash) "y = [35]" | (differ) "y \<noteq> [35]" "x \<noteq> [43]" "x \<noteq> y"
      | (rest) "y \<noteq> [35]" "\<not> contains_levels xs ys"
      using "2.prems"(1) r x by auto
    then show ?thesis
    proof cases
      case hash
      with r "2.prems"(2) x show ?thesis
        by (intro exI [of _ "[]"]) (auto simp: only_fills_def dest: filter_levels_hash)
    next
      case differ
      then obtain ts where "fill_with w r = (if y = [43] then w else y) # ts"
        using fill_with_Cons [of y w ys] r by auto
      with differ x have "\<not> match_levels (x # xs) (fill_with w r)"
        by auto
      then show ?thesis
        using match_fill_with [of r w] only_fills_fill_with [of w r] "2.prems"(2) r by blast
    next
      case rest
      have "filter_levels ys" "w \<notin> set xs"
        using "2.prems" r filter_levels_tl by auto
      then obtain t where t: "match_levels ys t" "\<not> match_levels xs t" "only_fills w ys t"
        using "2.IH" [OF r rest(2)] by blast
      let ?t = "(if y = [43] then w else y) # t"
      have "match_levels r ?t" "\<not> match_levels (x # xs) ?t"
        using t rest x r by auto
      moreover have "only_fills w r ?t"
        using t(3) rest(1) r by (auto simp: only_fills_def)
      ultimately show ?thesis by blast
    qed
  qed
qed

lemma fills_topic:
  assumes "wf_filter r" "match_levels (split_on 47 r) t" "only_fills w (split_on 47 r) t" "t \<noteq> []"
    and w: "\<exists>w'. w = 120 # w'" "no_wildcards w" "47 \<notin> set w"
  shows "split_on 47 (join_on 47 t) = t \<and> no_wildcards (join_on 47 t) \<and> mqtt_matches r (join_on 47 t)"
proof -
  have lv: "no_wildcards l \<and> 47 \<notin> set l" if "l \<in> set t" for l
    using assms(1,3) w that filter_levels_in [of "split_on 47 r" l] split_on_no_sep [of l 47 r]
    by (auto simp: only_fills_def wf_filter_def)
  then have sp: "split_on 47 (join_on 47 t) = t"
    using assms(4) by simp
  have nw: "no_wildcards (join_on 47 t)"
    using lv set_join_on [of 47 t] by (fastforce simp: no_wildcards_def)
  have "\<not> (startswith (join_on 47 t) [36] \<and> wild_start r)"
  proof
    assume a: "startswith (join_on 47 t) [36] \<and> wild_start r"
    obtain k ks where t: "t = k # ks"
      using assms(4) by (cases t) auto
    obtain l ls where r: "split_on 47 r = l # ls"
      by (meson neq_Nil_conv split_on_not_Nil)
    have "filter_levels (l # ls)"
      using assms(1) r by (simp add: wf_filter_def)
    then have "l = [43] \<or> l = [35]"
      using a wild_start_split [OF r] filter_levels_hd [of l ls] by (auto simp: no_wildcards_def)
    with assms(3) r t have "k = w"
      by (auto simp: only_fills_def)
    moreover have "\<exists>k'. k = 36 # k'"
      using a startswith_split [of "join_on 47 t" k ks 36] sp t by simp
    ultimately show False
      using w(1) by auto
  qed
  with sp nw assms(2) show ?thesis by (simp add: mqtt_matches_def)
qed

lemma fresh_level: "\<exists>w. (\<exists>w'. w = 120 # w') \<and> no_wildcards w \<and> 47 \<notin> set w \<and> w \<notin> set (ls :: pystr list)"
proof -
  let ?w = "replicate (Suc (sum_list (map length ls))) (120 :: nat)"
  have "length l \<le> sum_list (map length ls)" if "l \<in> set ls" for l
    using that by (induction ls) auto
  then have "?w \<notin> set ls"
    by fastforce
  then show ?thesis
    by (intro exI [of _ ?w]) (simp add: no_wildcards_def)
qed

lemma hash_counter:
  assumes "\<not> contains_levels a [[35]]" "a \<noteq> []" "filter_levels a" "a \<noteq> [[43], [35]]" "w \<notin> set a"
  shows "\<exists>t. t \<noteq> [] \<and> \<not> match_levels a t \<and> set t \<subseteq> {w}"
proof -
  obtain x xs where a: "a = x # xs" "x \<noteq> [35]" "x \<noteq> w"
    using assms by (cases a) auto
  show ?thesis
  proof (cases "x = [43] \<and> xs = []")
    case True
    with a show ?thesis by (intro exI [of _ "[w, w]"]) auto
  next
    case False
    have "\<not> match_levels xs []" if "x = [43]"
      using that False a assms(3,4) filter_levels_tl [of x xs] filter_levels_hash
      by (cases xs) auto
    with a show ?thesis by (intro exI [of _ "[w]"]) auto
  qed
qed

lemma contains_counter_levels:
  assumes "wf_filter a" "wf_filter r" "\<not> contains_levels (split_on 47 a) (split_on 47 r)"
    and "\<not> (a = lit ''+/#'' \<and> r = lit ''#'')" "w \<notin> set (split_on 47 a)"
  shows "\<exists>t. t \<noteq> [] \<and> match_levels (split_on 47 r) t \<and> \<not> match_levels (split_on 47 a) t
    \<and> only_fills w (split_on 47 r) t"
proof (cases "split_on 47 r = [[35]]")
  case True
  then have "r = lit ''#''"
    using join_split [of 47 r] by (simp add: lit_hash)
  moreover have "a = [43, 47, 35]" if "split_on 47 a = [[43], [35]]"
    using join_split [of 47 a] that by (simp del: join_split)
  ultimately have "split_on 47 a \<noteq> [[43], [35]]"
    using assms(4) by (auto simp: lit_def)
  with True assms(1,3,5) obtain t where "t \<noteq> []" "\<not> match_levels (split_on 47 a) t" "set t \<subseteq> {w}"
    using hash_counter [of "split_on 47 a" w] by (auto simp: wf_filter_def)
  with True show ?thesis
    by (intro exI [of _ t]) (auto simp: only_fills_def dest: hd_in_set)
next
  case False
  obtain t where t: "match_levels (split_on 47 r) t" "\<not> match_levels (split_on 47 a) t"
      "only_fills w (split_on 47 r) t"
    using contains_levels_counter [OF assms(3) _ assms(5)] assms(2) by (auto simp: wf_filter_def)
  have "t \<noteq> []"
    using t(1) False split_on_not_Nil [of 47 r] assms(2)
    by (cases "split_on 47 r") (auto simp: wf_filter_def split: if_splits)
  with t show ?thesis by blast
qed

lemma system_counter_levels:
  assumes "wf_filter a" "wf_filter r"
    and "startswith a [36] \<and> wild_start r \<or> startswith r [36] \<and> wild_start a"
    and "w \<notin> set (split_on 47 a)"
  shows "\<not> match_levels (split_on 47 a) (fill_with w (split_on 47 r))
    \<or> wild_start a \<and> (\<exists>k ks. fill_with w (split_on 47 r) = (36 # k) # ks)"
proof -
  obtain x xs where a: "split_on 47 a = x # xs"
    by (meson neq_Nil_conv split_on_not_Nil)
  obtain y ys where r: "split_on 47 r = y # ys"
    by (meson neq_Nil_conv split_on_not_Nil)
  have y: "filter_levels (y # ys)"
    using assms(2) r by (simp add: wf_filter_def)
  from assms(3) show ?thesis
  proof
    assume s: "startswith a [36] \<and> wild_start r"
    then have "y = [43] \<or> y = [35]"
      using wild_start_split [OF r] filter_levels_hd [OF y] by (auto simp: no_wildcards_def)
    then obtain ts where "fill_with w (split_on 47 r) = w # ts"
      using fill_with_Cons [of y w ys] r by auto
    moreover have "x \<noteq> [35]" "x \<noteq> [43]" "x \<noteq> w"
      using s startswith_split [OF a, of 36] assms(4) a by auto
    ultimately show ?thesis by (simp add: a)
  next
    assume s: "startswith r [36] \<and> wild_start a"
    then obtain k where "y = 36 # k"
      using startswith_split [OF r, of 36] by auto
    then show ?thesis
      using fill_with_Cons [of y w ys] r s by auto
  qed
qed

lemma contains_counter:
  assumes "wf_filter a" "wf_filter r" "filter_contains a r = Inr False"
    and "\<not> (a = lit ''+/#'' \<and> r = lit ''#'')"
  shows "\<exists>t. no_wildcards t \<and> mqtt_matches r t \<and> \<not> mqtt_matches a t"
proof -
  obtain w where w: "\<exists>w'. w = 120 # w'" "no_wildcards w" "47 \<notin> set w" "w \<notin> set (split_on 47 a)"
    using fresh_level [of "split_on 47 a"] by blast
  have ne: "a \<noteq> []" "r \<noteq> []"
    using assms(1,2) by (auto simp: wf_filter_def)
  show ?thesis
  proof (cases "contains_levels (split_on 47 a) (split_on 47 r)")
    case False
    then obtain t where t: "t \<noteq> []" "match_levels (split_on 47 r) t"
        "\<not> match_levels (split_on 47 a) t" "only_fills w (split_on 47 r) t"
      using contains_counter_levels [OF assms(1,2) _ assms(4) w(4)] by blast
    from fills_topic [OF assms(2) t(2,4,1) w(1-3)] t(3) show ?thesis
      by (intro exI [of _ "join_on 47 t"]) (auto simp: mqtt_matches_def)
  next
    case True
    let ?t = "fill_with w (split_on 47 r)"
    have sys: "startswith a [36] \<and> wild_start r \<or> startswith r [36] \<and> wild_start a"
      using True assms(3) by (auto simp: filter_contains_eq [OF ne])
    have t: "?t \<noteq> []" "match_levels (split_on 47 r) ?t"
      using assms(2) match_fill_with by (auto simp: fill_with_def Let_def wf_filter_def)
    note ft = fills_topic [OF assms(2) t(2) only_fills_fill_with t(1) w(1-3)]
    have "\<not> mqtt_matches a (join_on 47 ?t)"
      using system_counter_levels [OF assms(1,2) sys w(4)] ft
        startswith_split [of "join_on 47 ?t" _ _ 36] by (auto simp: mqtt_matches_def)
    with ft show ?thesis by blast
  qed
qed

text \<open>
  C2: \<open>filter_contains\<close> never raises on well-formed filters and holds exactly when every topic the
  requested filter receives is matched by the rule. The one exception is the rule \<open>+/#\<close> against the
  request \<open>#\<close>, which receive the same topics and are still rejected.
\<close>

theorem filter_contains_exact:
  assumes "wf_filter a" "wf_filter r" "\<not> (a = lit ''+/#'' \<and> r = lit ''#'')"
  shows "filter_contains a r = Inr (\<forall>t. no_wildcards t \<longrightarrow> mqtt_matches r t \<longrightarrow> mqtt_matches a t)"
proof -
  have ne: "a \<noteq> []" "r \<noteq> []"
    using assms by (auto simp: wf_filter_def)
  obtain b where b: "filter_contains a r = Inr b"
    using filter_contains_eq [OF ne] by blast
  show ?thesis
  proof (cases b)
    case True
    with b filter_contains_sound [OF assms(1,2)] show ?thesis by auto
  next
    case False
    with b contains_counter [OF assms(1,2) _ assms(3)] show ?thesis by auto
  qed
qed

theorem filter_contains_exact_witness:
  "filter_contains (lit ''a/#'') (lit ''a/+/b'') =
     Inr (\<forall>t. no_wildcards t \<longrightarrow> mqtt_matches (lit ''a/+/b'') t \<longrightarrow> mqtt_matches (lit ''a/#'') t)"
  by (rule filter_contains_exact) (simp_all add: wf_filter_def lit_def)

section \<open>The access control contract\<close>

text \<open>
  What the access control list needs from its two filter relations: a filter that fits a rule
  receives nothing outside the rule, and a filter that shares a topic with a rule overlaps it. Any
  such pair makes the decision taken on a filter hold for every topic the filter can receive.
\<close>

locale acl_algebra =
  fixes valid :: "'f \<Rightarrow> bool"
    and matches :: "'f \<Rightarrow> 't \<Rightarrow> bool"
    and contains :: "'f \<Rightarrow> 'f \<Rightarrow> bool"
    and overlaps :: "'f \<Rightarrow> 'f \<Rightarrow> bool"
  assumes contains_sound: "valid a \<Longrightarrow> valid r \<Longrightarrow> contains a r \<Longrightarrow> matches r t \<Longrightarrow> matches a t"
    and overlaps_complete: "valid a \<Longrightarrow> valid r \<Longrightarrow> matches a t \<Longrightarrow> matches r t \<Longrightarrow> overlaps a r"
begin

lemma granted_topic:
  assumes "\<And>a. a \<in> set al \<Longrightarrow> valid a" "\<And>b. b \<in> set bl \<Longrightarrow> valid b" "valid r"
    and "\<exists>a\<in>set al. contains a r" "\<not> (\<exists>b\<in>set bl. overlaps b r)" "matches r t"
  shows "(\<exists>a\<in>set al. matches a t) \<and> \<not> (\<exists>b\<in>set bl. matches b t)"
proof
  obtain a where "a \<in> set al" "contains a r"
    using assms(4) by blast
  then show "\<exists>a\<in>set al. matches a t"
    using contains_sound [of a r t] assms(1,3,6) by blast
  show "\<not> (\<exists>b\<in>set bl. matches b t)"
  proof
    assume "\<exists>b\<in>set bl. matches b t"
    then obtain b where "b \<in> set bl" "matches b t" by blast
    then have "overlaps b r"
      using overlaps_complete [of b r t] assms(2,3,6) by blast
    with \<open>b \<in> set bl\<close> assms(5) show False by blast
  qed
qed

end

interpretation mqtt_acl: acl_algebra wf_filter mqtt_matches
  "\<lambda>a r. filter_contains a r = Inr True" "\<lambda>a r. filters_overlap a r = Inr True"
proof unfold_locales
  fix a r t
  assume "wf_filter a" "wf_filter r" "filter_contains a r = Inr True" "mqtt_matches r t"
  then show "mqtt_matches a t" by (rule filter_contains_sound)
next
  fix a r t
  assume "wf_filter a" "wf_filter r" "mqtt_matches a t" "mqtt_matches r t"
  then show "filters_overlap a r = Inr True"
    by (simp add: filters_overlap_complete wf_filter_def)
qed

lemma any_contains:
  assumes "\<And>p. p \<in> set ps \<Longrightarrow> wf_filter p" "wf_filter r"
  shows "any_r (\<lambda>rule. filter_contains rule r) ps = Inr (\<exists>p\<in>set ps. filter_contains p r = Inr True)"
proof (rule any_r_cong_Inr)
  fix p assume "p \<in> set ps"
  with assms have "p \<noteq> []" "r \<noteq> []" by (auto simp: wf_filter_def)
  then show "filter_contains p r = Inr (filter_contains p r = Inr True)"
    by (simp add: filter_contains_eq)
qed

lemma any_overlaps:
  assumes "\<And>p. p \<in> set ps \<Longrightarrow> wf_filter p" "wf_filter r"
  shows "any_r (\<lambda>rule. filters_overlap rule r) ps = Inr (\<exists>p\<in>set ps. filters_overlap p r = Inr True)"
proof (rule any_r_cong_Inr)
  fix p assume "p \<in> set ps"
  with assms have "p \<noteq> []" "r \<noteq> []" by (auto simp: wf_filter_def)
  then show "filters_overlap p r = Inr (filters_overlap p r = Inr True)"
    by (simp add: filters_overlap_eq)
qed

lemma authorize_filter_iff:
  assumes "settings_wf s"
  shows "authorize_topic m s f True = Inr () \<longleftrightarrow>
    validate_topic f True = Inr ()
    \<and> (\<exists>a\<in>set (allowed_topic_patterns s). filter_contains a f = Inr True)
    \<and> \<not> (\<exists>b\<in>set (blocked_topic_patterns s). filters_overlap b f = Inr True)"
proof (cases "validate_topic f True = Inr ()")
  case True
  then have f: "wf_filter f" by (simp add: validate_filter_iff)
  have al: "\<And>p. p \<in> set (allowed_topic_patterns s) \<Longrightarrow> wf_filter p"
    and bl: "\<And>p. p \<in> set (blocked_topic_patterns s) \<Longrightarrow> wf_filter p"
    using assms by (auto simp: settings_wf_def)
  show ?thesis
    using True by (auto simp: authorize_topic_def any_contains [OF al f] any_overlaps [OF bl f])
next
  case False
  then show ?thesis by (auto simp: authorize_topic_def bind_r_Inr_iff)
qed

lemma authorize_name_iff:
  "authorize_topic m s t False = Inr () \<longleftrightarrow>
    validate_topic t False = Inr ()
    \<and> (\<exists>a\<in>set (allowed_topic_patterns s). m a t) \<and> \<not> (\<exists>b\<in>set (blocked_topic_patterns s). m b t)"
  by (cases "validate_topic t False") (auto simp: authorize_topic_def any_r_pure)

lemma authorize_topic_errors:
  assumes "settings_wf s" "authorize_topic m s t b = Inl e"
  shows "e = HTTPException 400 ''Invalid MQTT topic or filter'' \<or> e = HTTPException 403 ''Topic not allowed''"
proof (cases "validate_topic t b")
  case (Inl e')
  with assms(2) validate_topic_error [OF Inl] show ?thesis
    by (simp add: authorize_topic_def)
next
  case (Inr u)
  have al: "\<And>p. p \<in> set (allowed_topic_patterns s) \<Longrightarrow> wf_filter p"
    and bl: "\<And>p. p \<in> set (blocked_topic_patterns s) \<Longrightarrow> wf_filter p"
    using assms(1) by (auto simp: settings_wf_def)
  show ?thesis
  proof (cases b)
    case True
    then have f: "wf_filter t" using Inr by (simp add: validate_filter_iff)
    show ?thesis
      using True Inr assms(2)
      by (auto simp: authorize_topic_def any_contains [OF al f] any_overlaps [OF bl f] split: if_splits)
  next
    case False
    then show ?thesis using Inr assms(2)
      by (auto simp: authorize_topic_def any_r_pure split: if_splits)
  qed
qed

lemma confined_name:
  assumes "settings_wf s" "matcher_conforms m"
    and "authorize_topic m s f True = Inr ()"
    and "validate_topic t False = Inr ()" "mqtt_matches f t"
  shows "authorize_topic m s t False = Inr ()"
proof -
  have al: "\<And>p. p \<in> set (allowed_topic_patterns s) \<Longrightarrow> wf_filter p"
    and bl: "\<And>p. p \<in> set (blocked_topic_patterns s) \<Longrightarrow> wf_filter p"
    using assms(1) by (auto simp: settings_wf_def)
  from assms(3) have f: "wf_filter f"
      and grant: "\<exists>a\<in>set (allowed_topic_patterns s). filter_contains a f = Inr True"
      "\<not> (\<exists>b\<in>set (blocked_topic_patterns s). filters_overlap b f = Inr True)"
    by (simp_all add: authorize_filter_iff [OF assms(1)] validate_filter_iff)
  have t: "t \<noteq> []" "no_wildcards t"
    using assms(4) by (simp_all add: validate_name_iff)
  have eq: "m p t = mqtt_matches p t" if "wf_filter p" for p
    using assms(2) that t by (simp add: matcher_conforms_def)
  show ?thesis
    using mqtt_acl.granted_topic [OF al bl f grant assms(5)] assms(4) al bl
    by (auto simp: authorize_name_iff eq)
qed

text \<open>
  C1: a subscription the access control list grants cannot receive a message the list would refuse
  to publish: every topic name matched by an authorised filter is itself authorised, whatever the
  patterns of the settings are, for any client library whose matcher follows the standard.
\<close>

theorem authorized_subscription_is_confined:
  assumes "settings_wf s" "matcher_conforms m"
    and "authorize_topic m s f True = Inr ()"
    and "validate_topic t False = Inr ()" "mqtt_matches f t"
  shows "authorize_topic m s t False = Inr ()"
  by (rule confined_name [OF assms])

theorem authorized_subscription_is_confined_witness:
  "authorize_topic mqtt_matches example_settings (lit ''site/a'') False = Inr ()"
proof (rule authorized_subscription_is_confined [where f = "lit ''site/+''"])
  show "settings_wf example_settings" by (rule example_settings_wf)
  show "matcher_conforms mqtt_matches" by (simp add: matcher_conforms_def)
  show "authorize_topic mqtt_matches example_settings (lit ''site/+'') True = Inr ()"
    by (simp add: authorize_filter_iff [OF example_settings_wf] validate_filter_iff example_patterns
        wf_filter_def filter_contains_eq filters_overlap_eq wild_start_def)
      (simp add: lit_def startswith_def utf8_cp_def)
  show "validate_topic (lit ''site/a'') False = Inr ()"
    by (simp add: validate_name_iff no_wildcards_def lit_def utf8_cp_def)
  show "mqtt_matches (lit ''site/+'') (lit ''site/a'')"
    by (simp add: mqtt_matches_def wild_start_def lit_def startswith_def)
qed

end
