(* ===== verification/Tls_Policy.thy ===== *)
theory Tls_Policy
  imports Prelude
begin

text \<open>
  \<open>tls_policy.py\<close>, \<open>_darwin_certificate.py\<close> and \<open>mqtt/tls.py\<close>: the certificate key minima that
  are checked on the verified chain after an ordinary TLS handshake. Certificate parsing, PEM
  decoding, OpenSSL's context operations and the macOS Security framework are arguments. The lemmas
  show the exact bounds (an RSA modulus of 2047 bits is refused), that a connection survives the
  handshake only with a non-empty chain of acceptable keys, that an enforced context always verifies
  peers with TLS 1.2 or later, and that the native inspection releases every object it owns.
\<close>

section \<open>Certificate keys\<close>

datatype public_key =
    RSAKey int
  | ECKey int
  | DSAKey int int
  | Ed25519Key
  | Ed448Key
  | OtherKey

text \<open>\<open>int.bit_length\<close>: of the absolute value, 0 for 0.\<close>

fun nat_bit_length :: "nat \<Rightarrow> nat" where
  "nat_bit_length n = (if n = 0 then 0 else Suc (nat_bit_length (n div 2)))"

declare nat_bit_length.simps [simp del]

definition bit_length :: "int \<Rightarrow> nat" where
  "bit_length n = nat_bit_length (nat \<bar>n\<bar>)"

record tls_runtime =
  rt_darwin_x86_64 :: bool
  rt_native :: "bytes \<Rightarrow> bool result"
  rt_cryptography :: bool
  rt_load_key :: "bytes \<Rightarrow> public_key result"
  rt_pem_to_der :: "pystr \<Rightarrow> bytes result"

definition key_meets_minimum :: "public_key \<Rightarrow> bool" where
  "key_meets_minimum k =
     (case k of
        RSAKey n \<Rightarrow> bit_length n \<ge> 2048
      | ECKey key_size \<Rightarrow> key_size \<ge> 224
      | DSAKey p q \<Rightarrow> bit_length p \<ge> 2048 \<and> bit_length q \<ge> 224
      | Ed25519Key \<Rightarrow> True
      | Ed448Key \<Rightarrow> True
      | OtherKey \<Rightarrow> False)"

definition certificate_key_ok :: "tls_runtime \<Rightarrow> bytes \<Rightarrow> bool result" where
  "certificate_key_ok rt der =
     (if rt_darwin_x86_64 rt then
        (case rt_native rt der of
           Inl (OSError _) \<Rightarrow> Inl (SSLError ''TLS certificate key could not be verified by macOS'')
         | Inl (ValueError _) \<Rightarrow> Inl (SSLError ''TLS certificate key could not be verified by macOS'')
         | r \<Rightarrow> r)
      else if \<not> rt_cryptography rt then
        Inl (SSLError ''Verified TLS requires the cryptography package'')
      else
        (case rt_load_key rt der of
           Inl (ValueError _) \<Rightarrow> Inl (SSLError ''TLS certificate uses an unsupported public key'')
         | Inl UnsupportedAlgorithm \<Rightarrow> Inl (SSLError ''TLS certificate uses an unsupported public key'')
         | Inl e \<Rightarrow> Inl e
         | Inr key \<Rightarrow> Inr (key_meets_minimum key)))"

section \<open>The verified chain\<close>

text \<open>
  An element of the chain: DER bytes, an object whose \<open>public_bytes()\<close> is a PEM string, or anything
  else. The chain getter may be missing on the connection and on its internal object, and may return
  something that is not a list.
\<close>

datatype chain_item = DerItem bytes | PemItem pystr | OtherItem

datatype chain_value = NotAList | ChainList "chain_item list"

record tls_connection =
  conn_chain :: "chain_value option"
  conn_inner_chain :: "chain_value option"

definition item_der :: "tls_runtime \<Rightarrow> chain_item \<Rightarrow> bytes result" where
  "item_der rt item =
     (case item of
        DerItem der \<Rightarrow> Inr der
      | PemItem pem \<Rightarrow> rt_pem_to_der rt pem
      | OtherItem \<Rightarrow> Inl (SSLError ''TLS runtime returned an unsupported certificate format''))"

definition check_item :: "tls_runtime \<Rightarrow> chain_item \<Rightarrow> unit result" where
  "check_item rt item =
     bind_r (item_der rt item) (\<lambda>der.
     bind_r (certificate_key_ok rt der) (\<lambda>ok.
     if \<not> ok then Inl (SSLError ''TLS certificate key is below the supported security minimum'')
     else Inr ()))"

definition check_verified_keys :: "tls_runtime \<Rightarrow> tls_connection \<Rightarrow> unit result" where
  "check_verified_keys rt conn =
     (case (case conn_chain conn of Some c \<Rightarrow> Some c | None \<Rightarrow> conn_inner_chain conn) of
        None \<Rightarrow> Inl (SSLError ''TLS runtime does not expose its verified certificate chain'')
      | Some NotAList \<Rightarrow> Inl (SSLError ''TLS peer has no verified certificate chain'')
      | Some (ChainList []) \<Rightarrow> Inl (SSLError ''TLS peer has no verified certificate chain'')
      | Some (ChainList items) \<Rightarrow> each_r (check_item rt) items)"

text \<open>
  \<open>_VerifiedSocket.do_handshake\<close>: \<open>base\<close> is the outcome of the ordinary handshake; the result holds
  whether the socket was closed and what the call raises.
\<close>

definition socket_do_handshake ::
  "tls_runtime \<Rightarrow> tls_connection \<Rightarrow> unit result \<Rightarrow> bool \<times> unit result" where
  "socket_do_handshake rt conn base =
     (case bind_r base (\<lambda>_. check_verified_keys rt conn) of
        Inr u \<Rightarrow> (False, Inr u)
      | Inl SSLWantReadError \<Rightarrow> (False, Inl SSLWantReadError)
      | Inl SSLWantWriteError \<Rightarrow> (False, Inl SSLWantWriteError)
      | Inl e \<Rightarrow> (True, Inl e))"

definition object_do_handshake :: "tls_runtime \<Rightarrow> tls_connection \<Rightarrow> unit result \<Rightarrow> unit result" where
  "object_do_handshake rt conn base = bind_r base (\<lambda>_. check_verified_keys rt conn)"

section \<open>Contexts\<close>

record ssl_context =
  cx_cert_required :: bool
  cx_check_hostname :: bool
  cx_minimum_version :: int
  cx_security_level :: int
  cx_ciphers :: "(pystr \<times> pystr) list"
  cx_verified_socket :: bool
  cx_verified_object :: bool

text \<open>\<open>ssl.TLSVersion.TLSv1_2\<close>; the two symbolic versions are negative numbers.\<close>

definition TLSv1_2 :: int where
  "TLSv1_2 = 771"

definition cipher_string :: "ssl_context \<Rightarrow> pystr" where
  "cipher_string cx =
     join_on 58 (map fst (filter (\<lambda>c. snd c \<noteq> lit ''TLSv1.3'') (cx_ciphers cx)) @ [lit ''@SECLEVEL=2''])"

definition enforce_peer_key_policy ::
  "(pystr \<Rightarrow> ssl_context \<Rightarrow> ssl_context result) \<Rightarrow> ssl_context \<Rightarrow> ssl_context result" where
  "enforce_peer_key_policy set_ciphers cx =
     (if \<not> cx_cert_required cx \<or> \<not> cx_check_hostname cx
      then Inl (ValueError ''TLS context must verify certificates and hostnames'')
      else
        (let cx1 = cx\<lparr>cx_minimum_version := max (cx_minimum_version cx) TLSv1_2\<rparr>
         in bind_r (if cx_security_level cx1 < 2 then set_ciphers (cipher_string cx1) cx1 else Inr cx1)
              (\<lambda>cx2. Inr (cx2\<lparr>cx_verified_socket := True, cx_verified_object := True\<rparr>))))"

record tls_loader =
  ld_new_context :: ssl_context
  ld_cert_chain :: "pystr \<Rightarrow> pystr option \<Rightarrow> ssl_context \<Rightarrow> ssl_context result"
  ld_verify_locations :: "pystr \<Rightarrow> ssl_context \<Rightarrow> ssl_context result"
  ld_default_certs :: "ssl_context \<Rightarrow> ssl_context result"
  ld_set_ciphers :: "pystr \<Rightarrow> ssl_context \<Rightarrow> ssl_context result"

definition mqtt_context ::
  "tls_loader \<Rightarrow> pystr option \<Rightarrow> pystr option \<Rightarrow> pystr option \<Rightarrow> ssl_context result" where
  "mqtt_context ld ca_certs certfile keyfile =
     bind_r (case certfile of None \<Rightarrow> Inr (ld_new_context ld)
             | Some c \<Rightarrow> ld_cert_chain ld c keyfile (ld_new_context ld)) (\<lambda>cx1.
     bind_r (case ca_certs of Some ca \<Rightarrow> ld_verify_locations ld ca cx1
             | None \<Rightarrow> ld_default_certs ld cx1) (\<lambda>cx2.
     enforce_peer_key_policy (ld_set_ciphers ld) cx2))"

section \<open>Native inspection on macOS\<close>

text \<open>
  \<open>_darwin_certificate.py\<close>: pointers are numbers, NULL is 0. The record holds the framework calls:
  type identifiers, dictionary lookup, 64-bit number conversion (success and value), equality, and
  the four constructors.
\<close>

record security_framework =
  sf_is_macos :: bool
  sf_constant :: "string \<Rightarrow> nat"
  sf_type_id :: "nat \<Rightarrow> nat"
  sf_dict_type :: nat
  sf_string_type :: nat
  sf_number_type :: nat
  sf_dict_value :: "nat \<Rightarrow> nat \<Rightarrow> nat"
  sf_number_value :: "nat \<Rightarrow> bool \<times> int"
  sf_equal :: "nat \<Rightarrow> nat \<Rightarrow> bool"
  sf_data_create :: "bytes \<Rightarrow> nat"
  sf_cert_create :: "nat \<Rightarrow> nat"
  sf_copy_key :: "nat \<Rightarrow> nat"
  sf_copy_attributes :: "nat \<Rightarrow> nat"

definition native_constant :: "security_framework \<Rightarrow> string \<Rightarrow> nat result" where
  "native_constant sf name =
     (if sf_constant sf name = 0
      then Inl (OSError ''Security framework key metadata constants are unavailable'')
      else Inr (sf_constant sf name))"

text \<open>\<open>_native()\<close>: the four constants are read when the object is made.\<close>

definition native :: "security_framework \<Rightarrow> (nat \<times> nat \<times> nat \<times> nat) result" where
  "native sf =
     (if \<not> sf_is_macos sf then Inl (OSError ''Native certificate key inspection requires macOS'')
      else bind_r (native_constant sf ''kSecAttrKeyType'') (\<lambda>kt.
           bind_r (native_constant sf ''kSecAttrKeySizeInBits'') (\<lambda>kb.
           bind_r (native_constant sf ''kSecAttrKeyTypeRSA'') (\<lambda>rsa.
           bind_r (native_constant sf ''kSecAttrKeyTypeECSECPrimeRandom'') (\<lambda>ec.
           Inr (kt, kb, rsa, ec))))))"

definition meets_minimum ::
  "security_framework \<Rightarrow> nat \<times> nat \<times> nat \<times> nat \<Rightarrow> nat \<Rightarrow> bool result" where
  "meets_minimum sf consts attributes =
     (case consts of (kt, kb, rsa, ec) \<Rightarrow>
        if sf_type_id sf attributes \<noteq> sf_dict_type sf
        then Inl (OSError ''Security framework returned invalid key attributes'')
        else
          (let key_type = sf_dict_value sf attributes kt;
               key_bits = sf_dict_value sf attributes kb
           in if key_type = 0 \<or> key_bits = 0
              then Inl (OSError ''Security framework returned incomplete key attributes'')
              else if sf_type_id sf key_type \<noteq> sf_string_type sf
                      \<or> sf_type_id sf key_bits \<noteq> sf_number_type sf
              then Inl (OSError ''Security framework returned invalid key attribute types'')
              else if \<not> fst (sf_number_value sf key_bits) \<or> snd (sf_number_value sf key_bits) \<le> 0
              then Inl (OSError ''Security framework returned an invalid key size'')
              else if sf_equal sf key_type rsa then Inr (snd (sf_number_value sf key_bits) \<ge> 2048)
              else if sf_equal sf key_type ec then Inr (snd (sf_number_value sf key_bits) \<ge> 224)
              else Inr False))"

text \<open>
  \<open>certificate_key_meets_minimum\<close> with its \<open>ExitStack\<close>: the second component lists the objects
  passed to \<open>CFRelease\<close>, in the order of release (last owned first).
\<close>

definition own_error :: exn where
  "own_error = OSError ''Security framework could not read certificate key metadata''"

definition certificate_key_meets_minimum ::
  "security_framework \<Rightarrow> bytes \<Rightarrow> bool result \<times> nat list" where
  "certificate_key_meets_minimum sf der =
     (if der = [] then (Inl (ValueError ''Certificate must be nonempty DER bytes''), [])
      else (case native sf of
        Inl e \<Rightarrow> (Inl e, [])
      | Inr consts \<Rightarrow>
          (let dat = sf_data_create sf der
           in if dat = 0 then (Inl own_error, [])
              else (let cert = sf_cert_create sf dat
                    in if cert = 0 then (Inl (ValueError ''Certificate is not valid DER''), [dat])
                       else (let key = sf_copy_key sf cert
                             in if key = 0 then (Inl own_error, [cert, dat])
                                else (let attrs = sf_copy_attributes sf key
                                      in if attrs = 0 then (Inl own_error, [key, cert, dat])
                                         else (meets_minimum sf consts attrs,
                                               [attrs, key, cert, dat])))))))"

section \<open>Lemmas\<close>

lemma nat_bit_length_ge: "k \<le> nat_bit_length n \<longleftrightarrow> k = 0 \<or> 2 ^ (k - 1) \<le> n"
proof (induction n arbitrary: k rule: nat_bit_length.induct)
  case (1 n)
  show ?case
  proof (cases "n = 0")
    case True
    then show ?thesis by (cases k) (simp_all add: nat_bit_length.simps [of 0])
  next
    case False
    show ?thesis
    proof (cases k)
      case 0
      then show ?thesis by simp
    next
      case (Suc j)
      have "Suc j \<le> nat_bit_length n \<longleftrightarrow> j \<le> nat_bit_length (n div 2)"
        using False by (simp add: nat_bit_length.simps [of n])
      also have "\<dots> \<longleftrightarrow> j = 0 \<or> 2 ^ (j - 1) \<le> n div 2"
        using "1.IH" False by blast
      also have "\<dots> \<longleftrightarrow> 2 ^ j \<le> n"
        using False by (cases j) (auto simp: less_eq_div_iff_mult_less_eq mult.commute)
      finally show ?thesis using Suc by simp
    qed
  qed
qed

lemma bit_length_ge: "0 < k \<Longrightarrow> k \<le> bit_length n \<longleftrightarrow> 2 ^ (k - 1) \<le> \<bar>n\<bar>"
  by (simp add: bit_length_def nat_bit_length_ge le_nat_iff)

lemma check_item_ok:
  "check_item rt item = Inr () \<longleftrightarrow>
     (\<exists>der. item_der rt item = Inr der \<and> certificate_key_ok rt der = Inr True)"
  by (auto simp: check_item_def bind_r_Inr_iff)

lemma check_verified_keys_ok:
  "check_verified_keys rt conn = Inr () \<longleftrightarrow>
     (\<exists>items. (case conn_chain conn of Some c \<Rightarrow> Some c | None \<Rightarrow> conn_inner_chain conn)
          = Some (ChainList items)
        \<and> items \<noteq> [] \<and> (\<forall>item\<in>set items. check_item rt item = Inr ()))"
  unfolding check_verified_keys_def
  by (auto simp: each_r_Inr_iff bind_r_Inr_iff split: option.splits chain_value.splits list.splits)

text \<open>
  The key minima are exact at the bit level: an RSA modulus is accepted from 2 to the power 2047
  on (so never one of 2047 bits), a DSA key with both its bounds, an EC key from 224 bits.
\<close>

theorem key_minimum_exact:
  "(key_meets_minimum (RSAKey n) \<longleftrightarrow> 2 ^ 2047 \<le> \<bar>n\<bar>)
   \<and> (key_meets_minimum (DSAKey p q) \<longleftrightarrow> 2 ^ 2047 \<le> \<bar>p\<bar> \<and> 2 ^ 223 \<le> \<bar>q\<bar>)
   \<and> (key_meets_minimum (ECKey k) \<longleftrightarrow> 224 \<le> k)
   \<and> \<not> key_meets_minimum OtherKey"
  using bit_length_ge [of 2048] bit_length_ge [of 224] by (simp add: key_meets_minimum_def)

text \<open>
  C14: a socket comes out of the handshake open and without an exception only if the ordinary
  handshake succeeded and the runtime exposed a non-empty verified chain every certificate of which
  decodes to an acceptable key; any exception other than an incomplete non-blocking handshake closes
  the socket.
\<close>

theorem socket_handshake_policy:
  "(socket_do_handshake rt conn base = (False, Inr ()) \<longleftrightarrow>
      base = Inr () \<and>
      (\<exists>items. (case conn_chain conn of Some c \<Rightarrow> Some c | None \<Rightarrow> conn_inner_chain conn)
           = Some (ChainList items) \<and> items \<noteq> []
         \<and> (\<forall>item\<in>set items. \<exists>der. item_der rt item = Inr der \<and> certificate_key_ok rt der = Inr True)))
   \<and> (\<forall>closed e. socket_do_handshake rt conn base = (closed, Inl e) \<longrightarrow>
        closed = (e \<noteq> SSLWantReadError \<and> e \<noteq> SSLWantWriteError))"
proof
  show "socket_do_handshake rt conn base = (False, Inr ()) \<longleftrightarrow>
      base = Inr () \<and>
      (\<exists>items. (case conn_chain conn of Some c \<Rightarrow> Some c | None \<Rightarrow> conn_inner_chain conn)
           = Some (ChainList items) \<and> items \<noteq> []
         \<and> (\<forall>item\<in>set items. \<exists>der. item_der rt item = Inr der \<and> certificate_key_ok rt der = Inr True))"
  proof -
    have "socket_do_handshake rt conn base = (False, Inr ()) \<longleftrightarrow>
        bind_r base (\<lambda>_. check_verified_keys rt conn) = Inr ()"
      by (auto simp: socket_do_handshake_def split: sum.splits exn.splits)
    also have "\<dots> \<longleftrightarrow> base = Inr () \<and> check_verified_keys rt conn = Inr ()"
      by (cases base) auto
    finally show ?thesis by (simp add: check_verified_keys_ok check_item_ok)
  qed
  show "\<forall>closed e. socket_do_handshake rt conn base = (closed, Inl e) \<longrightarrow>
        closed = (e \<noteq> SSLWantReadError \<and> e \<noteq> SSLWantWriteError)"
    by (auto simp: socket_do_handshake_def split: sum.splits exn.splits)
qed

definition sample_runtime :: tls_runtime where
  "sample_runtime = \<lparr>rt_darwin_x86_64 = False, rt_native = (\<lambda>_. Inr False), rt_cryptography = True,
     rt_load_key = (\<lambda>der. if der = [1] then Inr (ECKey 256) else Inr (ECKey 192)),
     rt_pem_to_der = (\<lambda>_. Inr [1])\<rparr>"

theorem socket_handshake_policy_witness:
  "socket_do_handshake sample_runtime
     \<lparr>conn_chain = None, conn_inner_chain = Some (ChainList [DerItem [1], PemItem []])\<rparr> (Inr ())
   = (False, Inr ())"
proof -
  have "certificate_key_ok sample_runtime [1] = Inr True"
    by (simp add: certificate_key_ok_def sample_runtime_def key_meets_minimum_def)
  then show ?thesis
    by (subst socket_handshake_policy [THEN conjunct1])
      (simp add: item_der_def, simp add: sample_runtime_def)
qed

text \<open>
  What the policy relies on from \<open>SSLContext.set_ciphers\<close>: a cipher string ending in
  \<open>@SECLEVEL=2\<close> raises the security level, and the call touches neither verification nor versions.
\<close>

definition set_ciphers_conforms :: "(pystr \<Rightarrow> ssl_context \<Rightarrow> ssl_context result) \<Rightarrow> bool" where
  "set_ciphers_conforms sc \<longleftrightarrow>
     (\<forall>cx names cx'. sc (join_on 58 (names @ [lit ''@SECLEVEL=2''])) cx = Inr cx' \<longrightarrow>
        cx_security_level cx' = 2 \<and> cx_cert_required cx' = cx_cert_required cx
        \<and> cx_check_hostname cx' = cx_check_hostname cx
        \<and> cx_minimum_version cx' = cx_minimum_version cx)"

text \<open>
  C20: every context \<open>mqtt_context\<close> returns verifies certificates and host names, speaks TLS 1.2 or
  later at security level 2 or more, and makes its connections with the two verifying classes,
  whatever the loaders of certificates did to the context before the policy was applied.
\<close>

theorem mqtt_context_enforced:
  assumes "mqtt_context ld ca cert key = Inr cx" "set_ciphers_conforms (ld_set_ciphers ld)"
  shows "cx_cert_required cx \<and> cx_check_hostname cx \<and> 771 \<le> cx_minimum_version cx
    \<and> 2 \<le> cx_security_level cx \<and> cx_verified_socket cx \<and> cx_verified_object cx"
proof -
  obtain cx0 where e: "enforce_peer_key_policy (ld_set_ciphers ld) cx0 = Inr cx"
    using assms(1) by (auto simp: mqtt_context_def bind_r_Inr_iff)
  define cx1 where "cx1 = cx0\<lparr>cx_minimum_version := max (cx_minimum_version cx0) TLSv1_2\<rparr>"
  from e obtain cx2 where v: "cx_cert_required cx0" "cx_check_hostname cx0"
      and c: "(if cx_security_level cx1 < 2 then ld_set_ciphers ld (cipher_string cx1) cx1 else Inr cx1)
                = Inr cx2"
      and cx: "cx = cx2\<lparr>cx_verified_socket := True, cx_verified_object := True\<rparr>"
    by (auto simp: enforce_peer_key_policy_def Let_def bind_r_Inr_iff cx1_def split: if_splits)
  have "2 \<le> cx_security_level cx2 \<and> cx_cert_required cx2 = cx_cert_required cx1
      \<and> cx_check_hostname cx2 = cx_check_hostname cx1 \<and> cx_minimum_version cx2 = cx_minimum_version cx1"
  proof (cases "cx_security_level cx1 < 2")
    case True
    with c assms(2) show ?thesis
      unfolding set_ciphers_conforms_def cipher_string_def by force
  next
    case False
    with c show ?thesis by simp
  qed
  with v cx show ?thesis by (simp add: cx1_def TLSv1_2_def)
qed

definition sample_context :: ssl_context where
  "sample_context = \<lparr>cx_cert_required = True, cx_check_hostname = True, cx_minimum_version = - 2,
     cx_security_level = 1, cx_ciphers = [], cx_verified_socket = False, cx_verified_object = False\<rparr>"

definition sample_loader :: tls_loader where
  "sample_loader = \<lparr>ld_new_context = sample_context, ld_cert_chain = (\<lambda>_ _. Inr),
     ld_verify_locations = (\<lambda>_. Inr), ld_default_certs = Inr,
     ld_set_ciphers = (\<lambda>_ cx. Inr (cx\<lparr>cx_security_level := 2\<rparr>))\<rparr>"

theorem mqtt_context_enforced_witness:
  "\<exists>cx. mqtt_context sample_loader None None None = Inr cx \<and> 771 \<le> cx_minimum_version cx
     \<and> 2 \<le> cx_security_level cx \<and> cx_verified_socket cx"
proof -
  obtain cx where cx: "mqtt_context sample_loader None None None = Inr cx"
    by (simp add: mqtt_context_def sample_loader_def enforce_peer_key_policy_def sample_context_def)
  have "set_ciphers_conforms (ld_set_ciphers sample_loader)"
    by (auto simp: set_ciphers_conforms_def sample_loader_def)
  from mqtt_context_enforced [OF cx this] cx show ?thesis by blast
qed

text \<open>
  On every path, errors included, the native inspection releases exactly the framework objects
  it obtained (the non-null ones), each once and the last obtained first.
\<close>

theorem native_inspection_releases_all:
  "snd (certificate_key_meets_minimum sf der) =
     (if der = [] \<or> (\<exists>e. native sf = Inl e) then []
      else (let dat = sf_data_create sf der; cert = sf_cert_create sf dat;
                key = sf_copy_key sf cert; attrs = sf_copy_attributes sf key
            in rev (takeWhile (\<lambda>p. p \<noteq> 0) [dat, cert, key, attrs])))"
  by (cases "native sf") (simp_all add: certificate_key_meets_minimum_def Let_def)

end
