(* ===== verification/Mqtt_Client.thy ===== *)
theory Mqtt_Client
  imports Topics Tls_Policy
begin

text \<open>
  \<open>mqtt/client.py\<close>: the wrapper around the MQTT client library. The library object is a state of an
  arbitrary type \<open>'p\<close> with the operations the wrapper calls (record \<open>paho\<close>). Two threads meet here:
  the network thread of the library runs \<open>on_connect\<close>, \<open>on_disconnect\<close> and \<open>on_message\<close>, which
  schedule calls on the event loop (\<open>cl_ready\<close>, what \<open>call_soon_threadsafe\<close> appends to); the loop
  runs them one at a time. Registered callbacks have an identity of type \<open>'k\<close> (packet callbacks) or
  \<open>'m\<close> (message callbacks); what they do to the rest of the program is the argument \<open>run_p\<close>,
  \<open>run_m\<close> over a world \<open>'w\<close>.

  The lemmas give the invariant of the interleaving (\<open>client_inv\<close>: bounded queues, exactly one
  scheduled drain while messages are pending) and the order and completeness of delivery.
\<close>

section \<open>Data\<close>

record received_message =
  rm_topic :: pystr
  rm_payload :: bytes
  rm_qos :: int
  rm_retain :: bool

text \<open>The operations of the library object; \<open>MQTT_ERR_SUCCESS\<close> is 0.\<close>

record 'p paho =
  ph_new :: "pystr \<Rightarrow> 'p"
  ph_username_pw_set :: "pystr \<Rightarrow> pystr \<Rightarrow> 'p \<Rightarrow> 'p"
  ph_tls_set_context :: "ssl_context \<Rightarrow> 'p \<Rightarrow> 'p result"
  ph_connect_async :: "pystr \<Rightarrow> int \<Rightarrow> int \<Rightarrow> 'p \<Rightarrow> 'p result"
  ph_loop_start :: "'p \<Rightarrow> 'p"
  ph_loop_stop :: "'p \<Rightarrow> 'p"
  ph_disconnect :: "'p \<Rightarrow> 'p result"
  ph_is_connected :: "'p \<Rightarrow> bool"
  ph_subscribe :: "pystr \<Rightarrow> int \<Rightarrow> 'p \<Rightarrow> (int \<times> 'p) result"
  ph_unsubscribe :: "pystr \<Rightarrow> 'p \<Rightarrow> 'p result"
  ph_publish :: "pystr \<Rightarrow> bytes \<Rightarrow> int \<Rightarrow> bool \<Rightarrow> 'p \<Rightarrow> (int \<times> int \<times> 'p) result"

datatype loop_call = ConnectionChanged bool | ClearConnected | DrainMessages

record ('p, 'k, 'm) client =
  cl_paho :: "'p option"
  cl_connected :: bool
  cl_message_queue :: "(pystr \<times> bytes) list"
  cl_event_loop :: bool
  cl_pending :: "received_message list"
  cl_dispatch_pending :: bool
  cl_subscriptions :: "(pystr, int) dict"
  cl_message_callbacks :: "'m list"
  cl_packet_callbacks :: "'k list"
  cl_loop_task :: bool
  cl_shutdown :: bool
  cl_ready :: "loop_call list"

definition client_init :: "('p, 'k, 'm) client" where
  "client_init = \<lparr>cl_paho = None, cl_connected = False, cl_message_queue = [], cl_event_loop = False,
     cl_pending = [], cl_dispatch_pending = False, cl_subscriptions = [], cl_message_callbacks = [],
     cl_packet_callbacks = [], cl_loop_task = False, cl_shutdown = False, cl_ready = []\<rparr>"

section \<open>Connection callbacks\<close>

text \<open>The resubscription loop: results of \<open>subscribe\<close> are ignored, an exception ends it.\<close>

fun resubscribe :: "'p paho \<Rightarrow> (pystr, int) dict \<Rightarrow> 'p \<Rightarrow> 'p \<times> unit result" where
  "resubscribe ph [] p = (p, Inr ())"
| "resubscribe ph ((topic, qos) # subs) p =
     (case ph_subscribe ph topic qos p of
        Inl e \<Rightarrow> (p, Inl e)
      | Inr (rc, p') \<Rightarrow> resubscribe ph subs p')"

definition connection_changed ::
  "'p paho \<Rightarrow> bool \<Rightarrow> ('p, 'k, 'm) client \<Rightarrow> ('p, 'k, 'm) client \<times> unit result" where
  "connection_changed ph is_up c =
     (if is_up then
        (let c1 = c\<lparr>cl_connected := True\<rparr>
         in case cl_paho c1 of
              None \<Rightarrow> (c1, Inr ())
            | Some p \<Rightarrow> (case resubscribe ph (cl_subscriptions c1) p of
                          (p', r) \<Rightarrow> (c1\<lparr>cl_paho := Some p'\<rparr>, r)))
      else (c\<lparr>cl_connected := False\<rparr>, Inr ()))"

definition call_soon :: "loop_call \<Rightarrow> ('p, 'k, 'm) client \<Rightarrow> ('p, 'k, 'm) client" where
  "call_soon call c = c\<lparr>cl_ready := cl_ready c @ [call]\<rparr>"

definition on_connect ::
  "'p paho \<Rightarrow> int \<Rightarrow> ('p, 'k, 'm) client \<Rightarrow> ('p, 'k, 'm) client \<times> unit result" where
  "on_connect ph reason_code c =
     (if cl_event_loop c then (call_soon (ConnectionChanged (reason_code = 0)) c, Inr ())
      else connection_changed ph (reason_code = 0) c)"

definition on_disconnect :: "('p, 'k, 'm) client \<Rightarrow> ('p, 'k, 'm) client" where
  "on_disconnect c =
     (if cl_event_loop c then call_soon ClearConnected c else c\<lparr>cl_connected := False\<rparr>)"

section \<open>Message dispatch\<close>

text \<open>\<open>deque(maxlen=n).append\<close> and a full \<open>asyncio.Queue(maxsize=n)\<close> that drops its oldest entry.\<close>

definition deque_append :: "nat \<Rightarrow> 'a \<Rightarrow> 'a list \<Rightarrow> 'a list" where
  "deque_append n x q = (if n = 0 then [] else if n \<le> length q then tl q @ [x] else q @ [x])"

definition put_newest :: "nat \<Rightarrow> 'a \<Rightarrow> 'a list \<Rightarrow> 'a list" where
  "put_newest n x q = (if 0 < n \<and> n \<le> length q then tl q @ [x] else q @ [x])"

definition deliver_message ::
  "settings \<Rightarrow> ('k \<Rightarrow> received_message \<Rightarrow> 'w \<Rightarrow> 'w \<times> unit result)
   \<Rightarrow> ('m \<Rightarrow> pystr \<Rightarrow> bytes \<Rightarrow> 'w \<Rightarrow> 'w \<times> unit result)
   \<Rightarrow> received_message \<Rightarrow> ('p, 'k, 'm) client \<times> 'w \<Rightarrow> ('p, 'k, 'm) client \<times> 'w" where
  "deliver_message s run_p run_m msg cw =
     (case cw of (c, w) \<Rightarrow>
        (c\<lparr>cl_message_queue :=
             put_newest (nat (mqtt_queue_size s)) (rm_topic msg, rm_payload msg) (cl_message_queue c)\<rparr>,
         fold (\<lambda>m w. fst (run_m m (rm_topic msg) (rm_payload msg) w)) (cl_message_callbacks c)
           (fold (\<lambda>k w. fst (run_p k msg w)) (cl_packet_callbacks c) w)))"

definition drain_messages ::
  "settings \<Rightarrow> ('k \<Rightarrow> received_message \<Rightarrow> 'w \<Rightarrow> 'w \<times> unit result)
   \<Rightarrow> ('m \<Rightarrow> pystr \<Rightarrow> bytes \<Rightarrow> 'w \<Rightarrow> 'w \<times> unit result)
   \<Rightarrow> ('p, 'k, 'm) client \<times> 'w \<Rightarrow> ('p, 'k, 'm) client \<times> 'w" where
  "drain_messages s run_p run_m cw =
     (case cw of (c, w) \<Rightarrow>
        fold (deliver_message s run_p run_m) (cl_pending c)
          (c\<lparr>cl_pending := [], cl_dispatch_pending := False\<rparr>, w))"

definition on_message ::
  "settings \<Rightarrow> ('k \<Rightarrow> received_message \<Rightarrow> 'w \<Rightarrow> 'w \<times> unit result)
   \<Rightarrow> ('m \<Rightarrow> pystr \<Rightarrow> bytes \<Rightarrow> 'w \<Rightarrow> 'w \<times> unit result)
   \<Rightarrow> received_message \<Rightarrow> ('p, 'k, 'm) client \<times> 'w \<Rightarrow> ('p, 'k, 'm) client \<times> 'w" where
  "on_message s run_p run_m msg cw =
     (case cw of (c, w) \<Rightarrow>
        if int (length (rm_payload msg)) > max_message_bytes s then (c, w)
        else if \<not> cl_event_loop c then deliver_message s run_p run_m msg (c, w)
        else
          (let c1 = c\<lparr>cl_pending := deque_append (nat (mqtt_queue_size s)) msg (cl_pending c)\<rparr>
           in if \<not> cl_dispatch_pending c1
              then (call_soon DrainMessages (c1\<lparr>cl_dispatch_pending := True\<rparr>), w)
              else (c1, w)))"

text \<open>The event loop runs the oldest scheduled call.\<close>

definition run_ready ::
  "'p paho \<Rightarrow> settings \<Rightarrow> ('k \<Rightarrow> received_message \<Rightarrow> 'w \<Rightarrow> 'w \<times> unit result)
   \<Rightarrow> ('m \<Rightarrow> pystr \<Rightarrow> bytes \<Rightarrow> 'w \<Rightarrow> 'w \<times> unit result)
   \<Rightarrow> ('p, 'k, 'm) client \<times> 'w \<Rightarrow> ('p, 'k, 'm) client \<times> 'w" where
  "run_ready ph s run_p run_m cw =
     (case cw of (c, w) \<Rightarrow>
        (case cl_ready c of
           [] \<Rightarrow> (c, w)
         | call # rest \<Rightarrow>
             (let c1 = c\<lparr>cl_ready := rest\<rparr>
              in case call of
                   ConnectionChanged ok \<Rightarrow> (fst (connection_changed ph ok c1), w)
                 | ClearConnected \<Rightarrow> (c1\<lparr>cl_connected := False\<rparr>, w)
                 | DrainMessages \<Rightarrow> drain_messages s run_p run_m (c1, w))))"

section \<open>Callback registration\<close>

definition add_message_callback :: "'m \<Rightarrow> ('p, 'k, 'm) client \<Rightarrow> ('p, 'k, 'm) client" where
  "add_message_callback m c = c\<lparr>cl_message_callbacks := cl_message_callbacks c @ [m]\<rparr>"

definition remove_message_callback :: "'m \<Rightarrow> ('p, 'k, 'm) client \<Rightarrow> ('p, 'k, 'm) client" where
  "remove_message_callback m c =
     (if m \<in> set (cl_message_callbacks c)
      then c\<lparr>cl_message_callbacks := remove1 m (cl_message_callbacks c)\<rparr> else c)"

definition add_packet_callback :: "'k \<Rightarrow> ('p, 'k, 'm) client \<Rightarrow> ('p, 'k, 'm) client" where
  "add_packet_callback k c = c\<lparr>cl_packet_callbacks := cl_packet_callbacks c @ [k]\<rparr>"

definition remove_packet_callback :: "'k \<Rightarrow> ('p, 'k, 'm) client \<Rightarrow> ('p, 'k, 'm) client" where
  "remove_packet_callback k c =
     (if k \<in> set (cl_packet_callbacks c)
      then c\<lparr>cl_packet_callbacks := remove1 k (cl_packet_callbacks c)\<rparr> else c)"

section \<open>Calls from the application\<close>

definition is_connected :: "'p paho \<Rightarrow> ('p, 'k, 'm) client \<Rightarrow> bool" where
  "is_connected ph c =
     (case cl_paho c of None \<Rightarrow> False | Some p \<Rightarrow> ph_is_connected ph p \<and> cl_connected c)"

text \<open>
  \<open>connect\<close> up to its wait for the connection event: it returns at once when already connected,
  raises, or goes on to wait. \<open>connect_await\<close> is the end of the wait: the event was set in time, or
  ten seconds passed.
\<close>

datatype connect_outcome = AlreadyConnected | Awaiting | ConnectRaised exn

definition opt_str :: "pystr \<Rightarrow> pystr option" where
  "opt_str v = (if v = [] then None else Some v)"

definition connect_start ::
  "'p paho \<Rightarrow> tls_loader \<Rightarrow> settings \<Rightarrow> ('p, 'k, 'm) client \<Rightarrow> ('p, 'k, 'm) client \<times> connect_outcome" where
  "connect_start ph ld s c =
     (if (case cl_paho c of None \<Rightarrow> False | Some p \<Rightarrow> ph_is_connected ph p) then (c, AlreadyConnected)
      else
        (let c0 = c\<lparr>cl_event_loop := True\<rparr>;
             p0 = ph_new ph (mqtt_client_id s);
             p1 = (if mqtt_username s \<noteq> []
                   then ph_username_pw_set ph (mqtt_username s) (mqtt_password s) p0 else p0)
         in case (if mqtt_use_tls s
                  then bind_r (mqtt_context ld (opt_str (mqtt_ca_certs s)) (opt_str (mqtt_certfile s))
                                 (opt_str (mqtt_keyfile s)))
                         (\<lambda>cx. ph_tls_set_context ph cx p1)
                  else Inr p1) of
              Inl e \<Rightarrow> (c0\<lparr>cl_paho := Some p1\<rparr>, ConnectRaised e)
            | Inr p2 \<Rightarrow>
                (case ph_connect_async ph (mqtt_broker_host s) (mqtt_broker_port s)
                        (mqtt_keepalive s) p2 of
                   Inl e \<Rightarrow> (c0\<lparr>cl_paho := Some p2\<rparr>, ConnectRaised e)
                 | Inr p3 \<Rightarrow> (c0\<lparr>cl_paho := Some (ph_loop_start ph p3)\<rparr>, Awaiting))))"

definition connect_await :: "bool \<Rightarrow> ('p, 'k, 'm) client \<Rightarrow> unit result" where
  "connect_await in_time c = (if in_time \<and> cl_connected c then Inr () else Inl TimeoutError)"

text \<open>
  \<open>disconnect\<close>: \<open>cancelled\<close> tells whether the caller was cancelled while the network thread stopped;
  the thread is joined and the library disconnected in any case.
\<close>

definition disconnect ::
  "'p paho \<Rightarrow> bool \<Rightarrow> ('p, 'k, 'm) client \<Rightarrow> ('p, 'k, 'm) client \<times> unit result" where
  "disconnect ph cancelled c =
     (let c1 = c\<lparr>cl_shutdown := True\<rparr>
      in case cl_paho c1 of
           None \<Rightarrow> (c1, Inr ())
         | Some p \<Rightarrow>
             (let p1 = ph_loop_stop ph p
              in case ph_disconnect ph p1 of
                   Inl e \<Rightarrow> (c1\<lparr>cl_paho := Some p1, cl_connected := False\<rparr>, Inl e)
                 | Inr p2 \<Rightarrow> (c1\<lparr>cl_paho := Some p2, cl_connected := False\<rparr>,
                              if cancelled then Inl CancelledError else Inr ())))"

definition subscribe ::
  "'p paho \<Rightarrow> pystr \<Rightarrow> int \<Rightarrow> ('p, 'k, 'm) client \<Rightarrow> ('p, 'k, 'm) client \<times> unit result" where
  "subscribe ph topic qos c =
     (if \<not> is_connected ph c then (c, Inl (RuntimeError ''MQTT client not connected''))
      else (case ph_subscribe ph topic qos (the (cl_paho c)) of
              Inl e \<Rightarrow> (c, Inl e)
            | Inr (rc, p) \<Rightarrow>
                (let c1 = c\<lparr>cl_paho := Some p\<rparr>
                 in if rc \<noteq> 0 then (c1, Inl (RuntimeError ''MQTT subscription failed''))
                    else (c1\<lparr>cl_subscriptions := AList.update topic qos (cl_subscriptions c1)\<rparr>, Inr ()))))"

definition unsubscribe ::
  "'p paho \<Rightarrow> pystr \<Rightarrow> ('p, 'k, 'm) client \<Rightarrow> ('p, 'k, 'm) client \<times> unit result" where
  "unsubscribe ph topic c =
     (let c1 = c\<lparr>cl_subscriptions := AList.delete topic (cl_subscriptions c)\<rparr>
      in if \<not> is_connected ph c1 then (c1, Inr ())
         else (case ph_unsubscribe ph topic (the (cl_paho c1)) of
                 Inl e \<Rightarrow> (c1, Inl e)
               | Inr p \<Rightarrow> (c1\<lparr>cl_paho := Some p\<rparr>, Inr ())))"

definition publish ::
  "'p paho \<Rightarrow> pystr \<Rightarrow> bytes \<Rightarrow> int \<Rightarrow> bool \<Rightarrow> ('p, 'k, 'm) client \<Rightarrow> ('p, 'k, 'm) client \<times> int result" where
  "publish ph topic payload qos retain c =
     (if \<not> is_connected ph c then (c, Inl (RuntimeError ''MQTT client not connected''))
      else (case ph_publish ph topic payload qos retain (the (cl_paho c)) of
              Inl e \<Rightarrow> (c, Inl e)
            | Inr (rc, mid, p) \<Rightarrow>
                (c\<lparr>cl_paho := Some p\<rparr>,
                 if rc \<noteq> 0 then Inl (RuntimeError ''MQTT publish rejected'') else Inr mid)))"

text \<open>\<open>get_message\<close>: \<open>None\<close> while the queue is empty (the call waits).\<close>

definition get_message ::
  "('p, 'k, 'm) client \<Rightarrow> (('p, 'k, 'm) client \<times> (pystr \<times> bytes)) option" where
  "get_message c =
     (case cl_message_queue c of
        [] \<Rightarrow> None
      | m # ms \<Rightarrow> Some (c\<lparr>cl_message_queue := ms\<rparr>, m))"

definition message_queue_empty :: "('p, 'k, 'm) client \<Rightarrow> bool" where
  "message_queue_empty c \<longleftrightarrow> cl_message_queue c = []"

section \<open>The buffers keep the newest entries\<close>

lemma newest_snoc_full: "length q = Suc n \<Longrightarrow> newest (Suc n) (q @ [x]) = tl q @ [x]"
  by (cases q) (simp_all add: newest_def)

interpretation pending_deque: bounded_buffer "Suc n" "deque_append (Suc n)" "\<lambda>q. q" for n
proof unfold_locales
  fix q :: "'a list" and x
  assume "length q \<le> Suc n"
  then show "deque_append (Suc n) x q = newest (Suc n) (q @ [x])"
    by (cases "length q = Suc n") (auto simp: deque_append_def newest_snoc_full newest_short)
qed

interpretation message_queue: bounded_buffer "Suc n" "put_newest (Suc n)" "\<lambda>q. q" for n
proof unfold_locales
  fix q :: "'a list" and x
  assume "length q \<le> Suc n"
  then show "put_newest (Suc n) x q = newest (Suc n) (q @ [x])"
    by (cases "length q = Suc n") (auto simp: put_newest_def newest_snoc_full newest_short)
qed

lemma deque_append_bounded: "0 < n \<Longrightarrow> length q \<le> n \<Longrightarrow> length (deque_append n x q) \<le> n"
  using pending_deque.push_bounded [of q "n - 1" x] by simp

lemma put_newest_all_bounded: "0 < n \<Longrightarrow> length q \<le> n \<Longrightarrow> length (fold (put_newest n) xs q) \<le> n"
  using message_queue.push_all [of q "n - 1" xs] by simp

section \<open>The interleaving of the two threads\<close>

inductive client_step ::
  "'p paho \<Rightarrow> settings \<Rightarrow> ('k \<Rightarrow> received_message \<Rightarrow> 'w \<Rightarrow> 'w \<times> unit result)
   \<Rightarrow> ('m \<Rightarrow> pystr \<Rightarrow> bytes \<Rightarrow> 'w \<Rightarrow> 'w \<times> unit result)
   \<Rightarrow> ('p, 'k, 'm) client \<times> 'w \<Rightarrow> ('p, 'k, 'm) client \<times> 'w \<Rightarrow> bool"
  for ph :: "'p paho" and s :: settings
    and run_p :: "'k \<Rightarrow> received_message \<Rightarrow> 'w \<Rightarrow> 'w \<times> unit result"
    and run_m :: "'m \<Rightarrow> pystr \<Rightarrow> bytes \<Rightarrow> 'w \<Rightarrow> 'w \<times> unit result"
where
  net_connect: "client_step ph s run_p run_m (c, w) (fst (on_connect ph rc c), w)"
| net_disconnect: "client_step ph s run_p run_m (c, w) (on_disconnect c, w)"
| net_message: "client_step ph s run_p run_m (c, w) (on_message s run_p run_m msg (c, w))"
| net_library: "cl_paho c = Some p \<Longrightarrow> client_step ph s run_p run_m (c, w) (c\<lparr>cl_paho := Some p'\<rparr>, w)"
| loop_turn: "client_step ph s run_p run_m (c, w) (run_ready ph s run_p run_m (c, w))"
| app_connect: "client_step ph s run_p run_m (c, w) (fst (connect_start ph ld s c), w)"
| app_disconnect: "client_step ph s run_p run_m (c, w) (fst (disconnect ph b c), w)"
| app_subscribe: "client_step ph s run_p run_m (c, w) (fst (subscribe ph topic qos c), w)"
| app_unsubscribe: "client_step ph s run_p run_m (c, w) (fst (unsubscribe ph topic c), w)"
| app_publish: "client_step ph s run_p run_m (c, w) (fst (publish ph topic pl qos retain c), w)"
| app_get: "get_message c = Some (c', m) \<Longrightarrow> client_step ph s run_p run_m (c, w) (c', w)"
| app_add_packet: "client_step ph s run_p run_m (c, w) (add_packet_callback k c, w)"
| app_remove_packet: "client_step ph s run_p run_m (c, w) (remove_packet_callback k c, w)"
| app_add_message: "client_step ph s run_p run_m (c, w) (add_message_callback cb c, w)"
| app_remove_message: "client_step ph s run_p run_m (c, w) (remove_message_callback cb c, w)"
| world: "client_step ph s run_p run_m (c, w) (c, w')"

definition client_inv :: "settings \<Rightarrow> ('p, 'k, 'm) client \<Rightarrow> bool" where
  "client_inv s c \<longleftrightarrow>
     1 \<le> mqtt_queue_size s
     \<and> length (cl_message_queue c) \<le> nat (mqtt_queue_size s)
     \<and> length (cl_pending c) \<le> nat (mqtt_queue_size s)
     \<and> count_list (cl_ready c) DrainMessages = (if cl_dispatch_pending c then 1 else 0)
     \<and> (cl_pending c \<noteq> [] \<longrightarrow> cl_dispatch_pending c)
     \<and> wf_dict (cl_subscriptions c)"

text \<open>What one message does to the world: packet callbacks first, then message callbacks.\<close>

definition deliver_world ::
  "('k \<Rightarrow> received_message \<Rightarrow> 'w \<Rightarrow> 'w \<times> unit result)
   \<Rightarrow> ('m \<Rightarrow> pystr \<Rightarrow> bytes \<Rightarrow> 'w \<Rightarrow> 'w \<times> unit result)
   \<Rightarrow> 'k list \<Rightarrow> 'm list \<Rightarrow> received_message \<Rightarrow> 'w \<Rightarrow> 'w" where
  "deliver_world run_p run_m ks ms msg w =
     fold (\<lambda>m w. fst (run_m m (rm_topic msg) (rm_payload msg) w)) ms
       (fold (\<lambda>k w. fst (run_p k msg w)) ks w)"

lemma deliver_message_eq:
  "deliver_message s run_p run_m msg (c, w) =
     (c\<lparr>cl_message_queue := put_newest (nat (mqtt_queue_size s)) (rm_topic msg, rm_payload msg)
         (cl_message_queue c)\<rparr>,
      deliver_world run_p run_m (cl_packet_callbacks c) (cl_message_callbacks c) msg w)"
  by (simp add: deliver_message_def deliver_world_def)

lemma fold_deliver:
  "fold (deliver_message s run_p run_m) msgs (c, w) =
     (c\<lparr>cl_message_queue := fold (put_newest (nat (mqtt_queue_size s)))
         (map (\<lambda>m. (rm_topic m, rm_payload m)) msgs) (cl_message_queue c)\<rparr>,
      fold (deliver_world run_p run_m (cl_packet_callbacks c) (cl_message_callbacks c)) msgs w)"
proof (induction msgs arbitrary: c w)
  case (Cons m msgs)
  show ?case by (simp add: deliver_message_eq Cons.IH)
qed simp

lemma drain_messages_eq:
  "drain_messages s run_p run_m (c, w) =
     (c\<lparr>cl_pending := [], cl_dispatch_pending := False,
        cl_message_queue := fold (put_newest (nat (mqtt_queue_size s)))
          (map (\<lambda>m. (rm_topic m, rm_payload m)) (cl_pending c)) (cl_message_queue c)\<rparr>,
      fold (deliver_world run_p run_m (cl_packet_callbacks c) (cl_message_callbacks c)) (cl_pending c) w)"
  by (simp add: drain_messages_def fold_deliver)

lemma client_inv_init: "settings_wf s \<Longrightarrow> client_inv s client_init"
  by (simp add: client_inv_def client_init_def settings_wf_bounds)

text \<open>Updates of fields the invariant does not mention.\<close>

lemma client_inv_frame [simp]:
  "client_inv s (c\<lparr>cl_paho := x\<rparr>) = client_inv s c"
  "client_inv s (c\<lparr>cl_connected := b\<rparr>) = client_inv s c"
  "client_inv s (c\<lparr>cl_event_loop := b\<rparr>) = client_inv s c"
  "client_inv s (c\<lparr>cl_shutdown := b\<rparr>) = client_inv s c"
  "client_inv s (c\<lparr>cl_packet_callbacks := ks\<rparr>) = client_inv s c"
  "client_inv s (c\<lparr>cl_message_callbacks := ms\<rparr>) = client_inv s c"
  by (simp_all add: client_inv_def)

lemma client_inv_subscriptions:
  "client_inv s c \<Longrightarrow> wf_dict d \<Longrightarrow> client_inv s (c\<lparr>cl_subscriptions := d\<rparr>)"
  by (simp add: client_inv_def)

lemma connection_changed_inv [simp]: "client_inv s (fst (connection_changed ph b c)) = client_inv s c"
  by (simp add: connection_changed_def Let_def split: option.splits prod.splits)

lemma on_connect_inv: "client_inv s c \<Longrightarrow> client_inv s (fst (on_connect ph rc c))"
  by (auto simp: on_connect_def call_soon_def) (auto simp: client_inv_def)

lemma on_disconnect_inv: "client_inv s c \<Longrightarrow> client_inv s (on_disconnect c)"
  by (auto simp: on_disconnect_def call_soon_def) (auto simp: client_inv_def)

lemma on_message_inv:
  assumes "client_inv s c"
  shows "client_inv s (fst (on_message s run_p run_m msg (c, w)))"
proof -
  have n: "0 < nat (mqtt_queue_size s)"
    using assms by (simp add: client_inv_def)
  have "length (put_newest (nat (mqtt_queue_size s)) x (cl_message_queue c)) \<le> nat (mqtt_queue_size s)" for x
    using put_newest_all_bounded [OF n, of "cl_message_queue c" "[x]"] assms by (simp add: client_inv_def)
  then have d: "client_inv s (fst (deliver_message s run_p run_m msg (c, w)))"
    using assms by (simp add: deliver_message_def client_inv_def)
  have "length (deque_append (nat (mqtt_queue_size s)) msg (cl_pending c)) \<le> nat (mqtt_queue_size s)"
    using deque_append_bounded [OF n, of "cl_pending c" msg] assms by (simp add: client_inv_def)
  with assms d show ?thesis
    by (auto simp: on_message_def Let_def call_soon_def client_inv_def)
qed

lemma drain_inv:
  assumes "client_inv s c" "cl_ready c = DrainMessages # rest"
  shows "client_inv s (fst (drain_messages s run_p run_m (c\<lparr>cl_ready := rest\<rparr>, w)))"
proof -
  have n: "0 < nat (mqtt_queue_size s)"
    using assms by (simp add: client_inv_def)
  have "length (fold (put_newest (nat (mqtt_queue_size s))) xs (cl_message_queue c)) \<le> nat (mqtt_queue_size s)" for xs
    using put_newest_all_bounded [OF n, of "cl_message_queue c" xs] assms(1) by (simp add: client_inv_def)
  moreover have "count_list rest DrainMessages = 0"
    using assms by (auto simp: client_inv_def split: if_splits)
  ultimately show ?thesis
    using assms by (simp add: drain_messages_eq client_inv_def)
qed

lemma run_ready_inv:
  assumes "client_inv s c"
  shows "client_inv s (fst (run_ready ph s run_p run_m (c, w)))"
proof (cases "cl_ready c")
  case Nil
  with assms show ?thesis by (simp add: run_ready_def)
next
  case (Cons call rest)
  have "client_inv s (c\<lparr>cl_ready := rest\<rparr>)" if "call \<noteq> DrainMessages"
    using assms Cons that by (simp add: client_inv_def)
  with Cons show ?thesis
    using drain_inv [OF assms, of rest run_p run_m w]
    by (cases call) (simp_all add: run_ready_def)
qed

lemma connect_start_inv: "client_inv s c \<Longrightarrow> client_inv s (fst (connect_start ph ld s c))"
  by (simp add: connect_start_def Let_def split: sum.splits)

lemma disconnect_inv: "client_inv s c \<Longrightarrow> client_inv s (fst (disconnect ph b c))"
  by (simp add: disconnect_def Let_def split: option.splits sum.splits)

lemma subscribe_inv: "client_inv s c \<Longrightarrow> client_inv s (fst (subscribe ph topic qos c))"
  by (auto simp: subscribe_def Let_def split: sum.splits prod.splits)
    (auto simp: client_inv_def)

lemma unsubscribe_inv: "client_inv s c \<Longrightarrow> client_inv s (fst (unsubscribe ph topic c))"
  by (auto simp: unsubscribe_def Let_def split: sum.splits) (auto simp: client_inv_def)

lemma publish_inv: "client_inv s c \<Longrightarrow> client_inv s (fst (publish ph topic pl qos r c))"
  by (auto simp: publish_def split: sum.splits prod.splits)

lemma get_message_inv: "client_inv s c \<Longrightarrow> get_message c = Some (c', m) \<Longrightarrow> client_inv s c'"
  by (auto simp: get_message_def client_inv_def split: list.splits)

lemmas client_op_inv =
  on_connect_inv on_disconnect_inv on_message_inv run_ready_inv connect_start_inv disconnect_inv
  subscribe_inv unsubscribe_inv publish_inv get_message_inv

lemma client_step_inv:
  "client_step ph s run_p run_m cw cw' \<Longrightarrow> client_inv s (fst cw) \<Longrightarrow> client_inv s (fst cw')"
  by (induction rule: client_step.induct)
    (auto intro: client_op_inv simp: add_packet_callback_def remove_packet_callback_def
      add_message_callback_def remove_message_callback_def)

interpretation client_system: transition_system
  "\<lambda>(c, w). c = client_init \<and> settings_wf s" "client_step ph s run_p run_m"
  "\<lambda>cw. client_inv s (fst cw)" for ph s run_p run_m
  by unfold_locales (auto simp: client_inv_init client_step_inv)

text \<open>
  C7: in every state the client can reach, under any interleaving of the network thread, the event
  loop and the application, both queues respect \<open>mqtt_queue_size\<close>, at most one drain is scheduled,
  and no wake-up is lost: pending messages always have a drain waiting on the event loop.
\<close>

theorem client_dispatch_invariant:
  assumes "settings_wf s" "(client_step ph s run_p run_m)\<^sup>*\<^sup>* (client_init, w0) (c, w)"
  shows "length (cl_message_queue c) \<le> nat (mqtt_queue_size s)
    \<and> length (cl_pending c) \<le> nat (mqtt_queue_size s)
    \<and> count_list (cl_ready c) DrainMessages \<le> 1
    \<and> (cl_pending c \<noteq> [] \<longrightarrow> DrainMessages \<in> set (cl_ready c))"
proof -
  have "client_inv s c"
    using client_system.inv_reachable [OF _ assms(2)] assms(1) by simp
  then show ?thesis
    using count_notin [of DrainMessages "cl_ready c"]
    by (auto simp: client_inv_def split: if_splits)
qed

text \<open>A burst of messages while the event loop is busy.\<close>

definition accepted :: "settings \<Rightarrow> received_message list \<Rightarrow> received_message list" where
  "accepted s msgs = filter (\<lambda>m. int (length (rm_payload m)) \<le> max_message_bytes s) msgs"

lemma on_message_burst:
  assumes "cl_event_loop c"
  shows "fold (on_message s run_p run_m) msgs (c, w) =
    (if accepted s msgs = [] then (c, w)
     else (c\<lparr>cl_pending := fold (deque_append (nat (mqtt_queue_size s))) (accepted s msgs) (cl_pending c),
             cl_dispatch_pending := True,
             cl_ready := (if cl_dispatch_pending c then cl_ready c else cl_ready c @ [DrainMessages])\<rparr>, w))"
  using assms
proof (induction msgs arbitrary: c)
  case (Cons m msgs)
  then show ?case by (simp add: on_message_def accepted_def Let_def call_soon_def)
qed (simp add: accepted_def)

lemma drain_burst:
  assumes "client_inv s c" "cl_event_loop c" "cl_pending c = []"
  shows "cl_pending (fst (fold (on_message s run_p run_m) msgs (c, w)))
    = newest (nat (mqtt_queue_size s)) (accepted s msgs)"
proof -
  obtain n where n: "nat (mqtt_queue_size s) = Suc n"
    using assms(1) by (cases "nat (mqtt_queue_size s)") (auto simp: client_inv_def)
  show ?thesis
    using pending_deque.push_all [of "[]" n "accepted s msgs"] assms(3)
    by (simp add: on_message_burst [OF assms(2)] n newest_def)
qed

text \<open>
  Delivery is in order and loses only the oldest messages of an overlong burst. Whatever arrives
  while the event loop is busy, the one scheduled drain calls every packet callback and then every
  message callback on the newest \<open>mqtt_queue_size\<close> messages within the size limit, oldest first, and
  leaves nothing pending.
\<close>

theorem burst_delivery:
  assumes "client_inv s c" "cl_event_loop c" "cl_pending c = []"
    and "fold (on_message s run_p run_m) msgs (c, w) = (c1, w1)"
    and "drain_messages s run_p run_m (c1, w1) = (c2, w2)"
  shows "cl_pending c2 = []
    \<and> w2 = fold (deliver_world run_p run_m (cl_packet_callbacks c) (cl_message_callbacks c))
              (newest (nat (mqtt_queue_size s)) (accepted s msgs)) w"
proof -
  have "cl_pending c1 = newest (nat (mqtt_queue_size s)) (accepted s msgs)"
    using drain_burst [OF assms(1-3), of run_p run_m msgs w] assms(4) by simp
  moreover have "w1 = w \<and> cl_packet_callbacks c1 = cl_packet_callbacks c
      \<and> cl_message_callbacks c1 = cl_message_callbacks c"
    using assms(4) by (auto simp: on_message_burst [OF assms(2)] split: if_splits)
  ultimately show ?thesis
    using assms(5) by (auto simp: drain_messages_eq)
qed

lemma run_ready_ready: "cl_ready (fst (run_ready ph s run_p run_m (c, w))) = tl (cl_ready c)"
proof (cases "cl_ready c")
  case (Cons call rest)
  then show ?thesis
    by (cases call) (simp_all add: run_ready_def connection_changed_def drain_messages_eq Let_def
        split: option.splits prod.splits)
qed (simp add: run_ready_def)

lemma run_ready_drain:
  "cl_ready c = DrainMessages # rest \<Longrightarrow> cl_pending (fst (run_ready ph s run_p run_m (c, w))) = []"
  by (simp add: run_ready_def drain_messages_eq)

lemma run_ready_until_drain:
  "cl_ready c = xs @ DrainMessages # ys \<Longrightarrow>
     cl_pending (fst ((run_ready ph s run_p run_m ^^ Suc (length xs)) (c, w))) = []"
proof (induction xs arbitrary: c w)
  case Nil
  then show ?case by (simp add: run_ready_drain)
next
  case (Cons x xs)
  obtain c' w' where r: "run_ready ph s run_p run_m (c, w) = (c', w')"
    by (cases "run_ready ph s run_p run_m (c, w)")
  then have "cl_ready c' = xs @ DrainMessages # ys"
    using run_ready_ready [of ph s run_p run_m c w] Cons.prems by simp
  from Cons.IH [OF this] show ?case
    by (simp only: funpow_Suc_right o_apply r length_Cons)
qed


section \<open>Witnesses\<close>

text \<open>A library object that records its subscriptions and accepts every call.\<close>

definition sample_paho :: "(pystr \<times> int) list paho" where
  "sample_paho = \<lparr>ph_new = (\<lambda>_. []), ph_username_pw_set = (\<lambda>_ _ p. p),
     ph_tls_set_context = (\<lambda>_. Inr), ph_connect_async = (\<lambda>_ _ _. Inr), ph_loop_start = (\<lambda>p. p),
     ph_loop_stop = (\<lambda>p. p), ph_disconnect = Inr, ph_is_connected = (\<lambda>_. True),
     ph_subscribe = (\<lambda>t q p. Inr (0, p @ [(t, q)])), ph_unsubscribe = (\<lambda>t p. Inr (filter (\<lambda>x. fst x \<noteq> t) p)),
     ph_publish = (\<lambda>_ _ _ _ p. Inr (0, 1, p))\<rparr>"

definition sample_run_p :: "unit \<Rightarrow> received_message \<Rightarrow> received_message list \<Rightarrow> received_message list \<times> unit result" where
  "sample_run_p k msg w = (w @ [msg], Inr ())"

definition sample_run_m :: "unit \<Rightarrow> pystr \<Rightarrow> bytes \<Rightarrow> received_message list \<Rightarrow> received_message list \<times> unit result" where
  "sample_run_m k t pl w = (w, Inr ())"

definition sample_message :: received_message where
  "sample_message = \<lparr>rm_topic = [97], rm_payload = [1], rm_qos = 0, rm_retain = False\<rparr>"

definition sample_client :: "((pystr \<times> int) list, unit, unit) client" where
  "sample_client = client_init\<lparr>cl_event_loop := True, cl_paho := Some []\<rparr>"

lemma example_sizes: "mqtt_queue_size example_settings = 256" "max_message_bytes example_settings = 1048576"
  by (simp_all add: example_settings_def default_settings_def)

lemma sample_connected:
  "fst (connect_start sample_paho ld example_settings client_init) = sample_client"
  by (simp add: connect_start_def client_init_def sample_client_def example_settings_def
      default_settings_def sample_paho_def)

lemma sample_burst:
  "on_message example_settings sample_run_p sample_run_m sample_message (sample_client, w) =
     (sample_client\<lparr>cl_pending := [sample_message], cl_dispatch_pending := True,
        cl_ready := [DrainMessages]\<rparr>, w)"
  by (simp add: on_message_def example_sizes sample_message_def sample_client_def client_init_def
      deque_append_def call_soon_def)

lemma sample_client_inv: "client_inv example_settings sample_client"
  by (simp add: sample_client_def client_inv_init example_settings_wf)

theorem client_dispatch_invariant_witness:
  "\<exists>c. (client_step sample_paho example_settings sample_run_p sample_run_m)\<^sup>*\<^sup>* (client_init, []) (c, [])
     \<and> cl_pending c = [sample_message] \<and> DrainMessages \<in> set (cl_ready c)"
proof -
  let ?st = "client_step sample_paho example_settings sample_run_p sample_run_m"
  let ?c = "sample_client\<lparr>cl_pending := [sample_message], cl_dispatch_pending := True,
        cl_ready := [DrainMessages]\<rparr>"
  have "?st (client_init, []) (sample_client, [])"
    using client_step.app_connect [of sample_paho example_settings sample_run_p sample_run_m
        client_init "[]"] by (simp add: sample_connected)
  moreover have "?st (sample_client, []) (?c, [])"
    using client_step.net_message [of sample_paho example_settings sample_run_p sample_run_m
        sample_client "[]" sample_message] by (simp only: sample_burst)
  ultimately have r: "?st\<^sup>*\<^sup>* (client_init, []) (?c, [])"
    by (meson converse_rtranclp_into_rtranclp r_into_rtranclp)
  from client_dispatch_invariant [OF example_settings_wf r] r show ?thesis
    by (intro exI [of _ ?c]) simp
qed

theorem burst_delivery_witness:
  "\<exists>c2. drain_messages example_settings sample_run_p sample_run_m
       (on_message example_settings sample_run_p sample_run_m sample_message (sample_client, []))
     = (c2, fold (deliver_world sample_run_p sample_run_m [] []) [sample_message] [])
     \<and> cl_pending c2 = []"
proof -
  obtain c1 w1 where 1: "on_message example_settings sample_run_p sample_run_m sample_message
      (sample_client, []) = (c1, w1)"
    by (cases "on_message example_settings sample_run_p sample_run_m sample_message (sample_client, [])")
  obtain c2 w2 where 2: "drain_messages example_settings sample_run_p sample_run_m (c1, w1) = (c2, w2)"
    by (cases "drain_messages example_settings sample_run_p sample_run_m (c1, w1)")
  have c: "cl_event_loop sample_client" "cl_pending sample_client = []"
      "cl_packet_callbacks sample_client = []" "cl_message_callbacks sample_client = []"
    by (simp_all add: sample_client_def client_init_def)
  have a: "newest (nat (mqtt_queue_size example_settings)) (accepted example_settings [sample_message])
      = [sample_message]"
    by (simp add: accepted_def example_sizes sample_message_def newest_short)
  from 1 have "fold (on_message example_settings sample_run_p sample_run_m) [sample_message]
      (sample_client, []) = (c1, w1)"
    by simp
  from burst_delivery [OF sample_client_inv c(1,2) this 2] show ?thesis
    unfolding 1 2 a c by simp
qed


end
