(* ===== verification/Mqtt_Service.thy ===== *)
theory Mqtt_Service
  imports Mqtt_Client Models
begin

text \<open>
  \<open>services/mqtt_service.py\<close>: publishing, shared subscriptions with owners, retained queries and
  topic statistics. The two calls the service makes on the client to change subscriptions are
  arguments of \<open>acquire_subscription\<close> and \<open>release_subscription\<close>; the interface
  \<open>subscription_backend\<close> states what they promise, the lemmas of the service are proved under it,
  and the interpretation discharges it for the client of \<open>Mqtt_Client\<close>.

  The critical sections of the source hold the subscription lock and contain no suspension point, so
  each operation is one step.
\<close>

section \<open>State\<close>

type_synonym owners = "(pystr, int) dict"

record service =
  sv_subscriptions :: "(pystr, int) dict"
  sv_owners :: "(pystr, owners) dict"
  sv_statistics :: "(pystr, topic_info) dict"

definition service_init :: service where
  "service_init = \<lparr>sv_subscriptions = [], sv_owners = [], sv_statistics = []\<rparr>"

text \<open>The identities of the packet callbacks the gateway registers.\<close>

datatype callback = HandleMessage | WsCallback pystr | RetainedReceive pystr

type_synonym 'p gclient = "('p, callback, unit) client"
type_synonym matcher = "pystr \<Rightarrow> pystr \<Rightarrow> bool"
type_synonym 'c sub_call = "pystr \<Rightarrow> int \<Rightarrow> 'c \<Rightarrow> 'c \<times> unit result"
type_synonym 'c unsub_call = "pystr \<Rightarrow> 'c \<Rightarrow> 'c \<times> unit result"

section \<open>Publishing\<close>

definition service_publish ::
  "'p paho \<Rightarrow> matcher \<Rightarrow> settings \<Rightarrow> publish_request \<Rightarrow> 'p gclient \<Rightarrow> 'p gclient \<times> publish_response result" where
  "service_publish ph m s request c =
     (case authorize_topic m s (pub_topic request) False of
        Inl e \<Rightarrow> (c, Inl e)
      | Inr _ \<Rightarrow>
          (let failed = \<lparr>presp_success = False, presp_message_id = None, presp_topic = pub_topic request\<rparr>
           in case utf8_encode (pub_payload request) of
                Inl _ \<Rightarrow> (c, Inr failed)
              | Inr payload \<Rightarrow>
                  (case publish ph (pub_topic request) payload (pub_qos request) (pub_retain request) c of
                     (c', Inl e) \<Rightarrow> (c', if is_exception e then Inr failed else Inl e)
                   | (c', Inr message_id) \<Rightarrow>
                       (c', Inr \<lparr>presp_success = True, presp_message_id = Some message_id,
                                 presp_topic = pub_topic request\<rparr>))))"

section \<open>Shared subscriptions\<close>

definition owners_of :: "service \<Rightarrow> pystr \<Rightarrow> owners" where
  "owners_of sv topic = (case map_of (sv_owners sv) topic of None \<Rightarrow> [] | Some os \<Rightarrow> os)"

definition acquire_subscription ::
  "'c sub_call \<Rightarrow> matcher \<Rightarrow> settings \<Rightarrow> pystr \<Rightarrow> int \<Rightarrow> pystr \<Rightarrow> bool
   \<Rightarrow> service \<times> 'c \<Rightarrow> (service \<times> 'c) \<times> unit result" where
  "acquire_subscription client_subscribe m s topic qos owner refresh st =
     (case st of (sv, c) \<Rightarrow>
        (case authorize_topic m s topic True of
           Inl e \<Rightarrow> ((sv, c), Inl e)
         | Inr _ \<Rightarrow>
             (let owners = AList.update owner qos (owners_of sv topic);
                  effective_qos = Max (set (map snd owners));
                  call = refresh \<or> map_of (sv_subscriptions sv) topic \<noteq> Some effective_qos
              in case (if call then client_subscribe topic effective_qos c else (c, Inr ())) of
                   (c', Inl e) \<Rightarrow> ((sv, c'), Inl e)
                 | (c', Inr _) \<Rightarrow>
                     ((sv\<lparr>sv_owners := AList.update topic owners (sv_owners sv),
                          sv_subscriptions := AList.update topic effective_qos (sv_subscriptions sv)\<rparr>,
                       c'), Inr ()))))"

definition release_subscription ::
  "'c unsub_call \<Rightarrow> pystr \<Rightarrow> pystr \<Rightarrow> service \<times> 'c \<Rightarrow> (service \<times> 'c) \<times> unit result" where
  "release_subscription client_unsubscribe topic owner st =
     (case st of (sv, c) \<Rightarrow>
        (let owners = owners_of sv topic
         in if owners = [] \<or> map_of owners owner = None then ((sv, c), Inr ())
            else if length owners > 1 then
              ((sv\<lparr>sv_owners := AList.update topic (AList.delete owner owners) (sv_owners sv)\<rparr>, c), Inr ())
            else
              (case client_unsubscribe topic c of
                 (c', r) \<Rightarrow>
                   ((sv\<lparr>sv_owners := AList.delete topic (sv_owners sv),
                        sv_subscriptions := AList.delete topic (sv_subscriptions sv)\<rparr>, c'), r))))"

definition rest_owner :: pystr where
  "rest_owner = lit ''rest''"

definition service_subscribe ::
  "'c sub_call \<Rightarrow> matcher \<Rightarrow> settings \<Rightarrow> subscribe_request \<Rightarrow> service \<times> 'c
   \<Rightarrow> (service \<times> 'c) \<times> subscribe_response result" where
  "service_subscribe client_subscribe m s request st =
     (case acquire_subscription client_subscribe m s (sub_topic request) (sub_qos request)
             rest_owner False st of
        (st', r) \<Rightarrow>
          (st', bind_r r (\<lambda>_. Inr \<lparr>sresp_success = True, sresp_topic = sub_topic request,
                                   sresp_qos = sub_qos request\<rparr>)))"

definition service_unsubscribe ::
  "'c unsub_call \<Rightarrow> matcher \<Rightarrow> settings \<Rightarrow> unsubscribe_request \<Rightarrow> service \<times> 'c
   \<Rightarrow> (service \<times> 'c) \<times> unsubscribe_response result" where
  "service_unsubscribe client_unsubscribe m s request st =
     (case authorize_topic m s (unsub_topic request) True of
        Inl e \<Rightarrow> (st, Inl e)
      | Inr _ \<Rightarrow>
          (case release_subscription client_unsubscribe (unsub_topic request) rest_owner st of
             (st', r) \<Rightarrow>
               (st', bind_r r (\<lambda>_. Inr \<lparr>uresp_success = True, uresp_topic = unsub_topic request\<rparr>))))"

section \<open>Retained queries\<close>

text \<open>
  \<open>query_retained\<close> in three parts: up to the wait for the retained message, the callback \<open>receive\<close>
  that completes the future, and the end of the wait. \<open>owner\<close> is the fresh name
  \<open>retained:<uuid>\<close> of the query. The wait ends with a message, with the timeout, or because the
  request was cancelled.
\<close>

datatype retained_outcome = RetainedMessage received_message | RetainedTimeout | RetainedCancelled

definition retained_failed :: "string \<Rightarrow> retained_response" where
  "retained_failed msg = \<lparr>rresp_success = False, rresp_message = None, rresp_error = Some (lit msg)\<rparr>"

definition receive_retained :: "pystr \<Rightarrow> received_message \<Rightarrow> received_message option \<Rightarrow> received_message option" where
  "receive_retained topic message future =
     (if rm_topic message = topic \<and> rm_retain message \<and> future = None then Some message else future)"

text \<open>The \<open>finally\<close> block: the callback is removed and the query's subscription released.\<close>

definition retained_cleanup ::
  "'p paho \<Rightarrow> pystr \<Rightarrow> pystr \<Rightarrow> service \<times> 'p gclient \<Rightarrow> (service \<times> 'p gclient) \<times> unit result" where
  "retained_cleanup ph topic owner st =
     (case st of (sv, c) \<Rightarrow>
        release_subscription (unsubscribe ph) topic owner
          (sv, remove_packet_callback (RetainedReceive owner) c))"

text \<open>The outcome of the first part: the query waits, or it is already over.\<close>

datatype retained_start = RetainedWaiting | RetainedDone "retained_response result"

definition query_retained_start ::
  "'p paho \<Rightarrow> matcher \<Rightarrow> settings \<Rightarrow> retained_request \<Rightarrow> pystr \<Rightarrow> service \<times> 'p gclient
   \<Rightarrow> (service \<times> 'p gclient) \<times> retained_start" where
  "query_retained_start ph m s request owner st =
     (case authorize_topic m s (ret_topic request) False of
        Inl e \<Rightarrow> (st, RetainedDone (Inl e))
      | Inr _ \<Rightarrow>
          (case st of (sv, c) \<Rightarrow>
             (case acquire_subscription (subscribe ph) m s (ret_topic request) 0 owner True
                     (sv, add_packet_callback (RetainedReceive owner) c) of
                (st1, Inr _) \<Rightarrow> (st1, RetainedWaiting)
              | (st1, Inl e) \<Rightarrow>
                  (case retained_cleanup ph (ret_topic request) owner st1 of
                     (st2, Inl e') \<Rightarrow> (st2, RetainedDone (Inl e'))
                   | (st2, Inr _) \<Rightarrow>
                       (st2, RetainedDone
                         (if e = TimeoutError then Inr (retained_failed ''Query timeout'')
                          else if is_exception e then Inr (retained_failed ''Retained query failed'')
                          else Inl e))))))"

definition query_retained_finish ::
  "'p paho \<Rightarrow> retained_request \<Rightarrow> pystr \<Rightarrow> retained_outcome \<Rightarrow> service \<times> 'p gclient
   \<Rightarrow> (service \<times> 'p gclient) \<times> retained_response result" where
  "query_retained_finish ph request owner outcome st =
     (let answer = (case outcome of
            RetainedMessage msg \<Rightarrow>
              (case utf8_decode (rm_payload msg) of
                 Inl _ \<Rightarrow> Inr (retained_failed ''Retained query failed'')
               | Inr payload \<Rightarrow>
                   Inr \<lparr>rresp_success = True,
                        rresp_message = Some \<lparr>rmsg_topic = rm_topic msg, rmsg_payload = payload,
                                              rmsg_qos = rm_qos msg, rmsg_retain = rm_retain msg\<rparr>,
                        rresp_error = None\<rparr>)
          | RetainedTimeout \<Rightarrow> Inr (retained_failed ''Query timeout'')
          | RetainedCancelled \<Rightarrow> Inl CancelledError)
      in case retained_cleanup ph (ret_topic request) owner st of
           (st', Inl e) \<Rightarrow> (st', Inl e)
         | (st', Inr _) \<Rightarrow> (st', answer))"

section \<open>Topic statistics\<close>

definition service_get_topic_info :: "matcher \<Rightarrow> settings \<Rightarrow> pystr \<Rightarrow> service \<Rightarrow> topic_info result" where
  "service_get_topic_info m s topic sv =
     bind_r (authorize_topic m s topic True) (\<lambda>_.
       Inr (case map_of (sv_statistics sv) topic of
              Some statistics \<Rightarrow> statistics
            | None \<Rightarrow> \<lparr>ti_topic = topic, ti_message_count = 0, ti_last_message = None\<rparr>))"

definition record_message ::
  "nat \<Rightarrow> pystr \<Rightarrow> mqtt_message \<Rightarrow> (pystr, topic_info) dict \<Rightarrow> (pystr, topic_info) dict" where
  "record_message bound topic msg stats =
     (let previous = map_of stats topic;
          popped = AList.delete topic stats;
          room = (if previous = None \<and> bound \<le> length popped then tl popped else popped);
          count = (case previous of Some p \<Rightarrow> ti_message_count p + 1 | None \<Rightarrow> 1)
      in AList.update topic \<lparr>ti_topic = topic, ti_message_count = count, ti_last_message = Some msg\<rparr> room)"

definition handle_message ::
  "matcher \<Rightarrow> settings \<Rightarrow> real \<Rightarrow> received_message \<Rightarrow> service \<Rightarrow> service \<times> unit result" where
  "handle_message m s now message sv =
     (if int (length (rm_payload message)) > max_message_bytes s then (sv, Inr ())
      else (case authorize_topic m s (rm_topic message) False of
              Inl (HTTPException _ _) \<Rightarrow> (sv, Inr ())
            | Inl e \<Rightarrow> (sv, Inl e)
            | Inr _ \<Rightarrow>
                (sv\<lparr>sv_statistics := record_message (nat (mqtt_queue_size s)) (rm_topic message)
                      \<lparr>mm_topic = rm_topic message, mm_payload = utf8_decode_replace (rm_payload message),
                       mm_qos = rm_qos message, mm_retain = rm_retain message, mm_timestamp = now\<rparr>
                      (sv_statistics sv)\<rparr>, Inr ())))"

definition get_subscriptions :: "service \<Rightarrow> (pystr, int) dict" where
  "get_subscriptions sv = sv_subscriptions sv"

definition is_subscribed :: "service \<Rightarrow> pystr \<Rightarrow> bool" where
  "is_subscribed sv topic \<longleftrightarrow> map_of (sv_subscriptions sv) topic \<noteq> None"

section \<open>The contract between the service and its client\<close>

text \<open>
  \<open>desired c\<close> is the subscription table the client replays after a reconnect. A successful
  \<open>subscribe\<close> records the filter, a failed one leaves the table alone, and \<open>unsubscribe\<close> removes the
  filter even when the broker cannot be told.
\<close>

locale subscription_backend =
  fixes desired :: "'c \<Rightarrow> (pystr, int) dict"
    and sub :: "'c sub_call"
    and unsub :: "'c unsub_call"
  assumes sub_ok: "sub t q c = (c', Inr ()) \<Longrightarrow> desired c' = AList.update t q (desired c)"
    and sub_err: "sub t q c = (c', Inl e) \<Longrightarrow> desired c' = desired c"
    and unsub_done: "unsub t c = (c', r) \<Longrightarrow> desired c' = AList.delete t (desired c)"

interpretation client_backend: subscription_backend cl_subscriptions "subscribe ph" "unsubscribe ph" for ph
proof unfold_locales
  fix t q and c c' :: "('a, 'b, 'c) client"
  assume "subscribe ph t q c = (c', Inr ())"
  then show "cl_subscriptions c' = AList.update t q (cl_subscriptions c)"
    by (auto simp: subscribe_def Let_def split: if_splits sum.splits prod.splits)
next
  fix t q e and c c' :: "('a, 'b, 'c) client"
  assume "subscribe ph t q c = (c', Inl e)"
  then show "cl_subscriptions c' = cl_subscriptions c"
    by (auto simp: subscribe_def Let_def split: if_splits sum.splits prod.splits)
next
  fix t r and c c' :: "('a, 'b, 'c) client"
  assume "unsubscribe ph t c = (c', r)"
  then show "cl_subscriptions c' = AList.delete t (cl_subscriptions c)"
    by (auto simp: unsubscribe_def Let_def split: if_splits sum.splits)
qed

text \<open>
  The invariant of the service: every subscribed filter has at least one owner and conversely, the
  quality of service in force covers every owner, and the client replays exactly the subscribed
  filters.
\<close>

definition service_wf :: "service \<Rightarrow> bool" where
  "service_wf sv \<longleftrightarrow>
     wf_dict (sv_subscriptions sv) \<and> wf_dict (sv_owners sv)
     \<and> (\<forall>t. (map_of (sv_subscriptions sv) t = None) = (map_of (sv_owners sv) t = None))
     \<and> (\<forall>t os. map_of (sv_owners sv) t = Some os \<longrightarrow> os \<noteq> [] \<and> wf_dict os)
     \<and> (\<forall>t os q. map_of (sv_owners sv) t = Some os \<longrightarrow> map_of (sv_subscriptions sv) t = Some q
          \<longrightarrow> (\<forall>p\<in>set os. snd p \<le> q))"

definition service_inv :: "('c \<Rightarrow> (pystr, int) dict) \<Rightarrow> service \<times> 'c \<Rightarrow> bool" where
  "service_inv desired st \<longleftrightarrow> service_wf (fst st) \<and> desired (snd st) = sv_subscriptions (fst st)"

lemma update_same: "map_of d k = Some v \<Longrightarrow> AList.update k v d = d"
  by (induction d) (auto split: if_splits)

lemma update_not_Nil [simp]: "AList.update k v d \<noteq> []"
  by (induction d) auto

lemma service_wfI:
  assumes "wf_dict (sv_subscriptions sv)" "wf_dict (sv_owners sv)"
    and "\<And>t. (map_of (sv_subscriptions sv) t = None) = (map_of (sv_owners sv) t = None)"
    and "\<And>t os. map_of (sv_owners sv) t = Some os \<Longrightarrow> os \<noteq> [] \<and> wf_dict os"
    and "\<And>t os q p. map_of (sv_owners sv) t = Some os \<Longrightarrow> map_of (sv_subscriptions sv) t = Some q
          \<Longrightarrow> p \<in> set os \<Longrightarrow> snd p \<le> q"
  shows "service_wf sv"
  using assms by (auto simp: service_wf_def)

lemma service_wfD:
  assumes "service_wf sv"
  shows "wf_dict (sv_subscriptions sv)" "wf_dict (sv_owners sv)"
    and "(map_of (sv_subscriptions sv) t = None) = (map_of (sv_owners sv) t = None)"
    and "map_of (sv_owners sv) t = Some os \<Longrightarrow> os \<noteq> [] \<and> wf_dict os"
    and "map_of (sv_owners sv) t = Some os \<Longrightarrow> map_of (sv_subscriptions sv) t = Some q
          \<Longrightarrow> p \<in> set os \<Longrightarrow> snd p \<le> q"
  using assms by (auto simp: service_wf_def)

lemma owners_of_wf: "service_wf sv \<Longrightarrow> wf_dict (owners_of sv t)"
  by (auto simp: owners_of_def dest: service_wfD(4) split: option.splits)

lemma service_wf_init: "service_wf service_init"
  by (simp add: service_wf_def service_init_def)

text \<open>The two changes to the tables.\<close>

lemma service_wf_acquire:
  assumes "service_wf sv" "owners = AList.update owner qos (owners_of sv topic)"
  shows "service_wf (sv\<lparr>sv_owners := AList.update topic owners (sv_owners sv),
    sv_subscriptions := AList.update topic (Max (set (map snd owners))) (sv_subscriptions sv)\<rparr>)"
proof (rule service_wfI, goal_cases)
  case 4
  with assms show ?case
    by (auto simp: owners_of_wf service_wfD split: if_splits)
next
  case (5 t os q p)
  with assms(1) show ?case
    by (auto simp: service_wfD split: if_splits)
qed (use assms(1) in \<open>auto simp: service_wfD\<close>)

lemma service_wf_release_one:
  assumes "service_wf sv" "1 < length (owners_of sv topic)"
  shows "service_wf (sv\<lparr>sv_owners := AList.update topic (AList.delete owner (owners_of sv topic)) (sv_owners sv)\<rparr>)"
proof -
  obtain os where os: "map_of (sv_owners sv) topic = Some os"
    using assms(2) by (auto simp: owners_of_def split: option.splits)
  then have eq: "owners_of sv topic = os" "wf_dict os"
    using assms(1) by (auto simp: owners_of_def service_wfD)
  have ne: "AList.delete owner os \<noteq> []"
  proof (cases "map_of os owner")
    case None
    with assms(2) eq show ?thesis by (auto simp: length_delete_absent)
  next
    case (Some v)
    from length_delete_present [OF eq(2) Some] assms(2) eq(1) show ?thesis by auto
  qed
  have sub: "set (AList.delete owner os) \<subseteq> set os"
    by (induction os) auto
  show ?thesis
  proof (rule service_wfI, goal_cases)
    case (3 t)
    with assms(1) os show ?case by (auto simp: service_wfD(3))
  next
    case (4 t)
    with assms(1) ne eq show ?case by (auto simp: service_wfD split: if_splits)
  next
    case (5 t os' q p)
    with assms(1) os sub eq show ?case
      by (auto dest: service_wfD(5) split: if_splits)
  qed (use assms(1) in \<open>auto simp: service_wfD\<close>)
qed

lemma service_wf_release_last:
  assumes "service_wf sv"
  shows "service_wf (sv\<lparr>sv_owners := AList.delete topic (sv_owners sv),
    sv_subscriptions := AList.delete topic (sv_subscriptions sv)\<rparr>)"
  by (rule service_wfI) (use assms in \<open>auto simp: service_wfD dest: service_wfD(4,5) split: if_splits\<close>)

context subscription_backend
begin

lemma acquire_inv:
  assumes "service_inv desired st"
    and "acquire_subscription sub m s topic qos owner refresh st = (st', r)"
  shows "service_inv desired st'"
proof -
  obtain sv c where st: "st = (sv, c)" by (cases st)
  have wf: "service_wf sv" "desired c = sv_subscriptions sv"
    using assms(1) st by (simp_all add: service_inv_def)
  have same: "map_of (sv_subscriptions sv) topic = Some q
      \<Longrightarrow> AList.update topic q (sv_subscriptions sv) = sv_subscriptions sv" for q
    by (rule update_same)
  show ?thesis
  proof (cases "authorize_topic m s topic True")
    case (Inl e)
    with assms st show ?thesis by (simp add: acquire_subscription_def)
  next
    case (Inr u)
    show ?thesis
      using assms(2) wf service_wf_acquire [OF wf(1) refl, of topic owner qos] unfolding st
      by (auto simp: acquire_subscription_def Inr Let_def service_inv_def same dest: sub_ok sub_err
          split: sum.splits prod.splits if_splits)
  qed
qed

lemma release_inv:
  assumes "service_inv desired st" "release_subscription unsub topic owner st = (st', r)"
  shows "service_inv desired st'"
proof -
  obtain sv c where st: "st = (sv, c)" by (cases st)
  have wf: "service_wf sv" "desired c = sv_subscriptions sv"
    using assms(1) st by (simp_all add: service_inv_def)
  show ?thesis
    using assms(2) st wf
    by (auto simp: release_subscription_def Let_def service_inv_def service_wf_release_one
        service_wf_release_last dest: unsub_done split: if_splits prod.splits)
qed

lemma acquire_failure_atomic:
  assumes "acquire_subscription sub m s topic qos owner refresh (sv, c) = ((sv', c'), Inl e)"
  shows "sv' = sv \<and> desired c' = desired c"
  using assms
  by (auto simp: acquire_subscription_def Let_def dest: sub_err split: sum.splits prod.splits if_splits)

lemma acquire_success:
  assumes "acquire_subscription sub m s topic qos owner refresh (sv, c) = ((sv', c'), Inr ())"
  shows "authorize_topic m s topic True = Inr ()"
    and "owners_of sv' topic = AList.update owner qos (owners_of sv topic)"
    and "map_of (sv_subscriptions sv') topic = Some (Max (snd ` set (owners_of sv' topic)))"
    and "topic' \<noteq> topic \<Longrightarrow> owners_of sv' topic' = owners_of sv topic'"
    and "topic' \<noteq> topic \<Longrightarrow> map_of (sv_subscriptions sv') topic' = map_of (sv_subscriptions sv) topic'"
    and "sv_statistics sv' = sv_statistics sv"
  using assms
  by (auto simp: acquire_subscription_def Let_def owners_of_def split: sum.splits prod.splits if_splits)

lemma release_owners:
  assumes "service_wf sv" "release_subscription unsub topic owner (sv, c) = ((sv', c'), r)"
  shows "map_of (owners_of sv' topic) = (map_of (owners_of sv topic))(owner := None)"
    and "topic' \<noteq> topic \<Longrightarrow> owners_of sv' topic' = owners_of sv topic'"
    and "topic' \<noteq> topic \<Longrightarrow> map_of (sv_subscriptions sv') topic' = map_of (sv_subscriptions sv) topic'"
    and "sv_statistics sv' = sv_statistics sv"
proof -
  have one: "(map_of os)(owner := None) = Map.empty"
    if "os \<noteq> []" "map_of os owner \<noteq> None" "\<not> 1 < length os" for os :: owners
    using that by (cases os) (auto split: if_splits)
  show "map_of (owners_of sv' topic) = (map_of (owners_of sv topic))(owner := None)"
    using assms(2) one [of "owners_of sv topic"]
    by (auto simp: release_subscription_def Let_def owners_of_def [of sv'] fun_upd_idem
        split: if_splits prod.splits)
  show "topic' \<noteq> topic \<Longrightarrow> owners_of sv' topic' = owners_of sv topic'"
    and "topic' \<noteq> topic \<Longrightarrow> map_of (sv_subscriptions sv') topic' = map_of (sv_subscriptions sv) topic'"
    and "sv_statistics sv' = sv_statistics sv"
    using assms(2)
    by (auto simp: release_subscription_def Let_def owners_of_def split: if_splits prod.splits)
qed

lemma release_shared:
  assumes "release_subscription unsub topic owner (sv, c) = ((sv', c'), r)"
    and "map_of (owners_of sv topic) other \<noteq> None" "other \<noteq> owner"
  shows "c' = c" "r = Inr ()" "sv_subscriptions sv' = sv_subscriptions sv"
proof -
  have "1 < length (owners_of sv topic)" if "map_of (owners_of sv topic) owner \<noteq> None"
    using that assms(2,3) by (cases "owners_of sv topic" rule: remdups_adj.cases) (auto split: if_splits)
  then show "c' = c" "r = Inr ()" "sv_subscriptions sv' = sv_subscriptions sv"
    using assms(1) by (auto simp: release_subscription_def Let_def split: if_splits prod.splits)
qed

lemma release_last:
  assumes "release_subscription unsub topic owner (sv, c) = ((sv', c'), r)"
    and "dom (map_of (owners_of sv topic)) = {owner}" "wf_dict (owners_of sv topic)"
  shows "map_of (sv_subscriptions sv') topic = None" "map_of (sv_owners sv') topic = None"
    and "desired c' = AList.delete topic (desired c)"
proof -
  have "card (fst ` set (owners_of sv topic)) = 1"
    using assms(2) by (simp add: dom_map_of_conv_image_fst)
  then have "length (owners_of sv topic) = 1"
    using assms(3) distinct_card [of "map fst (owners_of sv topic)"] by (simp add: wf_dict_def)
  moreover have "map_of (owners_of sv topic) owner \<noteq> None"
    using assms(2) by auto
  ultimately show "map_of (sv_subscriptions sv') topic = None" "map_of (sv_owners sv') topic = None"
    and "desired c' = AList.delete topic (desired c)"
    using assms(1) unsub_done
    by (auto simp: release_subscription_def Let_def split: if_splits prod.splits)
qed

end

lemma subscribed_iff_owned:
  assumes "service_wf sv"
  shows "is_subscribed sv t \<longleftrightarrow> owners_of sv t \<noteq> []"
  using service_wfD(3) [OF assms, of t] service_wfD(4) [OF assms, of t]
  by (auto simp: is_subscribed_def owners_of_def split: option.splits)

section \<open>Properties of shared subscriptions\<close>

text \<open>
  Acquiring a subscription is atomic: when it fails, for whatever reason (topic not allowed, not
  connected, rejected by the broker, an exception of the library), neither the service's tables nor
  the filters the client will replay after a reconnect have changed.
\<close>

theorem acquire_failure_changes_nothing:
  assumes "acquire_subscription (subscribe ph) m s topic qos owner refresh (sv, c) = ((sv', c'), Inl e)"
  shows "sv' = sv \<and> cl_subscriptions c' = cl_subscriptions c"
  by (rule client_backend.acquire_failure_atomic [OF assms])

text \<open>
  Releasing one of several owners leaves the others' subscription alone: the broker is not
  contacted, the filter stays subscribed, and every other owner keeps its quality of service.
\<close>

theorem release_keeps_other_owners:
  assumes "service_inv cl_subscriptions (sv, c)"
    and "release_subscription (unsubscribe ph) topic owner (sv, c) = ((sv', c'), r)"
    and "other \<noteq> owner" "map_of (owners_of sv topic) other = Some q"
  shows "c' = c \<and> r = Inr () \<and> is_subscribed sv' topic \<and> map_of (owners_of sv' topic) other = Some q
    \<and> map_of (owners_of sv' topic) owner = None"
proof -
  have wf: "service_wf sv" using assms(1) by (simp add: service_inv_def)
  have os: "map_of (owners_of sv' topic) = (map_of (owners_of sv topic))(owner := None)"
    by (rule client_backend.release_owners(1) [OF wf assms(2)])
  have "service_wf sv'"
    using client_backend.release_inv [OF assms(1,2)] by (simp add: service_inv_def)
  moreover have "map_of (owners_of sv' topic) other = Some q"
    using os assms(3,4) by simp
  ultimately have "is_subscribed sv' topic"
    by (auto simp: subscribed_iff_owned)
  with os client_backend.release_shared [OF assms(2), of other] assms(3,4) show ?thesis
    by simp
qed

text \<open>
  When the last owner goes, the filter is forgotten by the service and by the client, even while
  disconnected or when the broker rejects the call, so that no reconnect brings it back.
\<close>

theorem last_release_forgets_filter:
  assumes "service_inv cl_subscriptions (sv, c)"
    and "release_subscription (unsubscribe ph) topic owner (sv, c) = ((sv', c'), r)"
    and "dom (map_of (owners_of sv topic)) = {owner}"
  shows "\<not> is_subscribed sv' topic \<and> owners_of sv' topic = []
    \<and> topic \<notin> fst ` set (cl_subscriptions c')"
proof -
  have wf: "service_wf sv" using assms(1) by (simp add: service_inv_def)
  show ?thesis
    using client_backend.release_last [OF assms(2,3) owners_of_wf [OF wf]]
    by (simp add: is_subscribed_def owners_of_def keys_delete)
qed

text \<open>
  Acquiring under a fresh owner and releasing it again restores every owner table and the set of
  subscribed filters, whatever the broker answers to the release.
\<close>

theorem acquire_release_roundtrip:
  assumes inv: "service_inv cl_subscriptions (sv, c)"
    and fresh: "map_of (owners_of sv topic) owner = None"
    and acq: "acquire_subscription (subscribe ph) m s topic qos owner refresh (sv, c) = ((sv1, c1), Inr ())"
    and rel: "release_subscription (unsubscribe ph) topic owner (sv1, c1) = ((sv2, c2), r)"
  shows "map_of (owners_of sv2 t) = map_of (owners_of sv t) \<and> is_subscribed sv2 t = is_subscribed sv t"
proof -
  have inv1: "service_inv cl_subscriptions (sv1, c1)"
    by (rule client_backend.acquire_inv [OF inv acq])
  have wf: "service_wf sv" "service_wf sv1" "service_wf sv2"
    using inv inv1 client_backend.release_inv [OF inv1 rel] by (simp_all add: service_inv_def)
  have "map_of (owners_of sv2 t) = map_of (owners_of sv t)"
    using client_backend.acquire_success(2,4) [OF acq] client_backend.release_owners(1,2) [OF wf(2) rel] fresh
    by (cases "t = topic") (simp_all add: fun_upd_idem)
  moreover from this have "(owners_of sv2 t = []) = (owners_of sv t = [])"
    by (metis map_of_eq_empty_iff)
  ultimately show ?thesis by (simp add: subscribed_iff_owned wf)
qed

section \<open>Topic statistics\<close>

text \<open>The table keeps one entry per topic, the least recently seen topic first.\<close>

lemma map_fst_delete: "map fst (AList.delete k d) = removeAll k (map fst d)"
  by (induction d) auto

lemma map_fst_record:
  assumes "distinct (map fst stats)"
  shows "map fst (record_message n topic msg stats) =
    (if topic \<in> fst ` set stats then removeAll topic (map fst stats)
     else if n \<le> length stats then tl (map fst stats) else map fst stats) @ [topic]"
proof -
  have "map_of (tl stats) topic = None" if "map_of stats topic = None"
    using that by (cases stats) (auto split: if_splits)
  moreover have "(map_of stats topic = None) = (topic \<notin> fst ` set stats)"
    by (simp add: map_of_eq_None_iff)
  ultimately show ?thesis
    by (auto simp: record_message_def Let_def update_fresh map_fst_delete length_delete_absent map_tl
        simp del: image_iff)
qed

text \<open>\<open>remdups\<close> keeps last occurrences: it is the order of recency.\<close>

lemma remdups_snoc: "remdups (xs @ [x]) = removeAll x (remdups xs) @ [x]"
  by (induction xs) auto

lemma newest_recency:
  assumes "0 < n" "distinct ys"
  shows "newest n (removeAll x ys @ [x]) =
    (if x \<in> set (newest n ys) then removeAll x (newest n ys)
     else if n \<le> length (newest n ys) then tl (newest n ys) else newest n ys) @ [x]"
proof (cases "length ys \<le> n")
  case True
  show ?thesis
  proof (cases "x \<in> set ys")
    case True
    then have "length (removeAll x ys) < length ys"
      using \<open>distinct ys\<close> by (metis length_removeAll_less)
    with True \<open>length ys \<le> n\<close> show ?thesis by (simp add: newest_short)
  next
    case False
    have "newest (length ys) (ys @ [x]) = tl ys @ [x]" if "ys \<noteq> []"
      using that by (cases ys) (simp_all add: newest_def)
    with False True assms(1) show ?thesis
      by (auto simp: newest_short removeAll_id)
  qed
next
  case False
  define old where "old = take (length ys - n) ys"
  define new where "new = newest n ys"
  have ys: "ys = old @ new" and len: "length new = n"
    using False by (simp_all add: old_def new_def newest_def)
  have disj: "set old \<inter> set new = {}" using assms(2) ys by auto
  show ?thesis
  proof (cases "x \<in> set new")
    case True
    then have "x \<notin> set old" using disj by auto
    then have old: "removeAll x old = old" by (rule removeAll_id)
    have "length (removeAll x new) = n - 1"
      using True assms(2) ys len by (simp add: distinct_remove1_removeAll [symmetric] length_remove1)
    with True assms(1) show ?thesis
      unfolding new_def [symmetric] by (simp add: ys old newest_def)
  next
    case False
    with len assms(1) show ?thesis
      unfolding new_def [symmetric] by (cases new) (simp_all add: ys newest_def removeAll_id)
  qed
qed

fun record_all :: "nat \<Rightarrow> (pystr \<times> mqtt_message) list \<Rightarrow> (pystr, topic_info) dict \<Rightarrow> (pystr, topic_info) dict" where
  "record_all n [] stats = stats"
| "record_all n ((topic, msg) # ms) stats = record_all n ms (record_message n topic msg stats)"

lemma record_all_snoc:
  "record_all n (ms @ [(topic, msg)]) stats = record_message n topic msg (record_all n ms stats)"
  by (induction n ms stats rule: record_all.induct) auto

text \<open>The messages that count: small enough, and on a topic the rules allow.\<close>

definition received :: "real \<Rightarrow> received_message \<Rightarrow> mqtt_message" where
  "received now msg = \<lparr>mm_topic = rm_topic msg, mm_payload = utf8_decode_replace (rm_payload msg),
     mm_qos = rm_qos msg, mm_retain = rm_retain msg, mm_timestamp = now\<rparr>"

definition countable :: "matcher \<Rightarrow> settings \<Rightarrow> received_message \<Rightarrow> bool" where
  "countable m s msg \<longleftrightarrow> int (length (rm_payload msg)) \<le> max_message_bytes s
     \<and> authorize_topic m s (rm_topic msg) False = Inr ()"

definition handle_all ::
  "matcher \<Rightarrow> settings \<Rightarrow> (real \<times> received_message) list \<Rightarrow> service \<Rightarrow> service" where
  "handle_all m s ms sv = fold (\<lambda>(now, msg) sv. fst (handle_message m s now msg sv)) ms sv"

definition counted ::
  "matcher \<Rightarrow> settings \<Rightarrow> (real \<times> received_message) list \<Rightarrow> (pystr \<times> mqtt_message) list" where
  "counted m s ms = map (\<lambda>(now, msg). (rm_topic msg, received now msg)) (filter (countable m s \<circ> snd) ms)"

lemma handle_message_statistics:
  assumes "settings_wf s"
  shows "handle_message m s now msg sv =
    ((if countable m s msg
      then sv\<lparr>sv_statistics := record_message (nat (mqtt_queue_size s)) (rm_topic msg) (received now msg)
                (sv_statistics sv)\<rparr>
      else sv), Inr ())"
  using authorize_topic_errors [OF assms, of m "rm_topic msg" False]
  by (auto simp: handle_message_def countable_def received_def split: sum.splits)

lemma handle_all_statistics:
  assumes "settings_wf s"
  shows "sv_statistics (handle_all m s ms sv) =
    record_all (nat (mqtt_queue_size s)) (counted m s ms) (sv_statistics sv)"
proof (induction ms arbitrary: sv)
  case (Cons nm ms)
  then show ?case
    by (cases nm) (simp add: handle_all_def counted_def handle_message_statistics [OF assms])
qed (simp add: handle_all_def counted_def)

lemma record_all_keys:
  assumes "0 < n"
  shows "map fst (record_all n ms []) = newest n (remdups (map fst ms))"
proof (induction ms rule: rev_induct)
  case (snoc m ms)
  obtain topic msg where m: "m = (topic, msg)" by (cases m)
  let ?t = "record_all n ms []"
  have d: "distinct (map fst ?t)"
    unfolding snoc.IH by (simp add: newest_def)
  have "map fst (record_all n (ms @ [m]) []) =
      (if topic \<in> set (map fst ?t) then removeAll topic (map fst ?t)
       else if n \<le> length (map fst ?t) then tl (map fst ?t) else map fst ?t) @ [topic]"
    unfolding m record_all_snoc using map_fst_record [OF d, of n topic msg] by simp
  also have "\<dots> = newest n (removeAll topic (remdups (map fst ms)) @ [topic])"
    unfolding snoc.IH by (rule newest_recency [OF assms distinct_remdups, symmetric])
  finally show ?case by (simp add: m remdups_snoc del: map_map)
qed (simp add: newest_def)

definition topic_total :: "pystr \<Rightarrow> (pystr \<times> mqtt_message) list \<Rightarrow> topic_info option" where
  "topic_total t ms =
     (let own = filter (\<lambda>m. fst m = t) ms
      in if own = [] then None
         else Some \<lparr>ti_topic = t, ti_message_count = int (length own),
                    ti_last_message = Some (snd (last own))\<rparr>)"

lemma record_all_totals:
  assumes "0 < n" "length (remdups (map fst ms)) \<le> n"
  shows "map_of (record_all n ms []) t = topic_total t ms"
  using assms(2)
proof (induction ms arbitrary: t rule: rev_induct)
  case (snoc m ms)
  obtain topic msg where m: "m = (topic, msg)" by (cases m)
  let ?t = "record_all n ms []"
  have keys: "map fst ?t = newest n (remdups (map fst ms))"
    by (rule record_all_keys [OF assms(1)])
  have le: "length (remdups (map fst ms)) \<le> n"
    using snoc.prems card_insert_le [of "fst ` set ms" "fst m"]
    by (simp add: length_remdups_card_conv)
  then have IH: "map_of ?t t = topic_total t ms" for t by (rule snoc.IH)
  have room: "length ?t < n" if "map_of ?t topic = None"
  proof -
    have "topic \<notin> set (map fst ms)"
      using that IH [of topic] by (auto simp: topic_total_def Let_def filter_empty_conv split: if_splits)
    then have "length (remdups (map fst ms)) < n"
      using snoc.prems by (simp add: m length_remdups_card_conv)
    then show ?thesis
      using arg_cong [OF keys, of length] by simp
  qed
  show ?case
    using room IH [of topic] IH [of t]
    by (auto simp: m record_all_snoc record_message_def Let_def length_delete_absent topic_total_def
        not_le split: option.splits if_splits)
qed (simp add: topic_total_def)

text \<open>
  The statistics table is a least-recently-used cache: after any sequence of messages its topics
  are the \<open>mqtt_queue_size\<close> most recently seen allowed ones, in order of their last message.
\<close>

theorem statistics_keep_most_recent_topics:
  assumes "settings_wf s"
  shows "map fst (sv_statistics (handle_all m s ms service_init)) =
    newest (nat (mqtt_queue_size s)) (remdups (map fst (counted m s ms)))"
  using settings_wf_bounds(1) [OF assms]
  by (simp add: handle_all_statistics [OF assms] record_all_keys service_init_def)

text \<open>
  As long as no more than \<open>mqtt_queue_size\<close> topics have been seen, the statistics are exact: the
  topic report counts every allowed message on the topic and shows the last one.
\<close>

theorem statistics_are_exact:
  assumes "settings_wf s" "length (remdups (map fst (counted m s ms))) \<le> nat (mqtt_queue_size s)"
    and "authorize_topic m s t True = Inr ()"
  shows "service_get_topic_info m s t (handle_all m s ms service_init) =
    Inr (case topic_total t (counted m s ms) of
           Some info \<Rightarrow> info
         | None \<Rightarrow> \<lparr>ti_topic = t, ti_message_count = 0, ti_last_message = None\<rparr>)"
  using settings_wf_bounds(1) [OF assms(1)] assms(2,3)
  by (simp add: service_get_topic_info_def handle_all_statistics [OF assms(1)] record_all_totals service_init_def)

section \<open>Retained queries\<close>

lemma remove_callback_frame [simp]:
  "cl_subscriptions (remove_packet_callback k c) = cl_subscriptions c"
  "cl_subscriptions (add_packet_callback k c) = cl_subscriptions c"
  by (simp_all add: remove_packet_callback_def add_packet_callback_def)

text \<open>What the client keeps across its subscription calls, the service's operations keep.\<close>

lemma acquire_frame:
  assumes "\<And>t q c c' r. cs t q c = (c', r) \<Longrightarrow> g c' = g c"
    and "acquire_subscription cs m s topic qos owner refresh st = (st', r)"
  shows "g (snd st') = g (snd st)"
  using assms(2)
  by (auto simp: acquire_subscription_def Let_def dest: assms(1) split: prod.splits sum.splits if_splits)

lemma release_frame:
  assumes "\<And>t c c' r. cu t c = (c', r) \<Longrightarrow> g c' = g c"
    and "release_subscription cu topic owner st = (st', r)"
  shows "g (snd st') = g (snd st)"
  using assms(2)
  by (auto simp: release_subscription_def Let_def dest: assms(1) split: prod.splits if_splits)

lemma subscribe_callbacks:
  "subscribe ph t q c = (c', r) \<Longrightarrow> cl_packet_callbacks c' = cl_packet_callbacks c"
  "unsubscribe ph t c = (c', r) \<Longrightarrow> cl_packet_callbacks c' = cl_packet_callbacks c"
  by (auto simp: subscribe_def unsubscribe_def Let_def split: sum.splits if_splits)

lemmas acquire_callbacks = acquire_frame [of "subscribe ph" cl_packet_callbacks for ph, OF subscribe_callbacks(1)]
lemmas release_callbacks = release_frame [of "unsubscribe ph" cl_packet_callbacks for ph, OF subscribe_callbacks(2)]

lemma remove_callback_callbacks:
  "cl_packet_callbacks (remove_packet_callback k c) = remove1 k (cl_packet_callbacks c)"
  by (simp add: remove_packet_callback_def remove1_idem)

lemma remove1_single: "count_list ks k \<le> 1 \<Longrightarrow> k \<notin> set (remove1 k ks)"
proof (induction ks)
  case (Cons a ks)
  then show ?case by (cases "a = k") (simp_all add: count_list_0_iff)
qed simp

lemma retained_cleanup_inv:
  assumes "service_inv cl_subscriptions st" "retained_cleanup ph topic owner st = (st', r)"
  shows "service_inv cl_subscriptions st'"
    and "map_of (owners_of (fst st') topic) = (map_of (owners_of (fst st) topic))(owner := None)"
    and "t \<noteq> topic \<Longrightarrow> owners_of (fst st') t = owners_of (fst st) t"
    and "cl_packet_callbacks (snd st') = remove1 (RetainedReceive owner) (cl_packet_callbacks (snd st))"
proof -
  obtain sv c sv' c' where st: "st = (sv, c)" "st' = (sv', c')" by (cases st, cases st')
  let ?c = "remove_packet_callback (RetainedReceive owner) c"
  have inv: "service_inv cl_subscriptions (sv, ?c)" and wf: "service_wf sv"
    using assms(1) by (simp_all add: service_inv_def st)
  have rel: "release_subscription (unsubscribe ph) topic owner (sv, ?c) = ((sv', c'), r)"
    using assms(2) by (simp add: retained_cleanup_def st)
  show "service_inv cl_subscriptions st'"
    unfolding st by (rule client_backend.release_inv [OF inv rel])
  show "map_of (owners_of (fst st') topic) = (map_of (owners_of (fst st) topic))(owner := None)"
    and "t \<noteq> topic \<Longrightarrow> owners_of (fst st') t = owners_of (fst st) t"
    using client_backend.release_owners(1,2) [OF wf rel] by (simp_all add: st)
  show "cl_packet_callbacks (snd st') = remove1 (RetainedReceive owner) (cl_packet_callbacks (snd st))"
    using release_callbacks [OF _ rel] by (simp add: st remove_callback_callbacks)
qed

lemma receive_retained_first:
  "fold (receive_retained topic) msgs None = List.find (\<lambda>msg. rm_topic msg = topic \<and> rm_retain msg) msgs"
proof -
  have "fold (receive_retained topic) msgs (Some x) = Some x" for x
    by (induction msgs) (simp_all add: receive_retained_def)
  then show ?thesis
    by (induction msgs) (simp_all add: receive_retained_def)
qed

text \<open>
  A retained query that ends, with an answer, with the timeout or cancelled, leaves nothing behind:
  its callback is gone, its ownership of the topic is released, and no other owner of any topic is
  touched. An answer is reported exactly as the broker sent it.
\<close>

theorem retained_query_cleans_up:
  assumes "service_inv cl_subscriptions (sv, c)"
    and "count_list (cl_packet_callbacks c) (RetainedReceive owner) \<le> 1"
    and "query_retained_finish ph request owner outcome (sv, c) = ((sv', c'), answer)"
  shows "RetainedReceive owner \<notin> set (cl_packet_callbacks c')
    \<and> map_of (owners_of sv' (ret_topic request)) owner = None
    \<and> (\<forall>t other. t \<noteq> ret_topic request \<or> other \<noteq> owner
          \<longrightarrow> map_of (owners_of sv' t) other = map_of (owners_of sv t) other)
    \<and> (\<forall>resp. answer = Inr resp \<and> rresp_success resp \<longrightarrow>
          (\<exists>msg reply. outcome = RetainedMessage msg \<and> rresp_message resp = Some reply
            \<and> utf8_decode (rm_payload msg) = Inr (rmsg_payload reply)
            \<and> rmsg_topic reply = rm_topic msg \<and> rmsg_qos reply = rm_qos msg))"
proof -
  obtain r where cl: "retained_cleanup ph (ret_topic request) owner (sv, c) = ((sv', c'), r)"
    using assms(3) by (auto simp: query_retained_finish_def Let_def split: prod.splits sum.splits)
  note eff = retained_cleanup_inv [OF assms(1) cl]
  have "RetainedReceive owner \<notin> set (cl_packet_callbacks c')"
    using remove1_single [OF assms(2)] eff(4) by simp
  moreover have "map_of (owners_of sv' t) other = map_of (owners_of sv t) other"
    if "t \<noteq> ret_topic request \<or> other \<noteq> owner" for t other
    using that eff(2,3) by (cases "t = ret_topic request") auto
  moreover have "\<exists>msg reply. outcome = RetainedMessage msg \<and> rresp_message resp = Some reply
        \<and> utf8_decode (rm_payload msg) = Inr (rmsg_payload reply)
        \<and> rmsg_topic reply = rm_topic msg \<and> rmsg_qos reply = rm_qos msg"
    if "answer = Inr resp" "rresp_success resp" for resp
    using that assms(3) cl
    by (auto simp: query_retained_finish_def retained_failed_def
        split: prod.splits sum.splits retained_outcome.splits)
  ultimately show ?thesis using eff(2) by simp
qed

text \<open>
  Publishing raises nothing but the two errors of topic authorization, and then the broker has
  not been contacted; otherwise it reports success exactly when the client was connected, the payload
  could be encoded and the library accepted the message, with the message id the library gave.
\<close>

theorem publish_outcome:
  assumes "settings_wf s" and "\<And>t pl q r p e. ph_publish ph t pl q r p = Inl e \<Longrightarrow> is_exception e"
    and "service_publish ph m s request c = (c', res)"
  shows "case res of
      Inl e \<Rightarrow> c' = c \<and> e \<in> {HTTPException 400 ''Invalid MQTT topic or filter'',
                              HTTPException 403 ''Topic not allowed''}
    | Inr resp \<Rightarrow> authorize_topic m s (pub_topic request) False = Inr ()
        \<and> (presp_success resp \<longleftrightarrow> is_connected ph c \<and>
            (\<exists>raw mid p. utf8_encode (pub_payload request) = Inr raw
              \<and> ph_publish ph (pub_topic request) raw (pub_qos request) (pub_retain request)
                  (the (cl_paho c)) = Inr (0, mid, p)
              \<and> presp_message_id resp = Some mid))"
  using assms authorize_topic_errors [OF assms(1), of m "pub_topic request" False]
  by (auto simp: service_publish_def publish_def Let_def is_exception_def
      split: sum.splits prod.splits if_splits)

section \<open>Witnesses\<close>

definition sample_gclient :: "(pystr \<times> int) list gclient" where
  "sample_gclient = client_init\<lparr>cl_event_loop := True, cl_paho := Some [], cl_connected := True\<rparr>"

definition sample_topic :: pystr where
  "sample_topic = lit ''site/a''"

lemma sample_is_connected [simp]: "is_connected sample_paho (sample_gclient\<lparr>cl_subscriptions := d\<rparr>)"
  "is_connected sample_paho sample_gclient"
  by (simp_all add: is_connected_def sample_gclient_def sample_paho_def)

lemma sample_validate:
  "validate_topic sample_topic False = Inr ()"
  "validate_topic sample_topic True = Inr ()"
  by (simp_all add: validate_name_iff validate_filter_iff no_wildcards_def wf_filter_def sample_topic_def
      lit_def utf8_cp_def startswith_def)

lemma sample_authorized [simp]: "authorize_topic mqtt_matches example_settings sample_topic b = Inr ()"
proof (cases b)
  case True
  then show ?thesis
    by (simp add: authorize_filter_iff [OF example_settings_wf] sample_validate example_patterns)
      (simp add: sample_topic_def filter_contains_eq filters_overlap_eq wild_start_def lit_def startswith_def)
next
  case False
  then show ?thesis
    by (simp add: authorize_name_iff sample_validate example_patterns)
      (simp add: mqtt_matches_def wild_start_def sample_topic_def lit_def startswith_def)
qed

text \<open>The service with the topic subscribed at QoS 1 by two owners, or by one.\<close>

definition sample_service :: "owners \<Rightarrow> service" where
  "sample_service os = service_init\<lparr>sv_subscriptions := [(sample_topic, 1)], sv_owners := [(sample_topic, os)]\<rparr>"

lemma sample_service_inv:
  assumes "os \<noteq> []" "wf_dict os" "\<forall>p\<in>set os. snd p \<le> 1"
  shows "service_inv cl_subscriptions (sample_service os, sample_gclient\<lparr>cl_subscriptions := [(sample_topic, 1)]\<rparr>)"
  using assms
  by (auto simp: service_inv_def service_wf_def sample_service_def wf_dict_def service_init_def
      split: if_splits)

lemma sample_owners [simp]: "owners_of (sample_service os) sample_topic = os"
  by (simp add: owners_of_def sample_service_def)

theorem acquire_failure_changes_nothing_witness:
  "fst (fst (acquire_subscription (subscribe sample_paho) mqtt_matches example_settings sample_topic 1
     rest_owner False (service_init, client_init :: (pystr \<times> int) list gclient))) = service_init"
proof -
  let ?r = "acquire_subscription (subscribe sample_paho) mqtt_matches example_settings sample_topic 1
     rest_owner False (service_init, client_init :: (pystr \<times> int) list gclient)"
  have "?r = ((service_init, client_init :: (pystr \<times> int) list gclient), Inl (RuntimeError ''MQTT client not connected''))"
    by (simp add: acquire_subscription_def owners_of_def service_init_def subscribe_def is_connected_def
        client_init_def)
  from acquire_failure_changes_nothing [OF this] show ?thesis
    using \<open>?r = _\<close> by simp
qed

theorem release_keeps_other_owners_witness:
  "is_subscribed (fst (fst (release_subscription (unsubscribe sample_paho) sample_topic [5]
     (sample_service [([5], 0), ([2], 1)], sample_gclient\<lparr>cl_subscriptions := [(sample_topic, 1)]\<rparr>))))
     sample_topic"
proof -
  let ?st = "(sample_service [([5], 0), ([2], 1)], sample_gclient\<lparr>cl_subscriptions := [(sample_topic, 1)]\<rparr>)"
  obtain sv' c' r where e: "release_subscription (unsubscribe sample_paho) sample_topic [5] ?st = ((sv', c'), r)"
    by (metis prod.exhaust)
  have "service_inv cl_subscriptions ?st"
    by (rule sample_service_inv) (auto simp: wf_dict_def)
  from release_keeps_other_owners [OF this e, of "[2]" 1] show ?thesis
    by (simp add: e)
qed

theorem last_release_forgets_filter_witness:
  "\<exists>sv' c' r. release_subscription (unsubscribe sample_paho) sample_topic [5]
     (sample_service [([5], 1)], sample_gclient\<lparr>cl_subscriptions := [(sample_topic, 1)]\<rparr>) = ((sv', c'), r)
     \<and> sample_topic \<notin> fst ` set (cl_subscriptions c')"
proof -
  let ?st = "(sample_service [([5], 1)], sample_gclient\<lparr>cl_subscriptions := [(sample_topic, 1)]\<rparr>)"
  obtain sv' c' r where e: "release_subscription (unsubscribe sample_paho) sample_topic [5] ?st = ((sv', c'), r)"
    by (metis prod.exhaust)
  have "service_inv cl_subscriptions ?st"
    by (rule sample_service_inv) (auto simp: wf_dict_def)
  from last_release_forgets_filter [OF this e] e show ?thesis
    by (auto simp: dom_def)
qed

theorem acquire_release_roundtrip_witness:
  "\<exists>sv1 c1 sv2 c2 r.
     acquire_subscription (subscribe sample_paho) mqtt_matches example_settings sample_topic 1 [7] False
       (service_init, sample_gclient) = ((sv1, c1), Inr ())
     \<and> release_subscription (unsubscribe sample_paho) sample_topic [7] (sv1, c1) = ((sv2, c2), r)
     \<and> is_subscribed sv1 sample_topic \<and> \<not> is_subscribed sv2 sample_topic"
proof -
  obtain sv1 c1 where a: "acquire_subscription (subscribe sample_paho) mqtt_matches example_settings
      sample_topic 1 [7] False (service_init, sample_gclient) = ((sv1, c1), Inr ())"
    and sub: "is_subscribed sv1 sample_topic"
    by (simp add: acquire_subscription_def owners_of_def service_init_def subscribe_def is_subscribed_def)
      (simp add: sample_paho_def)
  obtain sv2 c2 r where r: "release_subscription (unsubscribe sample_paho) sample_topic [7] (sv1, c1)
      = ((sv2, c2), r)"
    by (metis prod.exhaust)
  have inv: "service_inv cl_subscriptions (service_init, sample_gclient)"
    by (simp add: service_inv_def service_wf_init) (simp add: sample_gclient_def client_init_def service_init_def)
  have fresh: "map_of (owners_of service_init sample_topic) [7] = None"
    by (simp add: owners_of_def service_init_def)
  from acquire_release_roundtrip [OF inv fresh a r, of sample_topic] a r sub show ?thesis
    by (auto simp: is_subscribed_def service_init_def)
qed

definition sample_packet :: received_message where
  "sample_packet = \<lparr>rm_topic = sample_topic, rm_payload = [104, 105], rm_qos = 1, rm_retain = True\<rparr>"

lemma sample_counted:
  "counted mqtt_matches example_settings [(0, sample_packet), (1, sample_packet)] =
     [(sample_topic, received 0 sample_packet), (sample_topic, received 1 sample_packet)]"
  by (simp add: counted_def countable_def sample_packet_def example_sizes)

theorem statistics_keep_most_recent_topics_witness:
  "map fst (sv_statistics (handle_all mqtt_matches example_settings
     [(0, sample_packet), (1, sample_packet)] service_init)) = [sample_topic]"
  using statistics_keep_most_recent_topics [OF example_settings_wf, of mqtt_matches
      "[(0, sample_packet), (1, sample_packet)]"]
  by (simp add: sample_counted newest_short example_sizes)

theorem statistics_are_exact_witness:
  "service_get_topic_info mqtt_matches example_settings sample_topic (handle_all mqtt_matches example_settings
     [(0, sample_packet), (1, sample_packet)] service_init)
   = Inr \<lparr>ti_topic = sample_topic, ti_message_count = 2, ti_last_message = Some (received 1 sample_packet)\<rparr>"
  using statistics_are_exact [OF example_settings_wf, of mqtt_matches
      "[(0, sample_packet), (1, sample_packet)]" sample_topic]
  by (simp add: sample_counted topic_total_def example_sizes)

theorem retained_query_cleans_up_witness:
  "\<exists>sv' c' answer. query_retained_finish sample_paho \<lparr>ret_topic = sample_topic\<rparr> [5]
       (RetainedMessage sample_packet)
       (sample_service [([5], 0)], sample_gclient\<lparr>cl_subscriptions := [(sample_topic, 1)],
          cl_packet_callbacks := [HandleMessage, RetainedReceive [5]]\<rparr>) = ((sv', c'), answer)
     \<and> RetainedReceive [5] \<notin> set (cl_packet_callbacks c') \<and> owners_of sv' sample_topic = []"
proof -
  let ?st = "(sample_service [([5], 0)], sample_gclient\<lparr>cl_subscriptions := [(sample_topic, 1)],
          cl_packet_callbacks := [HandleMessage, RetainedReceive [5]]\<rparr>)"
  obtain sv' c' answer where e: "query_retained_finish sample_paho \<lparr>ret_topic = sample_topic\<rparr> [5]
       (RetainedMessage sample_packet) ?st = ((sv', c'), answer)"
    by (metis prod.exhaust)
  have "service_inv cl_subscriptions ?st"
    using sample_service_inv [of "[([5], 0)]"] by (simp add: service_inv_def wf_dict_def)
  from retained_query_cleans_up [OF this _ e] have
    gone: "RetainedReceive [5] \<notin> set (cl_packet_callbacks c')" "map_of (owners_of sv' sample_topic) [5] = None"
    and others: "other \<noteq> [5] \<Longrightarrow> map_of (owners_of sv' sample_topic) other = None" for other
    by simp_all
  have "map_of (owners_of sv' sample_topic) = Map.empty"
  proof
    show "map_of (owners_of sv' sample_topic) other = None" for other
      by (cases "other = [5]") (simp_all add: gone(2) others)
  qed
  with e gone(1) show ?thesis
    by (intro exI conjI) simp_all
qed

theorem publish_outcome_witness:
  "case snd (service_publish sample_paho mqtt_matches example_settings
     \<lparr>pub_topic = sample_topic, pub_payload = [104], pub_qos = 1, pub_retain = False\<rparr> sample_gclient) of
     Inl e \<Rightarrow> False | Inr resp \<Rightarrow> presp_success resp"
proof -
  let ?req = "\<lparr>pub_topic = sample_topic, pub_payload = [104], pub_qos = 1, pub_retain = False\<rparr>"
  have ph: "ph_publish sample_paho t pl q r p = Inl e \<Longrightarrow> is_exception e" for t pl q r p e
    by (simp add: sample_paho_def)
  have run: "service_publish sample_paho mqtt_matches example_settings ?req sample_gclient =
      (sample_gclient, Inr \<lparr>presp_success = True, presp_message_id = Some 1, presp_topic = sample_topic\<rparr>)"
    by (simp add: service_publish_def publish_def utf8_cp_def)
      (simp add: sample_paho_def sample_gclient_def client_init_def)
  from publish_outcome [OF example_settings_wf ph run] show ?thesis
    unfolding run by simp
qed

end
