(* ===== verification/Api_Rest.thy ===== *)
theory Api_Rest
  imports Auth Mqtt_Service
begin

text \<open>
  The HTTP endpoints of \<open>api/__init__.py\<close>. A request reaches its handler only with a current user:
  the dependency \<open>get_user_dep\<close> runs first and raises 401, then the body is validated against its
  model (422), then the handler calls the service. The route table is \<open>rest_call\<close>; the retained
  query, which waits for the broker, has its own two steps. The rate limiter belongs to a library and
  only refuses requests.
\<close>

section \<open>Login\<close>

definition login_form_ok :: "pystr \<Rightarrow> pystr \<Rightarrow> bool" where
  "login_form_ok username password \<longleftrightarrow>
     1 \<le> length username \<and> length username \<le> 256 \<and> 1 \<le> length password \<and> length password \<le> 1024"

definition unprocessable :: exn where
  "unprocessable = HTTPException 422 ''Unprocessable Entity''"

definition login ::
  "kdf \<Rightarrow> jwt_encoder \<Rightarrow> settings \<Rightarrow> real \<Rightarrow> pystr \<Rightarrow> pystr \<Rightarrow> token_response result" where
  "login pbkdf2 jwt_encode s now username password =
     guard_r (login_form_ok username password) unprocessable
       (bind_r (utf8_encode username) (\<lambda>u.
        bind_r (utf8_encode (api_username s)) (\<lambda>v.
        bind_r (verify_password pbkdf2 password (api_password_hash s)) (\<lambda>password_ok.
          if \<not> (u = v \<and> password_ok) then Inl (HTTPException 401 ''Invalid credentials'')
          else Inr \<lparr>access_token = create_access_token jwt_encode s now [(lit ''sub'', Claim (JStr username))] None,
                    token_type = lit ''bearer'',
                    expires_in = jwt_access_token_expire_minutes s * 60\<rparr>))))"

section \<open>Protected endpoints\<close>

definition get_user_dep :: "jwt_decoder \<Rightarrow> settings \<Rightarrow> real \<Rightarrow> pystr option \<Rightarrow> pystr result" where
  "get_user_dep jwt_decode s now credentials =
     bind_r (get_current_user jwt_decode s now credentials) (\<lambda>user. Inr (user_name user))"

datatype rest_request =
    Publish publish_request
  | Subscribe subscribe_request
  | Unsubscribe unsubscribe_request
  | ListTopics
  | GetTopic pystr

datatype rest_response =
    Published publish_response
  | Subscribed subscribe_response
  | Unsubscribed unsubscribe_response
  | Topics "topic_info list"
  | Topic topic_info

type_synonym 'p app_state = "service \<times> 'p gclient"

definition publish_message ::
  "'p paho \<Rightarrow> matcher \<Rightarrow> settings \<Rightarrow> publish_request \<Rightarrow> 'p app_state \<Rightarrow> 'p app_state \<times> publish_response result" where
  "publish_message ph m s body st =
     (if \<not> publish_request_ok body then (st, Inl unprocessable)
      else (case service_publish ph m s body (snd st) of (c', r) \<Rightarrow> ((fst st, c'), r)))"

definition subscribe_topic ::
  "'p paho \<Rightarrow> matcher \<Rightarrow> settings \<Rightarrow> subscribe_request \<Rightarrow> 'p app_state \<Rightarrow> 'p app_state \<times> subscribe_response result" where
  "subscribe_topic ph m s body st =
     (if \<not> subscribe_request_ok body then (st, Inl unprocessable)
      else service_subscribe (subscribe ph) m s body st)"

definition unsubscribe_topic ::
  "'p paho \<Rightarrow> matcher \<Rightarrow> settings \<Rightarrow> unsubscribe_request \<Rightarrow> 'p app_state \<Rightarrow> 'p app_state \<times> unsubscribe_response result" where
  "unsubscribe_topic ph m s body st =
     (if \<not> unsubscribe_request_ok body then (st, Inl unprocessable)
      else service_unsubscribe (unsubscribe ph) m s body st)"

definition list_topics :: "matcher \<Rightarrow> settings \<Rightarrow> service \<Rightarrow> topic_info list result" where
  "list_topics m s sv =
     map_r (\<lambda>topic. service_get_topic_info m s topic sv) (map fst (get_subscriptions sv))"

definition get_topic_info :: "matcher \<Rightarrow> settings \<Rightarrow> pystr \<Rightarrow> service \<Rightarrow> topic_info result" where
  "get_topic_info m s topic sv =
     (if \<not> is_subscribed sv topic then Inl (HTTPException 404 ''Topic not subscribed'')
      else service_get_topic_info m s topic sv)"

definition respond :: "('a \<Rightarrow> rest_response) \<Rightarrow> 's \<times> 'a result \<Rightarrow> 's \<times> rest_response result" where
  "respond f sr = (fst sr, bind_r (snd sr) (\<lambda>x. Inr (f x)))"

definition rest_handler ::
  "'p paho \<Rightarrow> matcher \<Rightarrow> settings \<Rightarrow> rest_request \<Rightarrow> 'p app_state \<Rightarrow> 'p app_state \<times> rest_response result" where
  "rest_handler ph m s req st =
     (case req of
        Publish body \<Rightarrow> respond Published (publish_message ph m s body st)
      | Subscribe body \<Rightarrow> respond Subscribed (subscribe_topic ph m s body st)
      | Unsubscribe body \<Rightarrow> respond Unsubscribed (unsubscribe_topic ph m s body st)
      | ListTopics \<Rightarrow> respond Topics (st, list_topics m s (fst st))
      | GetTopic topic \<Rightarrow> respond Topic (st, get_topic_info m s topic (fst st)))"

definition rest_call ::
  "'p paho \<Rightarrow> jwt_decoder \<Rightarrow> matcher \<Rightarrow> settings \<Rightarrow> real \<Rightarrow> pystr option \<Rightarrow> rest_request
   \<Rightarrow> 'p app_state \<Rightarrow> 'p app_state \<times> rest_response result" where
  "rest_call ph jwt_decode m s now credentials req st =
     (case get_user_dep jwt_decode s now credentials of
        Inl e \<Rightarrow> (st, Inl e)
      | Inr _ \<Rightarrow> rest_handler ph m s req st)"

definition query_retained_message ::
  "'p paho \<Rightarrow> jwt_decoder \<Rightarrow> matcher \<Rightarrow> settings \<Rightarrow> real \<Rightarrow> pystr option \<Rightarrow> retained_request \<Rightarrow> pystr
   \<Rightarrow> 'p app_state \<Rightarrow> 'p app_state \<times> retained_start" where
  "query_retained_message ph jwt_decode m s now credentials body owner st =
     (case get_user_dep jwt_decode s now credentials of
        Inl e \<Rightarrow> (st, RetainedDone (Inl e))
      | Inr _ \<Rightarrow> if \<not> retained_request_ok body then (st, RetainedDone (Inl unprocessable))
                 else query_retained_start ph m s body owner st)"

section \<open>Health\<close>

definition health_check :: "'p paho \<Rightarrow> settings \<Rightarrow> 'p gclient option \<Rightarrow> health_response" where
  "health_check ph s mqtt_client =
     \<lparr>h_status = lit ''ok'', h_version = app_version s,
      h_mqtt_connected = (case mqtt_client of Some c \<Rightarrow> is_connected ph c | None \<Rightarrow> False)\<rparr>"

definition readiness_check :: "'p paho \<Rightarrow> settings \<Rightarrow> 'p gclient option \<Rightarrow> health_response result" where
  "readiness_check ph s mqtt_client =
     (if (case mqtt_client of None \<Rightarrow> True | Some c \<Rightarrow> \<not> is_connected ph c)
      then Inl (HTTPException 503 ''MQTT broker is disconnected'')
      else Inr (health_check ph s mqtt_client))"

section \<open>Who gets in\<close>

lemma get_user_dep_errors:
  assumes "decoder_requires dec" "get_user_dep dec s now cred = Inl e"
  shows "e = HTTPException 401 ''Not authenticated'' \<or> e = HTTPException 401 ''Invalid token''"
proof (cases cred)
  case None
  with assms(2) show ?thesis by (simp add: get_user_dep_def get_current_user_def)
next
  case (Some token)
  obtain r where r: "verify_token dec s now token = Inr r"
    using verify_token_total [OF assms(1)] by blast
  show ?thesis
  proof (cases r)
    case (Some p)
    with r user_of_verified_payload [of dec s now token p] \<open>cred = Some token\<close> assms(2) show ?thesis
      by (auto simp: get_user_dep_def get_current_user_def split: if_splits)
  qed (use r \<open>cred = Some token\<close> assms(2) in \<open>simp add: get_user_dep_def get_current_user_def\<close>)
qed

lemma get_user_dep_user:
  assumes "get_user_dep dec s now cred = Inr u"
  shows "u = api_username s \<and> (\<exists>token p. cred = Some token \<and> p \<noteq> []
    \<and> dec now token (jwt_secret_key s) [jwt_algorithm s] [lit ''exp'', lit ''sub''] = Inr p)"
proof -
  from assms obtain token p where c: "cred = Some token" "verify_token dec s now token = Inr (Some p)" "p \<noteq> []"
    by (auto simp: get_user_dep_def get_current_user_def bind_r_Inr_iff split: option.splits if_splits)
  with user_of_verified_payload [OF c(2)] verify_token_SomeD(1) [OF c(2)] assms show ?thesis
    by (auto simp: get_user_dep_def get_current_user_def)
qed


text \<open>
  With the verifier the password-hash command printed for a password, a well-formed login is
  granted exactly to the configured user name with a password that derives the same key; everything
  else is answered 401.
\<close>

theorem login_with_generated_verifier:
  assumes "is_bytes salt" "length salt = 16"
    and "\<And>p q n. is_bytes (kdf p q n) \<and> length (kdf p q n) = 32"
    and "password_hash_main kdf salt chosen chosen = Inr (h @ lit [CHR 0x0A])" "api_password_hash s = h"
    and "utf8_encode chosen = Inr raw" "utf8_encode (api_username s) = Inr v"
    and "login_form_ok username password" "utf8_encode username = Inr u" "utf8_encode password = Inr raw'"
  shows "login kdf enc s now username password =
    (if username = api_username s \<and> kdf raw' salt ITERATIONS = kdf raw salt ITERATIONS
     then Inr \<lparr>access_token = create_access_token enc s now [(lit ''sub'', Claim (JStr username))] None,
               token_type = lit ''bearer'', expires_in = jwt_access_token_expire_minutes s * 60\<rparr>
     else Inl (HTTPException 401 ''Invalid credentials''))"
proof -
  have h: "hash_password kdf salt chosen = Inr h"
    using assms(4) by (auto simp: password_hash_main_def split: sum.splits exn.splits)
  have "pattern_fullmatch h = Some (bytes_hex salt, bytes_hex (kdf raw salt ITERATIONS))"
    using hash_password_groups [OF h assms(1-3)] assms(6) by auto
  then have "verify_password kdf password h = Inr (kdf raw' salt ITERATIONS = kdf raw salt ITERATIONS)"
    using assms(1,3,8,10) by (subst verify_password_groups) (auto simp: fromhex_hex login_form_ok_def)
  moreover have "(u = v) = (username = api_username s)"
    using utf8_decode_encode [OF assms(9)] utf8_decode_encode [OF assms(7)] assms(7,9) by auto
  ultimately show ?thesis using assms(5,7-10) by (auto simp: login_def)
qed

text \<open>
  C13: the token a login returns opens the protected endpoints for its user until it expires, and not
  afterwards.
\<close>

theorem login_token_roundtrip:
  assumes "jwt_conforms enc dec" "login kdf enc s now username password = Inr tok"
  shows "get_user_dep dec s t (Some (access_token tok)) =
    (if t < of_int \<lfloor>now + of_int (expires_in tok)\<rfloor> then Inr username
     else Inl (HTTPException 401 ''Invalid token''))"
proof -
  obtain u v where uv: "utf8_encode username = Inr u" "utf8_encode (api_username s) = Inr v" "u = v"
    and tok: "tok = \<lparr>access_token = create_access_token enc s now [(lit ''sub'', Claim (JStr username))] None,
                    token_type = lit ''bearer'', expires_in = jwt_access_token_expire_minutes s * 60\<rparr>"
    using assms(2) by (auto simp: login_def bind_r_Inr_iff split: if_splits)
  have name: "username = api_username s"
    using utf8_decode_encode [OF uv(1)] utf8_decode_encode [OF uv(2)] uv(3) by simp
  show ?thesis
    using verify_login_token [OF assms(1), of s t now]
    by (simp add: get_user_dep_def get_current_user_def tok name Let_def user_of_payload_def dict_get_def
        mult.commute)
qed

text \<open>
  While every subscribed filter is one the rules allow (an invariant of the gateway), the topic
  list reports exactly the subscribed filters in the order they were subscribed, and the report of one
  filter is 404 exactly when it is not subscribed.
\<close>

theorem topic_reports:
  assumes "\<And>t. is_subscribed sv t \<Longrightarrow> authorize_topic m s t True = Inr ()"
  shows "\<exists>infos. list_topics m s sv = Inr infos \<and> length infos = length (sv_subscriptions sv)
    \<and> (\<forall>i < length infos. get_topic_info m s (fst (sv_subscriptions sv ! i)) sv = Inr (infos ! i))
    \<and> (\<forall>t. get_topic_info m s t sv = Inl (HTTPException 404 ''Topic not subscribed'')
         \<longleftrightarrow> \<not> is_subscribed sv t)"
proof -
  let ?info = "\<lambda>t. case map_of (sv_statistics sv) t of Some i \<Rightarrow> i
    | None \<Rightarrow> \<lparr>ti_topic = t, ti_message_count = 0, ti_last_message = None\<rparr>"
  have sub: "is_subscribed sv t" if "t \<in> fst ` set (sv_subscriptions sv)" for t
    using that by (simp add: is_subscribed_def map_of_eq_None_iff)
  have info: "service_get_topic_info m s t sv = Inr (?info t)" if "is_subscribed sv t" for t
    using assms [OF that] by (simp add: service_get_topic_info_def)
  have "map_r (\<lambda>t. service_get_topic_info m s t sv) ts = Inr (map ?info ts)"
    if "set ts \<subseteq> fst ` set (sv_subscriptions sv)" for ts
    using that by (induction ts) (simp_all add: info sub)
  then have "list_topics m s sv = Inr (map ?info (map fst (sv_subscriptions sv)))"
    by (simp add: list_topics_def get_subscriptions_def)
  moreover have "fst (sv_subscriptions sv ! i) \<in> fst ` set (sv_subscriptions sv)"
    if "i < length (sv_subscriptions sv)" for i
    using that by simp
  ultimately show ?thesis
    using info sub by (auto simp: get_topic_info_def)
qed

section \<open>Witnesses\<close>

definition strict_decode :: jwt_decoder where
  "strict_decode now token k algs req =
     (if set req \<subseteq> {lit ''exp'', lit ''sub''} then sample_decode now token k algs req
      else Inl InvalidTokenError)"

lemma strict_decoder_requires: "decoder_requires strict_decode"
  by (auto simp: decoder_requires_def strict_decode_def sample_decode_def Let_def split: list.splits)

lemma strict_jwt_conforms: "jwt_conforms sample_encode strict_decode"
  using sample_jwt_conforms by (simp add: jwt_conforms_def strict_decode_def)

definition sample_kdf :: kdf where
  "sample_kdf pw salt n = replicate 31 0 @ [length pw mod 256]"

definition sample_password :: pystr where
  "sample_password = replicate 16 97"

lemma sample_encodes:
  "utf8_encode sample_password = Inr sample_password"
  "utf8_encode (lit ''operator'') = Inr (lit ''operator'')"
  by (simp_all add: sample_password_def lit_def utf8_cp_def numeral_eq_Suc)

lemma example_user: "api_username example_settings = lit ''operator''"
  by (simp add: example_settings_def default_settings_def)


lemma sample_hash:
  "\<exists>h. password_hash_main sample_kdf (replicate 16 0) sample_password sample_password
      = Inr (h @ lit [CHR 0x0A])"
proof -
  have "\<exists>h. hash_password sample_kdf (replicate 16 0) sample_password = Inr h"
    by (simp add: hash_password_def sample_encodes) (simp add: sample_password_def)
  then show ?thesis by (auto simp: password_hash_main_def)
qed

lemma sample_form: "login_form_ok (lit ''operator'') sample_password"
  by (simp add: login_form_ok_def sample_password_def lit_def)

theorem login_with_generated_verifier_witness:
  "\<exists>h tok. password_hash_main sample_kdf (replicate 16 0) sample_password sample_password
        = Inr (h @ lit [CHR 0x0A])
     \<and> login sample_kdf sample_encode (example_settings\<lparr>api_password_hash := h\<rparr>) 0
          (lit ''operator'') sample_password = Inr tok"
proof -
  obtain h where h: "password_hash_main sample_kdf (replicate 16 0) sample_password sample_password
      = Inr (h @ lit [CHR 0x0A])"
    using sample_hash by blast
  have kdf: "is_bytes (sample_kdf p q n) \<and> length (sample_kdf p q n) = 32" for p q n
    by (simp add: sample_kdf_def is_bytes_def)
  have "is_bytes (replicate 16 0)" "length (replicate 16 (0 :: nat)) = 16"
    by (simp_all add: is_bytes_def)
  from login_with_generated_verifier [OF this kdf h, of "example_settings\<lparr>api_password_hash := h\<rparr>"
      sample_password "lit ''operator''" "lit ''operator''" sample_password "lit ''operator''"
      sample_password sample_encode 0] h
  show ?thesis
    by (simp add: sample_encodes sample_form example_user)
qed

theorem login_token_roundtrip_witness:
  "\<exists>h tok. login sample_kdf sample_encode (example_settings\<lparr>api_password_hash := h\<rparr>) 0
          (lit ''operator'') sample_password = Inr tok
     \<and> get_user_dep strict_decode (example_settings\<lparr>api_password_hash := h\<rparr>) 5 (Some (access_token tok))
         = Inr (lit ''operator'')"
proof -
  obtain h where h: "hash_password sample_kdf (replicate 16 0) sample_password = Inr h"
    using sample_hash by (auto simp: password_hash_main_def split: sum.splits exn.splits)
  let ?s = "example_settings\<lparr>api_password_hash := h\<rparr>"
  have "pattern_fullmatch h = Some (bytes_hex (replicate 16 0), bytes_hex (sample_kdf sample_password (replicate 16 0) ITERATIONS))"
    using hash_password_groups [OF h] by (simp add: is_bytes_def sample_kdf_def sample_encodes)
  then have "verify_password sample_kdf sample_password h = Inr True"
    using verify_password_groups [OF _ _ _ sample_encodes(1)]
    by (simp add: sample_password_def) (simp add: fromhex_hex is_bytes_def sample_kdf_def)
  then obtain tok where tok: "login sample_kdf sample_encode ?s 0 (lit ''operator'') sample_password = Inr tok"
    and e: "expires_in tok = jwt_access_token_expire_minutes example_settings * 60"
    by (simp add: login_def sample_form sample_encodes example_user)
  have "expires_in tok = 1800"
    using e by (simp add: example_settings_def default_settings_def)
  with login_token_roundtrip [OF strict_jwt_conforms tok, of 5] tok show ?thesis
    by auto
qed

theorem topic_reports_witness:
  "\<exists>infos. list_topics mqtt_matches example_settings (sample_service [([5], 1)]) = Inr infos \<and> length infos = 1"
proof -
  have "authorize_topic mqtt_matches example_settings t True = Inr ()"
    if "is_subscribed (sample_service [([5], 1)]) t" for t
    using that by (auto simp: is_subscribed_def sample_service_def split: if_splits)
  from topic_reports [of "sample_service [([5], 1)]", OF this] show ?thesis
    by (auto simp: sample_service_def)
qed

end
