(* ===== verification/Websocket.thy ===== *)
theory Websocket
  imports Auth Mqtt_Service
begin

text \<open>
  The streaming endpoint \<open>websocket_endpoint\<close> of \<open>api/__init__.py\<close>. The opening (\<open>ws_open\<close>) reads
  the token from the header or from the first frame, checks it, parses the requested filters and
  authorizes all of them before the broker is used. A session then acquires its filters one by one,
  announces itself, and streams: the packet callback \<open>ws_callback\<close> fills a bounded queue, the sender
  \<open>send_messages\<close> empties it under the deadlines of the token and of the slow-client timeout, and the
  receiver waits for the peer to leave. Every way out goes through \<open>ws_leave\<close> and the release of the
  acquired filters (\<open>ws_release_next\<close>). Each suspension of the source separates two of these
  operations; the theory \<open>Gateway\<close> interleaves them with the rest of the program.
\<close>

section \<open>Opening\<close>

definition partition_space :: "pystr \<Rightarrow> pystr \<times> pystr" where
  "partition_space h = (takeWhile (\<lambda>c. c \<noteq> 32) h, tl (dropWhile (\<lambda>c. c \<noteq> 32) h))"

definition header_token :: "(nat \<Rightarrow> pystr) \<Rightarrow> pystr \<Rightarrow> pystr" where
  "header_token uni header =
     (case partition_space header of
        (scheme, token) \<Rightarrow> if py_lower uni scheme \<noteq> lit ''bearer'' then [] else token)"

definition frame_token :: "json \<Rightarrow> json" where
  "frame_token frame =
     (case frame of
        JObj d \<Rightarrow> if dict_get d (lit ''type'') JNull = JStr (lit ''auth'')
                   then dict_get d (lit ''token'') (JStr []) else JStr []
      | _ \<Rightarrow> JStr [])"

text \<open>The exceptions of the wait for the first frame that end the connection quietly.\<close>

fun frame_rejection :: "exn \<Rightarrow> bool" where
  "frame_rejection TimeoutError = True"
| "frame_rejection (ValueError _) = True"
| "frame_rejection UnicodeError = True"
| "frame_rejection TypeError = True"
| "frame_rejection KeyError = True"
| "frame_rejection WebSocketDisconnect = True"
| "frame_rejection _ = False"

fun is_http :: "exn \<Rightarrow> bool" where
  "is_http (HTTPException _ _) = True"
| "is_http _ = False"

text \<open>\<open>list(dict.fromkeys(xs))\<close>: the first occurrence of every element.\<close>

fun fromkeys :: "'a list \<Rightarrow> 'a list" where
  "fromkeys [] = []"
| "fromkeys (x # xs) = x # filter (\<lambda>y. y \<noteq> x) (fromkeys xs)"

definition requested_topics :: "pystr \<Rightarrow> pystr list" where
  "requested_topics topics = fromkeys (filter (\<lambda>t. t \<noteq> []) (map strip (split_on 44 topics)))"

datatype ws_opening = Rejected int string | OpenRaised exn | Opened json_dict "pystr list"

definition ws_claims_of :: "jwt_decoder \<Rightarrow> settings \<Rightarrow> real \<Rightarrow> json \<Rightarrow> json_dict option result" where
  "ws_claims_of jwt_decode s now token =
     (case token of
        JStr t \<Rightarrow> if length t \<le> 8192 then verify_token jwt_decode s now t else Inr None
      | _ \<Rightarrow> Inr None)"

definition ws_topics_allowed :: "matcher \<Rightarrow> settings \<Rightarrow> pystr list \<Rightarrow> unit result" where
  "ws_topics_allowed m s requested =
     (if requested = [] \<or> int (length requested) > websocket_max_topics s
      then Inl (HTTPException 400 ''Invalid number of topics'')
      else each_r (\<lambda>topic. authorize_topic m s topic True) requested)"

definition ws_open ::
  "jwt_decoder \<Rightarrow> (nat \<Rightarrow> pystr) \<Rightarrow> matcher \<Rightarrow> settings \<Rightarrow> real \<Rightarrow> pystr option \<Rightarrow> json result \<Rightarrow> pystr
   \<Rightarrow> ws_opening" where
  "ws_open jwt_decode uni m s now header frame topics =
     (case (case header of
              Some h \<Rightarrow> Inr (JStr (header_token uni h))
            | None \<Rightarrow> bind_r frame (\<lambda>f. Inr (frame_token f))) of
        Inl e \<Rightarrow> if frame_rejection e then Rejected 1008 ''Authentication required'' else OpenRaised e
      | Inr token \<Rightarrow>
          (case ws_claims_of jwt_decode s now token of
             Inl e \<Rightarrow> OpenRaised e
           | Inr claims \<Rightarrow>
               if claims = None \<or> claims = Some [] then Rejected 1008 ''Invalid or missing token''
               else
                 (let requested = requested_topics topics
                  in case ws_topics_allowed m s requested of
                       Inl e \<Rightarrow> if is_http e then Rejected 1008 ''Topic not allowed'' else OpenRaised e
                     | Inr _ \<Rightarrow> Opened (the claims) requested)))"

section \<open>The session\<close>

datatype ws_phase = Acquiring | Streaming | Releasing

record ws_session =
  ws_claims :: json_dict
  ws_requested :: "pystr list"
  ws_remaining :: "pystr list"
  ws_acquired :: "pystr list"
  ws_queue :: "mqtt_message list"
  ws_overflow :: bool
  ws_finished :: bool
  ws_close :: "(int \<times> string) option"
  ws_phase :: ws_phase

definition ws_new :: "json_dict \<Rightarrow> pystr list \<Rightarrow> ws_session" where
  "ws_new claims requested =
     \<lparr>ws_claims = claims, ws_requested = requested, ws_remaining = requested, ws_acquired = [],
      ws_queue = [], ws_overflow = False, ws_finished = False, ws_close = None, ws_phase = Acquiring\<rparr>"

definition ws_owner :: "pystr \<Rightarrow> pystr" where
  "ws_owner uuid = lit ''websocket:'' @ uuid"

definition ws_callback ::
  "matcher \<Rightarrow> settings \<Rightarrow> real \<Rightarrow> received_message \<Rightarrow> ws_session \<Rightarrow> ws_session" where
  "ws_callback m s now message ws =
     (if \<not> (\<exists>pattern\<in>set (ws_requested ws). m pattern (rm_topic message)) then ws
      else if int (length (rm_payload message)) > max_message_bytes s then ws
      else if 0 < websocket_queue_size s \<and> websocket_queue_size s \<le> int (length (ws_queue ws))
           then ws\<lparr>ws_overflow := True\<rparr>
      else ws\<lparr>ws_queue := ws_queue ws @
               [\<lparr>mm_topic = rm_topic message, mm_payload = utf8_decode_replace (rm_payload message),
                 mm_qos = rm_qos message, mm_retain = rm_retain message, mm_timestamp = now\<rparr>]\<rparr>)"

text \<open>\<open>mqtt_client.add_packet_callback(ws_callback)\<close>, then the first pass of the \<open>try\<close> block.\<close>

definition ws_start :: "pystr \<Rightarrow> 'p gclient \<Rightarrow> 'p gclient" where
  "ws_start owner c = add_packet_callback (WsCallback owner) c"

text \<open>The exceptions the endpoint answers with the close frame 1011.\<close>

fun stream_failure :: "exn \<Rightarrow> bool" where
  "stream_failure WebSocketDisconnect = True"
| "stream_failure (RuntimeError _) = True"
| "stream_failure TimeoutError = True"
| "stream_failure _ = False"

definition unavailable :: "int \<times> string" where
  "unavailable = (1011, ''Stream unavailable'')"

text \<open>
  Leaving the \<open>try\<close> block: the close frame when there is one, then the start of the \<open>finally\<close> block,
  which removes the callback. \<open>reason\<close> is the close frame that is sent, if any.
\<close>

definition ws_leave ::
  "pystr \<Rightarrow> (int \<times> string) option \<Rightarrow> 'p gclient \<times> ws_session \<Rightarrow> 'p gclient \<times> ws_session" where
  "ws_leave owner reason cw =
     (case cw of (c, ws) \<Rightarrow>
        (remove_packet_callback (WsCallback owner) c, ws\<lparr>ws_close := reason, ws_phase := Releasing\<rparr>))"

definition ws_raise ::
  "pystr \<Rightarrow> exn \<Rightarrow> 'p gclient \<times> ws_session \<Rightarrow> 'p gclient \<times> ws_session" where
  "ws_raise owner e cw = ws_leave owner (if stream_failure e then Some unavailable else None) cw"

text \<open>One pass of \<open>for topic in requested: await acquire_subscription(topic, 0, owner)\<close>.\<close>

definition ws_acquire_next ::
  "'p paho \<Rightarrow> matcher \<Rightarrow> settings \<Rightarrow> pystr \<Rightarrow> (service \<times> 'p gclient) \<times> ws_session
   \<Rightarrow> (service \<times> 'p gclient) \<times> ws_session" where
  "ws_acquire_next ph m s owner stw =
     (case stw of (st, ws) \<Rightarrow>
        (case ws_remaining ws of
           [] \<Rightarrow> (st, ws)
         | topic # rest \<Rightarrow>
             (case acquire_subscription (subscribe ph) m s topic 0 owner False st of
                (st', Inr _) \<Rightarrow>
                  (st', ws\<lparr>ws_remaining := rest, ws_acquired := ws_acquired ws @ [topic]\<rparr>)
              | ((sv', c'), Inl e) \<Rightarrow>
                  (case ws_raise owner e (c', ws) of (c2, ws2) \<Rightarrow> ((sv', c2), ws2)))))"

text \<open>The announcement \<open>{"type": "ready"}\<close>, sent under the send timeout.\<close>

definition ws_ready ::
  "pystr \<Rightarrow> unit result \<Rightarrow> 'p gclient \<times> ws_session \<Rightarrow> 'p gclient \<times> ws_session" where
  "ws_ready owner sent cw =
     (case cw of (c, ws) \<Rightarrow>
        (case sent of
           Inr _ \<Rightarrow> (c, ws\<lparr>ws_phase := Streaming\<rparr>)
         | Inl e \<Rightarrow> ws_raise owner e (c, ws)))"

section \<open>The sender\<close>

datatype ws_frame = FrameMessage mqtt_message | FramePing

datatype sender_result =
    SenderLoop "ws_frame option"
  | SenderDone int string
  | SenderRaised exn

text \<open>\<open>float(claims["exp"])\<close>; the reading of a numeric string is the argument \<open>float_str\<close>.\<close>

definition claims_exp :: "(pystr \<Rightarrow> real result) \<Rightarrow> json_dict \<Rightarrow> real result" where
  "claims_exp float_str claims =
     (case map_of claims (lit ''exp'') of
        None \<Rightarrow> Inl KeyError
      | Some (JInt i) \<Rightarrow> Inr (of_int i)
      | Some (JFloat r) \<Rightarrow> Inr r
      | Some (JBool b) \<Rightarrow> Inr (if b then 1 else 0)
      | Some (JStr t) \<Rightarrow> float_str t
      | Some _ \<Rightarrow> Inl TypeError)"

text \<open>
  One pass of \<open>send_messages\<close>: it starts at \<open>t0\<close>, the wait for the queue ends at \<open>t1\<close> (the head of
  the queue, or \<open>None\<close> after the timeout), \<open>sent\<close> is the outcome of \<open>send_json\<close>.
\<close>

definition wait_limit :: "real \<Rightarrow> real \<Rightarrow> real" where
  "wait_limit expiry t0 = min 30 (expiry - t0)"

definition send_limit :: "settings \<Rightarrow> real \<Rightarrow> real \<Rightarrow> real" where
  "send_limit s expiry t = min (websocket_send_timeout s) (max (1 / 1000) (expiry - t))"

definition send_messages_pass ::
  "real \<Rightarrow> real \<Rightarrow> mqtt_message option \<Rightarrow> real \<Rightarrow> unit result \<Rightarrow> sender_result" where
  "send_messages_pass expiry t0 got t1 sent =
     (if expiry - t0 \<le> 0 then SenderDone 1008 ''Token expired''
      else if got = None \<and> t1 \<ge> expiry then SenderLoop None
      else (case sent of
              Inr _ \<Rightarrow> SenderLoop (Some (case got of Some msg \<Rightarrow> FrameMessage msg | None \<Rightarrow> FramePing))
            | Inl TimeoutError \<Rightarrow> SenderDone 1013 ''Client cannot keep up''
            | Inl e \<Rightarrow> SenderRaised e))"

text \<open>\<open>run_sender\<close>: the pass seen from the session; a message that was got leaves the queue.\<close>

definition run_sender ::
  "(pystr \<Rightarrow> real result) \<Rightarrow> real \<Rightarrow> bool \<Rightarrow> real \<Rightarrow> unit result \<Rightarrow> pystr
   \<Rightarrow> 'p gclient \<times> ws_session \<Rightarrow> 'p gclient \<times> ws_session" where
  "run_sender float_str t0 got t1 sent owner cw =
     (case cw of (c, ws) \<Rightarrow>
        (case claims_exp float_str (ws_claims ws) of
           Inl e \<Rightarrow> if stream_failure e then (c, ws\<lparr>ws_close := Some unavailable, ws_finished := True\<rparr>)
                    else ws_leave owner None (c, ws)
         | Inr expiry \<Rightarrow>
             (let msg = (if got \<and> expiry - t0 > 0 \<and> ws_queue ws \<noteq> [] then Some (hd (ws_queue ws)) else None);
                  ws1 = (if msg = None then ws else ws\<lparr>ws_queue := tl (ws_queue ws)\<rparr>)
              in case send_messages_pass expiry t0 msg t1 sent of
                   SenderLoop _ \<Rightarrow> (c, ws1)
                 | SenderDone code reason \<Rightarrow> (c, ws1\<lparr>ws_close := Some (code, reason), ws_finished := True\<rparr>)
                 | SenderRaised e \<Rightarrow>
                     if stream_failure e then (c, ws1\<lparr>ws_close := Some unavailable, ws_finished := True\<rparr>)
                     else ws_leave owner None (c, ws1))))"

definition run_receiver :: "ws_session \<Rightarrow> ws_session" where
  "run_receiver ws = ws\<lparr>ws_finished := True\<rparr>"

definition run_overflow :: "ws_session \<Rightarrow> ws_session" where
  "run_overflow ws =
     (if ws_overflow ws then ws\<lparr>ws_close := Some (1013, ''Client cannot keep up''), ws_finished := True\<rparr> else ws)"

text \<open>\<open>finished.wait()\<close> returned: the task group is cancelled and the close frame sent.\<close>

definition ws_finish ::
  "pystr \<Rightarrow> 'p gclient \<times> ws_session \<Rightarrow> 'p gclient \<times> ws_session" where
  "ws_finish owner cw =
     (case cw of (c, ws) \<Rightarrow> if ws_finished ws then ws_leave owner (ws_close ws) (c, ws) else (c, ws))"

section \<open>Releasing\<close>

text \<open>
  One pass of the release loop. A \<open>RuntimeError\<close> is suppressed; any other exception ends the loop,
  which the second component reports.
\<close>

definition ws_release_next ::
  "'p paho \<Rightarrow> pystr \<Rightarrow> (service \<times> 'p gclient) \<times> ws_session
   \<Rightarrow> ((service \<times> 'p gclient) \<times> ws_session) \<times> unit result" where
  "ws_release_next ph owner stw =
     (case stw of (st, ws) \<Rightarrow>
        (case ws_acquired ws of
           [] \<Rightarrow> ((st, ws), Inr ())
         | topic # rest \<Rightarrow>
             (case release_subscription (unsubscribe ph) topic owner st of
                (st', r) \<Rightarrow>
                  ((st', ws\<lparr>ws_acquired := rest\<rparr>),
                   case r of Inl (RuntimeError _) \<Rightarrow> Inr () | _ \<Rightarrow> r))))"

section \<open>Who may stream what\<close>

lemma set_fromkeys [simp]: "set (fromkeys xs) = set xs"
  by (induction xs) auto

lemma distinct_fromkeys [simp]: "distinct (fromkeys xs)"
  by (induction xs) auto

lemma requested_topics_shape:
  "distinct (requested_topics topics)" "[] \<notin> set (requested_topics topics)"
  by (auto simp: requested_topics_def)

lemma ws_topics_allowed_iff:
  "ws_topics_allowed m s req = Inr () \<longleftrightarrow>
     req \<noteq> [] \<and> int (length req) \<le> websocket_max_topics s
     \<and> (\<forall>t\<in>set req. authorize_topic m s t True = Inr ())"
  by (auto simp: ws_topics_allowed_def each_r_Inr_iff)

lemma ws_open_Opened:
  assumes "ws_open dec uni m s now header frame topics = Opened claims req"
  shows "req = requested_topics topics" "ws_topics_allowed m s req = Inr ()"
    and "\<exists>t. verify_token dec s now t = Inr (Some claims)
      \<and> (case header of Some h \<Rightarrow> t = header_token uni h | None \<Rightarrow> (\<exists>f. frame = Inr f \<and> frame_token f = JStr t))"
  using assms
  by (auto simp: ws_open_def Let_def ws_claims_of_def bind_r_def
      split: sum.splits option.splits if_splits json.splits)


section \<open>The queue of a stream\<close>

text \<open>The messages a stream is meant to see.\<close>

definition ws_wants :: "matcher \<Rightarrow> settings \<Rightarrow> ws_session \<Rightarrow> received_message \<Rightarrow> bool" where
  "ws_wants m s ws msg \<longleftrightarrow> (\<exists>pattern\<in>set (ws_requested ws). m pattern (rm_topic msg))
     \<and> int (length (rm_payload msg)) \<le> max_message_bytes s"

definition ws_callback_all ::
  "matcher \<Rightarrow> settings \<Rightarrow> (real \<times> received_message) list \<Rightarrow> ws_session \<Rightarrow> ws_session" where
  "ws_callback_all m s ms ws = fold (\<lambda>(now, msg). ws_callback m s now msg) ms ws"

lemma ws_callback_cases:
  "ws_callback m s now msg ws =
     (if \<not> ws_wants m s ws msg then ws
      else if 0 < websocket_queue_size s \<and> websocket_queue_size s \<le> int (length (ws_queue ws))
           then ws\<lparr>ws_overflow := True\<rparr>
      else ws\<lparr>ws_queue := ws_queue ws @ [received now msg]\<rparr>)"
  by (auto simp: ws_callback_def ws_wants_def received_def)

lemma ws_callback_frame [simp]:
  "ws_requested (ws_callback m s now msg ws) = ws_requested ws"
  "ws_acquired (ws_callback m s now msg ws) = ws_acquired ws"
  "ws_remaining (ws_callback m s now msg ws) = ws_remaining ws"
  "ws_phase (ws_callback m s now msg ws) = ws_phase ws"
  "ws_claims (ws_callback m s now msg ws) = ws_claims ws"
  by (simp_all add: ws_callback_cases)

lemma ws_wants_frame [simp]: "ws_wants m s (ws_callback m s now msg ws) = ws_wants m s ws"
  by (simp add: ws_wants_def fun_eq_iff)

lemma ws_callback_overflow: "ws_overflow ws \<Longrightarrow> ws_overflow (ws_callback m s now msg ws)"
  by (simp add: ws_callback_cases)

lemma ws_callback_all_Cons [simp]:
  "ws_callback_all m s ((now, msg) # ms) ws = ws_callback_all m s ms (ws_callback m s now msg ws)"
  by (simp add: ws_callback_all_def)

lemma ws_callback_all_Nil [simp]: "ws_callback_all m s [] ws = ws"
  by (simp add: ws_callback_all_def)

lemma ws_callback_all_overflow: "ws_overflow ws \<Longrightarrow> ws_overflow (ws_callback_all m s ms ws)"
  by (induction ms arbitrary: ws) (auto simp: ws_callback_overflow)

lemma ws_callback_bounded:
  assumes "1 \<le> websocket_queue_size s" "int (length (ws_queue ws)) \<le> websocket_queue_size s"
  shows "int (length (ws_queue (ws_callback m s now msg ws))) \<le> websocket_queue_size s"
  using assms by (auto simp: ws_callback_cases)

text \<open>
  C10: a stream never loses a message silently: whatever arrives between two turns of the sender, its
  queue stays within \<open>websocket_queue_size\<close>, and either every message it is meant to see has been
  queued, in order and as received, or the overflow is flagged, which closes the stream with 1013.
\<close>

theorem stream_never_drops_silently:
  assumes "settings_wf s" "int (length (ws_queue ws)) \<le> websocket_queue_size s"
  shows "int (length (ws_queue (ws_callback_all m s ms ws))) \<le> websocket_queue_size s
    \<and> (ws_queue (ws_callback_all m s ms ws) =
         ws_queue ws @ map (\<lambda>(now, msg). received now msg) (filter (ws_wants m s ws \<circ> snd) ms)
       \<or> ws_close (run_overflow (ws_callback_all m s ms ws)) = Some (1013, ''Client cannot keep up'')
         \<and> ws_finished (run_overflow (ws_callback_all m s ms ws)))"
  using assms(2)
proof (induction ms arbitrary: ws)
  case (Cons nm ms)
  obtain now msg where nm: "nm = (now, msg)" by (cases nm)
  have q: "1 \<le> websocket_queue_size s" using settings_wf_bounds(2) [OF assms(1)] .
  note IH = Cons.IH [OF ws_callback_bounded [OF q Cons.prems], of m now msg]
  show ?case
  proof (cases "ws_overflow (ws_callback m s now msg ws)")
    case True
    from ws_callback_all_overflow [OF this, of m s ms] IH show ?thesis
      by (simp add: nm run_overflow_def)
  next
    case False
    then have "ws_queue (ws_callback m s now msg ws)
        = ws_queue ws @ (if ws_wants m s ws msg then [received now msg] else [])"
      by (auto simp: ws_callback_cases split: if_splits)
    with IH show ?thesis by (auto simp: nm)
  qed
qed (use assms in simp)

section \<open>The deadline of the token\<close>

text \<open>
  A pass of the sender whose waits respect their timeouts: it starts at \<open>t0\<close>, the wait ends at \<open>t1\<close>,
  the frame is out (or given up) at \<open>t2\<close>.
\<close>

record sender_pass =
  sp_start :: real
  sp_got :: "mqtt_message option"
  sp_waited :: real
  sp_sent :: "unit result"
  sp_end :: real

definition well_timed :: "settings \<Rightarrow> real \<Rightarrow> sender_pass \<Rightarrow> bool" where
  "well_timed s expiry p \<longleftrightarrow>
     sp_start p \<le> sp_waited p \<and> sp_waited p \<le> sp_start p + wait_limit expiry (sp_start p)
     \<and> sp_waited p \<le> sp_end p \<and> sp_end p \<le> sp_waited p + send_limit s expiry (sp_waited p)"

text \<open>The loop: the frames sent with the times they were begun and done, and how it returned.\<close>

fun send_messages :: "real \<Rightarrow> sender_pass list \<Rightarrow> (ws_frame \<times> real \<times> real) list \<times> sender_result option" where
  "send_messages expiry [] = ([], None)"
| "send_messages expiry (p # ps) =
     (case send_messages_pass expiry (sp_start p) (sp_got p) (sp_waited p) (sp_sent p) of
        SenderLoop None \<Rightarrow> send_messages expiry ps
      | SenderLoop (Some f) \<Rightarrow>
          (case send_messages expiry ps of (fs, r) \<Rightarrow> ((f, sp_waited p, sp_end p) # fs, r))
      | r \<Rightarrow> ([], Some r))"

lemma pass_sends_in_time:
  assumes "well_timed s expiry p"
    and "send_messages_pass expiry (sp_start p) (sp_got p) (sp_waited p) (sp_sent p) = SenderLoop (Some f)"
  shows "sp_waited p \<le> expiry \<and> sp_end p \<le> expiry + 1 / 1000"
  using assms
  by (auto simp: well_timed_def wait_limit_def send_limit_def send_messages_pass_def min_def max_def
      split: if_splits)


section \<open>Witnesses\<close>

definition sample_header :: pystr where
  "sample_header = lit ''Bearer '' @ [1, 1000] @ lit ''operator''"

lemma sample_open:
  "ws_open sample_decode (\<lambda>_. []) mqtt_matches example_settings 0 (Some sample_header) (Inl TimeoutError)
     sample_topic = Opened [(lit ''sub'', JStr (lit ''operator'')), (lit ''exp'', JInt 1000)] [sample_topic]"
proof -
  have tok: "header_token (\<lambda>_. []) sample_header = [1, 1000] @ lit ''operator''"
    by (simp add: header_token_def partition_space_def sample_header_def py_lower_def lit_def)
  have req: "requested_topics sample_topic = [sample_topic]"
    by (simp add: requested_topics_def sample_topic_def strip_def is_space_def lit_def)
  have max: "websocket_max_topics example_settings = 32"
    by (simp add: example_settings_def default_settings_def)
  have user: "api_username example_settings = lit ''operator''"
    by (simp add: example_settings_def default_settings_def)
  have "verify_token sample_decode example_settings 0 ([1, 1000] @ lit ''operator'')
      = Inr (Some [(lit ''sub'', JStr (lit ''operator'')), (lit ''exp'', JInt 1000)])"
    by (simp add: verify_token_def sample_decode_def user dict_get_def)
  moreover have "length ([1, 1000] @ lit ''operator'') \<le> 8192"
    by (simp add: lit_def)
  ultimately show ?thesis
    by (simp add: ws_open_def tok ws_claims_of_def req ws_topics_allowed_def max)
qed


theorem stream_never_drops_silently_witness:
  "ws_queue (ws_callback_all mqtt_matches example_settings [(0, sample_packet)] (ws_new [] [sample_topic]))
     = [received 0 sample_packet]"
proof -
  have sizes: "websocket_queue_size example_settings = 64"
    by (simp add: example_settings_def default_settings_def)
  have m: "mqtt_matches sample_topic sample_topic"
    by (simp add: mqtt_matches_def wild_start_def sample_topic_def lit_def startswith_def)
  have ws: "ws_wants mqtt_matches example_settings (ws_new [] [sample_topic]) sample_packet"
    by (simp add: ws_wants_def ws_new_def sample_packet_def example_sizes m)
  have "ws_close (run_overflow (ws_callback_all mqtt_matches example_settings [(0, sample_packet)]
      (ws_new [] [sample_topic]))) = None"
    by (simp add: ws_callback_cases ws run_overflow_def sizes) (simp add: ws_new_def)
  with stream_never_drops_silently [OF example_settings_wf, of "ws_new [] [sample_topic]" mqtt_matches
      "[(0, sample_packet)]"] ws
  show ?thesis by (simp add: sizes ws_new_def)
qed


end
