(* ===== verification/Gateway.thy ===== *)
theory Gateway
  imports Api_Rest Websocket
begin

text \<open>
  The whole gateway: \<open>main.py\<close> (start, stop, the application object) and the interleaving of
  everything that runs in it: the network thread and the event loop of the client, HTTP requests,
  retained queries that wait for the broker, and any number of streams in any phase. \<open>gw_step\<close> is
  the step relation; between two steps lies a suspension point of the source or a turn of the network
  thread. The invariant \<open>gw_inv\<close> ties every owner in the service's tables to something alive, every
  packet callback to a stream or query that still listens, and the client's replay table to the
  service's.
\<close>

section \<open>Application and lifespan\<close>

record application =
  app_title :: pystr
  app_version_shown :: pystr
  app_docs_url :: "pystr option"
  app_redoc_url :: "pystr option"
  app_allow_origins :: "pystr list"
  app_allow_credentials :: bool
  app_allow_methods :: "pystr list"
  app_allow_headers :: "pystr list"
  app_rate_limit :: bool

definition create_app :: "settings \<Rightarrow> application" where
  "create_app s =
     \<lparr>app_title = app_name s, app_version_shown = app_version s,
      app_docs_url = (if debug s then Some (lit ''/docs'') else None),
      app_redoc_url = (if debug s then Some (lit ''/redoc'') else None),
      app_allow_origins = cors_allowed_origins s, app_allow_credentials = True,
      app_allow_methods = [lit ''*''], app_allow_headers = [lit ''*''],
      app_rate_limit = rate_limit_enabled s\<rparr>"

text \<open>Before and after the \<open>yield\<close> of \<open>lifespan\<close>.\<close>

definition lifespan_enter :: "'p paho \<Rightarrow> tls_loader \<Rightarrow> settings \<Rightarrow> 'p gclient \<times> connect_outcome" where
  "lifespan_enter ph ld s = connect_start ph ld s (add_packet_callback HandleMessage client_init)"

definition lifespan_exit :: "'p paho \<Rightarrow> bool \<Rightarrow> 'p gclient \<Rightarrow> 'p gclient \<times> unit result" where
  "lifespan_exit ph cancelled c = disconnect ph cancelled (remove_packet_callback HandleMessage c)"

section \<open>State\<close>

record gw_world =
  gw_service :: service
  gw_sessions :: "(pystr, ws_session) dict"
  gw_queries :: "(pystr, pystr \<times> received_message option) dict"

definition gw_world_init :: gw_world where
  "gw_world_init = \<lparr>gw_service = service_init, gw_sessions = [], gw_queries = []\<rparr>"

definition retained_owner :: "pystr \<Rightarrow> pystr" where
  "retained_owner uuid = lit ''retained:'' @ uuid"

text \<open>What the packet callbacks of the gateway do; it registers no message callback.\<close>

definition gw_run_p ::
  "matcher \<Rightarrow> settings \<Rightarrow> real \<Rightarrow> callback \<Rightarrow> received_message \<Rightarrow> gw_world \<Rightarrow> gw_world \<times> unit result" where
  "gw_run_p m s now k msg w =
     (case k of
        HandleMessage \<Rightarrow>
          (case handle_message m s now msg (gw_service w) of (sv, r) \<Rightarrow> (w\<lparr>gw_service := sv\<rparr>, r))
      | WsCallback owner \<Rightarrow>
          (case map_of (gw_sessions w) owner of
             None \<Rightarrow> (w, Inr ())
           | Some ws \<Rightarrow>
               (w\<lparr>gw_sessions := AList.update owner (ws_callback m s now msg ws) (gw_sessions w)\<rparr>, Inr ()))
      | RetainedReceive owner \<Rightarrow>
          (case map_of (gw_queries w) owner of
             None \<Rightarrow> (w, Inr ())
           | Some (topic, future) \<Rightarrow>
               (w\<lparr>gw_queries := AList.update owner (topic, receive_retained topic msg future) (gw_queries w)\<rparr>,
                Inr ())))"

definition gw_run_m :: "unit \<Rightarrow> pystr \<Rightarrow> bytes \<Rightarrow> gw_world \<Rightarrow> gw_world \<times> unit result" where
  "gw_run_m cb topic payload w = (w, Inr ())"

definition put_session :: "pystr \<Rightarrow> ws_session \<Rightarrow> gw_world \<Rightarrow> gw_world" where
  "put_session owner ws w = w\<lparr>gw_sessions := AList.update owner ws (gw_sessions w)\<rparr>"

section \<open>Steps\<close>

inductive gw_step ::
  "'p paho \<Rightarrow> jwt_decoder \<Rightarrow> (nat \<Rightarrow> pystr) \<Rightarrow> (pystr \<Rightarrow> real result) \<Rightarrow> matcher \<Rightarrow> settings
   \<Rightarrow> 'p gclient \<times> gw_world \<Rightarrow> 'p gclient \<times> gw_world \<Rightarrow> bool"
  for ph :: "'p paho" and dec uni fs m s
where
  net_connect: "gw_step ph dec uni fs m s (c, w) (fst (on_connect ph rc c), w)"
| net_disconnect: "gw_step ph dec uni fs m s (c, w) (on_disconnect c, w)"
| net_message: "gw_step ph dec uni fs m s (c, w) (on_message s (gw_run_p m s now) gw_run_m msg (c, w))"
| net_library: "cl_paho c = Some p \<Longrightarrow> gw_step ph dec uni fs m s (c, w) (c\<lparr>cl_paho := Some p'\<rparr>, w)"
| loop_turn: "gw_step ph dec uni fs m s (c, w) (run_ready ph s (gw_run_p m s now) gw_run_m (c, w))"
| rest: "rest_call ph dec m s now cred req (gw_service w, c) = ((sv', c'), r)
    \<Longrightarrow> gw_step ph dec uni fs m s (c, w) (c', w\<lparr>gw_service := sv'\<rparr>)"
| retained_waits: "query_retained_message ph dec m s now cred body (retained_owner uuid) (gw_service w, c)
      = ((sv', c'), RetainedWaiting)
    \<Longrightarrow> map_of (gw_queries w) (retained_owner uuid) = None
    \<Longrightarrow> gw_step ph dec uni fs m s (c, w)
          (c', w\<lparr>gw_service := sv', gw_queries := AList.update (retained_owner uuid) (ret_topic body, None) (gw_queries w)\<rparr>)"
| retained_over: "query_retained_message ph dec m s now cred body (retained_owner uuid) (gw_service w, c)
      = ((sv', c'), RetainedDone r)
    \<Longrightarrow> map_of (gw_queries w) (retained_owner uuid) = None
    \<Longrightarrow> gw_step ph dec uni fs m s (c, w) (c', w\<lparr>gw_service := sv'\<rparr>)"
| retained_finish: "map_of (gw_queries w) owner = Some (topic, future)
    \<Longrightarrow> (\<And>msg. outcome = RetainedMessage msg \<Longrightarrow> future = Some msg)
    \<Longrightarrow> query_retained_finish ph \<lparr>ret_topic = topic\<rparr> owner outcome (gw_service w, c) = ((sv', c'), r)
    \<Longrightarrow> gw_step ph dec uni fs m s (c, w)
          (c', w\<lparr>gw_service := sv', gw_queries := AList.delete owner (gw_queries w)\<rparr>)"
| ws_opened: "ws_open dec uni m s now header frame topics = Opened claims req
    \<Longrightarrow> map_of (gw_sessions w) (ws_owner uuid) = None
    \<Longrightarrow> gw_step ph dec uni fs m s (c, w)
          (ws_start (ws_owner uuid) c, put_session (ws_owner uuid) (ws_new claims req) w)"
| ws_acquires: "map_of (gw_sessions w) owner = Some ws \<Longrightarrow> ws_phase ws = Acquiring
    \<Longrightarrow> ws_acquire_next ph m s owner ((gw_service w, c), ws) = ((sv', c'), ws')
    \<Longrightarrow> gw_step ph dec uni fs m s (c, w) (c', put_session owner ws' (w\<lparr>gw_service := sv'\<rparr>))"
| ws_readies: "map_of (gw_sessions w) owner = Some ws \<Longrightarrow> ws_phase ws = Acquiring \<Longrightarrow> ws_remaining ws = []
    \<Longrightarrow> ws_ready owner sent (c, ws) = (c', ws')
    \<Longrightarrow> gw_step ph dec uni fs m s (c, w) (c', put_session owner ws' w)"
| ws_sends: "map_of (gw_sessions w) owner = Some ws \<Longrightarrow> ws_phase ws = Streaming
    \<Longrightarrow> run_sender fs t0 got t1 sent owner (c, ws) = (c', ws')
    \<Longrightarrow> gw_step ph dec uni fs m s (c, w) (c', put_session owner ws' w)"
| ws_receives: "map_of (gw_sessions w) owner = Some ws \<Longrightarrow> ws_phase ws = Streaming
    \<Longrightarrow> gw_step ph dec uni fs m s (c, w) (c, put_session owner (run_receiver ws) w)"
| ws_overflows: "map_of (gw_sessions w) owner = Some ws \<Longrightarrow> ws_phase ws = Streaming
    \<Longrightarrow> gw_step ph dec uni fs m s (c, w) (c, put_session owner (run_overflow ws) w)"
| ws_finishes: "map_of (gw_sessions w) owner = Some ws \<Longrightarrow> ws_phase ws = Streaming
    \<Longrightarrow> ws_finish owner (c, ws) = (c', ws')
    \<Longrightarrow> gw_step ph dec uni fs m s (c, w) (c', put_session owner ws' w)"
| ws_interrupted: "map_of (gw_sessions w) owner = Some ws \<Longrightarrow> ws_phase ws \<noteq> Releasing
    \<Longrightarrow> ws_raise owner e (c, ws) = (c', ws')
    \<Longrightarrow> gw_step ph dec uni fs m s (c, w) (c', put_session owner ws' w)"
| ws_releases: "map_of (gw_sessions w) owner = Some ws \<Longrightarrow> ws_phase ws = Releasing \<Longrightarrow> ws_acquired ws \<noteq> []
    \<Longrightarrow> ws_release_next ph owner ((gw_service w, c), ws) = (((sv', c'), ws'), r)
    \<Longrightarrow> gw_step ph dec uni fs m s (c, w)
          (c', if r = Inr () then put_session owner ws' (w\<lparr>gw_service := sv'\<rparr>)
               else w\<lparr>gw_service := sv', gw_sessions := AList.delete owner (gw_sessions w)\<rparr>)"
| ws_ends: "map_of (gw_sessions w) owner = Some ws \<Longrightarrow> ws_phase ws = Releasing \<Longrightarrow> ws_acquired ws = []
    \<Longrightarrow> gw_step ph dec uni fs m s (c, w) (c, w\<lparr>gw_sessions := AList.delete owner (gw_sessions w)\<rparr>)"

section \<open>The invariant\<close>

definition owns :: "service \<Rightarrow> pystr \<Rightarrow> pystr \<Rightarrow> bool" where
  "owns sv owner t \<longleftrightarrow> map_of (owners_of sv t) owner \<noteq> None"

text \<open>A live party that may hold a filter, other than the REST owner.\<close>

definition holds :: "gw_world \<Rightarrow> pystr \<Rightarrow> pystr \<Rightarrow> bool" where
  "holds w owner t \<longleftrightarrow>
     (\<exists>ws. map_of (gw_sessions w) owner = Some ws \<and> t \<in> set (ws_acquired ws))
     \<or> (\<exists>future. map_of (gw_queries w) owner = Some (t, future))"

definition session_ok :: "matcher \<Rightarrow> settings \<Rightarrow> ws_session \<Rightarrow> bool" where
  "session_ok m s ws \<longleftrightarrow>
     distinct (ws_acquired ws @ ws_remaining ws)
     \<and> set (ws_remaining ws) \<subseteq> set (ws_requested ws)
     \<and> int (length (ws_queue ws)) \<le> websocket_queue_size s
     \<and> (\<forall>msg\<in>set (ws_queue ws). \<exists>f\<in>set (ws_requested ws). m f (mm_topic msg))
     \<and> (\<forall>f\<in>set (ws_requested ws). authorize_topic m s f True = Inr ())"

definition own_inv :: "gw_world \<Rightarrow> bool" where
  "own_inv w \<longleftrightarrow>
     (\<forall>owner t. owner \<noteq> rest_owner \<longrightarrow> owns (gw_service w) owner t = holds w owner t)
     \<and> (\<forall>owner ws. map_of (gw_sessions w) owner = Some ws \<longrightarrow> (\<exists>uuid. owner = ws_owner uuid))
     \<and> (\<forall>owner q. map_of (gw_queries w) owner = Some q \<longrightarrow> (\<exists>uuid. owner = retained_owner uuid))"

text \<open>The service and its client: consistent tables, and only filters the rules allow.\<close>

definition app_ok :: "matcher \<Rightarrow> settings \<Rightarrow> service \<Rightarrow> 'p gclient \<Rightarrow> bool" where
  "app_ok m s sv c \<longleftrightarrow>
     service_inv cl_subscriptions (sv, c) \<and> client_inv s c
     \<and> (\<forall>owner t. owns sv owner t \<longrightarrow> authorize_topic m s t True = Inr ())"

definition sessions_inv :: "matcher \<Rightarrow> settings \<Rightarrow> gw_world \<Rightarrow> bool" where
  "sessions_inv m s w \<longleftrightarrow> (\<forall>owner ws. map_of (gw_sessions w) owner = Some ws \<longrightarrow> session_ok m s ws)"

definition callbacks_inv :: "callback list \<Rightarrow> gw_world \<Rightarrow> bool" where
  "callbacks_inv ks w \<longleftrightarrow>
     count_list ks HandleMessage = 1
     \<and> (\<forall>owner. count_list ks (WsCallback owner) =
          (case map_of (gw_sessions w) owner of
             None \<Rightarrow> 0 | Some ws \<Rightarrow> if ws_phase ws = Releasing then 0 else 1))
     \<and> (\<forall>owner. count_list ks (RetainedReceive owner) =
          (if map_of (gw_queries w) owner = None then 0 else 1))"

definition gw_inv :: "matcher \<Rightarrow> settings \<Rightarrow> 'p gclient \<times> gw_world \<Rightarrow> bool" where
  "gw_inv m s cw \<longleftrightarrow>
     app_ok m s (gw_service (snd cw)) (fst cw) \<and> own_inv (snd cw) \<and> sessions_inv m s (snd cw)
     \<and> callbacks_inv (cl_packet_callbacks (fst cw)) (snd cw)"

section \<open>Effects of the operations\<close>

lemma owner_names [simp]:
  "ws_owner u \<noteq> rest_owner" "retained_owner u \<noteq> rest_owner" "ws_owner u \<noteq> retained_owner v"
  "retained_owner v \<noteq> ws_owner u"
  "ws_owner u = ws_owner v \<longleftrightarrow> u = v" "retained_owner u = retained_owner v \<longleftrightarrow> u = v"
  by (auto simp: ws_owner_def retained_owner_def rest_owner_def lit_def)

lemma acquire_app:
  assumes "app_ok m s sv c"
    and "acquire_subscription (subscribe ph) m s topic qos owner refresh (sv, c) = ((sv', c'), r)"
  shows "app_ok m s sv' c'" and "cl_packet_callbacks c' = cl_packet_callbacks c"
    and "owns sv' owner' t \<longleftrightarrow> (r = Inr () \<and> owner' = owner \<and> t = topic) \<or> owns sv owner' t"
    and "r = Inr () \<or> (\<exists>e. r = Inl e \<and> sv' = sv)"
proof -
  have inv: "service_inv cl_subscriptions (sv, c)" "client_inv s c"
    using assms(1) by (simp_all add: app_ok_def)
  show cb: "cl_packet_callbacks c' = cl_packet_callbacks c"
    using acquire_callbacks [OF _ assms(2)] by simp
  have cl: "client_inv s c'"
    using assms(2) subscribe_inv [OF inv(2)] inv(2)
    by (auto simp: acquire_subscription_def Let_def split: sum.splits prod.splits if_splits) (metis fst_conv)+
  show err: "r = Inr () \<or> (\<exists>e. r = Inl e \<and> sv' = sv)"
    using client_backend.acquire_failure_atomic [of ph m s topic qos owner refresh sv c sv' c'] assms(2)
    by (cases r) auto
  show owns: "owns sv' owner' t \<longleftrightarrow> (r = Inr () \<and> owner' = owner \<and> t = topic) \<or> owns sv owner' t" for owner' t
  proof (cases "r = Inr ()")
    case True
    note acq = client_backend.acquire_success [OF assms(2) [unfolded True]]
    show ?thesis using acq(2,4) True by (cases "t = topic") (auto simp: owns_def)
  next
    case False
    with err show ?thesis by auto
  qed
  have "authorize_topic m s topic True = Inr ()" if "r = Inr ()"
    using client_backend.acquire_success(1) [OF assms(2) [unfolded that]] .
  with owns client_backend.acquire_inv [OF inv(1) assms(2)] cl assms(1) show "app_ok m s sv' c'"
    by (auto simp: app_ok_def)
qed

lemma release_app:
  assumes "app_ok m s sv c"
    and "release_subscription (unsubscribe ph) topic owner (sv, c) = ((sv', c'), r)"
  shows "app_ok m s sv' c'" and "cl_packet_callbacks c' = cl_packet_callbacks c"
    and "owns sv' owner' t \<longleftrightarrow> owns sv owner' t \<and> \<not> (owner' = owner \<and> t = topic)"
proof -
  have inv: "service_inv cl_subscriptions (sv, c)" "client_inv s c" "service_wf sv"
    using assms(1) by (simp_all add: app_ok_def service_inv_def)
  show cb: "cl_packet_callbacks c' = cl_packet_callbacks c"
    using release_callbacks [OF _ assms(2)] by simp
  have cl: "client_inv s c'"
    using assms(2) unsubscribe_inv [OF inv(2), of ph topic] inv(2)
    by (auto simp: release_subscription_def Let_def split: prod.splits if_splits)
  show owns: "owns sv' owner' t \<longleftrightarrow> owns sv owner' t \<and> \<not> (owner' = owner \<and> t = topic)" for owner' t
    using client_backend.release_owners(1,2) [OF inv(3) assms(2)]
    by (cases "t = topic") (auto simp: owns_def)
  with client_backend.release_inv [OF inv(1) assms(2)] cl assms(1) show "app_ok m s sv' c'"
    by (auto simp: app_ok_def)
qed

lemma app_ok_callbacks:
  "app_ok m s sv (c\<lparr>cl_packet_callbacks := ks\<rparr>) = app_ok m s sv c"
  "app_ok m s sv (add_packet_callback k c) = app_ok m s sv c"
  "app_ok m s sv (remove_packet_callback k c) = app_ok m s sv c"
  by (auto simp: app_ok_def service_inv_def add_packet_callback_def remove_packet_callback_def)

lemma cleanup_app:
  assumes "app_ok m s sv c" "retained_cleanup ph topic owner (sv, c) = ((sv', c'), r)"
  shows "app_ok m s sv' c'"
    and "cl_packet_callbacks c' = remove1 (RetainedReceive owner) (cl_packet_callbacks c)"
    and "owns sv' owner' t \<longleftrightarrow> owns sv owner' t \<and> \<not> (owner' = owner \<and> t = topic)"
  using release_app [of m s sv "remove_packet_callback (RetainedReceive owner) c" ph topic owner sv' c' r] assms
  by (auto simp: retained_cleanup_def app_ok_callbacks remove_callback_callbacks)

lemma publish_app:
  assumes "app_ok m s sv c" "service_publish ph m s body c = (c', r)"
  shows "app_ok m s sv c' \<and> cl_packet_callbacks c' = cl_packet_callbacks c"
proof -
  have "publish ph t pl q rt c = (c', x) \<Longrightarrow> cl_subscriptions c' = cl_subscriptions c
      \<and> cl_packet_callbacks c' = cl_packet_callbacks c \<and> client_inv s c' = client_inv s c" for t pl q rt c' x
    by (auto simp: publish_def split: sum.splits if_splits)
  then show ?thesis
    using assms by (auto simp: service_publish_def Let_def app_ok_def service_inv_def
        split: sum.splits prod.splits if_splits)
qed

lemma rest_app:
  assumes "app_ok m s sv c" "rest_call ph dec m s now cred req (sv, c) = ((sv', c'), r)"
  shows "app_ok m s sv' c'" and "cl_packet_callbacks c' = cl_packet_callbacks c"
    and "owner \<noteq> rest_owner \<Longrightarrow> owns sv' owner t = owns sv owner t"
proof -
  have "app_ok m s sv' c' \<and> cl_packet_callbacks c' = cl_packet_callbacks c
      \<and> (owner \<noteq> rest_owner \<longrightarrow> owns sv' owner t = owns sv owner t)"
  proof (cases req)
    case (Publish body)
    with assms publish_app [OF assms(1), of ph body] show ?thesis
      by (auto simp: rest_call_def rest_handler_def respond_def publish_message_def
          split: sum.splits prod.splits if_splits)
  next
    case (Subscribe body)
    with assms acquire_app [OF assms(1), of ph "sub_topic body" "sub_qos body" rest_owner False] show ?thesis
      by (auto simp: rest_call_def rest_handler_def respond_def subscribe_topic_def service_subscribe_def
          split: sum.splits prod.splits if_splits)
  next
    case (Unsubscribe body)
    with assms release_app [OF assms(1), of ph "unsub_topic body" rest_owner] show ?thesis
      by (auto simp: rest_call_def rest_handler_def respond_def unsubscribe_topic_def service_unsubscribe_def
          split: sum.splits prod.splits if_splits)
  qed (use assms in \<open>auto simp: rest_call_def rest_handler_def respond_def split: sum.splits\<close>)
  then show "app_ok m s sv' c'" and "cl_packet_callbacks c' = cl_packet_callbacks c"
    and "owner \<noteq> rest_owner \<Longrightarrow> owns sv' owner t = owns sv owner t" by simp_all
qed

lemma retained_start_app:
  assumes "app_ok m s sv c" "\<And>t. \<not> owns sv owner t"
    and "query_retained_message ph dec m s now cred body owner (sv, c) = ((sv', c'), res)"
  shows "app_ok m s sv' c'"
    and "cl_packet_callbacks c' = (if res = RetainedWaiting then cl_packet_callbacks c @ [RetainedReceive owner]
           else remove1 (RetainedReceive owner) (cl_packet_callbacks c @ [RetainedReceive owner]))
         \<or> (res \<noteq> RetainedWaiting \<and> cl_packet_callbacks c' = cl_packet_callbacks c)"
    and "owns sv' owner' t \<longleftrightarrow> (res = RetainedWaiting \<and> owner' = owner \<and> t = ret_topic body) \<or> owns sv owner' t"
proof -
  let ?c = "add_packet_callback (RetainedReceive owner) c"
  obtain sv1 c1 r1 where acq: "acquire_subscription (subscribe ph) m s (ret_topic body) 0 owner True (sv, ?c)
      = ((sv1, c1), r1)"
    by (metis prod.exhaust)
  obtain sv2 c2 r2 where cl: "retained_cleanup ph (ret_topic body) owner (sv1, c1) = ((sv2, c2), r2)"
    by (metis prod.exhaust)
  note a = acquire_app [OF _ acq, unfolded app_ok_callbacks, OF assms(1)]
  note b = cleanup_app [OF a(1) cl]
  consider "sv' = sv" "c' = c" "res \<noteq> RetainedWaiting"
    | "sv' = sv1" "c' = c1" "res = RetainedWaiting" "r1 = Inr ()"
    | e where "sv' = sv2" "c' = c2" "res \<noteq> RetainedWaiting" "r1 = Inl e"
    using assms(3) acq cl
    by (cases r1) (auto simp: query_retained_message_def query_retained_start_def
        split: sum.splits if_splits)
  note cases = this
  have cb: "cl_packet_callbacks ?c = cl_packet_callbacks c @ [RetainedReceive owner]"
    by (simp add: add_packet_callback_def)
  from cases show "app_ok m s sv' c'"
    by cases (simp_all add: assms(1) a(1) b(1))
  from cases show "cl_packet_callbacks c' = (if res = RetainedWaiting then cl_packet_callbacks c @ [RetainedReceive owner]
           else remove1 (RetainedReceive owner) (cl_packet_callbacks c @ [RetainedReceive owner]))
         \<or> (res \<noteq> RetainedWaiting \<and> cl_packet_callbacks c' = cl_packet_callbacks c)"
    by cases (simp_all add: a(2) b(2) cb)
  from cases show "owns sv' owner' t \<longleftrightarrow> (res = RetainedWaiting \<and> owner' = owner \<and> t = ret_topic body) \<or> owns sv owner' t"
    by cases (use a(3) b(3) assms(2) in auto)
qed

text \<open>Deliveries change the statistics, the queues and the futures, nothing the invariant counts.\<close>

definition session_sim :: "matcher \<Rightarrow> settings \<Rightarrow> ws_session \<Rightarrow> ws_session \<Rightarrow> bool" where
  "session_sim m s a b \<longleftrightarrow> ws_acquired b = ws_acquired a \<and> ws_phase b = ws_phase a
     \<and> (session_ok m s a \<longrightarrow> session_ok m s b)"

definition world_sim :: "matcher \<Rightarrow> settings \<Rightarrow> gw_world \<Rightarrow> gw_world \<Rightarrow> bool" where
  "world_sim m s w w' \<longleftrightarrow>
     sv_owners (gw_service w') = sv_owners (gw_service w)
     \<and> sv_subscriptions (gw_service w') = sv_subscriptions (gw_service w)
     \<and> (\<forall>owner. rel_option (session_sim m s) (map_of (gw_sessions w) owner) (map_of (gw_sessions w') owner))
     \<and> (\<forall>owner. map_option fst (map_of (gw_queries w') owner) = map_option fst (map_of (gw_queries w) owner))"

lemma world_sim_refl: "world_sim m s w w"
  by (simp add: world_sim_def session_sim_def option.rel_refl)

lemma world_sim_trans: "world_sim m s u v \<Longrightarrow> world_sim m s v w \<Longrightarrow> world_sim m s u w"
proof -
  have tr: "rel_option (session_sim m s) a b \<Longrightarrow> rel_option (session_sim m s) b c \<Longrightarrow>
      rel_option (session_sim m s) a c" for a b c
    by (cases a; cases b; cases c) (auto simp: session_sim_def)
  show "world_sim m s u v \<Longrightarrow> world_sim m s v w \<Longrightarrow> world_sim m s u w"
    unfolding world_sim_def using tr by metis
qed

lemma session_ok_callback:
  assumes "settings_wf s" "session_ok m s ws"
  shows "session_ok m s (ws_callback m s now msg ws)"
  using assms(2) ws_callback_bounded [OF settings_wf_bounds(2) [OF assms(1)], of ws m now msg]
  by (auto simp: session_ok_def) (auto simp: ws_callback_cases ws_wants_def received_def split: if_splits)

lemma gw_run_p_sim:
  assumes "settings_wf s"
  shows "world_sim m s w (fst (gw_run_p m s now k msg w))"
proof (cases k)
  case HandleMessage
  then show ?thesis
    using world_sim_refl [of m s w]
    by (simp add: gw_run_p_def handle_message_statistics [OF assms] world_sim_def)
next
  case (WsCallback owner)
  then show ?thesis
    using world_sim_refl [of m s w]
    by (auto simp: gw_run_p_def world_sim_def session_sim_def session_ok_callback [OF assms] split: option.splits)
next
  case (RetainedReceive owner)
  then show ?thesis
    using world_sim_refl [of m s w]
    by (auto simp: gw_run_p_def world_sim_def split: option.splits)
qed

lemma deliveries_sim:
  assumes "settings_wf s"
  shows "world_sim m s w (fold (deliver_world (gw_run_p m s now) gw_run_m ks ms) msgs w)"
proof -
  have ks: "world_sim m s w (fold (\<lambda>k w. fst (gw_run_p m s now k msg w)) ks w)" for msg w
    by (induction ks arbitrary: w) (auto simp: world_sim_refl intro: world_sim_trans gw_run_p_sim [OF assms])
  have "fold (\<lambda>cb w. fst (gw_run_m cb t pl w)) ms w = w" for t pl w
    by (induction ms) (simp_all add: gw_run_m_def)
  then have one: "world_sim m s w (deliver_world (gw_run_p m s now) gw_run_m ks ms msg w)" for msg w
    by (simp add: deliver_world_def ks)
  show ?thesis
    by (induction msgs arbitrary: w) (auto simp: world_sim_refl intro: world_sim_trans one)
qed

section \<open>Every step keeps the invariant\<close>

lemma gw_inv_deliver:
  assumes "gw_inv m s (c, w)" "world_sim m s w w'" "client_inv s c'"
    and "cl_subscriptions c' = cl_subscriptions c" "cl_packet_callbacks c' = cl_packet_callbacks c"
  shows "gw_inv m s (c', w')"
proof -
  have sess: "rel_option (session_sim m s) (map_of (gw_sessions w) owner) (map_of (gw_sessions w') owner)"
    and quer: "map_option fst (map_of (gw_queries w') owner) = map_option fst (map_of (gw_queries w) owner)" for owner
    using assms(2) by (auto simp: world_sim_def)
  have tables: "owns (gw_service w') = owns (gw_service w)" "service_wf (gw_service w') = service_wf (gw_service w)"
      "sv_subscriptions (gw_service w') = sv_subscriptions (gw_service w)"
    using assms(2) by (auto simp: world_sim_def owns_def owners_of_def service_wf_def fun_eq_iff)
  have query: "(\<exists>f. q = Some (t, f)) = (map_option fst q = Some t)" for q :: "(pystr \<times> received_message option) option" and t
    by auto
  have "holds w' owner t = holds w owner t" for owner t
    using sess [of owner] unfolding holds_def query quer
    by (cases "map_of (gw_sessions w) owner") (auto simp: session_sim_def option_rel_Some1)
  moreover have "sessions_inv m s w'"
    using assms(1) sess
    by (auto simp: gw_inv_def sessions_inv_def session_sim_def option_rel_Some2 dest: sym) (metis option_rel_Some2 session_sim_def)
  moreover have "callbacks_inv (cl_packet_callbacks c') w'"
  proof -
    have "(case map_of (gw_sessions w') owner of None \<Rightarrow> 0 | Some ws \<Rightarrow> if ws_phase ws = Releasing then 0 else 1)
        = (case map_of (gw_sessions w) owner of None \<Rightarrow> 0 | Some ws \<Rightarrow> if ws_phase ws = Releasing then 0 else (1 :: nat))" for owner
      using sess [of owner] by (cases "map_of (gw_sessions w) owner") (auto simp: option_rel_Some1 session_sim_def)
    moreover have "(map_of (gw_queries w') owner = None) = (map_of (gw_queries w) owner = None)" for owner
      using quer [of owner] by (metis map_option_is_None)
    ultimately show ?thesis
      using assms(1,5) by (simp add: gw_inv_def callbacks_inv_def)
  qed
  moreover have "\<exists>uuid. owner = ws_owner uuid" if "map_of (gw_sessions w') owner = Some ws" for owner ws
    using sess [of owner] assms(1) that by (auto simp: option_rel_Some2 gw_inv_def own_inv_def)
  moreover have "\<exists>uuid. owner = retained_owner uuid" if "map_of (gw_queries w') owner = Some q" for owner q
    using quer [of owner] assms(1) that
    by (cases "map_of (gw_queries w) owner") (auto simp: gw_inv_def own_inv_def)
  ultimately show ?thesis
    using assms(1,3,4) tables by (simp add: gw_inv_def app_ok_def service_inv_def own_inv_def)
qed

lemma on_connect_frame [simp]:
  "cl_subscriptions (fst (on_connect ph rc c)) = cl_subscriptions c"
  "cl_packet_callbacks (fst (on_connect ph rc c)) = cl_packet_callbacks c"
  "cl_subscriptions (on_disconnect c) = cl_subscriptions c"
  "cl_packet_callbacks (on_disconnect c) = cl_packet_callbacks c"
  by (auto simp: on_connect_def on_disconnect_def call_soon_def connection_changed_def Let_def
      split: option.splits prod.splits)

lemma gw_inv_client: "gw_inv m s (c, w) \<Longrightarrow> client_inv s c"
  by (simp add: gw_inv_def app_ok_def)

lemma on_message_frame:
  assumes "settings_wf s" "on_message s (gw_run_p m s now) gw_run_m msg (c, w) = (c', w')"
  shows "world_sim m s w w'" "cl_subscriptions c' = cl_subscriptions c"
    and "cl_packet_callbacks c' = cl_packet_callbacks c"
  using assms(2) deliveries_sim [OF assms(1), of m w now "cl_packet_callbacks c" "cl_message_callbacks c" "[msg]"]
  by (auto simp: on_message_def Let_def call_soon_def deliver_message_eq world_sim_refl split: if_splits)

lemma run_ready_frame:
  assumes "settings_wf s" "run_ready ph s (gw_run_p m s now) gw_run_m (c, w) = (c', w')"
  shows "world_sim m s w w'" "cl_subscriptions c' = cl_subscriptions c"
    and "cl_packet_callbacks c' = cl_packet_callbacks c"
  using assms(2) deliveries_sim [OF assms(1), of m w now "cl_packet_callbacks c" "cl_message_callbacks c" "cl_pending c"]
  by (auto simp: run_ready_def Let_def drain_messages_eq world_sim_refl connection_changed_def
      split: list.splits loop_call.splits if_splits option.splits prod.splits)

lemma session_owner:
  assumes "gw_inv m s (c, w)" "map_of (gw_sessions w) owner = Some ws"
  shows "\<exists>uuid. owner = ws_owner uuid" and "map_of (gw_queries w) owner = None"
    and "owns (gw_service w) owner t \<longleftrightarrow> t \<in> set (ws_acquired ws)" and "session_ok m s ws"
proof -
  show ex: "\<exists>uuid. owner = ws_owner uuid"
    using assms by (auto simp: gw_inv_def own_inv_def)
  then show q: "map_of (gw_queries w) owner = None"
    using assms(1) by (cases "map_of (gw_queries w) owner") (force simp: gw_inv_def own_inv_def)+
  show "owns (gw_service w) owner t \<longleftrightarrow> t \<in> set (ws_acquired ws)"
    using assms ex q by (auto simp: gw_inv_def own_inv_def holds_def)
  show "session_ok m s ws"
    using assms by (auto simp: gw_inv_def sessions_inv_def)
qed

lemma count_remove1:
  "count_list (remove1 k ks) k' = (if k' = k then count_list ks k - 1 else count_list ks k')"
  by (induction ks) (auto simp: count_notin)

lemma count_single: "set ks \<subseteq> {k} \<Longrightarrow> count_list ks k = length ks"
  by (induction ks) auto

lemma gw_inv_session:
  assumes inv: "gw_inv m s (c, w)" and old: "map_of (gw_sessions w) owner = Some ws"
    and app: "app_ok m s sv' c'" and ok: "session_ok m s ws'"
    and others: "\<And>o' t. o' \<noteq> owner \<Longrightarrow> owns sv' o' t = owns (gw_service w) o' t"
    and mine: "\<And>t. owns sv' owner t \<longleftrightarrow> t \<in> set (ws_acquired ws')"
    and phase: "ws_phase ws = Releasing \<Longrightarrow> ws_phase ws' = Releasing"
    and cbs: "cl_packet_callbacks c' = (if ws_phase ws' = Releasing \<and> ws_phase ws \<noteq> Releasing
        then remove1 (WsCallback owner) (cl_packet_callbacks c) else cl_packet_callbacks c)"
  shows "gw_inv m s (c', put_session owner ws' (w\<lparr>gw_service := sv'\<rparr>))"
proof -
  obtain uuid where uuid: "owner = ws_owner uuid"
    using session_owner(1) [OF inv old] by blast
  have q: "map_of (gw_queries w) owner = None"
    by (rule session_owner(2) [OF inv old])
  have "own_inv (put_session owner ws' (w\<lparr>gw_service := sv'\<rparr>))"
    using inv old others mine q uuid
    by (auto simp: gw_inv_def own_inv_def holds_def put_session_def)
  moreover have "sessions_inv m s (put_session owner ws' (w\<lparr>gw_service := sv'\<rparr>))"
    using inv ok by (auto simp: gw_inv_def sessions_inv_def put_session_def)
  moreover have "callbacks_inv (cl_packet_callbacks c') (put_session owner ws' (w\<lparr>gw_service := sv'\<rparr>))"
    using inv old phase by (auto simp: gw_inv_def callbacks_inv_def put_session_def cbs count_remove1 split: option.splits)
  ultimately show ?thesis
    using app by (simp add: gw_inv_def) (simp add: put_session_def)
qed

lemma gw_inv_local:
  assumes inv: "gw_inv m s (c, w)" and old: "map_of (gw_sessions w) owner = Some ws"
    and "session_ok m s ws'" "ws_acquired ws' = ws_acquired ws"
    and upd: "c' = c \<and> ws_phase ws' \<noteq> Releasing \<and> ws_phase ws \<noteq> Releasing
      \<or> c' = remove_packet_callback (WsCallback owner) c \<and> ws_phase ws' = Releasing \<and> ws_phase ws \<noteq> Releasing"
  shows "gw_inv m s (c', put_session owner ws' w)"
proof -
  have "app_ok m s (gw_service w) c'"
    using inv upd by (auto simp: gw_inv_def app_ok_callbacks)
  moreover have "cl_packet_callbacks c' = (if ws_phase ws' = Releasing \<and> ws_phase ws \<noteq> Releasing
        then remove1 (WsCallback owner) (cl_packet_callbacks c) else cl_packet_callbacks c)"
    using upd by (auto simp: remove_callback_callbacks)
  ultimately show ?thesis
    using gw_inv_session [OF inv old, of "gw_service w" c' ws'] session_owner(3) [OF inv old] assms(3,4) upd
    by auto
qed

lemma session_ok_frame:
  "session_ok m s (ws\<lparr>ws_phase := p\<rparr>) = session_ok m s ws"
  "session_ok m s (ws\<lparr>ws_close := x\<rparr>) = session_ok m s ws"
  "session_ok m s (ws\<lparr>ws_finished := b\<rparr>) = session_ok m s ws"
  "session_ok m s (ws\<lparr>ws_overflow := b\<rparr>) = session_ok m s ws"
  by (simp_all add: session_ok_def)

lemma session_ok_take: "session_ok m s ws \<Longrightarrow> session_ok m s (ws\<lparr>ws_queue := tl (ws_queue ws)\<rparr>)"
  by (cases "ws_queue ws") (auto simp: session_ok_def)

lemmas ws_local_defs = ws_ready_def ws_raise_def ws_leave_def ws_finish_def run_receiver_def run_overflow_def

lemma run_sender_local:
  assumes "run_sender fs t0 got t1 sent owner (c, ws) = (c', ws')" "session_ok m s ws" "ws_phase ws = Streaming"
  shows "session_ok m s ws'" "ws_acquired ws' = ws_acquired ws"
    and "c' = c \<and> ws_phase ws' = Streaming \<or> c' = remove_packet_callback (WsCallback owner) c \<and> ws_phase ws' = Releasing"
  using assms
  by (auto simp: run_sender_def ws_leave_def Let_def session_ok_frame session_ok_take
      split: sum.splits if_splits sender_result.splits)

lemma step_local:
  assumes "settings_wf s" "gw_inv m s (c, w)" "map_of (gw_sessions w) owner = Some ws"
  shows "ws_phase ws = Acquiring \<Longrightarrow> ws_ready owner sent (c, ws) = (c', ws') \<Longrightarrow> gw_inv m s (c', put_session owner ws' w)"
    and "ws_phase ws = Streaming \<Longrightarrow> run_sender fs t0 got t1 sent owner (c, ws) = (c', ws')
      \<Longrightarrow> gw_inv m s (c', put_session owner ws' w)"
    and "ws_phase ws = Streaming \<Longrightarrow> gw_inv m s (c, put_session owner (run_receiver ws) w)"
    and "ws_phase ws = Streaming \<Longrightarrow> gw_inv m s (c, put_session owner (run_overflow ws) w)"
    and "ws_phase ws = Streaming \<Longrightarrow> ws_finish owner (c, ws) = (c', ws') \<Longrightarrow> gw_inv m s (c', put_session owner ws' w)"
    and "ws_phase ws \<noteq> Releasing \<Longrightarrow> ws_raise owner e (c, ws) = (c', ws') \<Longrightarrow> gw_inv m s (c', put_session owner ws' w)"
proof -
  note ok = session_owner(4) [OF assms(2,3)]
  note local = gw_inv_local [OF assms(2,3)]
  show "ws_phase ws = Acquiring \<Longrightarrow> ws_ready owner sent (c, ws) = (c', ws') \<Longrightarrow> gw_inv m s (c', put_session owner ws' w)"
    using ok by (intro local) (auto simp: ws_local_defs session_ok_frame split: sum.splits)
  show "ws_phase ws = Streaming \<Longrightarrow> run_sender fs t0 got t1 sent owner (c, ws) = (c', ws')
      \<Longrightarrow> gw_inv m s (c', put_session owner ws' w)"
    using run_sender_local [of fs t0 got t1 sent owner c ws c' ws', OF _ ok] by (intro local) auto
  show "ws_phase ws = Streaming \<Longrightarrow> gw_inv m s (c, put_session owner (run_receiver ws) w)"
    using ok by (intro local) (auto simp: ws_local_defs session_ok_frame)
  show "ws_phase ws = Streaming \<Longrightarrow> gw_inv m s (c, put_session owner (run_overflow ws) w)"
    using ok by (intro local) (auto simp: ws_local_defs session_ok_frame)
  show "ws_phase ws = Streaming \<Longrightarrow> ws_finish owner (c, ws) = (c', ws') \<Longrightarrow> gw_inv m s (c', put_session owner ws' w)"
    using ok by (intro local) (auto simp: ws_local_defs session_ok_frame split: if_splits)
  show "ws_phase ws \<noteq> Releasing \<Longrightarrow> ws_raise owner e (c, ws) = (c', ws') \<Longrightarrow> gw_inv m s (c', put_session owner ws' w)"
    using ok by (intro local) (auto simp: ws_local_defs session_ok_frame)
qed

text \<open>
  What the release loop relies on from the library: \<open>unsubscribe\<close> of a non-empty topic raises nothing
  but \<open>RuntimeError\<close> (it documents \<open>ValueError\<close> for an empty topic only).
\<close>

definition unsubscribe_conforms :: "'p paho \<Rightarrow> bool" where
  "unsubscribe_conforms ph \<longleftrightarrow>
     (\<forall>t p e. t \<noteq> [] \<longrightarrow> ph_unsubscribe ph t p = Inl e \<longrightarrow> (\<exists>detail. e = RuntimeError detail))"

lemma release_raises:
  assumes "unsubscribe_conforms ph" "topic \<noteq> []"
    and "release_subscription (unsubscribe ph) topic owner st = (st', Inl e)"
  shows "\<exists>detail. e = RuntimeError detail"
  using assms
  by (auto simp: release_subscription_def unsubscribe_def unsubscribe_conforms_def Let_def
      split: prod.splits if_splits sum.splits)

lemma step_open:
  assumes inv: "gw_inv m s (c, w)" and "settings_wf s"
    and "ws_open dec uni m s now header frame topics = Opened claims req"
    and fresh: "map_of (gw_sessions w) (ws_owner uuid) = None"
  shows "gw_inv m s (ws_start (ws_owner uuid) c, put_session (ws_owner uuid) (ws_new claims req) w)"
proof -
  let ?o = "ws_owner uuid"
  have "session_ok m s (ws_new claims req)"
    using ws_open_Opened(1,2) [OF assms(3)] settings_wf_bounds(2) [OF assms(2)]
    by (auto simp: session_ok_def ws_new_def ws_topics_allowed_iff requested_topics_shape)
  moreover have q: "map_of (gw_queries w) ?o = None"
    using inv by (cases "map_of (gw_queries w) ?o") (force simp: gw_inv_def own_inv_def)+
  moreover from q fresh have "\<not> owns (gw_service w) ?o t" for t
    using inv by (auto simp: gw_inv_def own_inv_def holds_def)
  ultimately show ?thesis
    using inv fresh
    by (auto simp: gw_inv_def app_ok_callbacks ws_start_def put_session_def own_inv_def holds_def sessions_inv_def
        callbacks_inv_def add_packet_callback_def ws_new_def)
qed

lemma step_acquire:
  assumes inv: "gw_inv m s (c, w)" and old: "map_of (gw_sessions w) owner = Some ws"
    and phase: "ws_phase ws = Acquiring"
    and step: "ws_acquire_next ph m s owner ((gw_service w, c), ws) = ((sv', c'), ws')"
  shows "gw_inv m s (c', put_session owner ws' (w\<lparr>gw_service := sv'\<rparr>))"
proof (cases "ws_remaining ws")
  case Nil
  with step have "sv' = gw_service w" "c' = c" "ws' = ws"
    by (auto simp: ws_acquire_next_def)
  with gw_inv_local [OF inv old session_owner(4) [OF inv old] refl, of c] phase show ?thesis by simp
next
  case (Cons topic rest)
  obtain sv1 c1 r where acq: "acquire_subscription (subscribe ph) m s topic 0 owner False (gw_service w, c) = ((sv1, c1), r)"
    by (metis prod.exhaust)
  have app: "app_ok m s (gw_service w) c" using inv by (simp add: gw_inv_def)
  note a = acquire_app [OF app acq]
  note ok = session_owner(4) [OF inv old]
  show ?thesis
  proof (cases "r = Inr ()")
    case True
    with step acq Cons have eq: "sv' = sv1" "c' = c1"
        "ws' = ws\<lparr>ws_remaining := rest, ws_acquired := ws_acquired ws @ [topic]\<rparr>"
      by (auto simp: ws_acquire_next_def)
    have "session_ok m s ws'"
      using ok Cons by (auto simp: eq session_ok_def)
    with a True eq phase session_owner(3) [OF inv old] show ?thesis
      by (intro gw_inv_session [OF inv old]) auto
  next
    case False
    with a(4) obtain e where e: "r = Inl e" "sv1 = gw_service w" by auto
    with step acq Cons have eq: "sv' = gw_service w" "c' = remove_packet_callback (WsCallback owner) c1"
        "session_ok m s ws' = session_ok m s ws" "ws_acquired ws' = ws_acquired ws" "ws_phase ws' = Releasing"
      by (auto simp: ws_acquire_next_def ws_raise_def ws_leave_def session_ok_frame)
    with a(1,2) e(2) ok phase session_owner(3) [OF inv old] show ?thesis
      by (intro gw_inv_session [OF inv old]) (auto simp: app_ok_callbacks remove_callback_callbacks)
  qed
qed

lemma step_release:
  assumes inv: "gw_inv m s (c, w)" and "settings_wf s" "unsubscribe_conforms ph"
    and old: "map_of (gw_sessions w) owner = Some ws" and phase: "ws_phase ws = Releasing"
    and some: "ws_acquired ws \<noteq> []"
    and step: "ws_release_next ph owner ((gw_service w, c), ws) = (((sv', c'), ws'), r)"
  shows "r = Inr ()" and "gw_inv m s (c', put_session owner ws' (w\<lparr>gw_service := sv'\<rparr>))"
proof -
  have "r = Inr () \<and> gw_inv m s (c', put_session owner ws' (w\<lparr>gw_service := sv'\<rparr>))"
  proof (cases "ws_acquired ws")
    case Nil
    with some show ?thesis by simp
  next
    case (Cons topic rest)
    obtain sv1 c1 r1 where rel: "release_subscription (unsubscribe ph) topic owner (gw_service w, c) = ((sv1, c1), r1)"
      by (metis prod.exhaust)
    have app: "app_ok m s (gw_service w) c" using inv by (simp add: gw_inv_def)
    note b = release_app [OF app rel]
    have eq: "sv' = sv1" "c' = c1" "ws' = ws\<lparr>ws_acquired := rest\<rparr>"
        "r = (case r1 of Inl (RuntimeError _) \<Rightarrow> Inr () | _ \<Rightarrow> r1)"
      using step rel Cons by (auto simp: ws_release_next_def)
    have "owns (gw_service w) owner topic"
      using session_owner(3) [OF inv old] Cons by simp
    with app have "authorize_topic m s topic True = Inr ()" by (auto simp: app_ok_def)
    then have "topic \<noteq> []"
      by (auto simp: authorize_filter_iff [OF assms(2)] validate_filter_iff wf_filter_def)
    with release_raises [OF assms(3) _ rel [THEN trans], of "(sv1, c1)"] have "r = Inr ()"
      by (cases r1) (auto simp: eq)
    moreover have "session_ok m s ws'" and "topic \<notin> set rest"
      using session_owner(4) [OF inv old] Cons by (auto simp: eq session_ok_def)
    ultimately show ?thesis
      using b eq phase session_owner(3) [OF inv old] Cons
      by (auto intro!: gw_inv_session [OF inv old])
  qed
  then show "r = Inr ()" and "gw_inv m s (c', put_session owner ws' (w\<lparr>gw_service := sv'\<rparr>))" by simp_all
qed

lemma step_end:
  assumes inv: "gw_inv m s (c, w)" and old: "map_of (gw_sessions w) owner = Some ws"
    and "ws_phase ws = Releasing" "ws_acquired ws = []"
  shows "gw_inv m s (c, w\<lparr>gw_sessions := AList.delete owner (gw_sessions w)\<rparr>)"
  using assms session_owner [OF inv old]
  by (auto simp: gw_inv_def own_inv_def holds_def sessions_inv_def callbacks_inv_def)

lemma query_owner:
  assumes "gw_inv m s (c, w)" "map_of (gw_queries w) owner = Some (topic, future)"
  shows "\<exists>uuid. owner = retained_owner uuid" and "map_of (gw_sessions w) owner = None"
    and "owns (gw_service w) owner t \<longleftrightarrow> t = topic"
proof -
  show ex: "\<exists>uuid. owner = retained_owner uuid"
    using assms by (auto simp: gw_inv_def own_inv_def)
  then show q: "map_of (gw_sessions w) owner = None"
    using assms(1) by (cases "map_of (gw_sessions w) owner") (force simp: gw_inv_def own_inv_def)+
  have "owner \<noteq> rest_owner" using ex by auto
  then show "owns (gw_service w) owner t \<longleftrightarrow> t = topic"
    using assms q by (auto simp: gw_inv_def own_inv_def holds_def)
qed

lemma fresh_query:
  assumes "gw_inv m s (c, w)" "map_of (gw_queries w) (retained_owner uuid) = None"
  shows "\<not> owns (gw_service w) (retained_owner uuid) t" and "map_of (gw_sessions w) (retained_owner uuid) = None"
proof -
  show q: "map_of (gw_sessions w) (retained_owner uuid) = None"
    using assms(1) by (cases "map_of (gw_sessions w) (retained_owner uuid)") (force simp: gw_inv_def own_inv_def)+
  then show "\<not> owns (gw_service w) (retained_owner uuid) t"
    using assms by (auto simp: gw_inv_def own_inv_def holds_def)
qed

lemma step_retained_start:
  assumes inv: "gw_inv m s (c, w)" and fresh: "map_of (gw_queries w) (retained_owner uuid) = None"
    and step: "query_retained_message ph dec m s now cred body (retained_owner uuid) (gw_service w, c) = ((sv', c'), res)"
  shows "gw_inv m s (c', w\<lparr>gw_service := sv',
    gw_queries := (if res = RetainedWaiting then AList.update (retained_owner uuid) (ret_topic body, None) (gw_queries w)
                   else gw_queries w)\<rparr>)"
proof -
  let ?o = "retained_owner uuid"
  have app: "app_ok m s (gw_service w) c" using inv by (simp add: gw_inv_def)
  note a = retained_start_app [OF app fresh_query(1) [OF inv fresh] step]
  have "count_list (cl_packet_callbacks c) (RetainedReceive ?o) = 0"
    using inv fresh by (simp add: gw_inv_def callbacks_inv_def)
  then have "count_list (cl_packet_callbacks c') k = (if res = RetainedWaiting \<and> k = RetainedReceive ?o then 1
      else count_list (cl_packet_callbacks c) k)" for k
    using a(2) by (auto simp: count_remove1 split: if_splits)
  then show ?thesis
    using inv a(1,3) fresh fresh_query [OF inv fresh]
    by (auto simp: gw_inv_def own_inv_def holds_def sessions_inv_def callbacks_inv_def)
qed

lemma step_retained_finish:
  assumes inv: "gw_inv m s (c, w)" and old: "map_of (gw_queries w) owner = Some (topic, future)"
    and step: "query_retained_finish ph \<lparr>ret_topic = topic\<rparr> owner outcome (gw_service w, c) = ((sv', c'), r)"
  shows "gw_inv m s (c', w\<lparr>gw_service := sv', gw_queries := AList.delete owner (gw_queries w)\<rparr>)"
proof -
  obtain r' where cl: "retained_cleanup ph topic owner (gw_service w, c) = ((sv', c'), r')"
    using step by (auto simp: query_retained_finish_def Let_def split: prod.splits sum.splits)
  have app: "app_ok m s (gw_service w) c" using inv by (simp add: gw_inv_def)
  note b = cleanup_app [OF app cl]
  show ?thesis
    using inv b old query_owner [OF inv old]
    by (auto simp: gw_inv_def own_inv_def holds_def sessions_inv_def callbacks_inv_def count_remove1)
qed

lemma gw_step_inv:
  assumes "gw_step ph dec uni fs m s cw cw'" "gw_inv m s cw" "settings_wf s" "unsubscribe_conforms ph"
  shows "gw_inv m s cw'"
  using assms
proof (induction rule: gw_step.induct)
  case (net_connect c w rc)
  from gw_inv_deliver [OF net_connect(1) world_sim_refl on_connect_inv [OF gw_inv_client [OF net_connect(1)]]]
  show ?case by simp
next
  case (net_disconnect c w)
  from gw_inv_deliver [OF net_disconnect(1) world_sim_refl on_disconnect_inv [OF gw_inv_client [OF net_disconnect(1)]]]
  show ?case by simp
next
  case (net_message c w now msg)
  obtain c' w' where st: "on_message s (gw_run_p m s now) gw_run_m msg (c, w) = (c', w')"
    by (metis prod.exhaust)
  from on_message_inv [OF gw_inv_client [OF net_message(1)], of "gw_run_p m s now" gw_run_m msg w] on_message_frame [OF _ st] net_message
  show ?case by (auto simp: st intro: gw_inv_deliver)
next
  case (net_library c p w p')
  from gw_inv_deliver [OF net_library(2) world_sim_refl, of "c\<lparr>cl_paho := Some p'\<rparr>"]
    gw_inv_client [OF net_library(2)] show ?case by simp
next
  case (loop_turn c w now)
  obtain c' w' where st: "run_ready ph s (gw_run_p m s now) gw_run_m (c, w) = (c', w')"
    by (metis prod.exhaust)
  from run_ready_inv [OF gw_inv_client [OF loop_turn(1)], of ph "gw_run_p m s now" gw_run_m w] run_ready_frame [OF _ st] loop_turn
  show ?case by (auto simp: st intro: gw_inv_deliver)
next
  case (rest now cred req w c sv' c' r)
  then have "app_ok m s (gw_service w) c" by (simp add: gw_inv_def)
  from rest_app [OF this rest(1)] rest show ?case
    by (auto simp: gw_inv_def own_inv_def holds_def sessions_inv_def callbacks_inv_def)
next
  case (retained_waits now cred body uuid w c sv' c')
  from step_retained_start [OF retained_waits(3,2,1)] show ?case by simp
next
  case (retained_over now cred body uuid w c sv' c' r)
  from step_retained_start [OF retained_over(3,2,1)] show ?case by simp
next
  case (retained_finish w owner topic future outcome c sv' c' r)
  from step_retained_finish [OF retained_finish(4,1,3)] show ?case .
next
  case (ws_opened now header frame topics claims req w uuid c)
  from step_open [OF ws_opened(3,4,1,2)] show ?case .
next
  case (ws_acquires w owner ws c sv' c' ws')
  from step_acquire [OF ws_acquires(4,1,2,3)] show ?case .
next
  case (ws_readies w owner ws sent c c' ws')
  from step_local(1) [OF ws_readies(6,5,1,2,4)] show ?case .
next
  case (ws_sends w owner ws t0 got t1 sent c c' ws')
  from step_local(2) [OF ws_sends(5,4,1,2,3)] show ?case .
next
  case (ws_receives w owner ws c)
  from step_local(3) [OF ws_receives(4,3,1,2)] show ?case .
next
  case (ws_overflows w owner ws c)
  from step_local(4) [OF ws_overflows(4,3,1,2)] show ?case .
next
  case (ws_finishes w owner ws c c' ws')
  from step_local(5) [OF ws_finishes(5,4,1,2,3)] show ?case .
next
  case (ws_interrupted w owner ws e c c' ws')
  from step_local(6) [OF ws_interrupted(5,4,1,2,3)] show ?case .
next
  case (ws_releases w owner ws c sv' c' ws' r)
  from step_release [OF ws_releases(5,6,7,1,2,3,4)] show ?case by simp
next
  case (ws_ends w owner ws c)
  from step_end [OF ws_ends(4,1,2,3)] show ?case .
qed

section \<open>Reachable states\<close>

definition gw_initial :: "'p paho \<Rightarrow> tls_loader \<Rightarrow> settings \<Rightarrow> 'p gclient \<times> gw_world" where
  "gw_initial ph ld s = (fst (lifespan_enter ph ld s), gw_world_init)"

lemma gw_inv_initial:
  assumes "settings_wf s"
  shows "gw_inv m s (gw_initial ph ld s)"
proof -
  let ?c = "add_packet_callback HandleMessage client_init :: 'a gclient"
  have "client_inv s ?c"
    using client_inv_init [OF assms] by (simp add: add_packet_callback_def)
  from connect_start_inv [OF this, of ph ld] have cl: "client_inv s (fst (lifespan_enter ph ld s))"
    by (simp add: lifespan_enter_def)
  have fr: "cl_subscriptions (fst (lifespan_enter ph ld s)) = []"
      "cl_packet_callbacks (fst (lifespan_enter ph ld s)) = [HandleMessage]"
    by (auto simp: lifespan_enter_def connect_start_def Let_def add_packet_callback_def client_init_def
        split: sum.splits option.splits)
  show ?thesis
    using cl fr
    by (auto simp: gw_initial_def gw_world_init_def gw_inv_def app_ok_def service_inv_def service_wf_init
        own_inv_def holds_def owns_def owners_of_def sessions_inv_def callbacks_inv_def service_init_def
        service_wf_def)
qed

interpretation gw_system: transition_system
  "\<lambda>cw. cw = gw_initial ph ld s \<and> settings_wf s \<and> unsubscribe_conforms ph"
  "\<lambda>cw cw'. gw_step ph dec uni fs m s cw cw' \<and> settings_wf s \<and> unsubscribe_conforms ph"
  "gw_inv m s" for ph :: "'p paho" and ld dec uni fs m s
  by unfold_locales (auto intro: gw_inv_initial gw_step_inv)

lemma gw_reachable_inv:
  assumes "settings_wf s" "unsubscribe_conforms ph"
    and "(gw_step ph dec uni fs m s)\<^sup>*\<^sup>* (gw_initial ph ld s) cw"
  shows "gw_inv m s cw"
  using gw_system.inv_reachable [of "gw_initial ph ld s" ph ld s dec uni fs m cw] assms by simp

text \<open>
  C4: nothing leaks. In every reachable state with no open stream and no pending retained query, the
  only owner left in the service's tables is the REST interface and the only packet callback left is
  the statistics handler, whatever happened before: failed openings, overflows, timeouts,
  cancellations and disconnections in any order.
\<close>

theorem gateway_leaks_nothing:
  assumes "settings_wf s" "unsubscribe_conforms ph"
    and "(gw_step ph dec uni fs m s)\<^sup>*\<^sup>* (gw_initial ph ld s) (c, w)"
    and "gw_sessions w = []" "gw_queries w = []"
  shows "(\<forall>owner t. owns (gw_service w) owner t \<longrightarrow> owner = rest_owner)
    \<and> cl_packet_callbacks c = [HandleMessage]"
proof -
  have inv: "gw_inv m s (c, w)" by (rule gw_reachable_inv [OF assms(1-3)])
  let ?ks = "cl_packet_callbacks c"
  have cnt: "count_list ?ks HandleMessage = 1" "\<And>o'. count_list ?ks (WsCallback o') = 0"
      "\<And>o'. count_list ?ks (RetainedReceive o') = 0"
    using inv assms(4,5) by (auto simp: gw_inv_def callbacks_inv_def)
  have all: "set ?ks \<subseteq> {HandleMessage}"
  proof
    fix k assume "k \<in> set ?ks"
    then have "count_list ?ks k \<noteq> 0" by (simp add: count_list_0_iff)
    with cnt show "k \<in> {HandleMessage}" by (cases k) simp_all
  qed
  then have "count_list ?ks HandleMessage = length ?ks"
    by (rule count_single)
  then have "length ?ks = 1" using cnt(1) by simp
  with all have "?ks = [HandleMessage]" by (cases ?ks) auto
  moreover have "owner = rest_owner" if "owns (gw_service w) owner t" for owner t
    using inv that assms(4,5) by (auto simp: gw_inv_def own_inv_def holds_def)
  ultimately show ?thesis by blast
qed


text \<open>
  C6: what a stream may see. In every reachable state each message queued for a stream matches one of
  the filters it requested, and its topic is one the access rules allow; the queue is bounded.
\<close>

theorem stream_is_confined:
  assumes "settings_wf s" "unsubscribe_conforms ph" "matcher_conforms m"
    and "(gw_step ph dec uni fs m s)\<^sup>*\<^sup>* (gw_initial ph ld s) (c, w)"
    and "map_of (gw_sessions w) owner = Some ws" "msg \<in> set (ws_queue ws)"
    and "validate_topic (mm_topic msg) False = Inr ()"
  shows "(\<exists>f\<in>set (ws_requested ws). mqtt_matches f (mm_topic msg))
    \<and> authorize_topic m s (mm_topic msg) False = Inr ()
    \<and> int (length (ws_queue ws)) \<le> websocket_queue_size s"
proof -
  have inv: "gw_inv m s (c, w)" by (rule gw_reachable_inv [OF assms(1,2,4)])
  note ok = session_owner(4) [OF inv assms(5)]
  then obtain f where f: "f \<in> set (ws_requested ws)" "m f (mm_topic msg)" "authorize_topic m s f True = Inr ()"
    using assms(6) by (auto simp: session_ok_def)
  have "mqtt_matches f (mm_topic msg)"
    using f assms(3,7)
    by (auto simp: matcher_conforms_def authorize_filter_iff [OF assms(1)] validate_filter_iff validate_name_iff)
  with confined_name [OF assms(1,3) f(3) assms(7)] f(1) ok show ?thesis
    by (auto simp: session_ok_def)
qed

text \<open>
  A stream keeps what it holds: while it is open, each filter it acquired stays subscribed at the
  service and in the client's replay table, no matter what other streams, queries and REST calls
  release.
\<close>

theorem stream_keeps_its_filters:
  assumes "settings_wf s" "unsubscribe_conforms ph"
    and "(gw_step ph dec uni fs m s)\<^sup>*\<^sup>* (gw_initial ph ld s) (c, w)"
    and "map_of (gw_sessions w) owner = Some ws" "t \<in> set (ws_acquired ws)"
  shows "is_subscribed (gw_service w) t \<and> t \<in> fst ` set (cl_subscriptions c)"
proof -
  have inv: "gw_inv m s (c, w)" by (rule gw_reachable_inv [OF assms(1-3)])
  have "owns (gw_service w) owner t" using session_owner(3) [OF inv assms(4)] assms(5) by simp
  then have "owners_of (gw_service w) t \<noteq> []" by (auto simp: owns_def)
  moreover have "service_wf (gw_service w)" "cl_subscriptions c = sv_subscriptions (gw_service w)"
    using inv by (auto simp: gw_inv_def app_ok_def service_inv_def)
  ultimately show ?thesis
    by (metis is_subscribed_def map_of_eq_None_iff subscribed_iff_owned)
qed

text \<open>
  Shutting down always stops the client: from every reachable state the statistics handler is
  removed, the shutdown is flagged and the client reports itself disconnected, even when the library
  fails or the shutdown is cancelled.
\<close>

theorem shutdown_stops_client:
  assumes "settings_wf s" "unsubscribe_conforms ph"
    and "(gw_step ph dec uni fs m s)\<^sup>*\<^sup>* (gw_initial ph ld s) (c, w)"
    and "lifespan_exit ph cancelled c = (c', r)"
  shows "HandleMessage \<notin> set (cl_packet_callbacks c') \<and> cl_shutdown c' \<and> \<not> is_connected ph c'"
proof -
  have inv: "gw_inv m s (c, w)" by (rule gw_reachable_inv [OF assms(1-3)])
  have "count_list (cl_packet_callbacks c) HandleMessage \<le> 1"
    using inv by (simp add: gw_inv_def callbacks_inv_def)
  from remove1_single [OF this] assms(4) show ?thesis
    by (auto simp: lifespan_exit_def disconnect_def Let_def remove_callback_callbacks is_connected_def
        split: option.splits sum.splits if_splits)
qed

section \<open>Witnesses\<close>

text \<open>A run: connect, open a stream, acquire its filter, receive one message and deliver it.\<close>

abbreviation sample_step :: "(pystr \<times> int) list gclient \<times> gw_world \<Rightarrow> (pystr \<times> int) list gclient \<times> gw_world \<Rightarrow> bool" where
  "sample_step \<equiv> gw_step sample_paho sample_decode (\<lambda>_. []) (\<lambda>_. Inl TypeError) mqtt_matches example_settings"

definition sample_c :: "(pystr \<times> int) list gclient" where
  "sample_c = client_init\<lparr>cl_event_loop := True, cl_paho := Some [], cl_packet_callbacks := [HandleMessage]\<rparr>"

definition sample_claims :: json_dict where
  "sample_claims = [(lit ''sub'', JStr (lit ''operator'')), (lit ''exp'', JInt 1000)]"

definition sample_ws :: ws_session where
  "sample_ws = (ws_new sample_claims [sample_topic])\<lparr>ws_remaining := [], ws_acquired := [sample_topic]\<rparr>"

definition sample_open_c :: "(pystr \<times> int) list gclient" where
  "sample_open_c = sample_c\<lparr>cl_connected := True, cl_packet_callbacks := [HandleMessage, WsCallback (ws_owner [])],
     cl_paho := Some [(sample_topic, 0)], cl_subscriptions := [(sample_topic, 0)]\<rparr>"

definition sample_open_w :: gw_world where
  "sample_open_w = \<lparr>gw_service = service_init\<lparr>sv_owners := [(sample_topic, [(ws_owner [], 0)])],
       sv_subscriptions := [(sample_topic, 0)]\<rparr>,
     gw_sessions = [(ws_owner [], sample_ws)], gw_queries = []\<rparr>"

lemma two_steps: "r a b \<Longrightarrow> r b c \<Longrightarrow> r\<^sup>*\<^sup>* a c"
  by (meson converse_rtranclp_into_rtranclp r_into_rtranclp)

lemma sample_initial: "gw_initial sample_paho ld example_settings = (sample_c, gw_world_init)"
  by (simp add: gw_initial_def lifespan_enter_def connect_start_def sample_c_def add_packet_callback_def
      client_init_def example_settings_def default_settings_def sample_paho_def)

lemma sample_reaches_connected:
  "sample_step\<^sup>*\<^sup>* (sample_c, gw_world_init) (sample_c\<lparr>cl_connected := True\<rparr>, gw_world_init)"
proof -
  have "sample_step (sample_c, gw_world_init) (sample_c\<lparr>cl_ready := [ConnectionChanged True]\<rparr>, gw_world_init)"
    using gw_step.net_connect [of sample_paho sample_decode "\<lambda>_. []" "\<lambda>_. Inl TypeError" mqtt_matches
        example_settings sample_c gw_world_init 0]
    by (simp add: on_connect_def call_soon_def sample_c_def client_init_def)
  moreover have "sample_step (sample_c\<lparr>cl_ready := [ConnectionChanged True]\<rparr>, gw_world_init)
      (sample_c\<lparr>cl_connected := True\<rparr>, gw_world_init)"
    using gw_step.loop_turn [of sample_paho sample_decode "\<lambda>_. []" "\<lambda>_. Inl TypeError" mqtt_matches
        example_settings "sample_c\<lparr>cl_ready := [ConnectionChanged True]\<rparr>" gw_world_init 0]
    by (simp add: run_ready_def connection_changed_def sample_c_def client_init_def)
  ultimately show ?thesis by (rule two_steps)
qed

lemma sample_reaches_stream:
  "sample_step\<^sup>*\<^sup>* (sample_c\<lparr>cl_connected := True\<rparr>, gw_world_init) (sample_open_c, sample_open_w)"
proof -
  let ?c = "sample_c\<lparr>cl_connected := True, cl_packet_callbacks := [HandleMessage, WsCallback (ws_owner [])]\<rparr>"
  let ?ws = "ws_new sample_claims [sample_topic]"
  let ?w = "gw_world_init\<lparr>gw_sessions := [(ws_owner [], ?ws)]\<rparr>"
  have 1: "sample_step (sample_c\<lparr>cl_connected := True\<rparr>, gw_world_init) (?c, ?w)"
    using gw_step.ws_opened [OF sample_open, of gw_world_init "[]" sample_paho "\<lambda>_. Inl TypeError"
        "sample_c\<lparr>cl_connected := True\<rparr>"]
    by (simp add: gw_world_init_def put_session_def ws_start_def add_packet_callback_def sample_claims_def)
      (simp add: sample_c_def)
  have "ws_acquire_next sample_paho mqtt_matches example_settings (ws_owner []) ((gw_service ?w, ?c), ?ws)
      = ((gw_service sample_open_w, sample_open_c), sample_ws)"
    by (simp add: ws_acquire_next_def ws_new_def acquire_subscription_def gw_world_init_def owners_of_def
        service_init_def subscribe_def is_connected_def sample_open_w_def sample_open_c_def sample_ws_def)
      (simp add: sample_c_def sample_paho_def client_init_def)
  then have 2: "sample_step (?c, ?w) (sample_open_c, put_session (ws_owner []) sample_ws (?w\<lparr>gw_service := gw_service sample_open_w\<rparr>))"
    by (intro gw_step.ws_acquires) (simp_all add: ws_new_def)
  have w: "put_session (ws_owner []) sample_ws (?w\<lparr>gw_service := gw_service sample_open_w\<rparr>) = sample_open_w"
    by (simp add: put_session_def sample_open_w_def gw_world_init_def)
  from two_steps [of sample_step, OF 1 2] show ?thesis unfolding w .
qed

lemma sample_delivers:
  "\<exists>c w. sample_step\<^sup>*\<^sup>* (sample_open_c, sample_open_w) (c, w)
     \<and> map_of (gw_sessions w) (ws_owner []) = Some (sample_ws\<lparr>ws_queue := [received 0 sample_packet]\<rparr>)"
proof -
  let ?c = "sample_open_c\<lparr>cl_pending := [sample_packet], cl_dispatch_pending := True, cl_ready := [DrainMessages]\<rparr>"
  have 1: "sample_step (sample_open_c, sample_open_w) (?c, sample_open_w)"
    using gw_step.net_message [of sample_paho sample_decode "\<lambda>_. []" "\<lambda>_. Inl TypeError" mqtt_matches
        example_settings sample_open_c sample_open_w 0 sample_packet]
    by (simp add: on_message_def sample_packet_def example_sizes deque_append_def call_soon_def
        sample_open_c_def sample_c_def client_init_def)
  let ?r = "run_ready sample_paho example_settings (gw_run_p mqtt_matches example_settings 0) gw_run_m (?c, sample_open_w)"
  have 2: "sample_step (?c, sample_open_w) ?r"
    by (rule gw_step.loop_turn)
  have m: "mqtt_matches sample_topic sample_topic"
    by (simp add: mqtt_matches_def wild_start_def sample_topic_def lit_def startswith_def)
  have "ws_callback mqtt_matches example_settings 0 sample_packet sample_ws
      = sample_ws\<lparr>ws_queue := [received 0 sample_packet]\<rparr>"
    by (simp add: ws_callback_cases ws_wants_def sample_ws_def ws_new_def example_sizes)
      (simp add: sample_packet_def m example_settings_def default_settings_def)
  then have "map_of (gw_sessions (snd ?r)) (ws_owner []) = Some (sample_ws\<lparr>ws_queue := [received 0 sample_packet]\<rparr>)"
    by (simp add: run_ready_def drain_messages_eq deliver_world_def sample_open_c_def sample_c_def client_init_def
        gw_run_p_def handle_message_statistics [OF example_settings_wf] sample_open_w_def)
  with two_steps [of sample_step, OF 1 2] show ?thesis
    by (intro exI [of _ "fst ?r"] exI [of _ "snd ?r"]) simp
qed

lemma sample_unsubscribe_conforms: "unsubscribe_conforms sample_paho"
  by (simp add: unsubscribe_conforms_def sample_paho_def)

lemma sample_reaches_open:
  "sample_step\<^sup>*\<^sup>* (gw_initial sample_paho ld example_settings) (sample_open_c, sample_open_w)"
  using sample_reaches_connected sample_reaches_stream by (simp add: sample_initial)

lemmas sample_hyps = example_settings_wf sample_unsubscribe_conforms

theorem gateway_leaks_nothing_witness:
  "cl_packet_callbacks (sample_c\<lparr>cl_connected := True\<rparr>) = [HandleMessage]"
proof -
  have "sample_step\<^sup>*\<^sup>* (gw_initial sample_paho ld example_settings) (sample_c\<lparr>cl_connected := True\<rparr>, gw_world_init)" for ld
    unfolding sample_initial by (rule sample_reaches_connected)
  from gateway_leaks_nothing [OF sample_hyps this] show ?thesis
    by (simp add: gw_world_init_def)
qed


theorem stream_is_confined_witness:
  "authorize_topic mqtt_matches example_settings (mm_topic (received 0 sample_packet)) False = Inr ()"
proof -
  obtain c w where cw: "sample_step\<^sup>*\<^sup>* (sample_open_c, sample_open_w) (c, w)"
    and ws: "map_of (gw_sessions w) (ws_owner []) = Some (sample_ws\<lparr>ws_queue := [received 0 sample_packet]\<rparr>)"
    using sample_delivers by blast
  have r: "sample_step\<^sup>*\<^sup>* (gw_initial sample_paho ld example_settings) (c, w)" for ld
    using sample_reaches_open cw by (rule rtranclp_trans)
  have m: "matcher_conforms mqtt_matches" by (simp add: matcher_conforms_def)
  have v: "validate_topic (mm_topic (received 0 sample_packet)) False = Inr ()"
    by (simp add: received_def sample_packet_def sample_validate)
  from stream_is_confined [OF sample_hyps m r ws _ v] show ?thesis by simp
qed

theorem stream_keeps_its_filters_witness: "is_subscribed (gw_service sample_open_w) sample_topic"
proof -
  have "map_of (gw_sessions sample_open_w) (ws_owner []) = Some sample_ws"
    by (simp add: sample_open_w_def)
  from stream_keeps_its_filters [OF sample_hyps sample_reaches_open this, of sample_topic] show ?thesis
    by (simp add: sample_ws_def)
qed

theorem shutdown_stops_client_witness:
  "cl_shutdown (fst (lifespan_exit sample_paho True sample_open_c))"
proof -
  obtain c' r where e: "lifespan_exit sample_paho True sample_open_c = (c', r)"
    by (metis prod.exhaust)
  from shutdown_stops_client [OF sample_hyps sample_reaches_open e] show ?thesis by (simp add: e)
qed

end
