(* ===== verification/Py_Json.thy ===== *)
theory Py_Json
  imports Models
begin

text \<open>
  The operations of Python on parsed JSON that the release scripts use: subscripts, \<open>in\<close> on a set of
  strings, equality (numbers compare across \<open>bool\<close>, \<open>int\<close> and \<open>float\<close>, dictionaries regardless of
  order), \<open>str\<close>, and the canonical encoding \<open>json.dumps(sort_keys=True)\<close>.
\<close>

section \<open>Access\<close>

definition py_getitem :: "json \<Rightarrow> pystr \<Rightarrow> json result" where
  "py_getitem v k =
     (case v of
        JObj d \<Rightarrow> (case map_of d k of Some x \<Rightarrow> Inr x | None \<Rightarrow> Inl KeyError)
      | _ \<Rightarrow> Inl TypeError)"

text \<open>\<open>v.get(k, d)\<close>: only a dictionary has the method.\<close>

definition py_get :: "json \<Rightarrow> pystr \<Rightarrow> json \<Rightarrow> json result" where
  "py_get v k dflt = (case v of JObj d \<Rightarrow> Inr (dict_get d k dflt) | _ \<Rightarrow> Inl AttributeError)"

text \<open>\<open>v in {"a", "b", ...}\<close>: a list or a dictionary is not hashable.\<close>

definition in_strings :: "json \<Rightarrow> string list \<Rightarrow> bool result" where
  "in_strings v names =
     (case v of
        JStr s \<Rightarrow> Inr (s \<in> set (map lit names))
      | JList _ \<Rightarrow> Inl TypeError
      | JObj _ \<Rightarrow> Inl TypeError
      | _ \<Rightarrow> Inr False)"

definition has_key :: "json_dict \<Rightarrow> string \<Rightarrow> bool" where
  "has_key d k \<longleftrightarrow> lit k \<in> fst ` set d"

definition only_keys :: "json_dict \<Rightarrow> string list \<Rightarrow> bool" where
  "only_keys d names \<longleftrightarrow> fst ` set d \<subseteq> set (map lit names)"

text \<open>\<open>type(v) is int\<close> and its value.\<close>

definition jint :: "json \<Rightarrow> int option" where
  "jint v = (case v of JInt i \<Rightarrow> Some i | _ \<Rightarrow> None)"

fun truthy :: "json \<Rightarrow> bool" where
  "truthy JNull = False"
| "truthy (JBool b) = b"
| "truthy (JInt i) = (i \<noteq> 0)"
| "truthy (JFloat r) = (r \<noteq> 0)"
| "truthy (JStr s) = (s \<noteq> [])"
| "truthy (JList xs) = (xs \<noteq> [])"
| "truthy (JObj d) = (d \<noteq> [])"

section \<open>Equality\<close>

fun json_num :: "json \<Rightarrow> real option" where
  "json_num (JBool b) = Some (if b then 1 else 0)"
| "json_num (JInt i) = Some (of_int i)"
| "json_num (JFloat r) = Some r"
| "json_num _ = None"

fun json_eq :: "json \<Rightarrow> json \<Rightarrow> bool"
  and list_eq :: "json list \<Rightarrow> json list \<Rightarrow> bool"
  and dict_sub :: "(pystr \<times> json) list \<Rightarrow> json_dict \<Rightarrow> bool" where
  "json_eq (JObj d) w = (case w of JObj e \<Rightarrow> length d = length e \<and> dict_sub d e | _ \<Rightarrow> False)"
| "json_eq (JList xs) w = (case w of JList ys \<Rightarrow> list_eq xs ys | _ \<Rightarrow> False)"
| "json_eq (JStr s) w = (w = JStr s)"
| "json_eq JNull w = (w = JNull)"
| "json_eq (JBool b) w = (json_num w = Some (if b then 1 else 0))"
| "json_eq (JInt i) w = (json_num w = Some (of_int i))"
| "json_eq (JFloat r) w = (json_num w = Some r)"
| "list_eq [] ys = (ys = [])"
| "list_eq (x # xs) ys = (case ys of [] \<Rightarrow> False | y # ys' \<Rightarrow> json_eq x y \<and> list_eq xs ys')"
| "dict_sub [] e = True"
| "dict_sub ((k, v) # d) e =
     ((case map_of e k of None \<Rightarrow> False | Some v' \<Rightarrow> json_eq v v') \<and> dict_sub d e)"

text \<open>Parsed JSON has no repeated key.\<close>

fun json_wf :: "json \<Rightarrow> bool" where
  "json_wf (JObj d) = (distinct (map fst d) \<and> (\<forall>p\<in>set d. json_wf (snd p)))"
| "json_wf (JList xs) = (\<forall>x\<in>set xs. json_wf x)"
| "json_wf _ = True"

lemma list_eq_refl: "(\<And>x. x \<in> set xs \<Longrightarrow> json_eq x x) \<Longrightarrow> list_eq xs xs"
  by (induction xs) auto

lemma dict_sub_refl:
  "(\<And>k v. (k, v) \<in> set d \<Longrightarrow> map_of e k = Some v \<and> json_eq v v) \<Longrightarrow> dict_sub d e"
proof (induction d)
  case (Cons p d)
  obtain k v where p: "p = (k, v)" by (cases p)
  have "dict_sub d e"
    by (rule Cons.IH) (use Cons.prems in auto)
  moreover have "map_of e k = Some v \<and> json_eq v v"
    by (rule Cons.prems) (simp add: p)
  ultimately show ?case by (simp add: p)
qed simp

lemma json_eq_refl: "json_wf v \<Longrightarrow> json_eq v v"
proof (induction v)
  case (JList xs)
  then show ?case by (simp add: list_eq_refl)
next
  case (JObj d)
  have "dict_sub d d"
  proof (rule dict_sub_refl)
    fix k v assume "(k, v) \<in> set d"
    with JObj show "map_of d k = Some v \<and> json_eq v v"
      by (force simp: map_of_is_SomeI snds.simps)
  qed
  then show ?case by simp
qed auto

section \<open>Rendering\<close>

text \<open>\<open>str(v)\<close> for the values that reach an f-string: strings, integers and \<open>None\<close>.\<close>

fun py_str :: "json \<Rightarrow> pystr" where
  "py_str (JStr s) = s"
| "py_str (JInt i) = int_str i"
| "py_str (JBool b) = lit (if b then ''True'' else ''False'')"
| "py_str _ = lit ''None''"

text \<open>
  \<open>json.dumps(v, sort_keys=True, separators=(",", ":"), ensure_ascii=True)\<close>. The rendering of a
  float is the argument \<open>float_repr\<close>.
\<close>

definition hex4 :: "nat \<Rightarrow> pystr" where
  "hex4 n = map (\<lambda>d. if d < 10 then 48 + d else 87 + d)
     [n div 4096 mod 16, n div 256 mod 16, n div 16 mod 16, n mod 16]"

definition json_escape_char :: "nat \<Rightarrow> pystr" where
  "json_escape_char c =
     (if c = 34 then [92, 34] else if c = 92 then [92, 92]
      else if c = 10 then [92, 110] else if c = 13 then [92, 114] else if c = 9 then [92, 116]
      else if c = 8 then [92, 98] else if c = 12 then [92, 102]
      else if 32 \<le> c \<and> c \<le> 126 then [c]
      else if c < 65536 then [92, 117] @ hex4 c
      else (let n = c - 65536
            in [92, 117] @ hex4 (55296 + n div 1024) @ [92, 117] @ hex4 (56320 + n mod 1024)))"

definition json_string :: "pystr \<Rightarrow> pystr" where
  "json_string s = 34 # concat (map json_escape_char s) @ [34]"

text \<open>Insertion into a list of entries sorted by key: Python orders strings by code point.\<close>

fun str_less_eq :: "pystr \<Rightarrow> pystr \<Rightarrow> bool" where
  "str_less_eq [] t = True"
| "str_less_eq (a # s) [] = False"
| "str_less_eq (a # s) (b # t) = (a < b \<or> a = b \<and> str_less_eq s t)"

fun insert_entry :: "pystr \<times> 'a \<Rightarrow> (pystr \<times> 'a) list \<Rightarrow> (pystr \<times> 'a) list" where
  "insert_entry p [] = [p]"
| "insert_entry p (q # qs) = (if str_less_eq (fst p) (fst q) then p # q # qs else q # insert_entry p qs)"

definition sort_entries :: "(pystr \<times> 'a) list \<Rightarrow> (pystr \<times> 'a) list" where
  "sort_entries ps = foldr insert_entry ps []"

definition render_entry :: "pystr \<times> pystr \<Rightarrow> pystr" where
  "render_entry p = json_string (fst p) @ [58] @ snd p"

fun json_dumps :: "(real \<Rightarrow> pystr) \<Rightarrow> json \<Rightarrow> pystr" where
  "json_dumps fr JNull = lit ''null''"
| "json_dumps fr (JBool b) = lit (if b then ''true'' else ''false'')"
| "json_dumps fr (JInt i) = int_str i"
| "json_dumps fr (JFloat r) = fr r"
| "json_dumps fr (JStr s) = json_string s"
| "json_dumps fr (JList xs) = [91] @ join_on 44 (map (json_dumps fr) xs) @ [93]"
| "json_dumps fr (JObj d) =
     [123] @ join_on 44 (map render_entry (sort_entries (map (\<lambda>p. (fst p, json_dumps fr (snd p))) d))) @ [125]"

text \<open>What is read back from a document written with \<open>sort_keys=True\<close>: the same value, keys in order.\<close>

fun sort_json :: "json \<Rightarrow> json" where
  "sort_json (JObj d) = JObj (sort_entries (map (\<lambda>p. (fst p, sort_json (snd p))) d))"
| "sort_json (JList xs) = JList (map sort_json xs)"
| "sort_json v = v"

lemma set_insert_entry [simp]: "set (insert_entry p qs) = insert p (set qs)"
  by (induction qs) auto

lemma set_sort_entries [simp]: "set (sort_entries ps) = set ps"
  unfolding sort_entries_def by (induction ps) auto

lemma distinct_insert_entry:
  "distinct (map fst (insert_entry p qs)) \<longleftrightarrow> fst p \<notin> fst ` set qs \<and> distinct (map fst qs)"
  by (induction qs) auto

lemma distinct_sort_entries: "distinct (map fst ps) \<Longrightarrow> distinct (map fst (sort_entries ps))"
proof (induction ps)
  case (Cons p ps)
  have "sort_entries (p # ps) = insert_entry p (sort_entries ps)"
    by (simp add: sort_entries_def)
  with Cons show ?case by (simp add: distinct_insert_entry)
qed (simp add: sort_entries_def)

lemma map_of_sort_entries: "distinct (map fst ps) \<Longrightarrow> map_of (sort_entries ps) = map_of ps"
  by (simp add: map_of_inject_set distinct_sort_entries)

lemma map_of_values: "map_of (map (\<lambda>p. (fst p, f (snd p))) d) k = map_option f (map_of d k)"
  by (induction d) auto

lemma map_of_sort_json:
  assumes "distinct (map fst d)"
  shows "map_of (sort_entries (map (\<lambda>p. (fst p, sort_json (snd p))) d)) k = map_option sort_json (map_of d k)"
proof -
  have "map fst (map (\<lambda>p. (fst p, sort_json (snd p))) d) = map fst d" by simp
  with assms show ?thesis by (simp only: map_of_sort_entries map_of_values)
qed

lemma sort_json_wf: "json_wf v \<Longrightarrow> json_wf (sort_json v)"
proof (induction v)
  case (JObj d)
  have "map fst (map (\<lambda>p. (fst p, sort_json (snd p))) d) = map fst d" by simp
  with JObj have "distinct (map fst (sort_entries (map (\<lambda>p. (fst p, sort_json (snd p))) d)))"
    by (metis distinct_sort_entries json_wf.simps(1))
  with JObj show ?case by (force simp: snds.simps)
qed auto

end
