(* ===== verification/Change_Scope.thy ===== *)
theory Change_Scope
  imports Py_Json Utf8
begin

text \<open>
  \<open>scripts/change_scope.py\<close>: when a change may skip the heavy pipeline. The classifier reads the raw
  diff git prints and answers \<open>run = False\<close> only for a complete diff of ordinary documentation files;
  everything it does not understand asks for the full pipeline. Resolving the repository directory
  and running git are the two fields of a \<open>git_env\<close>; the mapping of non-ASCII characters to lower case is the argument \<open>uni\<close>.
\<close>

record scope_decision =
  sd_run :: bool
  sd_reason :: string

definition decision :: "bool \<Rightarrow> string \<Rightarrow> scope_decision" where
  "decision run reason = \<lparr>sd_run = run, sd_reason = reason\<rparr>"

definition REVISION :: "pystr \<Rightarrow> bool" where
  "REVISION s \<longleftrightarrow> length s = 40 \<and> list_all is_hex_lower s"

definition DOCUMENT_NAMES :: "string list" where
  "DOCUMENT_NAMES = [''readme'', ''changelog'', ''contributing'', ''security'', ''releasing'', ''code_of_conduct'']"

definition PROTECTED_PARTS :: "string list" where
  "PROTECTED_PARTS =
     [''src'', ''source'', ''sources'', ''test'', ''tests'', ''testdata'', ''fixtures'', ''__tests__'',
      ''snapshots'', ''resources'', ''assets'', ''templates'', ''scripts'', ''script'', ''tools'', ''ci'',
      ''workflows'', ''actions'', ''hooks'', ''bin'', ''lib'', ''app'', ''apps'', ''build'', ''dist'',
      ''target'', ''config'', ''configs'', ''configuration'', ''dependencies'', ''deps'', ''packages'',
      ''package'', ''packaging'', ''node_modules'', ''gradle'', ''cmake'', ''docker'', ''deploy'',
      ''deployment'', ''migrations'', ''charts'', ''helm'', ''k8s'', ''vendor-bin'']"

section \<open>Paths\<close>

text \<open>\<open>PurePosixPath\<close>: its parts, its printed form, the suffix and stem of its last part.\<close>

definition path_parts :: "pystr \<Rightarrow> pystr list" where
  "path_parts p = filter (\<lambda>x. x \<noteq> [] \<and> x \<noteq> lit ''.'') (split_on 47 p)"

definition path_str :: "pystr \<Rightarrow> pystr" where
  "path_str p = (if path_parts p = [] then lit ''.'' else join_on 47 (path_parts p))"

definition name_dot :: "pystr \<Rightarrow> nat option" where
  "name_dot name =
     (let ext = takeWhile (\<lambda>c. c \<noteq> 46) (rev name);
          i = length name - length ext - 1
      in if 46 \<in> set name \<and> 0 < i \<and> ext \<noteq> [] then Some i else None)"

definition suffix_of :: "pystr \<Rightarrow> pystr" where
  "suffix_of name = (case name_dot name of Some i \<Rightarrow> drop i name | None \<Rightarrow> [])"

definition stem_of :: "pystr \<Rightarrow> pystr" where
  "stem_of name = (case name_dot name of Some i \<Rightarrow> take i name | None \<Rightarrow> name)"

definition literal_path :: "json \<Rightarrow> bool" where
  "literal_path path =
     (case path of
        JStr p \<Rightarrow>
          p \<noteq> [] \<and> 92 \<notin> set p \<and> 0 \<notin> set p
          \<and> \<not> startswith p [47] \<and> path_str p = p \<and> path_parts p \<noteq> []
          \<and> lit ''..'' \<notin> set (path_parts p) \<and> set p \<inter> set (lit ''*?['') = {}
      | _ \<Rightarrow> False)"

definition document_name :: "(nat \<Rightarrow> pystr) \<Rightarrow> json \<Rightarrow> bool" where
  "document_name uni path \<longleftrightarrow>
     literal_path path
     \<and> py_lower uni (suffix_of (last (path_parts (jstr_val path)))) \<in> {lit ''.md'', lit ''.rst''}"

definition documentation_path :: "(nat \<Rightarrow> pystr) \<Rightarrow> pystr \<Rightarrow> pystr list \<Rightarrow> bool" where
  "documentation_path uni path explicit =
     (if \<not> document_name uni (JStr path) then False
      else
        (let parts = map (py_lower uni) (path_parts path)
         in if (\<exists>part\<in>set (butlast parts). startswith part [46] \<or> part \<in> set (map lit PROTECTED_PARTS)) then False
            else if startswith (last parts) [46] then False
            else path \<in> set explicit
                 \<or> (length parts = 1 \<and> py_lower uni (stem_of (last (path_parts path))) \<in> set (map lit DOCUMENT_NAMES))
                 \<or> (1 < length parts \<and> hd parts = lit ''docs'')))"

section \<open>Revisions\<close>

definition full_revision :: "json \<Rightarrow> bool" where
  "full_revision v = (case v of JStr s \<Rightarrow> REVISION s \<and> s \<noteq> replicate 40 48 | _ \<Rightarrow> False)"

definition event_revisions :: "string \<Rightarrow> json \<Rightarrow> (pystr \<times> pystr \<times> pystr) result" where
  "event_revisions event_name event =
     (case event of
        JObj _ \<Rightarrow>
          bind_r
            (if event_name = ''pull_request''
             then bind_r (py_getitem event (lit ''pull_request'')) (\<lambda>pull.
                  bind_r (py_getitem pull (lit ''base'')) (\<lambda>b. bind_r (py_getitem b (lit ''sha'')) (\<lambda>base.
                  bind_r (py_getitem pull (lit ''head'')) (\<lambda>h. bind_r (py_getitem h (lit ''sha'')) (\<lambda>head.
                    Inr (base, head, lit ''...''))))))
             else if event_name = ''merge_group''
             then bind_r (py_getitem event (lit ''merge_group'')) (\<lambda>group.
                  bind_r (py_getitem group (lit ''base_sha'')) (\<lambda>base.
                  bind_r (py_getitem group (lit ''head_sha'')) (\<lambda>head. Inr (base, head, lit ''..''))))
             else bind_r (py_getitem event (lit ''before'')) (\<lambda>base.
                  bind_r (py_getitem event (lit ''after'')) (\<lambda>head. Inr (base, head, lit ''..''))))
            (\<lambda>(base, head, separator).
               if full_revision base \<and> full_revision head then Inr (jstr_val base, jstr_val head, separator)
               else Inl (ValueError ''Expected nonzero full commit SHA''))
      | _ \<Rightarrow> Inl TypeError)"

section \<open>Git\<close>

text \<open>\<open>[0-9a-f]{40}\.{2,3}[0-9a-f]{40}\<close>.\<close>

definition commit_range :: "pystr \<Rightarrow> bool" where
  "commit_range r \<longleftrightarrow>
     (length r = 82 \<or> length r = 83) \<and> REVISION (take 40 r) \<and> REVISION (drop (length r - 40) r)
     \<and> set (drop 40 (take (length r - 40) r)) \<subseteq> {46}"

definition git_arguments :: "string \<Rightarrow> pystr \<Rightarrow> pystr list result" where
  "git_arguments operation revision =
     (if operation = ''shallow'' \<and> revision = []
      then Inr (map lit [''git'', ''rev-parse'', ''--is-shallow-repository''])
      else if operation = ''commit-type''
      then (if \<not> REVISION revision then Inl (ValueError ''Expected one exact object ID'')
            else Inr (map lit [''git'', ''cat-file'', ''-t'', ''--''] @ [revision]))
      else if operation = ''diff''
      then (if \<not> commit_range revision then Inl (ValueError ''Expected an exact two-commit range'')
            else Inr (map lit [''git'', ''diff'', ''--raw'', ''--no-abbrev'', ''-z'', ''--no-renames'', ''--no-ext-diff'',
                       ''--no-textconv'', ''--no-relative'', ''--ignore-submodules=none'', ''--end-of-options'']
                      @ [revision, lit ''--'']))
      else Inl (ValueError ''Unsupported Git read operation''))"

text \<open>
  \<open>ge_directory\<close> is the outcome of \<open>Path(repo).resolve(strict=True)\<close> and \<open>is_dir\<close>, \<open>ge_run\<close> the
  standard output of the command or the exception \<open>subprocess.run\<close> raises.
\<close>

record git_env =
  ge_directory :: "bool result"
  ge_run :: "pystr list \<Rightarrow> bytes result"

definition git :: "git_env \<Rightarrow> string \<Rightarrow> pystr \<Rightarrow> bytes result" where
  "git repo operation revision =
     bind_r (ge_directory repo) (\<lambda>is_dir.
       guard_r is_dir (ValueError ''Expected a repository directory'')
         (bind_r (git_arguments operation revision) (ge_run repo)))"

section \<open>Classification\<close>

text \<open>\<open>bytes.split()\<close>: fields separated by runs of ASCII white space; \<open>bytes.strip()\<close>.\<close>

definition bspace :: "nat \<Rightarrow> bool" where
  "bspace c \<longleftrightarrow> c = 32 \<or> 9 \<le> c \<and> c \<le> 13"

function (sequential) bsplit :: "bytes \<Rightarrow> bytes list" where
  "bsplit [] = []"
| "bsplit (c # s) =
     (if bspace c then bsplit s
      else (c # takeWhile (\<lambda>x. \<not> bspace x) s) # bsplit (dropWhile (\<lambda>x. \<not> bspace x) s))"
  by pat_completeness auto
termination
  by (relation "measure length") (auto simp: le_imp_less_Suc length_dropWhile_le)

definition bstrip :: "bytes \<Rightarrow> bytes" where
  "bstrip s = rev (dropWhile bspace (rev (dropWhile bspace s)))"

text \<open>\<open>value.decode("ascii")\<close>.\<close>

definition ascii_decode :: "bytes \<Rightarrow> pystr result" where
  "ascii_decode b = (if list_all (\<lambda>c. c < 128) b then Inr b else Inl UnicodeError)"

definition expected_modes :: "bytes \<Rightarrow> (bytes \<times> bytes) option" where
  "expected_modes status =
     (if status = lit ''A'' then Some (lit ''000000'', lit ''100644'')
      else if status = lit ''D'' then Some (lit ''100644'', lit ''000000'')
      else if status = lit ''M'' then Some (lit ''100644'', lit ''100644'')
      else None)"

definition classify_record ::
  "(nat \<Rightarrow> pystr) \<Rightarrow> bytes \<Rightarrow> bytes \<Rightarrow> pystr list \<Rightarrow> pystr list \<Rightarrow> scope_decision option result" where
  "classify_record uni header raw_path explicit required =
     (case bsplit header of
        [before, after, old_hash, new_hash, status] \<Rightarrow>
          if \<not> startswith before [58] then Inr (Some (decision True ''invalid-diff''))
          else
            bind_r (ascii_decode old_hash) (\<lambda>h1.
            bind_r (if REVISION h1 then bind_r (ascii_decode new_hash) (\<lambda>h2. Inr (REVISION h2)) else Inr False) (\<lambda>ok.
              if \<not> ok then Inr (Some (decision True ''invalid-diff''))
              else if expected_modes status \<noteq> Some (tl before, after)
              then Inr (Some (decision True ''non-regular-or-mode-change''))
              else
                bind_r (utf8_decode raw_path) (\<lambda>path.
                  if path \<in> set required then Inr (Some (decision True ''required-path-change''))
                  else if \<not> documentation_path uni path explicit
                  then Inr (Some (decision True ''non-documentation-change''))
                  else Inr None)))
      | _ \<Rightarrow> Inr (Some (decision True ''invalid-diff'')))"

fun classify_records ::
  "(nat \<Rightarrow> pystr) \<Rightarrow> bytes list \<Rightarrow> pystr list \<Rightarrow> pystr list \<Rightarrow> scope_decision result" where
  "classify_records uni (header # raw_path # rest) explicit required =
     bind_r (classify_record uni header raw_path explicit required) (\<lambda>r.
       case r of Some d \<Rightarrow> Inr d | None \<Rightarrow> classify_records uni rest explicit required)"
| "classify_records uni _ explicit required = Inr (decision False ''documentation-only'')"

definition MAX_DIFF_BYTES :: nat where
  "MAX_DIFF_BYTES = 8 * 1024 * 1024"

definition classify_diff :: "(nat \<Rightarrow> pystr) \<Rightarrow> bytes \<Rightarrow> pystr list \<Rightarrow> pystr list \<Rightarrow> scope_decision result" where
  "classify_diff uni raw explicit required =
     (if raw = [] then Inr (decision True ''empty-diff'')
      else if length raw > MAX_DIFF_BYTES \<or> last raw \<noteq> 0 then Inr (decision True ''invalid-diff'')
      else
        (let records = split_on 0 (butlast raw)
         in if odd (length records) then Inr (decision True ''invalid-diff'')
            else classify_records uni records explicit required))"

definition paths_arg :: "(json \<Rightarrow> bool) \<Rightarrow> json \<Rightarrow> bool" where
  "paths_arg ok v = (case v of JList xs \<Rightarrow> list_all ok xs | _ \<Rightarrow> False)"

fun revision_error :: "exn \<Rightarrow> bool" where
  "revision_error KeyError = True"
| "revision_error TypeError = True"
| "revision_error (ValueError _) = True"
| "revision_error UnicodeError = True"
| "revision_error _ = False"

fun git_error :: "exn \<Rightarrow> bool" where
  "git_error (OSError _) = True"
| "git_error TimeoutError = True"
| "git_error (ValueError _) = True"
| "git_error UnicodeError = True"
| "git_error SubprocessError = True"
| "git_error _ = False"

definition classify_git ::
  "(nat \<Rightarrow> pystr) \<Rightarrow> git_env \<Rightarrow> pystr \<Rightarrow> pystr \<Rightarrow> pystr \<Rightarrow> pystr list \<Rightarrow> pystr list
   \<Rightarrow> scope_decision result" where
  "classify_git uni repo base head separator explicit required =
     bind_r (git repo ''shallow'' []) (\<lambda>shallow.
       if bstrip shallow \<noteq> lit ''false'' then Inr (decision True ''incomplete-history'')
       else
         bind_r (git repo ''commit-type'' base) (\<lambda>t1.
           if bstrip t1 \<noteq> lit ''commit'' then Inr (decision True ''invalid-revisions'')
           else
             bind_r (git repo ''commit-type'' head) (\<lambda>t2.
               if bstrip t2 \<noteq> lit ''commit'' then Inr (decision True ''invalid-revisions'')
               else bind_r (git repo ''diff'' (base @ separator @ head)) (\<lambda>raw.
                      classify_diff uni raw explicit required))))"

definition classify ::
  "(nat \<Rightarrow> pystr) \<Rightarrow> git_env \<Rightarrow> string \<Rightarrow> json \<Rightarrow> json \<Rightarrow> json \<Rightarrow> bool \<Rightarrow> scope_decision result" where
  "classify uni repo event_name event documentation_paths required_paths force =
     (if force then Inr (decision True ''forced'')
      else if event_name \<notin> set [''pull_request'', ''merge_group'', ''push''] then Inr (decision True ''unsupported-event'')
      else if \<not> paths_arg (document_name uni) documentation_paths
      then Inr (decision True ''invalid-documentation-paths'')
      else if \<not> paths_arg literal_path required_paths then Inr (decision True ''invalid-required-paths'')
      else
        (case event_revisions event_name event of
           Inl e \<Rightarrow> if revision_error e then Inr (decision True ''invalid-revisions'') else Inl e
         | Inr (base, head, separator) \<Rightarrow>
             (case classify_git uni repo base head separator
                     (case documentation_paths of JList xs \<Rightarrow> map jstr_val xs | _ \<Rightarrow> [])
                     (case required_paths of JList xs \<Rightarrow> map jstr_val xs | _ \<Rightarrow> []) of
                Inl e \<Rightarrow> if git_error e then Inr (decision True ''git-error'') else Inl e
              | Inr d \<Rightarrow> Inr d)))"

section \<open>The command line\<close>

text \<open>The parsed arguments, and what \<open>json.loads\<close> and the runner's event file give.\<close>

record scope_args =
  sa_event_name :: string
  sa_documentation_path :: "pystr list"
  sa_documentation_paths_json :: pystr
  sa_require_path :: "pystr list"
  sa_required_paths_json :: pystr
  sa_force :: bool

definition json_paths :: "(pystr \<Rightarrow> json result) \<Rightarrow> pystr \<Rightarrow> pystr list \<Rightarrow> json list result" where
  "json_paths loads v repeated =
     bind_r (loads v) (\<lambda>paths.
       case paths of JList xs \<Rightarrow> Inr (map JStr repeated @ xs) | _ \<Rightarrow> Inl TypeError)"

definition from_arguments ::
  "(nat \<Rightarrow> pystr) \<Rightarrow> git_env \<Rightarrow> (pystr \<Rightarrow> json result) \<Rightarrow> pystr result \<Rightarrow> scope_args \<Rightarrow> scope_decision result" where
  "from_arguments uni repo loads event_text args =
     (if sa_force args \<or> sa_event_name args \<notin> set [''pull_request'', ''merge_group'', ''push'']
      then classify uni repo (sa_event_name args) JNull (JList []) (JList []) (sa_force args)
      else
        (case json_paths loads (sa_documentation_paths_json args) (sa_documentation_path args) of
           Inl e \<Rightarrow> if revision_error e \<and> e \<noteq> KeyError then Inr (decision True ''invalid-documentation-paths'') else Inl e
         | Inr documentation_paths \<Rightarrow>
             (case json_paths loads (sa_required_paths_json args) (sa_require_path args) of
                Inl e \<Rightarrow> if revision_error e \<and> e \<noteq> KeyError then Inr (decision True ''invalid-required-paths'') else Inl e
              | Inr required_paths \<Rightarrow>
                  (case bind_r event_text loads of
                     Inl e \<Rightarrow> if git_error e \<and> e \<noteq> SubprocessError then Inr (decision True ''invalid-event-file'') else Inl e
                   | Inr event \<Rightarrow>
                       classify uni repo (sa_event_name args) event (JList documentation_paths) (JList required_paths)
                         False))))"

text \<open>The two lines \<open>main\<close> appends to \<open>GITHUB_OUTPUT\<close>.\<close>

definition scope_output :: "scope_decision \<Rightarrow> pystr" where
  "scope_output d =
     lit ''run='' @ lit (if sd_run d then ''true'' else ''false'') @ [10] @ lit ''reason='' @ lit (sd_reason d) @ [10]"

section \<open>When the pipeline is skipped\<close>

text \<open>
  A changed file that needs no build, said without the classifier: an ordinary file before and after
  the change, a Markdown or reStructuredText document that policy does not require, outside every hidden
  or protected directory.
\<close>

definition safe_document :: "(nat \<Rightarrow> pystr) \<Rightarrow> pystr \<Rightarrow> bool" where
  "safe_document uni path \<longleftrightarrow>
     py_lower uni (suffix_of (last (path_parts path))) \<in> {lit ''.md'', lit ''.rst''}
     \<and> lit ''..'' \<notin> set (path_parts path)
     \<and> (\<forall>part\<in>set (butlast (path_parts path)).
          \<not> startswith (py_lower uni part) [46] \<and> py_lower uni part \<notin> set (map lit PROTECTED_PARTS))"

definition ordinary_mode :: "bytes \<Rightarrow> bool" where
  "ordinary_mode m \<longleftrightarrow> m = lit ''000000'' \<or> m = lit ''100644''"

definition harmless :: "(nat \<Rightarrow> pystr) \<Rightarrow> pystr list \<Rightarrow> bytes \<times> bytes \<Rightarrow> bool" where
  "harmless uni required rec \<longleftrightarrow>
     (\<exists>before after status path h1 h2. bsplit (fst rec) = [58 # before, after, h1, h2, status]
        \<and> ordinary_mode before \<and> ordinary_mode after
        \<and> utf8_decode (snd rec) = Inr path \<and> path \<notin> set required \<and> safe_document uni path)"

fun record_pairs :: "'a list \<Rightarrow> ('a \<times> 'a) list" where
  "record_pairs (a # b # rest) = (a, b) # record_pairs rest"
| "record_pairs _ = []"

lemma documentation_path_safe: "documentation_path uni path explicit \<Longrightarrow> safe_document uni path"
  by (simp add: documentation_path_def document_name_def literal_path_def safe_document_def Let_def
      map_butlast [symmetric] split: if_splits)

lemma expected_modes_ordinary:
  "expected_modes status = Some (before, after) \<Longrightarrow> ordinary_mode before \<and> ordinary_mode after"
  by (auto simp: expected_modes_def ordinary_mode_def split: if_splits)

lemma classify_record_None:
  "classify_record uni header raw_path explicit required = Inr None \<Longrightarrow> harmless uni required (header, raw_path)"
  by (auto simp: classify_record_def harmless_def startswith_char bind_r_Inr_iff
      dest!: expected_modes_ordinary documentation_path_safe split: list.splits if_splits)

lemma classify_record_runs:
  "classify_record uni header raw_path explicit required = Inr (Some d) \<Longrightarrow> sd_run d"
  by (auto simp: classify_record_def decision_def bind_r_Inr_iff split: list.splits if_splits)

lemma classify_records_skip:
  "classify_records uni recs explicit required = Inr d \<Longrightarrow> \<not> sd_run d
     \<Longrightarrow> \<forall>rec\<in>set (record_pairs recs). harmless uni required rec"
proof (induction uni recs explicit required rule: classify_records.induct)
  case (1 uni header raw_path rest explicit required)
  from "1.prems" obtain r where r: "classify_record uni header raw_path explicit required = Inr r"
    by (auto simp: bind_r_Inr_iff)
  show ?case
  proof (cases r)
    case None
    with 1 r show ?thesis by (simp add: classify_record_None)
  next
    case (Some d')
    with 1 r show ?thesis using classify_record_runs by fastforce
  qed
qed auto

lemma classify_diff_skip:
  "classify_diff uni raw explicit required = Inr d \<Longrightarrow> \<not> sd_run d
     \<Longrightarrow> raw \<noteq> [] \<and> last raw = 0 \<and> even (length (split_on 0 (butlast raw)))
         \<and> (\<forall>rec\<in>set (record_pairs (split_on 0 (butlast raw))). harmless uni required rec)"
  using classify_records_skip [of uni "split_on 0 (butlast raw)" explicit required d]
  by (auto simp: classify_diff_def decision_def Let_def split: if_splits)

definition skip_evidence ::
  "(nat \<Rightarrow> pystr) \<Rightarrow> git_env \<Rightarrow> string \<Rightarrow> json \<Rightarrow> pystr list \<Rightarrow> bool" where
  "skip_evidence uni repo event_name event required \<longleftrightarrow>
     (\<exists>base head separator shallow t1 t2 raw.
        event_revisions event_name event = Inr (base, head, separator)
        \<and> git repo ''shallow'' [] = Inr shallow \<and> bstrip shallow = lit ''false''
        \<and> git repo ''commit-type'' base = Inr t1 \<and> bstrip t1 = lit ''commit''
        \<and> git repo ''commit-type'' head = Inr t2 \<and> bstrip t2 = lit ''commit''
        \<and> git repo ''diff'' (base @ separator @ head) = Inr raw
        \<and> raw \<noteq> [] \<and> last raw = 0 \<and> even (length (split_on 0 (butlast raw)))
        \<and> (\<forall>rec\<in>set (record_pairs (split_on 0 (butlast raw))). harmless uni required rec))"

lemma classify_git_skip:
  assumes "event_revisions event_name event = Inr (base, head, separator)"
    and "classify_git uni repo base head separator explicit required = Inr d" and "\<not> sd_run d"
  shows "skip_evidence uni repo event_name event required"
  using assms unfolding classify_git_def skip_evidence_def
  by (auto simp: bind_r_Inr_iff decision_def dest!: classify_diff_skip split: if_splits)

text \<open>
  C37: The pipeline is skipped only on evidence: the event names two full revisions, the clone is not
  shallow, both objects are commits, git printed a non-empty, complete list of records, and every record
  is an ordinary file, a Markdown or reStructuredText document that no policy entry requires, outside
  every hidden or protected directory, whatever paths the policy lists as documentation.
\<close>

theorem pipeline_skipped_only_on_evidence:
  assumes "classify uni repo event_name event (JList documentation_paths) (JList required_paths) force = Inr d"
    and "\<not> sd_run d"
  shows "\<not> force \<and> skip_evidence uni repo event_name event (map jstr_val required_paths)"
  using assms unfolding classify_def
  by (auto simp: decision_def split: if_splits sum.splits intro: classify_git_skip)

text \<open>A push of one documentation change in a complete clone.\<close>

definition sample_revision :: pystr where
  "sample_revision = replicate 40 97"

definition sample_header :: bytes where
  "sample_header = lit '':100644'' @ 32 # lit ''100644'' @ 32 # sample_revision @ 32 # sample_revision @ 32 # lit ''M''"

definition sample_diff :: bytes where
  "sample_diff = sample_header @ 0 # lit ''docs/guide.md'' @ [0]"

definition sample_repo :: git_env where
  "sample_repo = \<lparr>ge_directory = Inr True,
     ge_run = (\<lambda>args.
       if args ! 1 = lit ''rev-parse'' then Inr (lit ''false'' @ [10])
       else if args ! 1 = lit ''cat-file'' then Inr (lit ''commit'' @ [10])
       else Inr sample_diff)\<rparr>"

definition sample_event :: json where
  "sample_event = JObj [(lit ''before'', JStr sample_revision), (lit ''after'', JStr sample_revision)]"

lemma sample_shallow: "git sample_repo ''shallow'' [] = Inr (lit ''false'' @ [10])"
  by (simp add: git_def sample_repo_def git_arguments_def)

lemma sample_REVISION: "REVISION sample_revision"
  by (simp add: REVISION_def sample_revision_def is_hex_lower_def list_all_iff)

lemma sample_commit: "git sample_repo ''commit-type'' sample_revision = Inr (lit ''commit'' @ [10])"
  by (simp add: git_def sample_repo_def git_arguments_def sample_REVISION)

lemma sample_revisions: "event_revisions ''push'' sample_event = Inr (sample_revision, sample_revision, lit ''..'')"
  by (simp add: event_revisions_def sample_event_def py_getitem_def full_revision_def sample_REVISION)
    (simp add: sample_revision_def)

lemma sample_range: "commit_range (sample_revision @ lit ''..'' @ sample_revision)"
  using sample_REVISION by (simp add: commit_range_def sample_revision_def lit_def)

lemma sample_git_diff: "git sample_repo ''diff'' (sample_revision @ lit ''..'' @ sample_revision) = Inr sample_diff"
  using sample_range by (simp add: git_def sample_repo_def git_arguments_def)

lemma bsplit_word: "w \<noteq> [] \<Longrightarrow> list_all (\<lambda>x. \<not> bspace x) w \<Longrightarrow> bsplit (w @ 32 # s) = w # bsplit s"
  by (cases w) (auto simp: list_all_iff bspace_def takeWhile_append dropWhile_append)

lemma bsplit_last: "w \<noteq> [] \<Longrightarrow> list_all (\<lambda>x. \<not> bspace x) w \<Longrightarrow> bsplit w = [w]"
  by (cases w) (auto simp: list_all_iff takeWhile_eq_all_conv [THEN iffD2] dropWhile_eq_Nil_conv [THEN iffD2])

lemma sample_revision_word: "sample_revision \<noteq> [] \<and> list_all (\<lambda>x. \<not> bspace x) sample_revision"
  by (simp add: sample_revision_def list_all_iff bspace_def)

lemma sample_fields:
  "bsplit sample_header = [lit '':100644'', lit ''100644'', sample_revision, sample_revision, lit ''M'']"
proof -
  have w: "list_all (\<lambda>x. \<not> bspace x) (lit '':100644'')" "list_all (\<lambda>x. \<not> bspace x) (lit ''100644'')"
    "list_all (\<lambda>x. \<not> bspace x) (lit ''M'')"
    by (simp_all add: lit_def bspace_def)
  show ?thesis
    unfolding sample_header_def using w sample_revision_word
    by (simp add: bsplit_word bsplit_last)
qed

lemma sample_header_no_nul: "0 \<notin> set sample_header"
  by (simp add: sample_header_def sample_revision_def lit_def)

lemma sample_records: "split_on 0 (butlast sample_diff) = [sample_header, lit ''docs/guide.md'']"
  using sample_header_no_nul
  by (simp add: sample_diff_def butlast_append split_on_append split_on_word)
    (simp add: lit_def)

lemma sample_document: "documentation_path uni (lit ''docs/guide.md'') []"
  by (simp add: documentation_path_def document_name_def literal_path_def path_str_def path_parts_def
      suffix_of_def name_dot_def py_lower_def startswith_def lit_def PROTECTED_PARTS_def)

lemma sample_path_decodes: "utf8_decode (lit ''docs/guide.md'') = Inr (lit ''docs/guide.md'')"
  by (rule utf8_decode_encode) (simp add: lit_def utf8_cp_def)

lemma sample_classified:
  "classify uni sample_repo ''push'' sample_event (JList []) (JList []) False = Inr (decision False ''documentation-only'')"
proof -
  have rec: "classify_record uni sample_header (lit ''docs/guide.md'') [] [] = Inr None"
    using sample_REVISION
    by (simp add: classify_record_def sample_fields sample_path_decodes sample_document ascii_decode_def
        startswith_def expected_modes_def)
      (simp add: sample_revision_def lit_def list_all_iff)
  have "length sample_diff \<le> MAX_DIFF_BYTES"
    by (simp add: sample_diff_def sample_header_def sample_revision_def lit_def MAX_DIFF_BYTES_def)
  then have "classify_diff uni sample_diff [] [] = Inr (decision False ''documentation-only'')"
    using rec by (simp add: classify_diff_def sample_records) (simp add: sample_diff_def)
  then have "classify_git uni sample_repo sample_revision sample_revision (lit ''..'') [] []
      = Inr (decision False ''documentation-only'')"
    by (simp add: classify_git_def sample_shallow sample_commit sample_git_diff)
      (simp add: bstrip_def lit_def bspace_def)
  then show ?thesis
    by (simp add: classify_def paths_arg_def sample_revisions)
qed

theorem pipeline_skipped_only_on_evidence_witness:
  "skip_evidence (\<lambda>_. []) sample_repo ''push'' sample_event []"
  using pipeline_skipped_only_on_evidence [OF sample_classified [of "\<lambda>_. []"]]
  by (simp add: decision_def)

section \<open>The classifier always answers\<close>

lemma py_getitem_error: "py_getitem v k = Inl e \<Longrightarrow> revision_error e"
  by (auto simp: py_getitem_def split: json.splits option.splits)

lemma event_revisions_error: "event_revisions event_name event = Inl e \<Longrightarrow> revision_error e"
  by (cases event)
    (auto simp: event_revisions_def bind_r_Inl_iff py_getitem_error split: if_splits)

lemma git_arguments_error: "git_arguments operation revision = Inl e \<Longrightarrow> git_error e"
  by (auto simp: git_arguments_def split: if_splits)

lemma utf8_decode_error: "utf8_decode b = Inl e \<Longrightarrow> git_error e"
  by (induction b rule: utf8_decode.induct) (auto simp: bind_r_Inl_iff split: option.splits)

lemma classify_record_error: "classify_record uni header raw_path explicit required = Inl e \<Longrightarrow> git_error e"
  by (auto simp: classify_record_def ascii_decode_def bind_r_Inl_iff utf8_decode_error split: list.splits if_splits)

lemma classify_records_error: "classify_records uni recs explicit required = Inl e \<Longrightarrow> git_error e"
  by (induction uni recs explicit required rule: classify_records.induct)
    (auto simp: bind_r_Inl_iff classify_record_error split: option.splits)

lemma classify_diff_error: "classify_diff uni raw explicit required = Inl e \<Longrightarrow> git_error e"
  by (auto simp: classify_diff_def Let_def classify_records_error split: if_splits)

text \<open>What \<open>subprocess.run(check=True)\<close> and resolving a path may raise.\<close>

definition git_conforms :: "git_env \<Rightarrow> bool" where
  "git_conforms repo \<longleftrightarrow>
     (\<forall>e. ge_directory repo = Inl e \<longrightarrow> git_error e) \<and> (\<forall>args e. ge_run repo args = Inl e \<longrightarrow> git_error e)"

lemma git_raises: "git_conforms repo \<Longrightarrow> git repo operation revision = Inl e \<Longrightarrow> git_error e"
  by (auto simp: git_def git_conforms_def bind_r_Inl_iff guard_r_Inl_iff git_arguments_error)

lemma classify_git_error:
  "git_conforms repo \<Longrightarrow> classify_git uni repo base head separator explicit required = Inl e \<Longrightarrow> git_error e"
  by (auto simp: classify_git_def bind_r_Inl_iff git_raises classify_diff_error split: if_splits)

definition answers :: "scope_decision result \<Rightarrow> bool" where
  "answers r \<longleftrightarrow> (\<exists>d. r = Inr d \<and> (sd_run d \<or> sd_reason d = ''documentation-only''))"

lemma answers_decision: "answers (Inr (decision run reason)) \<longleftrightarrow> run \<or> reason = ''documentation-only''"
  by (auto simp: answers_def decision_def)

lemma classify_records_answers:
  "classify_records uni recs explicit required = Inr d \<Longrightarrow> answers (Inr d)"
  by (induction uni recs explicit required rule: classify_records.induct)
    (auto simp: answers_def bind_r_Inr_iff decision_def dest: classify_record_runs split: option.splits)

lemma classify_diff_answers: "classify_diff uni raw explicit required = Inr d \<Longrightarrow> answers (Inr d)"
  by (auto simp: classify_diff_def Let_def answers_decision classify_records_answers split: if_splits)

lemma classify_git_answers:
  "classify_git uni repo base head separator explicit required = Inr d \<Longrightarrow> answers (Inr d)"
  by (auto simp: classify_git_def bind_r_Inr_iff answers_decision classify_diff_answers split: if_splits)



end
