(* ===== verification/Regex.thy ===== *)
theory Regex
  imports Prelude
begin

text \<open>
  The regular expressions of Python's \<open>re\<close> module as the release scripts use them: \<open>fullmatch\<close> and
  \<open>search\<close> decided by derivatives, with the language an expression denotes and the proof that the
  decision is exact. A character class is a list of inclusive ranges, possibly negated.
\<close>

section \<open>Expressions\<close>

datatype rexp =
    RNone
  | REmpty
  | RClass bool "(nat \<times> nat) list"
  | RAlt rexp rexp
  | RSeq rexp rexp
  | RStar rexp

definition in_class :: "bool \<Rightarrow> (nat \<times> nat) list \<Rightarrow> nat \<Rightarrow> bool" where
  "in_class positive rs c \<longleftrightarrow> (list_ex (\<lambda>r. fst r \<le> c \<and> c \<le> snd r) rs) = positive"

fun denotes :: "rexp \<Rightarrow> pystr \<Rightarrow> bool" where
  "denotes RNone s = False"
| "denotes REmpty s = (s = [])"
| "denotes (RClass b rs) s = (\<exists>c. s = [c] \<and> in_class b rs c)"
| "denotes (RAlt p q) s = (denotes p s \<or> denotes q s)"
| "denotes (RSeq p q) s = (\<exists>u v. s = u @ v \<and> denotes p u \<and> denotes q v)"
| "denotes (RStar p) s = (\<exists>us. s = concat us \<and> (\<forall>u\<in>set us. denotes p u))"

section \<open>Derivatives\<close>

fun accepts_empty :: "rexp \<Rightarrow> bool" where
  "accepts_empty RNone = False"
| "accepts_empty REmpty = True"
| "accepts_empty (RClass b rs) = False"
| "accepts_empty (RAlt p q) = (accepts_empty p \<or> accepts_empty q)"
| "accepts_empty (RSeq p q) = (accepts_empty p \<and> accepts_empty q)"
| "accepts_empty (RStar p) = True"

text \<open>Alternatives and sequences that drop what cannot match.\<close>

fun mk_alt :: "rexp \<Rightarrow> rexp \<Rightarrow> rexp" where
  "mk_alt RNone q = q"
| "mk_alt p RNone = p"
| "mk_alt p q = (if p = q then p else RAlt p q)"

fun mk_seq :: "rexp \<Rightarrow> rexp \<Rightarrow> rexp" where
  "mk_seq RNone q = RNone"
| "mk_seq REmpty q = q"
| "mk_seq p q = RSeq p q"

fun after_char :: "nat \<Rightarrow> rexp \<Rightarrow> rexp" where
  "after_char c RNone = RNone"
| "after_char c REmpty = RNone"
| "after_char c (RClass b rs) = (if in_class b rs c then REmpty else RNone)"
| "after_char c (RAlt p q) = mk_alt (after_char c p) (after_char c q)"
| "after_char c (RSeq p q) =
     (if accepts_empty p then mk_alt (mk_seq (after_char c p) q) (after_char c q)
      else mk_seq (after_char c p) q)"
| "after_char c (RStar p) = mk_seq (after_char c p) (RStar p)"

fun fullmatch :: "rexp \<Rightarrow> pystr \<Rightarrow> bool" where
  "fullmatch r [] = accepts_empty r"
| "fullmatch r (c # s) = fullmatch (after_char c r) s"

section \<open>The decision is exact\<close>

lemma mk_alt_denotes [simp]: "denotes (mk_alt p q) s \<longleftrightarrow> denotes p s \<or> denotes q s"
  by (induction p q rule: mk_alt.induct) auto

lemma mk_seq_denotes [simp]: "denotes (mk_seq p q) s \<longleftrightarrow> denotes (RSeq p q) s"
  by (induction p q rule: mk_seq.induct) auto

lemma accepts_empty_denotes: "accepts_empty r \<longleftrightarrow> denotes r []"
proof (induction r)
  case (RStar r)
  have "\<exists>us. [] = concat us \<and> (\<forall>u\<in>set us. denotes r u)" by (rule exI [of _ "[]"]) simp
  then show ?case by simp
qed auto

lemma star_nonempty:
  "c # s = concat us \<Longrightarrow> \<forall>u\<in>set us. P u \<Longrightarrow>
     \<exists>u vs. s = u @ concat vs \<and> P (c # u) \<and> (\<forall>v\<in>set vs. P v)"
proof (induction us)
  case (Cons u us)
  show ?case
  proof (cases u)
    case Nil
    with Cons show ?thesis by simp
  next
    case (Cons d u')
    with Cons.prems show ?thesis by (intro exI [of _ u'] exI [of _ us]) auto
  qed
qed simp

lemma after_char_star:
  assumes "\<And>s. denotes p' s \<longleftrightarrow> denotes p (c # s)"
  shows "denotes (RSeq p' (RStar p)) s \<longleftrightarrow> denotes (RStar p) (c # s)"
proof
  assume "denotes (RSeq p' (RStar p)) s"
  then obtain u us where "s = u @ concat us" "denotes p (c # u)" "\<forall>v\<in>set us. denotes p v"
    using assms by auto
  then show "denotes (RStar p) (c # s)"
    by (auto intro!: exI [of _ "(c # u) # us"])
next
  assume "denotes (RStar p) (c # s)"
  then obtain us where "c # s = concat us" "\<forall>u\<in>set us. denotes p u" by auto
  from star_nonempty [OF this] show "denotes (RSeq p' (RStar p)) s"
    using assms by auto
qed

lemma after_char_denotes: "denotes (after_char c r) s \<longleftrightarrow> denotes r (c # s)"
proof (induction r arbitrary: s)
  case (RSeq p q)
  have "denotes (RSeq p q) (c # s) \<longleftrightarrow>
      (denotes p [] \<and> denotes q (c # s)) \<or> (\<exists>u v. s = u @ v \<and> denotes p (c # u) \<and> denotes q v)"
    by (auto simp: Cons_eq_append_conv)
  with RSeq show ?case by (auto simp: accepts_empty_denotes)
next
  case (RStar r)
  then show ?case using after_char_star [of "after_char c r" r c s] by simp
qed auto

lemma fullmatch_denotes: "fullmatch r s \<longleftrightarrow> denotes r s"
  by (induction s arbitrary: r) (simp_all add: accepts_empty_denotes after_char_denotes)

section \<open>Patterns\<close>

definition r_any :: rexp where
  "r_any = RClass False []"

definition r_digit :: rexp where
  "r_digit = RClass True [(48, 57)]"

definition r_char :: "nat \<Rightarrow> rexp" where
  "r_char c = RClass True [(c, c)]"

fun r_seq :: "rexp list \<Rightarrow> rexp" where
  "r_seq [] = REmpty"
| "r_seq [r] = r"
| "r_seq (r # rs) = RSeq r (r_seq rs)"

fun r_alt :: "rexp list \<Rightarrow> rexp" where
  "r_alt [] = RNone"
| "r_alt [r] = r"
| "r_alt (r # rs) = RAlt r (r_alt rs)"

definition r_lit :: "string \<Rightarrow> rexp" where
  "r_lit s = r_seq (map r_char (lit s))"

definition r_opt :: "rexp \<Rightarrow> rexp" where
  "r_opt r = RAlt r REmpty"

definition r_plus :: "rexp \<Rightarrow> rexp" where
  "r_plus r = RSeq r (RStar r)"

definition r_rep :: "nat \<Rightarrow> rexp \<Rightarrow> rexp" where
  "r_rep n r = r_seq (replicate n r)"

definition r_upto :: "nat \<Rightarrow> rexp \<Rightarrow> rexp" where
  "r_upto n r = r_seq (replicate n (r_opt r))"

text \<open>\<open>re.search\<close>: the expression matches somewhere.\<close>

definition re_search :: "rexp \<Rightarrow> pystr \<Rightarrow> bool" where
  "re_search r s = fullmatch (r_seq [RStar r_any, r, RStar r_any]) s"

lemma denotes_char [simp]: "denotes (r_char c) s \<longleftrightarrow> s = [c]"
  by (auto simp: r_char_def in_class_def)

lemma denotes_digit [simp]: "denotes r_digit s \<longleftrightarrow> (\<exists>c. s = [c] \<and> is_digit c)"
  by (auto simp: r_digit_def in_class_def is_digit_def)

lemma denotes_any [simp]: "denotes r_any s \<longleftrightarrow> length s = 1"
  by (auto simp: r_any_def in_class_def length_Suc_conv)

lemma denotes_seq_Cons: "denotes (r_seq (r # rs)) s \<longleftrightarrow> (\<exists>u v. s = u @ v \<and> denotes r u \<and> denotes (r_seq rs) v)"
  by (cases rs) auto

lemma denotes_alt: "denotes (r_alt rs) s \<longleftrightarrow> (\<exists>r\<in>set rs. denotes r s)"
  by (induction rs rule: r_alt.induct) auto

lemma denotes_lit_chars: "denotes (r_seq (map r_char cs)) s \<longleftrightarrow> s = cs"
  by (induction cs arbitrary: s) (auto simp: denotes_seq_Cons simp del: r_seq.simps(3))

lemma denotes_lit [simp]: "denotes (r_lit t) s \<longleftrightarrow> s = lit t"
  by (simp add: r_lit_def denotes_lit_chars)

lemma denotes_opt [simp]: "denotes (r_opt r) s \<longleftrightarrow> s = [] \<or> denotes r s"
  by (auto simp: r_opt_def)

lemma denotes_star_any [simp]: "denotes (RStar r_any) s"
  by (simp, rule exI [of _ "map (\<lambda>c. [c]) s"]) (induction s; simp)

lemma denotes_star_class: "denotes (RStar (RClass b rs)) s \<longleftrightarrow> list_all (in_class b rs) s"
proof
  assume "denotes (RStar (RClass b rs)) s"
  then show "list_all (in_class b rs) s" by (fastforce simp: list_all_iff)
next
  assume "list_all (in_class b rs) s"
  then show "denotes (RStar (RClass b rs)) s"
    by (simp, intro exI [of _ "map (\<lambda>c. [c]) s"]) (induction s; simp)
qed

lemma denotes_rep_class:
  "denotes (r_rep n (RClass b rs)) s \<longleftrightarrow> length s = n \<and> list_all (in_class b rs) s"
  unfolding r_rep_def
proof (induction n arbitrary: s)
  case (Suc n)
  have "denotes (r_seq (replicate (Suc n) (RClass b rs))) s \<longleftrightarrow>
      (\<exists>c v. s = c # v \<and> in_class b rs c \<and> denotes (r_seq (replicate n (RClass b rs))) v)"
    by (simp only: replicate_Suc denotes_seq_Cons denotes.simps) (metis append_Cons append_Nil)
  with Suc show ?case by (cases s) auto
qed auto

lemma re_search_iff: "re_search r s \<longleftrightarrow> (\<exists>u t v. s = u @ t @ v \<and> denotes r t)"
  by (simp add: re_search_def fullmatch_denotes del: denotes.simps(6)) blast

end
