(* ===== verification/Github_Api.thy ===== *)
theory Github_Api
  imports Py_Json Utf8 Regex
begin

text \<open>
  The \<open>GitHub\<close> class of \<open>scripts/release_control.py\<close>: one repository reached through \<open>gh api\<close>. Only
  allowed routes are called; a read is tried again at most twice and only after a transport failure that
  is no denial; a write runs once. The world is the argument \<open>env\<close>: what the next command prints, given
  every command run so far, so that nothing is assumed about the service. Parsing JSON is the arguments
  \<open>loads\<close> (a whole document, with repeated keys kept) and \<open>raw_decode\<close> (the length of the value at the
  head of a text).
\<close>

section \<open>Patterns\<close>

definition r_posint :: rexp where
  "r_posint = RSeq (RClass True [(49, 57)]) (RStar r_digit)"

definition r_number :: rexp where
  "r_number = RAlt (r_char 48) r_posint"

definition VERSION_PATTERN :: rexp where
  "VERSION_PATTERN = r_seq [r_number, r_char 46, r_number, r_char 46, r_number]"

definition TAG_RE :: rexp where
  "TAG_RE = r_seq [r_char 118, VERSION_PATTERN,
     r_opt (RAlt (r_seq [r_char 45, RAlt (r_lit ''beta'') (r_lit ''rc''), r_char 46, r_posint])
                 (r_seq [r_lit ''-nightly.'', r_rep 14 r_digit, r_char 46, r_posint, r_char 46, r_posint]))]"

definition r_hex :: rexp where
  "r_hex = RClass True [(48, 57), (97, 102)]"

definition SHA_RE :: rexp where
  "SHA_RE = r_rep 40 r_hex"

definition SHA256_PATTERN :: rexp where
  "SHA256_PATTERN = r_rep 64 r_hex"

definition NAME_RE :: rexp where
  "NAME_RE = RSeq (RClass True [(65, 90), (97, 122), (48, 57)])
     (r_upto 199 (RClass True [(65, 90), (97, 122), (48, 57), (46, 46), (95, 95), (43, 43), (45, 45)]))"

definition REPO_RE :: rexp where
  "REPO_RE =
     (let part = RSeq (RClass True [(65, 90), (97, 122), (48, 57)])
                   (RStar (RClass True [(65, 90), (97, 122), (48, 57), (95, 95), (46, 46), (45, 45)]))
      in r_seq [part, r_char 47, part])"

definition r_quoted :: rexp where
  "r_quoted = r_plus (RAlt (RClass True [(65, 90), (97, 122), (48, 57), (95, 95), (46, 46), (126, 126), (45, 45)])
     (r_seq [r_char 37, r_rep 2 (RClass True [(48, 57), (65, 70)])]))"

definition API_GET :: "rexp list" where
  "API_GET =
     [r_alt [REmpty, r_lit ''tags'', r_lit ''releases'', r_lit ''environments/release''],
      RSeq (r_lit ''releases/'')
        (RAlt (RSeq r_posint (r_opt (r_lit ''/assets''))) (RSeq (r_lit ''assets/'') r_posint)),
      RSeq (r_lit ''releases/tags/'') TAG_RE,
      RSeq (r_lit ''git/ref/tags/'') TAG_RE,
      r_seq [r_lit ''actions/runs/'', r_posint,
        r_opt (RAlt (r_lit ''/artifacts'') (r_seq [r_lit ''/attempts/'', r_posint, r_lit ''/jobs'']))],
      r_seq [r_lit ''actions/runs/'', r_posint, r_lit ''/attempts/'', r_posint],
      r_seq [r_lit ''actions/artifacts/'', r_posint, r_lit ''/zip''],
      RSeq (r_lit ''contents/.release-policy.json?ref='') SHA_RE,
      RSeq (r_lit ''contents/CHANGELOG.md?ref='') SHA_RE,
      RSeq (r_lit ''contents/.github?ref='') SHA_RE,
      r_lit ''contents/release-version-state.json?ref=release-version-state'',
      r_lit ''git/ref/heads/release-version-state'',
      RSeq (r_lit ''git/ref/heads/'') r_quoted,
      r_seq [r_lit ''actions/workflows/release-pipeline.yml/runs?branch='', r_quoted,
        r_lit ''&event=push&head_sha='', SHA_RE, r_lit ''&per_page=100''],
      r_seq [r_lit ''compare/'', SHA_RE, r_lit ''...'', r_quoted]]"

definition API_PATHS :: "string \<Rightarrow> rexp list option" where
  "API_PATHS http_method =
     (if http_method = ''GET'' then Some API_GET
      else if http_method = ''POST'' then Some [RAlt (r_lit ''git/refs'') (r_lit ''releases'')]
      else if http_method = ''PATCH'' then Some [RSeq (r_lit ''releases/'') r_posint]
      else if http_method = ''PUT'' then Some [r_lit ''contents/release-version-state.json'']
      else None)"

section \<open>Commands and their outcomes\<close>

record proc =
  returncode :: int
  stdout :: bytes
  stderr :: bytes

datatype outcome =
    Completed proc
  | TimeoutExpired bytes bytes

type_synonym command = "pystr list \<times> json option"
type_synonym env = "command list \<Rightarrow> command \<Rightarrow> outcome"
type_synonym 'a gh = "command list \<Rightarrow> 'a result \<times> command list"

definition gh_lift :: "'a result \<Rightarrow> 'a gh" where
  "gh_lift r h = (r, h)"

definition gh_bind :: "'a gh \<Rightarrow> ('a \<Rightarrow> 'b gh) \<Rightarrow> 'b gh" where
  "gh_bind m f h = (case m h of (Inl e, h') \<Rightarrow> (Inl e, h') | (Inr x, h') \<Rightarrow> f x h')"

definition gh_require :: "bool \<Rightarrow> string \<Rightarrow> 'a gh \<Rightarrow> 'a gh" where
  "gh_require c msg m h = (if c then m h else (Inl (ReleaseError msg), h))"

definition run_command :: "env \<Rightarrow> command \<Rightarrow> outcome gh" where
  "run_command env c h = (Inr (env h c), h @ [c])"

abbreviation rreq :: "bool \<Rightarrow> string \<Rightarrow> 'a result \<Rightarrow> 'a result" where
  "rreq c msg r \<equiv> guard_r c (ReleaseError msg) r"

section \<open>Values\<close>

definition version :: "pystr \<Rightarrow> pystr result" where
  "version v = rreq (fullmatch VERSION_PATTERN v) ''Version must be strict X.Y.Z without leading zeros'' (Inr v)"

definition positive :: "json \<Rightarrow> int result" where
  "positive v =
     (case v of
        JStr s \<Rightarrow> rreq (fullmatch r_posint s) ''Invalid identifier'' (Inr (int (digits_val s)))
      | JInt i \<Rightarrow> rreq (fullmatch r_posint (int_str i)) ''Invalid identifier'' (Inr i)
      | _ \<Rightarrow> Inl (ReleaseError ''Invalid identifier''))"

text \<open>\<open>except ValueError\<close>: a decoding error is one.\<close>

fun is_value_error :: "exn \<Rightarrow> bool" where
  "is_value_error (ValueError _) = True"
| "is_value_error UnicodeError = True"
| "is_value_error _ = False"

definition parse_json :: "(bytes \<Rightarrow> json result) \<Rightarrow> bytes \<Rightarrow> json result" where
  "parse_json loads raw =
     (case loads raw of
        Inr v \<Rightarrow> rreq (json_wf v) ''Duplicate JSON field'' (Inr v)
      | Inl e \<Rightarrow> Inl (if is_value_error e then ReleaseError ''Invalid JSON'' else e))"

section \<open>HTTP responses printed by the command\<close>

text \<open>The first blank line (\<open>\r?\n\r?\n\<close>): what stands before and after it.\<close>

fun newline :: "bytes \<Rightarrow> bytes option" where
  "newline [] = None"
| "newline (c # r) =
     (if c = 10 then Some r
      else if c = 13 \<and> r \<noteq> [] \<and> hd r = 10 then Some (tl r)
      else None)"

definition blank :: "bytes \<Rightarrow> bytes option" where
  "blank s = (case newline s of Some r \<Rightarrow> newline r | None \<Rightarrow> None)"

fun split_blank :: "bytes \<Rightarrow> (bytes \<times> bytes) option" where
  "split_blank [] = None"
| "split_blank (c # s) =
     (case blank (c # s) of
        Some r \<Rightarrow> Some ([], r)
      | None \<Rightarrow> map_option (\<lambda>(b, a). (c # b, a)) (split_blank s))"

text \<open>\<open>bytes.splitlines()\<close>: lines end at \<open>\n\<close>, \<open>\r\<close> or \<open>\r\n\<close>.\<close>

fun cons_line :: "nat \<Rightarrow> bytes list \<Rightarrow> bytes list" where
  "cons_line c [] = [[c]]"
| "cons_line c (l # ls) = (c # l) # ls"

fun bsplitlines :: "bytes \<Rightarrow> bytes list" where
  "bsplitlines [] = []"
| "bsplitlines (c # s) =
     (if c = 13 \<and> s \<noteq> [] \<and> hd s = 10 then [] # bsplitlines (tl s)
      else if c = 10 \<or> c = 13 then [] # bsplitlines s
      else cons_line c (bsplitlines s))"

definition r_http :: rexp where
  "r_http = r_seq [r_lit ''HTTP/'', RAlt (RSeq (r_lit ''1.'') (RClass True [(48, 49)])) (RSeq (r_char 50) (r_opt (r_lit ''.0''))), r_char 32]"

definition STATUS_LINE :: rexp where
  "STATUS_LINE = r_seq [r_http, RClass True [(49, 53)], r_rep 2 r_digit,
     r_opt (RSeq (r_char 32) (RStar (RClass False [(13, 13), (10, 10)])))]"

definition HEADER_LINE :: rexp where
  "HEADER_LINE = r_seq
     [r_plus (RClass True [(33, 33), (35, 39), (42, 43), (45, 46), (94, 96), (124, 124), (126, 126), (48, 57), (65, 90), (97, 122)]),
      r_char 58, RStar (RClass False [(13, 13), (10, 10)])]"

text \<open>The digits captured by the status line, the only ones between its first space and the next.\<close>

definition status_code :: "bytes \<Rightarrow> nat" where
  "status_code line = digits_val (take 3 (drop 1 (dropWhile (\<lambda>c. c \<noteq> 32) line)))"

definition github_http_head :: "bytes \<Rightarrow> (nat \<times> bytes) result" where
  "github_http_head data =
     (case split_blank data of
        None \<Rightarrow> Inl (GitHubError False)
      | Some (before, body) \<Rightarrow>
          (case bsplitlines before of
             [] \<Rightarrow> Inl (GitHubError False)
           | status # headers \<Rightarrow>
               if fullmatch STATUS_LINE status \<and> list_all (fullmatch HEADER_LINE) headers
               then Inr (status_code status, body) else Inl (GitHubError False)))"

definition blanks :: "bytes \<Rightarrow> bytes" where
  "blanks s = dropWhile (\<lambda>c. c = 32 \<or> c = 9 \<or> c = 13 \<or> c = 10) s"

lemma newline_shorter: "newline s = Some r \<Longrightarrow> length r < length s"
  by (cases s) (auto split: if_splits)

lemma blank_shorter: "blank s = Some r \<Longrightarrow> length r < length s"
  by (auto simp: blank_def split: option.splits dest!: newline_shorter)

lemma split_blank_shorter: "split_blank s = Some (b, a) \<Longrightarrow> length a < length s"
proof (induction s arbitrary: b)
  case (Cons c s)
  show ?case
  proof (cases "blank (c # s)")
    case None
    with Cons show ?thesis by (auto simp: less_Suc_eq)
  next
    case (Some r)
    with Cons.prems blank_shorter [OF Some] show ?thesis by simp
  qed
qed simp

text \<open>
  Pages printed one after the other, each JSON value followed by the head of the next response. The
  text is kept as bytes: the escapes of the source make decoding and encoding inverse.
\<close>

function http_pages ::
  "(bytes \<Rightarrow> json result) \<Rightarrow> (bytes \<Rightarrow> nat option) \<Rightarrow> nat \<Rightarrow> bytes \<Rightarrow> json list \<Rightarrow> (nat \<times> json list option) result" where
  "http_pages loads raw_decode status text pages =
     (if \<not> (200 \<le> status \<and> status < 300) then Inr (status, None)
      else
        (let s = blanks text
         in (case raw_decode s of
               None \<Rightarrow> Inl (GitHubError False)
             | Some n \<Rightarrow>
                 (case parse_json loads (take n s) of
                    Inl e \<Rightarrow> Inl (GitHubError False)
                  | Inr page \<Rightarrow>
                      (let rest = blanks (drop n s)
                       in if rest = [] then Inr (status, Some (pages @ [page]))
                          else
                            (case split_blank rest of
                               None \<Rightarrow> Inl (GitHubError False)
                             | Some (_, body) \<Rightarrow>
                                 bind_r (github_http_head (take (length rest - length body) rest)) (\<lambda>(next_status, _).
                                   http_pages loads raw_decode next_status body (pages @ [page]))))))))"
  by pat_completeness auto

lemma blanks_shorter: "length (blanks s) \<le> length s"
  by (simp add: blanks_def length_dropWhile_le)

lemma page_shorter: "split_blank (blanks (drop n (blanks text))) = Some (b, body) \<Longrightarrow> length body < length text"
  using split_blank_shorter [of "blanks (drop n (blanks text))" b body]
    blanks_shorter [of "drop n (blanks text)"] blanks_shorter [of "text"] by simp

termination http_pages
  by (relation "measure (\<lambda>(_, _, _, text, _). length text)") (auto dest: page_shorter)

declare http_pages.simps [simp del]

definition json_lines :: "(json \<Rightarrow> bytes) \<Rightarrow> json \<Rightarrow> bytes" where
  "json_lines dumps v = dumps v @ [10]"

definition github_http_response ::
  "(bytes \<Rightarrow> json result) \<Rightarrow> (bytes \<Rightarrow> nat option) \<Rightarrow> (json \<Rightarrow> bytes) \<Rightarrow> bytes \<Rightarrow> bool \<Rightarrow> (nat \<times> bytes) result" where
  "github_http_response loads raw_decode dumps out paginated =
     bind_r (github_http_head out) (\<lambda>(status, body).
       if \<not> paginated then Inr (status, body)
       else bind_r (http_pages loads raw_decode status body []) (\<lambda>(final_status, pages).
              Inr (final_status, case pages of Some ps \<Rightarrow> json_lines dumps (JList ps) | None \<Rightarrow> [])))"

definition response :: "proc \<Rightarrow> (nat \<times> bytes) option \<Rightarrow> bytes result" where
  "response result http =
     (if (case http of
            Some (status, _) \<Rightarrow> (returncode result = 0) \<noteq> (200 \<le> status \<and> status < 300)
          | None \<Rightarrow> False)
      then Inl (GitHubError False)
      else if returncode result \<noteq> 0 then Inl (GitHubError (map_option fst http = Some 404))
      else Inr (case http of Some (_, body) \<Rightarrow> body | None \<Rightarrow> stdout result))"

section \<open>Failed reads\<close>

definition alower :: "bytes \<Rightarrow> bytes" where
  "alower s = map (\<lambda>c. if 65 \<le> c \<and> c \<le> 90 then c + 32 else c) s"

definition r_space :: rexp where
  "r_space = RClass True [(32, 32), (9, 13)]"

definition DENIED :: rexp where
  "DENIED = r_alt
     [r_lit ''authentication'', r_lit ''authenticate'', r_lit ''authorization'',
      r_seq [r_lit ''unauthori'', RClass True [(115, 115), (122, 122)], r_lit ''ed''],
      r_lit ''credentials'', r_lit ''forbidden'', r_lit ''permission denied'', r_lit ''access denied'',
      r_lit ''rate limit'', r_lit ''not found'', r_lit ''x509'', r_lit ''certificate'']"

definition DENIED_STATUS :: rexp where
  "DENIED_STATUS = r_alt [r_lit ''401'', r_lit ''403'', r_lit ''404'', r_lit ''429'']"

text \<open>\<open>http[ /:]*(?:401|403|404|429)(?:\D|$)\<close>: the end of the text or a character that is no digit.\<close>

definition denied_status_text :: "bytes \<Rightarrow> bool" where
  "denied_status_text s = fullmatch (r_seq [RStar r_any, r_lit ''http'',
     RStar (RClass True [(32, 32), (47, 47), (58, 58)]), DENIED_STATUS,
     r_opt (RSeq (RClass False [(48, 57)]) (RStar r_any))]) s"

definition denied_read_diagnostic :: "bytes \<Rightarrow> bool \<Rightarrow> bool" where
  "denied_read_diagnostic err include_status \<longleftrightarrow>
     re_search DENIED (alower err) \<or> include_status \<and> denied_status_text (alower err)"

text \<open>\<open>\b(?:unexpected )?eof(?:\s|$)\<close>: at the start or after a character that is no word character.\<close>

definition eof_text :: "bytes \<Rightarrow> bool" where
  "eof_text s = fullmatch (r_seq
     [r_opt (RSeq (RStar r_any) (RClass False [(48, 57), (65, 90), (97, 122), (95, 95)])),
      r_opt (r_lit ''unexpected ''), r_lit ''eof'', r_opt (RSeq r_space (RStar r_any))]) s"

definition TRANSPORT :: rexp where
  "TRANSPORT = r_alt
     [r_lit ''connection reset by peer'', r_lit ''i/o timeout'', r_lit ''tls handshake timeout'',
      r_lit ''context deadline exceeded'', r_lit ''client.timeout exceeded'',
      r_lit ''server closed idle connection'', r_lit ''use of closed network connection'']"

definition transient_read_failure :: "proc \<Rightarrow> bool" where
  "transient_read_failure result \<longleftrightarrow>
     returncode result = 1 \<and> \<not> denied_read_diagnostic (stderr result) True
     \<and> (eof_text (alower (stderr result)) \<or> re_search TRANSPORT (alower (stderr result)))"

definition DENIED_HEAD :: rexp where
  "DENIED_HEAD = RSeq r_http DENIED_STATUS"

text \<open>A status line of a denial, at the start of the text or of a line.\<close>

definition denied_head_text :: "bytes \<Rightarrow> bool" where
  "denied_head_text s = fullmatch (r_seq
     [r_opt (RSeq (RStar r_any) (r_char 10)), DENIED_HEAD, r_opt (RSeq r_space (RStar r_any))]) s"

definition denied_partial_read :: "bytes \<Rightarrow> bytes \<Rightarrow> bool \<Rightarrow> bool" where
  "denied_partial_read out err paginated =
     (let kept =
        (if paginated then out
         else (case split_blank out of
                 None \<Rightarrow> out
               | Some (_, body) \<Rightarrow>
                   (let header = take (length out - length body) out
                    in case github_http_head header of Inl _ \<Rightarrow> out | Inr _ \<Rightarrow> header)))
      in denied_read_diagnostic err True \<or> denied_head_text kept)"

section \<open>Requests\<close>

text \<open>The three library functions a request needs.\<close>

record json_codec =
  jc_loads :: "bytes \<Rightarrow> json result"
  jc_raw_decode :: "bytes \<Rightarrow> nat option"
  jc_dumps :: "json \<Rightarrow> bytes"

definition http_response :: "json_codec \<Rightarrow> bytes \<Rightarrow> bool \<Rightarrow> (nat \<times> bytes) result" where
  "http_response jc = github_http_response (jc_loads jc) (jc_raw_decode jc) (jc_dumps jc)"

definition completed_read :: "json_codec \<Rightarrow> proc \<Rightarrow> bool \<Rightarrow> bool \<Rightarrow> bytes option result" where
  "completed_read jc result paginated final_attempt =
     (let transport = transient_read_failure result
      in case http_response jc (stdout result) paginated of
           Inl e \<Rightarrow>
             if \<not> transport \<or> denied_partial_read (stdout result) (stderr result) paginated \<or> final_attempt
             then Inl e else Inr None
         | Inr (status, body) \<Rightarrow>
             if returncode result = 1
                \<and> ((status \<in> {500, 502, 503, 504} \<and> \<not> denied_read_diagnostic (stderr result) False)
                   \<or> (200 \<le> status \<and> status < 300 \<and> transport))
                \<and> \<not> final_attempt
             then Inr None
             else bind_r (response result (Some (status, body))) (\<lambda>content. Inr (Some content)))"

definition API_READ_ATTEMPTS :: nat where
  "API_READ_ATTEMPTS = 3"

text \<open>The retry loop, with the number of attempts left.\<close>

fun read_attempts :: "env \<Rightarrow> json_codec \<Rightarrow> command \<Rightarrow> bool \<Rightarrow> nat \<Rightarrow> bytes gh" where
  "read_attempts env jc c paginated 0 h = (Inl (RuntimeError ''GET retry loop must return or raise''), h)"
| "read_attempts env jc c paginated (Suc n) h =
     (case env h c of
        TimeoutExpired out err \<Rightarrow>
          if denied_partial_read out err paginated \<or> n = 0 then (Inl (GitHubError False), h @ [c])
          else read_attempts env jc c paginated n (h @ [c])
      | Completed result \<Rightarrow>
          (case completed_read jc result paginated (n = 0) of
             Inl e \<Rightarrow> (Inl e, h @ [c])
           | Inr (Some content) \<Rightarrow> (Inr content, h @ [c])
           | Inr None \<Rightarrow> read_attempts env jc c paginated n (h @ [c])))"

definition read_get :: "env \<Rightarrow> json_codec \<Rightarrow> pystr list \<Rightarrow> bool \<Rightarrow> bytes gh" where
  "read_get env jc args paginated =
     gh_require
       (take 2 args = map lit [''gh'', ''api'']
        \<and> length (filter (\<lambda>a. a = lit ''--method'') args) = 1
        \<and> take 1 (drop 1 (dropWhile (\<lambda>a. a \<noteq> lit ''--method'') args)) = [lit ''GET'']
        \<and> lit ''--input'' \<notin> set args)
       ''Retries require a read-only GET''
       (read_attempts env jc (args, None) paginated API_READ_ATTEMPTS)"

text \<open>\<open>unquote\<close> on the ASCII paths that pass the allow list.\<close>

definition hex_val :: "nat \<Rightarrow> nat option" where
  "hex_val c = (if is_digit c then Some (c - 48) else if 97 \<le> c \<and> c \<le> 102 then Some (c - 87)
     else if 65 \<le> c \<and> c \<le> 70 then Some (c - 55) else None)"

fun unquote_bytes :: "pystr \<Rightarrow> bytes" where
  "unquote_bytes (c # a # b # s) =
     (case (hex_val a, hex_val b) of
        (Some x, Some y) \<Rightarrow> if c = 37 then (16 * x + y) # unquote_bytes s else c # unquote_bytes (a # b # s)
      | _ \<Rightarrow> c # unquote_bytes (a # b # s))"
| "unquote_bytes (c # s) = c # unquote_bytes s"
| "unquote_bytes [] = []"

definition unquote :: "pystr \<Rightarrow> pystr" where
  "unquote s = utf8_decode_replace (unquote_bytes s)"

definition rstrip_char :: "nat \<Rightarrow> pystr \<Rightarrow> pystr" where
  "rstrip_char c s = rev (dropWhile (\<lambda>x. x = c) (rev s))"

definition endswith :: "pystr \<Rightarrow> pystr \<Rightarrow> bool" where
  "endswith s t \<longleftrightarrow> startswith (rev s) (rev t)"

record github =
  gh_repo :: pystr
  gh_env :: env
  gh_codec :: json_codec

definition mode_arguments :: "string \<Rightarrow> pystr list option" where
  "mode_arguments mode =
     (if mode = ''json'' then Some []
      else if mode = ''pages'' then Some (map lit [''--paginate'', ''--jq'', ''tojson''])
      else if mode = ''asset'' then Some (map lit [''-H'', ''Accept: application/octet-stream''])
      else None)"

definition endpoint_of :: "github \<Rightarrow> pystr \<Rightarrow> string \<Rightarrow> pystr" where
  "endpoint_of gh path mode =
     (let endpoint = rstrip_char 47 (lit ''repos/'' @ gh_repo gh @ [47] @ path)
      in if mode = ''pages''
         then endpoint @ lit (if 63 \<in> set endpoint then ''&'' else ''?'')
              @ lit ''per_page='' @ lit (if endswith path (lit ''/jobs'') then ''20'' else ''100'')
         else endpoint)"

definition api_command :: "github \<Rightarrow> pystr \<Rightarrow> string \<Rightarrow> json option \<Rightarrow> string \<Rightarrow> command" where
  "api_command gh path http_method body mode =
     (map lit [''gh'', ''api'', ''--hostname'', ''github.com'', ''--include'', ''--method'', http_method]
        @ the (mode_arguments mode)
        @ (if body \<noteq> None then map lit [''--input'', ''-''] else []) @ [lit ''--'', endpoint_of gh path mode],
      body)"

definition ledger_body :: "json \<Rightarrow> bool" where
  "ledger_body body =
     (case body of
        JObj d \<Rightarrow> dict_get d (lit ''branch'') JNull = JStr (lit ''release-version-state'')
                  \<and> only_keys d [''branch'', ''content'', ''message'', ''sha'']
      | _ \<Rightarrow> False)"

definition is_obj :: "json \<Rightarrow> bool" where
  "is_obj v = (case v of JObj _ \<Rightarrow> True | _ \<Rightarrow> False)"

text \<open>The command itself, once every guard has passed: a read is retried, a write is not.\<close>

definition perform :: "github \<Rightarrow> pystr \<Rightarrow> string \<Rightarrow> json option \<Rightarrow> string \<Rightarrow> bytes gh" where
  "perform gh path http_method body mode =
     (let c = api_command gh path http_method body mode
      in if http_method = ''GET''
         then read_get (gh_env gh) (gh_codec gh) (fst c)
                (\<not> (mode = ''asset'' \<or> endswith path (lit ''/zip'')) \<and> mode = ''pages'')
         else gh_bind (run_command (gh_env gh) c) (\<lambda>out.
                gh_lift (case out of
                    Completed result \<Rightarrow>
                      bind_r (http_response (gh_codec gh) (stdout result) False) (\<lambda>http. response result (Some http))
                  | TimeoutExpired _ _ \<Rightarrow> Inl SubprocessError)))"

definition request :: "github \<Rightarrow> pystr \<Rightarrow> string \<Rightarrow> json option \<Rightarrow> string \<Rightarrow> bytes gh" where
  "request gh path http_method body mode =
     gh_require (API_PATHS http_method \<noteq> None) ''Unsupported API method''
    (gh_require (list_ex (\<lambda>p. fullmatch p path) (the (API_PATHS http_method))) ''Unsupported API endpoint''
    (gh_require (list_all (\<lambda>part. part \<noteq> lit ''.'' \<and> part \<noteq> lit ''..'') (split_on 47 (unquote path)))
       ''API endpoint cannot traverse repository paths''
    (gh_require
       (http_method = ''GET'' \<and> body = None
        \<or> http_method \<in> set [''POST'', ''PATCH'', ''PUT''] \<and> (case body of Some b \<Rightarrow> is_obj b | None \<Rightarrow> False))
       ''API body does not match its method''
    (gh_require (http_method = ''PUT'' \<longrightarrow> ledger_body (the body))
       ''Ledger writes must target the dedicated state branch''
    (gh_require (mode_arguments mode \<noteq> None \<and> (mode = ''json'' \<or> http_method = ''GET'')) ''Invalid API mode''
    (perform gh path http_method body mode))))))"

section \<open>Reading and writing\<close>

text \<open>Python's \<open>None\<close> and the JSON \<open>null\<close> are one value.\<close>

definition bstrip_ws :: "bytes \<Rightarrow> bytes" where
  "bstrip_ws s = dropWhile (\<lambda>c. c = 32 \<or> 9 \<le> c \<and> c \<le> 13) s"

definition api :: "github \<Rightarrow> pystr \<Rightarrow> string \<Rightarrow> json option \<Rightarrow> json gh" where
  "api gh path http_method body =
     gh_bind (request gh path http_method body ''json'') (\<lambda>raw.
       gh_lift (if bstrip_ws raw \<noteq> [] then parse_json (jc_loads (gh_codec gh)) raw else Inr JNull))"

definition optional :: "github \<Rightarrow> pystr \<Rightarrow> json gh" where
  "optional gh path h =
     (case api gh path ''GET'' None h of
        (Inl e, h') \<Rightarrow> if e = GitHubError True then (Inr JNull, h') else (Inl e, h')
      | r \<Rightarrow> r)"

definition page_values :: "string option \<Rightarrow> json \<Rightarrow> json list result" where
  "page_values field page =
     (let values = (case (field, page) of
                      (Some f, JObj d) \<Rightarrow> if f = [] then page else dict_get d (lit f) JNull
                    | _ \<Rightarrow> page)
      in case values of JList xs \<Rightarrow> Inr xs | _ \<Rightarrow> Inl (ReleaseError ''Invalid paginated records''))"

definition pages :: "github \<Rightarrow> pystr \<Rightarrow> string option \<Rightarrow> json list gh" where
  "pages gh path field =
     gh_bind (request gh path ''GET'' None ''pages'') (\<lambda>raw.
       gh_lift (bind_r (parse_json (jc_loads (gh_codec gh)) raw) (\<lambda>v.
         case v of
           JList ps \<Rightarrow> bind_r (map_r (page_values field) ps) (\<lambda>vs. Inr (concat vs))
         | _ \<Rightarrow> Inl (ReleaseError ''Invalid pagination response''))))"

definition binary :: "github \<Rightarrow> pystr \<Rightarrow> bytes gh" where
  "binary gh path =
     (if fullmatch (r_seq [r_lit ''actions/artifacts/'', r_posint, r_lit ''/zip'']) path
      then request gh path ''GET'' None ''json''
      else gh_require (fullmatch (RSeq (r_lit ''releases/assets/'') r_posint) path) ''Unsupported binary download endpoint''
             (request gh path ''GET'' None ''asset''))"

section \<open>What reaches the service\<close>

lemma completed_read_final: "completed_read jc result paginated True \<noteq> Inr None"
  by (auto simp: completed_read_def Let_def bind_r_Inr_iff split: sum.splits)

lemma read_attempts_step:
  "snd (read_attempts env jc c paginated (Suc n) h) = h @ [c]
   \<or> read_attempts env jc c paginated (Suc n) h = read_attempts env jc c paginated n (h @ [c])"
  by (simp split: outcome.splits sum.splits option.splits)

lemma read_attempts_history:
  "\<exists>k\<le>n. snd (read_attempts env jc c paginated n h) = h @ replicate k c"
proof (induction n arbitrary: h)
  case (Suc n)
  from read_attempts_step [of env jc c paginated n h] show ?case
  proof
    assume "snd (read_attempts env jc c paginated (Suc n) h) = h @ [c]"
    then show ?thesis by (intro exI [of _ 1]) simp
  next
    assume step: "read_attempts env jc c paginated (Suc n) h = read_attempts env jc c paginated n (h @ [c])"
    from Suc.IH [of "h @ [c]"] obtain k where "k \<le> n"
      "snd (read_attempts env jc c paginated n (h @ [c])) = (h @ [c]) @ replicate k c" by blast
    with step show ?thesis by (intro exI [of _ "Suc k"]) simp
  qed
qed simp

lemma read_attempts_decides:
  "0 < n \<Longrightarrow> fst (read_attempts env jc c paginated n h) = Inl e
     \<Longrightarrow> \<exists>h0. snd (read_attempts env jc c paginated n h) = h0 @ [c]
           \<and> (e = GitHubError False \<or> (\<exists>result b. env h0 c = Completed result \<and> completed_read jc result paginated b = Inl e))"
proof (induction n arbitrary: h)
  case (Suc n)
  show ?case
  proof (cases "n = 0")
    case True
    with Suc.prems completed_read_final show ?thesis
      by (auto split: outcome.splits sum.splits option.splits)
  next
    case False
    then have IH: "fst (read_attempts env jc c paginated n (h @ [c])) = Inl e \<Longrightarrow>
        \<exists>h0. snd (read_attempts env jc c paginated n (h @ [c])) = h0 @ [c]
           \<and> (e = GitHubError False \<or> (\<exists>result b. env h0 c = Completed result \<and> completed_read jc result paginated b = Inl e))"
      by (intro Suc.IH) simp_all
    show ?thesis
      using Suc.prems IH by (auto split: outcome.splits sum.splits option.splits if_splits)
  qed
qed simp

lemma read_attempts_content:
  "fst (read_attempts env jc c paginated n h) = Inr content
     \<Longrightarrow> \<exists>h0 result b. snd (read_attempts env jc c paginated n h) = h0 @ [c]
           \<and> env h0 c = Completed result \<and> completed_read jc result paginated b = Inr (Some content)"
  by (induction n arbitrary: h) (auto split: outcome.splits sum.splits option.splits if_splits)

text \<open>What a request must be before any command runs.\<close>

definition allowed_request :: "pystr \<Rightarrow> string \<Rightarrow> json option \<Rightarrow> bool" where
  "allowed_request path http_method body \<longleftrightarrow>
     (\<exists>ps. API_PATHS http_method = Some ps \<and> (\<exists>p\<in>set ps. denotes p path))
     \<and> (\<forall>part\<in>set (split_on 47 (unquote path)). part \<notin> {lit ''.'', lit ''..''})
     \<and> (if http_method = ''GET'' then body = None else \<exists>d. body = Some (JObj d))
     \<and> (if http_method = ''PUT'' then ledger_body (the body) else True)"

lemma gh_require_eq: "gh_require c msg m h = (if c then m h else (Inl (ReleaseError msg), h))"
  by (simp add: gh_require_def)

lemma request_guards:
  "(\<exists>msg. request gh path http_method body mode h = (Inl (ReleaseError msg), h))
   \<or> allowed_request path http_method body
     \<and> request gh path http_method body mode h = perform gh path http_method body mode h"
proof (cases "API_PATHS http_method")
  case None
  then show ?thesis by (simp add: request_def gh_require_eq)
next
  case (Some ps)
  have body: "http_method = ''GET'' \<and> body = None
        \<or> http_method \<in> set [''POST'', ''PATCH'', ''PUT''] \<and> (case body of Some b \<Rightarrow> is_obj b | None \<Rightarrow> False)
      \<Longrightarrow> (if http_method = ''GET'' then body = None else \<exists>d. body = Some (JObj d))"
    by (auto simp: is_obj_def split: option.splits json.splits)
  show ?thesis
    unfolding request_def gh_require_eq allowed_request_def Some
    using body by (simp add: list_ex_iff list_all_iff fullmatch_denotes)
qed

lemma write_history:
  "snd (gh_bind (run_command env c) (\<lambda>out. gh_lift (f out)) h) = h @ [c]"
  by (simp add: gh_bind_def run_command_def gh_lift_def)

lemma read_get_history: "\<exists>k\<le>3. snd (read_get env jc args paginated h) = h @ replicate k (args, None)"
proof (cases "snd (read_get env jc args paginated h) = h")
  case True
  then show ?thesis by (intro exI [of _ 0]) simp
next
  case False
  then show ?thesis
    using read_attempts_history [of 3 env jc "(args, None)" paginated h]
    by (auto simp: read_get_def gh_require_def API_READ_ATTEMPTS_def split: if_splits)
qed

lemma request_commands:
  "\<exists>k. snd (request gh path http_method body mode h)
         = h @ replicate k (api_command gh path http_method body mode)
     \<and> k \<le> (if http_method = ''GET'' then 3 else 1)
     \<and> (k = 0 \<or> allowed_request path http_method body)"
proof (rule disjE [OF request_guards [of gh path http_method body mode h]])
  assume "\<exists>msg. request gh path http_method body mode h = (Inl (ReleaseError msg), h)"
  then show ?thesis by (intro exI [of _ 0]) auto
next
  let ?c = "api_command gh path http_method body mode"
  assume r: "allowed_request path http_method body
     \<and> request gh path http_method body mode h = perform gh path http_method body mode h"
  show ?thesis
  proof (cases "http_method = ''GET''")
    case True
    with r have "?c = (fst ?c, None)"
      by (auto simp: api_command_def allowed_request_def)
    with r True read_get_history [of "gh_env gh" "gh_codec gh" "fst ?c"
        "\<not> (mode = ''asset'' \<or> endswith path (lit ''/zip'')) \<and> mode = ''pages''" h]
    show ?thesis by (auto simp: perform_def Let_def)
  next
    case False
    with r show ?thesis by (intro exI [of _ 1]) (simp add: perform_def write_history)
  qed
qed

text \<open>
  Every request runs one fixed command against an allowed route of the repository and nothing else:
  at most three times for a read, at most once for a write, and not at all when the method, the path, the
  body or the mode is not allowed; a write of the ledger goes to its own branch.
\<close>

theorem requests_are_bounded:
  "\<exists>k. snd (request gh path http_method body mode h)
         = h @ replicate k (api_command gh path http_method body mode)
     \<and> k \<le> (if http_method = ''GET'' then 3 else 1)
     \<and> (k = 0 \<or> allowed_request path http_method body)"
  by (rule request_commands)

section \<open>Missing resources\<close>

lemma http_head_error: "github_http_head data = Inl e \<Longrightarrow> e = GitHubError False"
  by (auto simp: github_http_head_def split: option.splits list.splits if_splits)

lemma http_response_single:
  "http_response jc out False = github_http_head out"
  unfolding http_response_def github_http_response_def
  by (cases "github_http_head out") auto

lemma not_found_is_explicit:
  assumes "completed_read jc result False b = Inl (GitHubError True)"
  shows "returncode result \<noteq> 0 \<and> (\<exists>body. github_http_head (stdout result) = Inr (404, body))"
  using assms http_head_error [of "stdout result"]
  by (auto simp: completed_read_def Let_def http_response_single response_def bind_r_Inl_iff
      split: sum.splits if_splits)

lemma content_is_success:
  assumes "completed_read jc result False b = Inr (Some content)"
  shows "returncode result = 0 \<and> (\<exists>status. 200 \<le> status \<and> status < 300 \<and> github_http_head (stdout result) = Inr (status, content))"
  using assms
  by (auto simp: completed_read_def Let_def http_response_single response_def bind_r_Inr_iff
      split: sum.splits if_splits)

definition reports_missing :: "proc \<Rightarrow> bool" where
  "reports_missing result \<longleftrightarrow>
     returncode result \<noteq> 0 \<and> (\<exists>body. github_http_head (stdout result) = Inr (404, body))"

definition answers_null :: "github \<Rightarrow> proc \<Rightarrow> bool" where
  "answers_null gh result \<longleftrightarrow>
     returncode result = 0
     \<and> (\<exists>status content. 200 \<le> status \<and> status < 300 \<and> github_http_head (stdout result) = Inr (status, content)
          \<and> (bstrip_ws content = [] \<or> parse_json (jc_loads (gh_codec gh)) content = Inr JNull))"

text \<open>\<open>json.loads\<close> fails with a \<open>ValueError\<close>: a syntax error or undecodable bytes.\<close>

definition codec_conforms :: "json_codec \<Rightarrow> bool" where
  "codec_conforms jc \<longleftrightarrow> (\<forall>x e. jc_loads jc x = Inl e \<longrightarrow> is_value_error e)"

lemma parse_json_error:
  "codec_conforms jc \<Longrightarrow> parse_json (jc_loads jc) x = Inl e \<Longrightarrow> \<exists>msg. e = ReleaseError msg"
  by (auto simp: parse_json_def codec_conforms_def guard_r_def split: sum.splits if_splits)

lemma get_json_outcome:
  assumes r: "request gh path ''GET'' None ''json'' h = (r, h')"
  shows "(\<exists>msg. r = Inl (ReleaseError msg)) \<or> r = Inl (GitHubError False)
     \<or> (\<exists>h0 result b. h' = h0 @ [api_command gh path ''GET'' None ''json'']
          \<and> gh_env gh h0 (api_command gh path ''GET'' None ''json'') = Completed result
          \<and> completed_read (gh_codec gh) result False b = (case r of Inl e \<Rightarrow> Inl e | Inr content \<Rightarrow> Inr (Some content)))"
proof -
  let ?c = "api_command gh path ''GET'' None ''json''"
  have c: "?c = (fst ?c, None)" by (simp add: api_command_def)
  from request_guards [of gh path "''GET''" None "''json''" h] r
  consider msg where "r = Inl (ReleaseError msg)"
    | "(r, h') = read_get (gh_env gh) (gh_codec gh) (fst ?c) False h"
    by (auto simp: perform_def Let_def)
  then show ?thesis
  proof cases
    case 2
    then consider msg where "r = Inl (ReleaseError msg)"
      | "read_attempts (gh_env gh) (gh_codec gh) ?c False 3 h = (r, h')"
      using c by (auto simp: read_get_def gh_require_eq API_READ_ATTEMPTS_def split: if_splits)
    then show ?thesis
    proof cases
      case 2
      show ?thesis
      proof (cases r)
        case (Inl e)
        with 2 read_attempts_decides [of 3 "gh_env gh" "gh_codec gh" ?c False h e] show ?thesis by auto
      next
        case (Inr content)
        with 2 read_attempts_content [of "gh_env gh" "gh_codec gh" ?c False 3 h content] show ?thesis by auto
      qed
    qed simp
  qed simp
qed

text \<open>
  C36: \<open>optional\<close> reports a resource as absent only when the last command either failed with a well-formed
  HTTP 404 head, or succeeded with a body that is blank or the JSON \<open>null\<close>; a timeout, a lost connection, a
  denial or a malformed response is never taken for an absence.
\<close>

theorem absence_is_explicit:
  assumes codec: "codec_conforms (gh_codec gh)"
    and "optional gh path h = (Inr JNull, h')"
  shows "\<exists>h0 result. h' = h0 @ [api_command gh path ''GET'' None ''json'']
     \<and> gh_env gh h0 (api_command gh path ''GET'' None ''json'') = Completed result
     \<and> (reports_missing result \<or> answers_null gh result)"
proof -
  let ?c = "api_command gh path ''GET'' None ''json''"
  obtain r h1 where req: "request gh path ''GET'' None ''json'' h = (r, h1)" by fastforce
  show ?thesis
  proof (cases r)
    case (Inl e)
    with assms(2) req have e: "e = GitHubError True" "h' = h1"
      by (auto simp: optional_def api_def gh_bind_def split: if_splits)
    with get_json_outcome [OF req] Inl obtain h0 result b where
      "h' = h0 @ [?c]" "gh_env gh h0 ?c = Completed result" "completed_read (gh_codec gh) result False b = Inl e"
      by auto
    with e show ?thesis
      using not_found_is_explicit [of "gh_codec gh" result b] by (auto simp: reports_missing_def)
  next
    case (Inr content)
    with assms(2) req parse_json_error [OF codec] have null:
      "bstrip_ws content = [] \<or> parse_json (jc_loads (gh_codec gh)) content = Inr JNull" "h' = h1"
      by (force simp: optional_def api_def gh_bind_def gh_lift_def split: if_splits sum.splits)+
    from get_json_outcome [OF req] Inr obtain h0 result b where
      "h1 = h0 @ [?c]" "gh_env gh h0 ?c = Completed result"
      "completed_read (gh_codec gh) result False b = Inr (Some content)"
      by auto
    with null show ?thesis
      using content_is_success [of "gh_codec gh" result b content] by (auto simp: answers_null_def)
  qed
qed

definition sample_missing :: proc where
  "sample_missing = \<lparr>returncode = 1, stdout = lit ''HTTP/2.0 404 Not Found'' @ [10, 10] @ lit ''{}'', stderr = []\<rparr>"

definition sample_codec :: json_codec where
  "sample_codec = \<lparr>jc_loads = (\<lambda>_. Inl UnicodeError), jc_raw_decode = (\<lambda>_. None), jc_dumps = (\<lambda>_. [])\<rparr>"

definition sample_github :: github where
  "sample_github = \<lparr>gh_repo = lit ''o/r'', gh_env = (\<lambda>_ _. Completed sample_missing), gh_codec = sample_codec\<rparr>"

lemma sample_missing_head: "github_http_head (stdout sample_missing) = Inr (404, lit ''{}'')"
proof -
  have "fullmatch STATUS_LINE (lit ''HTTP/2.0 404 Not Found'')"
    by (simp add: STATUS_LINE_def r_http_def r_lit_def r_char_def r_opt_def r_rep_def r_digit_def lit_def in_class_def
        eval_nat_numeral(2,3))
  then show ?thesis
    by (simp add: github_http_head_def sample_missing_def lit_def blank_def status_code_def digits_val_def)
qed

lemma sample_missing_read:
  "completed_read sample_codec sample_missing False b = Inl (GitHubError True)"
proof -
  have "\<not> transient_read_failure sample_missing"
    by (simp add: transient_read_failure_def sample_missing_def alower_def eof_text_def re_search_def TRANSPORT_def
        r_lit_def r_char_def r_opt_def r_any_def lit_def r_space_def)
  then show ?thesis
    using sample_missing_head
    by (simp add: completed_read_def http_response_single response_def) (simp add: sample_missing_def)
qed

lemma sample_optional:
  "optional sample_github (lit ''tags'') []
     = (Inr JNull, [api_command sample_github (lit ''tags'') ''GET'' None ''json''])"
proof -
  let ?c = "api_command sample_github (lit ''tags'') ''GET'' None ''json''"
  have "\<exists>p\<in>set API_GET. fullmatch p (lit ''tags'')"
    by (simp add: API_GET_def fullmatch_denotes)
  then have g: "list_ex (\<lambda>p. fullmatch p (lit ''tags'')) API_GET"
    by (simp add: list_ex_iff)
  have u: "split_on 47 (unquote (lit ''tags'')) = [lit ''tags'']"
    by (simp add: unquote_def lit_def hex_val_def is_digit_def utf8_step_def)
  have ep: "endpoint_of sample_github (lit ''tags'') ''json'' = lit ''repos/o/r/tags''"
    by (simp add: endpoint_of_def sample_github_def rstrip_char_def lit_def)
  have run: "read_attempts (gh_env sample_github) (gh_codec sample_github) ?c False API_READ_ATTEMPTS []
      = (Inl (GitHubError True), [?c])"
    by (simp add: API_READ_ATTEMPTS_def numeral_3_eq_3 sample_missing_read) (simp add: sample_github_def sample_missing_read)
  have "request sample_github (lit ''tags'') ''GET'' None ''json'' [] = (Inl (GitHubError True), [?c])"
    using g run
    by (simp add: request_def gh_require_eq API_PATHS_def u perform_def read_get_def api_command_def
        mode_arguments_def ep)
  then show ?thesis by (simp add: optional_def api_def gh_bind_def)
qed

theorem absence_is_explicit_witness:
  "\<exists>h0 result. [api_command sample_github (lit ''tags'') ''GET'' None ''json'']
       = h0 @ [api_command sample_github (lit ''tags'') ''GET'' None ''json'']
     \<and> gh_env sample_github h0 (api_command sample_github (lit ''tags'') ''GET'' None ''json'') = Completed result
     \<and> (reports_missing result \<or> answers_null sample_github result)"
  by (rule absence_is_explicit [OF _ sample_optional])
    (simp add: codec_conforms_def sample_github_def sample_codec_def)

end
