(* ===== verification/Version_Plan.thy ===== *)
theory Version_Plan
  imports Py_Json Utf8
begin

text \<open>
  \<open>scripts/version_plan.py\<close>, the release identities: validation of the versioning policy, the
  immutable release plan, its digest, and its projections into package and build numbers. The hash
  function and the rendering of floats in canonical JSON are arguments. Regular expressions are
  written out on the split string. The lemmas show that a created plan is the one that validates,
  that distinct release decisions have distinct tags, and that the numeric projections fit and keep
  the order of the numbers they project.
\<close>

abbreviation vreq :: "bool \<Rightarrow> string \<Rightarrow> 'a result \<Rightarrow> 'a result" where
  "vreq c msg r \<equiv> guard_r c (VersionError msg) r"

section \<open>Patterns\<close>

definition number_part :: "pystr \<Rightarrow> bool" where
  "number_part p \<longleftrightarrow> p \<noteq> [] \<and> list_all is_digit p \<and> (p = [48] \<or> hd p \<noteq> 48)"

definition positive_part :: "pystr \<Rightarrow> bool" where
  "positive_part p \<longleftrightarrow> p \<noteq> [] \<and> list_all is_digit p \<and> hd p \<noteq> 48"

definition BASE :: "pystr \<Rightarrow> bool" where
  "BASE s \<longleftrightarrow> length (split_on 46 s) = 3 \<and> list_all number_part (split_on 46 s)"

definition SHA :: "pystr \<Rightarrow> bool" where
  "SHA s \<longleftrightarrow> length s = 40 \<and> list_all is_hex_lower s"

definition SHA256 :: "pystr \<Rightarrow> bool" where
  "SHA256 s \<longleftrightarrow> length s = 64 \<and> list_all is_hex_lower s"

definition NIGHTLY :: "pystr \<Rightarrow> bool" where
  "NIGHTLY s \<longleftrightarrow>
     (case split_on 46 s of
        [stamp, run, attempt] \<Rightarrow>
          length stamp = 14 \<and> list_all is_digit stamp \<and> positive_part run \<and> positive_part attempt
      | _ \<Rightarrow> False)"

definition FORMATS :: "string list" where
  "FORMATS = [''json'', ''toml'', ''cargo-lock'', ''uv-lock'', ''npm-lock'', ''text'', ''python'', ''plist'', ''pbxproj'']"

definition VALUES :: "string list" where
  "VALUES = [''base'', ''full'', ''package'', ''build'', ''apple-build'']"

definition ARTIFACT_FORMATS :: "string list" where
  "ARTIFACT_FORMATS = [''oci'', ''json'', ''wheel'', ''sdist'', ''npm-tar'', ''ipa'', ''plist'',
     ''tar-text'', ''tar-toml'', ''tar-json'', ''zip-json'']"

definition json_bytes :: "(real \<Rightarrow> pystr) \<Rightarrow> json \<Rightarrow> bytes" where
  "json_bytes fr v = json_dumps fr v"

type_synonym sha256 = "bytes \<Rightarrow> pystr"

definition policy_digest :: "sha256 \<Rightarrow> (real \<Rightarrow> pystr) \<Rightarrow> json \<Rightarrow> pystr" where
  "policy_digest sha fr policy = sha (json_bytes fr policy)"

section \<open>Declarations\<close>

definition field :: "json \<Rightarrow> pystr list result" where
  "field value =
     (case value of
        JStr s \<Rightarrow>
          (let result = split_on 46 s
           in vreq ([] \<notin> set result) ''Dotted fields cannot contain empty segments; use a string array''
                (Inr result))
      | JList xs \<Rightarrow>
          vreq (xs \<noteq> [] \<and> list_all is_jstr xs) ''Field must be a dotted string or a nonempty string array''
            (Inr (map jstr_val xs))
      | _ \<Rightarrow> Inl (VersionError ''Field must be a dotted string or a nonempty string array''))"

definition relative :: "json \<Rightarrow> pystr result" where
  "relative value =
     (case value of
        JStr s \<Rightarrow>
          vreq (s \<noteq> [] \<and> 92 \<notin> set s \<and> 0 \<notin> set s) ''Path must be a relative POSIX path''
            (vreq (\<not> startswith s [47] \<and> (\<forall>part\<in>set (split_on 47 s). part \<notin> set (map lit [[], ''.'', ''..'', ''.git''])))
               ''Unsafe version path''
               (Inr s))
      | _ \<Rightarrow> Inl (VersionError ''Path must be a relative POSIX path''))"

text \<open>\<open>not any(c in s for c in "\r\n\0")\<close>.\<close>

definition single_line :: "pystr \<Rightarrow> bool" where
  "single_line s \<longleftrightarrow> 13 \<notin> set s \<and> 10 \<notin> set s \<and> 0 \<notin> set s"

definition artifact_declaration :: "json_dict \<Rightarrow> unit result" where
  "artifact_declaration item =
     (let kind = dict_get item (lit ''format'') JNull;
          archive = kind \<in> set (map (JStr \<circ> lit) [''tar-text'', ''tar-toml'', ''tar-json'', ''zip-json''])
      in vreq (kind = JStr (lit ''oci'') \<longrightarrow> has_key item ''field'' \<and> \<not> has_key item ''package'')
           ''OCI artifact requires an exact config field and no package selector''
         (bind_r
           (if archive
            then vreq (has_key item ''member'') ''Archive field verification requires an exact member''
                   (bind_r (relative (dict_get item (lit ''member'') JNull)) (\<lambda>_. Inr ()))
            else vreq (\<not> has_key item ''member'') ''format does not accept member'' (Inr ()))
           (\<lambda>_. vreq (kind = JStr (lit ''tar-text'') \<longrightarrow> \<not> has_key item ''field'' \<and> \<not> has_key item ''package'')
                  ''Text artifact has no field or package selector'' (Inr ()))))"

definition kind_in :: "json_dict \<Rightarrow> string list \<Rightarrow> bool" where
  "kind_in item names \<longleftrightarrow> dict_get item (lit ''format'') JNull \<in> set (map (JStr \<circ> lit) names)"

definition input_declaration :: "json_dict \<Rightarrow> unit result" where
  "input_declaration item =
     vreq (kind_in item [''json'', ''toml'', ''python'', ''plist'', ''pbxproj''] \<longrightarrow> has_key item ''field'')
       ''format requires an explicit field''
     (vreq (kind_in item [''cargo-lock'', ''uv-lock'', ''npm-lock'', ''pbxproj''] \<longrightarrow> has_key item ''package'')
       ''format requires an explicit owned package selector''
     (vreq (kind_in item [''text'', ''cargo-lock'', ''uv-lock'', ''npm-lock''] \<longrightarrow> \<not> has_key item ''field'')
       ''format does not accept field''
     (vreq (kind_in item [''text'', ''python'', ''plist''] \<longrightarrow> \<not> has_key item ''package'')
       ''format does not accept package'' (Inr ()))))"

definition check_declaration :: "bool \<Rightarrow> json \<Rightarrow> json_dict result" where
  "check_declaration artifact v =
     (case v of
        JObj item \<Rightarrow>
          vreq (only_keys item ([''path'', ''format'', ''field'', ''package'', ''value'', ''prefix'', ''ecosystem'']
                  @ (if artifact then [''member''] else [])))
            ''Unsupported version declaration fields''
          (bind_r (in_strings (dict_get item (lit ''format'') JNull) (if artifact then ARTIFACT_FORMATS else FORMATS))
           (\<lambda>ok. vreq ok ''Unsupported version format''
          (bind_r (if has_key item ''path'' then bind_r (relative (dict_get item (lit ''path'') JNull)) (\<lambda>_. Inr ())
                   else if \<not> artifact then Inl (VersionError ''Version input requires path'') else Inr ())
           (\<lambda>_. bind_r (in_strings (dict_get item (lit ''value'') (JStr (lit ''package''))) VALUES)
           (\<lambda>ok. vreq ok ''Unsupported version projection''
          (bind_r (in_strings (dict_get item (lit ''ecosystem'') (JStr (lit ''semver''))) [''semver'', ''pep440''])
           (\<lambda>ok. vreq ok ''Unsupported package version ecosystem''
          (vreq (case dict_get item (lit ''prefix'') (JStr []) of JStr p \<Rightarrow> single_line p | _ \<Rightarrow> False)
             ''Invalid version prefix''
          (bind_r (if has_key item ''field'' then bind_r (field (dict_get item (lit ''field'') JNull)) (\<lambda>_. Inr ())
                   else Inr ())
           (\<lambda>_. vreq (has_key item ''package'' \<longrightarrow>
                     (case dict_get item (lit ''package'') JNull of JStr p \<Rightarrow> p \<noteq> [] \<and> single_line p | _ \<Rightarrow> False))
             ''Invalid owned package selector''
          (bind_r (if artifact then artifact_declaration item else input_declaration item)
           (\<lambda>_. Inr item))))))))))))
      | _ \<Rightarrow> Inl (VersionError ''Version declarations must be objects''))"

section \<open>The policy\<close>

definition receipt_name :: "pystr \<Rightarrow> bool" where
  "receipt_name s \<longleftrightarrow>
     (let prefix = lit ''release-inputs-''; suffix = lit ''.json'';
          middle = take (length s - length prefix - length suffix) (drop (length prefix) s)
      in startswith s prefix \<and> length prefix + length suffix < length s
         \<and> drop (length s - length suffix) s = suffix
         \<and> list_all (\<lambda>c. is_digit c \<or> 65 \<le> c \<and> c \<le> 90 \<or> 97 \<le> c \<and> c \<le> 122 \<or> c = 46 \<or> c = 95 \<or> c = 45) middle)"

definition required_build_receipts :: "json_dict \<Rightarrow> pystr list option result" where
  "required_build_receipts config =
     (if \<not> has_key config ''required_build_receipts'' then Inr None
      else (case dict_get config (lit ''required_build_receipts'') JNull of
              JList names \<Rightarrow>
                vreq (names \<noteq> [] \<and> list_all (\<lambda>n. case n of
                          JStr s \<Rightarrow> receipt_name s \<and> s \<noteq> lit ''release-inputs-fuzz.json'' | _ \<Rightarrow> False) names)
                  ''required_build_receipts must be nonempty ASCII package receipt filenames''
                (vreq (distinct (map jstr_val names)) ''required_build_receipts contains duplicate filenames''
                  (Inr (Some (map jstr_val names))))
            | _ \<Rightarrow> Inl (VersionError ''required_build_receipts must be nonempty ASCII package receipt filenames'')))"

type_synonym selector = "pystr \<times> pystr \<times> pystr list \<times> pystr option"

definition selector_of :: "json_dict \<Rightarrow> selector result" where
  "selector_of item =
     bind_r (if has_key item ''field'' then field (dict_get item (lit ''field'') JNull) else Inr [])
       (\<lambda>f. Inr (jstr_val (dict_get item (lit ''path'') JNull), jstr_val (dict_get item (lit ''format'') JNull), f,
                 if has_key item ''package'' then Some (jstr_val (dict_get item (lit ''package'') JNull)) else None))"

fun check_files :: "json list \<Rightarrow> selector list \<Rightarrow> unit result" where
  "check_files [] seen = Inr ()"
| "check_files (v # vs) seen =
     bind_r (check_declaration False v) (\<lambda>item.
     bind_r (selector_of item) (\<lambda>sel.
       vreq (sel \<notin> set seen) ''Duplicate version selector'' (check_files vs (sel # seen))))"

definition promotion_ok :: "json \<Rightarrow> bool result" where
  "promotion_ok v = in_strings v [''promote-bytes'', ''final-build'']"

definition validate_policy :: "json \<Rightarrow> json_dict result" where
  "validate_policy policy =
     (case policy of
        JObj p \<Rightarrow>
          (case dict_get p (lit ''versioning'') JNull of
             JObj config \<Rightarrow>
               vreq (only_keys config [''schema'', ''promotion'', ''files'', ''artifacts'',
                       ''required_build_receipts'', ''build_number_floor'', ''toolkit_revision''])
                 ''Unsupported versioning fields''
               (vreq (dict_get config (lit ''schema'') JNull = JInt 1) ''Unsupported versioning schema''
               (bind_r (promotion_ok (dict_get config (lit ''promotion'') JNull)) (\<lambda>ok.
                vreq ok ''Unsupported promotion profile''
               (vreq (has_key config ''build_number_floor'' \<longrightarrow>
                        (case jint (dict_get config (lit ''build_number_floor'') JNull) of
                           Some i \<Rightarrow> 0 \<le> i \<and> i < 2100000000 | None \<Rightarrow> False))
                  ''Native build number floor must be an integer in 0..2099999999''
               (case dict_get config (lit ''files'') JNull of
                  JList files \<Rightarrow>
                    vreq (files \<noteq> []) ''Policy requires explicit version files''
                    (bind_r (required_build_receipts config) (\<lambda>_.
                     bind_r (check_files files []) (\<lambda>_.
                       (case dict_get config (lit ''artifacts'') (JList []) of
                          JList artifacts \<Rightarrow>
                            bind_r (each_r (\<lambda>a. bind_r (check_declaration True a) (\<lambda>_. Inr ())) artifacts) (\<lambda>_.
                              vreq (has_key config ''toolkit_revision'' \<longrightarrow>
                                      (case dict_get config (lit ''toolkit_revision'') JNull of
                                         JStr s \<Rightarrow> SHA s | _ \<Rightarrow> False))
                                ''Toolkit revision must be a pinned SHA'' (Inr config))
                        | _ \<Rightarrow> Inl (VersionError ''Artifact declarations must be an array'')))))
                | _ \<Rightarrow> Inl (VersionError ''Policy requires explicit version files''))))))
           | _ \<Rightarrow> Inl (VersionError ''Policy requires versioning''))
      | _ \<Rightarrow> Inl (VersionError ''Policy must be an object''))"

section \<open>Identities\<close>

text \<open>\<open>datetime.strptime(s, "%Y%m%d%H%M%S")\<close> on fourteen digits succeeds.\<close>

definition leap_year :: "nat \<Rightarrow> bool" where
  "leap_year y \<longleftrightarrow> y mod 4 = 0 \<and> (y mod 100 \<noteq> 0 \<or> y mod 400 = 0)"

definition days_in_month :: "nat \<Rightarrow> nat \<Rightarrow> nat" where
  "days_in_month y m =
     (if m = 2 then (if leap_year y then 29 else 28) else if m \<in> {4, 6, 9, 11} then 30 else 31)"

definition timestamp_ok :: "pystr \<Rightarrow> bool" where
  "timestamp_ok s \<longleftrightarrow>
     (let y = digits_val (take 4 s); mo = digits_val (take 2 (drop 4 s)); d = digits_val (take 2 (drop 6 s));
          h = digits_val (take 2 (drop 8 s)); mi = digits_val (take 2 (drop 10 s)); se = digits_val (drop 12 s)
      in 1 \<le> y \<and> 1 \<le> mo \<and> mo \<le> 12 \<and> 1 \<le> d \<and> d \<le> days_in_month y mo \<and> h \<le> 23 \<and> mi \<le> 59 \<and> se \<le> 59)"

definition identity :: "json \<Rightarrow> json \<Rightarrow> json \<Rightarrow> pystr result" where
  "identity base channel sequence =
     vreq (case base of JStr b \<Rightarrow> BASE b | _ \<Rightarrow> False)
       ''Base version must be strict X.Y.Z without prefix or suffix''
     (bind_r (in_strings channel [''nightly'', ''beta'', ''rc'', ''stable'']) (\<lambda>ok.
      vreq ok ''Unsupported release channel''
     (if channel = JStr (lit ''stable'')
      then vreq (sequence = JNull) ''Stable must not have a sequence'' (Inr (jstr_val base))
      else
        bind_r
          (if channel = JStr (lit ''nightly'')
           then vreq (case sequence of JStr q \<Rightarrow> NIGHTLY q | _ \<Rightarrow> False)
                  ''Nightly requires frozen UTCtimestamp.run.attempt suffix''
                (vreq (timestamp_ok (hd (split_on 46 (jstr_val sequence)))) ''Invalid nightly UTC timestamp'' (Inr ()))
           else vreq (case jint sequence of Some i \<Rightarrow> 0 < i | None \<Rightarrow> False)
                  ''Beta/RC sequence must be a positive integer'' (Inr ()))
          (\<lambda>_. Inr (jstr_val base @ lit ''-'' @ jstr_val channel @ lit ''.'' @ py_str sequence)))))"

section \<open>Plans\<close>

record plan =
  pl_base_version :: pystr
  pl_version :: pystr
  pl_channel :: pystr
  pl_sequence :: json
  pl_tag :: pystr
  pl_source_sha :: pystr
  pl_build_number :: "int option"
  pl_policy_sha256 :: pystr
  pl_promotion :: pystr

definition opt_int :: "int option \<Rightarrow> json" where
  "opt_int b = (case b of None \<Rightarrow> JNull | Some i \<Rightarrow> JInt i)"

text \<open>The dictionary the source builds, in its order.\<close>

definition plan_dict :: "plan \<Rightarrow> json_dict" where
  "plan_dict p =
     [(lit ''schema_version'', JInt 1), (lit ''base_version'', JStr (pl_base_version p)),
      (lit ''version'', JStr (pl_version p)), (lit ''channel'', JStr (pl_channel p)),
      (lit ''sequence'', pl_sequence p), (lit ''tag'', JStr (pl_tag p)),
      (lit ''source_sha'', JStr (pl_source_sha p)), (lit ''build_number'', opt_int (pl_build_number p)),
      (lit ''policy_sha256'', JStr (pl_policy_sha256 p)), (lit ''promotion'', JStr (pl_promotion p))]"

definition plan_json :: "plan \<Rightarrow> json" where
  "plan_json p = JObj (plan_dict p)"

text \<open>\<open>int(s)\<close> on the digits that \<open>NIGHTLY\<close> admits.\<close>

definition pep440_nightly :: "pystr \<Rightarrow> json \<Rightarrow> pystr result" where
  "pep440_nightly base sequence =
     (case sequence of
        JStr q \<Rightarrow>
          (case split_on 46 q of
             [_, run, attempt] \<Rightarrow>
               (let number = digits_val run * 1000000 + digits_val attempt
                in vreq (digits_val attempt < 1000000 \<and> number \<le> 2 ^ 64 - 2)
                     ''Nightly run or attempt is too large for PEP 440 projection''
                     (Inr (base @ lit ''.dev'' @ nat_digits number)))
           | _ \<Rightarrow> Inl (ValueError ''unpack''))
      | _ \<Rightarrow> Inl AttributeError)"

definition apple_build :: "int option \<Rightarrow> json" where
  "apple_build build =
     (case build of
        Some b \<Rightarrow>
          if 0 < b \<and> b \<le> 99990000
          then (let n = b - 1
                in JStr (int_str (n div 10000 + 1) @ lit ''.'' @ int_str (n div 100 mod 100) @ lit ''.''
                     @ int_str (n mod 100)))
          else JNull
      | None \<Rightarrow> JNull)"

definition projections :: "plan \<Rightarrow> json \<Rightarrow> json_dict result" where
  "projections p ecosystem =
     bind_r (in_strings ecosystem [''semver'', ''pep440'']) (\<lambda>ok.
     vreq ok ''Unsupported package ecosystem''
     (bind_r
       (if pl_channel p = lit ''rc'' \<and> pl_promotion p = lit ''promote-bytes'' then Inr (pl_base_version p)
        else if ecosystem = JStr (lit ''pep440'')
        then (if pl_channel p = lit ''beta'' then Inr (pl_base_version p @ lit ''b'' @ py_str (pl_sequence p))
              else if pl_channel p = lit ''rc'' then Inr (pl_base_version p @ lit ''rc'' @ py_str (pl_sequence p))
              else if pl_channel p = lit ''nightly'' then pep440_nightly (pl_base_version p) (pl_sequence p)
              else Inr (pl_version p))
        else Inr (pl_version p))
       (\<lambda>package.
          Inr [(lit ''base'', JStr (pl_base_version p)), (lit ''full'', JStr (pl_version p)),
               (lit ''package'', JStr package), (lit ''build'', opt_int (pl_build_number p)),
               (lit ''apple-build'', apple_build (pl_build_number p))])))"

definition projected_value :: "plan \<Rightarrow> json_dict \<Rightarrow> json result" where
  "projected_value p item =
     bind_r (projections p (dict_get item (lit ''ecosystem'') (JStr (lit ''semver'')))) (\<lambda>ps.
       (case map_of ps (jstr_val (dict_get item (lit ''value'') (JStr (lit ''package'')))) of
          None \<Rightarrow> Inl KeyError
        | Some result \<Rightarrow>
            vreq (result \<noteq> JNull) ''Projection requires a valid allocated native build number''
            (case dict_get item (lit ''prefix'') (JStr []) of
               JStr prefix \<Rightarrow> Inr (if prefix \<noteq> [] then JStr (prefix @ py_str result) else result)
             | _ \<Rightarrow> Inl TypeError)))"

definition project_all :: "plan \<Rightarrow> json_dict \<Rightarrow> unit result" where
  "project_all p config =
     (case dict_get config (lit ''files'') JNull of
        JList files \<Rightarrow>
          each_r (\<lambda>v. case v of JObj item \<Rightarrow> bind_r (projected_value p item) (\<lambda>_. Inr ()) | _ \<Rightarrow> Inl AttributeError)
            files
      | _ \<Rightarrow> Inl TypeError)"

definition build_ok :: "json \<Rightarrow> bool" where
  "build_ok b \<longleftrightarrow> b = JNull \<or> (case jint b of Some i \<Rightarrow> 0 < i \<and> i \<le> 2100000000 | None \<Rightarrow> False)"

definition above_floor :: "json \<Rightarrow> json_dict \<Rightarrow> bool" where
  "above_floor b config \<longleftrightarrow>
     (case (jint b, jint (dict_get config (lit ''build_number_floor'') (JInt 0))) of
        (Some i, Some fl) \<Rightarrow> fl < i | _ \<Rightarrow> True)"

definition create_plan ::
  "sha256 \<Rightarrow> (real \<Rightarrow> pystr) \<Rightarrow> json \<Rightarrow> json \<Rightarrow> json \<Rightarrow> json \<Rightarrow> json \<Rightarrow> json \<Rightarrow> plan result" where
  "create_plan sha fr base channel sequence source_sha policy build_number =
     bind_r (validate_policy policy) (\<lambda>config.
     bind_r (identity base channel sequence) (\<lambda>version.
     vreq (case source_sha of JStr s \<Rightarrow> SHA s | _ \<Rightarrow> False) ''Source SHA must be a full lowercase commit SHA''
     (vreq (build_ok build_number) ''Build number must be a positive integer no greater than 2100000000''
     (vreq (above_floor build_number config) ''Build number must exceed the declared migration floor''
     (let p = \<lparr>pl_base_version = jstr_val base, pl_version = version, pl_channel = jstr_val channel,
               pl_sequence = sequence, pl_tag = lit ''v'' @ version, pl_source_sha = jstr_val source_sha,
               pl_build_number = jint build_number, pl_policy_sha256 = policy_digest sha fr policy,
               pl_promotion = jstr_val (dict_get config (lit ''promotion'') JNull)\<rparr>
      in bind_r (project_all p config) (\<lambda>_. Inr p))))))"

definition plan_keys :: "string list" where
  "plan_keys = [''schema_version'', ''base_version'', ''version'', ''channel'', ''sequence'', ''tag'',
     ''source_sha'', ''build_number'', ''policy_sha256'', ''promotion'']"

definition validate_plan ::
  "sha256 \<Rightarrow> (real \<Rightarrow> pystr) \<Rightarrow> json \<Rightarrow> json option \<Rightarrow> pystr option \<Rightarrow> plan result" where
  "validate_plan sha fr v policy source_sha =
     (case v of
        JObj d \<Rightarrow>
          (let fld = (\<lambda>k. dict_get d (lit k) JNull)
           in
           vreq (fst ` set d = set (map lit plan_keys)) ''Unexpected or missing release-plan fields''
           (vreq (fld ''schema_version'' = JInt 1) ''Unsupported release-plan schema''
           (bind_r (identity (fld ''base_version'') (fld ''channel'') (fld ''sequence'')) (\<lambda>version.
           vreq (fld ''version'' = JStr version \<and> fld ''tag'' = JStr (lit ''v'' @ version))
             ''Release version/tag/sequence disagree''
           (vreq (case fld ''source_sha'' of JStr s \<Rightarrow> SHA s | _ \<Rightarrow> False) ''Invalid plan source SHA''
           (vreq (case fld ''policy_sha256'' of JStr s \<Rightarrow> SHA256 s | _ \<Rightarrow> False) ''Invalid policy digest''
           (bind_r (promotion_ok (fld ''promotion'')) (\<lambda>ok.
           vreq ok ''Invalid plan promotion profile''
           (vreq (build_ok (fld ''build_number'')) ''Invalid native build number''
           (let p = \<lparr>pl_base_version = jstr_val (fld ''base_version''), pl_version = version,
                     pl_channel = jstr_val (fld ''channel''), pl_sequence = fld ''sequence'',
                     pl_tag = lit ''v'' @ version, pl_source_sha = jstr_val (fld ''source_sha''),
                     pl_build_number = jint (fld ''build_number''), pl_policy_sha256 = jstr_val (fld ''policy_sha256''),
                     pl_promotion = jstr_val (fld ''promotion'')\<rparr>
            in bind_r
                 (case policy of
                    None \<Rightarrow> Inr ()
                  | Some pol \<Rightarrow>
                      bind_r (validate_policy pol) (\<lambda>config.
                      vreq (pl_policy_sha256 p = policy_digest sha fr pol) ''Release plan policy digest mismatch''
                      (vreq (JStr (pl_promotion p) = dict_get config (lit ''promotion'') JNull)
                         ''Release plan promotion policy mismatch''
                      (vreq (above_floor (fld ''build_number'') config)
                         ''Plan build number does not exceed the declared migration floor''
                      (project_all p config)))))
                 (\<lambda>_. vreq (case source_sha of None \<Rightarrow> True | Some s \<Rightarrow> pl_source_sha p = s)
                        ''Release plan source SHA mismatch'' (Inr p))))))))))))
      | _ \<Rightarrow> Inl (VersionError ''Release plan must be an object''))"

definition plan_digest :: "sha256 \<Rightarrow> (real \<Rightarrow> pystr) \<Rightarrow> json \<Rightarrow> pystr result" where
  "plan_digest sha fr v = bind_r (validate_plan sha fr v None None) (\<lambda>_. Inr (sha (json_bytes fr v)))"

section \<open>Lemmas\<close>

lemma in_strings_True: "in_strings v names = Inr True \<longleftrightarrow> (\<exists>n\<in>set names. v = JStr (lit n))"
  by (auto simp: in_strings_def split: json.splits)

lemma json_str_case: "(case v of JStr s \<Rightarrow> P s | _ \<Rightarrow> False) \<longleftrightarrow> (\<exists>s. v = JStr s \<and> P s)"
  by (cases v) auto

lemma jint_case: "(case jint v of Some i \<Rightarrow> P i | None \<Rightarrow> False) \<longleftrightarrow> (\<exists>i. v = JInt i \<and> P i)"
  by (cases v) (auto simp: jint_def)

lemma build_ok_iff: "build_ok b \<longleftrightarrow> b = JNull \<or> (\<exists>i. b = JInt i \<and> 0 < i \<and> i \<le> 2100000000)"
  by (simp add: build_ok_def jint_case)

lemma opt_int_jint: "build_ok b \<Longrightarrow> opt_int (jint b) = b"
  by (auto simp: build_ok_iff opt_int_def jint_def)

text \<open>What an accepted identity looks like.\<close>

lemma identity_cases:
  assumes "identity b c q = Inr v"
  obtains (stable) bs where "b = JStr bs" "BASE bs" "c = JStr (lit ''stable'')" "q = JNull" "v = bs"
  | (nightly) bs qs where "b = JStr bs" "BASE bs" "c = JStr (lit ''nightly'')" "q = JStr qs" "NIGHTLY qs"
      "v = bs @ lit ''-'' @ lit ''nightly'' @ lit ''.'' @ qs"
  | (beta) bs i where "b = JStr bs" "BASE bs" "c = JStr (lit ''beta'')" "q = JInt i" "0 < i"
      "v = bs @ lit ''-'' @ lit ''beta'' @ lit ''.'' @ int_str i"
  | (rc) bs i where "b = JStr bs" "BASE bs" "c = JStr (lit ''rc'')" "q = JInt i" "0 < i"
      "v = bs @ lit ''-'' @ lit ''rc'' @ lit ''.'' @ int_str i"
proof -
  from assms have "(\<exists>bs. b = JStr bs \<and> BASE bs \<and> c = JStr (lit ''stable'') \<and> q = JNull \<and> v = bs)
    \<or> (\<exists>bs qs. b = JStr bs \<and> BASE bs \<and> c = JStr (lit ''nightly'') \<and> q = JStr qs \<and> NIGHTLY qs
         \<and> v = bs @ lit ''-'' @ lit ''nightly'' @ lit ''.'' @ qs)
    \<or> (\<exists>bs i. b = JStr bs \<and> BASE bs \<and> c = JStr (lit ''beta'') \<and> q = JInt i \<and> 0 < i
         \<and> v = bs @ lit ''-'' @ lit ''beta'' @ lit ''.'' @ int_str i)
    \<or> (\<exists>bs i. b = JStr bs \<and> BASE bs \<and> c = JStr (lit ''rc'') \<and> q = JInt i \<and> 0 < i
         \<and> v = bs @ lit ''-'' @ lit ''rc'' @ lit ''.'' @ int_str i)"
    by (auto simp: identity_def bind_r_Inr_iff json_str_case jint_case in_strings_True split: if_splits)
  then show thesis using stable nightly beta rc by blast
qed

lemma identity_types:
  assumes "identity b c q = Inr v"
  shows "JStr (jstr_val b) = b" "JStr (jstr_val c) = c"
  using assms by (cases rule: identity_cases; simp)+

lemma validate_policy_promotion:
  assumes "validate_policy policy = Inr config"
  shows "promotion_ok (dict_get config (lit ''promotion'') JNull) = Inr True"
  using assms
  by (auto simp: validate_policy_def bind_r_Inr_iff split: json.splits)

lemma guard_pass: "c \<Longrightarrow> guard_r c e r = r"
  by simp

lemma create_plan_cases:
  assumes "create_plan sha fr b c q src policy bn = Inr p"
  obtains config where "validate_policy policy = Inr config" "identity b c q = Inr (pl_version p)"
    "src = JStr (pl_source_sha p)" "SHA (pl_source_sha p)" "build_ok bn" "above_floor bn config"
    "b = JStr (pl_base_version p)" "c = JStr (pl_channel p)" "pl_sequence p = q"
    "pl_tag p = lit ''v'' @ pl_version p" "opt_int (pl_build_number p) = bn"
    "pl_policy_sha256 p = policy_digest sha fr policy"
    "dict_get config (lit ''promotion'') JNull = JStr (pl_promotion p)" "promotion_ok (JStr (pl_promotion p)) = Inr True"
    "project_all p config = Inr ()"
proof -
  from assms obtain config v where c: "validate_policy policy = Inr config" "identity b c q = Inr v"
    and src: "\<exists>s. src = JStr s \<and> SHA s" and bn: "build_ok bn" "above_floor bn config"
    and p: "p = \<lparr>pl_base_version = jstr_val b, pl_version = v, pl_channel = jstr_val c,
               pl_sequence = q, pl_tag = lit ''v'' @ v, pl_source_sha = jstr_val src,
               pl_build_number = jint bn, pl_policy_sha256 = policy_digest sha fr policy,
               pl_promotion = jstr_val (dict_get config (lit ''promotion'') JNull)\<rparr>"
    and pr: "project_all p config = Inr ()"
    by (auto simp: create_plan_def bind_r_Inr_iff Let_def json_str_case)
  from validate_policy_promotion [OF c(1)] obtain pn where
    pn: "dict_get config (lit ''promotion'') JNull = JStr pn" "promotion_ok (JStr pn) = Inr True"
    by (auto simp: promotion_ok_def in_strings_True)
  have sel: "pl_base_version p = jstr_val b" "pl_version p = v" "pl_channel p = jstr_val c" "pl_sequence p = q"
      "pl_tag p = lit ''v'' @ v" "pl_source_sha p = jstr_val src" "pl_build_number p = jint bn"
      "pl_policy_sha256 p = policy_digest sha fr policy" "pl_promotion p = pn"
    by (simp_all add: p pn(1))
  show thesis
  proof (rule that [of config])
    show "src = JStr (pl_source_sha p)" "SHA (pl_source_sha p)" using src by (auto simp: sel)
  qed (simp_all add: sel c bn pn pr identity_types [OF c(2)] opt_int_jint)
qed

lemma plan_lookup:
  "dict_get (plan_dict p) (lit ''schema_version'') JNull = JInt 1"
  "dict_get (plan_dict p) (lit ''base_version'') JNull = JStr (pl_base_version p)"
  "dict_get (plan_dict p) (lit ''version'') JNull = JStr (pl_version p)"
  "dict_get (plan_dict p) (lit ''channel'') JNull = JStr (pl_channel p)"
  "dict_get (plan_dict p) (lit ''sequence'') JNull = pl_sequence p"
  "dict_get (plan_dict p) (lit ''tag'') JNull = JStr (pl_tag p)"
  "dict_get (plan_dict p) (lit ''source_sha'') JNull = JStr (pl_source_sha p)"
  "dict_get (plan_dict p) (lit ''build_number'') JNull = opt_int (pl_build_number p)"
  "dict_get (plan_dict p) (lit ''policy_sha256'') JNull = JStr (pl_policy_sha256 p)"
  "dict_get (plan_dict p) (lit ''promotion'') JNull = JStr (pl_promotion p)"
  by (simp_all add: dict_get_def plan_dict_def)

lemma plan_dict_keys: "fst ` set (plan_dict p) = lit ` set plan_keys"
  by (simp add: plan_dict_def plan_keys_def)

lemma created_plan_reads_back:
  assumes "create_plan sha fr base channel seqn source policy build = Inr p"
    and "\<And>bs. SHA256 (sha bs)"
  shows "validate_plan sha fr (plan_json p) (Some policy) (Some (pl_source_sha p)) = Inr p"
    and "validate_plan sha fr (plan_json p) None None = Inr p"
proof -
  obtain config where cr: "validate_policy policy = Inr config" "identity base channel seqn = Inr (pl_version p)"
    "source = JStr (pl_source_sha p)" "SHA (pl_source_sha p)" "build_ok build" "above_floor build config"
    "base = JStr (pl_base_version p)" "channel = JStr (pl_channel p)" "pl_sequence p = seqn"
    "pl_tag p = lit ''v'' @ pl_version p" "opt_int (pl_build_number p) = build"
    "pl_policy_sha256 p = policy_digest sha fr policy"
    "dict_get config (lit ''promotion'') JNull = JStr (pl_promotion p)" "promotion_ok (JStr (pl_promotion p)) = Inr True"
    "project_all p config = Inr ()"
    using create_plan_cases [OF assms(1)] by blast
  have bn: "jint (opt_int (pl_build_number p)) = pl_build_number p"
    by (cases "pl_build_number p") (simp_all add: opt_int_def jint_def)
  have id: "identity (JStr (pl_base_version p)) (JStr (pl_channel p)) (pl_sequence p) = Inr (pl_version p)"
    using cr by simp
  have digest: "SHA256 (pl_policy_sha256 p)"
    using cr assms(2) by (simp add: policy_digest_def)
  have build: "build_ok (opt_int (pl_build_number p))" "above_floor (opt_int (pl_build_number p)) config"
    using cr by simp_all
  have same: "\<lparr>pl_base_version = pl_base_version p, pl_version = pl_version p, pl_channel = pl_channel p,
      pl_sequence = pl_sequence p, pl_tag = lit ''v'' @ pl_version p, pl_source_sha = pl_source_sha p,
      pl_build_number = pl_build_number p, pl_policy_sha256 = pl_policy_sha256 p,
      pl_promotion = pl_promotion p\<rparr> = p"
    using cr(10) by (intro plan.equality) simp_all
  show "validate_plan sha fr (plan_json p) (Some policy) (Some (pl_source_sha p)) = Inr p"
    "validate_plan sha fr (plan_json p) None None = Inr p"
    using cr(1,4,10,13-15) cr(12) [symmetric] id digest build unfolding validate_plan_def plan_json_def
    by (simp_all add: plan_lookup plan_dict_keys bn Let_def same)
qed


lemma base_chars:
  assumes "BASE bs"
  shows "45 \<notin> set bs"
proof -
  have "list_all number_part (split_on 46 bs)" using assms by (simp add: BASE_def)
  then have "45 \<notin> (\<Union>l\<in>set (split_on 46 bs). set l)"
    by (fastforce simp: list_all_iff number_part_def is_digit_def)
  then show ?thesis
    using set_join_on [of 46 "split_on 46 bs"] by auto
qed

lemma split_first:
  assumes "c \<notin> set a" "c \<notin> set b" "a @ c # x = b @ c # y"
  shows "a = b \<and> x = y"
proof -
  have "takeWhile (\<lambda>z. z \<noteq> c) (a @ c # x) = a" "takeWhile (\<lambda>z. z \<noteq> c) (b @ c # y) = b"
    using assms(1,2) by (auto simp: takeWhile_append)
  with assms(3) show ?thesis by auto
qed

lemma int_str_inj: "0 < i \<Longrightarrow> 0 < j \<Longrightarrow> int_str i = int_str j \<longleftrightarrow> i = j"
  by (auto simp: int_str_def)

text \<open>The part after the base: the channel's name, a dot, the sequence.\<close>

lemma identity_shape:
  assumes "identity b c q = Inr v"
  shows "\<exists>bs. b = JStr bs \<and> 45 \<notin> set bs \<and>
    (v = bs \<and> c = JStr (lit ''stable'') \<and> q = JNull
     \<or> (\<exists>ch. c = JStr ch \<and> 46 \<notin> set ch \<and> ch \<noteq> lit ''stable'' \<and> v = bs @ 45 # ch @ 46 # py_str q
          \<and> (if ch = lit ''nightly'' then \<exists>qs. q = JStr qs else \<exists>i. q = JInt i \<and> 0 < i)))"
  using assms by (cases rule: identity_cases) (simp_all add: base_chars, simp_all add: lit_def)

text \<open>
  Release identities are unique: two accepted decisions with the same version string are the same
  base, channel and sequence, so that two releases never share a version or a tag.
\<close>

theorem identity_is_injective:
  assumes "identity b c q = Inr v" "identity b' c' q' = Inr v"
  shows "b = b' \<and> c = c' \<and> q = q'"
proof -
  from identity_shape [OF assms(1)] obtain bs where b: "b = JStr bs" "45 \<notin> set bs"
    and v: "v = bs \<and> c = JStr (lit ''stable'') \<and> q = JNull
     \<or> (\<exists>ch. c = JStr ch \<and> 46 \<notin> set ch \<and> ch \<noteq> lit ''stable'' \<and> v = bs @ 45 # ch @ 46 # py_str q
          \<and> (if ch = lit ''nightly'' then \<exists>qs. q = JStr qs else \<exists>i. q = JInt i \<and> 0 < i))" by blast
  from identity_shape [OF assms(2)] obtain bs' where b': "b' = JStr bs'" "45 \<notin> set bs'"
    and v': "v = bs' \<and> c' = JStr (lit ''stable'') \<and> q' = JNull
     \<or> (\<exists>ch. c' = JStr ch \<and> 46 \<notin> set ch \<and> ch \<noteq> lit ''stable'' \<and> v = bs' @ 45 # ch @ 46 # py_str q'
          \<and> (if ch = lit ''nightly'' then \<exists>qs. q' = JStr qs else \<exists>i. q' = JInt i \<and> 0 < i))" by blast
  show ?thesis
  proof (cases "45 \<in> set v")
    case False
    with v v' b b' show ?thesis by auto
  next
    case True
    with v b(2) obtain ch where c: "c = JStr ch" "46 \<notin> set ch" "v = bs @ 45 # ch @ 46 # py_str q"
      "if ch = lit ''nightly'' then \<exists>qs. q = JStr qs else \<exists>i. q = JInt i \<and> 0 < i" by auto
    from True v' b'(2) obtain ch' where c': "c' = JStr ch'" "46 \<notin> set ch'" "v = bs' @ 45 # ch' @ 46 # py_str q'"
      "if ch' = lit ''nightly'' then \<exists>qs. q' = JStr qs else \<exists>i. q' = JInt i \<and> 0 < i" by auto
    have first: "bs = bs' \<and> ch @ 46 # py_str q = ch' @ 46 # py_str q'"
      by (rule split_first [OF b(2) b'(2)]) (use c(3) c'(3) in simp)
    then have "ch = ch' \<and> py_str q = py_str q'"
      by (intro split_first [OF c(2) c'(2)]) simp
    with first have eq: "bs = bs'" "ch = ch'" "py_str q = py_str q'" by simp_all
    then have "q = q'"
      using c(4) c'(4) by (auto simp: int_str_inj split: if_splits)
    with eq b b' c c' show ?thesis by simp
  qed
qed

text \<open>
  Nightly package numbers fit 64 bits and order builds as their runs: of two nightly builds the
  later run, or the later attempt of the same run, has the larger number, and only the same run and
  attempt share one.
\<close>

theorem nightly_numbers_order_runs:
  assumes "split_on 46 q = [stamp, run, attempt]" "split_on 46 q' = [stamp', run', attempt']"
    and "pep440_nightly base (JStr q) = Inr (base @ lit ''.dev'' @ nat_digits n)"
    and "pep440_nightly base (JStr q') = Inr (base @ lit ''.dev'' @ nat_digits n')"
  shows "n < 2 ^ 64 - 1
    \<and> (n < n' \<longleftrightarrow> digits_val run < digits_val run'
         \<or> digits_val run = digits_val run' \<and> digits_val attempt < digits_val attempt')
    \<and> (n = n' \<longleftrightarrow> digits_val run = digits_val run' \<and> digits_val attempt = digits_val attempt')"
proof -
  from assms(1,3) have n: "n = digits_val run * 1000000 + digits_val attempt" "digits_val attempt < 1000000" "n \<le> 2 ^ 64 - 2"
    by (simp_all add: pep440_nightly_def Let_def)
  from assms(2,4) have n': "n' = digits_val run' * 1000000 + digits_val attempt'" "digits_val attempt' < 1000000"
    by (simp_all add: pep440_nightly_def Let_def)
  show ?thesis
    using n n' by (cases "digits_val run" "digits_val run'" rule: linorder_cases) auto
qed

lemma lex_arith:
  fixes a b c e n :: int
  assumes "e = 100 * a + b" "e' = 100 * a' + b'" "n = 100 * e + c" "m = 100 * e' + c'"
    and "n < m" "a \<le> a'" "e \<le> e'"
  shows "a < a' \<or> a = a' \<and> (b < b' \<or> b = b' \<and> c < c')"
proof (cases "a = a'")
  case True
  then have "b \<le> b'" using assms by linarith
  show ?thesis
  proof (cases "b = b'")
    case True
    then have "e = e'" using assms \<open>a = a'\<close> by linarith
    then have "c < c'" using assms by linarith
    with True \<open>a = a'\<close> show ?thesis by blast
  next
    case False
    with \<open>b \<le> b'\<close> have "b < b'" by simp
    with \<open>a = a'\<close> show ?thesis by blast
  qed
qed (use assms in auto)

lemma lex_digits:
  assumes "n < (m :: int)"
  shows "n div 10000 < m div 10000
    \<or> n div 10000 = m div 10000 \<and> (n div 100 mod 100 < m div 100 mod 100
         \<or> n div 100 mod 100 = m div 100 mod 100 \<and> n mod 100 < m mod 100)"
proof (rule lex_arith [where e = "n div 100" and e' = "m div 100" and n = n and m = m])
  have dec: "k div 100 = 100 * (k div 10000) + k div 100 mod 100" for k :: int
    using mult_div_mod_eq [of 100 "k div 100"] by (simp add: zdiv_zmult2_eq [symmetric])
  show "n div 100 = 100 * (n div 10000) + n div 100 mod 100" "m div 100 = 100 * (m div 10000) + m div 100 mod 100"
    by (rule dec)+
qed (use assms in \<open>simp_all add: zdiv_mono1\<close>)

text \<open>
  The Apple build number of an allocated build fits the platform's limits (four digits, two
  digits, two digits) and is increasing: a later build has a lexicographically larger triple.
\<close>

theorem apple_build_orders_builds:
  assumes "0 < i" "i < j" "j \<le> 99990000"
  shows "\<exists>a b c a' b' c'.
    apple_build (Some i) = JStr (int_str a @ lit ''.'' @ int_str b @ lit ''.'' @ int_str c)
    \<and> apple_build (Some j) = JStr (int_str a' @ lit ''.'' @ int_str b' @ lit ''.'' @ int_str c')
    \<and> 1 \<le> a \<and> a' \<le> 9999 \<and> 0 \<le> b \<and> b < 100 \<and> 0 \<le> c \<and> c < 100 \<and> b' < 100 \<and> c' < 100
    \<and> (a < a' \<or> a = a' \<and> (b < b' \<or> b = b' \<and> c < c'))"
proof -
  let ?a = "\<lambda>n::int. (n - 1) div 10000 + 1" and ?b = "\<lambda>n::int. (n - 1) div 100 mod 100" and ?c = "\<lambda>n::int. (n - 1) mod 100"
  have "apple_build (Some n) = JStr (int_str (?a n) @ lit ''.'' @ int_str (?b n) @ lit ''.'' @ int_str (?c n))"
    if "0 < n" "n \<le> 99990000" for n
    using that by (simp add: apple_build_def Let_def)
  moreover have "1 \<le> ?a i" "?a j \<le> 9999" using assms by auto
  moreover have "?a i < ?a j \<or> ?a i = ?a j \<and> (?b i < ?b j \<or> ?b i = ?b j \<and> ?c i < ?c j)"
    using lex_digits [of "i - 1" "j - 1"] assms(2) by (simp add: zle_add1_eq_le [symmetric] add.commute)
  moreover have "0 \<le> ?b n" "?b n < 100" "0 \<le> ?c n" "?c n < 100" for n
    by simp_all
  moreover have "0 < j" "i \<le> 99990000" using assms by simp_all
  ultimately show ?thesis
    using assms(1,3) by blast
qed

section \<open>Witnesses\<close>

definition sample_policy :: json where
  "sample_policy = JObj [(lit ''versioning'', JObj
     [(lit ''schema'', JInt 1), (lit ''promotion'', JStr (lit ''promote-bytes'')),
      (lit ''files'', JList [JObj [(lit ''path'', JStr (lit ''VERSION'')), (lit ''format'', JStr (lit ''text''))]])])]"

definition sample_sha :: sha256 where
  "sample_sha bs = replicate 64 48"

lemma sample_sha_shape: "SHA256 (sample_sha bs)"
  by (simp add: SHA256_def sample_sha_def list_all_iff is_hex_lower_def is_digit_def)

lemma sample_policy_valid:
  "\<exists>config. validate_policy sample_policy = Inr config
     \<and> dict_get config (lit ''files'') JNull
        = JList [JObj [(lit ''path'', JStr (lit ''VERSION'')), (lit ''format'', JStr (lit ''text''))]]
     \<and> dict_get config (lit ''build_number_floor'') (JInt 0) = JInt 0"
proof -
  let ?item = "[(lit ''path'', JStr (lit ''VERSION'')), (lit ''format'', JStr (lit ''text''))]"
  have rel: "relative (JStr (lit ''VERSION'')) = Inr (lit ''VERSION'')"
    by (simp add: relative_def startswith_def lit_def)
  have "check_declaration False (JObj ?item) = Inr ?item"
    by (simp add: check_declaration_def only_keys_def dict_get_def in_strings_def FORMATS_def has_key_def rel
        VALUES_def single_line_def input_declaration_def kind_in_def)
  moreover have "selector_of ?item = Inr (lit ''VERSION'', lit ''text'', [], None)"
    by (simp add: selector_of_def has_key_def dict_get_def)
  ultimately have "check_files [JObj ?item] [] = Inr ()"
    by simp
  then show ?thesis
    by (simp add: validate_policy_def sample_policy_def dict_get_def only_keys_def promotion_ok_def in_strings_def
        has_key_def required_build_receipts_def del: check_files.simps)
qed

lemma sample_identity: "identity (JStr (lit ''1.2.3'')) (JStr (lit ''beta'')) (JInt 4) = Inr (lit ''1.2.3-beta.4'')"
  by (simp add: identity_def in_strings_def jint_def BASE_def number_part_def is_digit_def lit_def
      int_str_def nat_digits.simps)

lemma sample_plan_for:
  assumes "identity base channel seqn = Inr v" and "0 < n" and "n \<le> 2100000000"
  shows "\<exists>p. create_plan sample_sha (\<lambda>_. []) base channel seqn (JStr (replicate 40 48)) sample_policy (JInt n) = Inr p
     \<and> pl_version p = v"
proof -
  obtain config where c: "validate_policy sample_policy = Inr config"
    "dict_get config (lit ''files'') JNull
        = JList [JObj [(lit ''path'', JStr (lit ''VERSION'')), (lit ''format'', JStr (lit ''text''))]]"
    "dict_get config (lit ''build_number_floor'') (JInt 0) = JInt 0"
    using sample_policy_valid by blast
  have "\<exists>v. projected_value p [(lit ''path'', JStr (lit ''VERSION'')), (lit ''format'', JStr (lit ''text''))] = Inr v" for p
    by (simp add: projected_value_def projections_def dict_get_def in_strings_def)
  then have "project_all p config = Inr ()" for p
    by (auto simp: project_all_def c(2) bind_r_Inr_iff)
  then show ?thesis
    using assms
    by (simp add: create_plan_def c(1,3) SHA_def list_all_iff is_hex_lower_def is_digit_def build_ok_def
        jint_def above_floor_def)
qed

lemma sample_plan_created:
  "\<exists>p. create_plan sample_sha (\<lambda>_. []) (JStr (lit ''1.2.3'')) (JStr (lit ''beta'')) (JInt 4)
     (JStr (replicate 40 48)) sample_policy (JInt 7) = Inr p \<and> pl_version p = lit ''1.2.3-beta.4''"
  by (rule sample_plan_for [OF sample_identity]) simp_all


theorem identity_is_injective_witness:
  "(JStr (lit ''1.2.3''), JStr (lit ''beta''), JInt 4) = (JStr (lit ''1.2.3''), JStr (lit ''beta''), JInt 4)
   \<and> identity (JStr (lit ''1.2.3'')) (JStr (lit ''beta'')) (JInt 4) = Inr (lit ''1.2.3-beta.4'')"
  using identity_is_injective [OF sample_identity sample_identity] sample_identity by simp

theorem nightly_numbers_order_runs_witness:
  "(7000001 :: nat) < 7000002"
proof -
  have q: "split_on 46 (lit ''20240101000000.7.1'') = [lit ''20240101000000'', lit ''7'', lit ''1'']"
    "split_on 46 (lit ''20240101000000.7.2'') = [lit ''20240101000000'', lit ''7'', lit ''2'']"
    by (simp_all add: lit_def)
  have p: "pep440_nightly [] (JStr (lit ''20240101000000.7.1'')) = Inr ([] @ lit ''.dev'' @ nat_digits 7000001)"
    "pep440_nightly [] (JStr (lit ''20240101000000.7.2'')) = Inr ([] @ lit ''.dev'' @ nat_digits 7000002)"
    by (simp_all add: pep440_nightly_def q Let_def) (simp_all add: lit_def digits_val_def)
  from nightly_numbers_order_runs [OF q p] show ?thesis
    by (simp add: lit_def digits_val_def)
qed

theorem apple_build_orders_builds_witness:
  "\<exists>a b c. apple_build (Some 5) = JStr (int_str a @ lit ''.'' @ int_str b @ lit ''.'' @ int_str c) \<and> b < 100"
  using apple_build_orders_builds [of 5 10001] by auto

end
