(* ===== verification/Release_Control.thy ===== *)
theory Release_Control
  imports Github_Api Version_Plan
begin

text \<open>
  The read-only checks of \<open>scripts/release_control.py\<close> that every publication passes: the identity of the
  repository, the provenance of the workflow run, the release gate of the exact attempt, the automatic
  candidates a newer commit replaced, and the tags and sequence numbers that are still free. The process
  environment, the checked-out commit and the table of lower-case letters are arguments.
\<close>

section \<open>Dictionaries and strings\<close>

abbreviation jget :: "json_dict \<Rightarrow> string \<Rightarrow> json" where
  "jget d k \<equiv> dict_get d (lit k) JNull"

text \<open>The receiver of a \<open>.get\<close> call: only a dictionary has the method.\<close>

definition as_dict :: "json \<Rightarrow> json_dict result" where
  "as_dict v = (case v of JObj d \<Rightarrow> Inr d | _ \<Rightarrow> Inl AttributeError)"

definition is_str_list :: "json \<Rightarrow> pystr list \<Rightarrow> bool" where
  "is_str_list v ss \<longleftrightarrow> (case v of JStr s \<Rightarrow> s \<in> set ss | _ \<Rightarrow> False)"

text \<open>\<open>isinstance(v, str) and RE.fullmatch(v)\<close>.\<close>

definition str_matches :: "rexp \<Rightarrow> json \<Rightarrow> bool" where
  "str_matches r v \<longleftrightarrow> (case v of JStr s \<Rightarrow> fullmatch r s | _ \<Rightarrow> False)"

definition hex_upper :: "nat \<Rightarrow> nat" where
  "hex_upper d = (if d < 10 then 48 + d else 55 + d)"

text \<open>\<open>quote(s, safe="")\<close>.\<close>

definition quote_byte :: "nat \<Rightarrow> pystr" where
  "quote_byte b =
     (if is_digit b \<or> 65 \<le> b \<and> b \<le> 90 \<or> 97 \<le> b \<and> b \<le> 122 \<or> b \<in> {95, 46, 126, 45} then [b]
      else [37, hex_upper (b div 16), hex_upper (b mod 16)])"

definition quote :: "pystr \<Rightarrow> pystr result" where
  "quote s = bind_r (utf8_encode s) (\<lambda>bs. Inr (concat (map quote_byte bs)))"

definition WORKFLOW :: pystr where
  "WORKFLOW = lit ''.github/workflows/release-pipeline.yml''"

abbreviation gh_get :: "github \<Rightarrow> pystr \<Rightarrow> json gh" where
  "gh_get gh path \<equiv> api gh path ''GET'' None"

section \<open>Repository and run identity\<close>

definition same_repo :: "(nat \<Rightarrow> pystr) \<Rightarrow> github \<Rightarrow> json \<Rightarrow> bool result" where
  "same_repo uni gh v =
     (case v of JStr s \<Rightarrow> Inr (py_lower uni s = py_lower uni (gh_repo gh)) | _ \<Rightarrow> Inl AttributeError)"

definition repository_info :: "(nat \<Rightarrow> pystr) \<Rightarrow> github \<Rightarrow> json_dict gh" where
  "repository_info uni gh =
     gh_bind (gh_get gh []) (\<lambda>info.
       gh_lift
         (case info of
            JObj d \<Rightarrow>
              bind_r (same_repo uni gh (dict_get d (lit ''full_name'') (JStr []))) (\<lambda>ok.
                rreq ok ''Repository identity mismatch''
               (rreq (truthy (jget d ''default_branch'')) ''Repository has no default branch'' (Inr d)))
          | _ \<Rightarrow> Inl (ReleaseError ''Invalid repository response'')))"

definition check_ancestry :: "github \<Rightarrow> pystr \<Rightarrow> pystr \<Rightarrow> unit gh" where
  "check_ancestry gh sha default_branch =
     gh_bind (gh_lift (quote default_branch)) (\<lambda>q.
     gh_bind (gh_get gh (lit ''compare/'' @ sha @ lit ''...'' @ q)) (\<lambda>v.
       gh_lift
         (bind_r (as_dict v) (\<lambda>comparison.
            rreq (is_str_list (jget comparison ''status'') [lit ''ahead'', lit ''identical''])
              ''Source commit is not an ancestor of the current default branch''
           (bind_r (as_dict (dict_get comparison (lit ''merge_base_commit'') (JObj []))) (\<lambda>merge_base.
              rreq (jget merge_base ''sha'' = JStr sha) ''Source/default branch ancestry could not be verified''
                (Inr ())))))))"

definition nested_name :: "json_dict \<Rightarrow> string \<Rightarrow> json result" where
  "nested_name run k =
     bind_r (as_dict (dict_get run (lit k) (JObj []))) (\<lambda>d. Inr (dict_get d (lit ''full_name'') (JStr [])))"

definition validate_run_provenance ::
  "(nat \<Rightarrow> pystr) \<Rightarrow> github \<Rightarrow> json_dict \<Rightarrow> json_dict \<Rightarrow> pystr \<Rightarrow> int \<Rightarrow> unit result" where
  "validate_run_provenance uni gh run info sha attempt =
     bind_r (nested_name run ''repository'') (\<lambda>n1.
     bind_r (same_repo uni gh n1) (\<lambda>ok1.
     rreq ok1 ''Source run belongs to another repository''
    (bind_r (nested_name run ''head_repository'') (\<lambda>n2.
     bind_r (same_repo uni gh n2) (\<lambda>ok2.
     rreq ok2 ''Source run comes from another repository''
    (rreq (jget run ''head_sha'' = JStr sha \<and> fullmatch SHA_RE sha) ''Source run SHA mismatch''
    (rreq (jget run ''path'' = JStr WORKFLOW) ''Source run uses an unexpected workflow path''
    (bind_r (py_getitem (JObj info) (lit ''default_branch'')) (\<lambda>branch.
     rreq (json_eq (jget run ''head_branch'') branch) ''Source run does not target the default branch''
    (rreq (is_str_list (jget run ''event'') [lit ''push'', lit ''schedule'', lit ''workflow_dispatch''])
       ''Untrusted source run event''
    (rreq (json_eq (jget run ''run_attempt'') (JInt attempt))
       ''Source run was rerun; evidence is not from its latest attempt''
    (Inr ()))))))))))))"

section \<open>Times of execution\<close>

text \<open>Days before the first of January of a year, counted from year 1.\<close>

definition days_before_year :: "nat \<Rightarrow> nat" where
  "days_before_year y = 365 * (y - 1) + (y - 1) div 4 - (y - 1) div 100 + (y - 1) div 400"

definition days_before_month :: "nat \<Rightarrow> nat \<Rightarrow> nat" where
  "days_before_month y m = sum_list (map (days_in_month y) [1..<m])"

definition LOCAL_TIME :: rexp where
  "LOCAL_TIME = r_seq
     [r_rep 4 r_digit, r_char 45, r_rep 2 r_digit, r_char 45, r_rep 2 r_digit, r_char 84,
      r_rep 2 r_digit, r_char 58, r_rep 2 r_digit, r_char 58, r_rep 2 r_digit,
      r_opt (r_seq [r_char 46, r_digit, r_upto 5 r_digit])]"

definition OFFSET :: rexp where
  "OFFSET = r_seq
     [RClass True [(43, 43), (45, 45)], RAlt (RSeq (RClass True [(48, 49)]) r_digit) (RSeq (r_char 50) (RClass True [(48, 51)])),
      r_char 58, RClass True [(48, 53)], r_digit]"

definition digits_at :: "nat \<Rightarrow> nat \<Rightarrow> pystr \<Rightarrow> nat" where
  "digits_at i n s = digits_val (take n (drop i s))"

text \<open>The microseconds of a local time since the first of January of year 1, when it is a date.\<close>

definition local_micros :: "pystr \<Rightarrow> int option" where
  "local_micros s =
     (let y = digits_at 0 4 s; mo = digits_at 5 2 s; d = digits_at 8 2 s;
          h = digits_at 11 2 s; mi = digits_at 14 2 s; se = digits_at 17 2 s;
          frac = drop 20 s; us = digits_val (frac @ replicate (6 - length frac) 48)
      in if 1 \<le> y \<and> 1 \<le> mo \<and> mo \<le> 12 \<and> 1 \<le> d \<and> d \<le> days_in_month y mo \<and> h \<le> 23 \<and> mi \<le> 59 \<and> se \<le> 59
         then Some (int (((((days_before_year y + days_before_month y mo + d - 1) * 24 + h) * 60 + mi) * 60 + se)
                          * 1000000 + us))
         else None)"

definition offset_micros :: "pystr \<Rightarrow> int" where
  "offset_micros off =
     (let m = int (digits_at 1 2 off * 60 + digits_at 4 2 off) * 60 * 1000000
      in if hd off = 45 then - m else m)"

definition MAX_MICROS :: int where
  "MAX_MICROS = int (days_before_year 10000) * 24 * 60 * 60 * 1000000"

definition execution_timestamp :: "json \<Rightarrow> int result" where
  "execution_timestamp v =
     (case v of
        JStr s \<Rightarrow>
          (let zulu = endswith s (lit ''Z'');
               local = (if zulu then butlast s else take (length s - 6) s);
               off = (if zulu then lit ''+00:00'' else drop (length s - 6) s)
           in rreq (zulu \<or> fullmatch OFFSET off) ''Missing or malformed time''
             (rreq (fullmatch LOCAL_TIME local) ''Missing or malformed time''
               (case local_micros local of
                  None \<Rightarrow> Inl (ReleaseError ''Missing or malformed time'')
                | Some t \<Rightarrow>
                    guard_r (0 \<le> t - offset_micros off \<and> t - offset_micros off < MAX_MICROS) OverflowError
                      (Inr (t - offset_micros off)))))
      | _ \<Rightarrow> Inl (ReleaseError ''Missing or malformed time''))"

section \<open>The release gate\<close>

definition step_in_interval :: "int \<Rightarrow> int \<Rightarrow> json_dict \<Rightarrow> unit result" where
  "step_in_interval start_time end_time step =
     rreq (jget step ''status'' = JStr (lit ''completed'')) ''Successful job has incomplete execution steps''
    (bind_r (execution_timestamp (jget step ''started_at'')) (\<lambda>step_start.
     bind_r (execution_timestamp (jget step ''completed_at'')) (\<lambda>step_end.
     rreq (start_time \<le> step_start \<and> step_start \<le> step_end \<and> step_end \<le> end_time)
       ''Executed step lies outside the current job interval'' (Inr ()))))"

definition require_fresh_job_timing :: "json_dict \<Rightarrow> int \<Rightarrow> unit result" where
  "require_fresh_job_timing job boundary =
     bind_r (execution_timestamp (jget job ''started_at'')) (\<lambda>start_time.
     bind_r (execution_timestamp (jget job ''completed_at'')) (\<lambda>end_time.
     rreq (boundary \<le> start_time \<and> start_time \<le> end_time) ''Successful job predates the current release attempt''
    (case jget job ''steps'' of
       JList steps \<Rightarrow>
         rreq (steps \<noteq> []) ''Successful job lacks execution steps''
        (case map_r as_dict steps of
           Inl _ \<Rightarrow> Inl (ReleaseError ''Malformed job execution step'')
         | Inr ds \<Rightarrow>
             (let successful_steps = filter (\<lambda>step. jget step ''conclusion'' = JStr (lit ''success'')) ds
              in rreq (successful_steps \<noteq> []) ''Successful job lacks successful execution steps''
                   (each_r (step_in_interval start_time end_time) successful_steps)))
     | _ \<Rightarrow> Inl (ReleaseError ''Successful job lacks execution steps''))))"

definition succeeded :: "json_dict \<Rightarrow> bool" where
  "succeeded job \<longleftrightarrow>
     jget job ''status'' = JStr (lit ''completed'') \<and> jget job ''conclusion'' = JStr (lit ''success'')"

definition attempt_path :: "int \<Rightarrow> int \<Rightarrow> pystr" where
  "attempt_path run_id attempt = lit ''actions/runs/'' @ int_str run_id @ lit ''/attempts/'' @ int_str attempt"

definition check_attempt_job :: "pystr \<Rightarrow> int \<Rightarrow> int \<Rightarrow> json_dict \<Rightarrow> unit result" where
  "check_attempt_job sha attempt boundary job =
     (if \<not> succeeded job then Inr ()
      else rreq (jget job ''head_sha'' = JStr sha \<and> json_eq (jget job ''run_attempt'') (JInt attempt))
             ''Successful job differs from the current release attempt''
             (require_fresh_job_timing job boundary))"

definition require_current_attempt_jobs ::
  "github \<Rightarrow> int \<Rightarrow> pystr \<Rightarrow> int \<Rightarrow> json_dict list \<Rightarrow> unit gh" where
  "require_current_attempt_jobs gh run_id sha attempt jobs =
     (if attempt = 1 then gh_lift (Inr ())
      else
        gh_bind (gh_get gh (attempt_path run_id attempt)) (\<lambda>raw_detail.
          gh_lift
            (case raw_detail of
               JObj detail \<Rightarrow>
                 rreq (json_eq (jget detail ''id'') (JInt run_id) \<and> json_eq (jget detail ''run_attempt'') (JInt attempt)
                       \<and> jget detail ''head_sha'' = JStr sha \<and> jget detail ''path'' = JStr WORKFLOW)
                   ''Release attempt metadata identity mismatch''
                (bind_r (execution_timestamp (jget detail ''run_started_at'')) (\<lambda>boundary.
                   each_r (check_attempt_job sha attempt boundary) jobs))
             | _ \<Rightarrow> Inl (ReleaseError ''Malformed release attempt metadata''))))"

definition gate_failure :: string where
  "gate_failure = ''Exactly one successful, completed Release gate is required; skipped is not a pass''"

definition pending_states :: "string list" where
  "pending_states = [''queued'', ''requested'', ''pending'', ''waiting'', ''in_progress'']"

definition release_gate_ready :: "github \<Rightarrow> int \<Rightarrow> pystr \<Rightarrow> int \<Rightarrow> bool \<Rightarrow> bool gh" where
  "release_gate_ready gh run_id sha attempt allow_pending =
     gh_bind (pages gh (attempt_path run_id attempt @ lit ''/jobs'') (Some ''jobs'')) (\<lambda>js.
     gh_bind (gh_lift (map_r as_dict js)) (\<lambda>jobs.
       let gates = filter (\<lambda>job. jget job ''name'' = JStr (lit ''Release gate'')) jobs
       in if gates = [] \<and> allow_pending then gh_lift (Inr False)
          else
            gh_require (length gates = 1) gate_failure
           (let gate = hd gates
            in gh_require (jget gate ''head_sha'' = JStr sha) ''Release gate SHA mismatch''
              (gh_bind (gh_lift (if allow_pending then in_strings (jget gate ''status'') pending_states else Inr False))
                (\<lambda>pending.
                   if pending
                   then gh_require (jget gate ''conclusion'' = JNull) gate_failure (gh_lift (Inr False))
                   else
                     gh_require (succeeded gate) gate_failure
                    (gh_bind (require_current_attempt_jobs gh run_id sha attempt jobs) (\<lambda>_. gh_lift (Inr True))))))))"

definition validate_run ::
  "(nat \<Rightarrow> pystr) \<Rightarrow> github \<Rightarrow> json_dict \<Rightarrow> json_dict \<Rightarrow> pystr \<Rightarrow> int \<Rightarrow> bool \<Rightarrow> bool \<Rightarrow> unit gh" where
  "validate_run uni gh run info sha attempt completed gate =
     gh_bind (gh_lift (validate_run_provenance uni gh run info sha attempt)) (\<lambda>_.
     gh_require (if completed then succeeded run else jget run ''status'' = JStr (lit ''in_progress''))
       (if completed then ''Source run has not completed successfully'' else ''Publication run is not in progress'')
    (if gate
     then gh_bind (gh_lift (positive (jget run ''id''))) (\<lambda>run_id.
          gh_bind (release_gate_ready gh run_id sha attempt False) (\<lambda>_. gh_lift (Inr ())))
     else gh_lift (Inr ())))"

section \<open>Free tags and sequence numbers\<close>

definition tag_prefix :: "pystr \<Rightarrow> pystr \<Rightarrow> pystr" where
  "tag_prefix base channel = lit ''v'' @ base @ lit ''-'' @ channel @ lit ''.''"

text \<open>The sequence number a tag carries, when it has the prefix.\<close>

definition tag_number :: "pystr \<Rightarrow> json \<Rightarrow> int option result" where
  "tag_number prefix tag =
     (case tag of
        JStr t \<Rightarrow>
          Inr (if startswith t prefix \<and> fullmatch r_posint (drop (length prefix) t)
               then Some (int (digits_val (drop (length prefix) t))) else None)
      | _ \<Rightarrow> Inl AttributeError)"

definition named :: "string \<Rightarrow> json list \<Rightarrow> json list result" where
  "named k items = map_r (\<lambda>item. bind_r (as_dict item) (\<lambda>d. Inr (dict_get d (lit k) (JStr [])))) items"

definition max_default :: "int list \<Rightarrow> int" where
  "max_default ns = fold max ns 0"

definition next_sequence :: "github \<Rightarrow> pystr \<Rightarrow> pystr \<Rightarrow> int gh" where
  "next_sequence gh base_version channel =
     gh_require (channel \<in> {lit ''beta'', lit ''rc''}) ''Sequence only applies to beta and rc''
    (gh_bind (gh_lift (version base_version)) (\<lambda>base.
     gh_bind (pages gh (lit ''tags'') None) (\<lambda>ts.
     gh_bind (gh_lift (named ''name'' ts)) (\<lambda>tags.
     gh_bind (pages gh (lit ''releases'') None) (\<lambda>rs.
     gh_bind (gh_lift (named ''tag_name'' rs)) (\<lambda>releases.
       gh_lift (bind_r (map_r (tag_number (tag_prefix base channel)) (tags @ releases)) (\<lambda>ns.
         Inr (max_default (map the (filter (\<lambda>n. n \<noteq> None) ns)) + 1)))))))))"

definition ensure_absent :: "github \<Rightarrow> pystr \<Rightarrow> unit gh" where
  "ensure_absent gh tag =
     gh_bind (gh_lift (quote tag)) (\<lambda>q.
     gh_bind (optional gh (lit ''git/ref/tags/'' @ q)) (\<lambda>ref.
     gh_require (ref = JNull) ''Tag already exists''
    (gh_bind (optional gh (lit ''releases/tags/'' @ q)) (\<lambda>release.
     gh_require (release = JNull) ''Release already exists''
    (gh_bind (pages gh (lit ''releases'') None) (\<lambda>rs.
     gh_bind (gh_lift (any_r (\<lambda>r. bind_r (as_dict r) (\<lambda>d. Inr (jget d ''tag_name'' = JStr tag))) rs)) (\<lambda>found.
     gh_require (\<not> found) ''Draft release already exists'' (gh_lift (Inr ())))))))))"

text \<open>\<open>now.strftime("%Y%m%d%H%M%S")\<close> is the argument \<open>stamp\<close>.\<close>

definition candidate_tag ::
  "github \<Rightarrow> pystr \<Rightarrow> pystr \<Rightarrow> int \<Rightarrow> int \<Rightarrow> json \<Rightarrow> pystr \<Rightarrow> pystr gh" where
  "candidate_tag gh channel base_version run_id attempt sequence stamp =
     gh_bind (gh_lift (version base_version)) (\<lambda>base.
       let prefix = tag_prefix base channel
       in if channel = lit ''nightly''
          then gh_require (sequence = JNull) ''Nightly tags do not accept a sequence''
                 (gh_lift (Inr (prefix @ stamp @ [46] @ int_str run_id @ [46] @ int_str attempt)))
          else
            gh_require (channel \<in> {lit ''beta'', lit ''rc''}) ''Invalid candidate channel''
           (gh_bind (if sequence \<noteq> JNull then gh_lift (positive sequence) else next_sequence gh base_version channel)
             (\<lambda>n. gh_lift (Inr (prefix @ int_str n)))))"

definition ref_sha :: "json \<Rightarrow> pystr \<Rightarrow> pystr list \<Rightarrow> pystr option" where
  "ref_sha ref name types =
     (case ref of
        JObj d \<Rightarrow>
          (case (jget d ''ref'', jget d ''object'') of
             (JStr r, JObj obj) \<Rightarrow>
               (case jget obj ''sha'' of
                  JStr sha \<Rightarrow> if r = name \<and> is_str_list (jget obj ''type'') types \<and> fullmatch SHA_RE sha then Some sha else None
                | _ \<Rightarrow> None)
           | _ \<Rightarrow> None)
      | _ \<Rightarrow> None)"

definition version_required :: "pystr \<Rightarrow> pystr \<Rightarrow> json_dict" where
  "version_required base tag =
     [(lit ''status'', JStr (lit ''version-required'')), (lit ''channel'', JStr (lit ''beta'')),
      (lit ''version'', JStr base), (lit ''build'', JStr (lit ''false'')), (lit ''plan_artifact'', JStr []),
      (lit ''reason'', JStr (lit ''Stable tag '' @ tag @ lit '' already exists; prepare and merge the next ''
         @ lit ''committed base version before creating another beta.''))]"

definition closed_push_cycle :: "github \<Rightarrow> pystr \<Rightarrow> string \<Rightarrow> json_dict option gh" where
  "closed_push_cycle gh base kind =
     (if kind \<noteq> ''push'' then gh_lift (Inr None)
      else
        gh_bind (gh_lift (version base)) (\<lambda>b.
        gh_bind (gh_lift (quote (lit ''v'' @ b))) (\<lambda>q.
          (\<lambda>h. case gh_get gh (lit ''git/ref/tags/'' @ q) h of
                 (Inl e, h') \<Rightarrow> if e = GitHubError True then (Inr None, h') else (Inl e, h')
               | (Inr ref, h') \<Rightarrow>
                   (rreq (ref_sha ref (lit ''refs/tags/v'' @ b) [lit ''commit'', lit ''tag''] \<noteq> None)
                      ''Invalid stable tag response during automatic beta preparation''
                      (Inr (Some (version_required base (lit ''v'' @ b)))), h')))))"

section \<open>Automatic candidates and the default branch\<close>

definition workflow_tree :: "github \<Rightarrow> pystr \<Rightarrow> pystr gh" where
  "workflow_tree gh sha =
     gh_bind (gh_get gh (lit ''contents/.github?ref='' @ sha)) (\<lambda>v.
       gh_lift
         (case v of
            JList entries \<Rightarrow>
              rreq (length entries < 1000 \<and> list_all is_obj entries) ''Cannot verify the complete source .github directory''
             (bind_r (map_r as_dict entries) (\<lambda>ds.
                let matches = filter (\<lambda>e. jget e ''name'' = JStr (lit ''workflows'')
                                         \<or> jget e ''path'' = JStr (lit ''.github/workflows'')) ds
                in rreq (length matches = 1 \<and> jget (hd matches) ''name'' = JStr (lit ''workflows'')
                         \<and> jget (hd matches) ''path'' = JStr (lit ''.github/workflows'')
                         \<and> jget (hd matches) ''type'' = JStr (lit ''dir'')
                         \<and> str_matches SHA_RE (jget (hd matches) ''sha''))
                     ''Cannot verify a regular source .github/workflows directory''
                     (Inr (jstr_val (jget (hd matches) ''sha'')))))
          | _ \<Rightarrow> Inl (ReleaseError ''Cannot verify the complete source .github directory'')))"

definition quote_value :: "json \<Rightarrow> pystr result" where
  "quote_value v = (case v of JStr s \<Rightarrow> quote s | _ \<Rightarrow> Inl TypeError)"

definition heads_path :: "json_dict \<Rightarrow> pystr result" where
  "heads_path info = bind_r (quote_value (jget info ''default_branch'')) (\<lambda>q. Inr (lit ''git/ref/heads/'' @ q))"

definition branch_of :: "json_dict \<Rightarrow> pystr" where
  "branch_of info = jstr_val (jget info ''default_branch'')"

definition check_workflow_publication :: "(nat \<Rightarrow> pystr) \<Rightarrow> github \<Rightarrow> bool \<Rightarrow> pystr \<Rightarrow> unit gh" where
  "check_workflow_publication uni gh workflow_scope_verified sha =
     gh_require (fullmatch SHA_RE sha) ''Invalid release source SHA''
    (if workflow_scope_verified then gh_lift (Inr ())
     else
       gh_bind (repository_info uni gh) (\<lambda>info.
       gh_bind (gh_lift (heads_path info)) (\<lambda>path.
       gh_bind (gh_get gh path) (\<lambda>ref.
         case ref_sha ref (lit ''refs/heads/'' @ branch_of info) [lit ''commit''] of
           None \<Rightarrow> gh_lift (Inl (ReleaseError ''Cannot verify default HEAD before release publication''))
         | Some head \<Rightarrow>
             if sha = head then gh_lift (Inr ())
             else
               gh_bind (workflow_tree gh sha) (\<lambda>t1.
               gh_bind (workflow_tree gh head) (\<lambda>t2.
               gh_require (t1 = t2) ''Release source workflows differ from current default HEAD''
              (gh_bind (repository_info uni gh) (\<lambda>info2.
               gh_require (json_eq (jget info2 ''default_branch'') (jget info ''default_branch''))
                 ''Default branch changed during publication preflight; retry at current HEAD''
              (gh_bind (gh_get gh path) (\<lambda>ref2.
               gh_require (json_eq ref2 ref) ''Default branch changed during publication preflight; retry at current HEAD''
                 (gh_lift (Inr ()))))))))))))"

definition newer_run :: "json_dict \<Rightarrow> json_dict \<Rightarrow> bool result" where
  "newer_run successor run =
     (if jget successor ''event'' \<noteq> JStr (lit ''push'') then Inr False
      else
        bind_r (positive (jget successor ''id'')) (\<lambda>i1. bind_r (positive (jget run ''id'')) (\<lambda>i2.
          if \<not> i1 > i2 then Inr False
          else
            bind_r (positive (jget successor ''run_number'')) (\<lambda>n1. bind_r (positive (jget run ''run_number'')) (\<lambda>n2.
              if \<not> n1 > n2 then Inr False
              else in_strings (jget successor ''status'') (pending_states @ [''completed'']))))))"

definition superseded_result :: "github \<Rightarrow> json \<Rightarrow> pystr \<Rightarrow> json \<Rightarrow> json_dict" where
  "superseded_result gh head_sha head successor_id =
     [(lit ''status'', JStr (lit ''superseded'')), (lit ''source_sha'', head_sha), (lit ''superseded_by'', JStr head),
      (lit ''successor_run_id'', JStr (py_str successor_id)),
      (lit ''successor_run_url'', JStr (lit ''https://github.com/'' @ gh_repo gh @ lit ''/actions/runs/'' @ py_str successor_id))]"

definition single_run :: "json \<Rightarrow> json option" where
  "single_run v =
     (case v of
        JObj d \<Rightarrow>
          (case jget d ''workflow_runs'' of
             JList [successor] \<Rightarrow> if jint (jget d ''total_count'') = Some 1 then Some successor else None
           | _ \<Rightarrow> None)
      | _ \<Rightarrow> None)"

text \<open>The run that replaces a candidate: a newer automatic run of the same workflow at the new head.\<close>

definition accept_successor ::
  "(nat \<Rightarrow> pystr) \<Rightarrow> github \<Rightarrow> json_dict \<Rightarrow> json_dict \<Rightarrow> json \<Rightarrow> pystr \<Rightarrow> pystr \<Rightarrow> json \<Rightarrow> json_dict
   \<Rightarrow> json_dict option gh" where
  "accept_successor uni gh info run head_sha head path ref successor =
     gh_bind (gh_lift (positive (jget successor ''run_attempt''))) (\<lambda>attempt.
     gh_bind (gh_lift (validate_run_provenance uni gh successor info head attempt)) (\<lambda>_.
     gh_bind (gh_lift (newer_run successor run)) (\<lambda>newer.
     gh_require newer ''Replacement must be a newer automatic run of the default-branch release workflow''
    (gh_bind (gh_get gh path) (\<lambda>ref2.
     gh_require (json_eq ref2 ref) ''Default branch changed while verifying replacement; retry at current HEAD''
       (gh_lift (Inr (Some (superseded_result gh head_sha head (jget successor ''id''))))))))))"

definition superseded_candidate ::
  "(nat \<Rightarrow> pystr) \<Rightarrow> github \<Rightarrow> json_dict \<Rightarrow> json_dict \<Rightarrow> string \<Rightarrow> json_dict option gh" where
  "superseded_candidate uni gh info run channel =
     gh_bind (gh_lift (bind_r (py_getitem (JObj run) (lit ''event'')) (\<lambda>e. bind_r (in_strings e []) (\<lambda>_. Inr e)))) (\<lambda>event.
     if \<not> (event = JStr (lit ''push'') \<and> channel = ''beta'' \<or> event = JStr (lit ''schedule'') \<and> channel = ''nightly'')
     then gh_lift (Inr None)
     else
       gh_bind (repository_info uni gh) (\<lambda>current.
       gh_require (json_eq (jget current ''default_branch'') (jget info ''default_branch''))
         ''Default branch changed during this run; dispatch a fresh release''
      (gh_bind (gh_lift (heads_path info)) (\<lambda>path.
       gh_bind (gh_get gh path) (\<lambda>ref.
       case ref_sha ref (lit ''refs/heads/'' @ branch_of info) [lit ''commit''] of
         None \<Rightarrow> gh_lift (Inl (ReleaseError ''Cannot verify current default branch for automatic publication''))
       | Some head \<Rightarrow>
           gh_bind (gh_lift (py_getitem (JObj run) (lit ''head_sha''))) (\<lambda>head_sha.
           if head_sha = JStr head then gh_lift (Inr None)
           else
             gh_bind (gh_get gh (lit ''compare/'' @ py_str head_sha @ lit ''...'' @ head)) (\<lambda>v.
             gh_bind (gh_lift (case v of
                 JObj comparison \<Rightarrow>
                   if jget comparison ''status'' = JStr (lit ''ahead'')
                   then bind_r (as_dict (dict_get comparison (lit ''merge_base_commit'') (JObj []))) (\<lambda>m.
                          Inr (json_eq (jget m ''sha'') head_sha))
                   else Inr False
               | _ \<Rightarrow> Inr False)) (\<lambda>ahead.
             gh_require ahead ''Automatic release source is not a verified ancestor of current default HEAD''
            (gh_bind (gh_lift (quote_value (jget info ''default_branch''))) (\<lambda>q.
             gh_bind (gh_get gh (lit ''actions/workflows/release-pipeline.yml/runs?branch='' @ q
                        @ lit ''&event=push&head_sha='' @ head @ lit ''&per_page=100'')) (\<lambda>replacement.
             case single_run replacement of
               None \<Rightarrow> gh_lift (Inl (ReleaseError ''Default branch advanced without one proven replacement release run''))
             | Some (JObj successor) \<Rightarrow> accept_successor uni gh info run head_sha head path ref successor
             | Some _ \<Rightarrow> gh_lift (Inl (ReleaseError ''Invalid replacement release run'')))))))))))))"

section \<open>The executing job\<close>

text \<open>
  \<open>environ\<close> is the process environment, \<open>head\<close> the outcome of \<open>git rev-parse HEAD\<close>, \<open>read_file\<close> the
  reading of the event payload.
\<close>

definition checked_out_sha :: "proc \<Rightarrow> pystr result" where
  "checked_out_sha head =
     rreq (returncode head = 0) ''Must run from the checked-out release repository'' (Inr (strip (stdout head)))"

definition env_json :: "(string \<Rightarrow> pystr option) \<Rightarrow> string \<Rightarrow> json" where
  "env_json environ k = (case environ k of Some s \<Rightarrow> JStr s | None \<Rightarrow> JNull)"

definition allowed_events :: "string \<Rightarrow> string list result" where
  "allowed_events channel =
     (if channel = ''nightly'' then Inr [''schedule'', ''workflow_dispatch'']
      else if channel = ''beta'' then Inr [''push'', ''workflow_dispatch'']
      else if channel = ''rc'' \<or> channel = ''stable'' then Inr [''workflow_dispatch'']
      else Inl KeyError)"

definition dispatch_channel :: "json \<Rightarrow> json result" where
  "dispatch_channel payload =
     (case payload of
        JObj d \<Rightarrow> bind_r (as_dict (dict_get d (lit ''inputs'') (JObj []))) (\<lambda>i. Inr (jget i ''channel''))
      | _ \<Rightarrow> Inr JNull)"

definition check_execution ::
  "(nat \<Rightarrow> pystr) \<Rightarrow> github \<Rightarrow> (string \<Rightarrow> pystr option) \<Rightarrow> proc \<Rightarrow> (pystr \<Rightarrow> bytes result)
   \<Rightarrow> int \<Rightarrow> string \<Rightarrow> json_dict \<Rightarrow> json_dict \<Rightarrow> unit result" where
  "check_execution uni gh environ head read_file run_id channel info run =
     rreq (env_json environ ''GITHUB_ACTIONS'' = JStr (lit ''true''))
       ''Publication must run inside GitHub Actions; dispatch the release workflow locally''
    (rreq (py_lower uni (case environ ''GITHUB_REPOSITORY'' of Some r \<Rightarrow> r | None \<Rightarrow> []) = py_lower uni (gh_repo gh))
       ''Execution repository mismatch''
    (rreq (env_json environ ''GITHUB_RUN_ID'' = JStr (int_str run_id)) ''Execution run ID mismatch''
    (rreq (env_json environ ''GITHUB_RUN_ATTEMPT'' = JStr (py_str (jget run ''run_attempt'')))
       ''Execution run attempt mismatch''
    (bind_r (py_getitem (JObj info) (lit ''default_branch'')) (\<lambda>branch.
     rreq (env_json environ ''GITHUB_REF'' = JStr (lit ''refs/heads/'' @ py_str branch))
       ''Dispatch must target the default branch''
    (bind_r (py_getitem (JObj info) (lit ''full_name'')) (\<lambda>full_name.
     rreq (env_json environ ''GITHUB_WORKFLOW_REF''
             = JStr (py_str full_name @ [47] @ WORKFLOW @ lit ''@refs/heads/'' @ py_str branch))
       ''Execution workflow mismatch''
    (bind_r (checked_out_sha head) (\<lambda>sha.
     rreq (jget run ''head_sha'' = JStr sha) ''Checkout does not match the source run SHA''
    (rreq (json_eq (jget run ''event'') (env_json environ ''GITHUB_EVENT_NAME'')) ''Execution event mismatch''
    (bind_r (allowed_events channel) (\<lambda>events.
     rreq (is_str_list (env_json environ ''GITHUB_EVENT_NAME'') (map lit events)) ''Event cannot publish this channel''
    (if env_json environ ''GITHUB_EVENT_NAME'' = JStr (lit ''workflow_dispatch'')
     then
       rreq (truthy (env_json environ ''GITHUB_EVENT_PATH'')) ''Missing workflow dispatch event''
      (bind_r (read_file (jstr_val (env_json environ ''GITHUB_EVENT_PATH''))) (\<lambda>raw.
       bind_r (parse_json (jc_loads (gh_codec gh)) raw) (\<lambda>payload.
       bind_r (dispatch_channel payload) (\<lambda>c.
         rreq (c = JStr (lit channel)) ''Workflow dispatch input channel must be the channel'' (Inr ())))))
     else Inr ())))))))))))))"

section \<open>What the checks establish\<close>

lemma gh_bind_Inr_iff:
  "gh_bind m f h = (Inr y, h') \<longleftrightarrow> (\<exists>x h1. m h = (Inr x, h1) \<and> f x h1 = (Inr y, h'))"
  by (auto simp: gh_bind_def split: prod.splits sum.splits)

lemma gh_lift_Inr_iff [simp]: "gh_lift r h = (Inr y, h') \<longleftrightarrow> r = Inr y \<and> h' = h"
  by (auto simp: gh_lift_def)

lemma gh_require_Inr_iff [simp]: "gh_require c msg m h = (Inr y, h') \<longleftrightarrow> c \<and> m h = (Inr y, h')"
  by (simp add: gh_require_def)

lemma json_case_Inr:
  "(case v of JList xs \<Rightarrow> f xs | _ \<Rightarrow> Inl e) = Inr y \<longleftrightarrow> (\<exists>xs. v = JList xs \<and> f xs = Inr y)"
  "(case v of JObj d \<Rightarrow> g d | _ \<Rightarrow> Inl e) = Inr y \<longleftrightarrow> (\<exists>d. v = JObj d \<and> g d = Inr y)"
  "(case v of JStr s \<Rightarrow> k s | _ \<Rightarrow> Inl e) = Inr y \<longleftrightarrow> (\<exists>s. v = JStr s \<and> k s = Inr y)"
  by (cases v; simp)+

lemma sum_case_Inr: "(case r of Inl _ \<Rightarrow> Inl e | Inr x \<Rightarrow> f x) = Inr y \<longleftrightarrow> (\<exists>x. r = Inr x \<and> f x = Inr y)"
  by (cases r) auto

lemmas gh_success = gh_bind_Inr_iff bind_r_Inr_iff json_case_Inr sum_case_Inr

lemma posint_value:
  assumes "0 < n"
  shows "fullmatch r_posint (int_str n) \<and> int (digits_val (int_str n)) = n"
proof -
  have "fullmatch r_posint (nat_digits m)" if "0 < m" for m
    using that
  proof (induction m rule: nat_digits.induct)
    case (1 m)
    show ?case
    proof (cases "m < 10")
      case True
      have "denotes (RStar r_digit) []" by (simp, rule exI [of _ "[]"]) simp
      moreover have "denotes (RClass True [(49, 57)]) [48 + m]"
        using True 1 by (simp add: in_class_def)
      ultimately have "denotes r_posint ([48 + m] @ [])"
        unfolding r_posint_def denotes.simps(5) by blast
      with True show ?thesis by (simp add: nat_digits.simps [of m] fullmatch_denotes)
    next
      case False
      with 1 have "denotes r_posint (nat_digits (m div 10))" by (simp add: fullmatch_denotes)
      then obtain c us where us: "nat_digits (m div 10) = c # concat us" "in_class True [(49, 57)] c"
        "\<forall>u\<in>set us. denotes r_digit u"
        by (auto simp: r_posint_def)
      have "denotes (RStar r_digit) (concat (us @ [[48 + m mod 10]]))"
        unfolding denotes.simps(6)
        by (rule exI [of _ "us @ [[48 + m mod 10]]"]) (use us(3) in \<open>auto simp: is_digit_def\<close>)
      moreover have "denotes (RClass True [(49, 57)]) [c]" using us(2) by simp
      ultimately have "denotes r_posint ([c] @ concat (us @ [[48 + m mod 10]]))"
        unfolding r_posint_def denotes.simps(5) by blast
      with False us(1) show ?thesis by (simp add: nat_digits.simps [of m] fullmatch_denotes)
    qed
  qed
  with assms show ?thesis by (simp add: int_str_def)
qed

lemma max_default_ge: "n \<in> set ns \<Longrightarrow> n \<le> max_default ns" "0 \<le> max_default ns"
proof -
  have fold_ge: "a \<le> fold max ns a \<and> (\<forall>n\<in>set ns. n \<le> fold max ns a)" for a :: int and ns
    by (induction ns arbitrary: a) (auto, (metis max.bounded_iff)+)
  then show "n \<in> set ns \<Longrightarrow> n \<le> max_default ns" "0 \<le> max_default ns"
    by (auto simp: max_default_def)
qed

lemma tag_number_of_tag:
  assumes "0 < m"
  shows "tag_number prefix (JStr (prefix @ int_str m)) = Inr (Some m)"
  using posint_value [OF assms] by (simp add: tag_number_def)

definition names_tag :: "string \<Rightarrow> pystr \<Rightarrow> json \<Rightarrow> bool" where
  "names_tag k tag item \<longleftrightarrow> (case item of JObj d \<Rightarrow> jget d k = JStr tag | _ \<Rightarrow> False)"

lemma named_tag:
  assumes "named k items = Inr names" and "item \<in> set items" and "names_tag k tag item"
  shows "JStr tag \<in> set names"
proof -
  from assms(3) obtain d where d: "item = JObj d" "jget d k = JStr tag"
    by (auto simp: names_tag_def split: json.splits)
  then have "dict_get d (lit k) (JStr []) = JStr tag"
    by (auto simp: dict_get_def split: option.splits)
  moreover have "list_all2 (\<lambda>item name. bind_r (as_dict item) (\<lambda>d. Inr (dict_get d (lit k) (JStr []))) = Inr name) items names"
    using assms(1) by (simp add: named_def map_r_Inr_iff)
  ultimately show ?thesis
    using assms(2) d by (fastforce simp: list_all2_conv_all_nth in_set_conv_nth as_dict_def)
qed

lemma numbers_below_next:
  assumes ns: "map_r (tag_number prefix) names = Inr ns" and t: "JStr (prefix @ int_str m) \<in> set names" and m: "0 < m"
  shows "m < max_default (map the (filter (\<lambda>n. n \<noteq> None) ns)) + 1"
proof -
  from ns have "list_all2 (\<lambda>t n. tag_number prefix t = Inr n) names ns" by (simp add: map_r_Inr_iff)
  with t tag_number_of_tag [OF m] have "Some m \<in> set ns"
    by (fastforce simp: list_all2_conv_all_nth in_set_conv_nth)
  then have "m \<in> set (map the (filter (\<lambda>n. n \<noteq> None) ns))" by force
  from max_default_ge(1) [OF this] show ?thesis by simp
qed

text \<open>
  The next beta or release-candidate number is positive and above the number of every tag and every
  release, drafts included, that the service lists for that version and channel, so the tag built from it
  is unused.
\<close>

theorem next_sequence_is_free:
  assumes "next_sequence gh base channel h = (Inr n, h')"
  shows "1 \<le> n \<and> (\<exists>ts h1 rs. pages gh (lit ''tags'') None h = (Inr ts, h1) \<and> pages gh (lit ''releases'') None h1 = (Inr rs, h')
     \<and> (\<forall>m>0. \<forall>item. item \<in> set ts \<and> names_tag ''name'' (tag_prefix base channel @ int_str m) item
             \<or> item \<in> set rs \<and> names_tag ''tag_name'' (tag_prefix base channel @ int_str m) item \<longrightarrow> m < n))"
proof -
  from assms obtain ts h1 tags rs releases ns where
    ts: "pages gh (lit ''tags'') None h = (Inr ts, h1)" "named ''name'' ts = Inr tags"
    and rs: "pages gh (lit ''releases'') None h1 = (Inr rs, h')" "named ''tag_name'' rs = Inr releases"
    and ns: "map_r (tag_number (tag_prefix base channel)) (tags @ releases) = Inr ns"
    and n: "n = max_default (map the (filter (\<lambda>n. n \<noteq> None) ns)) + 1"
    by (auto simp: next_sequence_def gh_success version_def)
  have "m < n" if "0 < m" and "item \<in> set ts \<and> names_tag ''name'' (tag_prefix base channel @ int_str m) item
             \<or> item \<in> set rs \<and> names_tag ''tag_name'' (tag_prefix base channel @ int_str m) item" for m item
  proof -
    from that(2) have "JStr (tag_prefix base channel @ int_str m) \<in> set (tags @ releases)"
      using named_tag [OF ts(2)] named_tag [OF rs(2)] by auto
    from numbers_below_next [OF ns this \<open>0 < m\<close>] n show ?thesis by simp
  qed
  with ts rs n max_default_ge(2) show ?thesis by auto
qed

text \<open>What a successful job of a rerun must show, step by step.\<close>

definition runs_within :: "int \<Rightarrow> int \<Rightarrow> json_dict \<Rightarrow> bool" where
  "runs_within lo hi d \<longleftrightarrow>
     (\<exists>s e. execution_timestamp (jget d ''started_at'') = Inr s \<and> execution_timestamp (jget d ''completed_at'') = Inr e
        \<and> lo \<le> s \<and> s \<le> e \<and> e \<le> hi)"

definition executed_after :: "int \<Rightarrow> json_dict \<Rightarrow> bool" where
  "executed_after boundary job \<longleftrightarrow>
     (\<exists>s e steps. execution_timestamp (jget job ''started_at'') = Inr s
        \<and> execution_timestamp (jget job ''completed_at'') = Inr e
        \<and> boundary \<le> s \<and> s \<le> e \<and> jget job ''steps'' = JList steps
        \<and> (\<exists>d. JObj d \<in> set steps \<and> succeeded d)
        \<and> (\<forall>d. JObj d \<in> set steps \<longrightarrow> jget d ''conclusion'' = JStr (lit ''success'') \<longrightarrow> runs_within s e d))"

lemma map_r_as_dict: "map_r as_dict xs = Inr ds \<longleftrightarrow> xs = map JObj ds"
  by (induction xs arbitrary: ds) (auto simp: as_dict_def bind_r_Inr_iff split: json.splits)

lemma step_in_interval_iff:
  "step_in_interval lo hi d = Inr () \<longleftrightarrow> jget d ''status'' = JStr (lit ''completed'') \<and> runs_within lo hi d"
  by (auto simp: step_in_interval_def runs_within_def bind_r_Inr_iff)

lemma require_fresh_job_timing_sound:
  assumes "require_fresh_job_timing job boundary = Inr ()"
  shows "executed_after boundary job"
proof -
  from assms obtain s e steps where t: "execution_timestamp (jget job ''started_at'') = Inr s"
      "execution_timestamp (jget job ''completed_at'') = Inr e" "boundary \<le> s" "s \<le> e"
      "jget job ''steps'' = JList steps"
    by (auto simp: require_fresh_job_timing_def gh_success)
  with assms obtain ds where ds: "steps = map JObj ds"
      "filter (\<lambda>step. jget step ''conclusion'' = JStr (lit ''success'')) ds \<noteq> []"
      "each_r (step_in_interval s e) (filter (\<lambda>step. jget step ''conclusion'' = JStr (lit ''success'')) ds) = Inr ()"
    by (auto simp: require_fresh_job_timing_def gh_success Let_def map_r_as_dict)
  from ds(3) have good: "\<forall>d\<in>set ds. jget d ''conclusion'' = JStr (lit ''success'') \<longrightarrow>
      jget d ''status'' = JStr (lit ''completed'') \<and> runs_within s e d"
    by (simp add: each_r_Inr_iff step_in_interval_iff)
  moreover from ds(2) obtain d where "d \<in> set ds" "jget d ''conclusion'' = JStr (lit ''success'')"
    by (auto simp: filter_empty_conv)
  ultimately show ?thesis
    using t ds(1) by (auto simp: executed_after_def succeeded_def)
qed

definition attempt_is_fresh :: "github \<Rightarrow> int \<Rightarrow> pystr \<Rightarrow> int \<Rightarrow> json_dict list \<Rightarrow> command list \<Rightarrow> command list \<Rightarrow> bool" where
  "attempt_is_fresh gh run_id sha attempt jobs h h' \<longleftrightarrow>
     (\<exists>detail boundary. gh_get gh (attempt_path run_id attempt) h = (Inr (JObj detail), h')
        \<and> jget detail ''head_sha'' = JStr sha \<and> execution_timestamp (jget detail ''run_started_at'') = Inr boundary
        \<and> (\<forall>job\<in>set jobs. succeeded job \<longrightarrow> jget job ''head_sha'' = JStr sha \<and> executed_after boundary job))"

lemma require_current_attempt_jobs_sound:
  assumes "require_current_attempt_jobs gh run_id sha attempt jobs h = (Inr (), h')"
  shows "attempt = 1 \<or> attempt_is_fresh gh run_id sha attempt jobs h h'"
  using assms unfolding require_current_attempt_jobs_def attempt_is_fresh_def
  by (auto simp: gh_success each_r_Inr_iff check_attempt_job_def require_fresh_job_timing_sound
      split: if_splits)

text \<open>
  C39: The release gate opens only for the exact attempt of a run: among all jobs of that attempt exactly
  one is the release gate, it completed successfully, at the released commit; and in a rerun every
  successful job belongs to that commit and ran, with its successful steps, after the attempt started, so a
  success copied from an earlier attempt does not count.
\<close>

theorem gate_opens_for_this_attempt:
  assumes "release_gate_ready gh run_id sha attempt allow_pending h = (Inr True, h')"
  shows "\<exists>jobs h1 gate. pages gh (attempt_path run_id attempt @ lit ''/jobs'') (Some ''jobs'') h = (Inr (map JObj jobs), h1)
     \<and> filter (\<lambda>job. jget job ''name'' = JStr (lit ''Release gate'')) jobs = [gate]
     \<and> succeeded gate \<and> jget gate ''head_sha'' = JStr sha
     \<and> (attempt = 1 \<or> attempt_is_fresh gh run_id sha attempt jobs h1 h')"
proof -
  from assms obtain js h1 jobs where js: "pages gh (attempt_path run_id attempt @ lit ''/jobs'') (Some ''jobs'') h = (Inr js, h1)"
    "map_r as_dict js = Inr jobs"
    by (auto simp: release_gate_ready_def gh_success)
  let ?gates = "filter (\<lambda>job. jget job ''name'' = JStr (lit ''Release gate'')) jobs"
  from assms js have g: "length ?gates = 1" "jget (hd ?gates) ''head_sha'' = JStr sha" "succeeded (hd ?gates)"
    "require_current_attempt_jobs gh run_id sha attempt jobs h1 = (Inr (), h')"
    by (auto simp: release_gate_ready_def gh_success Let_def split: if_splits)
  from g(1) obtain gate where "?gates = [gate]" by (auto simp: length_Suc_conv)
  with js g show ?thesis
    using require_current_attempt_jobs_sound [OF g(4)] by (auto simp: map_r_as_dict)
qed

section \<open>A service that answers every read with one page\<close>

definition page_proc :: proc where
  "page_proc = \<lparr>returncode = 0, stdout = lit ''HTTP/2.0 200 OK'' @ [10, 10] @ lit ''[]'', stderr = []\<rparr>"

definition page_codec :: "json \<Rightarrow> json_codec" where
  "page_codec page = \<lparr>jc_loads = (\<lambda>b. Inr (if b = lit ''[]'' then page else JList [page])),
     jc_raw_decode = (\<lambda>_. Some 2), jc_dumps = (\<lambda>_. [])\<rparr>"

definition page_github :: "json \<Rightarrow> github" where
  "page_github page = \<lparr>gh_repo = lit ''o/r'', gh_env = (\<lambda>_ _. Completed page_proc), gh_codec = page_codec page\<rparr>"

lemma page_head: "github_http_head (stdout page_proc) = Inr (200, lit ''[]'')"
proof -
  have "fullmatch STATUS_LINE (lit ''HTTP/2.0 200 OK'')"
    by (simp add: STATUS_LINE_def r_http_def r_lit_def r_char_def r_opt_def r_rep_def r_digit_def lit_def in_class_def
        eval_nat_numeral(2,3))
  then show ?thesis
    by (simp add: github_http_head_def page_proc_def lit_def blank_def status_code_def digits_val_def)
qed

lemma page_read:
  assumes "json_wf page"
  shows "completed_read (page_codec page) page_proc True b = Inr (Some [10])"
proof -
  have "http_pages (jc_loads (page_codec page)) (jc_raw_decode (page_codec page)) 200 (lit ''[]'') [] = Inr (200, Some [page])"
    using assms by (subst http_pages.simps) (simp add: page_codec_def blanks_def parse_json_def lit_def)
  then have "http_response (page_codec page) (stdout page_proc) True = Inr (200, [10])"
    using page_head by (simp add: http_response_def github_http_response_def json_lines_def) (simp add: page_codec_def)
  then show ?thesis
    by (simp add: completed_read_def response_def) (simp add: page_proc_def)
qed

lemma page_endpoint: "endpoint_of (page_github page) path ''pages'' \<notin> {lit ''--method'', lit ''--input''}"
proof -
  obtain t where "endpoint_of (page_github page) path ''pages'' = 114 # t"
  proof -
    have "\<exists>t. rstrip_char 47 (114 # s) = 114 # t" for s
      by (auto simp: rstrip_char_def dropWhile_append) (metis rev_rev_ident)
    then have "\<exists>t. rstrip_char 47 (lit ''repos/'' @ gh_repo (page_github page) @ [47] @ path) = 114 # t"
      by (simp add: lit_def)
    then show ?thesis using that by (auto simp: endpoint_of_def Let_def)
  qed
  then show ?thesis by (simp add: lit_def)
qed

lemma page_pages:
  assumes wf: "json_wf page" and path: "list_ex (\<lambda>p. fullmatch p path) API_GET"
    and parts: "list_all (\<lambda>part. part \<noteq> lit ''.'' \<and> part \<noteq> lit ''..'') (split_on 47 (unquote path))"
    and zip: "\<not> endswith path (lit ''/zip'')" and vs: "page_values fld page = Inr vs"
  shows "\<exists>h'. pages (page_github page) path fld h = (Inr vs, h')"
proof -
  let ?c = "api_command (page_github page) path ''GET'' None ''pages''"
  have "read_attempts (gh_env (page_github page)) (gh_codec (page_github page)) ?c True API_READ_ATTEMPTS h = (Inr [10], h @ [?c])"
    by (simp add: API_READ_ATTEMPTS_def numeral_3_eq_3) (simp add: page_github_def page_read [OF wf])
  then have "request (page_github page) path ''GET'' None ''pages'' h = (Inr [10], h @ [?c])"
    using path parts zip page_endpoint [of page path]
    by (simp add: request_def gh_require_eq API_PATHS_def perform_def read_get_def api_command_def mode_arguments_def
        eq_commute [of "lit ''--input''"])
  then have "pages (page_github page) path fld h = (Inr vs, h @ [?c])"
    using vs wf
    by (simp add: pages_def gh_bind_def gh_lift_def page_github_def page_codec_def parse_json_def lit_def)
  then show ?thesis by blast
qed

definition sample_tags :: json where
  "sample_tags = JList [JObj [(lit ''name'', JStr (lit ''v1.2.3-beta.4''))]]"

lemma sample_tags_pages:
  "\<exists>h'. pages (page_github sample_tags) (lit ''tags'') None h = (Inr [JObj [(lit ''name'', JStr (lit ''v1.2.3-beta.4''))]], h')"
  "\<exists>h'. pages (page_github sample_tags) (lit ''releases'') None h = (Inr [JObj [(lit ''name'', JStr (lit ''v1.2.3-beta.4''))]], h')"
proof -
  have g: "list_ex (\<lambda>p. fullmatch p (lit ''tags'')) API_GET" "list_ex (\<lambda>p. fullmatch p (lit ''releases'')) API_GET"
    by (simp_all add: API_GET_def fullmatch_denotes)
  have u: "list_all (\<lambda>part. part \<noteq> lit ''.'' \<and> part \<noteq> lit ''..'') (split_on 47 (unquote (lit ''tags'')))"
      "list_all (\<lambda>part. part \<noteq> lit ''.'' \<and> part \<noteq> lit ''..'') (split_on 47 (unquote (lit ''releases'')))"
    by (simp_all add: unquote_def lit_def hex_val_def is_digit_def utf8_step_def)
  have z: "\<not> endswith (lit ''tags'') (lit ''/zip'')" "\<not> endswith (lit ''releases'') (lit ''/zip'')"
    by (simp_all add: endswith_def startswith_def lit_def)
  have v: "page_values None sample_tags = Inr [JObj [(lit ''name'', JStr (lit ''v1.2.3-beta.4''))]]" "json_wf sample_tags"
    by (simp_all add: page_values_def sample_tags_def)
  show "\<exists>h'. pages (page_github sample_tags) (lit ''tags'') None h = (Inr [JObj [(lit ''name'', JStr (lit ''v1.2.3-beta.4''))]], h')"
    "\<exists>h'. pages (page_github sample_tags) (lit ''releases'') None h = (Inr [JObj [(lit ''name'', JStr (lit ''v1.2.3-beta.4''))]], h')"
    by (rule page_pages [OF v(2) g(1) u(1) z(1) v(1)]) (rule page_pages [OF v(2) g(2) u(2) z(2) v(1)])
qed

lemma sample_next_sequence:
  "\<exists>h'. next_sequence (page_github sample_tags) (lit ''1.2.3'') (lit ''beta'') [] = (Inr 5, h')"
proof -
  have ver: "version (lit ''1.2.3'') = Inr (lit ''1.2.3'')"
    by (simp add: version_def VERSION_PATTERN_def r_number_def r_posint_def r_char_def r_digit_def lit_def in_class_def)
  have num: "tag_number (tag_prefix (lit ''1.2.3'') (lit ''beta'')) (JStr (lit ''v1.2.3-beta.4'')) = Inr (Some 4)"
    by (simp add: tag_number_def tag_prefix_def lit_def startswith_def r_posint_def r_digit_def in_class_def digits_val_def)
  have empty: "tag_number (tag_prefix (lit ''1.2.3'') (lit ''beta'')) (JStr []) = Inr None"
    by (simp add: tag_number_def tag_prefix_def lit_def startswith_def)
  obtain h1 where h1: "pages (page_github sample_tags) (lit ''tags'') None [] = (Inr [JObj [(lit ''name'', JStr (lit ''v1.2.3-beta.4''))]], h1)"
    using sample_tags_pages(1) by blast
  obtain h2 where h2: "pages (page_github sample_tags) (lit ''releases'') None h1 = (Inr [JObj [(lit ''name'', JStr (lit ''v1.2.3-beta.4''))]], h2)"
    using sample_tags_pages(2) by blast
  show ?thesis
    using h1 h2 num empty
    by (intro exI [of _ h2])
      (simp add: next_sequence_def gh_require_eq gh_bind_def gh_lift_def ver named_def as_dict_def dict_get_def max_default_def)
qed

theorem next_sequence_is_free_witness:
  "\<exists>h'. (1::int) \<le> 5 \<and> (\<exists>ts h1 rs. pages (page_github sample_tags) (lit ''tags'') None [] = (Inr ts, h1)
     \<and> pages (page_github sample_tags) (lit ''releases'') None h1 = (Inr rs, h')
     \<and> (\<forall>m>0. \<forall>item. item \<in> set ts \<and> names_tag ''name'' (tag_prefix (lit ''1.2.3'') (lit ''beta'') @ int_str m) item
             \<or> item \<in> set rs \<and> names_tag ''tag_name'' (tag_prefix (lit ''1.2.3'') (lit ''beta'') @ int_str m) item \<longrightarrow> m < 5))"
  using sample_next_sequence next_sequence_is_free [of "page_github sample_tags" "lit ''1.2.3''" "lit ''beta''" "[]" 5] by blast

definition sample_gate :: json_dict where
  "sample_gate = [(lit ''name'', JStr (lit ''Release gate'')), (lit ''head_sha'', JStr (replicate 40 97)),
     (lit ''status'', JStr (lit ''completed'')), (lit ''conclusion'', JStr (lit ''success''))]"

lemma sample_attempt_path: "attempt_path 7 1 @ lit ''/jobs'' = lit ''actions/runs/7/attempts/1/jobs''"
  by (simp add: attempt_path_def int_str_def nat_digits.simps lit_def)

lemma sample_gate_pages:
  "\<exists>h'. pages (page_github (JObj [(lit ''jobs'', JList [JObj sample_gate])])) (attempt_path 7 1 @ lit ''/jobs'') (Some ''jobs'') []
     = (Inr [JObj sample_gate], h')"
proof (rule page_pages)
  show "json_wf (JObj [(lit ''jobs'', JList [JObj sample_gate])])"
    by (simp add: sample_gate_def)
  have "denotes (r_seq [r_lit ''actions/runs/'', r_posint,
        r_opt (RAlt (r_lit ''/artifacts'') (r_seq [r_lit ''/attempts/'', r_posint, r_lit ''/jobs'']))])
      (lit ''actions/runs/7/attempts/1/jobs'')"
    by (simp only: fullmatch_denotes [symmetric])
      (simp add: r_posint_def r_opt_def r_lit_def r_char_def r_digit_def lit_def in_class_def)
  then show "list_ex (\<lambda>p. fullmatch p (attempt_path 7 1 @ lit ''/jobs'')) API_GET"
    unfolding sample_attempt_path by (simp add: API_GET_def fullmatch_denotes)
  show "list_all (\<lambda>part. part \<noteq> lit ''.'' \<and> part \<noteq> lit ''..'') (split_on 47 (unquote (attempt_path 7 1 @ lit ''/jobs'')))"
    unfolding sample_attempt_path by (simp add: unquote_def lit_def hex_val_def is_digit_def utf8_step_def)
  show "\<not> endswith (attempt_path 7 1 @ lit ''/jobs'') (lit ''/zip'')"
    unfolding sample_attempt_path by (simp add: endswith_def startswith_def lit_def)
  show "page_values (Some ''jobs'') (JObj [(lit ''jobs'', JList [JObj sample_gate])]) = Inr [JObj sample_gate]"
    by (simp add: page_values_def dict_get_def)
qed

lemma sample_gate_ready:
  "\<exists>h'. release_gate_ready (page_github (JObj [(lit ''jobs'', JList [JObj sample_gate])])) 7 (replicate 40 97) 1 False [] = (Inr True, h')"
proof -
  obtain h1 where h1: "pages (page_github (JObj [(lit ''jobs'', JList [JObj sample_gate])])) (attempt_path 7 1 @ lit ''/jobs'') (Some ''jobs'') []
     = (Inr [JObj sample_gate], h1)"
    using sample_gate_pages by blast
  have "jget sample_gate ''name'' = JStr (lit ''Release gate'')" "jget sample_gate ''head_sha'' = JStr (replicate 40 97)"
    "succeeded sample_gate"
    by (simp_all add: sample_gate_def dict_get_def succeeded_def)
  with h1 show ?thesis
    by (intro exI [of _ h1])
      (simp add: release_gate_ready_def gh_require_eq gh_bind_def gh_lift_def as_dict_def require_current_attempt_jobs_def)
qed

theorem gate_opens_for_this_attempt_witness:
  "\<exists>h' jobs h1 gate. pages (page_github (JObj [(lit ''jobs'', JList [JObj sample_gate])])) (attempt_path 7 1 @ lit ''/jobs'') (Some ''jobs'') []
       = (Inr (map JObj jobs), h1)
     \<and> filter (\<lambda>job. jget job ''name'' = JStr (lit ''Release gate'')) jobs = [gate]
     \<and> succeeded gate \<and> jget gate ''head_sha'' = JStr (replicate 40 97)
     \<and> ((1::int) = 1 \<or> attempt_is_fresh (page_github (JObj [(lit ''jobs'', JList [JObj sample_gate])])) 7 (replicate 40 97) 1 jobs h1 h')"
  using sample_gate_ready gate_opens_for_this_attempt by blast

end
