(* ===== verification/Base64.thy ===== *)
theory Base64
  imports Prelude
begin

text \<open>
  Python's \<open>base64\<close> as the ledger of releases uses it: \<open>b64encode\<close>, the strict \<open>b64decode(validate=True)\<close>,
  and their round trip.
\<close>

definition b64char :: "nat \<Rightarrow> nat" where
  "b64char n =
     (if n < 26 then 65 + n else if n < 52 then 71 + n else if n < 62 then n - 4 else if n = 62 then 43 else 47)"

definition b64val :: "nat \<Rightarrow> nat option" where
  "b64val c =
     (if 65 \<le> c \<and> c \<le> 90 then Some (c - 65) else if 97 \<le> c \<and> c \<le> 122 then Some (c - 71)
      else if 48 \<le> c \<and> c \<le> 57 then Some (c + 4) else if c = 43 then Some 62 else if c = 47 then Some 63 else None)"

fun b64encode :: "bytes \<Rightarrow> pystr" where
  "b64encode [] = []"
| "b64encode [a] = [b64char (a div 4), b64char (a mod 4 * 16), 61, 61]"
| "b64encode [a, b] = [b64char (a div 4), b64char (a mod 4 * 16 + b div 16), b64char (b mod 16 * 4), 61]"
| "b64encode (a # b # c # r) =
     b64char (a div 4) # b64char (a mod 4 * 16 + b div 16) # b64char (b mod 16 * 4 + c div 64) # b64char (c mod 64)
     # b64encode r"

text \<open>Four digits make three bytes; only the last group may end in one or two \<open>=\<close>.\<close>

definition quad :: "nat \<Rightarrow> nat \<Rightarrow> nat \<Rightarrow> nat \<Rightarrow> bytes option" where
  "quad w x y z =
     (case (b64val w, b64val x, b64val y, b64val z) of
        (Some a, Some b, Some c, Some d) \<Rightarrow> Some [a * 4 + b div 16, b mod 16 * 16 + c div 4, c mod 4 * 64 + d]
      | _ \<Rightarrow> None)"

definition last_quad :: "nat \<Rightarrow> nat \<Rightarrow> nat \<Rightarrow> nat \<Rightarrow> bytes option" where
  "last_quad w x y z =
     (if z \<noteq> 61 then quad w x y z
      else
        (case (b64val w, b64val x, b64val y) of
           (Some a, Some b, Some c) \<Rightarrow> Some [a * 4 + b div 16, b mod 16 * 16 + c div 4]
         | (Some a, Some b, None) \<Rightarrow> if y = 61 then Some [a * 4 + b div 16] else None
         | _ \<Rightarrow> None))"

fun b64decode :: "pystr \<Rightarrow> bytes option" where
  "b64decode [] = Some []"
| "b64decode (w # x # y # z # r) =
     (if r = [] then last_quad w x y z
      else (case (quad w x y z, b64decode r) of (Some p, Some q) \<Rightarrow> Some (p @ q) | _ \<Rightarrow> None))"
| "b64decode _ = None"

lemma b64val_char [simp]: "n < 64 \<Longrightarrow> b64val (b64char n) = Some n"
  by (auto simp: b64val_def b64char_def)

lemma b64char_not_pad [simp]: "n < 64 \<Longrightarrow> b64char n \<noteq> 61"
  by (auto simp: b64char_def)

lemma b64val_pad [simp]: "b64val 61 = None"
  by (simp add: b64val_def)

lemma b64encode_Nil_iff [simp]: "b64encode bs = [] \<longleftrightarrow> bs = []"
  by (cases bs rule: b64encode.cases) auto

lemma pack: "y < n \<Longrightarrow> (x * n + y) div n = x" "y < n \<Longrightarrow> (x * n + y) mod n = y" for x y n :: nat
  by simp_all

lemma div_bound: "a < k * n \<Longrightarrow> a div n < k" for a k n :: nat
  by (simp add: less_mult_imp_div_less)

lemma group_digits:
  assumes "a < 256" "b < 256" "c < (256::nat)"
  shows "a div 4 < 64" "a mod 4 * 16 < 64" "a mod 4 * 16 + b div 16 < 64" "b mod 16 * 4 < 64"
    "b mod 16 * 4 + c div 64 < 64" "c mod 64 < 64"
proof -
  have "a mod 4 < 4" "b div 16 < 16" "b mod 16 < 16" "c div 64 < 4"
    using assms by (simp_all add: div_bound)
  then show "a mod 4 * 16 < 64" "a mod 4 * 16 + b div 16 < 64" "b mod 16 * 4 < 64" "b mod 16 * 4 + c div 64 < 64"
    by linarith+
qed (use assms in \<open>simp_all add: div_bound\<close>)

lemma group_bytes:
  assumes "a < 256" "b < 256" "c < (256::nat)"
  shows "a div 4 * 4 + (a mod 4 * 16 + b div 16) div 16 = a"
    "(a mod 4 * 16 + b div 16) mod 16 * 16 + (b mod 16 * 4 + c div 64) div 4 = b"
    "(b mod 16 * 4 + c div 64) mod 4 * 64 + c mod 64 = c"
proof -
  have "b div 16 < 16" "c div 64 < 4"
    using assms by (simp_all add: div_bound)
  then show "a div 4 * 4 + (a mod 4 * 16 + b div 16) div 16 = a"
    "(a mod 4 * 16 + b div 16) mod 16 * 16 + (b mod 16 * 4 + c div 64) div 4 = b"
    "(b mod 16 * 4 + c div 64) mod 4 * 64 + c mod 64 = c"
    by (simp_all only: pack div_mult_mod_eq)
qed

lemma quad_encode:
  assumes "a < 256" "b < 256" "c < 256"
  shows "quad (b64char (a div 4)) (b64char (a mod 4 * 16 + b div 16)) (b64char (b mod 16 * 4 + c div 64)) (b64char (c mod 64))
    = Some [a, b, c]"
  unfolding quad_def b64val_char [OF group_digits(1) [OF assms]] b64val_char [OF group_digits(3) [OF assms]]
    b64val_char [OF group_digits(5) [OF assms]] b64val_char [OF group_digits(6) [OF assms]] option.case prod.case
    group_bytes [OF assms] ..

lemma b64_roundtrip: "list_all (\<lambda>b. b < 256) bs \<Longrightarrow> b64decode (b64encode bs) = Some bs"
proof (induction bs rule: b64encode.induct)
  case (2 a)
  then have a: "a < 256" by simp
  have "last_quad (b64char (a div 4)) (b64char (a mod 4 * 16)) 61 61 = Some [a]"
    using group_digits [OF a, of 0 0] group_bytes(1) [OF a, of 0 0] by (simp add: last_quad_def)
  then show ?case by simp
next
  case (3 a b)
  then have ab: "a < 256" "b < 256" by simp_all
  have "last_quad (b64char (a div 4)) (b64char (a mod 4 * 16 + b div 16)) (b64char (b mod 16 * 4)) 61 = Some [a, b]"
    using group_digits [OF ab, of 0] group_bytes(1) [OF ab, of 0] group_bytes(2) [OF ab, of 0]
    by (simp add: last_quad_def del: mod_mult_self3 mod_mult_self4 div_mult_self3 div_mult_self4)
  then show ?case by simp
next
  case (4 a b c r)
  then have abc: "a < 256" "b < 256" "c < 256" by simp_all
  from group_digits(6) [OF abc] have last: "last_quad w x y (b64char (c mod 64)) = quad w x y (b64char (c mod 64))" for w x y
    by (simp add: last_quad_def)
  from 4 quad_encode [OF abc] show ?case by (simp add: last)
qed simp

end
