(* ===== verification/Release_State.thy ===== *)
theory Release_State
  imports Release_Control Base64
begin

text \<open>
  \<open>scripts/release_state.py\<close>: the ledger of reserved version plans, one JSON file on its own branch that is
  replaced by compare-and-swap. The hash, the rendering of floats, \<open>strftime\<close> and the service are arguments.
  The ledger is kept as the parsed JSON object the code holds.
\<close>

section \<open>The state file\<close>

definition BRANCH :: string where
  "BRANCH = ''release-version-state''"

definition READ_PATH :: pystr where
  "READ_PATH = lit ''contents/release-version-state.json?ref=release-version-state''"

definition WRITE_PATH :: pystr where
  "WRITE_PATH = lit ''contents/release-version-state.json''"

definition REF_PATH :: pystr where
  "REF_PATH = lit ''git/ref/heads/release-version-state''"

definition state_command :: "github \<Rightarrow> pystr \<Rightarrow> string \<Rightarrow> json option \<Rightarrow> command" where
  "state_command gh path http_method body =
     (map lit [''gh'', ''api'', ''--hostname'', ''github.com'', ''--include'', ''--method'', http_method]
        @ (if (case body of Some b \<Rightarrow> truthy b | None \<Rightarrow> False) then map lit [''--input'', ''-''] else [])
        @ [lit ''--'', lit ''repos/'' @ gh_repo gh @ [47] @ path],
      body)"

text \<open>\<open>StateGitHub.request\<close>: the three ledger routes run once, every other request is the inherited one.\<close>

definition state_request :: "github \<Rightarrow> pystr \<Rightarrow> string \<Rightarrow> json option \<Rightarrow> string \<Rightarrow> bytes gh" where
  "state_request gh path http_method body mode =
     (let is_read = http_method = ''GET'' \<and> path \<in> {READ_PATH, REF_PATH} \<and> body = None;
          is_write = http_method = ''PUT'' \<and> path = WRITE_PATH \<and> (case body of Some b \<Rightarrow> is_obj b | None \<Rightarrow> False)
      in if \<not> (is_read \<or> is_write) then request gh path http_method body mode
         else
           gh_require (mode = ''json'') ''Ledger API supports only JSON''
          (gh_require (is_write \<longrightarrow> (case body of
               Some (JObj d) \<Rightarrow> jget d ''branch'' = JStr (lit BRANCH) | _ \<Rightarrow> False)) ''Ledger write branch mismatch''
          (gh_require (is_write \<longrightarrow> (case body of
               Some (JObj d) \<Rightarrow> only_keys d [''branch'', ''content'', ''message'', ''sha''] | _ \<Rightarrow> False)) ''Invalid ledger write''
          (gh_bind (run_command (gh_env gh) (state_command gh path http_method body)) (\<lambda>out.
             gh_lift (case out of
                 Completed result \<Rightarrow>
                   bind_r (http_response (gh_codec gh) (stdout result) False) (\<lambda>http. response result (Some http))
               | TimeoutExpired _ _ \<Rightarrow> Inl SubprocessError))))))"

definition state_api :: "github \<Rightarrow> pystr \<Rightarrow> string \<Rightarrow> json option \<Rightarrow> json gh" where
  "state_api gh path http_method body =
     gh_bind (state_request gh path http_method body ''json'') (\<lambda>raw.
       gh_lift (if bstrip_ws raw \<noteq> [] then parse_json (jc_loads (gh_codec gh)) raw else Inr JNull))"

definition state_optional :: "github \<Rightarrow> pystr \<Rightarrow> json gh" where
  "state_optional gh path h =
     (case state_api gh path ''GET'' None h of
        (Inl e, h') \<Rightarrow> if e = GitHubError True then (Inr JNull, h') else (Inl e, h')
      | r \<Rightarrow> r)"

section \<open>Reading the ledger\<close>

definition empty_ledger :: json_dict where
  "empty_ledger =
     [(lit ''schema'', JInt 1), (lit ''counter'', JInt 0), (lit ''publication_floor'', JInt 0), (lit ''plans'', JObj [])]"

definition ledger_counter :: "json_dict \<Rightarrow> int" where
  "ledger_counter state = (case jint (jget state ''counter'') of Some i \<Rightarrow> i | None \<Rightarrow> 0)"

definition ledger_floor :: "json_dict \<Rightarrow> int" where
  "ledger_floor state = (case jint (jget state ''publication_floor'') of Some i \<Rightarrow> i | None \<Rightarrow> 0)"

definition ledger_plans :: "json_dict \<Rightarrow> json_dict" where
  "ledger_plans state = (case jget state ''plans'' of JObj d \<Rightarrow> d | _ \<Rightarrow> [])"

definition record_plan :: "json \<Rightarrow> json_dict" where
  "record_plan r = (case r of JObj d \<Rightarrow> (case jget d ''plan'' of JObj p \<Rightarrow> p | _ \<Rightarrow> []) | _ \<Rightarrow> [])"

text \<open>\<open>plan["build_number"] <= n\<close>: a plan without a number raises a \<open>TypeError\<close>.\<close>

definition plan_number :: "plan \<Rightarrow> int result" where
  "plan_number p = (case pl_build_number p of Some n \<Rightarrow> Inr n | None \<Rightarrow> Inl TypeError)"

definition check_reservation :: "sha256 \<Rightarrow> (real \<Rightarrow> pystr) \<Rightarrow> int \<Rightarrow> pystr \<times> json \<Rightarrow> unit result" where
  "check_reservation sha fr counter entry =
     bind_r (positive (JStr (fst entry))) (\<lambda>_.
       case snd entry of
         JObj record \<Rightarrow>
           bind_r (validate_plan sha fr (jget record ''plan'') None None) (\<lambda>p.
           bind_r (plan_number p) (\<lambda>n.
             rreq (n \<le> counter) ''Ledger counter moved backwards'' (Inr ())))
       | _ \<Rightarrow> Inl (ReleaseError ''Invalid version reservation''))"

definition check_ledger :: "sha256 \<Rightarrow> (real \<Rightarrow> pystr) \<Rightarrow> json \<Rightarrow> json_dict result" where
  "check_ledger sha fr v =
     (case v of
        JObj state \<Rightarrow>
          rreq (jint (jget state ''schema'') = Some 1) ''Unsupported version ledger schema''
         (rreq (case jint (jget state ''counter'') of Some i \<Rightarrow> 0 \<le> i | None \<Rightarrow> False) ''Invalid ledger counter''
         (rreq (case jint (jget state ''publication_floor'') of
                  Some f \<Rightarrow> 0 \<le> f \<and> f \<le> ledger_counter state | None \<Rightarrow> False) ''Invalid ledger publication floor''
         (rreq (is_obj (jget state ''plans'')) ''Invalid ledger plans''
         (bind_r (each_r (check_reservation sha fr (ledger_counter state)) (ledger_plans state)) (\<lambda>_. Inr state)))))
      | _ \<Rightarrow> Inl (ReleaseError ''Unsupported version ledger schema''))"

definition decode_content :: "json_dict \<Rightarrow> bytes result" where
  "decode_content content =
     bind_r (py_getitem (JObj content) (lit ''content'')) (\<lambda>c.
       case c of
         JStr s \<Rightarrow> (case b64decode (filter (\<lambda>x. \<not> is_space x) s) of
                      Some raw \<Rightarrow> Inr raw | None \<Rightarrow> Inl (ValueError ''base64''))
       | _ \<Rightarrow> Inl AttributeError)"

text \<open>The file as the service returns it, and the blob identity the next write must name.\<close>

definition parse_ledger ::
  "sha256 \<Rightarrow> (real \<Rightarrow> pystr) \<Rightarrow> (bytes \<Rightarrow> json result) \<Rightarrow> json_dict \<Rightarrow> (json_dict \<times> pystr option) result" where
  "parse_ledger sha fr loads content =
     rreq (jget content ''type'' = JStr (lit ''file'') \<and> jget content ''encoding'' = JStr (lit ''base64''))
       ''Ledger must be a regular JSON file''
    (bind_r (decode_content content) (\<lambda>raw.
     rreq (length raw \<le> 4000000) ''Ledger requires compaction before another allocation''
    (bind_r (parse_json loads raw) (\<lambda>v.
     bind_r (check_ledger sha fr v) (\<lambda>state.
       case dict_get content (lit ''sha'') (JStr []) of
         JStr s \<Rightarrow> rreq (fullmatch SHA_RE s) ''Invalid ledger blob SHA'' (Inr (state, Some s))
       | _ \<Rightarrow> Inl TypeError)))))"

definition read_state :: "sha256 \<Rightarrow> (real \<Rightarrow> pystr) \<Rightarrow> github \<Rightarrow> (json_dict \<times> pystr option) gh" where
  "read_state sha fr gh =
     gh_bind (state_optional gh READ_PATH) (\<lambda>content.
       if content = JNull
       then
         gh_bind (state_optional gh REF_PATH) (\<lambda>ref.
         gh_require (ref = JNull) ''Version ledger is missing from its existing branch; restore it from history''
           (gh_lift (Inr (empty_ledger, None))))
       else gh_lift (bind_r (as_dict content) (parse_ledger sha fr (jc_loads (gh_codec gh)))))"

section \<open>Writing the ledger\<close>

definition write_body :: "(json \<Rightarrow> bytes) \<Rightarrow> json_dict \<Rightarrow> pystr option \<Rightarrow> json_dict" where
  "write_body dumps state previous =
     [(lit ''branch'', JStr (lit BRANCH)), (lit ''message'', JStr (lit ''Reserve release version plan'')),
      (lit ''content'', JStr (b64encode (json_lines dumps (JObj state))))]
     @ (case previous of Some s \<Rightarrow> if s = [] then [] else [(lit ''sha'', JStr s)] | None \<Rightarrow> [])"

definition write_state :: "github \<Rightarrow> json_dict \<Rightarrow> pystr option \<Rightarrow> unit gh" where
  "write_state gh state previous =
     gh_bind (state_api gh WRITE_PATH ''PUT'' (Some (JObj (write_body (jc_dumps (gh_codec gh)) state previous))))
       (\<lambda>_. gh_lift (Inr ()))"

section \<open>Reserving a plan\<close>

text \<open>The sequences already reserved for a version and channel.\<close>

definition reserved_sequences :: "json_dict \<Rightarrow> pystr \<Rightarrow> pystr \<Rightarrow> int list" where
  "reserved_sequences state base channel =
     map (\<lambda>p. case jint (jget p ''sequence'') of Some i \<Rightarrow> i | None \<Rightarrow> 0)
       (filter (\<lambda>p. jget p ''base_version'' = JStr base \<and> jget p ''channel'' = JStr channel)
          (map (\<lambda>e. record_plan (snd e)) (ledger_plans state)))"

definition policy_floor :: "json \<Rightarrow> int result" where
  "policy_floor policy =
     bind_r (py_getitem policy (lit ''versioning'')) (\<lambda>v.
     bind_r (py_get v (lit ''build_number_floor'') (JInt 0)) (\<lambda>f.
       case jint f of
         Some i \<Rightarrow> rreq (0 \<le> i) ''Invalid native build counter floor'' (Inr i)
       | None \<Rightarrow> Inl (ReleaseError ''Invalid native build counter floor'')))"

definition next_number :: "json_dict \<Rightarrow> int \<Rightarrow> int" where
  "next_number state fl = max (ledger_counter state) fl + 1"

definition reservation :: "plan \<Rightarrow> json \<Rightarrow> json" where
  "reservation p parent = JObj [(lit ''plan'', plan_json p), (lit ''parent'', parent)]"

definition with_reservation :: "json_dict \<Rightarrow> pystr \<Rightarrow> int \<Rightarrow> plan \<Rightarrow> json \<Rightarrow> json_dict" where
  "with_reservation state run_key number p parent =
     AList.update (lit ''plans'') (JObj (AList.update run_key (reservation p parent) (ledger_plans state)))
       (AList.update (lit ''counter'') (JInt number) state)"

definition reuse_plan ::
  "sha256 \<Rightarrow> (real \<Rightarrow> pystr) \<Rightarrow> json \<Rightarrow> json \<Rightarrow> pystr \<Rightarrow> pystr \<Rightarrow> pystr \<Rightarrow> json \<Rightarrow> plan result" where
  "reuse_plan sha fr rec policy base channel source_sha parent =
     bind_r (as_dict rec) (\<lambda>d.
     bind_r (py_getitem rec (lit ''plan'')) (\<lambda>v.
     bind_r (validate_plan sha fr v (Some policy) (Some source_sha)) (\<lambda>p.
     rreq (pl_base_version p = base \<and> pl_channel p = channel) ''Run already reserved a different release identity''
    (rreq (json_eq (jget d ''parent'') parent) ''Run already reserved a different RC'' (Inr p)))))"

definition plan_sequence :: "github \<Rightarrow> json_dict \<Rightarrow> pystr \<Rightarrow> pystr \<Rightarrow> int \<Rightarrow> int \<Rightarrow> pystr \<Rightarrow> json gh" where
  "plan_sequence gh state base channel run_id attempt stamp =
     (if channel \<in> {lit ''beta'', lit ''rc''}
      then gh_bind (next_sequence gh base channel) (\<lambda>n.
             gh_lift (Inr (JInt (max n (max_default (reserved_sequences state base channel) + 1)))))
      else if channel = lit ''nightly''
      then gh_lift (Inr (JStr (stamp @ [46] @ int_str run_id @ [46] @ int_str attempt)))
      else gh_lift (Inr JNull))"

text \<open>The number and the plan a run gets from the ledger it read.\<close>

definition allocate ::
  "sha256 \<Rightarrow> (real \<Rightarrow> pystr) \<Rightarrow> json_dict \<Rightarrow> json \<Rightarrow> pystr \<Rightarrow> pystr \<Rightarrow> json \<Rightarrow> pystr \<Rightarrow> (int \<times> plan) result" where
  "allocate sha fr state policy base channel sequence source_sha =
     bind_r (policy_floor policy) (\<lambda>fl.
     bind_r (create_plan sha fr (JStr base) (JStr channel) sequence (JStr source_sha) policy (JInt (next_number state fl)))
       (\<lambda>p. Inr (next_number state fl, p)))"

definition reserve_plan ::
  "sha256 \<Rightarrow> (real \<Rightarrow> pystr) \<Rightarrow> github \<Rightarrow> json \<Rightarrow> pystr \<Rightarrow> pystr \<Rightarrow> pystr \<Rightarrow> int \<Rightarrow> int \<Rightarrow> pystr \<Rightarrow> json
   \<Rightarrow> plan gh" where
  "reserve_plan sha fr gh policy base channel source_sha run_id attempt stamp parent =
     gh_bind (gh_lift (positive (JInt run_id))) (\<lambda>rid.
     gh_bind (read_state sha fr gh) (\<lambda>(state, previous).
       case map_of (ledger_plans state) (int_str rid) of
         Some rec \<Rightarrow> gh_lift (reuse_plan sha fr rec policy base channel source_sha parent)
       | None \<Rightarrow>
           gh_bind (plan_sequence gh state base channel run_id attempt stamp) (\<lambda>sequence.
           gh_bind (gh_lift (allocate sha fr state policy base channel sequence source_sha)) (\<lambda>(number, p).
              gh_bind (ensure_absent gh (pl_tag p)) (\<lambda>_.
              gh_bind (state_optional gh REF_PATH) (\<lambda>ref.
              gh_bind
                (if ref = JNull
                 then state_api gh (lit ''git/refs'') ''POST''
                        (Some (JObj [(lit ''ref'', JStr (lit ''refs/heads/'' @ lit BRANCH)), (lit ''sha'', JStr source_sha)]))
                 else gh_lift (Inr JNull)) (\<lambda>_.
              gh_bind (write_state gh (with_reservation state (int_str rid) number p parent) previous) (\<lambda>_.
                gh_lift (Inr p)))))))))"

section \<open>Publishing a plan\<close>

text \<open>The tags of the releases that are public: a set, so a list or an object among them raises.\<close>

fun published_tags :: "json list \<Rightarrow> json list result" where
  "published_tags [] = Inr []"
| "published_tags (r # rs) =
     bind_r (as_dict r) (\<lambda>release.
       if jget release ''draft'' = JBool False
       then bind_r (in_strings (jget release ''tag_name'') []) (\<lambda>_.
            bind_r (published_tags rs) (\<lambda>ts. Inr (jget release ''tag_name'' # ts)))
       else published_tags rs)"

definition plan_build :: "json_dict \<Rightarrow> int" where
  "plan_build p = (case jint (jget p ''build_number'') of Some n \<Rightarrow> n | None \<Rightarrow> 0)"

definition ledger_entries :: "json_dict \<Rightarrow> json_dict list" where
  "ledger_entries state = map (\<lambda>e. record_plan (snd e)) (ledger_plans state)"

definition check_reserved ::
  "sha256 \<Rightarrow> (real \<Rightarrow> pystr) \<Rightarrow> github \<Rightarrow> json_dict \<Rightarrow> json \<Rightarrow> int \<Rightarrow> json \<Rightarrow> int gh" where
  "check_reserved sha fr gh state plan run_id parent =
     gh_bind (gh_lift (validate_plan sha fr plan None None)) (\<lambda>p.
     gh_bind (gh_lift (positive (JInt run_id))) (\<lambda>rid.
     gh_require (json_eq (dict_get (ledger_plans state) (int_str rid) JNull)
                   (JObj [(lit ''plan'', plan), (lit ''parent'', parent)]))
       ''Version reservation differs from build plan''
    (gh_bind (gh_lift (plan_number p)) (\<lambda>n.
     gh_require (n > ledger_floor state) ''Build number has already reached or fallen below the publication floor''
    (gh_bind (pages gh (lit ''releases'') None) (\<lambda>rs.
     gh_bind (gh_lift (published_tags rs)) (\<lambda>published.
     gh_require (filter (\<lambda>q. jget q ''tag'' \<in> set published \<and> plan_build q \<ge> n) (ledger_entries state) = [])
       ''A package with this or a newer build number was already published'' (gh_lift (Inr n)))))))))"

definition verify_reservation ::
  "sha256 \<Rightarrow> (real \<Rightarrow> pystr) \<Rightarrow> github \<Rightarrow> json \<Rightarrow> int \<Rightarrow> json \<Rightarrow> unit gh" where
  "verify_reservation sha fr gh plan run_id parent =
     gh_bind (read_state sha fr gh) (\<lambda>(state, _).
     gh_bind (check_reserved sha fr gh state plan run_id parent) (\<lambda>_. gh_lift (Inr ())))"

definition check_promotion_order ::
  "sha256 \<Rightarrow> (real \<Rightarrow> pystr) \<Rightarrow> github \<Rightarrow> json_dict \<Rightarrow> json \<Rightarrow> int gh" where
  "check_promotion_order sha fr gh state plan =
     gh_bind (gh_lift (validate_plan sha fr plan None None)) (\<lambda>p.
     gh_require (pl_channel p = lit ''rc'' \<and> pl_promotion p = lit ''promote-bytes'')
       ''Byte promotion requires a promote-bytes RC plan''
    (gh_require (length (filter (\<lambda>q. json_eq (JObj q) plan) (ledger_entries state)) = 1)
       ''Accepted RC has no unique durable version reservation''
    (gh_bind (gh_lift (plan_number p)) (\<lambda>n.
     gh_require (n \<ge> ledger_floor state) ''Accepted RC build number is below the publication floor''
    (gh_bind (pages gh (lit ''releases'') None) (\<lambda>rs.
     gh_bind (gh_lift (published_tags rs)) (\<lambda>published.
     gh_require (JStr (pl_tag p) \<in> set published) ''Accepted RC is no longer published''
    (gh_require (filter (\<lambda>q. jget q ''tag'' \<noteq> JStr (pl_tag p) \<and> jget q ''tag'' \<in> set published \<and> plan_build q > n)
                   (ledger_entries state) = [])
       ''A newer native build was published after the accepted RC'' (gh_lift (Inr n))))))))))"

definition verify_promotion_order :: "sha256 \<Rightarrow> (real \<Rightarrow> pystr) \<Rightarrow> github \<Rightarrow> json \<Rightarrow> unit gh" where
  "verify_promotion_order sha fr gh plan =
     gh_bind (read_state sha fr gh) (\<lambda>(state, _).
     gh_bind (check_promotion_order sha fr gh state plan) (\<lambda>_. gh_lift (Inr ())))"

definition with_floor :: "json_dict \<Rightarrow> int \<Rightarrow> json_dict" where
  "with_floor state n = AList.update (lit ''publication_floor'') (JInt n) state"

definition begin_publication ::
  "sha256 \<Rightarrow> (real \<Rightarrow> pystr) \<Rightarrow> github \<Rightarrow> json \<Rightarrow> int \<Rightarrow> json \<Rightarrow> bool \<Rightarrow> bytes gh" where
  "begin_publication sha fr gh plan run_id parent promotion =
     gh_bind (gh_lift (positive (JInt run_id))) (\<lambda>_.
     gh_bind (read_state sha fr gh) (\<lambda>(state, previous).
     gh_bind (if promotion then check_promotion_order sha fr gh state plan
              else check_reserved sha fr gh state plan run_id parent) (\<lambda>n.
     gh_bind (write_state gh (with_floor state n) previous) (\<lambda>_.
       gh_lift (Inr (json_lines (jc_dumps (gh_codec gh)) (JObj (with_floor state n))))))))"

section \<open>A ledger that was read\<close>

lemma check_ledger_cases:
  assumes "check_ledger sha fr v = Inr state"
  shows "v = JObj state \<and> 0 \<le> ledger_floor state \<and> ledger_floor state \<le> ledger_counter state
     \<and> (\<exists>d. jget state ''plans'' = JObj d)
     \<and> (\<exists>c f. jget state ''counter'' = JInt c \<and> jget state ''publication_floor'' = JInt f)
     \<and> (\<forall>e\<in>set (ledger_plans state). check_reservation sha fr (ledger_counter state) e = Inr ())"
  using assms
  by (auto simp: check_ledger_def json_case_Inr bind_r_Inr_iff jint_case each_r_Inr_iff is_obj_def
      ledger_floor_def ledger_counter_def jint_def split: json.splits)

lemma validate_plan_cases:
  assumes "validate_plan sha fr v policy src = Inr p"
  obtains d where "v = JObj d" "jget d ''build_number'' = opt_int (pl_build_number p)"
    "\<And>n. pl_build_number p = Some n \<Longrightarrow> 0 < n"
    "jget d ''tag'' = JStr (pl_tag p)"
    "jget d ''base_version'' = JStr (pl_base_version p)" "jget d ''channel'' = JStr (pl_channel p)"
    "jget d ''sequence'' = pl_sequence p"
proof -
  from assms obtain d where d: "v = JObj d"
    by (auto simp: validate_plan_def json_case_Inr)
  from assms d obtain ver where
    ver: "identity (jget d ''base_version'') (jget d ''channel'') (jget d ''sequence'') = Inr ver"
      "jget d ''tag'' = JStr (lit ''v'' @ ver)" "build_ok (jget d ''build_number'')"
    and p: "pl_build_number p = jint (jget d ''build_number'')" "pl_tag p = lit ''v'' @ ver"
      "pl_base_version p = jstr_val (jget d ''base_version'')" "pl_channel p = jstr_val (jget d ''channel'')"
      "pl_sequence p = jget d ''sequence''"
    by (auto simp: validate_plan_def Let_def bind_r_Inr_iff)
  show thesis
  proof (rule that)
    show "jget d ''build_number'' = opt_int (pl_build_number p)"
      using ver(3) p(1) by (simp add: opt_int_jint)
    show "\<And>n. pl_build_number p = Some n \<Longrightarrow> 0 < n"
      using ver(3) p(1) by (auto simp: build_ok_iff jint_def)
    show "jget d ''base_version'' = JStr (pl_base_version p)" "jget d ''channel'' = JStr (pl_channel p)"
      using identity_types [OF ver(1)] p by auto
  qed (use d ver p in auto)
qed

lemma check_reservation_cases:
  assumes "check_reservation sha fr counter (k, r) = Inr ()"
  shows "0 < plan_build (record_plan r) \<and> plan_build (record_plan r) \<le> counter
     \<and> (\<exists>d. r = JObj d \<and> jget d ''plan'' = JObj (record_plan r))"
proof -
  from assms obtain d p n where d: "r = JObj d" and p: "validate_plan sha fr (jget d ''plan'') None None = Inr p"
    and n: "pl_build_number p = Some n" "n \<le> counter"
    by (auto simp: check_reservation_def bind_r_Inr_iff json_case_Inr plan_number_def split: option.splits)
  from p show ?thesis
  proof (cases rule: validate_plan_cases)
    case (1 pd)
    with d n show ?thesis
      by (simp add: record_plan_def plan_build_def opt_int_def jint_def)
  qed
qed

definition ledger_bounded :: "json_dict \<Rightarrow> bool" where
  "ledger_bounded state \<longleftrightarrow>
     (\<forall>k r. (k, r) \<in> set (ledger_plans state) \<longrightarrow>
        0 < plan_build (record_plan r) \<and> plan_build (record_plan r) \<le> ledger_counter state)"

lemma check_ledger_bounded: "check_ledger sha fr v = Inr state \<Longrightarrow> ledger_bounded state"
  using check_ledger_cases [of sha fr v state] check_reservation_cases by (fastforce simp: ledger_bounded_def)

lemma empty_ledger_facts:
  "ledger_plans empty_ledger = []" "ledger_counter empty_ledger = 0" "ledger_floor empty_ledger = 0"
  by (simp_all add: ledger_plans_def ledger_counter_def ledger_floor_def empty_ledger_def dict_get_def jint_def)

lemma read_state_bounded:
  assumes "read_state sha fr gh h = (Inr (state, previous), h')"
  shows "ledger_bounded state \<and> 0 \<le> ledger_floor state \<and> ledger_floor state \<le> ledger_counter state"
proof -
  from assms consider "state = empty_ledger"
    | v where "check_ledger sha fr v = Inr state"
    by (auto simp: read_state_def gh_success parse_ledger_def split: if_splits)
  then show ?thesis
  proof cases
    case 1
    then show ?thesis by (simp add: ledger_bounded_def empty_ledger_facts)
  next
    case (2 v)
    then show ?thesis using check_ledger_cases [OF 2] check_ledger_bounded [OF 2] by simp
  qed
qed

section \<open>What is written\<close>

definition put_command :: "github \<Rightarrow> json_dict \<Rightarrow> pystr option \<Rightarrow> command" where
  "put_command gh state previous =
     state_command gh WRITE_PATH ''PUT'' (Some (JObj (write_body (jc_dumps (gh_codec gh)) state previous)))"

lemma write_body_allowed:
  "jget (write_body dumps state previous) ''branch'' = JStr (lit BRANCH)"
  "only_keys (write_body dumps state previous) [''branch'', ''content'', ''message'', ''sha'']"
  by (auto simp: write_body_def dict_get_def only_keys_def split: option.splits)

lemma put_request:
  assumes "jget d ''branch'' = JStr (lit BRANCH)" "only_keys d [''branch'', ''content'', ''message'', ''sha'']"
  shows "snd (state_request gh WRITE_PATH ''PUT'' (Some (JObj d)) ''json'' h) = h @ [state_command gh WRITE_PATH ''PUT'' (Some (JObj d))]"
  using assms by (simp add: state_request_def gh_require_def is_obj_def write_history)

lemma gh_bind_lift_history: "snd (gh_bind m (\<lambda>x. gh_lift (f x)) h) = snd (m h)"
  by (auto simp: gh_bind_def gh_lift_def split: prod.splits sum.splits)

lemma write_state_history:
  assumes "write_state gh state previous h = (Inr (), h')"
  shows "h' = h @ [put_command gh state previous]"
proof -
  have "snd (write_state gh state previous h) = h @ [put_command gh state previous]"
    unfolding write_state_def state_api_def gh_bind_lift_history put_command_def
    by (rule put_request) (rule write_body_allowed)+
  with assms show ?thesis by simp
qed

text \<open>What \<open>reserve_plan\<close> leaves when it returns: the reserved plan again, or one write on what was read.\<close>

lemma reserve_plan_cases:
  assumes "reserve_plan sha fr gh policy base channel source_sha run_id attempt stamp parent h = (Inr p, h')"
  obtains (again) state previous rec where "read_state sha fr gh h = (Inr (state, previous), h')"
      "map_of (ledger_plans state) (int_str run_id) = Some rec"
      "reuse_plan sha fr rec policy base channel source_sha parent = Inr p"
  | (fresh) state previous h1 h2 number sequence where "read_state sha fr gh h = (Inr (state, previous), h1)"
      "map_of (ledger_plans state) (int_str run_id) = None"
      "allocate sha fr state policy base channel sequence source_sha = Inr (number, p)"
      "h' = h2 @ [put_command gh (with_reservation state (int_str run_id) number p parent) previous]"
proof -
  from assms obtain state previous h1 where rd: "read_state sha fr gh h = (Inr (state, previous), h1)"
    and id: "positive (JInt run_id) = Inr run_id"
    by (auto simp: reserve_plan_def gh_success positive_def)
  show thesis
  proof (cases "map_of (ledger_plans state) (int_str run_id)")
    case (Some rec)
    with assms rd id have "reuse_plan sha fr rec policy base channel source_sha parent = Inr p" "h1 = h'"
      by (auto simp: reserve_plan_def gh_success)
    with Some rd show thesis by (intro again) auto
  next
    case None
    with assms rd id obtain sequence number h2 where
      "allocate sha fr state policy base channel sequence source_sha = Inr (number, p)"
      "write_state gh (with_reservation state (int_str run_id) number p parent) previous h2 = (Inr (), h')"
      by (auto simp: reserve_plan_def gh_success)
    with None rd show thesis by (intro fresh) (auto dest: write_state_history)
  qed
qed

lemma allocate_cases:
  assumes "allocate sha fr state policy base channel sequence source_sha = Inr (number, p)"
  shows "ledger_counter state < number \<and> pl_build_number p = Some number \<and> 0 < number"
proof -
  from assms obtain fl where fl: "policy_floor policy = Inr fl" "number = next_number state fl"
    and cr: "create_plan sha fr (JStr base) (JStr channel) sequence (JStr source_sha) policy (JInt number) = Inr p"
    by (auto simp: allocate_def bind_r_Inr_iff)
  from cr have "opt_int (pl_build_number p) = JInt number" "build_ok (JInt number)"
    by (cases rule: create_plan_cases; simp)+
  with fl show ?thesis by (auto simp: next_number_def opt_int_def build_ok_iff split: option.splits)
qed

text \<open>
  A reservation is fresh or repeated. A run that has no reservation gets a build number above the
  counter and above every number in the ledger it read, and its last command replaces exactly that ledger
  by one with the new reservation; a run that already has one gets the recorded plan, checked against the
  same policy and source, and writes nothing.
\<close>

theorem reservation_is_fresh_or_repeated:
  assumes "reserve_plan sha fr gh policy base channel source_sha run_id attempt stamp parent h = (Inr p, h')"
  shows "\<exists>state previous h1. read_state sha fr gh h = (Inr (state, previous), h1) \<and>
     (case map_of (ledger_plans state) (int_str run_id) of
        Some rec \<Rightarrow> h' = h1 \<and> validate_plan sha fr (JObj (record_plan rec)) (Some policy) (Some source_sha) = Inr p
          \<and> pl_base_version p = base \<and> pl_channel p = channel
      | None \<Rightarrow> \<exists>n h2. pl_build_number p = Some n \<and> ledger_counter state < n
          \<and> (\<forall>q\<in>set (ledger_entries state). plan_build q < n)
          \<and> h' = h2 @ [put_command gh (with_reservation state (int_str run_id) n p parent) previous])"
  using assms
proof (cases rule: reserve_plan_cases)
  case (again state previous rec)
  then obtain d v where "rec = JObj d" "py_getitem rec (lit ''plan'') = Inr v"
    "validate_plan sha fr v (Some policy) (Some source_sha) = Inr p" "pl_base_version p = base" "pl_channel p = channel"
    by (auto simp: reuse_plan_def bind_r_Inr_iff as_dict_def split: json.splits)
  moreover from this obtain pd where "v = JObj pd"
    by (auto simp: validate_plan_def json_case_Inr)
  ultimately have "validate_plan sha fr (JObj (record_plan rec)) (Some policy) (Some source_sha) = Inr p"
    by (auto simp: record_plan_def py_getitem_def dict_get_def split: option.splits)
  with again \<open>pl_base_version p = base\<close> \<open>pl_channel p = channel\<close> show ?thesis by auto
next
  case (fresh state previous h1 h2 number sequence)
  from read_state_bounded [OF fresh(1)] allocate_cases [OF fresh(3)]
  have "\<forall>q\<in>set (ledger_entries state). plan_build q < number"
    by (fastforce simp: ledger_entries_def ledger_bounded_def)
  with fresh allocate_cases [OF fresh(3)] show ?thesis by auto
qed

section \<open>Publication consumes a number\<close>

lemma dict_sub_lookup: "dict_sub d e \<Longrightarrow> map_of d k = Some v \<Longrightarrow> \<exists>v'. map_of e k = Some v' \<and> json_eq v v'"
  by (induction d) (auto split: if_splits option.splits)

lemma json_eq_build:
  assumes eq: "json_eq (JObj q) plan" and q: "0 < plan_build q"
    and p: "validate_plan sha fr plan None None = Inr p" and n: "pl_build_number p = Some n"
  shows "plan_build q = n"
  using p
proof (cases rule: validate_plan_cases)
  case (1 d)
  from q obtain m where m: "map_of q (lit ''build_number'') = Some (JInt m)" "plan_build q = m"
    by (auto simp: plan_build_def dict_get_def jint_def split: option.splits json.splits)
  from eq 1 have "dict_sub q d" by simp
  from dict_sub_lookup [OF this m(1)] 1(2) n m(2) show ?thesis
    by (auto simp: dict_get_def opt_int_def)
qed

text \<open>No public release of the ledger, other than the one under the given tag, has a higher number.\<close>

definition unsurpassed :: "json_dict \<Rightarrow> json list \<Rightarrow> pystr \<Rightarrow> int \<Rightarrow> bool" where
  "unsurpassed state published tag n \<longleftrightarrow>
     (\<forall>q\<in>set (ledger_entries state). jget q ''tag'' \<in> set published \<longrightarrow> plan_build q \<le> n \<or> jget q ''tag'' = JStr tag)"

lemma entry_bounded:
  assumes "ledger_bounded state" and "q \<in> set (ledger_entries state)"
  shows "0 < plan_build q \<and> plan_build q \<le> ledger_counter state"
  using assms by (fastforce simp: ledger_bounded_def ledger_entries_def)

lemma plan_number_iff [simp]: "plan_number p = Inr n \<longleftrightarrow> pl_build_number p = Some n"
  by (simp add: plan_number_def split: option.splits)

lemma reserved_entry:
  assumes bounded: "ledger_bounded state" and p: "validate_plan sha fr plan None None = Inr p" "pl_build_number p = Some n"
    and eq: "json_eq (dict_get (ledger_plans state) key JNull) (JObj [(lit ''plan'', plan), (lit ''parent'', parent)])"
  shows "\<exists>q\<in>set (ledger_entries state). plan_build q = n"
proof -
  from eq obtain rec where rec: "map_of (ledger_plans state) key = Some rec"
      "json_eq rec (JObj [(lit ''plan'', plan), (lit ''parent'', parent)])"
    by (auto simp: dict_get_def split: option.splits)
  from rec(1) have entry: "record_plan rec \<in> set (ledger_entries state)"
    by (force simp: ledger_entries_def dest: map_of_SomeD)
  from entry_bounded [OF bounded entry] have pos: "0 < plan_build (record_plan rec)" by simp
  then have "record_plan rec \<noteq> []" by (auto simp: plan_build_def dict_get_def jint_def)
  then obtain d pd where d: "rec = JObj d" "map_of d (lit ''plan'') = Some (JObj pd)" "record_plan rec = pd"
    by (auto simp: record_plan_def dict_get_def split: json.splits option.splits)
  from rec(2) d(1) have "dict_sub d [(lit ''plan'', plan), (lit ''parent'', parent)]" by simp
  from dict_sub_lookup [OF this d(2)] have "json_eq (JObj pd) plan" by auto
  from json_eq_build [OF this _ p] pos d(3) have "plan_build (record_plan rec) = n" by simp
  with entry show ?thesis by blast
qed

lemma check_reserved_cases:
  assumes ok: "check_reserved sha fr gh state plan run_id parent h = (Inr n, h')" and bounded: "ledger_bounded state"
  obtains p h1 rs published where "validate_plan sha fr plan None None = Inr p" "pl_build_number p = Some n"
    "\<exists>q\<in>set (ledger_entries state). plan_build q = n" "ledger_floor state < n"
    "pages gh (lit ''releases'') None h1 = (Inr rs, h')" "published_tags rs = Inr published"
    "unsurpassed state published (pl_tag p) n"
proof -
  from ok obtain p rid h1 rs published where p: "validate_plan sha fr plan None None = Inr p" "pl_build_number p = Some n"
    and eq: "json_eq (dict_get (ledger_plans state) (int_str rid) JNull) (JObj [(lit ''plan'', plan), (lit ''parent'', parent)])"
    and fl: "ledger_floor state < n"
    and pub: "pages gh (lit ''releases'') None h1 = (Inr rs, h')" "published_tags rs = Inr published"
      "filter (\<lambda>q. jget q ''tag'' \<in> set published \<and> plan_build q \<ge> n) (ledger_entries state) = []"
    unfolding check_reserved_def gh_bind_Inr_iff gh_lift_Inr_iff gh_require_Inr_iff plan_number_iff by blast
  show thesis
    by (rule that [OF p reserved_entry [OF bounded p eq] fl pub(1,2)])
      (use pub(3) in \<open>auto simp: unsurpassed_def filter_empty_conv\<close>)
qed

lemma check_promotion_cases:
  assumes ok: "check_promotion_order sha fr gh state plan h = (Inr n, h')" and bounded: "ledger_bounded state"
  obtains p h1 rs published where "validate_plan sha fr plan None None = Inr p" "pl_build_number p = Some n"
    "\<exists>q\<in>set (ledger_entries state). plan_build q = n" "ledger_floor state \<le> n"
    "pages gh (lit ''releases'') None h1 = (Inr rs, h')" "published_tags rs = Inr published"
    "unsurpassed state published (pl_tag p) n"
proof -
  from ok obtain p h1 rs published where p: "validate_plan sha fr plan None None = Inr p" "pl_build_number p = Some n"
    and one: "length (filter (\<lambda>q. json_eq (JObj q) plan) (ledger_entries state)) = 1"
    and fl: "ledger_floor state \<le> n"
    and pub: "pages gh (lit ''releases'') None h1 = (Inr rs, h')" "published_tags rs = Inr published"
      "filter (\<lambda>q. jget q ''tag'' \<noteq> JStr (pl_tag p) \<and> jget q ''tag'' \<in> set published \<and> plan_build q > n)
           (ledger_entries state) = []"
    unfolding check_promotion_order_def gh_bind_Inr_iff gh_lift_Inr_iff gh_require_Inr_iff plan_number_iff by blast
  from one have "filter (\<lambda>q. json_eq (JObj q) plan) (ledger_entries state) \<noteq> []" by auto
  then obtain q where q: "q \<in> set (ledger_entries state)" "json_eq (JObj q) plan"
    by (auto simp: filter_empty_conv)
  from entry_bounded [OF bounded q(1)] json_eq_build [OF q(2) _ p] have "plan_build q = n" by simp
  with q(1) show thesis
    by (intro that [OF p _ fl pub(1,2)]) (use pub(3) in \<open>auto simp: unsurpassed_def filter_empty_conv not_less\<close>)
qed

lemma ledger_floor_with_floor: "ledger_floor (with_floor state n) = n"
  by (simp add: ledger_floor_def with_floor_def dict_get_def jint_def)

text \<open>
  C18: Publication consumes its build number before anything is public: the last command replaces the
  ledger that was read by one whose publication floor is that number; the number belongs to a reservation,
  exceeds the old floor (a byte promotion may equal it), and no public release of the ledger has a higher
  one, so a delayed publication can never downgrade an installed package.
\<close>

theorem publication_consumes_number:
  assumes "begin_publication sha fr gh plan run_id parent promotion h = (Inr raw, h')"
  shows "\<exists>state previous h1 p n rs published h2 h3. read_state sha fr gh h = (Inr (state, previous), h1)
     \<and> validate_plan sha fr plan None None = Inr p \<and> pl_build_number p = Some n
     \<and> n \<in> plan_build ` set (ledger_entries state) \<and> n \<le> ledger_counter state
     \<and> (if promotion then ledger_floor state \<le> n else ledger_floor state < n)
     \<and> pages gh (lit ''releases'') None h2 = (Inr rs, h3) \<and> published_tags rs = Inr published
     \<and> unsurpassed state published (pl_tag p) n
     \<and> ledger_floor (with_floor state n) = n \<and> h' = h3 @ [put_command gh (with_floor state n) previous]"
proof -
  from assms obtain state previous h1 n h3 where rd: "read_state sha fr gh h = (Inr (state, previous), h1)"
    and chk: "(if promotion then check_promotion_order sha fr gh state plan
              else check_reserved sha fr gh state plan run_id parent) h1 = (Inr n, h3)"
    and wr: "write_state gh (with_floor state n) previous h3 = (Inr (), h')"
    by (auto simp: begin_publication_def gh_success)
  have bounded: "ledger_bounded state" using read_state_bounded [OF rd] by simp
  obtain p h2 rs published where p: "validate_plan sha fr plan None None = Inr p" "pl_build_number p = Some n"
      "\<exists>q\<in>set (ledger_entries state). plan_build q = n"
      "if promotion then ledger_floor state \<le> n else ledger_floor state < n"
      "pages gh (lit ''releases'') None h2 = (Inr rs, h3)" "published_tags rs = Inr published"
      "unsurpassed state published (pl_tag p) n"
  proof (cases promotion)
    case True
    with chk have "check_promotion_order sha fr gh state plan h1 = (Inr n, h3)" by simp
    from check_promotion_cases [OF this bounded] True that show thesis by auto
  next
    case False
    with chk have "check_reserved sha fr gh state plan run_id parent h1 = (Inr n, h3)" by simp
    from check_reserved_cases [OF this bounded] False that show thesis by auto
  qed
  from p(3) have "n \<in> plan_build ` set (ledger_entries state)" "n \<le> ledger_counter state"
    using entry_bounded [OF bounded] by auto
  with rd p write_state_history [OF wr] ledger_floor_with_floor show ?thesis by blast
qed

section \<open>A ledger with one reservation\<close>

definition sample_reserved :: plan where
  "sample_reserved = (case create_plan sample_sha (\<lambda>_. []) (JStr (lit ''1.2.3'')) (JStr (lit ''beta'')) (JInt 4)
     (JStr (replicate 40 48)) sample_policy (JInt 7) of Inr p \<Rightarrow> p | Inl _ \<Rightarrow> undefined)"

definition sample_ledger :: json_dict where
  "sample_ledger =
     [(lit ''schema'', JInt 1), (lit ''counter'', JInt 7), (lit ''publication_floor'', JInt 0),
      (lit ''plans'', JObj [(lit ''5'', reservation sample_reserved JNull)])]"

definition sample_content :: json_dict where
  "sample_content =
     [(lit ''type'', JStr (lit ''file'')), (lit ''encoding'', JStr (lit ''base64'')), (lit ''content'', JStr (lit ''AA=='')),
      (lit ''sha'', JStr (replicate 40 48))]"

definition ledger_codec :: json_codec where
  "ledger_codec = \<lparr>jc_loads = (\<lambda>b. Inr (if b = lit ''[]'' then JObj sample_content
       else if b = [10] then JList [JList []] else JObj sample_ledger)),
     jc_raw_decode = (\<lambda>_. Some 2), jc_dumps = (\<lambda>_. [])\<rparr>"

definition ledger_github :: github where
  "ledger_github = \<lparr>gh_repo = lit ''o/r'', gh_env = (\<lambda>_ _. Completed page_proc), gh_codec = ledger_codec\<rparr>"

lemma sample_reserved_created:
  "create_plan sample_sha (\<lambda>_. []) (JStr (lit ''1.2.3'')) (JStr (lit ''beta'')) (JInt 4)
     (JStr (replicate 40 48)) sample_policy (JInt 7) = Inr sample_reserved"
  using sample_plan_created by (auto simp: sample_reserved_def)

lemma sample_reserved_fields:
  "pl_build_number sample_reserved = Some 7" "pl_source_sha sample_reserved = replicate 40 48"
  "pl_base_version sample_reserved = lit ''1.2.3''" "pl_channel sample_reserved = lit ''beta''"
  using sample_reserved_created
  by (cases rule: create_plan_cases; auto simp: opt_int_def split: option.splits)+

lemma plan_json_wf: "json_wf (pl_sequence p) \<Longrightarrow> json_wf (plan_json p)"
  by (auto simp: plan_json_def plan_dict_def opt_int_def split: option.splits)

lemma sample_wf: "json_wf (JObj sample_content)" "json_wf (JObj sample_ledger)"
proof -
  have "json_wf (plan_json sample_reserved)"
    using sample_reserved_created by (cases rule: create_plan_cases) (simp add: plan_json_wf)
  then show "json_wf (JObj sample_content)" "json_wf (JObj sample_ledger)"
    by (simp_all add: sample_content_def sample_ledger_def reservation_def)
qed

lemma sample_read_state:
  "read_state sample_sha (\<lambda>_. []) ledger_github h
     = (Inr (sample_ledger, Some (replicate 40 48)), h @ [state_command ledger_github READ_PATH ''GET'' None])"
proof -
  have "state_request ledger_github READ_PATH ''GET'' None ''json'' h
      = (Inr (lit ''[]''), h @ [state_command ledger_github READ_PATH ''GET'' None])"
    by (simp add: state_request_def gh_require_def gh_bind_def gh_lift_def run_command_def http_response_single page_head
        ledger_github_def response_def) (simp add: page_proc_def)
  then have opt: "state_optional ledger_github READ_PATH h
      = (Inr (JObj sample_content), h @ [state_command ledger_github READ_PATH ''GET'' None])"
    using sample_wf(1)
    by (simp add: state_optional_def state_api_def gh_bind_def gh_lift_def bstrip_ws_def parse_json_def
        ledger_github_def ledger_codec_def) (simp add: lit_def)
  have key: "positive (JStr (lit ''5'')) = Inr 5"
    by (simp add: positive_def r_posint_def r_digit_def lit_def in_class_def digits_val_def)
  have valid: "validate_plan sample_sha (\<lambda>_. []) (plan_json sample_reserved) None None = Inr sample_reserved"
    by (rule created_plan_reads_back(2) [OF sample_reserved_created sample_sha_shape])
  have "check_ledger sample_sha (\<lambda>_. []) (JObj sample_ledger) = Inr sample_ledger"
    by (simp add: check_ledger_def sample_ledger_def dict_get_def jint_def ledger_counter_def ledger_plans_def is_obj_def
        check_reservation_def key reservation_def valid plan_number_def sample_reserved_fields)
  moreover have "decode_content sample_content = Inr [0]"
    by (simp add: decode_content_def py_getitem_def sample_content_def lit_def is_space_def last_quad_def b64val_def)
  moreover have "fullmatch SHA_RE (replicate 40 48)"
    by (simp add: fullmatch_denotes SHA_RE_def r_hex_def denotes_rep_class list_all_iff in_class_def)
  ultimately have "parse_ledger sample_sha (\<lambda>_. []) (jc_loads ledger_codec) sample_content
      = Inr (sample_ledger, Some (replicate 40 48))"
    using sample_wf(2)
    by (simp add: parse_ledger_def parse_json_def ledger_codec_def)
      (simp add: sample_content_def dict_get_def lit_def)
  then show ?thesis
    by (simp add: read_state_def gh_bind_def gh_lift_def opt as_dict_def) (simp add: ledger_github_def)
qed

lemma int_str_digit: "int_str 5 = lit ''5''"
  by (simp add: int_str_def nat_digits.simps lit_def)

lemma positive_five: "positive (JInt 5) = Inr 5"
  by (simp add: positive_def int_str_digit r_posint_def r_digit_def lit_def in_class_def)

lemma sample_repeated:
  "reserve_plan sample_sha (\<lambda>_. []) ledger_github sample_policy (lit ''1.2.3'') (lit ''beta'') (replicate 40 48) 5 1 [] JNull []
     = (Inr sample_reserved, [state_command ledger_github READ_PATH ''GET'' None])"
proof -
  have "reuse_plan sample_sha (\<lambda>_. []) (reservation sample_reserved JNull) sample_policy (lit ''1.2.3'') (lit ''beta'')
      (replicate 40 48) JNull = Inr sample_reserved"
    using created_plan_reads_back(1) [OF sample_reserved_created sample_sha_shape]
    by (simp add: reuse_plan_def reservation_def as_dict_def py_getitem_def sample_reserved_fields dict_get_def)
  then show ?thesis
    by (simp add: reserve_plan_def gh_bind_def gh_lift_def positive_five sample_read_state int_str_digit)
      (simp add: sample_ledger_def ledger_plans_def dict_get_def)
qed

theorem reservation_is_fresh_or_repeated_witness:
  "\<exists>state previous h1. read_state sample_sha (\<lambda>_. []) ledger_github [] = (Inr (state, previous), h1) \<and>
     (case map_of (ledger_plans state) (int_str 5) of
        Some rec \<Rightarrow> [state_command ledger_github READ_PATH ''GET'' None] = h1
          \<and> validate_plan sample_sha (\<lambda>_. []) (JObj (record_plan rec)) (Some sample_policy) (Some (replicate 40 48)) = Inr sample_reserved
          \<and> pl_base_version sample_reserved = lit ''1.2.3'' \<and> pl_channel sample_reserved = lit ''beta''
      | None \<Rightarrow> \<exists>n h2. pl_build_number sample_reserved = Some n \<and> ledger_counter state < n
          \<and> (\<forall>q\<in>set (ledger_entries state). plan_build q < n)
          \<and> [state_command ledger_github READ_PATH ''GET'' None]
            = h2 @ [put_command ledger_github (with_reservation state (int_str 5) n sample_reserved JNull) previous])"
  by (rule reservation_is_fresh_or_repeated [OF sample_repeated])

lemma sample_releases: "\<exists>h'. pages ledger_github (lit ''releases'') None h = (Inr [], h')"
proof -
  let ?c = "api_command ledger_github (lit ''releases'') ''GET'' None ''pages''"
  have "http_pages (jc_loads ledger_codec) (jc_raw_decode ledger_codec) 200 (lit ''[]'') [] = Inr (200, Some [JObj sample_content])"
    using sample_wf(1) by (subst http_pages.simps) (simp add: ledger_codec_def blanks_def parse_json_def lit_def)
  then have "http_response ledger_codec (stdout page_proc) True = Inr (200, [10])"
    using page_head by (simp add: http_response_def github_http_response_def json_lines_def) (simp add: ledger_codec_def)
  then have "completed_read ledger_codec page_proc True b = Inr (Some [10])" for b
    by (simp add: completed_read_def response_def) (simp add: page_proc_def)
  then have run: "read_attempts (gh_env ledger_github) (gh_codec ledger_github) ?c True API_READ_ATTEMPTS h = (Inr [10], h @ [?c])"
    by (simp add: API_READ_ATTEMPTS_def numeral_3_eq_3) (simp add: ledger_github_def)
  have "endpoint_of ledger_github (lit ''releases'') ''pages'' = endpoint_of (page_github JNull) (lit ''releases'') ''pages''"
    by (simp add: endpoint_of_def ledger_github_def page_github_def)
  with page_endpoint [of JNull "lit ''releases''"]
  have ep: "endpoint_of ledger_github (lit ''releases'') ''pages'' \<noteq> lit ''--method''"
    "lit ''--input'' \<noteq> endpoint_of ledger_github (lit ''releases'') ''pages''"
    by auto
  have g: "list_ex (\<lambda>p. fullmatch p (lit ''releases'')) API_GET"
    by (simp add: API_GET_def fullmatch_denotes)
  have u: "split_on 47 (unquote (lit ''releases'')) = [lit ''releases'']" "\<not> endswith (lit ''releases'') (lit ''/zip'')"
    by (simp_all add: unquote_def lit_def hex_val_def is_digit_def utf8_step_def endswith_def startswith_def)
  from run have "request ledger_github (lit ''releases'') ''GET'' None ''pages'' h = (Inr [10], h @ [?c])"
    using g u ep
    by (simp add: request_def gh_require_eq API_PATHS_def perform_def read_get_def api_command_def mode_arguments_def)
  then have "pages ledger_github (lit ''releases'') None h = (Inr [], h @ [?c])"
    by (simp add: pages_def gh_bind_def gh_lift_def ledger_github_def ledger_codec_def parse_json_def page_values_def lit_def)
  then show ?thesis by blast
qed

lemma sample_published:
  "\<exists>raw h'. begin_publication sample_sha (\<lambda>_. []) ledger_github (plan_json sample_reserved) 5 JNull False [] = (Inr raw, h')"
proof -
  obtain h1 where h1: "pages ledger_github (lit ''releases'') None [state_command ledger_github READ_PATH ''GET'' None] = (Inr [], h1)"
    using sample_releases by blast
  have valid: "validate_plan sample_sha (\<lambda>_. []) (plan_json sample_reserved) None None = Inr sample_reserved"
    by (rule created_plan_reads_back(2) [OF sample_reserved_created sample_sha_shape])
  have rec: "dict_get (ledger_plans sample_ledger) (lit ''5'') JNull = reservation sample_reserved JNull"
    by (simp add: sample_ledger_def ledger_plans_def dict_get_def)
  have "json_wf (reservation sample_reserved JNull)"
    using sample_wf(2) by (simp add: sample_ledger_def)
  then have eq: "json_eq (reservation sample_reserved JNull) (JObj [(lit ''plan'', plan_json sample_reserved), (lit ''parent'', JNull)])"
    using json_eq_refl unfolding reservation_def by blast
  have fl: "ledger_floor sample_ledger = 0"
    by (simp add: sample_ledger_def ledger_floor_def dict_get_def jint_def)
  have chk: "check_reserved sample_sha (\<lambda>_. []) ledger_github sample_ledger (plan_json sample_reserved) 5 JNull
      [state_command ledger_github READ_PATH ''GET'' None] = (Inr 7, h1)"
    using h1 eq
    by (simp add: check_reserved_def gh_bind_def gh_lift_def gh_require_def valid positive_five int_str_digit rec fl
        sample_reserved_fields plan_number_def)
  have env: "gh_env ledger_github h c = Completed page_proc" for h c
    by (simp add: ledger_github_def)
  have resp: "response page_proc (Some (200, lit ''[]'')) = Inr (lit ''[]'')"
    by (simp add: response_def page_proc_def)
  have parse: "parse_json (jc_loads (gh_codec ledger_github)) (lit ''[]'') = Inr (JObj sample_content)"
    using sample_wf(1) by (simp add: parse_json_def ledger_github_def ledger_codec_def)
  have "\<exists>h2. state_request ledger_github WRITE_PATH ''PUT'' (Some (JObj (write_body dumps st prev))) ''json'' h
      = (Inr (lit ''[]''), h2)" for dumps st prev h
    using write_body_allowed [of dumps st prev]
    by (simp add: state_request_def gh_bind_def gh_lift_def gh_require_def run_command_def is_obj_def
        http_response_single env page_head resp)
  then have "\<exists>h2. write_state ledger_github st prev h = (Inr (), h2)" for st prev h
    unfolding write_state_def state_api_def gh_bind_Inr_iff gh_lift_Inr_iff
    by (metis (no_types, lifting) parse)
  then show ?thesis
    using chk
    by (simp add: begin_publication_def gh_bind_Inr_iff positive_five sample_read_state)
qed

theorem publication_consumes_number_witness:
  "\<exists>h' state previous h1 p n rs published h2 h3. read_state sample_sha (\<lambda>_. []) ledger_github [] = (Inr (state, previous), h1)
     \<and> validate_plan sample_sha (\<lambda>_. []) (plan_json sample_reserved) None None = Inr p \<and> pl_build_number p = Some n
     \<and> n \<in> plan_build ` set (ledger_entries state) \<and> n \<le> ledger_counter state \<and> ledger_floor state < n
     \<and> pages ledger_github (lit ''releases'') None h2 = (Inr rs, h3) \<and> published_tags rs = Inr published
     \<and> unsurpassed state published (pl_tag p) n
     \<and> ledger_floor (with_floor state n) = n \<and> h' = h3 @ [put_command ledger_github (with_floor state n) previous]"
proof -
  obtain raw h' where "begin_publication sample_sha (\<lambda>_. []) ledger_github (plan_json sample_reserved) 5 JNull False [] = (Inr raw, h')"
    using sample_published by blast
  from publication_consumes_number [OF this] show ?thesis by simp blast
qed

end
