(* ===== verification/Ledger.thy ===== *)
theory Ledger
  imports Release_State "HOL-Library.Countable"
begin

text \<open>
  Concurrent runs over one ledger. Any number of workflow runs read the file, compute a reservation or a
  publication from what they read, and send a write that names the blob they read; writes may be delayed,
  reordered or lost. The service applies a write only when it names the current blob, which is what the
  documentation of its contents API promises, and a blob identity determines its bytes. An abstract
  specification says what may happen to counter, floor and numbers; every accepted write is one of its steps.
\<close>

section \<open>The specification\<close>

record ledger_view =
  lv_counter :: int
  lv_floor :: int
  lv_numbers :: "pystr \<rightharpoonup> int"

definition view_ok :: "ledger_view \<Rightarrow> bool" where
  "view_ok v \<longleftrightarrow>
     0 \<le> lv_floor v \<and> lv_floor v \<le> lv_counter v \<and> (\<forall>n\<in>ran (lv_numbers v). 0 < n \<and> n \<le> lv_counter v)
     \<and> inj_on (lv_numbers v) (dom (lv_numbers v))"

inductive spec_step :: "ledger_view \<Rightarrow> ledger_view \<Rightarrow> bool" where
  reserve: "lv_numbers v k = None \<Longrightarrow> lv_counter v < n
     \<Longrightarrow> spec_step v (v\<lparr>lv_counter := n, lv_numbers := (lv_numbers v)(k \<mapsto> n)\<rparr>)"
| publish: "n \<in> ran (lv_numbers v) \<Longrightarrow> lv_floor v \<le> n \<Longrightarrow> spec_step v (v\<lparr>lv_floor := n\<rparr>)"

lemma spec_step_ok:
  assumes "view_ok v" and "spec_step v w"
  shows "view_ok w"
  using assms(2)
proof cases
  case (reserve k n)
  have "n \<notin> ran (lv_numbers v)" "0 < n" "ran ((lv_numbers v)(k \<mapsto> n)) = insert n (ran (lv_numbers v))"
    using assms(1) reserve by (auto simp: view_ok_def)
  moreover have "inj_on ((lv_numbers v)(k \<mapsto> n)) (dom ((lv_numbers v)(k \<mapsto> n)))"
    using assms(1) reserve calculation(1) by (fastforce simp: view_ok_def inj_on_def ran_def)
  ultimately show ?thesis using assms(1) reserve by (auto simp: view_ok_def)
next
  case (publish n)
  with assms(1) show ?thesis by (auto simp: view_ok_def)
qed

lemma spec_step_mono:
  assumes "view_ok v" and "spec_step v w"
  shows "lv_counter v \<le> lv_counter w \<and> lv_floor v \<le> lv_floor w \<and> lv_numbers v \<subseteq>\<^sub>m lv_numbers w"
  using assms(2) by cases (auto simp: map_le_def)

section \<open>The view of a ledger\<close>

text \<open>A value that \<open>json\<close> writes without rendering a float.\<close>

fun json_plain :: "json \<Rightarrow> bool" where
  "json_plain (JFloat _) = False"
| "json_plain (JList xs) = (\<forall>x\<in>set xs. json_plain x)"
| "json_plain (JObj d) = (distinct (map fst d) \<and> (\<forall>p\<in>set d. json_plain (snd p)))"
| "json_plain _ = True"

lemma json_plain_wf: "json_plain v \<Longrightarrow> json_wf v"
proof (induction v)
  case (JObj d)
  then show ?case by (force simp: snds.simps)
qed auto

lemma sort_json_plain: "json_plain v \<Longrightarrow> json_plain (sort_json v)"
proof (induction v)
  case (JObj d)
  have "map fst (map (\<lambda>p. (fst p, sort_json (snd p))) d) = map fst d" by simp
  with JObj have "distinct (map fst (sort_entries (map (\<lambda>p. (fst p, sort_json (snd p))) d)))"
    by (metis distinct_sort_entries json_plain.simps(3))
  with JObj show ?case by (force simp: snds.simps)
qed auto

definition view :: "json_dict \<Rightarrow> ledger_view" where
  "view state = \<lparr>lv_counter = ledger_counter state, lv_floor = ledger_floor state,
     lv_numbers = map_option (\<lambda>r. plan_build (record_plan r)) \<circ> map_of (ledger_plans state)\<rparr>"

lemma jget_sort_json:
  assumes "distinct (map fst d)"
  shows "jget (sort_entries (map (\<lambda>p. (fst p, sort_json (snd p))) d)) k = sort_json (jget d k)"
  by (simp add: dict_get_def map_of_sort_json [OF assms] split: option.splits)

lemma sort_json_inverse [simp]:
  "sort_json v = JInt i \<longleftrightarrow> v = JInt i"
  by (cases v) auto

lemma jint_sort_json: "jint (sort_json v) = jint v"
  by (cases v) (auto simp: jint_def)

lemma record_plan_sorted:
  assumes "json_wf r"
  shows "plan_build (record_plan (sort_json r)) = plan_build (record_plan r)"
proof (cases r)
  case (JObj d)
  with assms have d: "distinct (map fst d)" by simp
  show ?thesis
  proof (cases "jget d ''plan''")
    case (JObj p)
    then have "JObj p \<in> snd ` set d"
      by (force simp: dict_get_def dest: map_of_SomeD split: option.splits)
    with assms \<open>r = JObj d\<close> have "distinct (map fst p)" by force
    with JObj \<open>r = JObj d\<close> show ?thesis
      by (simp add: record_plan_def jget_sort_json [OF d] plan_build_def jget_sort_json jint_sort_json)
  qed (simp_all add: record_plan_def JObj jget_sort_json [OF d])
qed (simp_all add: record_plan_def)

lemma sorted_view:
  assumes "json_wf (JObj state)" and "sort_json (JObj state) = JObj state'"
  shows "view state' = view state"
proof -
  from assms have d: "distinct (map fst state)"
    and s: "state' = sort_entries (map (\<lambda>p. (fst p, sort_json (snd p))) state)" by auto
  have j: "jget state' k = sort_json (jget state k)" for k
    unfolding s by (rule jget_sort_json [OF d])
  have "map_option (\<lambda>r. plan_build (record_plan r)) (map_of (ledger_plans state') k)
      = map_option (\<lambda>r. plan_build (record_plan r)) (map_of (ledger_plans state) k)" for k
  proof (cases "jget state ''plans''")
    case (JObj ps)
    then have "JObj ps \<in> snd ` set state"
      by (force simp: dict_get_def dest: map_of_SomeD split: option.splits)
    with assms(1) have ps: "distinct (map fst ps)" "\<forall>r\<in>snd ` set ps. json_wf r" by force+
    have "ledger_plans state' = sort_entries (map (\<lambda>p. (fst p, sort_json (snd p))) ps)" "ledger_plans state = ps"
      using JObj by (simp_all add: ledger_plans_def j)
    with ps show ?thesis
      by (cases "map_of ps k") (force simp: map_of_sort_json record_plan_sorted dest: map_of_SomeD)+
  qed (simp_all add: ledger_plans_def j)
  then show ?thesis
    by (simp add: view_def ledger_counter_def ledger_floor_def j jint_sort_json comp_def)
qed

section \<open>Runs and the service\<close>

text \<open>The file on the branch, every content it has had, and the writes that are on their way.\<close>

record ledger_world =
  lw_file :: "bytes option"
  lw_history :: "bytes list"
  lw_pending :: "json_dict list"

definition fresh_world :: ledger_world where
  "fresh_world = \<lparr>lw_file = None, lw_history = [], lw_pending = []\<rparr>"

text \<open>A response of the contents API for a file: its bytes in base64, its blob identity.\<close>

definition serves :: "(bytes \<Rightarrow> pystr) \<Rightarrow> bytes \<Rightarrow> json_dict \<Rightarrow> bool" where
  "serves blob raw c \<longleftrightarrow>
     (\<exists>s. map_of c (lit ''content'') = Some (JStr s) \<and> filter (\<lambda>x. \<not> is_space x) s = b64encode raw)
     \<and> map_of c (lit ''sha'') = Some (JStr (blob raw))"

definition reads ::
  "sha256 \<Rightarrow> (real \<Rightarrow> pystr) \<Rightarrow> json_codec \<Rightarrow> (bytes \<Rightarrow> pystr) \<Rightarrow> bytes option \<Rightarrow> json_dict \<Rightarrow> pystr option \<Rightarrow> bool" where
  "reads sha fr jc blob file state previous \<longleftrightarrow>
     (case file of
        None \<Rightarrow> state = empty_ledger \<and> previous = None
      | Some raw \<Rightarrow> \<exists>c. serves blob raw c \<and> parse_ledger sha fr (jc_loads jc) c = Inr (state, previous))"

text \<open>A write is applied when the blob it names is the current one; a write that names none creates the file.\<close>

definition accepts :: "(bytes \<Rightarrow> pystr) \<Rightarrow> bytes option \<Rightarrow> json_dict \<Rightarrow> bool" where
  "accepts blob file body \<longleftrightarrow>
     jget body ''sha'' = (case file of None \<Rightarrow> JNull | Some raw \<Rightarrow> JStr (blob raw))"

inductive ledger_step ::
  "sha256 \<Rightarrow> (real \<Rightarrow> pystr) \<Rightarrow> json_codec \<Rightarrow> (bytes \<Rightarrow> pystr) \<Rightarrow> ledger_world \<Rightarrow> ledger_world \<Rightarrow> bool"
  for sha fr jc blob where
  send_reservation: "reads sha fr jc blob (lw_file w) state previous \<Longrightarrow> map_of (ledger_plans state) key = None
     \<Longrightarrow> allocate sha fr state policy base channel sequence source_sha = Inr (number, p)
     \<Longrightarrow> json_plain sequence \<Longrightarrow> json_plain parent
     \<Longrightarrow> ledger_step sha fr jc blob w
          (w\<lparr>lw_pending := write_body (jc_dumps jc) (with_reservation state key number p parent) previous # lw_pending w\<rparr>)"
| send_publication: "reads sha fr jc blob (lw_file w) state previous
     \<Longrightarrow> n \<in> plan_build ` set (ledger_entries state) \<Longrightarrow> ledger_floor state \<le> n
     \<Longrightarrow> ledger_step sha fr jc blob w
          (w\<lparr>lw_pending := write_body (jc_dumps jc) (with_floor state n) previous # lw_pending w\<rparr>)"
| apply_write: "body \<in> set (lw_pending w) \<Longrightarrow> accepts blob (lw_file w) body
     \<Longrightarrow> jget body ''content'' = JStr c \<Longrightarrow> b64decode c = Some raw
     \<Longrightarrow> ledger_step sha fr jc blob w
          (w\<lparr>lw_file := Some raw, lw_history := raw # lw_history w, lw_pending := remove1 body (lw_pending w)\<rparr>)"
| lose_write: "body \<in> set (lw_pending w)
     \<Longrightarrow> ledger_step sha fr jc blob w (w\<lparr>lw_pending := remove1 body (lw_pending w)\<rparr>)"

text \<open>
  What the JSON library promises: a document is bytes, and a value without floats reads back as the same
  value with sorted keys.
\<close>

definition codec_roundtrip :: "json_codec \<Rightarrow> bool" where
  "codec_roundtrip jc \<longleftrightarrow>
     (\<forall>v. json_plain v \<longrightarrow> list_all (\<lambda>b. b < 256) (jc_dumps jc v)
        \<and> jc_loads jc (json_lines (jc_dumps jc) v) = Inr (sort_json v))"

section \<open>Every accepted write is a step of the specification\<close>

definition file_state :: "json_codec \<Rightarrow> bytes option \<Rightarrow> json_dict \<Rightarrow> bool" where
  "file_state jc file state \<longleftrightarrow>
     json_plain (JObj state)
     \<and> (case file of None \<Rightarrow> state = empty_ledger
         | Some raw \<Rightarrow> list_all (\<lambda>b. b < 256) raw \<and> parse_json (jc_loads jc) raw = Inr (JObj state))"

lemma file_state_unique: "file_state jc f s \<Longrightarrow> file_state jc f t \<Longrightarrow> s = t"
  by (auto simp: file_state_def split: option.splits)

lemma file_state_wf: "file_state jc f state \<Longrightarrow> json_plain (JObj state)"
  by (simp add: file_state_def)

lemma json_plain_update:
  assumes "json_plain (JObj d)" and "json_plain v"
  shows "json_plain (JObj (AList.update k v d))"
proof -
  have "set (AList.update k v d) \<subseteq> insert (k, v) (set d)"
    by (induction d) auto
  with assms show ?thesis by (fastforce simp: distinct_update)
qed

lemma json_plain_plans: "json_plain (JObj state) \<Longrightarrow> json_plain (JObj (ledger_plans state))"
  by (force simp: ledger_plans_def dict_get_def dest: map_of_SomeD split: json.splits option.splits)

lemma reads_file:
  assumes "reads sha fr jc blob f state previous" and "file_state jc f s"
  shows "state = s \<and> previous = map_option blob f \<and> (\<forall>raw. f = Some raw \<longrightarrow> blob raw \<noteq> [])
     \<and> (f \<noteq> None \<longrightarrow> check_ledger sha fr (JObj state) = Inr state)"
proof (cases f)
  case None
  with assms show ?thesis by (simp add: reads_def file_state_def)
next
  case (Some raw)
  with assms obtain c t where c: "map_of c (lit ''content'') = Some (JStr t)" "filter (\<lambda>x. \<not> is_space x) t = b64encode raw"
      "map_of c (lit ''sha'') = Some (JStr (blob raw))" "parse_ledger sha fr (jc_loads jc) c = Inr (state, previous)"
    by (auto simp: reads_def serves_def)
  from Some assms(2) have raw: "list_all (\<lambda>b. b < 256) raw" "parse_json (jc_loads jc) raw = Inr (JObj s)"
    by (simp_all add: file_state_def)
  have "decode_content c = Inr raw"
    using c(1,2) b64_roundtrip [OF raw(1)] by (simp add: decode_content_def py_getitem_def)
  with c raw(2) have ok: "check_ledger sha fr (JObj s) = Inr state" "previous = Some (blob raw)" "fullmatch SHA_RE (blob raw)"
    by (auto simp: parse_ledger_def bind_r_Inr_iff dict_get_def)
  from ok(3) have "blob raw \<noteq> []"
    by (auto simp: fullmatch_denotes SHA_RE_def r_hex_def denotes_rep_class)
  with ok check_ledger_cases [OF ok(1)] Some show ?thesis by auto
qed

lemma view_reserved:
  assumes "map_of (ledger_plans state) key = None" and "pl_build_number p = Some number"
    and "\<exists>d. jget state ''plans'' = JObj d"
  shows "view (with_reservation state key number p parent)
    = (view state)\<lparr>lv_counter := number, lv_numbers := (lv_numbers (view state))(key \<mapsto> number)\<rparr>"
proof -
  have n: "plan_build (record_plan (reservation p parent)) = number"
    using assms(2) by (simp add: record_plan_def reservation_def plan_json_def dict_get_def plan_build_def plan_dict_def opt_int_def jint_def)
  show ?thesis
    unfolding view_def
    by (intro ledger_view.equality)
      (auto simp: ledger_counter_def ledger_floor_def ledger_plans_def with_reservation_def dict_get_def jint_def n fun_eq_iff)
qed

lemma plan_json_plain: "json_plain (pl_sequence p) \<Longrightarrow> json_plain (plan_json p)"
  by (auto simp: plan_json_def plan_dict_def opt_int_def split: option.splits)

lemma reservation_refines:
  assumes rd: "reads sha fr jc blob f state previous" and fs: "file_state jc f state"
    and key: "map_of (ledger_plans state) key = None"
    and al: "allocate sha fr state policy base channel sequence source_sha = Inr (number, p)"
    and wf: "json_plain sequence" "json_plain parent"
  shows "spec_step (view state) (view (with_reservation state key number p parent))"
    and "json_plain (JObj (with_reservation state key number p parent))"
proof -
  from al allocate_cases [OF al] have n: "ledger_counter state < number" "pl_build_number p = Some number" by simp_all
  have plans: "\<exists>d. jget state ''plans'' = JObj d"
    using reads_file [OF rd fs] check_ledger_cases [of sha fr "JObj state" state] rd
    by (cases f) (auto simp: reads_def empty_ledger_def dict_get_def)
  have "spec_step (view state) ((view state)\<lparr>lv_counter := number, lv_numbers := (lv_numbers (view state))(key \<mapsto> number)\<rparr>)"
    by (rule spec_step.reserve) (use key n in \<open>simp_all add: view_def\<close>)
  then show "spec_step (view state) (view (with_reservation state key number p parent))"
    by (simp only: view_reserved [OF key n(2) plans])
  from al obtain fl where "create_plan sha fr (JStr base) (JStr channel) sequence (JStr source_sha) policy (JInt (next_number state fl)) = Inr p"
    by (auto simp: allocate_def bind_r_Inr_iff)
  then have "pl_sequence p = sequence" by (cases rule: create_plan_cases) simp
  then have r: "json_plain (reservation p parent)"
    using wf plan_json_plain [of p] by (simp add: reservation_def)
  have st: "json_plain (JObj state)" by (rule file_state_wf [OF fs])
  have "json_plain (JInt number)" by simp
  then show "json_plain (JObj (with_reservation state key number p parent))"
    unfolding with_reservation_def by (intro json_plain_update st json_plain_plans r)
qed

lemma publication_refines:
  assumes fs: "file_state jc f state" and n: "n \<in> plan_build ` set (ledger_entries state)" "ledger_floor state \<le> n"
  shows "spec_step (view state) (view (with_floor state n))" and "json_plain (JObj (with_floor state n))"
proof -
  have wf: "json_plain (JObj state)" by (rule file_state_wf [OF fs])
  from n(1) obtain k r where r: "(k, r) \<in> set (ledger_plans state)" "n = plan_build (record_plan r)"
    by (auto simp: ledger_entries_def)
  with json_plain_plans [OF wf] have "map_of (ledger_plans state) k = Some r" by simp
  then have "lv_numbers (view state) k = Some n" using r by (simp add: view_def)
  then have ran: "n \<in> ran (lv_numbers (view state))" by (auto simp: ran_def)
  have "view (with_floor state n) = (view state)\<lparr>lv_floor := n\<rparr>"
    by (simp add: view_def ledger_floor_with_floor) (simp add: with_floor_def ledger_counter_def ledger_plans_def dict_get_def)
  with spec_step.publish [OF ran] n(2) show "spec_step (view state) (view (with_floor state n))"
    by (simp add: view_def)
  show "json_plain (JObj (with_floor state n))"
    unfolding with_floor_def by (rule json_plain_update [OF wf]) simp
qed

text \<open>A write on its way: it was computed from some earlier content and is a legal step from there.\<close>

definition write_ok ::
  "json_codec \<Rightarrow> (bytes \<Rightarrow> pystr) \<Rightarrow> bytes list \<Rightarrow> json_dict \<Rightarrow> bool" where
  "write_ok jc blob history body \<longleftrightarrow>
     (\<exists>f state new. (f = None \<or> f \<in> Some ` set history) \<and> file_state jc f state
        \<and> body = write_body (jc_dumps jc) new (map_option blob f) \<and> (\<forall>raw. f = Some raw \<longrightarrow> blob raw \<noteq> [])
        \<and> json_plain (JObj new) \<and> spec_step (view state) (view new))"

definition world_ok :: "json_codec \<Rightarrow> (bytes \<Rightarrow> pystr) \<Rightarrow> ledger_world \<Rightarrow> bool" where
  "world_ok jc blob w \<longleftrightarrow>
     (\<exists>state. file_state jc (lw_file w) state \<and> view_ok (view state))
     \<and> (lw_file w = None \<or> lw_file w \<in> Some ` set (lw_history w))
     \<and> (\<forall>body\<in>set (lw_pending w). write_ok jc blob (lw_history w) body)"

lemma write_ok_mono: "write_ok jc blob hs body \<Longrightarrow> set hs \<subseteq> set hs' \<Longrightarrow> write_ok jc blob hs' body"
  unfolding write_ok_def by blast

lemma applied_write:
  assumes codec: "codec_roundtrip jc" and ok: "write_ok jc blob hs body" and inj: "inj_on blob (set hs)"
    and cur: "lw_file w = None \<or> lw_file w \<in> Some ` set hs" and acc: "accepts blob (lw_file w) body"
    and c: "jget body ''content'' = JStr c" "b64decode c = Some raw" and fs: "file_state jc (lw_file w) state"
  shows "\<exists>state'. file_state jc (Some raw) state' \<and> spec_step (view state) (view state')"
proof -
  from ok obtain f st new where f: "f = None \<or> f \<in> Some ` set hs" "file_state jc f st"
      "body = write_body (jc_dumps jc) new (map_option blob f)" "\<forall>raw. f = Some raw \<longrightarrow> blob raw \<noteq> []"
      and new: "json_plain (JObj new)" "spec_step (view st) (view new)"
    unfolding write_ok_def by blast
  have "f = lw_file w"
    using f(1,3,4) acc cur inj
    by (cases f; cases "lw_file w") (auto simp: accepts_def write_body_def dict_get_def dest: inj_onD)
  with f(2) fs have st: "st = state" using file_state_unique by blast
  from codec new(1) have bytes: "list_all (\<lambda>b. b < 256) (json_lines (jc_dumps jc) (JObj new))"
    and loads: "jc_loads jc (json_lines (jc_dumps jc) (JObj new)) = Inr (sort_json (JObj new))"
    by (auto simp: codec_roundtrip_def json_lines_def)
  from c f(3) have "raw = json_lines (jc_dumps jc) (JObj new)"
    using b64_roundtrip [OF bytes] by (auto simp: write_body_def dict_get_def)
  moreover obtain state' where s': "sort_json (JObj new) = JObj state'" by simp
  ultimately have "file_state jc (Some raw) state'"
    using bytes loads sort_json_plain [OF new(1)] json_plain_wf [OF sort_json_plain [OF new(1)]] by (simp add: file_state_def parse_json_def)
  moreover have "view state' = view new" by (rule sorted_view [OF json_plain_wf [OF new(1)] s'])
  ultimately show ?thesis using new(2) st by auto
qed

text \<open>A step keeps the invariant and moves the file by one step of the specification, or not at all.\<close>

lemma step_refines:
  assumes codec: "codec_roundtrip jc" and step: "ledger_step sha fr jc blob w w'" and ok: "world_ok jc blob w"
    and inj: "inj_on blob (set (lw_history w'))"
  shows "world_ok jc blob w'
     \<and> (lw_file w' = lw_file w
        \<or> (\<forall>s s'. file_state jc (lw_file w) s \<longrightarrow> file_state jc (lw_file w') s' \<longrightarrow> spec_step (view s) (view s')))"
  using step
proof cases
  case (send_reservation state previous key policy base channel sequence source_sha number p parent)
  from ok obtain s where s: "file_state jc (lw_file w) s" by (auto simp: world_ok_def)
  from reads_file [OF send_reservation(2) s] have rd: "state = s" "previous = map_option blob (lw_file w)"
    "\<forall>raw. lw_file w = Some raw \<longrightarrow> blob raw \<noteq> []" by auto
  with s have fs: "file_state jc (lw_file w) state" by simp
  from reservation_refines [OF send_reservation(2) fs send_reservation(3-6)]
  have "write_ok jc blob (lw_history w) (write_body (jc_dumps jc) (with_reservation state key number p parent) previous)"
    using rd fs ok unfolding write_ok_def world_ok_def by blast
  with ok show ?thesis by (auto simp: send_reservation(1) world_ok_def)
next
  case (send_publication state previous n)
  from ok obtain s where s: "file_state jc (lw_file w) s" by (auto simp: world_ok_def)
  from reads_file [OF send_publication(2) s] have rd: "state = s" "previous = map_option blob (lw_file w)"
    "\<forall>raw. lw_file w = Some raw \<longrightarrow> blob raw \<noteq> []" by auto
  with s have fs: "file_state jc (lw_file w) state" by simp
  from publication_refines [OF fs send_publication(3,4)]
  have "write_ok jc blob (lw_history w) (write_body (jc_dumps jc) (with_floor state n) previous)"
    using rd fs ok unfolding write_ok_def world_ok_def by blast
  with ok show ?thesis by (auto simp: send_publication(1) world_ok_def)
next
  case (apply_write body c raw)
  from ok obtain s where s: "file_state jc (lw_file w) s" "view_ok (view s)" by (auto simp: world_ok_def)
  have body: "write_ok jc blob (lw_history w) body" "lw_file w = None \<or> lw_file w \<in> Some ` set (lw_history w)"
    using ok apply_write(2) by (auto simp: world_ok_def)
  have "inj_on blob (set (lw_history w))"
    using inj by (simp add: apply_write(1) inj_on_insert)
  from applied_write [OF codec body(1) this body(2) apply_write(3-5) s(1)]
  obtain s' where s': "file_state jc (Some raw) s'" "spec_step (view s) (view s')" by blast
  have pending: "\<forall>b\<in>set (remove1 body (lw_pending w)). write_ok jc blob (raw # lw_history w) b"
    using ok write_ok_mono [of jc blob "lw_history w" _ "raw # lw_history w"]
    by (auto simp: world_ok_def dest!: notin_set_remove1 [rotated] set_remove1_subset [THEN subsetD])
  show ?thesis
    using s s' pending spec_step_ok [OF s(2) s'(2)] file_state_unique
    by (auto simp: apply_write(1) world_ok_def) blast+
next
  case (lose_write body)
  with ok show ?thesis by (auto simp: world_ok_def dest: set_remove1_subset [THEN subsetD])
qed

lemma history_grows: "(ledger_step sha fr jc blob)\<^sup>*\<^sup>* w w' \<Longrightarrow> set (lw_history w) \<subseteq> set (lw_history w')"
proof (induction rule: rtranclp_induct)
  case (step y z)
  from step(2) have "set (lw_history y) \<subseteq> set (lw_history z)" by cases auto
  with step show ?case by blast
qed simp

lemma fresh_world_ok: "world_ok jc blob fresh_world"
proof -
  have "view_ok (view empty_ledger)"
    by (simp add: view_ok_def view_def empty_ledger_facts)
  moreover have "file_state jc None empty_ledger" by (simp add: file_state_def empty_ledger_def)
  ultimately show ?thesis by (auto simp: world_ok_def fresh_world_def)
qed

definition grows :: "json_codec \<Rightarrow> ledger_world \<Rightarrow> ledger_world \<Rightarrow> bool" where
  "grows jc w w' \<longleftrightarrow>
     (\<forall>s s'. file_state jc (lw_file w) s \<longrightarrow> file_state jc (lw_file w') s' \<longrightarrow>
        ledger_counter s \<le> ledger_counter s' \<and> ledger_floor s \<le> ledger_floor s'
        \<and> lv_numbers (view s) \<subseteq>\<^sub>m lv_numbers (view s'))"

lemma step_grows:
  assumes "codec_roundtrip jc" "ledger_step sha fr jc blob w w'" "world_ok jc blob w" "inj_on blob (set (lw_history w'))"
  shows "grows jc w w'"
proof -
  from assms(3) obtain s0 where s0: "file_state jc (lw_file w) s0" "view_ok (view s0)" by (auto simp: world_ok_def)
  have "ledger_counter s \<le> ledger_counter s' \<and> ledger_floor s \<le> ledger_floor s' \<and> lv_numbers (view s) \<subseteq>\<^sub>m lv_numbers (view s')"
    if "file_state jc (lw_file w) s" "file_state jc (lw_file w') s'" for s s'
  proof (cases "lw_file w' = lw_file w")
    case True
    with that have "s' = s" using file_state_unique by metis
    then show ?thesis by simp
  next
    case False
    with step_refines [OF assms] that have "spec_step (view s) (view s')" by blast
    moreover have "view_ok (view s)" using s0 that(1) file_state_unique by metis
    ultimately show ?thesis using spec_step_mono [of "view s" "view s'"] by (simp add: view_def)
  qed
  then show ?thesis by (simp add: grows_def)
qed

lemma steps_refine:
  assumes codec: "codec_roundtrip jc" and steps: "(ledger_step sha fr jc blob)\<^sup>*\<^sup>* w w'" and ok: "world_ok jc blob w"
    and inj: "inj_on blob (set (lw_history w'))"
  shows "world_ok jc blob w' \<and> grows jc w w'"
  using steps inj
proof (induction rule: rtranclp_induct)
  case base
  with ok show ?case by (auto simp: grows_def dest: file_state_unique)
next
  case (step y z)
  have "(ledger_step sha fr jc blob)\<^sup>*\<^sup>* y z" using step(2) by (rule r_into_rtranclp)
  then have "set (lw_history y) \<subseteq> set (lw_history z)" by (rule history_grows)
  with step have y: "world_ok jc blob y" "grows jc w y" by (auto dest: inj_on_subset)
  obtain s where "file_state jc (lw_file y) s" using y(1) by (auto simp: world_ok_def)
  with y step_grows [OF codec step(2) y(1) step.prems] have "grows jc w z"
    unfolding grows_def by (meson map_le_trans order_trans)
  with step_refines [OF codec step(2) y(1) step.prems] show ?case by blast
qed

text \<open>
  C16: Whatever the interleaving of runs that read, reserve, publish and write, with writes delayed,
  reordered or lost, the ledger on the branch never holds two reservations with the same build number,
  every number is positive and at most the counter, and the publication floor is at most the counter.
\<close>

theorem build_numbers_never_collide:
  assumes "codec_roundtrip jc" and "(ledger_step sha fr jc blob)\<^sup>*\<^sup>* fresh_world w"
    and "inj_on blob (set (lw_history w))" and "lw_file w = Some raw"
  shows "\<exists>state. parse_json (jc_loads jc) raw = Inr (JObj state)
     \<and> 0 \<le> ledger_floor state \<and> ledger_floor state \<le> ledger_counter state
     \<and> (\<forall>k r. map_of (ledger_plans state) k = Some r \<longrightarrow>
          0 < plan_build (record_plan r) \<and> plan_build (record_plan r) \<le> ledger_counter state)
     \<and> (\<forall>k r k' r'. map_of (ledger_plans state) k = Some r \<and> map_of (ledger_plans state) k' = Some r'
          \<and> plan_build (record_plan r) = plan_build (record_plan r') \<longrightarrow> k = k')"
proof -
  from steps_refine [OF assms(1,2) fresh_world_ok assms(3)] assms(4) obtain state where
    s: "parse_json (jc_loads jc) raw = Inr (JObj state)" "view_ok (view state)"
    by (auto simp: world_ok_def file_state_def)
  have numbers: "lv_numbers (view state) k = map_option (\<lambda>r. plan_build (record_plan r)) (map_of (ledger_plans state) k)" for k
    by (simp add: view_def)
  have "k = k'" if "map_of (ledger_plans state) k = Some r" "map_of (ledger_plans state) k' = Some r'"
    "plan_build (record_plan r) = plan_build (record_plan r')" for k r k' r'
    using s(2) that by (auto simp: view_ok_def numbers dom_def dest!: inj_onD [where x = k and y = k'])
  moreover have "0 < plan_build (record_plan r) \<and> plan_build (record_plan r) \<le> ledger_counter state"
    if "map_of (ledger_plans state) k = Some r" for k r
    using s(2) that numbers [of k] by (auto simp: view_ok_def ran_def view_def)
  moreover have "0 \<le> ledger_floor state" "ledger_floor state \<le> ledger_counter state"
    using s(2) by (simp_all add: view_ok_def view_def)
  ultimately show ?thesis using s(1) by blast
qed


section \<open>A first reservation\<close>

text \<open>
  A codec that keeps the promise: the values without floats are countable, and a document is the number of
  its value in unary.
\<close>

datatype plain_json =
    PNull
  | PBool bool
  | PInt int
  | PStr "nat list"
  | PList "plain_json list"
  | PObj "(nat list \<times> plain_json) list"

instance plain_json :: countable
  by countable_datatype

fun to_json :: "plain_json \<Rightarrow> json" where
  "to_json PNull = JNull"
| "to_json (PBool b) = JBool b"
| "to_json (PInt i) = JInt i"
| "to_json (PStr s) = JStr s"
| "to_json (PList xs) = JList (map to_json xs)"
| "to_json (PObj d) = JObj (map (\<lambda>p. (fst p, to_json (snd p))) d)"

fun of_json :: "json \<Rightarrow> plain_json" where
  "of_json (JBool b) = PBool b"
| "of_json (JInt i) = PInt i"
| "of_json (JStr s) = PStr s"
| "of_json (JList xs) = PList (map of_json xs)"
| "of_json (JObj d) = PObj (map (\<lambda>p. (fst p, of_json (snd p))) d)"
| "of_json _ = PNull"

lemma to_of_json: "json_plain v \<Longrightarrow> to_json (of_json v) = v"
proof (induction v)
  case (JObj d)
  then have "map (\<lambda>p. (fst p, to_json (of_json (snd p)))) d = map id d"
    by (intro map_cong) (force simp: snds.simps)+
  then show ?case by (simp add: comp_def)
next
  case (JList xs)
  then have "map (\<lambda>x. to_json (of_json x)) xs = map id xs" by (intro map_cong) auto
  then show ?case by (simp add: comp_def)
qed auto

definition unary_codec :: json_codec where
  "unary_codec = \<lparr>jc_loads = (\<lambda>b. Inr (sort_json (to_json (from_nat (length b - 1))))), jc_raw_decode = (\<lambda>_. None),
     jc_dumps = (\<lambda>v. replicate (to_nat (of_json v)) 49)\<rparr>"

lemma unary_roundtrip: "codec_roundtrip unary_codec"
  by (simp add: codec_roundtrip_def unary_codec_def json_lines_def list_all_iff to_of_json)

lemma sample_allocation:
  "\<exists>p. allocate sample_sha (\<lambda>_. []) empty_ledger sample_policy (lit ''1.2.3'') (lit ''beta'') (JInt 4) (replicate 40 48) = Inr (1, p)"
proof -
  have "policy_floor sample_policy = Inr 0"
    by (simp add: policy_floor_def sample_policy_def py_getitem_def py_get_def dict_get_def jint_def)
  moreover have "next_number empty_ledger 0 = 1" by (simp add: next_number_def empty_ledger_facts)
  ultimately show ?thesis
    using sample_plan_for [OF sample_identity, of 1] by (auto simp: allocate_def)
qed

lemma sample_reserved_world:
  "\<exists>w raw. (ledger_step sample_sha (\<lambda>_. []) unary_codec (\<lambda>_. []))\<^sup>*\<^sup>* fresh_world w \<and> lw_file w = Some raw \<and> lw_history w = [raw]"
proof -
  let ?step = "ledger_step sample_sha (\<lambda>_. []) unary_codec (\<lambda>_. [])"
  obtain p where p: "allocate sample_sha (\<lambda>_. []) empty_ledger sample_policy (lit ''1.2.3'') (lit ''beta'') (JInt 4) (replicate 40 48) = Inr (1, p)"
    using sample_allocation by blast
  let ?new = "with_reservation empty_ledger (lit ''5'') 1 p JNull"
  let ?raw = "json_lines (jc_dumps unary_codec) (JObj ?new)"
  let ?body = "write_body (jc_dumps unary_codec) ?new None"
  have bytes: "list_all (\<lambda>b. b < 256) ?raw"
    by (simp add: unary_codec_def json_lines_def list_all_iff)
  have "?step fresh_world (fresh_world\<lparr>lw_pending := ?body # lw_pending fresh_world\<rparr>)"
    by (rule send_reservation [OF _ _ p]) (simp_all add: reads_def fresh_world_def empty_ledger_facts)
  moreover have "?step (fresh_world\<lparr>lw_pending := [?body]\<rparr>)
      (fresh_world\<lparr>lw_file := Some ?raw, lw_history := [?raw], lw_pending := []\<rparr>)"
    using apply_write [of ?body "fresh_world\<lparr>lw_pending := [?body]\<rparr>" "\<lambda>_. []" "b64encode ?raw" ?raw sample_sha "\<lambda>_. []" unary_codec]
    by (simp add: accepts_def fresh_world_def write_body_def dict_get_def b64_roundtrip [OF bytes])
  ultimately show ?thesis
    by (intro exI [of _ "fresh_world\<lparr>lw_file := Some ?raw, lw_history := [?raw], lw_pending := []\<rparr>"] exI [of _ ?raw])
      (auto simp: fresh_world_def intro: rtranclp.intros)
qed

theorem build_numbers_never_collide_witness:
  "\<exists>w raw. (ledger_step sample_sha (\<lambda>_. []) unary_codec (\<lambda>_. []))\<^sup>*\<^sup>* fresh_world w \<and> lw_file w = Some raw
     \<and> (\<exists>state. parse_json (jc_loads unary_codec) raw = Inr (JObj state)
     \<and> 0 \<le> ledger_floor state \<and> ledger_floor state \<le> ledger_counter state
     \<and> (\<forall>k r k' r'. map_of (ledger_plans state) k = Some r \<and> map_of (ledger_plans state) k' = Some r'
          \<and> plan_build (record_plan r) = plan_build (record_plan r') \<longrightarrow> k = k'))"
proof -
  obtain w raw where w: "(ledger_step sample_sha (\<lambda>_. []) unary_codec (\<lambda>_. []))\<^sup>*\<^sup>* fresh_world w" "lw_file w = Some raw"
    "lw_history w = [raw]"
    using sample_reserved_world by blast
  then have "inj_on (\<lambda>_. [] :: pystr) (set (lw_history w))" by simp
  from build_numbers_never_collide [OF unary_roundtrip w(1) this w(2)] w show ?thesis by blast
qed


end
