(* ===== verification/Release_Validation.thy ===== *)
theory Release_Validation
  imports Release_Control
begin

text \<open>
  \<open>scripts/release_validation.py\<close> and the policy part of \<open>scripts/release_fuzz.py\<close>: which validators a
  release policy selects for a channel, the results the release gate demands of them, and the jobs a
  publication must find in its run. The policy is the parsed JSON object.
\<close>

section \<open>Iteration\<close>

text \<open>\<open>for x in v\<close>: a list gives its elements, a string its characters, a dictionary its keys.\<close>

definition py_iter :: "json \<Rightarrow> json list result" where
  "py_iter v =
     (case v of
        JList xs \<Rightarrow> Inr xs
      | JStr s \<Rightarrow> Inr (map (\<lambda>c. JStr [c]) s)
      | JObj d \<Rightarrow> Inr (map (\<lambda>e. JStr (fst e)) d)
      | _ \<Rightarrow> Inl TypeError)"

definition py_update :: "(pystr \<times> 'a) list \<Rightarrow> (pystr \<times> 'a) list \<Rightarrow> (pystr \<times> 'a) list" where
  "py_update d kvs = fold (\<lambda>e. AList.update (fst e) (snd e)) kvs d"

section \<open>Validators of a channel\<close>

definition GATE_WORKFLOW :: string where
  "GATE_WORKFLOW = ''release-quality-gate.yml''"

definition CHANNELS :: "string list" where
  "CHANNELS = [''nightly'', ''beta'', ''rc'', ''stable'']"

text \<open>\<open>[A-Za-z0-9_-]+\.ya?ml\<close>.\<close>

definition VALIDATOR_FILE :: rexp where
  "VALIDATOR_FILE = r_seq [r_plus (RClass True [(65, 90), (97, 122), (48, 57), (95, 95), (45, 45)]),
     r_lit ''.y'', r_opt (r_char 97), r_lit ''ml'']"

definition validator_name :: "json \<Rightarrow> bool" where
  "validator_name v =
     (case v of
        JStr name \<Rightarrow>
          fullmatch VALIDATOR_FILE name
          \<and> name \<notin> set (map lit [GATE_WORKFLOW, ''quality-gate.yml'', ''release-pipeline.yml'', ''release-build.yml''])
      | _ \<Rightarrow> False)"

definition channel_workflows :: "json_dict \<Rightarrow> json list option result" where
  "channel_workflows policy =
     (if \<not> has_key policy ''channel_validation_workflows'' then Inr None
      else
        (case jget policy ''channel_validation_workflows'' of
           JObj config \<Rightarrow>
             if fst ` set config = {lit ''beta''}
                \<and> dict_get policy (lit ''mode'') (JStr (lit ''release'')) = JStr (lit ''release'')
                \<and> dict_get policy (lit ''ci_execution'') (JStr (lit ''github'')) = JStr (lit ''github'')
                \<and> jget policy ''single_entry_ci'' = JBool True
                \<and> is_obj (jget policy ''versioning'')
             then
               (case jget config ''beta'' of
                  JList names \<Rightarrow>
                    if names \<noteq> [] \<and> list_all validator_name names \<and> distinct names then Inr (Some names)
                    else Inl (ValueError ''Beta validation requires unique, nonempty local validator filenames'')
                | _ \<Rightarrow> Inl (ValueError ''Beta validation requires unique, nonempty local validator filenames''))
             else Inl (ValueError ''channel_validation_workflows requires versioned single-entry releases and only beta'')
         | _ \<Rightarrow> Inl (ValueError ''channel_validation_workflows requires versioned single-entry releases and only beta'')))"

definition profile :: "json_dict \<Rightarrow> pystr \<Rightarrow> json result" where
  "profile policy channel =
     bind_r (channel_workflows policy) (\<lambda>selected.
       case selected of
         None \<Rightarrow> Inr JNull
       | Some beta \<Rightarrow>
           guard_r (channel \<in> set (map lit CHANNELS)) (ValueError ''Unknown release validation channel'')
          (bind_r (if channel = lit ''beta'' then Inr (JList beta)
                   else py_getitem (JObj policy) (lit ''validation_workflows'')) (\<lambda>workflows.
             Inr (JObj [(lit ''schema'', JInt 1), (lit ''channel'', JStr channel), (lit ''workflows'', workflows)]))))"

section \<open>The release gate\<close>

type_synonym outcomes = "(pystr \<times> string) list"

definition numbered :: "string \<Rightarrow> nat \<Rightarrow> string \<Rightarrow> outcomes" where
  "numbered prefix n outcome = map (\<lambda>i. (lit prefix @ nat_digits i, outcome)) [0..<n]"

text \<open>\<open>"coverage-" + report["name"]\<close> for every declared report.\<close>

definition report_key :: "json \<Rightarrow> pystr result" where
  "report_key report =
     bind_r (py_getitem report (lit ''name'')) (\<lambda>name.
       case name of JStr s \<Rightarrow> Inr (lit ''coverage-'' @ s) | _ \<Rightarrow> Inl TypeError)"

definition coverage_keys :: "json_dict \<Rightarrow> pystr list result" where
  "coverage_keys policy =
     bind_r (as_dict (dict_get policy (lit ''coverage'') (JObj []))) (\<lambda>coverage.
     bind_r (py_iter (dict_get coverage (lit ''reports'') (JList []))) (map_r report_key))"

definition expected_results :: "json_dict \<Rightarrow> pystr \<Rightarrow> outcomes result" where
  "expected_results policy channel =
     bind_r (channel_workflows policy) (\<lambda>selected.
       case selected of
         None \<Rightarrow> Inl (ValueError ''Release validation needs an explicit policy and known channel'')
       | Some beta \<Rightarrow>
           guard_r (channel \<in> set (map lit CHANNELS))
             (ValueError ''Release validation needs an explicit policy and known channel'')
          (bind_r (py_getitem (JObj policy) (lit ''validation_workflows'')) (\<lambda>v.
           bind_r (py_iter v) (\<lambda>validators.
           bind_r (coverage_keys policy) (\<lambda>reports.
             let stable = (if channel = lit ''beta'' then ''skipped'' else ''success'');
                 results = map (\<lambda>k. (lit k, ''success'')) [''scope'', ''workflow-contracts'', ''release-contracts''];
                 results = py_update results (numbered ''check-'' (length validators) stable);
                 results = py_update results (numbered ''beta-check-'' (length beta)
                             (if channel = lit ''beta'' then ''success'' else ''skipped''))
             in Inr (py_update results (map (\<lambda>k. (k, stable)) reports)))))))"

definition check_results :: "json_dict \<Rightarrow> pystr \<Rightarrow> json_dict \<Rightarrow> unit result" where
  "check_results policy channel results =
     bind_r (expected_results policy channel) (\<lambda>expected.
     guard_r (fst ` set results = fst ` set expected) (ValueError ''Release validation job inventory differs'')
    (bind_r (as_dict (jget results ''scope'')) (\<lambda>scope.
     bind_r (as_dict (dict_get scope (lit ''outputs'') (JObj []))) (\<lambda>outputs.
     guard_r (jget outputs ''run'' = JStr (lit ''true'')) (ValueError ''Release validation scope must run real checks'')
    (bind_r (map_r (\<lambda>e. bind_r (as_dict (snd e)) (\<lambda>d. Inr (fst e, jget d ''result''))) results) (\<lambda>outcomes.
     guard_r (list_all (\<lambda>e. snd e = JStr (lit (the (map_of expected (fst e))))) outcomes)
       (ValueError ''Release validation did not pass'') (Inr ())))))))"

text \<open>
  The event that started the run selects the channel; a dispatch names it. The environment and the reading
  of the event payload are arguments.
\<close>

definition event_channel ::
  "(string \<Rightarrow> pystr option) \<Rightarrow> (pystr \<Rightarrow> json result) \<Rightarrow> json result" where
  "event_channel environ read_json =
     (let event = environ ''GITHUB_EVENT_NAME''
      in if event = Some (lit ''workflow_dispatch'')
         then
           (case environ ''GITHUB_EVENT_PATH'' of
              None \<Rightarrow> Inl KeyError
            | Some path \<Rightarrow>
                bind_r (read_json path) (\<lambda>payload.
                bind_r (py_get payload (lit ''inputs'') (JObj [])) (\<lambda>inputs.
                  py_get inputs (lit ''channel'') JNull)))
         else if event = Some (lit ''push'') then Inr (JStr (lit ''beta''))
         else if event = Some (lit ''schedule'') then Inr (JStr (lit ''nightly''))
         else Inr JNull)"

definition check_event ::
  "(string \<Rightarrow> pystr option) \<Rightarrow> (pystr \<Rightarrow> json result) \<Rightarrow> pystr \<Rightarrow> unit result" where
  "check_event environ read_json channel =
     bind_r (event_channel environ read_json) (\<lambda>expected.
     guard_r (channel \<in> set (map lit CHANNELS) \<and> expected = JStr channel)
       (ValueError ''Validation channel differs from the release event'') (Inr ()))"

text \<open>The command line: \<open>action\<close> is one of the two the parser accepts, the results are in the environment.\<close>

definition validation_main ::
  "(bytes \<Rightarrow> json result) \<Rightarrow> (string \<Rightarrow> pystr option) \<Rightarrow> (pystr \<Rightarrow> json result) \<Rightarrow> string \<Rightarrow> pystr \<Rightarrow> unit result" where
  "validation_main loads environ read_json action channel =
     bind_r (read_json (lit ''.release-policy.json'')) (\<lambda>v.
     bind_r (as_dict v) (\<lambda>policy.
     bind_r (profile policy channel) (\<lambda>_.
     bind_r (check_event environ read_json channel) (\<lambda>_.
       if action = ''gate''
       then
         (case environ ''RESULTS'' of
            None \<Rightarrow> Inl KeyError
          | Some s \<Rightarrow>
              bind_r (utf8_encode s) (\<lambda>bs. bind_r (loads bs) (\<lambda>r. bind_r (as_dict r) (check_results policy channel))))
       else Inr ()))))"

section \<open>The jobs of the run\<close>

text \<open>\<open>str(name).startswith(...)\<close>: the text of a value that is no string never starts like that.\<close>

definition is_marker :: "json_dict \<Rightarrow> bool" where
  "is_marker job =
     (case dict_get job (lit ''name'') (JStr []) of
        JStr s \<Rightarrow> startswith s (lit ''checks / Validation profile ('') | _ \<Rightarrow> False)"

definition job_succeeded :: "json \<Rightarrow> json_dict \<Rightarrow> bool" where
  "job_succeeded sha job \<longleftrightarrow>
     json_eq (jget job ''head_sha'') sha \<and> jget job ''status'' = JStr (lit ''completed'')
     \<and> jget job ''conclusion'' = JStr (lit ''success'')"

definition only_job_succeeded :: "json_dict list \<Rightarrow> pystr \<Rightarrow> json \<Rightarrow> bool" where
  "only_job_succeeded jobs name sha \<longleftrightarrow>
     (case filter (\<lambda>job. jget job ''name'' = JStr name) jobs of [job] \<Rightarrow> job_succeeded sha job | _ \<Rightarrow> False)"

definition check_run_jobs :: "json list \<Rightarrow> pystr \<Rightarrow> json \<Rightarrow> unit result" where
  "check_run_jobs rows channel sha =
     bind_r (map_r as_dict rows) (\<lambda>jobs.
     guard_r (length (filter is_marker jobs) = 1)
       (ValueError ''Release validation must have exactly one channel profile'')
    (guard_r (list_all (\<lambda>name. only_job_succeeded jobs name sha)
                [lit ''checks / CI gate'', lit ''checks / Validation profile ('' @ channel @ lit '')''])
       (ValueError ''Release validation profile and CI gate must succeed at the source SHA'') (Inr ())))"

section \<open>Fuzzing of release candidates\<close>

definition FUZZ_MANIFEST :: string where
  "FUZZ_MANIFEST = ''.github/fuzz.json''"

definition FUZZ_JOB :: string where
  "FUZZ_JOB = ''fuzz / RC fuzzing''"

definition configuration :: "json_dict \<Rightarrow> json_dict option result" where
  "configuration policy =
     (case jget policy ''fuzzing'' of
        JNull \<Rightarrow> Inr None
      | JObj value \<Rightarrow>
          if fst ` set value = {lit ''toolkit_ref''} \<and> str_matches SHA_RE (jget value ''toolkit_ref'')
             \<and> dict_get policy (lit ''visibility'') (JStr (lit ''public'')) = JStr (lit ''public'')
             \<and> jget policy ''mode'' = JStr (lit ''release'')
             \<and> dict_get policy (lit ''ci_execution'') (JStr (lit ''github'')) = JStr (lit ''github'')
             \<and> is_obj (jget policy ''versioning'')
          then Inr (Some value)
          else Inl (ValueError ''Fuzzing requires public versioned hosted releases and a pinned toolkit_ref'')
      | _ \<Rightarrow> Inl (ValueError ''Fuzzing requires public versioned hosted releases and a pinned toolkit_ref''))"

definition fuzz_profile :: "json_dict \<Rightarrow> pystr \<Rightarrow> json result" where
  "fuzz_profile policy channel =
     bind_r (configuration policy) (\<lambda>config.
       case config of
         Some value \<Rightarrow>
           if channel \<noteq> lit ''rc'' then Inr JNull
           else Inr (JObj (py_update [(lit ''schema'', JInt 1), (lit ''channel'', JStr (lit ''rc'')),
                                     (lit ''manifest'', JStr (lit FUZZ_MANIFEST))] value))
       | None \<Rightarrow> Inr JNull)"

definition check_fuzz_jobs :: "json list \<Rightarrow> pystr \<Rightarrow> json \<Rightarrow> unit result" where
  "check_fuzz_jobs rows channel sha =
     bind_r (map_r as_dict rows) (\<lambda>jobs.
       if channel = lit ''rc''
       then guard_r (only_job_succeeded jobs (lit FUZZ_JOB) sha)
              (ValueError ''RC requires one successful fuzz job at the exact source SHA'') (Inr ())
       else guard_r (list_all (\<lambda>job. jget job ''conclusion'' = JStr (lit ''skipped''))
                       (filter (\<lambda>job. jget job ''name'' = JStr (lit FUZZ_JOB)) jobs))
              (ValueError ''Fuzzing must not run outside RC'') (Inr ()))"

section \<open>What the gate demands\<close>

lemma keys_py_update: "fst ` set (py_update d kvs) = fst ` set d \<union> fst ` set kvs"
  unfolding py_update_def by (induction kvs arbitrary: d) (auto simp: keys_update)

lemma map_of_py_update: "map_of (py_update d kvs) = map_of d ++ map_of (rev kvs)"
  unfolding py_update_def
  by (induction kvs arbitrary: d) (auto simp: fun_eq_iff map_add_def split: option.splits)

text \<open>Later entries win, and a key whose entries agree has their value.\<close>

lemma py_update_keep: "k \<notin> fst ` set kvs \<Longrightarrow> map_of (py_update d kvs) k = map_of d k"
  by (auto simp: map_of_py_update map_add_def dest: map_of_SomeD split: option.splits) (force dest: map_of_SomeD)

lemma map_of_const: "k \<in> set ks \<Longrightarrow> map_of (map (\<lambda>k. (k, v)) ks) k = Some v"
  by (induction ks) auto

lemma py_update_const: "k \<in> set ks \<Longrightarrow> map_of (py_update d (map (\<lambda>k. (k, v)) ks)) k = Some v"
  by (simp add: map_of_py_update rev_map map_of_const)

lemma numbered_keys: "numbered p n v = map (\<lambda>k. (k, v)) (map (\<lambda>i. lit p @ nat_digits i) [0..<n])"
  by (simp add: numbered_def comp_def)

lemma set_numbered: "fst ` set (numbered p n v) = (\<lambda>i. lit p @ nat_digits i) ` {..<n}"
  by (simp add: numbered_def image_image atLeast0LessThan)

lemma map_r_member: "map_r f xs = Inr ys \<Longrightarrow> x \<in> set xs \<Longrightarrow> \<exists>y\<in>set ys. f x = Inr y"
  unfolding map_r_Inr_iff by (induction rule: list_all2_induct) auto

lemma map_r_source: "map_r f xs = Inr ys \<Longrightarrow> y \<in> set ys \<Longrightarrow> \<exists>x\<in>set xs. f x = Inr y"
  unfolding map_r_Inr_iff by (induction rule: list_all2_induct) auto

text \<open>The result a job reported.\<close>

definition outcome_of :: "json_dict \<Rightarrow> pystr \<Rightarrow> json" where
  "outcome_of results k = (case map_of results k of Some (JObj d) \<Rightarrow> jget d ''result'' | _ \<Rightarrow> JNull)"

lemma check_results_cases:
  assumes "check_results policy channel results = Inr ()"
  obtains expected where "expected_results policy channel = Inr expected"
    "fst ` set results = fst ` set expected"
    "\<And>k v. map_of expected k = Some v \<Longrightarrow> outcome_of results k = JStr (lit v)"
proof -
  from assms obtain expected outcomes where e: "expected_results policy channel = Inr expected"
    "fst ` set results = fst ` set expected"
    "map_r (\<lambda>e. bind_r (as_dict (snd e)) (\<lambda>d. Inr (fst e, jget d ''result''))) results = Inr outcomes"
    "list_all (\<lambda>e. snd e = JStr (lit (the (map_of expected (fst e))))) outcomes"
    by (auto simp: check_results_def bind_r_Inr_iff)
  have "outcome_of results k = JStr (lit v)" if k: "map_of expected k = Some v" for k v
  proof -
    from k have "k \<in> fst ` set expected" by (auto dest!: map_of_SomeD intro: rev_image_eqI)
    with e(2) have "k \<in> fst ` set results" by simp
    then obtain r where r: "map_of results k = Some r" "(k, r) \<in> set results"
      by (metis map_of_SomeD map_of_eq_None_iff not_None_eq)
    from map_r_member [OF e(3) r(2)] obtain d where d: "r = JObj d" "(k, jget d ''result'') \<in> set outcomes"
      by (auto simp: bind_r_Inr_iff as_dict_def split: json.splits)
    with e(4) k r show ?thesis by (auto simp: list_all_iff outcome_of_def)
  qed
  with e(1,2) show ?thesis by (rule that)
qed

lemma expected_lookup:
  assumes "expected_results policy channel = Inr expected"
  obtains beta validators reports where "channel_workflows policy = Inr (Some beta)"
    "channel \<in> set (map lit CHANNELS)"
    "py_iter (jget policy ''validation_workflows'') = Inr validators" "coverage_keys policy = Inr reports"
    "\<And>k. k \<in> {''scope'', ''workflow-contracts'', ''release-contracts''} \<Longrightarrow> map_of expected (lit k) = Some ''success''"
    "\<And>i. i < length validators \<Longrightarrow> map_of expected (lit ''check-'' @ nat_digits i)
        = Some (if channel = lit ''beta'' then ''skipped'' else ''success'')"
    "\<And>i. i < length beta \<Longrightarrow> map_of expected (lit ''beta-check-'' @ nat_digits i)
        = Some (if channel = lit ''beta'' then ''success'' else ''skipped'')"
    "\<And>k. k \<in> set reports \<Longrightarrow> map_of expected k = Some (if channel = lit ''beta'' then ''skipped'' else ''success'')"
proof -
  from assms obtain beta v validators reports where
    c: "channel_workflows policy = Inr (Some beta)" "channel \<in> set (map lit CHANNELS)"
      "py_getitem (JObj policy) (lit ''validation_workflows'') = Inr v" "py_iter v = Inr validators"
      "coverage_keys policy = Inr reports"
    and e: "expected = py_update (py_update (py_update
        (map (\<lambda>k. (lit k, ''success'')) [''scope'', ''workflow-contracts'', ''release-contracts''])
        (numbered ''check-'' (length validators) (if channel = lit ''beta'' then ''skipped'' else ''success'')))
        (numbered ''beta-check-'' (length beta) (if channel = lit ''beta'' then ''success'' else ''skipped'')))
        (map (\<lambda>k. (k, if channel = lit ''beta'' then ''skipped'' else ''success'')) reports)"
    by (auto simp: expected_results_def bind_r_Inr_iff Let_def split: option.splits)
  have v: "jget policy ''validation_workflows'' = v"
    using c(3) by (auto simp: py_getitem_def dict_get_def split: option.splits)
  have reports: "\<exists>s. k = lit ''coverage-'' @ s" if k: "k \<in> set reports" for k
  proof -
    from c(5) obtain vs where vs: "map_r report_key vs = Inr reports"
      by (auto simp: coverage_keys_def bind_r_Inr_iff)
    from map_r_source [OF this k] obtain r where "report_key r = Inr k" by blast
    then obtain name where "(case name of JStr s \<Rightarrow> Inr (lit ''coverage-'' @ s) | _ \<Rightarrow> Inl TypeError) = Inr k"
      by (auto simp: report_key_def bind_r_Inr_iff)
    then show ?thesis by (cases name) auto
  qed
  have apart: "fst ` set (map (\<lambda>k. (k, v)) reports) = set reports" for v :: string by force
  have coverage: "lit k \<notin> set reports" if "k \<in> {''scope'', ''workflow-contracts'', ''release-contracts''}" for k
    using that reports [of "lit k"] by (auto simp: lit_def)
  have checks: "lit ''check-'' @ s \<notin> set reports" "lit ''beta-check-'' @ s \<notin> set reports" for s
    using reports [of "lit ''check-'' @ s"] reports [of "lit ''beta-check-'' @ s"] by (auto simp: lit_def)
  have names: "lit k \<notin> fst ` set (numbered ''check-'' n v)" "lit k \<notin> fst ` set (numbered ''beta-check-'' n v)"
    if "k \<in> {''scope'', ''workflow-contracts'', ''release-contracts''}" for k n v
    using that by (auto simp: set_numbered lit_def)
  have beta: "lit ''check-'' @ s \<notin> fst ` set (numbered ''beta-check-'' n v)" for s n v
    by (auto simp: set_numbered lit_def)
  show ?thesis
  proof (rule that [OF c(1,2) _ c(5)])
    show "py_iter (jget policy ''validation_workflows'') = Inr validators" using c(4) v by simp
  next
    fix k assume k: "k \<in> {''scope'', ''workflow-contracts'', ''release-contracts''}"
    then have "map_of (map (\<lambda>k. (lit k, ''success'')) [''scope'', ''workflow-contracts'', ''release-contracts'']) (lit k) = Some ''success''"
      by auto
    then show "map_of expected (lit k) = Some ''success''"
      unfolding e by (simp only: py_update_keep apart coverage [OF k] names [OF k] not_False_eq_True)
  next
    fix i assume i: "i < length validators"
    then show "map_of expected (lit ''check-'' @ nat_digits i) = Some (if channel = lit ''beta'' then ''skipped'' else ''success'')"
      unfolding e by (simp only: py_update_keep apart checks beta not_False_eq_True, simp only: numbered_keys)
        (rule py_update_const, simp)
  next
    fix i assume i: "i < length beta"
    then show "map_of expected (lit ''beta-check-'' @ nat_digits i) = Some (if channel = lit ''beta'' then ''success'' else ''skipped'')"
      unfolding e by (simp only: py_update_keep apart checks not_False_eq_True, simp only: numbered_keys)
        (rule py_update_const, simp)
  next
    fix k assume "k \<in> set reports"
    then show "map_of expected k = Some (if channel = lit ''beta'' then ''skipped'' else ''success'')"
      unfolding e by (rule py_update_const)
  qed
qed

text \<open>
  C28: The release gate fails closed. When it accepts the results of a run, the policy selected validators
  for the channel, no job is missing or unexpected, the scope and contract jobs succeeded, and for every
  channel but beta each validator and each coverage report succeeded while the beta validators were skipped;
  for beta it is exactly the other way round.
\<close>

theorem validation_gate_fails_closed:
  assumes "check_results policy channel results = Inr ()"
  shows "\<exists>beta validators reports expected. channel_workflows policy = Inr (Some beta) \<and> channel \<in> set (map lit CHANNELS)
     \<and> py_iter (jget policy ''validation_workflows'') = Inr validators \<and> coverage_keys policy = Inr reports
     \<and> expected_results policy channel = Inr expected \<and> fst ` set results = fst ` set expected
     \<and> (\<forall>k\<in>{''scope'', ''workflow-contracts'', ''release-contracts''}. outcome_of results (lit k) = JStr (lit ''success''))
     \<and> (\<forall>i<length validators. outcome_of results (lit ''check-'' @ nat_digits i)
          = JStr (lit (if channel = lit ''beta'' then ''skipped'' else ''success'')))
     \<and> (\<forall>i<length beta. outcome_of results (lit ''beta-check-'' @ nat_digits i)
          = JStr (lit (if channel = lit ''beta'' then ''success'' else ''skipped'')))
     \<and> (\<forall>k\<in>set reports. outcome_of results k
          = JStr (lit (if channel = lit ''beta'' then ''skipped'' else ''success'')))"
proof -
  obtain expected where e: "expected_results policy channel = Inr expected"
    "fst ` set results = fst ` set expected"
    "\<And>k v. map_of expected k = Some v \<Longrightarrow> outcome_of results k = JStr (lit v)"
    by (rule check_results_cases [OF assms]) blast
  from expected_lookup [OF e(1)] obtain beta validators reports where
    c: "channel_workflows policy = Inr (Some beta)" "channel \<in> set (map lit CHANNELS)"
      "py_iter (jget policy ''validation_workflows'') = Inr validators" "coverage_keys policy = Inr reports"
    and k: "\<And>k. k \<in> {''scope'', ''workflow-contracts'', ''release-contracts''} \<Longrightarrow> map_of expected (lit k) = Some ''success''"
      "\<And>i. i < length validators \<Longrightarrow> map_of expected (lit ''check-'' @ nat_digits i)
        = Some (if channel = lit ''beta'' then ''skipped'' else ''success'')"
      "\<And>i. i < length beta \<Longrightarrow> map_of expected (lit ''beta-check-'' @ nat_digits i)
        = Some (if channel = lit ''beta'' then ''success'' else ''skipped'')"
      "\<And>k. k \<in> set reports \<Longrightarrow> map_of expected k = Some (if channel = lit ''beta'' then ''skipped'' else ''success'')"
    by blast
  show ?thesis
    by (rule exI [of _ beta], rule exI [of _ validators], rule exI [of _ reports], rule exI [of _ expected],
        intro conjI ballI allI impI)
      (rule c e(1,2) | rule e(3) [OF k(1)], assumption | rule e(3) [OF k(2)], assumption
        | rule e(3) [OF k(3)], assumption | rule e(3) [OF k(4)], assumption)+
qed

definition sample_gate_policy :: json_dict where
  "sample_gate_policy =
     [(lit ''channel_validation_workflows'', JObj [(lit ''beta'', JList [JStr (lit ''b.yml'')])]),
      (lit ''single_entry_ci'', JBool True), (lit ''versioning'', JObj []),
      (lit ''validation_workflows'', JList [JStr (lit ''v.yml'')])]"

definition sample_gate_results :: json_dict where
  "sample_gate_results =
     [(lit ''scope'', JObj [(lit ''result'', JStr (lit ''success'')), (lit ''outputs'', JObj [(lit ''run'', JStr (lit ''true''))])]),
      (lit ''workflow-contracts'', JObj [(lit ''result'', JStr (lit ''success''))]),
      (lit ''release-contracts'', JObj [(lit ''result'', JStr (lit ''success''))]),
      (lit ''check-0'', JObj [(lit ''result'', JStr (lit ''success''))]),
      (lit ''beta-check-0'', JObj [(lit ''result'', JStr (lit ''skipped''))])]"

lemma sample_gate_workflows: "channel_workflows sample_gate_policy = Inr (Some [JStr (lit ''b.yml'')])"
  by code_simp

lemma sample_gate_accepts: "check_results sample_gate_policy (lit ''rc'') sample_gate_results = Inr ()"
  by code_simp

theorem validation_gate_fails_closed_witness:
  "check_results sample_gate_policy (lit ''rc'') sample_gate_results = Inr ()
     \<and> outcome_of sample_gate_results (lit ''beta-check-'' @ nat_digits 0) = JStr (lit ''skipped'')"
proof -
  have "lit ''rc'' \<noteq> lit ''beta''" by simp
  with validation_gate_fails_closed [OF sample_gate_accepts] sample_gate_workflows sample_gate_accepts
  show ?thesis by auto
qed

end
