(* ===== verification/Release_Notes.thy ===== *)
theory Release_Notes
  imports Github_Api
begin

text \<open>
  The Markdown part of \<open>scripts/release_control.py\<close>: which section of the change log becomes the notes of
  a release. Comments are masked and fences skipped without moving any offset, so that a section found in
  the masked text is cut out of the original one.
\<close>

section \<open>Strings\<close>

text \<open>Iterating \<open>io.StringIO(text)\<close>: lines end after a line feed, which they keep.\<close>

fun text_lines :: "pystr \<Rightarrow> pystr list" where
  "text_lines [] = []"
| "text_lines (c # s) =
     (if c = 10 then [10] # text_lines s
      else (case text_lines s of [] \<Rightarrow> [[c]] | l # ls \<Rightarrow> (c # l) # ls))"

definition lstrip_chars :: "nat list \<Rightarrow> pystr \<Rightarrow> pystr" where
  "lstrip_chars cs s = dropWhile (\<lambda>c. c \<in> set cs) s"

definition rstrip_chars :: "nat list \<Rightarrow> pystr \<Rightarrow> pystr" where
  "rstrip_chars cs s = rev (dropWhile (\<lambda>c. c \<in> set cs) (rev s))"

definition strip_chars :: "nat list \<Rightarrow> pystr \<Rightarrow> pystr" where
  "strip_chars cs s = rstrip_chars cs (lstrip_chars cs s)"

fun find_sub :: "pystr \<Rightarrow> pystr \<Rightarrow> nat option" where
  "find_sub p [] = (if p = [] then Some 0 else None)"
| "find_sub p (c # s) = (if startswith (c # s) p then Some 0 else map_option Suc (find_sub p s))"

section \<open>Fences\<close>

definition release_fence :: "pystr \<Rightarrow> (nat \<times> nat \<times> pystr) option" where
  "release_fence line =
     (let content = lstrip_chars [32] line
      in if length line - length content > 3 \<or> content = [] \<or> hd content \<notin> {96, 126} then None
         else
           (let marker = hd content;
                n = length content - length (lstrip_chars [marker] content)
            in if n < 3 then None else Some (marker, n, drop n content)))"

definition release_fence_closes :: "(nat \<times> nat \<times> pystr) option \<Rightarrow> nat \<times> nat \<Rightarrow> bool" where
  "release_fence_closes candidate fence =
     (case candidate of
        Some (marker, n, rest) \<Rightarrow> marker = fst fence \<and> n \<ge> snd fence \<and> strip_chars [32, 9, 13, 10] rest = []
      | None \<Rightarrow> False)"

section \<open>Inline code and comments\<close>

text \<open>The maximal runs of backticks, as start and end offsets.\<close>

function (sequential) tick_runs :: "nat \<Rightarrow> pystr \<Rightarrow> (nat \<times> nat) list" where
  "tick_runs i [] = []"
| "tick_runs i (c # s) =
     (if c = 96
      then (let n = length (takeWhile (\<lambda>x. x = 96) s)
            in (i, i + 1 + n) # tick_runs (i + 1 + n) (drop n s))
      else tick_runs (i + 1) s)"
  by pat_completeness auto
termination
  by (relation "measure (\<lambda>(_, s). length s)") auto

text \<open>One pass over the runs from the right, keeping for every length the end of the nearest run.\<close>

definition span_step :: "nat \<times> nat \<Rightarrow> (nat \<rightharpoonup> nat) \<times> (nat \<rightharpoonup> nat) \<Rightarrow> (nat \<rightharpoonup> nat) \<times> (nat \<rightharpoonup> nat)" where
  "span_step run acc =
     (let n = snd run - fst run
      in ((fst acc)(n \<mapsto> snd run), case fst acc n of Some e \<Rightarrow> (snd acc)(fst run \<mapsto> e) | None \<Rightarrow> snd acc))"

definition release_code_span_ends :: "pystr \<Rightarrow> (nat \<rightharpoonup> nat)" where
  "release_code_span_ends line = snd (fold span_step (rev (tick_runs 0 line)) (Map.empty, Map.empty))"

definition blank_out :: "pystr \<Rightarrow> pystr" where
  "blank_out s = map (\<lambda>c. if c = 13 \<or> c = 10 then c else 32) s"

text \<open>
  The loop over one line, on the characters from \<open>position\<close> on. A span always ends after its start.
\<close>

function mask_from :: "(nat \<rightharpoonup> nat) \<Rightarrow> nat \<Rightarrow> pystr \<Rightarrow> bool \<Rightarrow> pystr \<times> bool" where
  "mask_from ends position rest comment =
     (if rest = [] then ([], comment)
      else if comment
      then (case find_sub (lit ''-->'') rest of
              None \<Rightarrow> (blank_out rest, True)
            | Some e \<Rightarrow>
                (let (tail, c) = mask_from ends (position + (e + 3)) (drop (e + 3) rest) False
                 in (blank_out (take (e + 3) rest) @ tail, c)))
      else if hd rest = 92
      then (let (tail, c) = mask_from ends (position + 2) (drop 2 rest) False in (take 2 rest @ tail, c))
      else
        (case ends position of
           Some e \<Rightarrow>
             if position < e
             then (let (tail, c) = mask_from ends e (drop (e - position) rest) False in (take (e - position) rest @ tail, c))
             else (rest, comment)
         | None \<Rightarrow>
             if startswith rest (lit ''<!--'') then mask_from ends position rest True
             else (let (tail, c) = mask_from ends (position + 1) (tl rest) False in (hd rest # tail, c))))"
  by pat_completeness auto
termination
  by (relation "measure (\<lambda>(_, _, rest, comment). 2 * length rest + (if comment then 0 else 1))")
    (auto simp: diff_less_mono2 neq_Nil_conv)

declare mask_from.simps [simp del]

definition release_comment_line :: "pystr \<Rightarrow> bool \<Rightarrow> pystr \<times> bool" where
  "release_comment_line line comment = mask_from (release_code_span_ends line) 0 line comment"

section \<open>Lines and headings\<close>

text \<open>What a line shows, whether a heading may start in it and whether it may carry guidance.\<close>

type_synonym note_line = "pystr \<times> bool \<times> bool"

definition opens_fence :: "bool \<Rightarrow> (nat \<times> nat \<times> pystr) option \<Rightarrow> (nat \<times> nat) option" where
  "opens_fence comment candidate =
     (case candidate of
        Some (marker, n, rest) \<Rightarrow> if \<not> comment \<and> (marker = 126 \<or> 96 \<notin> set rest) then Some (marker, n) else None
      | None \<Rightarrow> None)"

fun mark_lines :: "(nat \<times> nat) option \<Rightarrow> bool \<Rightarrow> pystr list \<Rightarrow> note_line list" where
  "mark_lines fence comment [] = []"
| "mark_lines (Some f) comment (line # ls) =
     (let closes = release_fence_closes (release_fence line) f
      in (line, False, \<not> closes) # mark_lines (if closes then None else Some f) comment ls)"
| "mark_lines None comment (line # ls) =
     (case opens_fence comment (release_fence line) of
        Some f \<Rightarrow> (line, False, False) # mark_lines (Some f) comment ls
      | None \<Rightarrow>
          if \<not> comment \<and> (startswith line (replicate 4 32) \<or> startswith line [9])
          then (line, False, True) # mark_lines None comment ls
          else (let (visible, c) = release_comment_line line comment
                in (visible, True, True) # mark_lines None c ls))"

definition release_lines :: "pystr \<Rightarrow> note_line list" where
  "release_lines text = mark_lines None False (text_lines text)"

definition release_heading_title :: "pystr \<Rightarrow> pystr" where
  "release_heading_title content =
     (let title = strip_chars [32, 9, 13, 10] content;
          before_hashes = rstrip_chars [35] title
      in if before_hashes = [] \<or> last before_hashes = 32 \<or> last before_hashes = 9
         then rstrip_chars [32, 9] before_hashes else title)"

text \<open>A heading: its level, its title, and the offsets of its line.\<close>

type_synonym heading = "nat \<times> pystr \<times> nat \<times> nat"

definition line_heading :: "pystr \<Rightarrow> bool \<Rightarrow> nat \<Rightarrow> heading list" where
  "line_heading line heading_allowed offset =
     (let indentation = length line - length (lstrip_chars [32] line);
          heading = (if indentation \<le> 3 then drop indentation line else line);
          level = length heading - length (lstrip_chars [35] heading)
      in if heading_allowed \<and> 1 \<le> level \<and> level \<le> 6
            \<and> take 1 (drop level heading) \<in> {[], [32], [9], [13], [10]}
         then [(level, release_heading_title (drop level heading), offset, offset + length line)] else [])"

fun headings_from :: "nat \<Rightarrow> note_line list \<Rightarrow> heading list" where
  "headings_from offset [] = []"
| "headings_from offset ((line, allowed, _) # ls) =
     line_heading line allowed offset @ headings_from (offset + length line) ls"

definition release_headings :: "pystr \<Rightarrow> heading list" where
  "release_headings text = headings_from 0 (release_lines text)"

section \<open>Sections\<close>

definition slice :: "nat \<Rightarrow> nat \<Rightarrow> pystr \<Rightarrow> pystr" where
  "slice a b s = take (b - a) (drop a s)"

definition visible_text :: "pystr \<Rightarrow> pystr" where
  "visible_text text = concat (map fst (release_lines text))"

fun sections_of :: "nat \<Rightarrow> pystr \<Rightarrow> pystr \<Rightarrow> heading list \<Rightarrow> (pystr \<times> pystr \<times> pystr) list" where
  "sections_of level text visible [] = []"
| "sections_of level text visible ((n, title, _, start) # hs) =
     (let stop = (case hs of (_, _, next_offset, _) # _ \<Rightarrow> next_offset | [] \<Rightarrow> length text)
      in (if n \<noteq> level then [] else [(title, strip (slice start stop text), slice start stop visible)])
         @ sections_of level text visible hs)"

definition release_sections :: "pystr \<Rightarrow> nat \<Rightarrow> (pystr \<times> pystr \<times> pystr) list" where
  "release_sections text level =
     sections_of level text (visible_text text) (filter (\<lambda>h. fst h \<le> level) (release_headings text))"

section \<open>Guidance\<close>

text \<open>\<open>str.expandtabs(4)\<close>: a tab fills up to the next column divisible by four.\<close>

fun expand_from :: "nat \<Rightarrow> pystr \<Rightarrow> pystr" where
  "expand_from column [] = []"
| "expand_from column (c # s) =
     (if c = 9 then (let n = 4 - column mod 4 in replicate n 32 @ expand_from (column + n) s)
      else if c = 10 \<or> c = 13 then c # expand_from 0 s
      else c # expand_from (column + 1) s)"

text \<open>
  A container marker at the head: \<open>>\<close>, a bullet, or one to nine digits and a dot or parenthesis, the
  latter two followed by a blank or the end. Its length, and whether it makes a list item.
\<close>

definition container_marker :: "pystr \<Rightarrow> (nat \<times> bool) option" where
  "container_marker s =
     (let n = length (takeWhile is_digit s);
          item = (if s = [] then 0
                  else if hd s \<in> {45, 43, 42} then 1
                  else if 1 \<le> n \<and> n \<le> 9 \<and> take 1 (drop n s) \<in> {[46], [41]} then n + 1
                  else 0)
      in if s \<noteq> [] \<and> hd s = 62 then Some (1, False)
         else if 0 < item \<and> take 1 (drop item s) \<in> {[], [32], [9]} then Some (item, True)
         else None)"

function container_content :: "bool \<Rightarrow> pystr \<Rightarrow> pystr" where
  "container_content list_item s =
     (case container_marker s of
        Some (n, item) \<Rightarrow>
          (let rest = drop n s; content = lstrip_chars [32, 9] rest
           in if length rest - length content \<ge> 5 then rest else container_content item content)
      | None \<Rightarrow> if list_item \<and> s \<in> {lit ''[ ]'', lit ''[x]'', lit ''[X]''} then [] else s)"
  by pat_completeness auto

lemma container_marker_pos: "container_marker s = Some (n, item) \<Longrightarrow> 0 < n \<and> s \<noteq> []"
  by (auto simp: container_marker_def Let_def split: if_splits)

lemma length_lstrip_chars: "length (lstrip_chars cs s) \<le> length s"
  by (simp add: lstrip_chars_def length_dropWhile_le)

lemma container_content_shorter:
  assumes "container_marker s = Some (n, item)"
  shows "length (lstrip_chars [32, 9] (drop n s)) < length s"
  using container_marker_pos [OF assms] length_lstrip_chars [of "[32, 9]" "drop n s"] by (cases s) auto

termination container_content
  by (relation "measure (\<lambda>(_, s). length s)") (auto simp: container_content_shorter)

declare container_content.simps [simp del]

definition release_container_content :: "pystr \<Rightarrow> pystr" where
  "release_container_content line = container_content False (strip (expand_from 0 line))"

text \<open>\<open> {0,3}#{1,6}(?:[ \t\r\n]|$)\<close> at the start of a line.\<close>

definition heading_start :: "pystr \<Rightarrow> bool" where
  "heading_start line = fullmatch (r_seq
     [r_upto 3 (r_char 32), r_char 35, r_upto 5 (r_char 35),
      r_opt (RSeq (RClass True [(32, 32), (9, 10), (13, 13)]) (RStar r_any))]) line"

definition separator_line :: "pystr \<Rightarrow> bool" where
  "separator_line line =
     (let markers = filter (\<lambda>c. c \<noteq> 32 \<and> c \<noteq> 9) (strip line)
      in length markers \<ge> 3 \<and> hd markers \<in> {45, 42, 95} \<and> strip_chars [hd markers] markers = [])"

definition line_has_guidance :: "note_line \<Rightarrow> bool" where
  "line_has_guidance l =
     (case l of
        (line, heading_allowed, guidance) \<Rightarrow>
          if \<not> guidance \<or> strip line = [] then False
          else if \<not> heading_allowed then True
          else
            (let content = release_container_content line
             in if startswith content (replicate 4 32) \<or> startswith content [9] then True
                else content \<noteq> [] \<and> \<not> heading_start content \<and> \<not> separator_line content))"

definition release_has_guidance :: "pystr \<Rightarrow> bool" where
  "release_has_guidance text = list_ex line_has_guidance (release_lines text)"

definition SETEXT :: rexp where
  "SETEXT = r_seq [r_upto 3 (r_char 32), RAlt (r_plus (r_char 61)) (r_plus (r_char 45)),
     RStar (RClass True [(32, 32), (9, 9)]), r_opt (RSeq (r_opt (r_char 13)) (r_char 10))]"

fun setext_from :: "bool \<Rightarrow> (pystr \<times> note_line) list \<Rightarrow> bool" where
  "setext_from paragraph [] = False"
| "setext_from paragraph ((raw, line, heading_allowed, _) # ls) =
     (if \<not> heading_allowed then setext_from False ls
      else if strip line = [] \<and> strip raw \<noteq> [] then setext_from paragraph ls
      else if fullmatch SETEXT line then (if paragraph then True else setext_from False ls)
      else setext_from (strip line \<noteq> [] \<and> \<not> heading_start line) ls)"

definition release_has_setext_heading :: "pystr \<Rightarrow> bool" where
  "release_has_setext_heading text = setext_from False (zip (text_lines text) (release_lines text))"

section \<open>The notes of a release\<close>

text \<open>\<open>\[X.Y.Z\](?:[ \t]+-[ \t]+[^\n]+)?[ \t]*\<close>.\<close>

definition title_pattern :: "pystr \<Rightarrow> rexp" where
  "title_pattern base =
     (let ws = RClass True [(32, 32), (9, 9)]
      in r_seq [r_char 91, r_seq (map r_char base), r_char 93,
           r_opt (r_seq [r_plus ws, r_char 45, r_plus ws, r_plus (RClass False [(10, 10)])]), RStar ws])"

definition version_section :: "pystr \<Rightarrow> pystr \<Rightarrow> (pystr \<times> pystr) result" where
  "version_section changelog base =
     (let matches = map snd (filter (\<lambda>(title, _). fullmatch (title_pattern base) title) (release_sections changelog 2))
      in rreq (length matches = 1 \<and> fst (hd matches) \<noteq> []) ''Release needs one nonempty changelog section'' (Inr (hd matches)))"

definition section_named :: "pystr \<Rightarrow> (pystr \<times> pystr \<times> pystr) list \<Rightarrow> pystr" where
  "section_named name sections =
     (case filter (\<lambda>(title, _). title = name) sections of (_, _, body) # _ \<Rightarrow> body | [] \<Rightarrow> [])"

definition notes_of_changelog :: "pystr \<Rightarrow> pystr \<Rightarrow> pystr \<Rightarrow> pystr result" where
  "notes_of_changelog changelog base provenance =
     bind_r (version_section changelog base) (\<lambda>(notes, visible_notes).
     rreq (\<not> release_has_setext_heading notes) ''Release note sections must use ATX headings, not Setext underlines''
    (let sections = release_sections visible_notes 3
     in rreq (release_has_guidance (section_named (lit ''Upgrade'') sections)) ''Release notes need Upgrade guidance''
       (rreq (release_has_guidance (section_named (lit ''Security'') sections)) ''Release notes need Security guidance''
       (let body = lit ''## Changes in '' @ base @ [10, 10] @ notes @ [10, 10] @ lit ''## Build provenance'' @ [10, 10] @ provenance
        in bind_r (utf8_encode body) (\<lambda>bs. rreq (length bs \<le> 125000) ''Release notes are too large'' (Inr body))))))"

section \<open>Masking moves nothing\<close>

definition masks :: "nat \<Rightarrow> nat \<Rightarrow> bool" where
  "masks a b \<longleftrightarrow> b = a \<or> (b = 32 \<and> a \<noteq> 10 \<and> a \<noteq> 13)"

lemma masks_same [simp]: "masks a a"
  by (simp add: masks_def)

lemma masks_refl: "list_all2 masks s s"
  by (simp add: list_all2_conv_all_nth masks_def)

lemma masks_blank: "list_all2 masks s (blank_out s)"
  by (simp add: list_all2_conv_all_nth masks_def blank_out_def)

lemma masks_split:
  "list_all2 masks (take n s) u \<Longrightarrow> list_all2 masks (drop n s) v \<Longrightarrow> list_all2 masks s (u @ v)"
  by (metis append_take_drop_id list_all2_appendI)

lemma mask_from_masks: "list_all2 masks rest (fst (mask_from ends position rest comment))"
proof (induction ends position rest comment rule: mask_from.induct)
  case (1 ends position rest comment)
  show ?case
  proof (cases "rest = []")
    case True
    then show ?thesis by (simp add: mask_from.simps)
  next
    case nonempty: False
    then obtain x xs where x: "rest = x # xs" by (cases rest) auto
    show ?thesis
    proof (cases comment)
      case True
      show ?thesis
      proof (cases "find_sub (lit ''-->'') rest")
        case None
        with nonempty True show ?thesis by (subst mask_from.simps) (simp add: masks_blank)
      next
        case (Some e)
        from "1.IH"(1) [OF nonempty True Some] have
          "list_all2 masks (drop (e + 3) rest) (fst (mask_from ends (position + (e + 3)) (drop (e + 3) rest) False))" .
        then show ?thesis
          using nonempty True Some
          by (subst mask_from.simps) (simp add: case_prod_unfold Let_def masks_split [OF masks_blank])
      qed
    next
      case plain: False
      note IH = "1.IH"(2-) [OF nonempty plain]
      show ?thesis
      proof (cases "hd rest = 92")
        case True
        with IH(1) nonempty plain show ?thesis
          by (subst mask_from.simps) (simp add: case_prod_unfold Let_def masks_split [OF masks_refl])
      next
        case False
        note IH' = IH(2-) [OF False]
        show ?thesis
        proof (cases "ends position")
          case (Some e)
          with IH' nonempty plain False show ?thesis
            by (subst mask_from.simps) (simp add: case_prod_unfold Let_def masks_split [OF masks_refl] masks_refl)
        next
          case None
          with IH' nonempty plain False x show ?thesis
            by (subst mask_from.simps) (simp add: case_prod_unfold Let_def)
        qed
      qed
    qed
  qed
qed

lemma mark_lines_mask: "list_all2 (list_all2 masks) ls (map fst (mark_lines fence comment ls))"
proof (induction ls arbitrary: fence comment)
  case (Cons line ls)
  have "list_all2 masks line (fst (release_comment_line line comment))"
    unfolding release_comment_line_def by (rule mask_from_masks)
  with Cons show ?case
    by (cases fence) (auto simp: masks_refl case_prod_unfold Let_def split: option.splits)
qed simp

lemma concat_text_lines [simp]: "concat (text_lines s) = s"
  by (induction s) (auto split: list.splits)

lemma list_all2_concat: "list_all2 (list_all2 P) xs ys \<Longrightarrow> list_all2 P (concat xs) (concat ys)"
  by (induction rule: list_all2_induct) (auto intro: list_all2_appendI)

lemma visible_masks: "list_all2 masks text (visible_text text)"
  using list_all2_concat [OF mark_lines_mask, of "text_lines text" None False]
  by (simp add: visible_text_def release_lines_def)

section \<open>Inline code by its definition\<close>

text \<open>A code span closes at the next run of as many backticks.\<close>

fun next_same :: "nat \<Rightarrow> (nat \<times> nat) list \<Rightarrow> nat option" where
  "next_same n [] = None"
| "next_same n ((a, b) # rs) = (if b - a = n then Some b else next_same n rs)"

fun spans_spec :: "(nat \<times> nat) list \<Rightarrow> (nat \<rightharpoonup> nat)" where
  "spans_spec [] = Map.empty"
| "spans_spec ((a, b) # rs) = (case next_same (b - a) rs of Some e \<Rightarrow> (spans_spec rs)(a \<mapsto> e) | None \<Rightarrow> spans_spec rs)"

lemma span_passes: "foldr span_step rs (Map.empty, Map.empty) = ((\<lambda>n. next_same n rs), spans_spec rs)"
proof (induction rs)
  case (Cons r rs)
  then show ?case by (cases r) (auto simp: span_step_def Let_def fun_eq_iff split: option.splits)
qed simp

text \<open>
  C40: The single pass from the right that pairs backticks computes what Markdown defines: an inline code
  span that opens with a run of backticks ends with the next run of the same length, and a run without a
  partner opens nothing.
\<close>

theorem code_spans_are_exact:
  "release_code_span_ends line = spans_spec (tick_runs 0 line)"
  by (simp add: release_code_span_ends_def foldr_conv_fold [symmetric] span_passes)

section \<open>Sections are cut out of the original\<close>

text \<open>Headings in order: each line range starts where it says and ends before the next one starts.\<close>

fun ordered_headings :: "nat \<Rightarrow> nat \<Rightarrow> heading list \<Rightarrow> bool" where
  "ordered_headings lo hi [] = (lo \<le> hi)"
| "ordered_headings lo hi ((_, _, a, b) # hs) = (lo \<le> a \<and> a \<le> b \<and> ordered_headings b hi hs)"

lemma ordered_weaken: "ordered_headings lo hi hs \<Longrightarrow> lo' \<le> lo \<Longrightarrow> ordered_headings lo' hi hs"
  by (cases hs) auto

lemma ordered_bounds: "ordered_headings lo hi hs \<Longrightarrow> lo \<le> hi"
  by (induction lo hi hs rule: ordered_headings.induct) auto

lemma line_heading_cases:
  "line_heading line allowed offset = [] \<or> (\<exists>n t. line_heading line allowed offset = [(n, t, offset, offset + length line)])"
proof -
  have "(if P then [(a, b, c, d)] else []) = [] \<or> (\<exists>n t. (if P then [(a, b, c, d)] else []) = [(n, t, c, d)])"
    for P and a :: nat and b :: pystr and c d :: nat
    by simp
  then show ?thesis unfolding line_heading_def Let_def .
qed

lemma headings_ordered:
  "ordered_headings offset (offset + length (concat (map fst ls))) (headings_from offset ls)"
proof (induction offset ls rule: headings_from.induct)
  case (2 offset line allowed g ls)
  then have IH: "ordered_headings (offset + length line) (offset + length (concat (map fst ((line, allowed, g) # ls))))
      (headings_from (offset + length line) ls)"
    by (simp add: add.assoc)
  from line_heading_cases [of line allowed offset] show ?case
  proof
    assume "line_heading line allowed offset = []"
    then show ?thesis using ordered_weaken [OF IH, of offset] by simp
  next
    assume "\<exists>n t. line_heading line allowed offset = [(n, t, offset, offset + length line)]"
    then show ?thesis using IH by auto
  qed
qed simp

lemma ordered_filter: "ordered_headings lo hi hs \<Longrightarrow> ordered_headings lo hi (filter P hs)"
proof (induction lo hi hs rule: ordered_headings.induct)
  case (2 lo hi n t a b hs)
  then have IH: "ordered_headings b hi (filter P hs)" "lo \<le> a" "a \<le> b" by simp_all
  then show ?case using ordered_weaken [OF IH(1), of lo] by simp
qed simp

lemma sections_are_slices:
  assumes "ordered_headings lo (length text) hs" and "(title, body, vis) \<in> set (sections_of level text visible hs)"
  shows "\<exists>a b. a \<le> b \<and> b \<le> length text \<and> body = strip (slice a b text) \<and> vis = slice a b visible"
  using assms
proof (induction level "text" visible hs arbitrary: lo rule: sections_of.induct)
  case (2 level doc visible n t a b hs)
  let ?stop = "case hs of (_, _, next_offset, _) # _ \<Rightarrow> next_offset | [] \<Rightarrow> length doc"
  have "b \<le> ?stop \<and> ?stop \<le> length doc"
  proof (cases hs)
    case Nil
    with "2.prems"(1) show ?thesis by simp
  next
    case (Cons h hs')
    obtain m u c d where h: "h = (m, u, c, d)" by (cases h)
    with Cons "2.prems"(1) ordered_bounds [of d "length doc" hs'] show ?thesis by simp
  qed
  with 2 show ?case by (auto simp: Let_def split: if_splits)
qed simp

lemma visible_length: "length (visible_text text) = length text"
  using list_all2_lengthD [OF visible_masks] by simp

text \<open>
  What is checked is what is published. Hiding comments keeps every offset: the text that the checks
  read has the length of the change log and differs from it only by spaces inside comments, never in a line
  break; and every section is one range of both, so the published body is the original text of exactly the
  range whose guidance was checked.
\<close>

theorem checked_section_is_published_section:
  assumes "(title, body, visible) \<in> set (release_sections text level)"
  shows "\<exists>a b. a \<le> b \<and> b \<le> length text \<and> body = strip (slice a b text) \<and> length visible = b - a
     \<and> (\<forall>i < b - a. visible ! i = text ! (a + i) \<or> (visible ! i = 32 \<and> text ! (a + i) \<notin> {10, 13}))"
proof -
  have "ordered_headings 0 (length text) (filter (\<lambda>h. fst h \<le> level) (release_headings text))"
    using ordered_filter [OF headings_ordered [of 0 "release_lines text"]] visible_length [of "text"]
    by (simp add: release_headings_def visible_text_def)
  from sections_are_slices [OF this] assms obtain a b where ab: "a \<le> b" "b \<le> length text"
    "body = strip (slice a b text)" "visible = slice a b (visible_text text)"
    unfolding release_sections_def by blast
  have "masks (text ! i) (visible_text text ! i)" if "i < length text" for i
    using visible_masks [of "text"] that by (simp add: list_all2_conv_all_nth)
  with ab visible_length [of "text"] show ?thesis
    by (intro exI [of _ a] exI [of _ b]) (auto simp: slice_def masks_def)
qed

definition sample_notes :: pystr where
  "sample_notes = lit ''## A'' @ [10] @ lit ''x<!--y-->'' @ [10]"

definition sample_visible :: pystr where
  "sample_visible = lit ''x'' @ replicate 8 32 @ [10]"

lemma sample_sections:
  "release_sections sample_notes 2 = [(lit ''A'', lit ''x<!--y-->'', sample_visible)]"
  by code_simp

theorem checked_section_is_published_section_witness:
  "\<exists>a b. a \<le> b \<and> b \<le> length sample_notes \<and> lit ''x<!--y-->'' = strip (slice a b sample_notes)
     \<and> length sample_visible = b - a
     \<and> (\<forall>i < b - a. sample_visible ! i = sample_notes ! (a + i)
          \<or> (sample_visible ! i = 32 \<and> sample_notes ! (a + i) \<notin> {10, 13}))"
  by (rule checked_section_is_published_section [of "lit ''A''" _ _ _ 2]) (simp add: sample_sections)

end
