(* ===== verification/Release_Manifest.thy ===== *)
theory Release_Manifest
  imports Release_Validation Release_State Release_Notes
begin

text \<open>
  The manifest of a release candidate in \<open>scripts/release_control.py\<close>: the policy at the source commit, its
  snapshot, the release notes taken from that commit, the checks that make a manifest eligible for
  promotion, and the evidence on the service that the manifest is compared with. \<open>SHA-1\<close>, \<open>SHA-256\<close>, the
  table of lower-case letters, the decimal digits of Unicode, the rendering of floats and the reading of a
  ZIP archive are arguments.
\<close>

section \<open>Policies\<close>

definition MANIFEST :: string where
  "MANIFEST = ''release-manifest.json''"

definition POLICY :: string where
  "POLICY = ''.release-policy.json''"

text \<open>\<open>except ValueError as error: raise ReleaseError(str(error))\<close>.\<close>

definition as_release_error :: "'a result \<Rightarrow> 'a result" where
  "as_release_error r =
     (case r of Inl (ValueError m) \<Rightarrow> Inl (ReleaseError m) | _ \<Rightarrow> r)"

definition require_fuzzing_policy :: "json_dict \<Rightarrow> unit result" where
  "require_fuzzing_policy policy =
     (if \<not> has_key policy ''fuzzing'' then Inr ()
      else bind_r (as_release_error (configuration policy)) (\<lambda>_. Inr ()))"

definition nonempty_strings :: "json \<Rightarrow> bool" where
  "nonempty_strings v =
     (case v of
        JList items \<Rightarrow> list_all (\<lambda>i. case i of JStr s \<Rightarrow> strip s \<noteq> [] | _ \<Rightarrow> False) items
      | _ \<Rightarrow> False)"

definition check_blockers :: "json_dict \<Rightarrow> bool \<Rightarrow> string \<Rightarrow> unit result" where
  "check_blockers policy qualified name =
     (let blockers = dict_get policy (lit name) (JList [])
      in rreq (nonempty_strings blockers) ''Source policy blockers must be a list of nonempty strings''
        (rreq (qualified \<longrightarrow> \<not> truthy blockers) ''Source policy has unresolved blockers'' (Inr ())))"

definition repository_matches :: "(nat \<Rightarrow> pystr) \<Rightarrow> json_dict \<Rightarrow> pystr \<Rightarrow> bool" where
  "repository_matches uni d repo =
     (case jget d ''repository'' of JStr r \<Rightarrow> py_lower uni r = py_lower uni repo | _ \<Rightarrow> False)"

definition require_release_policy :: "(nat \<Rightarrow> pystr) \<Rightarrow> json \<Rightarrow> pystr \<Rightarrow> bool \<Rightarrow> unit result" where
  "require_release_policy uni v repo qualified =
     (case v of
        JObj policy \<Rightarrow>
          rreq (repository_matches uni policy repo) ''Source policy repository mismatch''
         (rreq (jget policy ''mode'' = JStr (lit ''release'')) ''Source policy mode must be release''
         (bind_r (require_fuzzing_policy policy) (\<lambda>_.
          bind_r (if has_key policy ''channel_validation_workflows''
                  then bind_r (as_release_error (channel_workflows policy)) (\<lambda>_. Inr ()) else Inr ()) (\<lambda>_.
            each_r (check_blockers policy qualified) [''release_blockers'', ''stable_blockers'']))))
      | _ \<Rightarrow> Inl (ReleaseError ''Source release policy must be an object''))"

definition validation_profile :: "json_dict \<Rightarrow> pystr \<Rightarrow> json result" where
  "validation_profile policy channel =
     (if \<not> has_key policy ''channel_validation_workflows'' then Inr JNull
      else as_release_error (profile policy channel))"

section \<open>Files at a commit\<close>

text \<open>A regular file of the contents interface, its encoded text, and Git's identity of its bytes.\<close>

definition regular_file :: "string \<Rightarrow> json_dict \<Rightarrow> bool" where
  "regular_file path d \<longleftrightarrow>
     jget d ''type'' = JStr (lit ''file'') \<and> jget d ''path'' = JStr (lit path)
     \<and> jget d ''encoding'' = JStr (lit ''base64'')"

definition encoded_content :: "json_dict \<Rightarrow> pystr option" where
  "encoded_content d =
     (case jget d ''content'' of JStr s \<Rightarrow> if length s \<le> 400000 then Some s else None | _ \<Rightarrow> None)"

definition decode_base64 :: "pystr \<Rightarrow> bytes option" where
  "decode_base64 encoded = b64decode (filter (\<lambda>c. \<not> is_space c) encoded)"

definition size_matches :: "json_dict \<Rightarrow> bytes \<Rightarrow> bool" where
  "size_matches d raw \<longleftrightarrow> length raw \<le> 250000 \<and> json_eq (jget d ''size'') (JInt (int (length raw)))"

definition git_blob :: "bytes \<Rightarrow> bytes" where
  "git_blob raw = lit ''blob '' @ nat_digits (length raw) @ [0] @ raw"

definition policy_of_response ::
  "(nat \<Rightarrow> pystr) \<Rightarrow> sha256 \<Rightarrow> sha256 \<Rightarrow> (bytes \<Rightarrow> json result) \<Rightarrow> pystr \<Rightarrow> json \<Rightarrow> json_dict result" where
  "policy_of_response uni sha1 sha loads repo v =
     (case v of
        JObj d \<Rightarrow>
          rreq (regular_file POLICY d) ''Source commit must contain a regular release policy file''
          (case encoded_content d of
             None \<Rightarrow> Inl (ReleaseError ''Invalid or oversized source policy content'')
           | Some encoded \<Rightarrow>
               (case decode_base64 encoded of
                  None \<Rightarrow> Inl (ReleaseError ''Invalid source policy base64 content'')
                | Some raw \<Rightarrow>
                    rreq (size_matches d raw) ''Source policy size mismatch''
                   (rreq (jget d ''sha'' = JStr (sha1 (git_blob raw))) ''Source policy Git blob identity mismatch''
                   (bind_r (parse_json loads raw) (\<lambda>data.
                    bind_r (require_release_policy uni data repo False) (\<lambda>_.
                      Inr [(lit ''schema'', JInt 1), (lit ''path'', JStr (lit POLICY)),
                           (lit ''git_blob_sha'', JStr (sha1 (git_blob raw))), (lit ''sha256'', JStr (sha raw)),
                           (lit ''data'', data)]))))))
      | _ \<Rightarrow> Inl (ReleaseError ''Source commit must contain a regular release policy file''))"

definition source_policy_snapshot ::
  "(nat \<Rightarrow> pystr) \<Rightarrow> sha256 \<Rightarrow> sha256 \<Rightarrow> github \<Rightarrow> pystr \<Rightarrow> json_dict gh" where
  "source_policy_snapshot uni sha1 sha gh commit =
     gh_require (fullmatch SHA_RE commit) ''Invalid source policy commit SHA''
    (gh_bind (gh_get gh (lit ''contents/'' @ lit POLICY @ lit ''?ref='' @ commit)) (\<lambda>v.
       gh_lift (policy_of_response uni sha1 sha (jc_loads (gh_codec gh)) (gh_repo gh) v)))"

definition require_current_fuzzing ::
  "(nat \<Rightarrow> pystr) \<Rightarrow> sha256 \<Rightarrow> sha256 \<Rightarrow> github \<Rightarrow> json_dict \<Rightarrow> pystr \<Rightarrow> unit gh" where
  "require_current_fuzzing uni sha1 sha gh candidate_policy current_sha =
     gh_bind (source_policy_snapshot uni sha1 sha gh current_sha) (\<lambda>snapshot.
     gh_bind (gh_lift (as_dict (jget snapshot ''data''))) (\<lambda>current.
       if has_key current ''fuzzing''
       then gh_bind (gh_lift (configuration candidate_policy)) (\<lambda>config.
              gh_require (config \<noteq> None) ''Current release policy requires fuzzing; create a new RC after adoption''
                (gh_lift (Inr ())))
       else gh_lift (Inr ())))"

text \<open>The jobs of the exact attempt of a run.\<close>

definition run_jobs :: "github \<Rightarrow> json_dict \<Rightarrow> json list gh" where
  "run_jobs gh run =
     gh_bind (gh_lift (positive (jget run ''id''))) (\<lambda>run_id.
     gh_bind (gh_lift (positive (jget run ''run_attempt''))) (\<lambda>attempt.
       pages gh (attempt_path run_id attempt @ lit ''/jobs'') (Some ''jobs'')))"

definition validate_validation_run :: "github \<Rightarrow> json_dict \<Rightarrow> json_dict \<Rightarrow> pystr \<Rightarrow> unit gh" where
  "validate_validation_run gh run policy channel =
     gh_bind (gh_lift (validation_profile policy channel)) (\<lambda>selected.
       if selected = JNull \<and> \<not> has_key policy ''fuzzing'' then gh_lift (Inr ())
       else
         gh_bind (run_jobs gh run) (\<lambda>jobs.
         gh_bind
           (if selected \<noteq> JNull
            then gh_lift (bind_r (py_getitem (JObj run) (lit ''head_sha'')) (\<lambda>s. as_release_error (check_run_jobs jobs channel s)))
            else gh_lift (Inr ())) (\<lambda>_.
           if has_key policy ''fuzzing''
           then gh_lift (bind_r (py_getitem (JObj run) (lit ''head_sha'')) (\<lambda>s. as_release_error (check_fuzz_jobs jobs channel s)))
           else gh_lift (Inr ()))))"

section \<open>Release notes at the source commit\<close>

text \<open>\<open>replace("\r\n", "\n")\<close>.\<close>

fun unix_newlines :: "pystr \<Rightarrow> pystr" where
  "unix_newlines (a # b # s) = (if a = 13 \<and> b = 10 then 10 # unix_newlines s else a # unix_newlines (b # s))"
| "unix_newlines s = s"

text \<open>What \<open>VERSION_RE.match(tag[1:])\<close> finds in a tag that matches \<open>TAG_RE\<close>: all before the hyphen.\<close>

definition tag_base :: "pystr \<Rightarrow> pystr" where
  "tag_base tag = takeWhile (\<lambda>c. c \<noteq> 45) (tl tag)"

definition changelog_of_response :: "sha256 \<Rightarrow> json \<Rightarrow> pystr result" where
  "changelog_of_response sha1 v =
     (case v of
        JObj d \<Rightarrow>
          rreq (regular_file ''CHANGELOG.md'' d) ''Release notes must be a regular CHANGELOG.md at the source commit''
          (case encoded_content d of
             None \<Rightarrow> Inl (ReleaseError ''Invalid or oversized release notes content'')
           | Some encoded \<Rightarrow>
               (case decode_base64 encoded of
                  None \<Rightarrow> Inl (ReleaseError ''Invalid release notes encoding'')
                | Some raw \<Rightarrow>
                    (case utf8_decode raw of
                       Inl _ \<Rightarrow> Inl (ReleaseError ''Invalid release notes encoding'')
                     | Inr changelog \<Rightarrow>
                         rreq (size_matches d raw) ''Release notes size mismatch''
                        (rreq (jget d ''sha'' = JStr (sha1 (git_blob raw))) ''Release notes Git blob identity mismatch''
                          (Inr (unix_newlines changelog))))))
      | _ \<Rightarrow> Inl (ReleaseError ''Release notes must be a regular CHANGELOG.md at the source commit''))"

definition release_notes ::
  "(nat \<Rightarrow> pystr) \<Rightarrow> sha256 \<Rightarrow> sha256 \<Rightarrow> github \<Rightarrow> pystr \<Rightarrow> pystr \<Rightarrow> pystr \<Rightarrow> pystr gh" where
  "release_notes uni sha1 sha gh tag commit provenance =
     gh_bind (source_policy_snapshot uni sha1 sha gh commit) (\<lambda>snapshot.
     gh_bind (gh_lift (as_dict (jget snapshot ''data''))) (\<lambda>policy.
       if jget policy ''release_notes'' = JNull then gh_lift (Inr provenance)
       else
         gh_require (jget policy ''release_notes'' = JStr (lit ''CHANGELOG.md'')) ''Unsupported release notes source''
        (gh_require (fullmatch TAG_RE tag) ''Invalid release notes tag''
        (gh_bind (gh_get gh (lit ''contents/CHANGELOG.md?ref='' @ commit)) (\<lambda>v.
           gh_lift (bind_r (changelog_of_response sha1 v) (\<lambda>changelog.
             notes_of_changelog changelog (tag_base tag) provenance)))))))"

section \<open>The manifest\<close>

text \<open>\<open>json_bytes(a) == json_bytes(b)\<close>, with the encoder as argument.\<close>

definition same_bytes :: "(json \<Rightarrow> bytes) \<Rightarrow> json \<Rightarrow> json \<Rightarrow> bool" where
  "same_bytes dumps a b \<longleftrightarrow> json_lines dumps a = json_lines dumps b"

definition hashable :: "json \<Rightarrow> bool" where
  "hashable v = (case v of JList _ \<Rightarrow> False | JObj _ \<Rightarrow> False | _ \<Rightarrow> True)"

text \<open>\<open>{item["name"]: item for item in assets}\<close>, as entries in order: the last one of a name wins.\<close>

definition named_asset :: "json \<Rightarrow> (json \<times> json_dict) result" where
  "named_asset item =
     bind_r (py_getitem item (lit ''name'')) (\<lambda>name.
       if hashable name then (case item of JObj d \<Rightarrow> Inr (name, d) | _ \<Rightarrow> Inl TypeError) else Inl TypeError)"

definition assets_by_name :: "json_dict \<Rightarrow> (json \<times> json_dict) list result" where
  "assets_by_name manifest =
     bind_r (py_getitem (JObj manifest) (lit ''assets'')) (\<lambda>v.
     bind_r (py_iter v) (\<lambda>items. bind_r (map_r named_asset items) (\<lambda>named. Inr (rev named))))"

definition FUZZ_INPUTS :: string where
  "FUZZ_INPUTS = ''release-inputs-fuzz.json''"

definition fuzz_evidence :: "json_dict \<Rightarrow> (json \<times> json_dict) list \<Rightarrow> bool" where
  "fuzz_evidence manifest assets =
     (map_of assets (JStr (lit ''fuzz-report.json'')) \<noteq> None
      \<and> (case map_of assets (JStr (lit FUZZ_INPUTS)) of
           None \<Rightarrow> False
         | Some receipt \<Rightarrow>
             json_eq (jget manifest ''validation_receipts'')
               (JList [JObj [(lit ''name'', JStr (lit FUZZ_INPUTS)), (lit ''sha256'', jget receipt ''sha256'')]])))"

text \<open>
  The channel of a manifest is a string when these two run: \<open>validate_manifest\<close> has compared it with one.
\<close>

definition validate_fuzz_manifest :: "(json \<Rightarrow> bytes) \<Rightarrow> json_dict \<Rightarrow> json_dict \<Rightarrow> unit result" where
  "validate_fuzz_manifest dumps manifest policy =
     (if \<not> has_key policy ''fuzzing'' then Inr ()
      else
        bind_r (py_getitem (JObj manifest) (lit ''channel'')) (\<lambda>channel.
        bind_r (fuzz_profile policy (jstr_val channel)) (\<lambda>expected.
        rreq (same_bytes dumps (jget manifest ''fuzzing_profile'') expected)
          ''Manifest fuzzing profile differs from its source policy/channel''
       (if channel = JStr (lit ''rc'')
        then bind_r (assets_by_name manifest) (\<lambda>assets.
               rreq (fuzz_evidence manifest assets)
                 ''RC fuzz validation evidence is absent from the immutable asset inventory'' (Inr ()))
        else Inr ()))))"

definition manifest_policy :: "json_dict \<Rightarrow> json_dict result" where
  "manifest_policy manifest =
     bind_r (py_getitem (JObj manifest) (lit ''source_policy'')) (\<lambda>snapshot.
     bind_r (py_getitem snapshot (lit ''data'')) as_dict)"

definition validate_validation_manifest :: "(json \<Rightarrow> bytes) \<Rightarrow> json_dict \<Rightarrow> unit result" where
  "validate_validation_manifest dumps manifest =
     bind_r (manifest_policy manifest) (\<lambda>policy.
     bind_r (py_getitem (JObj manifest) (lit ''channel'')) (\<lambda>channel.
     bind_r (validation_profile policy (jstr_val channel)) (\<lambda>expected.
     rreq (same_bytes dumps (jget manifest ''validation_profile'') expected)
       ''Manifest validation profile differs from its source policy/channel''
       (validate_fuzz_manifest dumps manifest policy))))"

definition validate_policy_snapshot :: "(nat \<Rightarrow> pystr) \<Rightarrow> json \<Rightarrow> pystr \<Rightarrow> unit result" where
  "validate_policy_snapshot uni v repo =
     (case v of
        JObj snapshot \<Rightarrow>
          rreq (jget snapshot ''schema'' = JInt 1 \<and> jget snapshot ''path'' = JStr (lit POLICY))
            ''Manifest requires a versioned source policy snapshot''
         (rreq (str_matches SHA_RE (jget snapshot ''git_blob_sha'') \<and> str_matches SHA256_PATTERN (jget snapshot ''sha256''))
            ''Invalid source policy snapshot hashes''
           (require_release_policy uni (jget snapshot ''data'') repo True))
      | _ \<Rightarrow> Inl (ReleaseError ''Manifest requires a versioned source policy snapshot''))"

text \<open>
  One asset after the folded names seen so far. A name that matches \<open>NAME_RE\<close> is ASCII, where
  \<open>casefold\<close> is lower case.
\<close>

definition asset_name :: "json_dict \<Rightarrow> pystr option" where
  "asset_name item =
     (case jget item ''name'' of
        JStr s \<Rightarrow> if fullmatch NAME_RE s \<and> alower s \<noteq> alower (lit MANIFEST) then Some s else None
      | _ \<Rightarrow> None)"

fun check_assets :: "pystr list \<Rightarrow> json list \<Rightarrow> unit result" where
  "check_assets names [] = Inr ()"
| "check_assets names (v # vs) =
     (case v of
        JObj item \<Rightarrow>
          (case asset_name item of
             None \<Rightarrow> Inl (ReleaseError ''Unsafe manifest asset name'')
           | Some name \<Rightarrow>
               rreq (alower name \<notin> set names) ''Duplicate manifest asset name''
              (rreq (case jint (jget item ''size'') of Some n \<Rightarrow> 0 \<le> n | None \<Rightarrow> False) ''Invalid manifest asset size''
              (rreq (str_matches SHA256_PATTERN (jget item ''sha256'')) ''Invalid asset checksum''
                (check_assets (alower name # names) vs))))
      | _ \<Rightarrow> Inl (ReleaseError ''Invalid manifest asset''))"

definition validate_manifest_assets :: "json_dict \<Rightarrow> unit result" where
  "validate_manifest_assets manifest =
     (case jget manifest ''assets'' of
        JList items \<Rightarrow> rreq (items \<noteq> []) ''Manifest contains no assets'' (check_assets [] items)
      | _ \<Rightarrow> Inl (ReleaseError ''Manifest contains no assets''))"

definition validate_manifest_plan ::
  "sha256 \<Rightarrow> (real \<Rightarrow> pystr) \<Rightarrow> json_dict \<Rightarrow> pystr \<Rightarrow> unit result" where
  "validate_manifest_plan sha fr manifest base_version =
     bind_r (manifest_policy manifest) (\<lambda>policy.
     bind_r (validate_plan sha fr (jget manifest ''version_plan'') (Some (JObj policy)) (Some (jstr_val (jget manifest ''source_sha''))))
       (\<lambda>p.
     bind_r (plan_digest sha fr (jget manifest ''version_plan'')) (\<lambda>d.
     rreq (JStr (pl_tag p) = jget manifest ''tag'' \<and> JStr (pl_channel p) = jget manifest ''channel''
           \<and> pl_base_version p = base_version \<and> jget manifest ''plan_sha256'' = JStr d)
       ''Manifest differs from the frozen version plan'' (Inr ()))))"

text \<open>\<open>v<base>-rc\.[1-9]\d*\<close> with the decimal digits the pattern's flags allow.\<close>

definition RC_TAG :: "(nat \<times> nat) list \<Rightarrow> pystr \<Rightarrow> rexp" where
  "RC_TAG digits base =
     r_seq [r_char 118, r_seq (map r_char base), r_lit ''-rc.'', RClass True [(49, 57)], RStar (RClass True digits)]"

definition ascii_digits :: "(nat \<times> nat) list" where
  "ascii_digits = [(48, 57)]"

text \<open>The provenance of a final build; its pattern is used without \<open>re.ASCII\<close>.\<close>

definition check_parent :: "(nat \<times> nat) list \<Rightarrow> json_dict \<Rightarrow> pystr \<Rightarrow> unit result" where
  "check_parent uni_digits manifest base =
     (case jget manifest ''derived_from_rc'' of
        JObj parent \<Rightarrow>
          rreq (fst ` set parent = set (map lit [''tag'', ''manifest_sha256'', ''source_sha'', ''run_id'']))
            ''Final manifest needs accepted RC provenance''
         (rreq (str_matches (RC_TAG uni_digits base) (jget parent ''tag'')
                \<and> json_eq (jget parent ''source_sha'') (jget manifest ''source_sha'')
                \<and> str_matches SHA256_PATTERN (jget parent ''manifest_sha256''))
            ''Invalid final RC provenance''
         (bind_r (positive (jget parent ''run_id'')) (\<lambda>run_id.
          rreq (\<not> json_eq (JInt run_id) (jget manifest ''run_id'')) ''Final build must use a new run'' (Inr ()))))
      | _ \<Rightarrow> Inl (ReleaseError ''Final manifest needs accepted RC provenance''))"

definition final_policy :: "json \<Rightarrow> bool result" where
  "final_policy versioning =
     (if truthy versioning
      then bind_r (py_get versioning (lit ''promotion'') JNull) (\<lambda>p. Inr (p = JStr (lit ''final-build'')))
      else Inr False)"

text \<open>The channel and tag a manifest may have.\<close>

definition check_manifest_tag :: "json_dict \<Rightarrow> pystr \<Rightarrow> pystr \<Rightarrow> bool \<Rightarrow> unit result" where
  "check_manifest_tag manifest base rc_tag final =
     (if final
      then rreq (jget manifest ''tag'' = JStr rc_tag \<and> rc_tag = lit ''v'' @ base) ''Final tag/version mismatch'' (Inr ())
      else
        rreq (jget manifest ''channel'' = JStr (lit ''rc'')) ''Only release candidates can be promoted''
       (rreq (jget manifest ''tag'' = JStr rc_tag \<and> fullmatch (RC_TAG ascii_digits base) rc_tag)
          ''Manifest RC tag/version mismatch'' (Inr ())))"

definition validate_manifest ::
  "(nat \<Rightarrow> pystr) \<Rightarrow> (nat \<times> nat) list \<Rightarrow> sha256 \<Rightarrow> (real \<Rightarrow> pystr) \<Rightarrow> json_codec
   \<Rightarrow> bytes \<Rightarrow> pystr \<Rightarrow> pystr \<Rightarrow> bool \<Rightarrow> json_dict result" where
  "validate_manifest uni uni_digits sha fr jc raw repo rc_tag allow_final =
     rreq (length raw \<le> 2000000) ''Manifest is unreasonably large''
    (bind_r (parse_json (jc_loads jc) raw) (\<lambda>v.
       case v of
         JObj manifest \<Rightarrow>
           rreq (jget manifest ''schema'' = JInt 1) ''Unsupported manifest schema''
          (rreq (repository_matches uni manifest repo) ''Manifest repository mismatch''
          (case jget manifest ''version'' of
             JStr base \<Rightarrow>
               (let final = allow_final \<and> jget manifest ''channel'' = JStr (lit ''stable'')
                in bind_r (version base) (\<lambda>_.
                   bind_r (check_manifest_tag manifest base rc_tag final) (\<lambda>_.
                   rreq (str_matches SHA_RE (jget manifest ''source_sha'')) ''Invalid manifest source SHA''
                  (rreq (jget manifest ''workflow_path'' = JStr WORKFLOW) ''Manifest workflow path mismatch''
                  (bind_r (positive (jget manifest ''run_id'')) (\<lambda>_.
                   bind_r (positive (jget manifest ''run_attempt'')) (\<lambda>_.
                   bind_r (validate_policy_snapshot uni (jget manifest ''source_policy'') repo) (\<lambda>_.
                   bind_r (validate_validation_manifest (jc_dumps jc) manifest) (\<lambda>_.
                   bind_r (manifest_policy manifest) (\<lambda>policy.
                   bind_r (if truthy (jget policy ''versioning'') then validate_manifest_plan sha fr manifest base else Inr ()) (\<lambda>_.
                   bind_r (if final
                           then bind_r (final_policy (jget policy ''versioning'')) (\<lambda>ok.
                                  rreq ok ''Final package policy is missing'' (check_parent uni_digits manifest base))
                           else Inr ()) (\<lambda>_.
                   bind_r (validate_manifest_assets manifest) (\<lambda>_. Inr manifest)))))))))))))
           | _ \<Rightarrow> Inl (ReleaseError ''Missing manifest version'')))
       | _ \<Rightarrow> Inl (ReleaseError ''Unsupported manifest schema'')))"

section \<open>The candidate on the service\<close>

type_synonym release_snapshot = "json \<times> json_dict \<times> json_dict list"

text \<open>\<open>cast(dict, d.get(k, {})).get(field)\<close>.\<close>

definition nested_get :: "json_dict \<Rightarrow> string \<Rightarrow> string \<Rightarrow> json result" where
  "nested_get d k field_name =
     bind_r (as_dict (dict_get d (lit k) (JObj []))) (\<lambda>inner. Inr (jget inner field_name))"

text \<open>The names of the assets: allowed, and different when case is ignored.\<close>

definition asset_names_ok :: "json_dict list \<Rightarrow> bool" where
  "asset_names_ok assets \<longleftrightarrow> list_all (\<lambda>a. str_matches NAME_RE (jget a ''name'')) assets"

definition folded_names :: "json_dict list \<Rightarrow> pystr list" where
  "folded_names assets = map (\<lambda>a. alower (jstr_val (jget a ''name''))) assets"

definition release_snapshot :: "github \<Rightarrow> pystr \<Rightarrow> release_snapshot gh" where
  "release_snapshot gh tag =
     gh_bind (gh_lift (quote tag)) (\<lambda>q.
     gh_bind (gh_get gh (lit ''git/ref/tags/'' @ q)) (\<lambda>rv.
     gh_bind (gh_lift (as_dict rv)) (\<lambda>ref.
     gh_bind (gh_lift (if jget ref ''ref'' = JStr (lit ''refs/tags/'' @ tag) then nested_get ref ''object'' ''type'' else Inr JNull))
       (\<lambda>kind.
     gh_require (kind = JStr (lit ''commit'')) ''Candidate must have a lightweight commit tag''
    (gh_bind (gh_get gh (lit ''releases/tags/'' @ q)) (\<lambda>v.
     gh_bind (gh_lift (as_dict v)) (\<lambda>release.
     gh_require (jget release ''tag_name'' = JStr tag \<and> jget release ''draft'' = JBool False
                 \<and> jget release ''prerelease'' = JBool True) ''Candidate is not a published prerelease''
    (gh_bind (gh_lift (positive (jget release ''id''))) (\<lambda>rid.
     gh_bind (pages gh (lit ''releases/'' @ int_str rid @ lit ''/assets'') None) (\<lambda>rows.
     gh_bind (gh_lift (map_r as_dict rows)) (\<lambda>assets.
     gh_require (list_all (\<lambda>a. jget a ''state'' = JStr (lit ''uploaded'')) assets) ''Candidate has incomplete uploads''
    (gh_require (asset_names_ok assets) ''Unsafe release asset name''
    (gh_require (distinct (folded_names assets)) ''Duplicate release assets''
       (gh_lift (Inr (rv, release, assets))))))))))))))))"

text \<open>
  The fields that must not change while a candidate is verified: reading an asset moves its download
  counter, every other field of an asset counts. The assets are sorted by identifier, stably; the
  service's identifiers are integers, any other one is an error of the comparison here.
\<close>

definition asset_id :: "json_dict \<Rightarrow> int result" where
  "asset_id a =
     bind_r (py_getitem (JObj a) (lit ''id'')) (\<lambda>i. case i of JInt n \<Rightarrow> Inr n | _ \<Rightarrow> Inl TypeError)"

definition asset_fields :: "json_dict \<Rightarrow> json_dict" where
  "asset_fields a = filter (\<lambda>e. fst e \<noteq> lit ''download_count'') a"

definition identity_fields :: "string list" where
  "identity_fields = [''id'', ''tag_name'', ''target_commitish'', ''draft'', ''prerelease'', ''updated_at'']"

definition snapshot_json :: "release_snapshot \<Rightarrow> json result" where
  "snapshot_json s =
     (case s of (ref, release, assets) \<Rightarrow>
        bind_r (map_r (\<lambda>a. bind_r (asset_id a) (\<lambda>i. Inr (i, JObj a))) (map asset_fields assets)) (\<lambda>keyed.
          Inr (JObj [(lit ''ref'', ref),
                     (lit ''release'', JObj (map (\<lambda>k. (lit k, jget release k)) identity_fields)),
                     (lit ''assets'', JList (map snd (sort_key fst keyed)))])))"

definition snapshot_identity :: "(json \<Rightarrow> bytes) \<Rightarrow> release_snapshot \<Rightarrow> bytes result" where
  "snapshot_identity dumps s = bind_r (snapshot_json s) (\<lambda>v. Inr (json_lines dumps v))"

section \<open>Immutable evidence\<close>

text \<open>A ZIP archive as the library reads it: names, sizes and contents, or no archive at all.\<close>

record zip_entry =
  ze_filename :: pystr
  ze_file_size :: nat
  ze_content :: "bytes option"

type_synonym unzip = "bytes \<Rightarrow> zip_entry list option"

definition EVIDENCE :: string where
  "EVIDENCE = ''.release-evidence/release-manifest.json''"

definition check_archive :: "unzip \<Rightarrow> bytes \<Rightarrow> bytes \<Rightarrow> unit result" where
  "check_archive unzip archive raw =
     (case unzip archive of
        None \<Rightarrow> Inl (ReleaseError ''Cannot read release evidence archive'')
      | Some all_entries \<Rightarrow>
          (case filter (\<lambda>e. \<not> endswith (ze_filename e) [47]) all_entries of
             [entry] \<Rightarrow>
               rreq (ze_filename entry \<in> {lit MANIFEST, lit EVIDENCE}) ''Evidence artifact has unexpected contents''
              (rreq (ze_file_size entry \<le> 2000000) ''Evidence artifact manifest is too large''
              (case ze_content entry of
                 None \<Rightarrow> Inl (ReleaseError ''Cannot read release evidence archive'')
               | Some content \<Rightarrow>
                   rreq (content = raw) ''Release manifest differs from immutable Actions evidence'' (Inr ())))
           | _ \<Rightarrow> Inl (ReleaseError ''Evidence artifact has unexpected contents'')))"

definition evidence_artifact :: "json_dict list \<Rightarrow> json_dict list" where
  "evidence_artifact artifacts =
     filter (\<lambda>a. jget a ''name'' = JStr (lit ''release-evidence'') \<and> \<not> truthy (jget a ''expired'')) artifacts"

definition verify_evidence :: "sha256 \<Rightarrow> unzip \<Rightarrow> github \<Rightarrow> json_dict \<Rightarrow> bytes \<Rightarrow> unit gh" where
  "verify_evidence sha unzip gh manifest raw =
     gh_bind (gh_lift (py_getitem (JObj manifest) (lit ''run_id''))) (\<lambda>run_id.
     gh_bind (pages gh (lit ''actions/runs/'' @ py_str run_id @ lit ''/artifacts'') (Some ''artifacts'')) (\<lambda>rows.
     gh_bind (gh_lift (map_r as_dict rows)) (\<lambda>artifacts.
     gh_require (length (evidence_artifact artifacts) = 1)
       ''Exactly one unexpired immutable release-evidence artifact is required''
    (let artifact = hd (evidence_artifact artifacts)
     in gh_bind (gh_lift (nested_get artifact ''workflow_run'' ''id'')) (\<lambda>source_id.
        gh_bind (gh_lift (nested_get artifact ''workflow_run'' ''head_sha'')) (\<lambda>source_sha.
        gh_require (json_eq source_id run_id \<and> json_eq source_sha (jget manifest ''source_sha''))
          ''Evidence artifact provenance mismatch''
       (gh_bind (gh_lift (positive (jget artifact ''id''))) (\<lambda>artifact_id.
        gh_bind (binary gh (lit ''actions/artifacts/'' @ int_str artifact_id @ lit ''/zip'')) (\<lambda>archive.
        gh_require (jget artifact ''digest'' = JStr (lit ''sha256:'' @ sha archive))
          ''Evidence must have a matching immutable v4 artifact digest''
          (gh_lift (check_archive unzip archive raw)))))))))))"

definition reviewer_rule :: "json \<Rightarrow> bool result" where
  "reviewer_rule rule =
     bind_r (as_dict rule) (\<lambda>d.
       Inr (jget d ''type'' = JStr (lit ''required_reviewers'') \<and> truthy (jget d ''reviewers'')))"

definition require_reviewers :: "github \<Rightarrow> unit gh" where
  "require_reviewers gh =
     gh_bind (gh_get gh (lit ''environments/release'')) (\<lambda>v.
     gh_bind (gh_lift (as_dict v)) (\<lambda>environment.
     gh_require (jget environment ''name'' = JStr (lit ''release'')) ''Protected release environment is missing''
    (gh_bind (gh_lift (bind_r (py_iter (dict_get environment (lit ''protection_rules'') (JList []))) (any_r reviewer_rule)))
       (\<lambda>reviewed.
          gh_require reviewed ''The release environment must have required reviewers configured'' (gh_lift (Inr ()))))))"

section \<open>What an accepted manifest guarantees\<close>

definition sound_asset :: "json_dict \<Rightarrow> bool" where
  "sound_asset d \<longleftrightarrow>
     (\<exists>s. jget d ''name'' = JStr s \<and> fullmatch NAME_RE s \<and> alower s \<noteq> alower (lit MANIFEST))
     \<and> (\<exists>n. jget d ''size'' = JInt n \<and> 0 \<le> n) \<and> str_matches SHA256_PATTERN (jget d ''sha256'')"

lemma asset_name_iff:
  "asset_name d = Some s \<longleftrightarrow> jget d ''name'' = JStr s \<and> fullmatch NAME_RE s \<and> alower s \<noteq> alower (lit MANIFEST)"
  by (auto simp: asset_name_def split: json.splits)

lemma folded_name: "jget d ''name'' = JStr s \<Longrightarrow> alower (jstr_val (jget d ''name'')) = alower s"
  by simp

lemma check_assets_sound:
  "check_assets names vs = Inr () \<Longrightarrow>
     \<exists>ds. vs = map JObj ds \<and> list_all sound_asset ds \<and> distinct (folded_names ds) \<and> set (folded_names ds) \<inter> set names = {}"
proof (induction names vs rule: check_assets.induct)
  case (2 names v vs)
  then obtain d s where v: "v = JObj d" and s: "asset_name d = Some s" "alower s \<notin> set names"
    and size: "case jint (jget d ''size'') of Some n \<Rightarrow> 0 \<le> n | None \<Rightarrow> False"
    and sha: "str_matches SHA256_PATTERN (jget d ''sha256'')"
    and rest: "check_assets (alower s # names) vs = Inr ()"
    by (auto split: json.splits option.splits)
  from "2.IH" [OF v s(1) rest] obtain ds where ds: "vs = map JObj ds" "list_all sound_asset ds"
    "distinct (folded_names ds)" "set (folded_names ds) \<inter> set (alower s # names) = {}" by blast
  have "sound_asset d"
    using s(1) size sha by (auto simp: sound_asset_def asset_name_iff jint_case)
  with v ds s show ?case
    by (intro exI [of _ "d # ds"]) (auto simp: folded_names_def asset_name_iff)
qed (auto simp: folded_names_def)

lemma as_release_error_Inr [simp]: "as_release_error r = Inr x \<longleftrightarrow> r = Inr x"
  by (auto simp: as_release_error_def split: sum.splits exn.splits)

definition no_blockers :: "json_dict \<Rightarrow> bool" where
  "no_blockers policy \<longleftrightarrow>
     dict_get policy (lit ''release_blockers'') (JList []) = JList [] \<and> dict_get policy (lit ''stable_blockers'') (JList []) = JList []"

lemma check_blockers_qualified: "check_blockers policy True k = Inr () \<longleftrightarrow> dict_get policy (lit k) (JList []) = JList []"
  by (auto simp: check_blockers_def nonempty_strings_def Let_def split: json.splits)

lemma release_policy_qualified:
  "require_release_policy uni v repo True = Inr () \<longleftrightarrow>
     require_release_policy uni v repo False = Inr () \<and> (\<exists>policy. v = JObj policy \<and> no_blockers policy)"
  by (auto simp: require_release_policy_def bind_r_Inr_iff each_r_Inr_iff check_blockers_qualified no_blockers_def
      check_blockers_def nonempty_strings_def Let_def split: json.splits)

lemma release_policy_sound:
  "require_release_policy uni (JObj policy) repo qualified = Inr ()
     \<Longrightarrow> repository_matches uni policy repo \<and> jget policy ''mode'' = JStr (lit ''release'')"
  by (simp add: require_release_policy_def)

lemma rc_tag_denotes:
  "fullmatch (RC_TAG digits base) tag \<longleftrightarrow>
     (\<exists>n. tag = lit ''v'' @ base @ lit ''-rc.'' @ n \<and> fullmatch (RSeq (RClass True [(49, 57)]) (RStar (RClass True digits))) n)"
proof -
  have "lit ''v'' = [118]" by (simp add: lit_def)
  then show ?thesis
    unfolding RC_TAG_def fullmatch_denotes
    by (auto simp: denotes_seq_Cons denotes_lit_chars simp del: r_seq.simps(3) denotes.simps(6))
      (metis append_Cons append_Nil)
qed

lemma manifest_tag_sound:
  assumes "check_manifest_tag m base rc_tag False = Inr ()"
  shows "jget m ''channel'' = JStr (lit ''rc'') \<and> jget m ''tag'' = JStr rc_tag
    \<and> (\<exists>n. rc_tag = lit ''v'' @ base @ lit ''-rc.'' @ n \<and> fullmatch r_posint n)"
  using assms
  by (simp add: check_manifest_tag_def rc_tag_denotes r_posint_def r_digit_def ascii_digits_def)

lemma manifest_assets_sound:
  assumes "validate_manifest_assets m = Inr ()"
  shows "\<exists>ds. jget m ''assets'' = JList (map JObj ds) \<and> ds \<noteq> [] \<and> list_all sound_asset ds \<and> distinct (folded_names ds)"
  using assms check_assets_sound [of "[]"]
  by (auto simp: validate_manifest_assets_def split: json.splits)

lemma policy_snapshot_sound:
  assumes "validate_policy_snapshot uni (jget m ''source_policy'') repo = Inr ()" and "manifest_policy m = Inr policy"
  shows "repository_matches uni policy repo \<and> jget policy ''mode'' = JStr (lit ''release'') \<and> no_blockers policy"
proof -
  from assms(1) obtain snapshot where s: "jget m ''source_policy'' = JObj snapshot"
    "require_release_policy uni (jget snapshot ''data'') repo True = Inr ()"
    by (auto simp: validate_policy_snapshot_def split: json.splits)
  from assms(2) s(1) have "jget snapshot ''data'' = JObj policy"
    by (auto simp: manifest_policy_def bind_r_Inr_iff py_getitem_def dict_get_def as_dict_def
        split: option.splits json.splits)
  with s(2) release_policy_qualified release_policy_sound show ?thesis by auto
qed

definition frozen_plan :: "sha256 \<Rightarrow> (real \<Rightarrow> pystr) \<Rightarrow> json_dict \<Rightarrow> json_dict \<Rightarrow> pystr \<Rightarrow> bool" where
  "frozen_plan sha fr m policy tag \<longleftrightarrow>
     (\<exists>p d. validate_plan sha fr (jget m ''version_plan'') (Some (JObj policy)) (Some (jstr_val (jget m ''source_sha''))) = Inr p
        \<and> pl_tag p = tag \<and> JStr (pl_channel p) = jget m ''channel''
        \<and> plan_digest sha fr (jget m ''version_plan'') = Inr d \<and> jget m ''plan_sha256'' = JStr d)"

lemma manifest_plan_sound:
  assumes "validate_manifest_plan sha fr m base = Inr ()" "manifest_policy m = Inr policy" "jget m ''tag'' = JStr tag"
  shows "frozen_plan sha fr m policy tag"
  using assms unfolding validate_manifest_plan_def frozen_plan_def by (auto simp: bind_r_Inr_iff)

text \<open>
  C26: A promoted manifest is eligible. A manifest that passes for promotion is a release candidate of this
  repository whose tag is its version and a canonical number; the policy frozen in it is in release mode and
  has no blocker left; under a versioned policy the frozen plan carries this tag and channel and the
  digest recorded for it; and its assets are a nonempty list of well-formed records whose names differ even
  when case is ignored, none of them the manifest's own.
\<close>

theorem promoted_manifest_is_eligible:
  assumes "validate_manifest uni uni_digits sha fr jc raw repo rc_tag False = Inr m"
  shows "parse_json (jc_loads jc) raw = Inr (JObj m) \<and> repository_matches uni m repo
     \<and> jget m ''channel'' = JStr (lit ''rc'') \<and> jget m ''tag'' = JStr rc_tag \<and> str_matches SHA_RE (jget m ''source_sha'')
     \<and> (\<exists>base n. jget m ''version'' = JStr base \<and> fullmatch VERSION_PATTERN base
          \<and> rc_tag = lit ''v'' @ base @ lit ''-rc.'' @ n \<and> fullmatch r_posint n)
     \<and> (\<exists>policy. manifest_policy m = Inr policy \<and> repository_matches uni policy repo
          \<and> jget policy ''mode'' = JStr (lit ''release'') \<and> no_blockers policy
          \<and> (truthy (jget policy ''versioning'') \<longrightarrow> frozen_plan sha fr m policy rc_tag))
     \<and> (\<exists>ds. jget m ''assets'' = JList (map JObj ds) \<and> ds \<noteq> [] \<and> list_all sound_asset ds \<and> distinct (folded_names ds))"
proof -
  from assms obtain base policy where
    p: "parse_json (jc_loads jc) raw = Inr (JObj m)" "repository_matches uni m repo" "jget m ''version'' = JStr base"
      "version base = Inr base" "check_manifest_tag m base rc_tag False = Inr ()"
      "str_matches SHA_RE (jget m ''source_sha'')"
    and q: "validate_policy_snapshot uni (jget m ''source_policy'') repo = Inr ()" "manifest_policy m = Inr policy"
      "truthy (jget policy ''versioning'') \<longrightarrow> validate_manifest_plan sha fr m base = Inr ()"
      "validate_manifest_assets m = Inr ()"
    by (auto simp: validate_manifest_def bind_r_Inr_iff json_case_Inr version_def Let_def split: if_splits)
  have "fullmatch VERSION_PATTERN base" using p(4) by (simp add: version_def)
  with p manifest_tag_sound [OF p(5)] policy_snapshot_sound [OF q(1,2)] q(2,3) manifest_assets_sound [OF q(4)]
    manifest_plan_sound [of sha fr m base policy rc_tag]
  show ?thesis by blast
qed

definition sample_manifest_policy :: json_dict where
  "sample_manifest_policy = [(lit ''repository'', JStr (lit ''o/r'')), (lit ''mode'', JStr (lit ''release''))]"

definition sample_manifest :: json_dict where
  "sample_manifest =
     [(lit ''schema'', JInt 1), (lit ''repository'', JStr (lit ''O/r'')), (lit ''version'', JStr (lit ''1.2.3'')),
      (lit ''channel'', JStr (lit ''rc'')), (lit ''tag'', JStr (lit ''v1.2.3-rc.4'')),
      (lit ''source_sha'', JStr (replicate 40 48)), (lit ''workflow_path'', JStr WORKFLOW),
      (lit ''run_id'', JInt 5), (lit ''run_attempt'', JInt 1),
      (lit ''source_policy'', JObj
         [(lit ''schema'', JInt 1), (lit ''path'', JStr (lit POLICY)), (lit ''git_blob_sha'', JStr (replicate 40 48)),
          (lit ''sha256'', JStr (replicate 64 48)), (lit ''data'', JObj sample_manifest_policy)]),
      (lit ''assets'', JList [JObj [(lit ''name'', JStr (lit ''a'')), (lit ''size'', JInt 3),
                                   (lit ''sha256'', JStr (replicate 64 48))]])]"

definition sample_manifest_codec :: json_codec where
  "sample_manifest_codec =
     \<lparr>jc_loads = (\<lambda>_. Inr (JObj sample_manifest)), jc_raw_decode = (\<lambda>_. None), jc_dumps = (\<lambda>_. [])\<rparr>"

lemma sample_hashes: "fullmatch SHA_RE (replicate 40 48)" "fullmatch SHA256_PATTERN (replicate 64 48)"
  by (simp_all add: fullmatch_denotes SHA_RE_def SHA256_PATTERN_def r_hex_def denotes_rep_class in_class_def list_all_iff)

lemma sample_name: "asset_name [(lit ''name'', JStr (lit ''a'')), x, y] = Some (lit ''a'')"
proof -
  have "denotes (r_upto n r) []" for n r
    unfolding r_upto_def by (induction n) (auto simp: denotes_seq_Cons simp del: r_seq.simps(3))
  then have "fullmatch NAME_RE [97]"
    unfolding NAME_RE_def fullmatch_denotes denotes.simps(5)
    by (intro exI [of _ "[97]"] exI [of _ "[]"]) (simp add: in_class_def)
  then show ?thesis by (simp add: asset_name_def dict_get_def lit_def alower_def MANIFEST_def)
qed

lemma sample_version: "version (lit ''1.2.3'') = Inr (lit ''1.2.3'')"
  by code_simp

lemma sample_rc_tag: "fullmatch (RC_TAG ascii_digits (lit ''1.2.3'')) (lit ''v1.2.3-rc.4'')"
  by code_simp

lemma sample_repository:
  "repository_matches (\<lambda>_. []) sample_manifest (lit ''o/r'')" "repository_matches (\<lambda>_. []) sample_manifest_policy (lit ''o/r'')"
  by code_simp+

lemma sample_policy_frozen: "manifest_policy sample_manifest = Inr sample_manifest_policy"
  by (simp add: manifest_policy_def sample_manifest_def py_getitem_def as_dict_def)

lemma sample_policy_snapshot:
  "validate_policy_snapshot (\<lambda>_. []) (jget sample_manifest ''source_policy'') (lit ''o/r'') = Inr ()"
  using sample_repository(2)
  by (simp add: validate_policy_snapshot_def sample_manifest_def dict_get_def str_matches_def sample_hashes
      require_release_policy_def require_fuzzing_policy_def sample_manifest_policy_def has_key_def
      check_blockers_def nonempty_strings_def)

lemma sample_manifest_valid:
  "validate_manifest (\<lambda>_. []) [] sample_sha (\<lambda>_. []) sample_manifest_codec [] (lit ''o/r'') (lit ''v1.2.3-rc.4'') False
     = Inr sample_manifest"
proof -
  have numbers: "positive (JInt 5) = Inr 5" "positive (JInt 1) = Inr 1"
    by code_simp+
  have fields: "jget sample_manifest ''schema'' = JInt 1" "jget sample_manifest ''version'' = JStr (lit ''1.2.3'')"
    "jget sample_manifest ''channel'' = JStr (lit ''rc'')" "jget sample_manifest ''tag'' = JStr (lit ''v1.2.3-rc.4'')"
    "jget sample_manifest ''source_sha'' = JStr (replicate 40 48)" "jget sample_manifest ''workflow_path'' = JStr WORKFLOW"
    "jget sample_manifest ''run_id'' = JInt 5" "jget sample_manifest ''run_attempt'' = JInt 1"
    "jget sample_manifest ''validation_profile'' = JNull" "jget sample_manifest_policy ''versioning'' = JNull"
    by (simp_all add: sample_manifest_def sample_manifest_policy_def dict_get_def)
  have profile: "validate_validation_manifest (jc_dumps sample_manifest_codec) sample_manifest = Inr ()"
    by (simp add: validate_validation_manifest_def sample_policy_frozen fields validation_profile_def same_bytes_def
        validate_fuzz_manifest_def has_key_def sample_manifest_policy_def py_getitem_def) (simp add: sample_manifest_def)
  have assets: "validate_manifest_assets sample_manifest = Inr ()"
    using sample_name by (simp add: validate_manifest_assets_def sample_manifest_def dict_get_def jint_def str_matches_def sample_hashes)
  have wf: "parse_json (jc_loads sample_manifest_codec) [] = Inr (JObj sample_manifest)"
    by (simp add: parse_json_def sample_manifest_codec_def) (simp add: sample_manifest_def sample_manifest_policy_def)
  show ?thesis
    by (simp add: validate_manifest_def wf fields sample_repository sample_version check_manifest_tag_def sample_rc_tag
        str_matches_def sample_hashes numbers sample_policy_snapshot profile sample_policy_frozen assets)
qed

theorem promoted_manifest_is_eligible_witness:
  "\<exists>ds. jget sample_manifest ''assets'' = JList (map JObj ds) \<and> ds \<noteq> [] \<and> list_all sound_asset ds \<and> distinct (folded_names ds)"
  using promoted_manifest_is_eligible [OF sample_manifest_valid] by blast

section \<open>Policy snapshots\<close>

lemma policy_of_response_Inr:
  assumes "policy_of_response uni sha1 sha loads repo v = Inr s"
  shows "\<exists>raw data. parse_json loads raw = Inr data \<and> require_release_policy uni data repo False = Inr ()
     \<and> s = [(lit ''schema'', JInt 1), (lit ''path'', JStr (lit POLICY)),
          (lit ''git_blob_sha'', JStr (sha1 (git_blob raw))), (lit ''sha256'', JStr (sha raw)), (lit ''data'', data)]"
proof -
  obtain d where d: "v = JObj d" using assms by (cases v) (simp_all add: policy_of_response_def)
  with assms obtain encoded where e: "encoded_content d = Some encoded"
    by (cases "encoded_content d") (simp_all add: policy_of_response_def)
  with assms d obtain raw where "decode_base64 encoded = Some raw"
    by (cases "decode_base64 encoded") (simp_all add: policy_of_response_def)
  with assms d e show ?thesis
    by (simp add: policy_of_response_def bind_r_Inr_iff) blast
qed

text \<open>
  A snapshot binds the policy that was read. The policy recorded for a commit is what the bytes of the
  file parse to, recorded with Git's identity and the SHA-256 of exactly these bytes; and put into a
  manifest unchanged it is accepted if and only if the policy has no blocker left.
\<close>

theorem policy_snapshot_reads_back:
  assumes "source_policy_snapshot uni sha1 sha gh commit h = (Inr s, h')"
    and "\<And>b. fullmatch SHA_RE (sha1 b)" and "\<And>b. fullmatch SHA256_PATTERN (sha b)"
  shows "\<exists>raw policy. parse_json (jc_loads (gh_codec gh)) raw = Inr (JObj policy) \<and> jget s ''data'' = JObj policy
     \<and> jget s ''git_blob_sha'' = JStr (sha1 (git_blob raw)) \<and> jget s ''sha256'' = JStr (sha raw)
     \<and> (validate_policy_snapshot uni (JObj s) (gh_repo gh) = Inr () \<longleftrightarrow> no_blockers policy)"
proof -
  from assms(1) obtain v where "policy_of_response uni sha1 sha (jc_loads (gh_codec gh)) (gh_repo gh) v = Inr s"
    by (auto simp: source_policy_snapshot_def gh_success)
  from policy_of_response_Inr [OF this] obtain raw data where d: "parse_json (jc_loads (gh_codec gh)) raw = Inr data"
    "require_release_policy uni data (gh_repo gh) False = Inr ()"
    "s = [(lit ''schema'', JInt 1), (lit ''path'', JStr (lit POLICY)),
          (lit ''git_blob_sha'', JStr (sha1 (git_blob raw))), (lit ''sha256'', JStr (sha raw)), (lit ''data'', data)]"
    by blast
  have f: "jget s ''schema'' = JInt 1" "jget s ''path'' = JStr (lit POLICY)"
    "jget s ''git_blob_sha'' = JStr (sha1 (git_blob raw))" "jget s ''sha256'' = JStr (sha raw)" "jget s ''data'' = data"
    by (simp_all add: d(3) dict_get_def)
  from d(2) obtain policy where p: "data = JObj policy"
    by (auto simp: require_release_policy_def split: json.splits)
  have "validate_policy_snapshot uni (JObj s) (gh_repo gh) = Inr () \<longleftrightarrow> no_blockers policy"
    using assms(2,3) d(2) by (simp add: validate_policy_snapshot_def f p str_matches_def release_policy_qualified)
  with d f p show ?thesis by blast
qed

text \<open>A service that answers every request with the same file.\<close>

lemma endpoint_start: "\<exists>t. endpoint_of gh path mode = 114 # t"
proof -
  have "\<exists>t. rstrip_char 47 (114 # s) = 114 # t" for s
    by (auto simp: rstrip_char_def dropWhile_append) (metis rev_rev_ident)
  then have "\<exists>t. rstrip_char 47 (lit ''repos/'' @ gh_repo gh @ [47] @ path) = 114 # t"
    by (simp add: lit_def)
  then show ?thesis by (auto simp: endpoint_of_def Let_def)
qed

lemma page_get:
  assumes "gh_env gh = (\<lambda>_ _. Completed page_proc)" "jc_loads (gh_codec gh) (lit ''[]'') = Inr v" "json_wf v"
    and path: "list_ex (\<lambda>p. fullmatch p path) API_GET"
      "list_all (\<lambda>part. part \<noteq> lit ''.'' \<and> part \<noteq> lit ''..'') (split_on 47 (unquote path))"
  shows "gh_get gh path h = (Inr v, h @ [api_command gh path ''GET'' None ''json''])"
proof -
  let ?c = "api_command gh path ''GET'' None ''json''"
  have "completed_read (gh_codec gh) page_proc False b = Inr (Some (lit ''[]''))" for b
    by (simp add: completed_read_def http_response_single page_head response_def) (simp add: page_proc_def)
  then have "read_attempts (gh_env gh) (gh_codec gh) ?c False API_READ_ATTEMPTS h = (Inr (lit ''[]''), h @ [?c])"
    by (simp add: API_READ_ATTEMPTS_def numeral_3_eq_3 assms(1))
  moreover obtain t where "endpoint_of gh path ''json'' = 114 # t" using endpoint_start by blast
  then have "endpoint_of gh path ''json'' \<notin> {lit ''--method'', lit ''--input''}" by (simp add: lit_def)
  ultimately have "request gh path ''GET'' None ''json'' h = (Inr (lit ''[]''), h @ [?c])"
    using path
    by (simp add: request_def gh_require_eq API_PATHS_def perform_def read_get_def api_command_def mode_arguments_def
        eq_commute [of "lit ''--input''"])
  then show ?thesis
    using assms(2,3) by (simp add: api_def gh_bind_def gh_lift_def bstrip_ws_def parse_json_def) (simp add: lit_def)
qed

definition sample_policy_file :: json_dict where
  "sample_policy_file =
     [(lit ''type'', JStr (lit ''file'')), (lit ''path'', JStr (lit POLICY)), (lit ''encoding'', JStr (lit ''base64'')),
      (lit ''content'', JStr (lit ''AA=='')), (lit ''size'', JInt 1), (lit ''sha'', JStr (replicate 40 48))]"

definition policy_github :: github where
  "policy_github = \<lparr>gh_repo = lit ''o/r'', gh_env = (\<lambda>_ _. Completed page_proc),
     gh_codec = \<lparr>jc_loads = (\<lambda>b. Inr (JObj (if b = lit ''[]'' then sample_policy_file else sample_manifest_policy))),
       jc_raw_decode = (\<lambda>_. None), jc_dumps = (\<lambda>_. [])\<rparr>\<rparr>"

lemma sample_snapshot:
  "\<exists>s h'. source_policy_snapshot (\<lambda>_. []) (\<lambda>_. replicate 40 48) sample_sha policy_github (replicate 40 48) [] = (Inr s, h')"
proof -
  let ?path = "lit ''contents/.release-policy.json?ref='' @ replicate 40 48"
  have "fullmatch (RSeq (r_lit ''contents/.release-policy.json?ref='') SHA_RE) ?path"
    using sample_hashes(1) by (auto simp: fullmatch_denotes)
  then have path: "list_ex (\<lambda>p. fullmatch p ?path) API_GET" by (simp add: API_GET_def)
  have parts: "list_all (\<lambda>part. part \<noteq> lit ''.'' \<and> part \<noteq> lit ''..'') (split_on 47 (unquote ?path))"
    by (simp add: unquote_def lit_def hex_val_def is_digit_def utf8_step_def numeral_eq_Suc)
  have wf: "json_wf (JObj sample_policy_file)" by (simp add: sample_policy_file_def)
  have get: "gh_get policy_github ?path [] = (Inr (JObj sample_policy_file), [api_command policy_github ?path ''GET'' None ''json''])"
    using page_get [OF _ _ wf path parts, of policy_github] by (simp add: policy_github_def)
  have content: "decode_base64 (lit ''AA=='') = Some [0]"
    by (simp add: decode_base64_def lit_def is_space_def last_quad_def b64val_def)
  have "policy_of_response (\<lambda>_. []) (\<lambda>_. replicate 40 48) sample_sha (jc_loads (gh_codec policy_github)) (lit ''o/r'')
      (JObj sample_policy_file) = Inr [(lit ''schema'', JInt 1), (lit ''path'', JStr (lit POLICY)),
        (lit ''git_blob_sha'', JStr (replicate 40 48)), (lit ''sha256'', JStr (sample_sha [0])), (lit ''data'', JObj sample_manifest_policy)]"
    using sample_repository(2) content
    by (simp add: policy_of_response_def sample_policy_file_def regular_file_def encoded_content_def dict_get_def
        size_matches_def policy_github_def parse_json_def require_release_policy_def require_fuzzing_policy_def
        sample_manifest_policy_def has_key_def check_blockers_def nonempty_strings_def)
      (simp add: lit_def)
  moreover have repo: "gh_repo policy_github = lit ''o/r''" by (simp add: policy_github_def)
  moreover have "gh_get policy_github (lit ''contents/'' @ lit POLICY @ lit ''?ref='' @ replicate 40 48) []
      = (Inr (JObj sample_policy_file), [api_command policy_github ?path ''GET'' None ''json''])"
    using get by (simp add: POLICY_def) (simp add: lit_def)
  ultimately show ?thesis
    by (simp add: source_policy_snapshot_def gh_bind_def gh_lift_def gh_require_eq sample_hashes)
qed

theorem policy_snapshot_reads_back_witness:
  "\<exists>s policy. jget s ''data'' = JObj policy \<and> jget s ''sha256'' = JStr (replicate 64 48)
     \<and> (validate_policy_snapshot (\<lambda>_. []) (JObj s) (lit ''o/r'') = Inr () \<longleftrightarrow> no_blockers policy)"
proof -
  have "sample_sha = (\<lambda>_. replicate 64 48)" by (simp add: fun_eq_iff sample_sha_def)
  with sample_snapshot obtain s h' where s:
    "source_policy_snapshot (\<lambda>_. []) (\<lambda>_. replicate 40 48) (\<lambda>_. replicate 64 48) policy_github (replicate 40 48) [] = (Inr s, h')"
    by auto
  from policy_snapshot_reads_back [OF s sample_hashes] show ?thesis
    by (auto simp: policy_github_def)
qed

section \<open>The identity of a candidate\<close>

text \<open>Two snapshots that differ at most in the download counters of their assets.\<close>

definition same_candidate :: "release_snapshot \<Rightarrow> release_snapshot \<Rightarrow> bool" where
  "same_candidate s t \<longleftrightarrow>
     (case (s, t) of ((ref, release, assets), (ref', release', assets')) \<Rightarrow>
        ref = ref' \<and> (\<forall>k\<in>set identity_fields. jget release k = jget release' k)
        \<and> map asset_fields assets = map asset_fields assets')"

lemma snapshot_json_same: "same_candidate s t \<Longrightarrow> snapshot_json s = snapshot_json t"
  by (auto simp: same_candidate_def snapshot_json_def identity_fields_def split: prod.splits)

end
