(* ===== verification/Publication.thy ===== *)
theory Publication
  imports Release_Manifest
begin

text \<open>
  The writing half of \<open>scripts/release_control.py\<close>: waiting for the run that publishes, uploading staged
  files to a draft, reading every byte back, and making the draft public; and the promotion of a verified
  candidate. A staging directory is the list of its files in the order of their names. Clock readings, the
  process environment and the checked-out commit are arguments.
\<close>

section \<open>Loops\<close>

fun gh_each :: "('a \<Rightarrow> unit gh) \<Rightarrow> 'a list \<Rightarrow> unit gh" where
  "gh_each f [] = gh_lift (Inr ())"
| "gh_each f (x # xs) = gh_bind (f x) (\<lambda>_. gh_each f xs)"

fun gh_map :: "('a \<Rightarrow> 'b gh) \<Rightarrow> 'a list \<Rightarrow> 'b list gh" where
  "gh_map f [] = gh_lift (Inr [])"
| "gh_map f (x # xs) = gh_bind (f x) (\<lambda>y. gh_bind (gh_map f xs) (\<lambda>ys. gh_lift (Inr (y # ys))))"

section \<open>Waiting for the executing run\<close>

definition EXECUTING_RUN_WAIT_SECONDS :: real where
  "EXECUTING_RUN_WAIT_SECONDS = 300"

text \<open>
  The polling loop. Every pass takes one reading of the clock, the list of readings gives; when the list is
  used up the run is still being waited for, and the result is \<open>None\<close>.
\<close>

fun wait_polls ::
  "(nat \<Rightarrow> pystr) \<Rightarrow> github \<Rightarrow> (string \<Rightarrow> pystr option) \<Rightarrow> proc \<Rightarrow> (pystr \<Rightarrow> bytes result)
   \<Rightarrow> int \<Rightarrow> string \<Rightarrow> json_dict \<Rightarrow> pystr \<Rightarrow> int \<Rightarrow> bool \<Rightarrow> real \<Rightarrow> real list \<Rightarrow> json_dict option gh" where
  "wait_polls uni gh environ head read_file run_id channel info sha attempt gate deadline [] = gh_lift (Inr None)"
| "wait_polls uni gh environ head read_file run_id channel info sha attempt gate deadline (now # readings) =
     gh_bind (gh_get gh (lit ''actions/runs/'' @ int_str run_id)) (\<lambda>v.
     gh_bind (gh_lift (as_dict v)) (\<lambda>run.
     gh_require (json_eq (jget run ''id'') (JInt run_id)) ''Execution run identity mismatch''
    (gh_bind (gh_lift (check_execution uni gh environ head read_file run_id channel info run)) (\<lambda>_.
     gh_bind (gh_lift (validate_run_provenance uni gh run info sha attempt)) (\<lambda>_.
     gh_require (jget run ''conclusion'' = JNull) ''Publication run already has a conclusion''
    (gh_bind
       (if jget run ''status'' = JStr (lit ''in_progress'')
        then if \<not> gate then gh_lift (Inr True) else release_gate_ready gh run_id sha attempt True
        else gh_lift (Inr False)) (\<lambda>ready.
       if ready
       then gh_require (now < deadline) ''Publication metadata was not ready in time'' (gh_lift (Inr (Some run)))
       else
         gh_bind (gh_lift (in_strings (jget run ''status'') pending_states)) (\<lambda>active.
         gh_require active ''Publication run is not active''
        (gh_require (deadline - now > 0) ''Publication run did not become ready in time''
          (wait_polls uni gh environ head read_file run_id channel info sha attempt gate deadline readings))))))))))"

definition wait_for_executing_run ::
  "(nat \<Rightarrow> pystr) \<Rightarrow> github \<Rightarrow> (string \<Rightarrow> pystr option) \<Rightarrow> proc \<Rightarrow> (pystr \<Rightarrow> bytes result)
   \<Rightarrow> int \<Rightarrow> string \<Rightarrow> json_dict \<Rightarrow> pystr \<Rightarrow> int \<Rightarrow> bool \<Rightarrow> real \<Rightarrow> real list \<Rightarrow> json_dict option gh" where
  "wait_for_executing_run uni gh environ head read_file run_id channel info sha attempt gate start readings =
     wait_polls uni gh environ head read_file run_id channel info sha attempt gate
       (start + EXECUTING_RUN_WAIT_SECONDS) readings"

section \<open>Assets\<close>

text \<open>A staged file: its name and its bytes.\<close>

type_synonym staged = "pystr \<times> bytes"

definition ASSET_RESTRICTIONS :: "string list list" where
  "ASSET_RESTRICTIONS = []"

definition reject_restricted_assets :: "pystr list \<Rightarrow> unit result" where
  "reject_restricted_assets names =
     each_r (\<lambda>name. each_r (\<lambda>suffixes.
       rreq (\<not> list_ex (\<lambda>s. endswith (alower name) (lit s)) suffixes) ''Restricted asset'' (Inr ())) ASSET_RESTRICTIONS) names"

definition stream_identity :: "sha256 \<Rightarrow> bytes \<Rightarrow> nat \<times> pystr" where
  "stream_identity sha b = (length b, sha b)"

text \<open>An entry of a source directory, and the check and copy of all of them in the order of their names.\<close>

datatype entry_kind = RegularFile bytes | Symlink | OtherEntry

fun stage_entries :: "sha256 \<Rightarrow> pystr list \<Rightarrow> (pystr \<times> entry_kind) list \<Rightarrow> (json list \<times> staged list) result" where
  "stage_entries sha folded [] = Inr ([], [])"
| "stage_entries sha folded ((name, kind) # es) =
     (case kind of
        RegularFile b \<Rightarrow>
          rreq (fullmatch NAME_RE name \<and> alower name \<noteq> alower (lit MANIFEST)) ''Unsafe or reserved asset name''
         (rreq (alower name \<notin> set folded) ''Asset name collision''
         (bind_r (stage_entries sha (alower name # folded) es) (\<lambda>(assets, files).
            let (n, d) = stream_identity sha b
            in Inr (JObj [(lit ''name'', JStr name), (lit ''size'', JInt (int n)), (lit ''sha256'', JStr d)] # assets,
                    (name, b) # files))))
      | _ \<Rightarrow> Inl (ReleaseError ''Assets must be flat regular files''))"

definition stage_assets :: "sha256 \<Rightarrow> (pystr \<times> entry_kind) list option \<Rightarrow> (json list \<times> staged list) result" where
  "stage_assets sha source =
     (case source of
        None \<Rightarrow> Inl (ReleaseError ''Assets must be a regular directory'')
      | Some es \<Rightarrow>
          (let entries = sort_entries es
           in bind_r (reject_restricted_assets (map fst entries)) (\<lambda>_.
              bind_r (stage_entries sha [] entries) (\<lambda>(assets, files).
                rreq (assets \<noteq> []) ''Cannot publish an empty assets directory'' (Inr (assets, files))))))"

text \<open>The bytes of an asset; the download writes what the command prints and is not repeated.\<close>

definition asset_path :: "int \<Rightarrow> pystr" where
  "asset_path i = lit ''releases/assets/'' @ int_str i"

definition download_command :: "github \<Rightarrow> pystr \<Rightarrow> command" where
  "download_command gh path =
     (map lit [''gh'', ''api'', ''--hostname'', ''github.com'', ''--method'', ''GET'', ''-H'',
        ''Accept: application/octet-stream'', ''--''] @ [lit ''repos/'' @ gh_repo gh @ [47] @ path], None)"

definition gh_download :: "github \<Rightarrow> pystr \<Rightarrow> bytes gh" where
  "gh_download gh path =
     gh_require (fullmatch (RSeq (r_lit ''releases/assets/'') r_posint) path) ''Unsupported binary download endpoint''
    (gh_bind (run_command (gh_env gh) (download_command gh path)) (\<lambda>out.
       gh_lift (case out of
           Completed result \<Rightarrow> bind_r (response result None) (\<lambda>_. Inr (stdout result))
         | TimeoutExpired _ _ \<Rightarrow> Inl (GitHubError False))))"

definition download_asset :: "github \<Rightarrow> json \<Rightarrow> bytes gh" where
  "download_asset gh i = gh_bind (gh_lift (positive i)) (\<lambda>n. gh_download gh (asset_path n))"

text \<open>
  The private directory of a transaction: where it lies, the system's temporary directory, its own name.
\<close>

record staging =
  st_parent :: pystr
  st_tmp :: pystr
  st_name :: pystr
  st_files :: "staged list"

definition staged_path :: "staging \<Rightarrow> pystr \<Rightarrow> pystr" where
  "staged_path st name = st_parent st @ [47] @ st_name st @ [47] @ name"

definition private_staging :: "staging \<Rightarrow> pystr \<Rightarrow> bool" where
  "private_staging st name \<longleftrightarrow>
     st_parent st = st_tmp st
     \<and> list_ex (\<lambda>p. startswith (st_name st) (lit p)) [''release-candidate-'', ''release-promote-'', ''release-versioned-'']
     \<and> 35 \<notin> set (staged_path st name)"

definition upload_endpoint :: "github \<Rightarrow> int \<Rightarrow> pystr \<Rightarrow> pystr" where
  "upload_endpoint gh release_id name =
     lit ''https://uploads.github.com/repos/'' @ gh_repo gh @ lit ''/releases/'' @ int_str release_id
       @ lit ''/assets?name='' @ concat (map quote_byte name)"

definition upload_command :: "github \<Rightarrow> staging \<Rightarrow> int \<Rightarrow> pystr \<Rightarrow> command" where
  "upload_command gh st release_id name =
     (map lit [''gh'', ''api'', ''--hostname'', ''github.com'', ''--include'', ''--method'', ''POST'', ''-H'',
        ''Content-Type: application/octet-stream'', ''--input'']
        @ [staged_path st name, lit ''--'', upload_endpoint gh release_id name], None)"

text \<open>Without a readable HTTP response an upload has failed, whatever the command's exit status.\<close>

definition upload_result :: "github \<Rightarrow> staged \<Rightarrow> outcome \<Rightarrow> unit result" where
  "upload_result gh f out =
     (case out of
        TimeoutExpired _ _ \<Rightarrow> Inl (GitHubError False)
      | Completed result \<Rightarrow>
          (case http_response (gh_codec gh) (stdout result) False of
             Inl _ \<Rightarrow> bind_r (response result None) (\<lambda>_. Inl (GitHubError False))
           | Inr http \<Rightarrow>
               bind_r (response result (Some http)) (\<lambda>body.
               rreq (fst http = 201) ''upload was not confirmed as created''
              (bind_r (parse_json (jc_loads (gh_codec gh)) body) (\<lambda>v.
                 case v of
                   JObj asset \<Rightarrow>
                     bind_r (positive (jget asset ''id'')) (\<lambda>_.
                     rreq (jget asset ''name'' = JStr (fst f) \<and> jget asset ''state'' = JStr (lit ''uploaded'')
                           \<and> jget asset ''size'' = JInt (int (length (snd f))))
                       ''upload response did not confirm the staged asset'' (Inr ()))
                 | _ \<Rightarrow> Inl (ReleaseError ''invalid asset response''))))))"

definition upload :: "github \<Rightarrow> pystr \<Rightarrow> staging \<Rightarrow> int \<Rightarrow> staged \<Rightarrow> unit gh" where
  "upload gh tag st release_id f =
     gh_require (fullmatch TAG_RE tag) ''Unsupported release upload tag''
    (gh_bind (gh_lift (positive (JInt release_id))) (\<lambda>rid.
     gh_require (startswith (staged_path st (fst f)) [47] \<and> fullmatch NAME_RE (fst f)) ''Unsafe upload path''
    (gh_require (private_staging st (fst f)) ''Upload must come from the private release staging directory''
    (gh_bind (run_command (gh_env gh) (upload_command gh st rid (fst f))) (\<lambda>out.
       gh_lift (upload_result gh f out))))))"

definition verify_uploaded_asset :: "sha256 \<Rightarrow> github \<Rightarrow> json_dict \<Rightarrow> bytes \<Rightarrow> unit gh" where
  "verify_uploaded_asset sha gh item local_bytes =
     gh_require (jget item ''state'' = JStr (lit ''uploaded'')
                 \<and> json_eq (jget item ''size'') (JInt (int (length local_bytes))))
       ''Incomplete asset upload; draft left unpublished''
    (gh_bind (download_asset gh (jget item ''id'')) (\<lambda>remote.
     gh_require (stream_identity sha remote = stream_identity sha local_bytes)
       ''Uploaded bytes differ; draft left unpublished'' (gh_lift (Inr ()))))"

section \<open>The publication transaction\<close>

text \<open>The inventory on the service against the staged files; a name that is no string is not among them.\<close>

definition inventory_matches :: "json_dict list \<Rightarrow> staged list \<Rightarrow> bool result" where
  "inventory_matches uploaded files =
     (if length uploaded \<noteq> length files then Inr False
      else if list_all (\<lambda>i. hashable (jget i ''name'')) uploaded
      then Inr ((\<lambda>i. jget i ''name'') ` set uploaded = (\<lambda>f. JStr (fst f)) ` set files)
      else Inl TypeError)"

definition check_tag_ref :: "github \<Rightarrow> pystr \<Rightarrow> pystr \<Rightarrow> unit gh" where
  "check_tag_ref gh tag sha =
     gh_bind (gh_lift (quote tag)) (\<lambda>q.
     gh_bind (gh_get gh (lit ''git/ref/tags/'' @ q)) (\<lambda>ref.
     gh_require
       (case ref of
          JObj d \<Rightarrow>
            jget d ''ref'' = JStr (lit ''refs/tags/'' @ tag)
            \<and> (case jget d ''object'' of
                 JObj obj \<Rightarrow> jget obj ''type'' = JStr (lit ''commit'') \<and> jget obj ''sha'' = JStr sha
               | _ \<Rightarrow> False)
        | _ \<Rightarrow> False)
       ''Tag moved before publication; draft left unpublished'' (gh_lift (Inr ()))))"

definition verify_draft :: "sha256 \<Rightarrow> github \<Rightarrow> pystr \<Rightarrow> pystr \<Rightarrow> int \<Rightarrow> staged list \<Rightarrow> unit gh" where
  "verify_draft sha gh tag commit release_id files =
     gh_bind (pages gh (lit ''releases/'' @ int_str release_id @ lit ''/assets'') None) (\<lambda>rows.
     gh_bind (gh_lift (map_r as_dict rows)) (\<lambda>uploaded.
     gh_bind (gh_lift (inventory_matches uploaded files)) (\<lambda>same.
     gh_require same ''Uploaded asset inventory mismatch; draft left unpublished''
    (gh_bind (gh_each (\<lambda>item. verify_uploaded_asset sha gh item (the (map_of files (jstr_val (jget item ''name''))))) uploaded)
      (\<lambda>_. check_tag_ref gh tag commit)))))"

definition create_payload :: "pystr \<Rightarrow> pystr \<Rightarrow> bool \<Rightarrow> pystr \<Rightarrow> json" where
  "create_payload tag commit prerelease body =
     JObj [(lit ''tag_name'', JStr tag), (lit ''target_commitish'', JStr commit), (lit ''name'', JStr tag),
           (lit ''body'', JStr body), (lit ''draft'', JBool True), (lit ''prerelease'', JBool prerelease),
           (lit ''make_latest'', JStr (lit ''false''))]"

definition publish_body :: "bool \<Rightarrow> json" where
  "publish_body prerelease =
     JObj [(lit ''draft'', JBool False), (lit ''prerelease'', JBool prerelease),
           (lit ''make_latest'', JStr (lit (if prerelease then ''false'' else ''true'')))]"

definition make_public :: "github \<Rightarrow> pystr \<Rightarrow> int \<Rightarrow> bool \<Rightarrow> json_dict gh" where
  "make_public gh tag release_id prerelease =
     gh_bind (api gh (lit ''releases/'' @ int_str release_id) ''PATCH'' (Some (publish_body prerelease))) (\<lambda>v.
     gh_bind (gh_lift (as_dict v)) (\<lambda>result.
     gh_require (jget result ''draft'' = JBool False \<and> jget result ''tag_name'' = JStr tag
                 \<and> jget result ''prerelease'' = JBool prerelease)
       ''Publication response did not confirm the requested state'' (gh_lift (Inr result))))"

definition RELEASE_SIGNATURES_REQUIRED :: bool where
  "RELEASE_SIGNATURES_REQUIRED = False"

text \<open>
  The transaction without the two confirmations of the versioned publisher. Signatures are not required in
  this repository, so the verifier, which is not part of it, does not run.
\<close>

definition publish_prepared ::
  "(nat \<Rightarrow> pystr) \<Rightarrow> sha256 \<Rightarrow> github \<Rightarrow> bool \<Rightarrow> pystr \<Rightarrow> pystr \<Rightarrow> staging \<Rightarrow> bool \<Rightarrow> pystr \<Rightarrow> json_dict gh" where
  "publish_prepared uni sha gh scope_verified tag commit st prerelease body =
     gh_bind (gh_lift (reject_restricted_assets (map fst (st_files st)))) (\<lambda>_.
     gh_bind (ensure_absent gh tag) (\<lambda>_.
     gh_bind (check_workflow_publication uni gh scope_verified commit) (\<lambda>_.
     gh_bind (api gh (lit ''git/refs'') ''POST''
               (Some (JObj [(lit ''ref'', JStr (lit ''refs/tags/'' @ tag)), (lit ''sha'', JStr commit)]))) (\<lambda>_.
     gh_bind (api gh (lit ''releases'') ''POST'' (Some (create_payload tag commit prerelease body))) (\<lambda>v.
     gh_bind (gh_lift (as_dict v)) (\<lambda>release.
     gh_require (jget release ''draft'' = JBool True \<and> jget release ''tag_name'' = JStr tag) ''Unexpected draft release response''
    (gh_bind (gh_lift (positive (jget release ''id''))) (\<lambda>rid.
     gh_bind (gh_each (upload gh tag st rid) (st_files st)) (\<lambda>_.
     gh_bind (verify_draft sha gh tag commit rid (st_files st)) (\<lambda>_.
       make_public gh tag rid prerelease))))))))))"

definition publish_release ::
  "(nat \<Rightarrow> pystr) \<Rightarrow> sha256 \<Rightarrow> sha256 \<Rightarrow> github \<Rightarrow> bool \<Rightarrow> pystr \<Rightarrow> pystr \<Rightarrow> staging \<Rightarrow> bool \<Rightarrow> pystr \<Rightarrow> json_dict gh" where
  "publish_release uni sha1 sha gh scope_verified tag commit st prerelease body =
     gh_bind (gh_lift (reject_restricted_assets (map fst (st_files st)))) (\<lambda>_.
     gh_bind (release_notes uni sha1 sha gh tag commit body) (\<lambda>notes.
       publish_prepared uni sha gh scope_verified tag commit st prerelease notes))"

section \<open>Commands that publish nothing\<close>

text \<open>The method of a command, and actions that run no command which makes a release public.\<close>

definition command_method :: "command \<Rightarrow> pystr" where
  "command_method c = concat (take 1 (drop 1 (dropWhile (\<lambda>a. a \<noteq> lit ''--method'') (fst c))))"

text \<open>The commands of a history that change a release: only they can make one public.\<close>

definition publishing :: "command list \<Rightarrow> command list" where
  "publishing h = filter (\<lambda>c. command_method c = lit ''PATCH'') h"

lemma publishing_append [simp]: "publishing (h @ cs) = publishing h @ publishing cs"
  by (simp add: publishing_def)

definition quiet :: "'a gh \<Rightarrow> bool" where
  "quiet m \<longleftrightarrow> (\<forall>h. publishing (snd (m h)) = publishing h)"

named_theorems quiet_intros \<open>actions that run no publishing command\<close>

lemma quiet_lift [quiet_intros]: "quiet (gh_lift r)"
  by (simp add: quiet_def gh_lift_def)

lemma quiet_require [quiet_intros]: "quiet m \<Longrightarrow> quiet (gh_require c msg m)"
  by (simp add: quiet_def gh_require_def)

lemma quiet_bind [quiet_intros]: "quiet m \<Longrightarrow> (\<And>x. quiet (f x)) \<Longrightarrow> quiet (gh_bind m f)"
  by (auto simp: quiet_def gh_bind_def split: prod.splits sum.splits) (metis snd_conv)+

lemma quiet_run: "command_method c \<noteq> lit ''PATCH'' \<Longrightarrow> quiet (run_command env c)"
  by (simp add: quiet_def run_command_def publishing_def)

text \<open>A publishing command comes from what follows a quiet action, and then that action has succeeded.\<close>

lemma after_quiet:
  assumes "publishing (snd (gh_bind m f h)) \<noteq> publishing h" and "quiet m"
  obtains x h1 where "m h = (Inr x, h1)" "publishing h1 = publishing h" "gh_bind m f h = f x h1"
    "publishing (snd (f x h1)) \<noteq> publishing h1"
proof -
  obtain r h1 where m: "m h = (r, h1)" by (cases "m h")
  with assms(2) have h1: "publishing h1 = publishing h" unfolding quiet_def by (metis snd_conv)
  with assms(1) m obtain x where "r = Inr x" by (cases r) (simp_all add: gh_bind_def)
  with assms(1) m h1 show ?thesis by (intro that [of x h1]) (simp_all add: gh_bind_def)
qed

lemma after_require:
  assumes "publishing (snd (gh_require c msg m h)) \<noteq> publishing h"
  shows "c \<and> gh_require c msg m h = m h \<and> publishing (snd (m h)) \<noteq> publishing h"
  using assms by (auto simp: gh_require_def split: if_splits)

lemma quiet_each [quiet_intros]: "(\<And>x. quiet (f x)) \<Longrightarrow> quiet (gh_each f xs)"
  by (induction xs) (auto intro: quiet_intros)

lemma quiet_map [quiet_intros]: "(\<And>x. quiet (f x)) \<Longrightarrow> quiet (gh_map f xs)"
  by (induction xs) (auto intro: quiet_intros)

lemma api_command_method [simp]: "command_method (api_command gh path http_method body mode) = lit http_method"
  by (simp add: command_method_def api_command_def)

lemma quiet_request [quiet_intros]:
  assumes "http_method \<noteq> ''PATCH''"
  shows "quiet (request gh path http_method body mode)"
  unfolding quiet_def
proof
  fix h
  from request_commands [of gh path http_method body mode h] obtain k where
    "snd (request gh path http_method body mode h) = h @ replicate k (api_command gh path http_method body mode)" by blast
  with assms show "publishing (snd (request gh path http_method body mode h)) = publishing h"
    by (simp add: publishing_def)
qed

lemma quiet_api [quiet_intros]: "http_method \<noteq> ''PATCH'' \<Longrightarrow> quiet (api gh path http_method body)"
  unfolding api_def by (intro quiet_intros)

lemma quiet_optional [quiet_intros]: "quiet (optional gh path)"
proof -
  have "snd (optional gh path h) = snd (gh_get gh path h)" for h
    by (simp add: optional_def split: prod.splits sum.splits)
  moreover have "quiet (gh_get gh path)" by (intro quiet_intros) simp
  ultimately show ?thesis by (simp add: quiet_def)
qed

lemma quiet_pages [quiet_intros]: "quiet (pages gh path field_name)"
  unfolding pages_def by (intro quiet_intros) simp

lemma quiet_binary [quiet_intros]: "quiet (binary gh path)"
  unfolding binary_def by (simp add: quiet_intros)

lemma quiet_ensure_absent [quiet_intros]: "quiet (ensure_absent gh tag)"
  unfolding ensure_absent_def by (intro quiet_intros)

lemma quiet_repository_info [quiet_intros]: "quiet (repository_info uni gh)"
  unfolding repository_info_def by (intro quiet_intros) simp

lemma quiet_workflow_tree [quiet_intros]: "quiet (workflow_tree gh sha)"
  unfolding workflow_tree_def by (intro quiet_intros) simp

lemma quiet_workflow_publication [quiet_intros]: "quiet (check_workflow_publication uni gh scope sha)"
  unfolding check_workflow_publication_def
  by (auto intro!: quiet_intros split: option.splits)

lemma quiet_upload [quiet_intros]: "quiet (upload gh tag st release_id f)"
  unfolding upload_def
  by (intro quiet_intros quiet_run) (simp add: command_method_def upload_command_def)

lemma quiet_download [quiet_intros]: "quiet (download_asset gh i)"
  unfolding download_asset_def gh_download_def
  by (intro quiet_intros quiet_run) (simp add: command_method_def download_command_def)

lemma quiet_verify_draft [quiet_intros]: "quiet (verify_draft sha gh tag commit release_id files)"
  unfolding verify_draft_def verify_uploaded_asset_def check_tag_ref_def
  by (intro quiet_intros) simp

lemma make_public_history:
  assumes "publishing (snd (make_public gh tag rid prerelease h)) \<noteq> publishing h"
  shows "snd (make_public gh tag rid prerelease h)
    = h @ [api_command gh (lit ''releases/'' @ int_str rid) ''PATCH'' (Some (publish_body prerelease)) ''json'']"
proof -
  let ?path = "lit ''releases/'' @ int_str rid" and ?body = "Some (publish_body prerelease)"
  have same: "snd (make_public gh tag rid prerelease h) = snd (request gh ?path ''PATCH'' ?body ''json'' h)"
    by (simp add: make_public_def api_def gh_bind_def gh_lift_def gh_require_def split: prod.splits sum.splits)
  from request_commands [of gh ?path "''PATCH''" ?body "''json''" h] obtain k where
    k: "snd (request gh ?path ''PATCH'' ?body ''json'' h) = h @ replicate k (api_command gh ?path ''PATCH'' ?body ''json'')"
      "k \<le> 1" by auto
  with assms same have "k \<noteq> 0" by (cases k) (auto simp: publishing_def)
  with k same show ?thesis by (cases k) auto
qed

text \<open>What a verified draft holds: every staged file was read back byte for byte, and the tag still stands.\<close>

definition read_back :: "sha256 \<Rightarrow> github \<Rightarrow> staged \<Rightarrow> bool" where
  "read_back sha gh f \<longleftrightarrow>
     (\<exists>i h h' remote. download_asset gh i h = (Inr remote, h')
        \<and> length remote = length (snd f) \<and> sha remote = sha (snd f))"

lemma gh_each_Inr:
  "gh_each f xs h = (Inr u, h') \<Longrightarrow> x \<in> set xs \<Longrightarrow> \<exists>h1 h2. f x h1 = (Inr (), h2)"
proof (induction xs arbitrary: h)
  case (Cons y ys)
  from Cons.prems(1) obtain h1 where "f y h = (Inr (), h1)" "gh_each f ys h1 = (Inr u, h')"
    by (auto simp: gh_bind_Inr_iff)
  with Cons show ?case by auto
qed simp

lemma verify_draft_sound:
  assumes "verify_draft sha gh tag commit rid files h = (Inr u, h')" and "distinct (map fst files)"
  shows "(\<forall>f\<in>set files. read_back sha gh f) \<and> (\<exists>h1. check_tag_ref gh tag commit h1 = (Inr (), h'))"
proof -
  from assms(1) obtain uploaded h1 h2 where
    inv: "inventory_matches uploaded files = Inr True"
    and each: "gh_each (\<lambda>item. verify_uploaded_asset sha gh item (the (map_of files (jstr_val (jget item ''name''))))) uploaded h1 = (Inr (), h2)"
    and ref: "check_tag_ref gh tag commit h2 = (Inr (), h')"
    by (auto simp: verify_draft_def gh_success)
  have "read_back sha gh f" if f: "f \<in> set files" for f
  proof -
    from inv have "JStr (fst f) \<in> (\<lambda>i. jget i ''name'') ` set uploaded"
      using f by (auto simp: inventory_matches_def split: if_splits)
    then obtain item where item: "item \<in> set uploaded" "jget item ''name'' = JStr (fst f)" by auto
    have "map_of files (fst f) = Some (snd f)" using f assms(2) by (simp add: map_of_is_SomeI)
    with item gh_each_Inr [OF each item(1)] obtain h3 h4 where
      "verify_uploaded_asset sha gh item (snd f) h3 = (Inr (), h4)" by auto
    then show ?thesis
      by (auto simp: verify_uploaded_asset_def read_back_def stream_identity_def gh_success)
  qed
  with ref show ?thesis by blast
qed


section \<open>The wait is bounded\<close>

text \<open>
  \<open>time.sleep(min(2, remaining))\<close> on a monotonic clock: the next reading is later by at least that much.
\<close>

fun sleeps :: "real \<Rightarrow> real list \<Rightarrow> bool" where
  "sleeps deadline (a # b # ts) = (a + min 2 (deadline - a) \<le> b \<and> sleeps deadline (b # ts))"
| "sleeps deadline ts = True"

lemma waiting_readings:
  "fst (wait_polls uni gh environ head read_file run_id channel info sha attempt gate deadline ts h) = Inr None
     \<Longrightarrow> \<forall>t\<in>set ts. t < deadline"
proof (induction ts arbitrary: h)
  case (Cons t ts)
  then obtain h' where w: "wait_polls uni gh environ head read_file run_id channel info sha attempt gate deadline (t # ts) h = (Inr None, h')"
    by (metis prod.collapse)
  then obtain h1 where "t < deadline"
    "wait_polls uni gh environ head read_file run_id channel info sha attempt gate deadline ts h1 = (Inr None, h')"
    by (auto simp: gh_success split: if_splits)
  with Cons.IH [of h1] show ?case by simp
qed simp

lemma sleeps_progress:
  "sleeps deadline ts \<Longrightarrow> \<forall>t\<in>set ts. t < deadline \<Longrightarrow> i < length ts \<Longrightarrow> hd ts + 2 * real i \<le> ts ! i"
proof (induction deadline ts arbitrary: i rule: sleeps.induct)
  case (1 deadline a b ts)
  show ?case
  proof (cases i)
    case (Suc j)
    with 1 have "b + 2 * real j \<le> (b # ts) ! j" by simp
    moreover have "a + 2 \<le> b" using 1 by (simp add: min_def split: if_splits)
    ultimately show ?thesis using Suc by simp
  qed simp
qed simp_all

text \<open>
  C27: Waiting for the executing run ends. As long as the clock advances by what was slept, the loop has
  returned a run or raised an error after at most 151 polls, whatever the service answers.
\<close>

theorem wait_is_bounded:
  assumes "sleeps (start + EXECUTING_RUN_WAIT_SECONDS) readings" and "start \<le> hd readings" and "151 \<le> length readings"
  shows "fst (wait_for_executing_run uni gh environ head read_file run_id channel info sha attempt gate start readings h) \<noteq> Inr None"
proof
  assume "fst (wait_for_executing_run uni gh environ head read_file run_id channel info sha attempt gate start readings h) = Inr None"
  then have "\<forall>t\<in>set readings. t < start + EXECUTING_RUN_WAIT_SECONDS"
    unfolding wait_for_executing_run_def by (rule waiting_readings)
  moreover from sleeps_progress [OF assms(1) this, of 150] assms(2,3)
  have "start + EXECUTING_RUN_WAIT_SECONDS \<le> readings ! 150" by (simp add: EXECUTING_RUN_WAIT_SECONDS_def)
  moreover have "readings ! 150 \<in> set readings" using assms(3) by (intro nth_mem) simp
  ultimately show False by force
qed

lemma sleeps_upt: "(\<And>i. f i + 2 \<le> f (Suc i)) \<Longrightarrow> sleeps d (map f [m..<n])"
proof (induction "n - m" arbitrary: m)
  case (Suc k)
  show ?case
  proof (cases "Suc m < n")
    case True
    have "sleeps d (map f [Suc m..<n])" using Suc by simp
    moreover have "f m + min 2 (d - f m) \<le> f (Suc m)" using Suc.prems [of m] by linarith
    ultimately show ?thesis using True by (simp add: upt_conv_Cons)
  next
    case False
    with Suc.hyps(2) have "n = Suc m" by simp
    then show ?thesis by simp
  qed
qed simp

theorem wait_is_bounded_witness:
  "fst (wait_for_executing_run (\<lambda>_. []) policy_github (\<lambda>_. None) page_proc (\<lambda>_. Inr []) 7 ''rc'' [] [] 1 True 0
     (map (\<lambda>i. 2 * real i) [0..<151]) []) \<noteq> Inr None"
  by (rule wait_is_bounded) (simp_all add: sleeps_upt upt_conv_Cons)

section \<open>A service for one publication\<close>

text \<open>Replies of the service, by what the request and the answer are.\<close>

definition reply :: "string \<Rightarrow> int \<Rightarrow> nat \<Rightarrow> proc" where
  "reply status code k = \<lparr>returncode = code, stdout = lit ''HTTP/2.0 '' @ lit status @ [10, 10, k], stderr = []\<rparr>"

lemma reply_head:
  "github_http_head (lit ''HTTP/2.0 '' @ lit ''200'' @ [10, 10, k]) = Inr (200, [k])"
  "github_http_head (lit ''HTTP/2.0 '' @ lit ''201'' @ [10, 10, k]) = Inr (201, [k])"
  "github_http_head (lit ''HTTP/2.0 '' @ lit ''404'' @ [10, 10, k]) = Inr (404, [k])"
proof -
  have s: "fullmatch STATUS_LINE (lit ''HTTP/2.0 '' @ lit ''200'')" "fullmatch STATUS_LINE (lit ''HTTP/2.0 '' @ lit ''201'')"
    "fullmatch STATUS_LINE (lit ''HTTP/2.0 '' @ lit ''404'')"
    by (simp_all add: STATUS_LINE_def r_http_def r_lit_def r_char_def r_opt_def r_rep_def r_digit_def lit_def in_class_def
        eval_nat_numeral(2,3))
  then show "github_http_head (lit ''HTTP/2.0 '' @ lit ''200'' @ [10, 10, k]) = Inr (200, [k])"
    "github_http_head (lit ''HTTP/2.0 '' @ lit ''201'' @ [10, 10, k]) = Inr (201, [k])"
    "github_http_head (lit ''HTTP/2.0 '' @ lit ''404'' @ [10, 10, k]) = Inr (404, [k])"
    by (simp_all add: github_http_head_def lit_def blank_def status_code_def digits_val_def)
qed

definition one_asset :: json_dict where
  "one_asset = [(lit ''id'', JInt 8), (lit ''name'', JStr (lit ''a'')), (lit ''state'', JStr (lit ''uploaded'')), (lit ''size'', JInt 1)]"

definition one_ref :: json_dict where
  "one_ref = [(lit ''ref'', JStr (lit ''refs/tags/v1.2.3'')),
     (lit ''object'', JObj [(lit ''type'', JStr (lit ''commit'')), (lit ''sha'', JStr (replicate 40 48))])]"

definition one_draft :: json_dict where
  "one_draft = [(lit ''id'', JInt 9), (lit ''draft'', JBool True), (lit ''tag_name'', JStr (lit ''v1.2.3''))]"

definition one_public :: json_dict where
  "one_public = [(lit ''id'', JInt 9), (lit ''draft'', JBool False), (lit ''tag_name'', JStr (lit ''v1.2.3'')),
     (lit ''prerelease'', JBool False)]"

definition one_codec :: json_codec where
  "one_codec =
     \<lparr>jc_loads = (\<lambda>b. Inr (if b = [49] then JObj one_ref else if b = [50] then JObj one_draft else if b = [51] then JList []
          else if b = [52] then JList [JObj one_asset] else if b = [53] then JObj one_asset else if b = [57] then JObj one_public
          else if b = [54, 10] then JList [JList []] else if b = [55, 10] then JList [JList [JObj one_asset]] else JNull)),
      jc_raw_decode = (\<lambda>_. Some 1), jc_dumps = (\<lambda>v. if v = JList [JList []] then [54] else [55])\<rparr>"

definition one_env :: env where
  "one_env h c =
     Completed
      (if command_method c = lit ''POST'' \<and> lit ''Content-Type: application/octet-stream'' \<in> set (fst c) then reply ''201'' 0 53
       else if command_method c = lit ''POST'' then reply ''200'' 0 50
       else if command_method c = lit ''PATCH'' then reply ''200'' 0 57
       else if lit ''Accept: application/octet-stream'' \<in> set (fst c) then \<lparr>returncode = 0, stdout = [65], stderr = []\<rparr>
       else if last (fst c) = lit ''repos/o/r/releases?per_page=100'' then reply ''200'' 0 51
       else if last (fst c) = lit ''repos/o/r/releases/9/assets?per_page=100'' then reply ''200'' 0 52
       else if length h < 3 then reply ''404'' 1 56
       else reply ''200'' 0 49)"

definition one_github :: github where
  "one_github = \<lparr>gh_repo = lit ''o/r'', gh_env = one_env, gh_codec = one_codec\<rparr>"

definition one_staging :: staging where
  "one_staging = \<lparr>st_parent = lit ''/tmp'', st_tmp = lit ''/tmp'', st_name = lit ''release-candidate-x'',
     st_files = [(lit ''a'', [65])]\<rparr>"

lemma one_repo [simp]: "gh_repo one_github = lit ''o/r''" "gh_env one_github = one_env" "gh_codec one_github = one_codec"
  by (simp_all add: one_github_def)

lemma one_routes:
  "list_ex (\<lambda>p. fullmatch p (lit ''git/ref/tags/v1.2.3'')) API_GET"
  "list_ex (\<lambda>p. fullmatch p (lit ''releases/tags/v1.2.3'')) API_GET"
  "list_ex (\<lambda>p. fullmatch p (lit ''releases'')) API_GET"
  "list_ex (\<lambda>p. fullmatch p (lit ''releases/9/assets'')) API_GET"
  "fullmatch TAG_RE (lit ''v1.2.3'')"
proof -
  have tag: "fullmatch TAG_RE (lit ''v1.2.3'')" by code_simp
  have "fullmatch (RSeq (r_lit ''git/ref/tags/'') TAG_RE) (lit ''git/ref/tags/'' @ lit ''v1.2.3'')"
    "fullmatch (RSeq (r_lit ''releases/tags/'') TAG_RE) (lit ''releases/tags/'' @ lit ''v1.2.3'')"
    using tag by (auto simp: fullmatch_denotes)
  then have "fullmatch (RSeq (r_lit ''git/ref/tags/'') TAG_RE) (lit ''git/ref/tags/v1.2.3'')"
    "fullmatch (RSeq (r_lit ''releases/tags/'') TAG_RE) (lit ''releases/tags/v1.2.3'')"
    by (simp_all add: lit_def)
  then show "list_ex (\<lambda>p. fullmatch p (lit ''git/ref/tags/v1.2.3'')) API_GET"
    "list_ex (\<lambda>p. fullmatch p (lit ''releases/tags/v1.2.3'')) API_GET" by (simp_all add: API_GET_def)
  show "fullmatch TAG_RE (lit ''v1.2.3'')" by (rule tag)
  show "list_ex (\<lambda>p. fullmatch p (lit ''releases'')) API_GET" by (simp add: API_GET_def fullmatch_denotes)
  have "fullmatch (RSeq (r_lit ''releases/'') (RAlt (RSeq r_posint (r_opt (r_lit ''/assets''))) (RSeq (r_lit ''assets/'') r_posint)))
      (lit ''releases/9/assets'')" by code_simp
  then show "list_ex (\<lambda>p. fullmatch p (lit ''releases/9/assets'')) API_GET" by (simp add: API_GET_def)
qed

lemma one_parts:
  "list_all (\<lambda>part. part \<noteq> lit ''.'' \<and> part \<noteq> lit ''..'') (split_on 47 (unquote (lit ''git/ref/tags/v1.2.3'')))"
  "list_all (\<lambda>part. part \<noteq> lit ''.'' \<and> part \<noteq> lit ''..'') (split_on 47 (unquote (lit ''releases/tags/v1.2.3'')))"
  "list_all (\<lambda>part. part \<noteq> lit ''.'' \<and> part \<noteq> lit ''..'') (split_on 47 (unquote (lit ''releases'')))"
  "list_all (\<lambda>part. part \<noteq> lit ''.'' \<and> part \<noteq> lit ''..'') (split_on 47 (unquote (lit ''releases/9/assets'')))"
  by (simp_all add: unquote_def lit_def hex_val_def is_digit_def utf8_step_def)

lemma request_read:
  assumes "list_ex (\<lambda>p. fullmatch p path) API_GET"
    "list_all (\<lambda>part. part \<noteq> lit ''.'' \<and> part \<noteq> lit ''..'') (split_on 47 (unquote path))"
    and mode: "mode \<in> {''json'', ''pages''}" "\<not> endswith path (lit ''/zip'')"
    and env: "gh_env gh h (api_command gh path ''GET'' None mode) = Completed p"
    and ans: "completed_read (gh_codec gh) p (mode = ''pages'') False = r" "r \<noteq> Inr None"
  shows "request gh path ''GET'' None mode h
     = (bind_r r (\<lambda>body. Inr (the body)), h @ [api_command gh path ''GET'' None mode])"
proof -
  let ?c = "api_command gh path ''GET'' None mode"
  obtain t where "endpoint_of gh path mode = 114 # t" using endpoint_start by blast
  then have "endpoint_of gh path mode \<notin> {lit ''--method'', lit ''--input''}" by (simp add: lit_def)
  moreover have "read_attempts (gh_env gh) (gh_codec gh) ?c (mode = ''pages'') API_READ_ATTEMPTS h
      = (bind_r r (\<lambda>body. Inr (the body)), h @ [?c])"
    using env ans by (cases r) (auto simp: API_READ_ATTEMPTS_def numeral_3_eq_3)
  moreover have "?c = (fst ?c, None)" by (simp add: api_command_def)
  ultimately show ?thesis
    using assms(1-4)
    by (auto simp: request_def gh_require_eq API_PATHS_def perform_def read_get_def api_command_def mode_arguments_def
        eq_commute [of "lit ''--input''"])
qed

lemma one_completed:
  "completed_read one_codec (reply ''200'' 0 k) False False = Inr (Some [k])"
  "completed_read one_codec (reply ''404'' 1 k) False False = Inl (GitHubError True)"
proof -
  show "completed_read one_codec (reply ''200'' 0 k) False False = Inr (Some [k])"
    by (simp add: completed_read_def http_response_single reply_def reply_head response_def)
  have "\<not> transient_read_failure (reply ''404'' 1 k)"
    by (simp add: transient_read_failure_def reply_def eof_text_def TRANSPORT_def) code_simp
  then show "completed_read one_codec (reply ''404'' 1 k) False False = Inl (GitHubError True)"
    by (simp add: completed_read_def http_response_single) (simp add: reply_def reply_head response_def)
qed

lemma one_pages_completed:
  "completed_read one_codec (reply ''200'' 0 51) True False = Inr (Some [54, 10])"
  "completed_read one_codec (reply ''200'' 0 52) True False = Inr (Some [55, 10])"
proof -
  have "http_pages (jc_loads one_codec) (jc_raw_decode one_codec) 200 [51] [] = Inr (200, Some [JList []])"
    "http_pages (jc_loads one_codec) (jc_raw_decode one_codec) 200 [52] [] = Inr (200, Some [JList [JObj one_asset]])"
    by (subst http_pages.simps, simp add: one_codec_def blanks_def parse_json_def one_asset_def)+
  then show "completed_read one_codec (reply ''200'' 0 51) True False = Inr (Some [54, 10])"
    "completed_read one_codec (reply ''200'' 0 52) True False = Inr (Some [55, 10])"
    by (simp_all add: completed_read_def http_response_def github_http_response_def reply_def reply_head json_lines_def response_def)
      (simp_all add: one_codec_def)
qed

lemma one_endpoints:
  "endpoint_of one_github (lit ''git/ref/tags/v1.2.3'') ''json'' = lit ''repos/o/r/git/ref/tags/v1.2.3''"
  "endpoint_of one_github (lit ''releases/tags/v1.2.3'') ''json'' = lit ''repos/o/r/releases/tags/v1.2.3''"
  "endpoint_of one_github (lit ''releases'') ''pages'' = lit ''repos/o/r/releases?per_page=100''"
  "endpoint_of one_github (lit ''releases/9/assets'') ''pages'' = lit ''repos/o/r/releases/9/assets?per_page=100''"
  by (simp_all add: endpoint_of_def rstrip_char_def lit_def endswith_def startswith_def)

lemma one_zip:
  "\<not> endswith (lit ''git/ref/tags/v1.2.3'') (lit ''/zip'')" "\<not> endswith (lit ''releases/tags/v1.2.3'') (lit ''/zip'')"
  "\<not> endswith (lit ''releases'') (lit ''/zip'')" "\<not> endswith (lit ''releases/9/assets'') (lit ''/zip'')"
  by (simp_all add: endswith_def startswith_def lit_def)

lemma one_answers:
  "length h < 3 \<Longrightarrow> one_env h (api_command one_github (lit ''git/ref/tags/v1.2.3'') ''GET'' None ''json'') = Completed (reply ''404'' 1 56)"
  "length h < 3 \<Longrightarrow> one_env h (api_command one_github (lit ''releases/tags/v1.2.3'') ''GET'' None ''json'') = Completed (reply ''404'' 1 56)"
  "3 \<le> length h \<Longrightarrow> one_env h (api_command one_github (lit ''git/ref/tags/v1.2.3'') ''GET'' None ''json'') = Completed (reply ''200'' 0 49)"
  "one_env h (api_command one_github (lit ''releases'') ''GET'' None ''pages'') = Completed (reply ''200'' 0 51)"
  "one_env h (api_command one_github (lit ''releases/9/assets'') ''GET'' None ''pages'') = Completed (reply ''200'' 0 52)"
  by (simp_all add: one_env_def) (simp_all add: api_command_def mode_arguments_def one_endpoints)

lemma one_requests:
  "length h < 3 \<Longrightarrow> request one_github (lit ''git/ref/tags/v1.2.3'') ''GET'' None ''json'' h
     = (Inl (GitHubError True), h @ [api_command one_github (lit ''git/ref/tags/v1.2.3'') ''GET'' None ''json''])"
  "length h < 3 \<Longrightarrow> request one_github (lit ''releases/tags/v1.2.3'') ''GET'' None ''json'' h
     = (Inl (GitHubError True), h @ [api_command one_github (lit ''releases/tags/v1.2.3'') ''GET'' None ''json''])"
  "3 \<le> length h \<Longrightarrow> request one_github (lit ''git/ref/tags/v1.2.3'') ''GET'' None ''json'' h
     = (Inr [49], h @ [api_command one_github (lit ''git/ref/tags/v1.2.3'') ''GET'' None ''json''])"
  "request one_github (lit ''releases'') ''GET'' None ''pages'' h
     = (Inr [54, 10], h @ [api_command one_github (lit ''releases'') ''GET'' None ''pages''])"
  "request one_github (lit ''releases/9/assets'') ''GET'' None ''pages'' h
     = (Inr [55, 10], h @ [api_command one_github (lit ''releases/9/assets'') ''GET'' None ''pages''])"
  using request_read [OF one_routes(1) one_parts(1) _ one_zip(1), of "''json''" one_github h "reply ''404'' 1 56" "Inl (GitHubError True)"]
    request_read [OF one_routes(2) one_parts(2) _ one_zip(2), of "''json''" one_github h "reply ''404'' 1 56" "Inl (GitHubError True)"]
    request_read [OF one_routes(1) one_parts(1) _ one_zip(1), of "''json''" one_github h "reply ''200'' 0 49" "Inr (Some [49])"]
    request_read [OF one_routes(3) one_parts(3) _ one_zip(3), of "''pages''" one_github h "reply ''200'' 0 51" "Inr (Some [54, 10])"]
    request_read [OF one_routes(4) one_parts(4) _ one_zip(4), of "''pages''" one_github h "reply ''200'' 0 52" "Inr (Some [55, 10])"]
  by (simp_all add: one_answers one_completed one_pages_completed)

lemma one_reads:
  "length h < 3 \<Longrightarrow> optional one_github (lit ''git/ref/tags/v1.2.3'') h
     = (Inr JNull, h @ [api_command one_github (lit ''git/ref/tags/v1.2.3'') ''GET'' None ''json''])"
  "length h < 3 \<Longrightarrow> optional one_github (lit ''releases/tags/v1.2.3'') h
     = (Inr JNull, h @ [api_command one_github (lit ''releases/tags/v1.2.3'') ''GET'' None ''json''])"
  "3 \<le> length h \<Longrightarrow> gh_get one_github (lit ''git/ref/tags/v1.2.3'') h
     = (Inr (JObj one_ref), h @ [api_command one_github (lit ''git/ref/tags/v1.2.3'') ''GET'' None ''json''])"
  "pages one_github (lit ''releases'') None h = (Inr [], h @ [api_command one_github (lit ''releases'') ''GET'' None ''pages''])"
  "pages one_github (lit ''releases/9/assets'') None h
     = (Inr [JObj one_asset], h @ [api_command one_github (lit ''releases/9/assets'') ''GET'' None ''pages''])"
  by (simp_all add: optional_def api_def pages_def gh_bind_def gh_lift_def one_requests)
    (simp_all add: parse_json_def one_codec_def one_asset_def one_ref_def page_values_def bstrip_ws_def)

lemma one_write:
  assumes "http_method \<in> {''POST'', ''PATCH''}"
    and "list_ex (\<lambda>p. fullmatch p path) (the (API_PATHS http_method))"
    and "list_all (\<lambda>part. part \<noteq> lit ''.'' \<and> part \<noteq> lit ''..'') (split_on 47 (unquote path))"
  shows "api one_github path http_method (Some (JObj d)) h
     = (Inr (JObj (if http_method = ''POST'' then one_draft else one_public)),
        h @ [api_command one_github path http_method (Some (JObj d)) ''json''])"
proof -
  let ?c = "api_command one_github path http_method (Some (JObj d)) ''json''"
  have "lit ''Content-Type: application/octet-stream'' \<notin> set (fst ?c)"
  proof -
    obtain t where "endpoint_of one_github path ''json'' = 114 # t" using endpoint_start by blast
    then show ?thesis using assms(1) by (auto simp: api_command_def mode_arguments_def) (simp_all add: lit_def)
  qed
  with assms(1) have "one_env h ?c = Completed (reply ''200'' 0 (if http_method = ''POST'' then 50 else 57))"
    by (auto simp: one_env_def)
  with assms show ?thesis
    by (auto simp: api_def request_def gh_require_eq API_PATHS_def mode_arguments_def is_obj_def perform_def gh_bind_def
        run_command_def gh_lift_def http_response_single reply_def reply_head response_def bstrip_ws_def parse_json_def
        one_codec_def one_draft_def one_public_def)
qed

lemma one_posts:
  "api one_github (lit ''git/refs'') ''POST'' (Some (JObj d)) h
     = (Inr (JObj one_draft), h @ [api_command one_github (lit ''git/refs'') ''POST'' (Some (JObj d)) ''json''])"
  "api one_github (lit ''releases'') ''POST'' (Some (JObj d)) h
     = (Inr (JObj one_draft), h @ [api_command one_github (lit ''releases'') ''POST'' (Some (JObj d)) ''json''])"
  "api one_github (lit ''releases/9'') ''PATCH'' (Some (JObj d)) h
     = (Inr (JObj one_public), h @ [api_command one_github (lit ''releases/9'') ''PATCH'' (Some (JObj d)) ''json''])"
proof -
  have r: "fullmatch (RSeq (r_lit ''releases/'') r_posint) (lit ''releases/9'')" by code_simp
  have u: "list_all (\<lambda>part. part \<noteq> lit ''.'' \<and> part \<noteq> lit ''..'') (split_on 47 (unquote (lit ''git/refs'')))"
    "list_all (\<lambda>part. part \<noteq> lit ''.'' \<and> part \<noteq> lit ''..'') (split_on 47 (unquote (lit ''releases'')))"
    "list_all (\<lambda>part. part \<noteq> lit ''.'' \<and> part \<noteq> lit ''..'') (split_on 47 (unquote (lit ''releases/9'')))"
    by (simp_all add: unquote_def lit_def hex_val_def is_digit_def utf8_step_def)
  show "api one_github (lit ''git/refs'') ''POST'' (Some (JObj d)) h
     = (Inr (JObj one_draft), h @ [api_command one_github (lit ''git/refs'') ''POST'' (Some (JObj d)) ''json''])"
    "api one_github (lit ''releases'') ''POST'' (Some (JObj d)) h
     = (Inr (JObj one_draft), h @ [api_command one_github (lit ''releases'') ''POST'' (Some (JObj d)) ''json''])"
    using one_write [of "''POST''" _ d h, OF _ _ u(1)] one_write [of "''POST''" _ d h, OF _ _ u(2)]
    by (simp_all add: API_PATHS_def fullmatch_denotes)
  show "api one_github (lit ''releases/9'') ''PATCH'' (Some (JObj d)) h
     = (Inr (JObj one_public), h @ [api_command one_github (lit ''releases/9'') ''PATCH'' (Some (JObj d)) ''json''])"
    using one_write [of "''PATCH''" _ d h, OF _ _ u(3)] r by (simp add: API_PATHS_def)
qed

lemma one_name: "fullmatch NAME_RE [97]"
  using sample_name by (auto simp: asset_name_def dict_get_def lit_def split: if_splits)

lemma one_upload:
  "\<exists>h'. upload one_github (lit ''v1.2.3'') one_staging 9 (lit ''a'', [65]) h = (Inr (), h @ [h'])"
proof -
  let ?c = "upload_command one_github one_staging 9 (lit ''a'')"
  have pos: "positive (JInt 9) = Inr 9" "positive (JInt 8) = Inr 8" by code_simp+
  have guards: "startswith (staged_path one_staging (lit ''a'')) [47]" "private_staging one_staging (lit ''a'')"
    by (simp_all add: staged_path_def private_staging_def one_staging_def lit_def startswith_def)
  have "one_env h ?c = Completed (reply ''201'' 0 53)"
    by (simp add: one_env_def command_method_def upload_command_def)
  moreover have "upload_result one_github (lit ''a'', [65]) (Completed (reply ''201'' 0 53)) = Inr ()"
    by (simp add: upload_result_def http_response_single reply_def reply_head response_def parse_json_def one_codec_def)
      (simp add: one_asset_def dict_get_def pos)
  ultimately have "upload one_github (lit ''v1.2.3'') one_staging 9 (lit ''a'', [65]) h = (Inr (), h @ [?c])"
    using guards one_routes(5) one_name
    by (simp add: upload_def gh_require_eq gh_bind_def gh_lift_def run_command_def pos) (simp add: lit_def)
  then show ?thesis by blast
qed

lemma one_download: "\<exists>h'. download_asset one_github (JInt 8) h = (Inr [65], h @ [h'])"
proof -
  let ?c = "download_command one_github (asset_path 8)"
  have pos: "positive (JInt 8) = Inr 8" by code_simp
  have path: "fullmatch (RSeq (r_lit ''releases/assets/'') r_posint) (asset_path 8)" by code_simp
  have "one_env h ?c = Completed \<lparr>returncode = 0, stdout = [65], stderr = []\<rparr>"
    by (simp add: one_env_def command_method_def download_command_def)
  then have "download_asset one_github (JInt 8) h = (Inr [65], h @ [?c])"
    using path by (simp add: download_asset_def gh_download_def gh_require_eq gh_bind_def gh_lift_def run_command_def pos response_def)
  then show ?thesis by blast
qed

lemma one_publication:
  "\<exists>h'. publish_prepared (\<lambda>_. []) sample_sha one_github True (lit ''v1.2.3'') (replicate 40 48) one_staging False [] []
       = (Inr one_public, h') \<and> publishing h' \<noteq> []"
proof -
  have quote: "quote (lit ''v1.2.3'') = Inr (lit ''v1.2.3'')" by code_simp
  have absent: "ensure_absent one_github (lit ''v1.2.3'') [] = (Inr (), [h1, h2, h3])"
    if "h1 = api_command one_github (lit ''git/ref/tags/v1.2.3'') ''GET'' None ''json''"
      "h2 = api_command one_github (lit ''releases/tags/v1.2.3'') ''GET'' None ''json''"
      "h3 = api_command one_github (lit ''releases'') ''GET'' None ''pages''" for h1 h2 h3
  proof -
    have p: "lit ''git/ref/tags/'' @ lit ''v1.2.3'' = lit ''git/ref/tags/v1.2.3''"
      "lit ''releases/tags/'' @ lit ''v1.2.3'' = lit ''releases/tags/v1.2.3''" by (simp_all add: lit_def)
    show ?thesis using that
      by (simp add: ensure_absent_def quote gh_bind_def gh_lift_def gh_require_eq p one_reads)
  qed
  obtain h3 where h3: "ensure_absent one_github (lit ''v1.2.3'') [] = (Inr (), h3)" "length h3 = 3"
    using absent by auto
  have draft: "positive (jget one_draft ''id'') = Inr 9" "jget one_draft ''draft'' = JBool True" "jget one_draft ''tag_name'' = JStr (lit ''v1.2.3'')"
    by (simp_all add: one_draft_def dict_get_def) code_simp
  have scope: "check_workflow_publication (\<lambda>_. []) one_github True (replicate 40 48) h = (Inr (), h)" for h
    by (simp add: check_workflow_publication_def gh_require_eq sample_hashes gh_lift_def)
  have verify: "\<exists>h'. verify_draft sample_sha one_github (lit ''v1.2.3'') (replicate 40 48) 9 (st_files one_staging) h = (Inr (), h')"
    if "3 \<le> length h" for h
  proof -
    have p: "lit ''releases/'' @ int_str 9 @ lit ''/assets'' = lit ''releases/9/assets''"
      "lit ''git/ref/tags/'' @ lit ''v1.2.3'' = lit ''git/ref/tags/v1.2.3''"
      by (simp_all add: lit_def int_str_def nat_digits.simps)
    have item: "jget one_asset ''id'' = JInt 8" "jget one_asset ''name'' = JStr (lit ''a'')"
      "jget one_asset ''state'' = JStr (lit ''uploaded'')" "jget one_asset ''size'' = JInt 1"
      by (simp_all add: one_asset_def dict_get_def)
    have ref: "jget one_ref ''ref'' = JStr (lit ''refs/tags/'' @ lit ''v1.2.3'')"
      "jget one_ref ''object'' = JObj [(lit ''type'', JStr (lit ''commit'')), (lit ''sha'', JStr (replicate 40 48))]"
      by (simp_all add: one_ref_def dict_get_def) (simp add: lit_def)
    have obj: "jget [(lit ''type'', x), (lit ''sha'', y)] ''type'' = x" "jget [(lit ''type'', x), (lit ''sha'', y)] ''sha'' = y" for x y
      by (simp_all add: dict_get_def)
    let ?h = "h @ [api_command one_github (lit ''releases/9/assets'') ''GET'' None ''pages'']"
    obtain c where c: "download_asset one_github (JInt 8) ?h = (Inr [65], ?h @ [c])" using one_download by blast
    have "inventory_matches [one_asset] [(lit ''a'', [65])] = Inr True"
      by (simp add: inventory_matches_def item hashable_def)
    then show ?thesis
      using that by (simp add: verify_draft_def gh_bind_def gh_lift_def gh_require_eq p one_reads as_dict_def one_staging_def
          verify_uploaded_asset_def item c check_tag_ref_def quote ref obj)
  qed
  have public: "make_public one_github (lit ''v1.2.3'') 9 False h
      = (Inr one_public, h @ [api_command one_github (lit ''releases/9'') ''PATCH'' (Some (publish_body False)) ''json''])" for h
  proof -
    have "lit ''releases/'' @ int_str 9 = lit ''releases/9''" by (simp add: lit_def int_str_def nat_digits.simps)
    moreover have "jget one_public ''draft'' = JBool False" "jget one_public ''tag_name'' = JStr (lit ''v1.2.3'')"
      "jget one_public ''prerelease'' = JBool False" by (simp_all add: one_public_def dict_get_def)
    ultimately show ?thesis
      by (simp add: make_public_def publish_body_def one_posts gh_bind_def gh_lift_def gh_require_eq as_dict_def)
  qed
  let ?ref = "JObj [(lit ''ref'', JStr (lit ''refs/tags/'' @ lit ''v1.2.3'')), (lit ''sha'', JStr (replicate 40 48))]"
  let ?draft = "create_payload (lit ''v1.2.3'') (replicate 40 48) False []"
  let ?h5 = "h3 @ [api_command one_github (lit ''git/refs'') ''POST'' (Some ?ref) ''json'',
      api_command one_github (lit ''releases'') ''POST'' (Some ?draft) ''json'']"
  obtain c where c: "upload one_github (lit ''v1.2.3'') one_staging 9 (lit ''a'', [65]) ?h5 = (Inr (), ?h5 @ [c])"
    using one_upload by blast
  obtain h7 where h7: "verify_draft sample_sha one_github (lit ''v1.2.3'') (replicate 40 48) 9 (st_files one_staging) (?h5 @ [c]) = (Inr (), h7)"
    using verify [of "?h5 @ [c]"] h3 by auto
  have files: "st_files one_staging = [(lit ''a'', [65])]" by (simp add: one_staging_def)
  have "publish_prepared (\<lambda>_. []) sample_sha one_github True (lit ''v1.2.3'') (replicate 40 48) one_staging False [] []
      = make_public one_github (lit ''v1.2.3'') 9 False h7"
    using h3 h7 c draft
    by (simp add: publish_prepared_def reject_restricted_assets_def ASSET_RESTRICTIONS_def files gh_bind_def gh_lift_def
        gh_require_eq scope one_posts create_payload_def as_dict_def)
  with public [of h7] show ?thesis by (auto simp: publishing_def)
qed


end
