(* ===== verification/Promotion.thy ===== *)
theory Promotion
  imports Publication Release_State
begin

text \<open>
  The two commands of \<open>scripts/release_control.py\<close> that publish: \<open>candidate\<close>, a prerelease from the run that
  is executing, and \<open>promote\<close>, the same bytes again under a stable tag. The clock, the environment, the
  checked-out commit, the archive reader and the temporary directory are arguments. Both can still be
  waiting for the executing run when the given clock readings are used up; their result is then \<open>None\<close>.
\<close>

section \<open>A candidate\<close>

text \<open>\<open>f"..."\<close> of a value.\<close>

definition format_text :: "pystr list \<Rightarrow> pystr" where
  "format_text parts = concat parts"

definition run_link :: "github \<Rightarrow> json \<Rightarrow> pystr" where
  "run_link gh run_id = lit ''https://github.com/'' @ gh_repo gh @ lit ''/actions/runs/'' @ py_str run_id"

definition candidate_manifest ::
  "json \<Rightarrow> pystr \<Rightarrow> string \<Rightarrow> pystr \<Rightarrow> pystr \<Rightarrow> json_dict \<Rightarrow> int \<Rightarrow> int \<Rightarrow> pystr \<Rightarrow> json list \<Rightarrow> json_dict" where
  "candidate_manifest repository base channel tag commit snapshot run_id attempt created assets =
     [(lit ''schema'', JInt 1), (lit ''repository'', repository), (lit ''version'', JStr base),
      (lit ''channel'', JStr (lit channel)), (lit ''tag'', JStr tag), (lit ''source_sha'', JStr commit),
      (lit ''source_policy'', JObj snapshot), (lit ''workflow_path'', JStr WORKFLOW), (lit ''run_id'', JInt run_id),
      (lit ''run_attempt'', JInt attempt), (lit ''created_at'', JStr created), (lit ''assets'', JList assets)]"

definition candidate_body :: "github \<Rightarrow> string \<Rightarrow> pystr \<Rightarrow> int \<Rightarrow> pystr" where
  "candidate_body gh channel commit run_id =
     format_text
       [lit channel, lit '' candidate from `'', commit, lit ''`.'', [10, 10], lit ''Validation: '', run_link gh (JInt run_id),
        [10, 10], lit ''See `'', lit MANIFEST, lit ''` for checksums and immutable Actions evidence provenance.'']"

definition evidence_path :: pystr where
  "evidence_path = lit EVIDENCE"

text \<open>The second half of \<open>candidate\<close>: everything from the free tag to the published prerelease.\<close>

definition publish_candidate ::
  "(nat \<Rightarrow> pystr) \<Rightarrow> sha256 \<Rightarrow> sha256 \<Rightarrow> github \<Rightarrow> bool \<Rightarrow> (pystr \<times> entry_kind) list option \<Rightarrow> staging
   \<Rightarrow> json_dict \<Rightarrow> json_dict \<Rightarrow> string \<Rightarrow> pystr \<Rightarrow> pystr \<Rightarrow> json_dict \<Rightarrow> int \<Rightarrow> int \<Rightarrow> json \<Rightarrow> pystr \<Rightarrow> pystr \<Rightarrow> json_dict gh" where
  "publish_candidate uni sha1 sha gh scope source st info run channel base commit snapshot run_id attempt sequence stamp created =
     gh_bind (candidate_tag gh (lit channel) base run_id attempt sequence stamp) (\<lambda>tag.
     gh_bind (gh_lift (stage_assets sha source)) (\<lambda>(assets, files).
     gh_bind (gh_lift (py_getitem (JObj info) (lit ''full_name''))) (\<lambda>repository.
     let content = json_lines (jc_dumps (gh_codec gh))
           (JObj (candidate_manifest repository base channel tag commit snapshot run_id attempt created assets));
         stage = st\<lparr>st_files := sort_entries ((lit MANIFEST, content) # files)\<rparr>
     in gh_bind (superseded_candidate uni gh info run channel) (\<lambda>superseded.
        case superseded of
          Some result \<Rightarrow> gh_lift (Inr result)
        | None \<Rightarrow>
            gh_bind (release_notes uni sha1 sha gh tag commit (candidate_body gh channel commit run_id)) (\<lambda>body.
            gh_bind (publish_prepared uni sha gh scope tag commit stage True body) (\<lambda>release.
            gh_bind (gh_lift (py_getitem (JObj release) (lit ''html_url''))) (\<lambda>url.
              gh_lift (Inr [(lit ''status'', JStr (lit ''published'')), (lit ''tag'', JStr tag), (lit ''release_url'', url),
                            (lit ''manifest_path'', JStr evidence_path)]))))))))"

definition candidate ::
  "(nat \<Rightarrow> pystr) \<Rightarrow> sha256 \<Rightarrow> sha256 \<Rightarrow> github \<Rightarrow> (string \<Rightarrow> pystr option) \<Rightarrow> proc \<Rightarrow> (pystr \<Rightarrow> bytes result) \<Rightarrow> bool
   \<Rightarrow> real \<Rightarrow> real list \<Rightarrow> (pystr \<times> entry_kind) list option \<Rightarrow> staging \<Rightarrow> pystr \<Rightarrow> pystr
   \<Rightarrow> string \<Rightarrow> pystr \<Rightarrow> pystr \<Rightarrow> json \<Rightarrow> json \<Rightarrow> json \<Rightarrow> json_dict option gh" where
  "candidate uni sha1 sha gh environ head read_file scope start readings source st stamp created
       channel version_arg commit run_arg attempt_arg sequence =
     gh_bind (gh_lift (version version_arg)) (\<lambda>base.
     gh_require (fullmatch SHA_RE commit) ''Source SHA must be a full lowercase 40-character commit SHA''
    (gh_bind (gh_lift (positive run_arg)) (\<lambda>run_id.
     gh_bind (gh_lift (positive attempt_arg)) (\<lambda>attempt.
     gh_bind (repository_info uni gh) (\<lambda>info.
     gh_bind (wait_for_executing_run uni gh environ head read_file run_id channel info commit attempt True start readings)
       (\<lambda>waited.
     case waited of
       None \<Rightarrow> gh_lift (Inr None)
     | Some run \<Rightarrow>
         gh_bind (source_policy_snapshot uni sha1 sha gh commit) (\<lambda>snapshot.
         gh_bind (gh_lift (require_release_policy uni (jget snapshot ''data'') (gh_repo gh) (channel = ''rc''))) (\<lambda>_.
         gh_bind (gh_lift (as_dict (jget snapshot ''data''))) (\<lambda>policy.
         gh_require (\<not> truthy (jget policy ''versioning''))
           ''Versioned policies require the frozen-plan publisher, not post-build allocation''
        (gh_bind (check_ancestry gh commit (branch_of info)) (\<lambda>_.
         gh_bind (superseded_candidate uni gh info run channel) (\<lambda>superseded.
         case superseded of
           Some result \<Rightarrow> gh_lift (Inr (Some result))
         | None \<Rightarrow>
             gh_bind (if channel \<in> {''beta'', ''rc''} then ensure_absent gh ([118] @ base) else gh_lift (Inr ())) (\<lambda>_.
             gh_bind (publish_candidate uni sha1 sha gh scope source st info run channel base commit snapshot run_id attempt
                        sequence stamp created) (\<lambda>result.
               gh_lift (Inr (Some result))))))))))))))))"

section \<open>The ledger through the plain client\<close>

text \<open>A promotion reads and writes the ledger with the client that retries reads.\<close>

definition promotion_state :: "sha256 \<Rightarrow> (real \<Rightarrow> pystr) \<Rightarrow> github \<Rightarrow> (json_dict \<times> pystr option) gh" where
  "promotion_state sha fr gh =
     gh_bind (optional gh READ_PATH) (\<lambda>content.
       if content = JNull
       then
         gh_bind (optional gh REF_PATH) (\<lambda>ref.
         gh_require (ref = JNull) ''Version ledger is missing from its existing branch; restore it from history''
           (gh_lift (Inr (empty_ledger, None))))
       else gh_lift (bind_r (as_dict content) (parse_ledger sha fr (jc_loads (gh_codec gh)))))"

definition promotion_order :: "sha256 \<Rightarrow> (real \<Rightarrow> pystr) \<Rightarrow> github \<Rightarrow> json \<Rightarrow> unit gh" where
  "promotion_order sha fr gh plan =
     gh_bind (promotion_state sha fr gh) (\<lambda>(state, _).
     gh_bind (check_promotion_order sha fr gh state plan) (\<lambda>_. gh_lift (Inr ())))"

definition begin_promotion :: "sha256 \<Rightarrow> (real \<Rightarrow> pystr) \<Rightarrow> github \<Rightarrow> json \<Rightarrow> int \<Rightarrow> unit gh" where
  "begin_promotion sha fr gh plan run_id =
     gh_bind (gh_lift (positive (JInt run_id))) (\<lambda>_.
     gh_bind (promotion_state sha fr gh) (\<lambda>(state, previous).
     gh_bind (check_promotion_order sha fr gh state plan) (\<lambda>n.
     gh_bind (api gh WRITE_PATH ''PUT'' (Some (JObj (write_body (jc_dumps (gh_codec gh)) (with_floor state n) previous))))
       (\<lambda>_. gh_lift (Inr ())))))"

section \<open>Promotion\<close>

definition PROMOTED_TAG :: rexp where
  "PROMOTED_TAG = r_seq [r_char 118, VERSION_PATTERN, r_lit ''-rc.'', r_posint]"

text \<open>\<open>v.get(k)\<close> of the nested policy declaration.\<close>

definition byte_promotion_disabled :: "json_dict \<Rightarrow> bool result" where
  "byte_promotion_disabled policy =
     bind_r (nested_get policy ''versioning'' ''promotion'') (\<lambda>p. Inr (p = JStr (lit ''final-build'')))"

text \<open>The manifest among the assets of the candidate, and its bytes.\<close>

definition candidate_manifest_bytes :: "github \<Rightarrow> json_dict list \<Rightarrow> bytes gh" where
  "candidate_manifest_bytes gh assets =
     (case filter (\<lambda>a. jget a ''name'' = JStr (lit MANIFEST)) assets of
        [asset] \<Rightarrow> gh_bind (gh_lift (positive (jget asset ''id''))) (\<lambda>i. binary gh (asset_path i))
      | _ \<Rightarrow> gh_lift (Inl (ReleaseError ''Candidate manifest is missing'')))"

text \<open>
  The attempt a manifest names. One that is kept as a string differs from every number the service reports.
\<close>

definition manifest_attempt :: "json_dict \<Rightarrow> int result" where
  "manifest_attempt manifest =
     (case jint (jget manifest ''run_attempt'') of
        Some a \<Rightarrow> Inr a
      | None \<Rightarrow> Inl (ReleaseError ''Source run was rerun; evidence is not from its latest attempt''))"

definition manifest_commit :: "json_dict \<Rightarrow> pystr" where
  "manifest_commit manifest = jstr_val (jget manifest ''source_sha'')"

text \<open>The run that built the candidate, read and checked before the transaction and again before its first write.\<close>

definition source_run ::
  "(nat \<Rightarrow> pystr) \<Rightarrow> github \<Rightarrow> json_dict \<Rightarrow> json_dict \<Rightarrow> json_dict \<Rightarrow> bool \<Rightarrow> json_dict gh" where
  "source_run uni gh info policy manifest first =
     gh_bind (gh_get gh (lit ''actions/runs/'' @ py_str (jget manifest ''run_id''))) (\<lambda>v.
     gh_bind (gh_lift (as_dict v)) (\<lambda>run.
     gh_bind (validate_validation_run gh run policy (lit ''rc'')) (\<lambda>_.
     gh_require (first \<longrightarrow> json_eq (jget run ''id'') (jget manifest ''run_id'')) ''Source run identity mismatch''
    (gh_bind (gh_lift (manifest_attempt manifest)) (\<lambda>attempt.
     gh_bind (validate_run uni gh run info (manifest_commit manifest) attempt True True) (\<lambda>_. gh_lift (Inr run)))))))"

text \<open>The entry of the manifest for an asset: the last one of that name, as in a dictionary display.\<close>

definition manifest_items :: "json_dict \<Rightarrow> json_dict list" where
  "manifest_items manifest =
     (case jget manifest ''assets'' of JList items \<Rightarrow> map (\<lambda>i. case i of JObj d \<Rightarrow> d | _ \<Rightarrow> []) items | _ \<Rightarrow> [])"

definition expected_item :: "json_dict \<Rightarrow> pystr \<Rightarrow> json_dict option" where
  "expected_item manifest name =
     map_of (rev (map (\<lambda>d. (jstr_val (jget d ''name''), d)) (manifest_items manifest))) name"

definition inventory_is_manifest :: "json_dict \<Rightarrow> json_dict list \<Rightarrow> bool" where
  "inventory_is_manifest manifest assets \<longleftrightarrow>
     (\<lambda>a. jstr_val (jget a ''name'')) ` set assets
       = (\<lambda>d. jstr_val (jget d ''name'')) ` set (manifest_items manifest) \<union> {lit MANIFEST}"

definition stage_asset :: "sha256 \<Rightarrow> github \<Rightarrow> json_dict \<Rightarrow> bytes \<Rightarrow> json_dict \<Rightarrow> staged gh" where
  "stage_asset sha gh manifest raw asset =
     (let name = jstr_val (jget asset ''name'')
      in gh_bind (if name = lit MANIFEST then gh_lift (Inr raw) else download_asset gh (jget asset ''id'')) (\<lambda>b.
         let found = stream_identity sha b
         in gh_require (json_eq (jget asset ''size'') (JInt (int (fst found)))) ''Release asset size mismatch''
           (gh_require
              (name \<noteq> lit MANIFEST \<longrightarrow>
                 (case expected_item manifest name of
                    Some item \<Rightarrow> json_eq (JInt (int (fst found))) (jget item ''size'') \<and> JStr (snd found) = jget item ''sha256''
                  | None \<Rightarrow> False))
              ''Candidate checksum mismatch'' (gh_lift (Inr (name, b))))))"

definition promotion_body :: "github \<Rightarrow> pystr \<Rightarrow> json \<Rightarrow> json_dict \<Rightarrow> int \<Rightarrow> pystr" where
  "promotion_body gh rc url manifest current_id =
     format_text
       [lit ''Promoted unchanged from ['', rc, lit ''](''  , py_str url, lit '').'', [10, 10],
        lit ''Source: `'', py_str (jget manifest ''source_sha''), lit ''`'', [10, 10],
        lit ''Validation: '', run_link gh (jget manifest ''run_id''), [10, 10],
        lit ''Promotion: '', run_link gh (JInt current_id), [10, 10],
        lit ''Assets and `'', lit MANIFEST, lit ''` are byte-for-byte copies of the verified release candidate.'']"

text \<open>The promotion in three parts. First: who runs it, and what the candidate is.\<close>

record accepted =
  ac_info :: json_dict
  ac_initial :: release_snapshot
  ac_raw :: bytes
  ac_manifest :: json_dict
  ac_policy :: json_dict

definition accept_candidate ::
  "(nat \<Rightarrow> pystr) \<Rightarrow> (nat \<times> nat) list \<Rightarrow> sha256 \<Rightarrow> sha256 \<Rightarrow> (real \<Rightarrow> pystr) \<Rightarrow> unzip \<Rightarrow> github \<Rightarrow> proc \<Rightarrow> bool
   \<Rightarrow> pystr \<Rightarrow> int \<Rightarrow> json_dict \<Rightarrow> accepted gh" where
  "accept_candidate uni uni_digits sha1 sha fr unzip gh head scope rc current_id info =
     gh_bind (require_reviewers gh) (\<lambda>_.
     gh_bind (release_snapshot gh rc) (\<lambda>initial.
     case initial of (ref, release, assets) \<Rightarrow>
     gh_bind (candidate_manifest_bytes gh assets) (\<lambda>raw.
     gh_bind (gh_lift (validate_manifest uni uni_digits sha fr (gh_codec gh) raw (gh_repo gh) rc False)) (\<lambda>manifest.
     gh_bind (source_policy_snapshot uni sha1 sha gh (manifest_commit manifest)) (\<lambda>snapshot.
     gh_bind (gh_lift (require_release_policy uni (jget snapshot ''data'') (gh_repo gh) True)) (\<lambda>_.
     gh_bind (gh_lift (as_dict (jget snapshot ''data''))) (\<lambda>policy.
     gh_bind (gh_lift (checked_out_sha head)) (\<lambda>current_sha.
     gh_bind (require_current_fuzzing uni sha1 sha gh policy current_sha) (\<lambda>_.
     gh_bind (gh_lift (byte_promotion_disabled policy)) (\<lambda>final.
     gh_require (\<not> final) ''This RC requires a separately validated final build; byte promotion is disabled''
    (gh_bind (if truthy (jget manifest ''version_plan'') then promotion_order sha fr gh (jget manifest ''version_plan'')
              else gh_lift (Inr ())) (\<lambda>_.
     gh_require (json_eq (JObj snapshot) (jget manifest ''source_policy''))
       ''Manifest policy snapshot differs from the policy at the candidate source commit''
    (gh_bind (gh_lift (bind_r (as_dict ref) (\<lambda>r. nested_get r ''object'' ''sha''))) (\<lambda>tagged.
     gh_require (tagged = jget manifest ''source_sha'') ''Candidate tag SHA differs from manifest''
    (gh_require (\<not> json_eq (jget manifest ''run_id'') (JInt current_id)) ''Candidate and promotion must use separate runs''
    (gh_bind (source_run uni gh info policy manifest True) (\<lambda>run.
     gh_require (jget run ''event'' = JStr (lit ''workflow_dispatch'')) ''RC must originate from a manual workflow dispatch''
    (gh_bind (check_ancestry gh (manifest_commit manifest) (branch_of info)) (\<lambda>_.
     gh_bind (verify_evidence sha unzip gh manifest raw) (\<lambda>_.
     gh_bind (ensure_absent gh ([118] @ jstr_val (jget manifest ''version''))) (\<lambda>_.
     gh_require (inventory_is_manifest manifest assets) ''Candidate assets differ from manifest inventory''
    (gh_bind (check_workflow_publication uni gh scope (manifest_commit manifest)) (\<lambda>_.
       gh_lift (Inr \<lparr>ac_info = info, ac_initial = initial, ac_raw = raw, ac_manifest = manifest, ac_policy = policy\<rparr>))))))))))))))))))))))))"

text \<open>Second: the bytes, and that nothing moved while they were read.\<close>

definition stage_candidate :: "sha256 \<Rightarrow> github \<Rightarrow> pystr \<Rightarrow> accepted \<Rightarrow> staged list gh" where
  "stage_candidate sha gh rc a =
     gh_bind (gh_map (stage_asset sha gh (ac_manifest a) (ac_raw a)) (snd (snd (ac_initial a)))) (\<lambda>files.
     gh_bind (release_snapshot gh rc) (\<lambda>latest.
     gh_bind (gh_lift (snapshot_identity (jc_dumps (gh_codec gh)) latest)) (\<lambda>now.
     gh_bind (gh_lift (snapshot_identity (jc_dumps (gh_codec gh)) (ac_initial a))) (\<lambda>before.
     gh_require (now = before) ''Candidate changed during verification'' (gh_lift (Inr (sort_entries files)))))))"

text \<open>Third: authorization and provenance once more, the ledger, and the transaction.\<close>

definition publish_promotion ::
  "(nat \<Rightarrow> pystr) \<Rightarrow> sha256 \<Rightarrow> sha256 \<Rightarrow> (real \<Rightarrow> pystr) \<Rightarrow> github \<Rightarrow> bool \<Rightarrow> staging \<Rightarrow> pystr \<Rightarrow> int \<Rightarrow> accepted
   \<Rightarrow> staged list \<Rightarrow> json_dict gh" where
  "publish_promotion uni sha1 sha fr gh scope st rc current_id a files =
     (let manifest = ac_manifest a;
          commit = manifest_commit manifest;
          tag = [118] @ jstr_val (jget manifest ''version'')
      in gh_bind (source_run uni gh (ac_info a) (ac_policy a) manifest False) (\<lambda>_.
         gh_bind (require_reviewers gh) (\<lambda>_.
         gh_bind (check_workflow_publication uni gh scope commit) (\<lambda>_.
         gh_bind (gh_lift (py_getitem (JObj (fst (snd (ac_initial a)))) (lit ''html_url''))) (\<lambda>url.
         gh_bind (release_notes uni sha1 sha gh tag commit (promotion_body gh rc url manifest current_id)) (\<lambda>body.
         gh_bind
           (if truthy (jget manifest ''version_plan'')
            then gh_bind (promotion_order sha fr gh (jget manifest ''version_plan'')) (\<lambda>_.
                   begin_promotion sha fr gh (jget manifest ''version_plan'') current_id)
            else gh_lift (Inr ())) (\<lambda>_.
         gh_bind (publish_prepared uni sha gh scope tag commit (st\<lparr>st_files := files\<rparr>) False body) (\<lambda>release.
         gh_bind (gh_lift (py_getitem (JObj release) (lit ''html_url''))) (\<lambda>published.
           gh_lift (Inr [(lit ''tag'', JStr tag), (lit ''release_url'', published)]))))))))))"

definition promote ::
  "(nat \<Rightarrow> pystr) \<Rightarrow> (nat \<times> nat) list \<Rightarrow> sha256 \<Rightarrow> sha256 \<Rightarrow> (real \<Rightarrow> pystr) \<Rightarrow> unzip \<Rightarrow> github
   \<Rightarrow> (string \<Rightarrow> pystr option) \<Rightarrow> proc \<Rightarrow> (pystr \<Rightarrow> bytes result) \<Rightarrow> bool \<Rightarrow> real \<Rightarrow> real list \<Rightarrow> staging
   \<Rightarrow> pystr \<Rightarrow> json \<Rightarrow> json_dict option gh" where
  "promote uni uni_digits sha1 sha fr unzip gh environ head read_file scope start readings st rc run_arg =
     gh_require (fullmatch PROMOTED_TAG rc) ''Promotion requires a strict vX.Y.Z-rc.N tag''
    (gh_bind (gh_lift (positive run_arg)) (\<lambda>current_id.
     gh_bind (repository_info uni gh) (\<lambda>info.
     gh_bind (gh_lift (checked_out_sha head)) (\<lambda>commit.
     gh_bind (gh_lift (positive (env_json environ ''GITHUB_RUN_ATTEMPT''))) (\<lambda>attempt.
     gh_bind (wait_for_executing_run uni gh environ head read_file current_id ''stable'' info commit attempt False start readings)
       (\<lambda>waited.
     case waited of
       None \<Rightarrow> gh_lift (Inr None)
     | Some _ \<Rightarrow>
         gh_bind (accept_candidate uni uni_digits sha1 sha fr unzip gh head scope rc current_id info) (\<lambda>a.
         gh_bind (stage_candidate sha gh rc a) (\<lambda>files.
         gh_bind (publish_promotion uni sha1 sha fr gh scope st rc current_id a files) (\<lambda>result.
           gh_lift (Inr (Some result)))))))))))"


section \<open>Commands that publish nothing\<close>

lemma quiet_if [quiet_intros]: "(c \<Longrightarrow> quiet m) \<Longrightarrow> (\<not> c \<Longrightarrow> quiet m') \<Longrightarrow> quiet (if c then m else m')"
  by simp

lemma quiet_get [quiet_intros]: "quiet (gh_get gh path)"
  by (rule quiet_api) simp

lemma quiet_ancestry [quiet_intros]: "quiet (check_ancestry gh sha branch)"
  unfolding check_ancestry_def by (intro quiet_intros)

lemma quiet_attempt_jobs [quiet_intros]: "quiet (require_current_attempt_jobs gh run_id sha attempt jobs)"
  unfolding require_current_attempt_jobs_def by (auto intro!: quiet_intros)

lemma quiet_gate [quiet_intros]: "quiet (release_gate_ready gh run_id sha attempt allow_pending)"
  unfolding release_gate_ready_def by (auto intro!: quiet_intros simp: Let_def)

lemma quiet_validate_run [quiet_intros]: "quiet (validate_run uni gh run info sha attempt completed gate)"
  unfolding validate_run_def by (auto intro!: quiet_intros)

lemma quiet_policy [quiet_intros]: "quiet (source_policy_snapshot uni sha1 sha gh commit)"
  unfolding source_policy_snapshot_def by (intro quiet_intros)

lemma quiet_fuzzing [quiet_intros]: "quiet (require_current_fuzzing uni sha1 sha gh policy commit)"
  unfolding require_current_fuzzing_def by (auto intro!: quiet_intros)

lemma quiet_validation [quiet_intros]: "quiet (validate_validation_run gh run policy channel)"
  unfolding validate_validation_run_def run_jobs_def by (auto intro!: quiet_intros)

lemma quiet_notes [quiet_intros]: "quiet (release_notes uni sha1 sha gh tag commit body)"
  unfolding release_notes_def by (auto intro!: quiet_intros)

lemma quiet_snapshot [quiet_intros]: "quiet (release_snapshot gh tag)"
  unfolding release_snapshot_def by (intro quiet_intros)

lemma quiet_evidence [quiet_intros]: "quiet (verify_evidence sha unzip gh manifest raw)"
  unfolding verify_evidence_def Let_def by (intro quiet_intros)

lemma quiet_reviewers [quiet_intros]: "quiet (require_reviewers gh)"
  unfolding require_reviewers_def by (intro quiet_intros)

lemma quiet_successor [quiet_intros]: "quiet (superseded_candidate uni gh info run channel)"
  unfolding superseded_candidate_def accept_successor_def
  by (auto intro!: quiet_intros split: option.splits json.splits)

lemma quiet_candidate_tag [quiet_intros]: "quiet (candidate_tag gh channel base run_id attempt sequence stamp)"
  unfolding candidate_tag_def next_sequence_def by (auto intro!: quiet_intros simp: Let_def)

lemma quiet_wait [quiet_intros]:
  "quiet (wait_for_executing_run uni gh environ head read_file run_id channel info sha attempt gate start readings)"
proof -
  have "quiet (wait_polls uni gh environ head read_file run_id channel info sha attempt gate deadline readings)" for deadline
    by (induction readings) (auto intro!: quiet_intros)
  then show ?thesis by (simp add: wait_for_executing_run_def)
qed

lemma quiet_order [quiet_intros]: "quiet (check_promotion_order sha fr gh state plan)"
  unfolding check_promotion_order_def by (intro quiet_intros)

lemma quiet_promotion_state [quiet_intros]: "quiet (promotion_state sha fr gh)"
  unfolding promotion_state_def by (auto intro!: quiet_intros)

lemma quiet_promotion_order [quiet_intros]: "quiet (promotion_order sha fr gh plan)"
  unfolding promotion_order_def by (auto intro!: quiet_intros split: prod.splits)

lemma quiet_begin_promotion [quiet_intros]: "quiet (begin_promotion sha fr gh plan run_id)"
  unfolding begin_promotion_def by (auto intro!: quiet_intros split: prod.splits)

lemma quiet_source_run [quiet_intros]: "quiet (source_run uni gh info policy manifest first)"
  unfolding source_run_def by (intro quiet_intros)

lemma quiet_manifest_bytes [quiet_intros]: "quiet (candidate_manifest_bytes gh assets)"
  unfolding candidate_manifest_bytes_def by (auto intro!: quiet_intros split: list.splits)

lemma quiet_accept [quiet_intros]:
  "quiet (accept_candidate uni uni_digits sha1 sha fr unzip gh head scope rc current_id info)"
  unfolding accept_candidate_def by (auto intro!: quiet_intros split: prod.splits)

lemma quiet_stage [quiet_intros]: "quiet (stage_candidate sha gh rc a)"
  unfolding stage_candidate_def stage_asset_def Let_def by (auto intro!: quiet_intros)


section \<open>What a publication has established\<close>

text \<open>
  A run that was waited for is in progress, carries the checked provenance and, unless the gate is not asked
  for, has passed it.
\<close>

definition ready_run ::
  "(nat \<Rightarrow> pystr) \<Rightarrow> github \<Rightarrow> int \<Rightarrow> json_dict \<Rightarrow> pystr \<Rightarrow> int \<Rightarrow> bool \<Rightarrow> json_dict \<Rightarrow> bool" where
  "ready_run uni gh run_id info sha attempt gate run \<longleftrightarrow>
     json_eq (jget run ''id'') (JInt run_id) \<and> jget run ''status'' = JStr (lit ''in_progress'')
     \<and> validate_run_provenance uni gh run info sha attempt = Inr ()
     \<and> \<not> (gate \<and> (\<nexists>h h'. release_gate_ready gh run_id sha attempt True h = (Inr True, h')))"

lemma waited_run:
  assumes "wait_for_executing_run uni gh environ head read_file run_id channel info sha attempt gate start readings h
    = (Inr (Some run), h')"
  shows "ready_run uni gh run_id info sha attempt gate run"
proof -
  have "wait_polls uni gh environ head read_file run_id channel info sha attempt gate deadline readings h = (Inr (Some run), h')
      \<Longrightarrow> ready_run uni gh run_id info sha attempt gate run" for deadline h
  proof (induction readings arbitrary: h)
    case (Cons t ts)
    from Cons.prems have "ready_run uni gh run_id info sha attempt gate run
      \<or> (\<exists>h1. wait_polls uni gh environ head read_file run_id channel info sha attempt gate deadline ts h1 = (Inr (Some run), h'))"
      unfolding ready_run_def by (auto simp: gh_success split: if_splits)
    with Cons.IH show ?case by blast
  qed (simp add: gh_lift_def)
  with assms show ?thesis unfolding wait_for_executing_run_def by blast
qed

text \<open>The assets a manifest lists for staged files.\<close>

definition describes :: "sha256 \<Rightarrow> json \<Rightarrow> staged \<Rightarrow> bool" where
  "describes sha v f \<longleftrightarrow>
     v = JObj [(lit ''name'', JStr (fst f)), (lit ''size'', JInt (int (length (snd f)))), (lit ''sha256'', JStr (sha (snd f)))]"

lemma stage_entries_describe:
  "stage_entries sha folded es = Inr (assets, files) \<Longrightarrow> list_all2 (describes sha) assets files
     \<and> alower (lit MANIFEST) \<notin> (\<lambda>f. alower (fst f)) ` set files
     \<and> distinct (map (\<lambda>f. alower (fst f)) files) \<and> (\<forall>f\<in>set files. alower (fst f) \<notin> set folded)"
proof (induction sha folded es arbitrary: assets files rule: stage_entries.induct)
  case (2 sha folded name kind es)
  from 2(2) obtain b as fs where k: "kind = RegularFile b" "stage_entries sha (alower name # folded) es = Inr (as, fs)"
    "fullmatch NAME_RE name" "alower name \<noteq> alower (lit MANIFEST)" "alower name \<notin> set folded"
    "assets = JObj [(lit ''name'', JStr name), (lit ''size'', JInt (int (length b))), (lit ''sha256'', JStr (sha b))] # as"
    "files = (name, b) # fs"
    by (auto simp: bind_r_Inr_iff guard_r_Inr_iff stream_identity_def Let_def split: entry_kind.splits prod.splits)
  from 2(1) [OF k(1) k(2)] k(3-) show ?case by (auto simp: describes_def)
qed simp

text \<open>The files that a candidate publishes: what was staged, and the manifest that describes it.\<close>

definition candidate_files ::
  "sha256 \<Rightarrow> github \<Rightarrow> json_dict \<Rightarrow> json list \<Rightarrow> staged list \<Rightarrow> staged list \<Rightarrow> bool" where
  "candidate_files sha gh manifest assets files published \<longleftrightarrow>
     list_all2 (describes sha) assets files \<and> assets \<noteq> [] \<and> jget manifest ''assets'' = JList assets
     \<and> distinct (map fst published)
     \<and> set published = insert (lit MANIFEST, json_lines (jc_dumps (gh_codec gh)) (JObj manifest)) (set files)"

lemma stage_assets_files:
  assumes "stage_assets sha source = Inr (assets, files)"
  shows "list_all2 (describes sha) assets files \<and> assets \<noteq> [] \<and> distinct (map fst ((lit MANIFEST, content) # files))"
proof -
  from assms have "list_all2 (describes sha) assets files \<and> assets \<noteq> []
      \<and> distinct (map alower (map fst ((lit MANIFEST, content) # files)))"
    by (auto simp: stage_assets_def gh_success Let_def guard_r_Inr_iff comp_def split: option.splits
        dest!: stage_entries_describe)
  then show ?thesis using distinct_map [of alower] by blast
qed

lemma snd_then_lift: "snd (gh_bind m (\<lambda>x. gh_lift (f x)) h) = snd (m h)"
  by (simp add: gh_bind_def gh_lift_def split: prod.splits sum.splits)

lemma snd_then_lift2: "snd (gh_bind m (\<lambda>x. gh_bind (gh_lift (f x)) (\<lambda>y. gh_lift (g x y))) h) = snd (m h)"
  by (simp add: gh_bind_def gh_lift_def split: prod.splits sum.splits)

lemma getitem_jget: "py_getitem (JObj d) (lit k) = Inr v \<Longrightarrow> v = jget d k"
  by (auto simp: py_getitem_def dict_get_def split: option.splits)

text \<open>
  What holds of the history when an action has published something. The rules follow the action step by step
  and hand on what each quiet step has returned.
\<close>

definition public_only :: "'a gh \<Rightarrow> command list \<Rightarrow> (command list \<Rightarrow> bool) \<Rightarrow> bool" where
  "public_only m h Q \<longleftrightarrow> publishing (snd (m h)) = publishing h \<or> Q (snd (m h))"

named_theorems public_intros \<open>what a publishing action has established\<close>

lemma public_lift [public_intros]: "public_only (gh_lift r) h Q"
  by (simp add: public_only_def gh_lift_def)

lemma public_require [public_intros]: "(c \<Longrightarrow> public_only m h Q) \<Longrightarrow> public_only (gh_require c msg m) h Q"
  by (simp add: public_only_def gh_require_def)

lemma public_bind [public_intros]:
  assumes "quiet m" and "\<And>x h1. m h = (Inr x, h1) \<Longrightarrow> publishing h1 = publishing h \<Longrightarrow> public_only (f x) h1 Q"
  shows "public_only (gh_bind m f) h Q"
proof -
  obtain r h1 where m: "m h = (r, h1)" by (cases "m h")
  with assms(1) have h1: "publishing h1 = publishing h" unfolding quiet_def by (metis snd_conv)
  show ?thesis
  proof (cases r)
    case (Inr x)
    with assms(2) [of x h1] m h1 show ?thesis by (simp add: public_only_def gh_bind_def)
  qed (use m h1 in \<open>simp add: public_only_def gh_bind_def\<close>)
qed

lemma public_split [public_intros]:
  "(\<And>a b. x = (a, b) \<Longrightarrow> public_only (f a b) h Q) \<Longrightarrow> public_only (case x of (a, b) \<Rightarrow> f a b) h Q"
  by (cases x) simp

lemma public_option [public_intros]:
  "(x = None \<Longrightarrow> public_only m h Q) \<Longrightarrow> (\<And>y. x = Some y \<Longrightarrow> public_only (f y) h Q)
     \<Longrightarrow> public_only (case x of None \<Rightarrow> m | Some y \<Rightarrow> f y) h Q"
  by (cases x) simp_all

lemma public_published:
  assumes "Q (snd (publish_prepared uni sha gh scope tag commit st prerelease body h))"
  shows "public_only (gh_bind (publish_prepared uni sha gh scope tag commit st prerelease body)
    (\<lambda>x. gh_bind (gh_lift (f x)) (\<lambda>y. gh_lift (g x y)))) h Q"
  using assms by (simp add: public_only_def snd_then_lift2)

lemma public_then: "public_only m h Q \<Longrightarrow> public_only (gh_bind m (\<lambda>x. gh_lift (f x))) h Q"
  by (simp add: public_only_def snd_then_lift)

lemma gh_lift_eq [simp]: "gh_lift r h = (r', h') \<longleftrightarrow> r = r' \<and> h = h'"
  by (auto simp: gh_lift_def)

lemma publish_candidate_public:
  assumes "\<And>tag assets files body manifest h1 h2.
    candidate_tag gh (lit channel) base run_id attempt sequence stamp h = (Inr tag, h1)
      \<Longrightarrow> stage_assets sha source = Inr (assets, files)
      \<Longrightarrow> manifest = candidate_manifest (jget info ''full_name'') base channel tag commit snapshot run_id attempt created assets
      \<Longrightarrow> publishing h2 = publishing h
      \<Longrightarrow> Q (snd (publish_prepared uni sha gh scope tag commit
            (st\<lparr>st_files := sort_entries ((lit MANIFEST, json_lines (jc_dumps (gh_codec gh)) (JObj manifest)) # files)\<rparr>) True body h2))"
  shows "public_only (publish_candidate uni sha1 sha gh scope source st info run channel base commit snapshot run_id
       attempt sequence stamp created) h Q"
  unfolding publish_candidate_def Let_def
  by (rule public_published | rule public_intros | rule quiet_intros)+
    (rule assms, assumption, auto intro: public_lift dest!: getitem_jget)

text \<open>What was accepted: the manifest is valid, its evidence is the archived one, its policy qualifies.\<close>

definition accepted_candidate ::
  "(nat \<Rightarrow> pystr) \<Rightarrow> (nat \<times> nat) list \<Rightarrow> sha256 \<Rightarrow> (real \<Rightarrow> pystr) \<Rightarrow> unzip \<Rightarrow> github \<Rightarrow> pystr \<Rightarrow> int \<Rightarrow> accepted \<Rightarrow> bool" where
  "accepted_candidate uni uni_digits sha fr unzip gh rc current_id a \<longleftrightarrow>
     validate_manifest uni uni_digits sha fr (gh_codec gh) (ac_raw a) (gh_repo gh) rc False = Inr (ac_manifest a)
     \<and> require_release_policy uni (JObj (ac_policy a)) (gh_repo gh) True = Inr ()
     \<and> byte_promotion_disabled (ac_policy a) = Inr False
     \<and> \<not> json_eq (jget (ac_manifest a) ''run_id'') (JInt current_id)
     \<and> inventory_is_manifest (ac_manifest a) (snd (snd (ac_initial a)))
     \<and> bind_r (as_dict (fst (ac_initial a))) (\<lambda>r. nested_get r ''object'' ''sha'') = Inr (jget (ac_manifest a) ''source_sha'')
     \<and> (\<exists>h h'. release_snapshot gh rc h = (Inr (ac_initial a), h'))
     \<and> (\<exists>run h h'. source_run uni gh (ac_info a) (ac_policy a) (ac_manifest a) True h = (Inr run, h')
          \<and> jget run ''event'' = JStr (lit ''workflow_dispatch''))
     \<and> (\<exists>h h'. check_ancestry gh (manifest_commit (ac_manifest a)) (branch_of (ac_info a)) h = (Inr (), h'))
     \<and> (\<exists>h h'. verify_evidence sha unzip gh (ac_manifest a) (ac_raw a) h = (Inr (), h'))"

lemma accept_candidate_sound:
  assumes "accept_candidate uni uni_digits sha1 sha fr unzip gh head scope rc current_id info h = (Inr a, h')"
  shows "accepted_candidate uni uni_digits sha fr unzip gh rc current_id a"
proof -
  have data: "as_dict v = Inr d \<Longrightarrow> v = JObj d" for v d by (auto simp: as_dict_def split: json.splits)
  from assms show ?thesis
    unfolding accept_candidate_def accepted_candidate_def
    by (auto simp: gh_success as_dict_def split: prod.splits dest!: data) blast+
qed

text \<open>The staged files: the manifest itself, and for every other name the bytes it lists.\<close>

definition copies :: "sha256 \<Rightarrow> accepted \<Rightarrow> staged \<Rightarrow> bool" where
  "copies sha a f \<longleftrightarrow>
     (if fst f = lit MANIFEST then snd f = ac_raw a
      else (case expected_item (ac_manifest a) (fst f) of
              Some item \<Rightarrow> json_eq (JInt (int (length (snd f)))) (jget item ''size'') \<and> JStr (sha (snd f)) = jget item ''sha256''
            | None \<Rightarrow> False))"

definition candidate_copies :: "sha256 \<Rightarrow> accepted \<Rightarrow> staged list \<Rightarrow> bool" where
  "candidate_copies sha a files \<longleftrightarrow>
     list_all (copies sha a) files
     \<and> fst ` set files = (\<lambda>d. jstr_val (jget d ''name'')) ` set (manifest_items (ac_manifest a)) \<union> {lit MANIFEST}"

lemma gh_map_Inr:
  "gh_map f xs h = (Inr ys, h') \<Longrightarrow> list_all2 (\<lambda>x y. \<exists>h1 h2. f x h1 = (Inr y, h2)) xs ys"
proof (induction xs arbitrary: h ys)
  case (Cons x xs)
  from Cons.prems obtain y ys' h1 where "f x h = (Inr y, h1)" "gh_map f xs h1 = (Inr ys', h')" "ys = y # ys'"
    by (auto simp: gh_success)
  with Cons.IH show ?case by auto
qed (simp add: gh_lift_def)

lemma stage_asset_copies:
  "stage_asset sha gh (ac_manifest a) (ac_raw a) asset h = (Inr f, h')
     \<Longrightarrow> copies sha a f \<and> fst f = jstr_val (jget asset ''name'')"
  by (auto simp: stage_asset_def copies_def stream_identity_def Let_def gh_success split: if_splits option.splits)

lemma stage_candidate_copies:
  assumes "stage_candidate sha gh rc a h = (Inr files, h')"
    and "inventory_is_manifest (ac_manifest a) (snd (snd (ac_initial a)))"
  shows "candidate_copies sha a files"
proof -
  from assms(1) obtain staged h1 where
    s: "gh_map (stage_asset sha gh (ac_manifest a) (ac_raw a)) (snd (snd (ac_initial a))) h = (Inr staged, h1)"
      "files = sort_entries staged"
    by (auto simp: stage_candidate_def gh_success)
  have all: "list_all2 (\<lambda>asset f. copies sha a f \<and> fst f = jstr_val (jget asset ''name'')) (snd (snd (ac_initial a))) staged"
    using gh_map_Inr [OF s(1)] by (rule list_all2_mono) (auto dest: stage_asset_copies)
  then have "list_all (copies sha a) staged"
    by (induction rule: list_all2_induct) auto
  moreover from all have "fst ` set staged = (\<lambda>asset. jstr_val (jget asset ''name'')) ` set (snd (snd (ac_initial a)))"
    by (induction rule: list_all2_induct) auto
  ultimately show ?thesis
    using assms(2) s(2) by (auto simp: candidate_copies_def inventory_is_manifest_def list_all_iff)
qed

text \<open>The ledger has given the number of a planned candidate to this promotion.\<close>

definition number_consumed :: "sha256 \<Rightarrow> (real \<Rightarrow> pystr) \<Rightarrow> github \<Rightarrow> json_dict \<Rightarrow> int \<Rightarrow> bool" where
  "number_consumed sha fr gh manifest run_id \<longleftrightarrow>
     (if truthy (jget manifest ''version_plan'')
      then \<exists>h h'. begin_promotion sha fr gh (jget manifest ''version_plan'') run_id h = (Inr (), h') else True)"

lemma publish_promotion_public:
  assumes "\<And>run body h0 h1 h2 h3.
    source_run uni gh (ac_info a) (ac_policy a) (ac_manifest a) False h = (Inr run, h0)
      \<Longrightarrow> require_reviewers gh h1 = (Inr (), h2)
      \<Longrightarrow> number_consumed sha fr gh (ac_manifest a) current_id
      \<Longrightarrow> publishing h3 = publishing h
      \<Longrightarrow> Q (snd (publish_prepared uni sha gh scope ([118] @ jstr_val (jget (ac_manifest a) ''version''))
            (manifest_commit (ac_manifest a)) (st\<lparr>st_files := files\<rparr>) False body h3))"
  shows "public_only (publish_promotion uni sha1 sha fr gh scope st rc current_id a files) h Q"
  unfolding publish_promotion_def Let_def
  by (rule public_published | rule public_intros | rule quiet_intros)+
    (rule assms, assumption, (auto; fail)+, auto simp: number_consumed_def gh_success split: if_splits)


text \<open>
  A candidate is published by the run that built it. When the command makes a release public, the run it
  was called from was in progress for exactly this commit and attempt and had passed the gate, the policy at
  the commit allows the channel and declares no frozen plans, the commit is on the default branch; what becomes
  public is the transaction for the staged files and for one manifest that lists their true sizes and digests,
  under the tag of this channel and run.
\<close>

theorem candidate_is_published_by_its_gated_run:
  "public_only
     (candidate uni sha1 sha gh environ head read_file scope start readings source st stamp created
        channel version_arg commit run_arg attempt_arg sequence) h
     (\<lambda>h'. \<exists>run_id attempt info run snapshot policy tag assets files manifest published body h2.
        positive run_arg = Inr run_id \<and> positive attempt_arg = Inr attempt
        \<and> ready_run uni gh run_id info commit attempt True run
        \<and> jget snapshot ''data'' = JObj policy
        \<and> require_release_policy uni (JObj policy) (gh_repo gh) (channel = ''rc'') = Inr () \<and> \<not> truthy (jget policy ''versioning'')
        \<and> (\<exists>h0 h1. check_ancestry gh commit (branch_of info) h0 = (Inr (), h1))
        \<and> (\<exists>h0 h1. candidate_tag gh (lit channel) version_arg run_id attempt sequence stamp h0 = (Inr tag, h1))
        \<and> stage_assets sha source = Inr (assets, files)
        \<and> manifest = candidate_manifest (jget info ''full_name'') version_arg channel tag commit snapshot run_id attempt created assets
        \<and> candidate_files sha gh manifest assets files published
        \<and> publishing h2 = publishing h
        \<and> h' = snd (publish_prepared uni sha gh scope tag commit (st\<lparr>st_files := published\<rparr>) True body h2))"
  unfolding candidate_def
  apply (rule public_then public_intros quiet_intros | rule publish_candidate_public)+
   subgoal premises prems for base h1 run_id h2 attempt h3 info h4 waited h5 run snapshot h6 u h7 policy h8 v h9 s h10 w h11
     tag assets files body manifest h12 h13
   proof -
     let ?published = "sort_entries ((lit MANIFEST, json_lines (jc_dumps (gh_codec gh)) (JObj manifest)) # files)"
     have base: "base = version_arg" using prems(1) by (auto simp: version_def guard_r_Inr_iff)
     have "ready_run uni gh run_id info commit attempt True run"
       using prems waited_run by auto
     have data: "jget snapshot ''data'' = JObj policy" using prems by (auto simp: as_dict_def split: json.splits)
     from stage_assets_files [of sha source assets files] prems
     have "candidate_files sha gh manifest assets files ?published"
       by (auto simp: candidate_files_def candidate_manifest_def dict_get_def distinct_sort_entries)
     have "require_release_policy uni (JObj policy) (gh_repo gh) (channel = ''rc'') = Inr ()"
       "positive run_arg = Inr run_id" "positive attempt_arg = Inr attempt"
       using prems(4,6,15) data by simp_all
     have "publishing h13 = publishing h" using prems by simp
     have "\<exists>h0 h1. check_ancestry gh commit (branch_of info) h0 = (Inr (), h1)"
       "\<exists>h0 h1. candidate_tag gh (lit channel) version_arg run_id attempt sequence stamp h0 = (Inr tag, h1)"
       using prems(20,27) base by auto
     have "manifest = candidate_manifest (jget info ''full_name'') version_arg channel tag commit snapshot run_id attempt created assets"
       using prems(29) base by simp
     show ?thesis
       by (rule exI [of _ run_id], rule exI [of _ attempt], rule exI [of _ info], rule exI [of _ run], rule exI [of _ snapshot],
           rule exI [of _ policy], rule exI [of _ tag], rule exI [of _ assets], rule exI [of _ files], rule exI [of _ manifest],
           rule exI [of _ ?published], rule exI [of _ body], rule exI [of _ h13]) (intro conjI; (fact | rule refl))
   qed
  by (rule public_lift)


end
