(* ===== verification/Release_Create.thy ===== *)
theory Release_Create
  imports Promotion
begin

text \<open>
  The one request of \<open>scripts/release_control.py\<close> that may be in doubt after it was sent: the creation of a
  release for a planned version. It runs once. When its answer is lost (\<open>AmbiguousCreate\<close>), \<open>CreateReadback\<close>
  looks for the draft it may have left, with at most a hundred reads, 64 MiB and 180 seconds, and only the exact
  draft of this call is used. Also here: the confirmation \<open>scripts/release_versioned.py\<close> hands to the
  transaction, the transaction with both confirmations, and the check of the publication token.

  The clock is the sequence of its readings; the verdict on a bracketed host, and the digits that \<open>\d\<close> matches,
  are fields of the observer. A failed parse is \<open>ValueError ''JSONDecodeError''\<close> or \<open>UnicodeError\<close> where
  \<open>json.loads\<close> raises \<open>JSONDecodeError\<close> or \<open>UnicodeDecodeError\<close>.
\<close>

section \<open>URLs\<close>

record url =
  u_scheme :: pystr
  u_netloc :: pystr
  u_path :: pystr
  u_query :: pystr
  u_fragment :: pystr

definition is_alpha :: "nat \<Rightarrow> bool" where
  "is_alpha c \<longleftrightarrow> 65 \<le> c \<and> c \<le> 90 \<or> 97 \<le> c \<and> c \<le> 122"

text \<open>The scheme, lower-cased, and what follows its colon.\<close>

definition split_scheme :: "pystr \<Rightarrow> pystr \<times> pystr" where
  "split_scheme u =
     (let head = takeWhile (\<lambda>c. c \<noteq> 58) u
      in if head \<noteq> [] \<and> length head < length u \<and> is_alpha (hd head)
            \<and> list_all (\<lambda>c. is_alpha c \<or> is_digit c \<or> c \<in> {43, 45, 46}) head
         then (alower head, drop (Suc (length head)) u) else ([], u))"

text \<open>The part before a separator, and the part after it.\<close>

definition partition_at :: "nat \<Rightarrow> pystr \<Rightarrow> pystr \<times> pystr" where
  "partition_at c s = (let a = takeWhile (\<lambda>x. x \<noteq> c) s in (a, drop (Suc (length a)) s))"

text \<open>\<open>urllib.parse.urlsplit\<close> on ASCII text; \<open>ipv6\<close> decides whether a bracketed host is well formed.\<close>

definition urlsplit :: "(pystr \<Rightarrow> bool) \<Rightarrow> pystr \<Rightarrow> url result" where
  "urlsplit ipv6 text =
     (let (scheme, rest) = split_scheme (filter (\<lambda>c. c \<notin> {9, 10, 13}) (dropWhile (\<lambda>c. c \<le> 32) text));
          slashes = startswith rest [47, 47];
          netloc = (if slashes then takeWhile (\<lambda>c. c \<notin> {47, 63, 35}) (drop 2 rest) else []);
          (before, fragment) = partition_at 35 (if slashes then drop (2 + length netloc) rest else rest);
          (path, query) = partition_at 63 before
      in guard_r ((91 \<in> set netloc) = (93 \<in> set netloc) \<and> (91 \<in> set netloc \<longrightarrow> ipv6 netloc)) (ValueError ''Invalid IPv6 URL'')
           (Inr \<lparr>u_scheme = scheme, u_netloc = netloc, u_path = path, u_query = query, u_fragment = fragment\<rparr>))"

text \<open>\<open>parse_qs(strict_parsing=True, keep_blank_values=True)\<close>, as its list of pairs.\<close>

definition query_text :: "pystr \<Rightarrow> pystr" where
  "query_text s = unquote (map (\<lambda>c. if c = 43 then 32 else c) s)"

definition query_pair :: "pystr \<Rightarrow> (pystr \<times> pystr) result" where
  "query_pair nv =
     guard_r (61 \<in> set nv) (ValueError ''bad query field'')
       (let (name, v) = partition_at 61 nv in Inr (query_text name, query_text v))"

definition parse_qs :: "pystr \<Rightarrow> (pystr \<times> pystr) list result" where
  "parse_qs q = map_r query_pair (if q = [] then [] else split_on 38 q)"

definition query_values :: "(pystr \<times> pystr) list \<Rightarrow> pystr \<Rightarrow> pystr list" where
  "query_values ps k = map snd (filter (\<lambda>p. fst p = k) ps)"

text \<open>The query is \<open>{"per_page": ["100"], "page": [n]}\<close>.\<close>

definition is_page_query :: "int \<Rightarrow> (pystr \<times> pystr) list \<Rightarrow> bool" where
  "is_page_query n ps \<longleftrightarrow>
     fst ` set ps = {lit ''per_page'', lit ''page''}
     \<and> query_values ps (lit ''per_page'') = [lit ''100''] \<and> query_values ps (lit ''page'') = [int_str n]"

section \<open>Bounded observation\<close>

record observer =
  ob_gh :: github
  ob_clock :: "nat \<Rightarrow> real"
  ob_ipv6 :: "pystr \<Rightarrow> bool"
  ob_digits :: "(nat \<times> nat) list"

record readback =
  rb_deadline :: real
  rb_remaining :: int
  rb_calls :: nat
  rb_repository_id :: "int option"
  rb_ticks :: nat
  rb_history :: "command list"

type_synonym 'a rbm = "readback \<Rightarrow> 'a result \<times> readback"

definition rb_lift :: "'a result \<Rightarrow> 'a rbm" where
  "rb_lift r rb = (r, rb)"

definition rb_bind :: "'a rbm \<Rightarrow> ('a \<Rightarrow> 'b rbm) \<Rightarrow> 'b rbm" where
  "rb_bind m f rb = (case m rb of (Inl e, rb') \<Rightarrow> (Inl e, rb') | (Inr x, rb') \<Rightarrow> f x rb')"

definition rb_require :: "bool \<Rightarrow> string \<Rightarrow> 'a rbm \<Rightarrow> 'a rbm" where
  "rb_require c msg m rb = (if c then m rb else (Inl (ReleaseError msg), rb))"

text \<open>Every use of the clock takes its next reading.\<close>

definition create_readback :: "observer \<Rightarrow> command list \<Rightarrow> readback result" where
  "create_readback ob h =
     rreq (fullmatch REPO_RE (gh_repo (ob_gh ob))) ''Invalid readback repository''
       (Inr \<lparr>rb_deadline = ob_clock ob 0 + 180, rb_remaining = 64 * 1024 * 1024, rb_calls = 0,
             rb_repository_id = None, rb_ticks = 1, rb_history = h\<rparr>)"

definition rb_check :: "observer \<Rightarrow> real rbm" where
  "rb_check ob rb =
     (let left = rb_deadline rb - ob_clock ob (rb_ticks rb); rb' = rb\<lparr>rb_ticks := Suc (rb_ticks rb)\<rparr>
      in (if 0 < left then Inr left else Inl (ReleaseError ''Create readback deadline exceeded''), rb'))"

definition PAGE_PATH :: "(nat \<times> nat) list \<Rightarrow> rexp" where
  "PAGE_PATH digits =
     (let number = RSeq (RClass True [(49, 57)]) (RStar (RClass True digits))
      in r_seq [r_lit ''releases'', r_opt (r_seq [r_char 47, number, r_lit ''/assets'']), r_lit ''?per_page=100&page='', number])"

definition readback_command :: "github \<Rightarrow> pystr \<Rightarrow> command" where
  "readback_command gh path =
     (map lit [''gh'', ''api'', ''--hostname'', ''github.com'', ''--include'', ''--method'', ''GET'', ''--'']
        @ [lit ''repos/'' @ gh_repo gh @ (if path = [] then [] else [47] @ path)],
      None)"

definition rb_count :: "unit rbm" where
  "rb_count rb = (Inr (), rb\<lparr>rb_calls := Suc (rb_calls rb)\<rparr>)"

definition rb_run :: "github \<Rightarrow> pystr \<Rightarrow> outcome rbm" where
  "rb_run gh path rb =
     (let c = readback_command gh path
      in (Inr (gh_env gh (rb_history rb) c), rb\<lparr>rb_history := rb_history rb @ [c]\<rparr>))"

text \<open>The bytes of the answer are charged before it is read.\<close>

definition rb_charge :: "proc \<Rightarrow> unit rbm" where
  "rb_charge result rb =
     (let left = rb_remaining rb - int (length (stdout result) + length (stderr result))
      in (if 0 \<le> left then Inr () else Inl (ReleaseError ''Create readback response limit exceeded''),
          rb\<lparr>rb_remaining := left\<rparr>))"

definition readback_value :: "github \<Rightarrow> proc \<Rightarrow> (json \<times> bytes) result" where
  "readback_value gh result =
     bind_r (http_response (gh_codec gh) (stdout result) False) (\<lambda>(status, body).
     rreq (returncode result = 0 \<and> status = 200) ''Create readback GET failed''
    (bind_r (parse_json (jc_loads (gh_codec gh)) body) (\<lambda>v.
       Inr (v, take (length (stdout result) - length body) (stdout result)))))"

definition rb_get :: "observer \<Rightarrow> pystr \<Rightarrow> (json \<times> bytes) rbm" where
  "rb_get ob path =
     rb_require (list_ex (\<lambda>p. fullmatch p path) API_GET \<or> fullmatch (PAGE_PATH (ob_digits ob)) path) ''Invalid create readback path''
    (rb_require (list_all (\<lambda>p. p \<noteq> lit ''.'' \<and> p \<noteq> lit ''..'') (split_on 47 (unquote path))) ''Invalid create readback path''
    (rb_bind rb_count (\<lambda>_ rb.
     rb_require (rb_calls rb \<le> 100) ''Create readback request limit exceeded''
    (rb_bind (rb_check ob) (\<lambda>_.
     rb_bind (rb_run (ob_gh ob) path) (\<lambda>out.
       case out of
         TimeoutExpired _ _ \<Rightarrow> rb_lift (Inl (GitHubError False))
       | Completed result \<Rightarrow>
           rb_bind (rb_check ob) (\<lambda>_.
           rb_bind (rb_charge result) (\<lambda>_.
             rb_lift (readback_value (ob_gh ob) result)))))) rb)))"

definition rb_json :: "observer \<Rightarrow> pystr \<Rightarrow> json rbm" where
  "rb_json ob path = rb_bind (rb_get ob path) (\<lambda>(v, _). rb_lift (Inr v))"

text \<open>The identifiers of a page, none of them seen before.\<close>

fun inventory_records :: "int list \<Rightarrow> json list \<Rightarrow> (json_dict list \<times> int list) result" where
  "inventory_records seen [] = Inr ([], seen)"
| "inventory_records seen (v # vs) =
     (case v of
        JObj d \<Rightarrow>
          bind_r (positive (jget d ''id'')) (\<lambda>i.
          rreq (i \<notin> set seen) ''Duplicate create inventory ID''
         (bind_r (inventory_records (i # seen) vs) (\<lambda>(ds, seen'). Inr (d # ds, seen'))))
      | _ \<Rightarrow> Inl (ReleaseError ''Invalid create inventory record''))"

definition bstrip :: "bytes \<Rightarrow> bytes" where
  "bstrip s = rev (bstrip_ws (rev (bstrip_ws s)))"

definition link_headers :: "bytes \<Rightarrow> bytes list" where
  "link_headers header =
     map (\<lambda>line. bstrip (snd (partition_at 58 line)))
       (filter (\<lambda>line. startswith (alower line) (lit ''link:'')) (bsplitlines header))"

definition r_ws :: rexp where
  "r_ws = RStar (RClass True [(9, 13), (28, 32)])"

definition LINK :: rexp where
  "LINK = r_seq [r_ws, r_char 60, r_plus (RClass False [(60, 60), (62, 62)]), r_lit ''>;'', r_ws, r_lit ''rel='', r_char 34,
     r_alt [r_lit ''next'', r_lit ''prev'', r_lit ''first'', r_lit ''last''], r_char 34, r_ws]"

definition link_target :: "pystr \<Rightarrow> pystr" where
  "link_target l = fst (partition_at 62 (snd (partition_at 60 l)))"

definition link_rel :: "pystr \<Rightarrow> pystr" where
  "link_rel l = fst (partition_at 34 (snd (partition_at 34 (snd (partition_at 62 l)))))"

text \<open>\<open>/repositories/N/path\<close>, where the service names the repository by number.\<close>

definition numeric_path :: "pystr \<Rightarrow> pystr \<Rightarrow> nat option" where
  "numeric_path path target =
     (let pre = lit ''/repositories/''; rest = drop (length pre) target; number = takeWhile is_digit rest
      in if startswith target pre \<and> fullmatch r_posint number \<and> drop (length number) rest = [47] @ path
         then Some (digits_val number) else None)"

text \<open>The number of the repository, read once.\<close>

definition repository_number :: "github \<Rightarrow> json \<Rightarrow> int result" where
  "repository_number gh info =
     (case info of
        JObj d \<Rightarrow>
          (case jget d ''full_name'' of
             JStr name \<Rightarrow>
               rreq (fullmatch REPO_RE name \<and> alower name = alower (gh_repo gh)) ''Create readback repository identity changed''
              (case jget d ''id'' of
                 JInt i \<Rightarrow> rreq (0 < i) ''Create readback repository identity changed'' (Inr i)
               | _ \<Rightarrow> Inl (ReleaseError ''Create readback repository identity changed''))
           | _ \<Rightarrow> Inl (ReleaseError ''Create readback repository identity changed''))
      | _ \<Rightarrow> Inl (ReleaseError ''Invalid readback repository metadata''))"

definition keep_repository :: "int \<Rightarrow> int rbm" where
  "keep_repository i rb = (Inr i, rb\<lparr>rb_repository_id := Some i\<rparr>)"

definition readback_repository :: "observer \<Rightarrow> int rbm" where
  "readback_repository ob rb =
     (case rb_repository_id rb of
        Some i \<Rightarrow> (Inr i, rb)
      | None \<Rightarrow>
          rb_bind (rb_json ob []) (\<lambda>info.
          rb_bind (rb_lift (repository_number (ob_gh ob) info)) keep_repository) rb)"

definition is_next_target :: "observer \<Rightarrow> int \<Rightarrow> url \<Rightarrow> bool result" where
  "is_next_target ob page u =
     (if u_scheme u = lit ''https'' \<and> u_netloc u = lit ''api.github.com'' \<and> u_fragment u = []
      then bind_r (parse_qs (u_query u)) (\<lambda>ps. Inr (is_page_query (page + 1) ps)) else Inr False)"

text \<open>One link of a page header: whether it leads to the next page.\<close>

definition follow_link :: "observer \<Rightarrow> pystr \<Rightarrow> int \<Rightarrow> pystr \<Rightarrow> bool rbm" where
  "follow_link ob path page link =
     rb_require (fullmatch LINK link) ''Invalid create pagination link''
    (if link_rel link \<noteq> lit ''next'' then rb_lift (Inr False)
     else
       rb_bind (rb_lift (urlsplit (ob_ipv6 ob) (link_target link))) (\<lambda>target.
       rb_bind (rb_lift (is_next_target ob page target)) (\<lambda>fits.
       rb_require fits ''Unexpected create pagination target''
      (if u_path target = lit ''/repos/'' @ gh_repo (ob_gh ob) @ [47] @ path then rb_lift (Inr True)
       else
         (case numeric_path path (u_path target) of
            None \<Rightarrow> rb_lift (Inl (ReleaseError ''Unexpected create pagination path''))
          | Some n \<Rightarrow>
              rb_bind (readback_repository ob) (\<lambda>i.
              rb_require (int n = i) ''Create pagination repository ID changed'' (rb_lift (Inr True))))))))"

fun follow_links :: "observer \<Rightarrow> pystr \<Rightarrow> int \<Rightarrow> pystr list \<Rightarrow> nat rbm" where
  "follow_links ob path page [] = rb_lift (Inr 0)"
| "follow_links ob path page (l # ls) =
     rb_bind (follow_link ob path page l) (\<lambda>b.
     rb_bind (follow_links ob path page ls) (\<lambda>n. rb_lift (Inr (if b then Suc n else n))))"

definition header_links :: "bytes list \<Rightarrow> pystr list result" where
  "header_links links =
     (case links of
        [] \<Rightarrow> Inr []
      | l # _ \<Rightarrow> guard_r (list_all (\<lambda>c. c < 128) l) UnicodeError (Inr (split_on 44 l)))"

section \<open>What a readback may do\<close>

text \<open>
  From one state to a later one: the calls so far never pass the limit, each command is a call, and every
  command is a read.
\<close>

definition advances :: "readback \<Rightarrow> readback \<Rightarrow> bool" where
  "advances rb rb' \<longleftrightarrow>
     rb_deadline rb' = rb_deadline rb \<and> rb_calls rb \<le> rb_calls rb' \<and> rb_ticks rb \<le> rb_ticks rb'
     \<and> (\<exists>cs. rb_history rb' = rb_history rb @ cs \<and> list_all (\<lambda>c. command_method c = lit ''GET'') cs
          \<and> rb_calls rb + length cs \<le> rb_calls rb' \<and> (cs \<noteq> [] \<longrightarrow> rb_calls rb + length cs \<le> 100))"

definition steady :: "'a rbm \<Rightarrow> bool" where
  "steady m \<longleftrightarrow> (\<forall>rb. advances rb (snd (m rb)))"

named_theorems steady_intros \<open>actions of a readback that stay within its bounds\<close>

lemma advances_refl [simp]: "advances rb rb"
  by (simp add: advances_def)

lemma advances_trans: "advances a b \<Longrightarrow> advances b c \<Longrightarrow> advances a c"
  unfolding advances_def by force

lemma steady_lift [steady_intros]: "steady (rb_lift r)"
  by (simp add: steady_def rb_lift_def)

lemma steady_require [steady_intros]: "steady m \<Longrightarrow> steady (rb_require c msg m)"
  by (simp add: steady_def rb_require_def)

lemma steady_bind [steady_intros]: "steady m \<Longrightarrow> (\<And>x. steady (f x)) \<Longrightarrow> steady (rb_bind m f)"
  unfolding steady_def rb_bind_def
  by (auto split: prod.splits sum.splits) (metis advances_trans snd_conv)+

lemma steady_check [steady_intros]: "steady (rb_check ob)"
  by (simp add: steady_def rb_check_def advances_def Let_def)

lemma steady_charge [steady_intros]: "steady (rb_charge p)"
  by (simp add: steady_def rb_charge_def advances_def Let_def)

lemma readback_command_method [simp]: "command_method (readback_command gh path) = lit ''GET''"
  by (simp add: command_method_def readback_command_def)

text \<open>A read that passed the guards has counted one call, and runs at most one command.\<close>

lemma rb_get_advances: "advances rb (snd (rb_get ob path rb)) \<and> (fst (rb_get ob path rb) = Inr x
    \<longrightarrow> rb_calls rb < rb_calls (snd (rb_get ob path rb)) \<and> rb_calls (snd (rb_get ob path rb)) \<le> 100)"
  by (auto simp: rb_get_def rb_bind_def rb_require_def rb_count_def rb_check_def rb_run_def rb_charge_def rb_lift_def
      advances_def Let_def split: outcome.splits sum.splits)

lemma steady_get [steady_intros]: "steady (rb_get ob path)"
  using rb_get_advances by (simp add: steady_def)

lemma steady_json [steady_intros]: "steady (rb_json ob path)"
  unfolding rb_json_def by (intro steady_intros) (auto intro: steady_intros)

lemma steady_repository [steady_intros]: "steady (readback_repository ob)"
proof -
  have "steady (keep_repository i)" for i
    by (simp add: steady_def keep_repository_def advances_def)
  then have "steady (rb_bind (rb_json ob []) (\<lambda>info. rb_bind (rb_lift (repository_number (ob_gh ob) info)) keep_repository))"
    by (intro steady_intros)
  then show ?thesis
    by (simp add: steady_def readback_repository_def split: option.splits)
qed

lemma steady_link [steady_intros]: "steady (follow_link ob path page l)"
  unfolding follow_link_def by (auto intro!: steady_intros split: option.splits)

lemma steady_links [steady_intros]: "steady (follow_links ob path page ls)"
  by (induction ls) (auto intro!: steady_intros)

text \<open>A page costs a call, so a loop over pages ends.\<close>

text \<open>One page: its records, the identifiers seen so far, and whether another page must be read.\<close>

definition page_records :: "observer \<Rightarrow> pystr \<Rightarrow> int \<Rightarrow> int list \<Rightarrow> json list \<Rightarrow> bytes \<Rightarrow> (json_dict list \<times> int list \<times> bool) rbm" where
  "page_records ob path page seen values header =
     rb_require (length values \<le> 100) ''Invalid create inventory page''
    (rb_bind (rb_lift (inventory_records seen values)) (\<lambda>(records, seen').
     rb_require (length (link_headers header) \<le> 1) ''Duplicate pagination header''
    (rb_bind (rb_lift (header_links (link_headers header))) (\<lambda>links.
     rb_bind (follow_links ob path page links) (\<lambda>next_pages.
     rb_require (next_pages \<le> 1) ''Duplicate next-page link''
    (if next_pages = 0 \<and> length values < 100 then rb_lift (Inr (records, seen', False))
     else rb_require (values \<noteq> []) ''Empty create inventory page has a successor''
            (rb_lift (Inr (records, seen', True)))))))))"

definition inventory_page :: "observer \<Rightarrow> pystr \<Rightarrow> int \<Rightarrow> int list \<Rightarrow> (json_dict list \<times> int list \<times> bool) rbm" where
  "inventory_page ob path page seen =
     rb_bind (rb_get ob (path @ lit ''?per_page=100&page='' @ int_str page)) (\<lambda>(v, header).
       case v of
         JList values \<Rightarrow> page_records ob path page seen values header
       | _ \<Rightarrow> rb_lift (Inl (ReleaseError ''Invalid create inventory page'')))"

lemma steady_records [steady_intros]: "steady (page_records ob path page seen values header)"
  unfolding page_records_def by (auto intro!: steady_intros)

lemma inventory_page_calls:
  assumes "inventory_page ob path page seen rb = (Inr x, rb')"
  shows "rb_calls rb < rb_calls rb' \<and> rb_calls rb \<le> 99"
proof -
  let ?g = "rb_get ob (path @ lit ''?per_page=100&page='' @ int_str page)"
  obtain r rb1 where g: "?g rb = (r, rb1)" by (cases "?g rb")
  with assms obtain v header where r: "r = Inr (v, header)"
    by (cases r) (auto simp: inventory_page_def rb_bind_def)
  with assms g obtain vs where "page_records ob path page seen vs header rb1 = (Inr x, rb')"
    by (cases v) (auto simp: inventory_page_def rb_bind_def rb_lift_def)
  then have "advances rb1 rb'" by (metis snd_conv steady_def steady_records)
  with rb_get_advances [of rb ob "path @ lit ''?per_page=100&page='' @ int_str page" "(v, header)"] g r
  show ?thesis by (force simp: advances_def)
qed

section \<open>Inventories\<close>

function readback_pages_from :: "observer \<Rightarrow> pystr \<Rightarrow> int \<Rightarrow> int list \<Rightarrow> json_dict list \<Rightarrow> json_dict list rbm" where
  "readback_pages_from ob path page seen records rb =
     (case inventory_page ob path page seen rb of
        (Inl e, rb') \<Rightarrow> (Inl e, rb')
      | (Inr (found, seen', again), rb') \<Rightarrow>
          if again then readback_pages_from ob path (page + 1) seen' (records @ found) rb' else (Inr (records @ found), rb'))"
  by pat_completeness auto

termination readback_pages_from
  by (relation "measure (\<lambda>(_, _, _, _, _, rb). 100 - rb_calls rb)") (auto dest!: inventory_page_calls [OF sym])

declare readback_pages_from.simps [simp del]

definition readback_pages :: "observer \<Rightarrow> pystr \<Rightarrow> json_dict list rbm" where
  "readback_pages ob path = readback_pages_from ob path 1 [] []"

section \<open>Reconciling a creation\<close>

text \<open>The identifier and the tag of every release: the two readings must agree.\<close>

definition same_inventory :: "json_dict list \<Rightarrow> json_dict list \<Rightarrow> bool" where
  "same_inventory a b \<longleftrightarrow>
     length a = length b
     \<and> list_all (\<lambda>r. list_ex (\<lambda>s. jget s ''id'' = jget r ''id'' \<and> json_eq (jget r ''tag_name'') (jget s ''tag_name'')) b) a"

definition tagged :: "pystr \<Rightarrow> json_dict list \<Rightarrow> json_dict list" where
  "tagged tag rows = filter (\<lambda>r. jget r ''tag_name'' = JStr tag) rows"

definition PAYLOAD_FIELDS :: "string list" where
  "PAYLOAD_FIELDS = [''tag_name'', ''target_commitish'', ''name'', ''body'', ''draft'', ''prerelease'']"

definition is_created_draft :: "github \<Rightarrow> json_dict \<Rightarrow> int \<Rightarrow> json_dict \<Rightarrow> bool" where
  "is_created_draft gh payload release_id d \<longleftrightarrow>
     jget d ''id'' = JInt release_id
     \<and> jget d ''url'' = JStr (lit ''https://api.github.com/repos/'' @ gh_repo gh @ lit ''/releases/'' @ int_str release_id)
     \<and> has_key d ''published_at'' \<and> jget d ''published_at'' = JNull \<and> jget d ''assets'' = JList []
     \<and> is_obj (jget d ''author'') \<and> list_all (\<lambda>k. jget d k = jget payload k) PAYLOAD_FIELDS"

definition checked_release :: "github \<Rightarrow> json_dict \<Rightarrow> int \<Rightarrow> json \<Rightarrow> json_dict result" where
  "checked_release gh payload release_id v =
     (case v of
        JObj d \<Rightarrow>
          rreq (is_created_draft gh payload release_id d) ''Create readback release differs from the exact request''
         (bind_r (as_dict (jget d ''author'')) (\<lambda>author.
          bind_r (positive (jget author ''id'')) (\<lambda>_. Inr d)))
      | _ \<Rightarrow> Inl (ReleaseError ''Invalid create readback release''))"

definition created_ref :: "pystr \<Rightarrow> pystr \<Rightarrow> json \<Rightarrow> bool" where
  "created_ref tag commit v \<longleftrightarrow>
     (case v of
        JObj d \<Rightarrow>
          jget d ''ref'' = JStr (lit ''refs/tags/'' @ tag)
          \<and> (case jget d ''object'' of
               JObj obj \<Rightarrow> jget obj ''type'' = JStr (lit ''commit'') \<and> jget obj ''sha'' = JStr commit
             | _ \<Rightarrow> False)
      | _ \<Rightarrow> False)"

text \<open>The identifier of the only release of both inventories that has the tag.\<close>

definition listed_release :: "github \<Rightarrow> json_dict \<Rightarrow> pystr \<Rightarrow> json_dict list \<Rightarrow> json_dict list \<Rightarrow> (int \<times> json_dict) result" where
  "listed_release gh payload tag first_rows rows =
     rreq (same_inventory first_rows rows) ''Release inventory changed during readback''
    (case tagged tag rows of
       [match] \<Rightarrow>
         bind_r (positive (jget match ''id'')) (\<lambda>release_id.
           case tagged tag first_rows of
             [original] \<Rightarrow>
               bind_r (checked_release gh payload release_id (JObj match)) (\<lambda>listed.
               bind_r (checked_release gh payload release_id (JObj original)) (\<lambda>before.
               rreq (json_eq (jget before ''author'') (jget listed ''author'')) ''Create readback listed author changed''
                 (Inr (release_id, listed))))
           | _ \<Rightarrow> Inl (ReleaseError ''Create readback original inventory is contradictory''))
     | _ \<Rightarrow> Inl (ReleaseError ''Create readback requires one matching release''))"

text \<open>The draft as the service holds it, with no asset.\<close>

definition empty_draft :: "observer \<Rightarrow> json_dict \<Rightarrow> int \<Rightarrow> json \<Rightarrow> string \<Rightarrow> json_dict rbm" where
  "empty_draft ob payload release_id author msg =
     (let path = lit ''releases/'' @ int_str release_id
      in rb_bind (rb_json ob path) (\<lambda>v.
         rb_bind (rb_lift (checked_release (ob_gh ob) payload release_id v)) (\<lambda>release.
         rb_require (json_eq (jget release ''author'') author) ''Create readback author changed''
        (rb_bind (readback_pages ob (path @ lit ''/assets'')) (\<lambda>assets.
         rb_require (assets = []) msg (rb_lift (Inr release)))))))"

definition reconcile :: "observer \<Rightarrow> pystr \<Rightarrow> pystr \<Rightarrow> json_dict \<Rightarrow> unit rbm \<Rightarrow> json_dict rbm" where
  "reconcile ob tag commit payload confirm =
     rb_bind confirm (\<lambda>_.
     rb_bind (readback_pages ob (lit ''releases'')) (\<lambda>first_rows.
     rb_bind (readback_pages ob (lit ''releases'')) (\<lambda>rows.
     rb_bind (rb_lift (listed_release (ob_gh ob) payload tag first_rows rows)) (\<lambda>(release_id, listed).
     rb_bind (empty_draft ob payload release_id (jget listed ''author'') ''Create readback draft is not empty'') (\<lambda>release.
     rb_bind (rb_json ob (lit ''git/ref/tags/'' @ tag)) (\<lambda>ref.
     rb_require (created_ref tag commit ref) ''Create readback tag source changed''
    (rb_bind confirm (\<lambda>_.
     rb_bind (empty_draft ob payload release_id (jget release ''author'') ''Create readback draft gained assets'') (\<lambda>final.
     rb_bind (rb_check ob) (\<lambda>_. rb_lift (Inr final)))))))))))"

definition reconcile_created_release :: "observer \<Rightarrow> pystr \<Rightarrow> pystr \<Rightarrow> json_dict \<Rightarrow> unit rbm \<Rightarrow> json_dict gh" where
  "reconcile_created_release ob tag commit payload confirm h =
     (case create_readback ob h of
        Inl e \<Rightarrow> (Inl e, h)
      | Inr rb \<Rightarrow> (case reconcile ob tag commit payload confirm rb of (r, rb') \<Rightarrow> (r, rb_history rb')))"

section \<open>Creating a release\<close>

definition CREATE_DENIED :: rexp where
  "CREATE_DENIED = r_seq [r_http, r_char 52, r_rep 2 r_digit, r_opt (RSeq r_space (RStar r_any))]"

definition LOST_JSON :: rexp where
  "LOST_JSON = r_seq [r_opt (r_seq [RStar r_any, r_char 58, RStar r_space]), r_lit ''unexpected end of JSON input'', RStar r_space]"

definition create_denied :: "bytes \<Rightarrow> bytes \<Rightarrow> bool" where
  "create_denied out err \<longleftrightarrow> denied_partial_read out err False \<or> fullmatch CREATE_DENIED out"

text \<open>A creation that was answered, or one whose answer was lost: \<open>AmbiguousCreate\<close>.\<close>

datatype created = Created json_dict | Ambiguous

definition lost_json :: "exn \<Rightarrow> bool" where
  "lost_json e \<longleftrightarrow> e = ValueError ''JSONDecodeError'' \<or> e = UnicodeError"

definition created_body :: "github \<Rightarrow> bytes \<Rightarrow> created result" where
  "created_body gh raw =
     (case parse_json (jc_loads (gh_codec gh)) raw of
        Inl e \<Rightarrow> (case jc_loads (gh_codec gh) raw of
                     Inl cause \<Rightarrow> if lost_json cause then Inr Ambiguous else Inl e
                   | Inr _ \<Rightarrow> Inl e)
      | Inr (JObj release) \<Rightarrow> Inr (Created release)
      | Inr _ \<Rightarrow> Inl (ReleaseError ''Invalid release create response''))"

definition create_outcome :: "github \<Rightarrow> outcome \<Rightarrow> created result" where
  "create_outcome gh out =
     (case out of
        TimeoutExpired stdout_bytes stderr_bytes \<Rightarrow>
          if create_denied stdout_bytes stderr_bytes then Inl (GitHubError False) else Inr Ambiguous
      | Completed result \<Rightarrow>
          (let denied = create_denied (stdout result) (stderr result);
               transport = transient_read_failure result
                 \<or> returncode result = 1 \<and> fullmatch LOST_JSON (stderr result)
           in case http_response (gh_codec gh) (stdout result) False of
                Inl e \<Rightarrow> if transport \<and> \<not> denied then Inr Ambiguous else Inl (GitHubError False)
              | Inr (status, raw) \<Rightarrow>
                  if denied \<or> 400 \<le> status \<and> status < 500 then Inl (GitHubError False)
                  else if status \<in> {500, 502, 503, 504} \<and> returncode result \<in> {0, 1}
                       \<or> 200 \<le> status \<and> status < 300 \<and> transport then Inr Ambiguous
                  else rreq (returncode result = 0 \<and> status = 201) ''Unexpected release create outcome'' (created_body gh raw)))"

definition create_command :: "github \<Rightarrow> json \<Rightarrow> command" where
  "create_command gh body =
     (map lit [''gh'', ''api'', ''--hostname'', ''github.com'', ''--include'', ''--method'', ''POST'', ''--input'', ''-'', ''--'']
        @ [lit ''repos/'' @ gh_repo gh @ lit ''/releases''],
      Some body)"

definition create_release_once :: "github \<Rightarrow> json \<Rightarrow> created gh" where
  "create_release_once gh body =
     gh_bind (run_command (gh_env gh) (create_command gh body)) (\<lambda>out. gh_lift (create_outcome gh out))"

text \<open>The confirmation of the versioned publisher: run, default branch and ledger are still those of the call.\<close>

definition same_typed :: "json \<Rightarrow> json \<Rightarrow> bool" where
  "same_typed v w \<longleftrightarrow>
     json_eq v w
     \<and> (case (v, w) of
          (JBool _, JBool _) \<Rightarrow> True | (JInt _, JInt _) \<Rightarrow> True | (JFloat _, JFloat _) \<Rightarrow> True
        | (JBool _, _) \<Rightarrow> False | (JInt _, _) \<Rightarrow> False | (JFloat _, _) \<Rightarrow> False | _ \<Rightarrow> True)"

definition RUN_IDENTITY :: "string list" where
  "RUN_IDENTITY = [''id'', ''run_attempt'', ''head_sha'', ''path'', ''event'']"

definition confirmed_run :: "json_dict \<Rightarrow> json \<Rightarrow> bool result" where
  "confirmed_run run v =
     (case v of
        JObj d \<Rightarrow>
          if jget d ''status'' = JStr (lit ''in_progress'') \<and> jget d ''conclusion'' = JNull
          then bind_r (any_r (\<lambda>k. bind_r (py_getitem (JObj run) (lit k)) (\<lambda>w. Inr (\<not> same_typed (jget d k) w))) RUN_IDENTITY)
                 (\<lambda>changed. Inr (\<not> changed))
          else Inr False
      | _ \<Rightarrow> Inr False)"

definition confirmed_branch :: "pystr \<Rightarrow> json \<Rightarrow> bool result" where
  "confirmed_branch path v =
     (case v of
        JObj d \<Rightarrow>
          (case jget d ''default_branch'' of
             JStr b \<Rightarrow> bind_r (quote b) (\<lambda>q. Inr (lit ''git/ref/heads/'' @ q = path))
           | _ \<Rightarrow> Inr False)
      | _ \<Rightarrow> Inr False)"

definition ledger_bytes :: "json \<Rightarrow> bytes result" where
  "ledger_bytes v =
     (case v of
        JObj d \<Rightarrow>
          (case jget d ''content'' of
             JStr s \<Rightarrow>
               rreq (jget d ''type'' = JStr (lit ''file'') \<and> jget d ''encoding'' = JStr (lit ''base64'')) ''Invalid create readback ledger''
              (case b64decode (filter (\<lambda>x. \<not> is_space x) s) of
                 Some raw \<Rightarrow> Inr raw | None \<Rightarrow> Inl (ValueError ''base64''))
           | _ \<Rightarrow> Inl (ReleaseError ''Invalid create readback ledger''))
      | _ \<Rightarrow> Inl (ReleaseError ''Invalid create readback ledger''))"

definition create_confirmation :: "observer \<Rightarrow> json_dict \<Rightarrow> pystr \<times> json \<Rightarrow> bytes \<Rightarrow> unit rbm" where
  "create_confirmation ob run source_ref consumed =
     rb_bind (rb_lift (py_getitem (JObj run) (lit ''id''))) (\<lambda>i.
     rb_bind (rb_lift (py_getitem (JObj run) (lit ''run_attempt''))) (\<lambda>attempt.
     rb_bind (rb_json ob (lit ''actions/runs/'' @ py_str i @ lit ''/attempts/'' @ py_str attempt)) (\<lambda>current.
     rb_bind (rb_lift (confirmed_run run current)) (\<lambda>same_run.
     rb_require same_run ''Create readback run identity changed''
    (rb_bind (rb_json ob []) (\<lambda>info.
     rb_bind (rb_lift (confirmed_branch (fst source_ref) info)) (\<lambda>same_branch.
     rb_require same_branch ''Create readback default branch changed''
    (rb_bind (rb_json ob (fst source_ref)) (\<lambda>source.
     rb_require (json_eq source (snd source_ref)) ''Create readback default source changed''
    (rb_bind (rb_json ob READ_PATH) (\<lambda>content.
     rb_bind (rb_lift (ledger_bytes content)) (\<lambda>raw.
     rb_require (raw = consumed) ''Create readback publication ledger changed'' (rb_lift (Inr ()))))))))))))))"

section \<open>The transaction with its confirmations\<close>

text \<open>The draft of this transaction: a plain creation, or the single versioned one and its reconciliation.\<close>

definition create_draft :: "observer \<Rightarrow> pystr \<Rightarrow> pystr \<Rightarrow> json_dict \<Rightarrow> unit rbm option \<Rightarrow> json_dict gh" where
  "create_draft ob tag commit payload confirm_create =
     (case confirm_create of
        None \<Rightarrow> gh_bind (api (ob_gh ob) (lit ''releases'') ''POST'' (Some (JObj payload))) (\<lambda>v. gh_lift (as_dict v))
      | Some confirm \<Rightarrow>
          gh_bind (create_release_once (ob_gh ob) (JObj payload)) (\<lambda>c.
            case c of
              Created release \<Rightarrow> gh_lift (Inr release)
            | Ambiguous \<Rightarrow> reconcile_created_release ob tag commit payload confirm))"

definition payload_of :: "json \<Rightarrow> json_dict" where
  "payload_of v = (case v of JObj d \<Rightarrow> d | _ \<Rightarrow> [])"

definition publish_confirmed ::
  "(nat \<Rightarrow> pystr) \<Rightarrow> sha256 \<Rightarrow> observer \<Rightarrow> bool \<Rightarrow> pystr \<Rightarrow> pystr \<Rightarrow> staging \<Rightarrow> bool \<Rightarrow> pystr
   \<Rightarrow> unit rbm option \<Rightarrow> unit gh option \<Rightarrow> json_dict gh" where
  "publish_confirmed uni sha ob scope_verified tag commit st prerelease body confirm_create confirm_publish =
     (let gh = ob_gh ob in
      gh_bind (gh_lift (reject_restricted_assets (map fst (st_files st)))) (\<lambda>_.
      gh_bind (ensure_absent gh tag) (\<lambda>_.
      gh_bind (check_workflow_publication uni gh scope_verified commit) (\<lambda>_.
      gh_bind (api gh (lit ''git/refs'') ''POST''
                (Some (JObj [(lit ''ref'', JStr (lit ''refs/tags/'' @ tag)), (lit ''sha'', JStr commit)]))) (\<lambda>_.
      gh_bind (create_draft ob tag commit (payload_of (create_payload tag commit prerelease body)) confirm_create) (\<lambda>release.
      gh_require (jget release ''draft'' = JBool True \<and> jget release ''tag_name'' = JStr tag) ''Unexpected draft release response''
     (gh_bind (gh_lift (positive (jget release ''id''))) (\<lambda>rid.
      gh_bind (gh_each (upload gh tag st rid) (st_files st)) (\<lambda>_.
      gh_bind (verify_draft sha gh tag commit rid (st_files st)) (\<lambda>_.
      gh_bind (case confirm_publish of Some confirm \<Rightarrow> confirm | None \<Rightarrow> gh_lift (Inr ())) (\<lambda>_.
        make_public gh tag rid prerelease)))))))))))"

text \<open>Without the confirmations it is the transaction of a candidate.\<close>

lemma gh_bind_assoc: "gh_bind (gh_bind m f) g = gh_bind m (\<lambda>x. gh_bind (f x) g)"
  by (rule ext) (simp add: gh_bind_def split: prod.splits sum.splits)

lemma gh_bind_unit: "gh_bind (gh_lift (Inr x)) f = f x"
  by (rule ext) (simp add: gh_bind_def gh_lift_def)

lemma publish_unconfirmed:
  "publish_confirmed uni sha ob scope tag commit st prerelease body None None
     = publish_prepared uni sha (ob_gh ob) scope tag commit st prerelease body"
  by (simp add: publish_confirmed_def publish_prepared_def create_draft_def payload_of_def create_payload_def
      Let_def gh_bind_assoc gh_bind_unit)

section \<open>The publication token\<close>

text \<open>\<open>str.splitlines()\<close> on decoded headers.\<close>

definition is_break :: "nat \<Rightarrow> bool" where
  "is_break c \<longleftrightarrow> 10 \<le> c \<and> c \<le> 13 \<or> 28 \<le> c \<and> c \<le> 30 \<or> c \<in> {133, 8232, 8233}"

fun str_splitlines :: "pystr \<Rightarrow> pystr list" where
  "str_splitlines [] = []"
| "str_splitlines (c # s) =
     (if c = 13 \<and> s \<noteq> [] \<and> hd s = 10 then [] # str_splitlines (tl s)
      else if is_break c then [] # str_splitlines s
      else cons_line c (str_splitlines s))"

text \<open>The scopes of every \<open>x-oauth-scopes\<close> header.\<close>

definition oauth_scopes :: "bytes \<Rightarrow> pystr list" where
  "oauth_scopes headers =
     concat (map (\<lambda>line.
       (let (key, v) = partition_at 58 line
        in if 58 \<in> set line \<and> alower key = lit ''x-oauth-scopes'' then map strip (split_on 44 v) else []))
       (str_splitlines (utf8_decode_replace headers)))"

definition writable_repository :: "(nat \<Rightarrow> pystr) \<Rightarrow> github \<Rightarrow> json \<Rightarrow> bool result" where
  "writable_repository uni gh v =
     (case v of
        JObj d \<Rightarrow>
          (case jget d ''full_name'' of
             JStr name \<Rightarrow>
               rreq (py_lower uni name = py_lower uni (gh_repo gh)
                     \<and> (case jget d ''permissions'' of JObj p \<Rightarrow> jget p ''push'' = JBool True | _ \<Rightarrow> False))
                 ''Publication token cannot write the expected repository''
              (case jget d ''private'' of
                 JBool b \<Rightarrow> Inr b
               | _ \<Rightarrow> Inl (ReleaseError ''Publication token cannot write the expected repository''))
           | _ \<Rightarrow> Inl (ReleaseError ''Publication token cannot write the expected repository''))
      | _ \<Rightarrow> Inl (ReleaseError ''Publication token cannot write the expected repository''))"

definition token_scopes :: "(nat \<Rightarrow> pystr) \<Rightarrow> github \<Rightarrow> proc \<Rightarrow> unit result" where
  "token_scopes uni gh result =
     rreq (returncode result = 0) ''Publication token permission probe failed''
    (let out = unix_newlines (stdout result)
     in case find_sub [10, 10] out of
          None \<Rightarrow> Inl (ReleaseError ''Publication token permission headers are missing'')
        | Some n \<Rightarrow>
            bind_r (parse_json (jc_loads (gh_codec gh)) (drop (n + 2) out)) (\<lambda>v.
            bind_r (writable_repository uni gh v) (\<lambda>hidden.
            rreq (lit ''workflow'' \<in> set (oauth_scopes (take n out))
                  \<and> (lit ''repo'' \<in> set (oauth_scopes (take n out))
                     \<or> \<not> hidden \<and> lit ''public_repo'' \<in> set (oauth_scopes (take n out))))
              ''Publication token requires verified workflow and repo/public_repo OAuth scopes'' (Inr ()))))"

definition permission_command :: "github \<Rightarrow> command" where
  "permission_command gh =
     (map lit [''gh'', ''api'', ''--hostname'', ''github.com'', ''--method'', ''GET'', ''--include'', ''--'']
        @ [lit ''repos/'' @ gh_repo gh], None)"

definition verify_publication_permissions ::
  "(nat \<Rightarrow> pystr) \<Rightarrow> (string \<Rightarrow> pystr option) \<Rightarrow> github \<Rightarrow> unit gh" where
  "verify_publication_permissions uni environ gh =
     gh_require (environ ''RELEASE_REQUIRE_WORKFLOW_SCOPE'' = Some (lit ''true'')
                 \<and> (case environ ''GH_TOKEN'' of Some s \<Rightarrow> s \<noteq> [] | None \<Rightarrow> False))
       ''Publication token is missing or its permission probe is not enabled''
    (gh_bind (run_command (gh_env gh) (permission_command gh)) (\<lambda>out.
       gh_lift (case out of
           Completed result \<Rightarrow> token_scopes uni gh result
         | TimeoutExpired _ _ \<Rightarrow> Inl SubprocessError)))"

text \<open>The constructor: whether the workflow scope was verified.\<close>

definition open_github :: "(nat \<Rightarrow> pystr) \<Rightarrow> (string \<Rightarrow> pystr option) \<Rightarrow> github \<Rightarrow> bool gh" where
  "open_github uni environ gh =
     gh_require (fullmatch REPO_RE (gh_repo gh)) ''Repository must be OWNER/REPO''
    (if (case environ ''RELEASE_REQUIRE_WORKFLOW_SCOPE'' of Some s \<Rightarrow> s \<noteq> [] | None \<Rightarrow> False)
     then gh_bind (verify_publication_permissions uni environ gh) (\<lambda>_. gh_lift (Inr True))
     else gh_lift (Inr False))"

section \<open>One creation\<close>

text \<open>Actions that only add commands, none of which creates a release.\<close>

definition creates :: "github \<Rightarrow> command \<Rightarrow> bool" where
  "creates gh c \<longleftrightarrow>
     command_method c = lit ''POST'' \<and> last (fst c) = lit ''repos/'' @ gh_repo gh @ lit ''/releases''"

definition emits :: "nat \<Rightarrow> github \<Rightarrow> 'a gh \<Rightarrow> bool" where
  "emits n gh m \<longleftrightarrow> (\<forall>h. \<exists>cs. snd (m h) = h @ cs \<and> length (filter (creates gh) cs) \<le> n)"

named_theorems emits_intros \<open>actions that create a bounded number of releases\<close>

lemma emits_lift [emits_intros]: "emits n gh (gh_lift r)"
  by (simp add: emits_def gh_lift_def)

lemma emits_require [emits_intros]: "emits n gh m \<Longrightarrow> emits n gh (gh_require c msg m)"
  by (auto simp: emits_def gh_require_def)

lemma emits_add: "emits a gh m \<Longrightarrow> (\<And>x. emits b gh (f x)) \<Longrightarrow> emits (a + b) gh (gh_bind m f)"
  unfolding emits_def
proof
  fix h
  assume m: "\<forall>h. \<exists>cs. snd (m h) = h @ cs \<and> length (filter (creates gh) cs) \<le> a"
    and f: "\<And>x. \<forall>h. \<exists>cs. snd (f x h) = h @ cs \<and> length (filter (creates gh) cs) \<le> b"
  obtain r h1 where r: "m h = (r, h1)" by (cases "m h")
  with m obtain cs where cs: "h1 = h @ cs" "length (filter (creates gh) cs) \<le> a" by (metis snd_conv)
  show "\<exists>cs. snd (gh_bind m f h) = h @ cs \<and> length (filter (creates gh) cs) \<le> a + b"
  proof (cases r)
    case (Inl e)
    with r cs show ?thesis by (auto simp: gh_bind_def)
  next
    case (Inr x)
    from f obtain ds where "snd (f x h1) = h1 @ ds" "length (filter (creates gh) ds) \<le> b" by metis
    with r cs Inr show ?thesis by (intro exI [of _ "cs @ ds"]) (simp add: gh_bind_def)
  qed
qed

lemma emits_bind [emits_intros]: "emits 0 gh m \<Longrightarrow> (\<And>x. emits n gh (f x)) \<Longrightarrow> emits n gh (gh_bind m f)"
  using emits_add [of 0 gh m n f] by simp

lemma emits_first: "emits 1 gh m \<Longrightarrow> (\<And>x. emits 0 gh (f x)) \<Longrightarrow> emits 1 gh (gh_bind m f)"
  using emits_add [of 1 gh m 0 f] by simp

lemma emits_run: "(if creates gh c then 1 else 0) \<le> n \<Longrightarrow> emits n gh (run_command env c)"
  by (auto simp: emits_def run_command_def split: if_splits)

lemma emits_each [emits_intros]: "(\<And>x. emits 0 gh (f x)) \<Longrightarrow> emits 0 gh (gh_each f xs)"
  by (induction xs) (auto intro: emits_intros)

lemma emits_request:
  assumes "http_method = ''POST'' \<Longrightarrow> creates gh (api_command gh path http_method body mode) \<Longrightarrow> 1 \<le> n"
  shows "emits n gh (request gh path http_method body mode)"
  unfolding emits_def
proof
  fix h
  let ?c = "api_command gh path http_method body mode"
  from request_commands [of gh path http_method body mode h] obtain k where
    k: "k \<le> (if http_method = ''GET'' then 3 else 1)" "snd (request gh path http_method body mode h) = h @ replicate k ?c"
    by blast
  have "length (filter (creates gh) (replicate k ?c)) \<le> n"
  proof (cases "creates gh ?c")
    case True
    then have "http_method = ''POST''" by (simp add: creates_def)
    with True assms k(1) show ?thesis by (simp add: filter_replicate)
  qed (simp add: filter_replicate)
  with k(2) show "\<exists>cs. snd (request gh path http_method body mode h) = h @ cs \<and> length (filter (creates gh) cs) \<le> n" by blast
qed

lemma emits_api [emits_intros]: "http_method \<noteq> ''POST'' \<Longrightarrow> emits 0 gh (api gh path http_method body)"
  unfolding api_def by (intro emits_intros emits_request) simp

lemma emits_reference [emits_intros]: "emits 0 gh (api gh (lit ''git/refs'') ''POST'' body)"
  unfolding api_def
  by (intro emits_intros emits_request)
    (simp add: creates_def api_command_def mode_arguments_def endpoint_of_def rstrip_char_def lit_def)

lemma emits_creation: "emits 1 gh (api gh (lit ''releases'') ''POST'' body)"
  unfolding api_def by (intro emits_first emits_request emits_intros) simp

lemma emits_optional [emits_intros]: "emits 0 gh (optional gh path)"
proof -
  have "snd (optional gh path h) = snd (gh_get gh path h)" for h
    by (simp add: optional_def split: prod.splits sum.splits)
  moreover have "emits 0 gh (gh_get gh path)" by (intro emits_intros) simp
  ultimately show ?thesis by (simp add: emits_def)
qed

lemma emits_pages [emits_intros]: "emits 0 gh (pages gh path field_name)"
  unfolding pages_def by (intro emits_intros emits_request) simp

lemma emits_ensure_absent [emits_intros]: "emits 0 gh (ensure_absent gh tag)"
  unfolding ensure_absent_def by (intro emits_intros)

lemma emits_repository_info [emits_intros]: "emits 0 gh (repository_info uni gh)"
  unfolding repository_info_def by (intro emits_intros) simp

lemma emits_workflow_tree [emits_intros]: "emits 0 gh (workflow_tree gh sha)"
  unfolding workflow_tree_def by (intro emits_intros) simp

lemma emits_workflow_publication [emits_intros]: "emits 0 gh (check_workflow_publication uni gh scope sha)"
  unfolding check_workflow_publication_def by (auto intro!: emits_intros split: option.splits)

lemma emits_upload [emits_intros]: "emits 0 gh (upload gh tag st release_id f)"
  unfolding upload_def
  by (intro emits_intros emits_run) (simp add: creates_def upload_command_def upload_endpoint_def lit_def)

lemma emits_download [emits_intros]: "emits 0 gh (download_asset gh i)"
  unfolding download_asset_def gh_download_def
  by (intro emits_intros emits_run) (simp add: creates_def command_method_def download_command_def)

lemma emits_verify_draft [emits_intros]: "emits 0 gh (verify_draft sha gh tag commit release_id files)"
  unfolding verify_draft_def verify_uploaded_asset_def check_tag_ref_def
  by (intro emits_intros) simp

lemma emits_make_public [emits_intros]: "emits 0 gh (make_public gh tag rid prerelease)"
  unfolding make_public_def by (intro emits_intros) simp

lemma emits_created: "emits 1 gh (create_release_once gh body)"
  unfolding create_release_once_def
  by (intro emits_first emits_intros emits_run) simp

text \<open>A readback only reads, and the pages of an inventory too.\<close>

lemma steady_page [steady_intros]: "steady (inventory_page ob path page seen)"
  unfolding inventory_page_def by (auto intro!: steady_intros split: json.splits)

lemma steady_pages_from: "advances rb (snd (readback_pages_from ob path page seen records rb))"
proof (induction ob path page seen records rb rule: readback_pages_from.induct)
  case (1 ob path page seen records rb)
  have page: "advances rb (snd (inventory_page ob path page seen rb))"
    using steady_page by (simp add: steady_def)
  show ?case
  proof (cases "inventory_page ob path page seen rb")
    case (Pair r rb')
    with page 1 show ?thesis
      by (auto simp: readback_pages_from.simps [of ob path page seen records rb] split: sum.splits
          intro: advances_trans)
  qed
qed

lemma steady_pages [steady_intros]: "steady (readback_pages ob path)"
  by (simp add: steady_def readback_pages_def steady_pages_from)

lemma steady_draft [steady_intros]: "steady (empty_draft ob payload release_id author msg)"
  unfolding empty_draft_def Let_def by (intro steady_intros)

lemma steady_confirmation [steady_intros]: "steady (create_confirmation ob run source_ref consumed)"
  unfolding create_confirmation_def by (intro steady_intros)

lemma steady_reconcile: "steady confirm \<Longrightarrow> steady (reconcile ob tag commit payload confirm)"
  unfolding reconcile_def by (auto intro!: steady_intros)

text \<open>Commands that observe: at most a hundred, all of them reads.\<close>

definition observation :: "command list \<Rightarrow> bool" where
  "observation cs \<longleftrightarrow> length cs \<le> 100 \<and> list_all (\<lambda>c. command_method c = lit ''GET'') cs"

lemma reconcile_observes:
  assumes "steady confirm"
  obtains cs where "snd (reconcile_created_release ob tag commit payload confirm h) = h @ cs" "observation cs"
proof (cases "create_readback ob h")
  case (Inl e)
  then show ?thesis by (intro that [of "[]"]) (simp_all add: reconcile_created_release_def observation_def)
next
  case (Inr rb)
  then have rb: "rb_history rb = h" "rb_calls rb = 0" by (auto simp: create_readback_def)
  from steady_reconcile [OF assms] have "advances rb (snd (reconcile ob tag commit payload confirm rb))"
    by (simp add: steady_def)
  then obtain cs where "rb_history (snd (reconcile ob tag commit payload confirm rb)) = h @ cs" "observation cs"
    using rb by (auto simp: advances_def observation_def)
  with Inr show ?thesis by (intro that [of cs]) (simp_all add: reconcile_created_release_def case_prod_unfold)
qed

lemma emits_reconcile: "steady confirm \<Longrightarrow> emits 0 gh (reconcile_created_release ob tag commit payload confirm)"
  unfolding emits_def
proof
  fix h assume "steady confirm"
  then obtain cs where cs: "snd (reconcile_created_release ob tag commit payload confirm h) = h @ cs" "observation cs"
    by (rule reconcile_observes)
  then have "filter (creates gh) cs = []"
    by (auto simp: observation_def creates_def filter_empty_conv list_all_iff)
  with cs(1) show "\<exists>cs. snd (reconcile_created_release ob tag commit payload confirm h) = h @ cs
      \<and> length (filter (creates gh) cs) \<le> 0" by auto
qed

text \<open>The confirmation before publication of an automatic run reads the repository and the head again.\<close>

definition confirm_automatic_source :: "(nat \<Rightarrow> pystr) \<Rightarrow> github \<Rightarrow> json \<Rightarrow> pystr \<times> json \<Rightarrow> unit gh" where
  "confirm_automatic_source uni gh branch source_ref =
     gh_bind (repository_info uni gh) (\<lambda>info.
     gh_require (json_eq (jget info ''default_branch'') branch)
       ''Automatic publication default branch changed; draft left unpublished''
    (gh_bind (gh_get gh (fst source_ref)) (\<lambda>v.
     gh_require (json_eq v (snd source_ref))
       ''Automatic publication default source changed; draft left unpublished'' (gh_lift (Inr ())))))"

lemma emits_automatic [emits_intros]: "emits 0 gh (confirm_automatic_source uni gh branch source_ref)"
  unfolding confirm_automatic_source_def by (intro emits_intros) simp

text \<open>
  C21: A release is created by at most one request. Whatever the service answers, and whether or not the
  answer to the creation is lost, the versioned transaction only appends commands to its history and at most
  one of them creates a release: neither the reconciliation nor any later step sends the request again.
\<close>

theorem creation_is_never_replayed:
  "\<exists>cs. snd (publish_confirmed uni sha ob scope tag commit st prerelease body
          (Some (create_confirmation ob run source_ref consumed))
          (map_option (\<lambda>branch. confirm_automatic_source uni (ob_gh ob) branch source_ref) automatic) h) = h @ cs
      \<and> length (filter (creates (ob_gh ob)) cs) \<le> 1"
proof -
  let ?gh = "ob_gh ob"
  have draft: "emits 1 ?gh (create_draft ob tag commit payload (Some (create_confirmation ob run source_ref consumed)))" for payload
    unfolding create_draft_def option.case
    by (rule emits_first [OF emits_created])
      (auto intro: emits_lift emits_reconcile steady_confirmation split: created.split)
  have confirm: "emits 0 ?gh (case map_option (\<lambda>branch. confirm_automatic_source uni ?gh branch source_ref) automatic of
      Some c \<Rightarrow> c | None \<Rightarrow> gh_lift (Inr ()))"
    by (cases automatic) (auto intro: emits_intros)
  have "emits 1 ?gh (publish_confirmed uni sha ob scope tag commit st prerelease body
      (Some (create_confirmation ob run source_ref consumed))
      (map_option (\<lambda>branch. confirm_automatic_source uni ?gh branch source_ref) automatic))"
    unfolding publish_confirmed_def Let_def
    by (rule emits_lift emits_ensure_absent emits_workflow_publication emits_reference
        emits_bind [OF emits_lift] emits_bind [OF emits_ensure_absent] emits_bind [OF emits_workflow_publication]
        emits_bind [OF emits_reference] emits_first [OF draft] | intro confirm emits_intros)+
  then show ?thesis by (simp add: emits_def)
qed

text \<open>
  The observation after a lost answer is bounded. Reconciling a creation runs at most a hundred commands,
  every one of them a read, whatever the pages of the service claim to be followed by; in particular the loop
  over pages ends.
\<close>

lemma readback_is_bounded:
  "\<exists>cs. snd (reconcile_created_release ob tag commit payload (create_confirmation ob run source_ref consumed) h) = h @ cs
      \<and> length cs \<le> 100 \<and> list_all (\<lambda>c. command_method c = lit ''GET'') cs"
  by (rule reconcile_observes [OF steady_confirmation]) (auto simp: observation_def)

section \<open>What is accepted\<close>

lemma rb_bind_Inr_iff: "rb_bind m f rb = (Inr y, rb') \<longleftrightarrow> (\<exists>x rb1. m rb = (Inr x, rb1) \<and> f x rb1 = (Inr y, rb'))"
  by (auto simp: rb_bind_def split: prod.splits sum.splits)

lemma rb_lift_Inr_iff: "rb_lift r rb = (Inr y, rb') \<longleftrightarrow> r = Inr y \<and> rb' = rb"
  by (auto simp: rb_lift_def)

lemma rb_require_Inr_iff: "rb_require c msg m rb = (Inr y, rb') \<longleftrightarrow> c \<and> m rb = (Inr y, rb')"
  by (auto simp: rb_require_def)

lemmas rb_success = rb_bind_Inr_iff rb_lift_Inr_iff rb_require_Inr_iff

lemma confirmation_sound:
  assumes "create_confirmation ob run source_ref consumed rb = (Inr u, rb')"
  shows "\<exists>current source content. confirmed_run run current = Inr True \<and> json_eq source (snd source_ref)
    \<and> ledger_bytes content = Inr consumed"
  using assms by (auto simp: create_confirmation_def rb_success)

lemma checked_release_sound:
  "checked_release gh payload release_id v = Inr d \<Longrightarrow> v = JObj d \<and> is_created_draft gh payload release_id d"
  by (auto simp: checked_release_def bind_r_Inr_iff split: json.splits)

lemma single_case_Inr:
  "(case xs of [] \<Rightarrow> Inl e | x # r \<Rightarrow> (case r of [] \<Rightarrow> f x | _ # _ \<Rightarrow> Inl e)) = Inr y \<longleftrightarrow> (\<exists>x. xs = [x] \<and> f x = Inr y)"
  by (auto split: list.splits)

lemma listed_release_sound:
  assumes "listed_release gh payload tag first_rows rows = Inr (release_id, listed)"
  shows "tagged tag rows = [listed] \<and> positive (jget listed ''id'') = Inr release_id
    \<and> same_inventory first_rows rows \<and> length (tagged tag first_rows) = 1"
  using assms
  by (auto simp: listed_release_def bind_r_Inr_iff single_case_Inr dest!: checked_release_sound)

lemma empty_draft_sound:
  assumes "empty_draft ob payload release_id author msg rb = (Inr d, rb')"
  shows "is_created_draft (ob_gh ob) payload release_id d
    \<and> (\<exists>rb1. readback_pages ob (lit ''releases/'' @ int_str release_id @ lit ''/assets'') rb1 = (Inr [], rb'))"
  using assms by (auto simp: empty_draft_def Let_def rb_success dest!: checked_release_sound)

definition on_success :: "'a rbm \<Rightarrow> readback \<Rightarrow> ('a \<Rightarrow> readback \<Rightarrow> bool) \<Rightarrow> bool" where
  "on_success m rb Q = (case m rb of (Inl _, _) \<Rightarrow> True | (Inr x, rb') \<Rightarrow> Q x rb')"


end
