(* ===== verification/Version_Receipt.thy ===== *)
theory Version_Receipt
  imports Publication "HOL-Library.Multiset"
begin

text \<open>
  \<open>scripts/version_receipt.py\<close>: the receipt a platform build writes for its packages, and the checks of the
  publisher that every payload is covered by exactly one receipt of the frozen plan. Files are arguments: a
  directory is the list of its entries, the checkout is the record \<open>worktree\<close>. \<open>loads\<close> is \<open>json.loads\<close>; the
  inspection of a package's metadata and the detached provenance of container images are arguments.
\<close>

section \<open>Producers\<close>

definition PRODUCER_REPO :: rexp where
  "PRODUCER_REPO =
     (let part = r_plus (RClass True [(65, 90), (97, 122), (48, 57), (95, 95), (46, 46), (45, 45)])
      in r_seq [part, r_char 47, part])"

definition producer_identity :: "json \<Rightarrow> json \<Rightarrow> json \<Rightarrow> json \<Rightarrow> json_dict result" where
  "producer_identity repository run_id run_attempt source_sha =
     guard_r
       (str_matches PRODUCER_REPO repository
        \<and> list_all (\<lambda>part. part \<noteq> lit ''.'' \<and> part \<noteq> lit ''..'') (split_on 47 (jstr_val repository))
        \<and> (case jint run_id of Some i \<Rightarrow> 0 < i | None \<Rightarrow> False)
        \<and> (case jint run_attempt of Some i \<Rightarrow> 0 < i | None \<Rightarrow> False)
        \<and> str_matches SHA_RE source_sha)
       (ValueError ''Invalid package producer identity'')
       (Inr [(lit ''repository'', repository), (lit ''run_id'', run_id), (lit ''run_attempt'', run_attempt),
             (lit ''source_sha'', source_sha)])"

definition environ_text :: "(string \<Rightarrow> pystr option) \<Rightarrow> string \<Rightarrow> pystr" where
  "environ_text environ name = (case environ name of Some s \<Rightarrow> s | None \<Rightarrow> [])"

definition current_producer :: "(string \<Rightarrow> pystr option) \<Rightarrow> pystr \<Rightarrow> json_dict option result" where
  "current_producer environ source_sha =
     (if environ ''GITHUB_ACTIONS'' \<noteq> Some (lit ''true'') then Inr None
      else
        guard_r (fullmatch r_posint (environ_text environ ''GITHUB_RUN_ID'')
                 \<and> fullmatch r_posint (environ_text environ ''GITHUB_RUN_ATTEMPT''))
          (ValueError ''Missing or invalid Actions package producer identity'')
       (bind_r (producer_identity (JStr (environ_text environ ''GITHUB_REPOSITORY''))
                  (JInt (int (digits_val (environ_text environ ''GITHUB_RUN_ID''))))
                  (JInt (int (digits_val (environ_text environ ''GITHUB_RUN_ATTEMPT'')))) (JStr source_sha))
          (\<lambda>d. Inr (Some d))))"

definition verify_producer_identity :: "json_dict \<Rightarrow> json_dict \<Rightarrow> unit result" where
  "verify_producer_identity receipt expected =
     (case jget receipt ''producer'' of
        JObj producer \<Rightarrow>
          guard_r (fst ` set producer = fst ` set expected) (ValueError ''Receipt lacks current package producer identity'')
         (bind_r (py_getitem (JObj producer) (lit ''repository'')) (\<lambda>repository.
          bind_r (py_getitem (JObj producer) (lit ''run_id'')) (\<lambda>run_id.
          bind_r (py_getitem (JObj producer) (lit ''run_attempt'')) (\<lambda>attempt.
          bind_r (py_getitem (JObj producer) (lit ''source_sha'')) (\<lambda>commit.
          bind_r (producer_identity repository run_id attempt commit) (\<lambda>checked.
            guard_r (json_eq (JObj checked) (JObj expected))
              (ValueError ''Receipt belongs to a different package producer attempt'') (Inr ())))))))
      | _ \<Rightarrow> Inl (ValueError ''Receipt lacks current package producer identity''))"

section \<open>Canonical text\<close>

text \<open>\<open>json.dumps(value, sort_keys=True, indent=2)\<close>.\<close>

definition new_line :: "nat \<Rightarrow> pystr" where
  "new_line level = 10 # replicate (2 * level) 32"

definition brackets :: "nat \<Rightarrow> nat \<Rightarrow> nat \<Rightarrow> pystr list \<Rightarrow> pystr" where
  "brackets a b level items =
     (if items = [] then [a, b]
      else [a] @ new_line (Suc level) @ concat (hd items # map (\<lambda>i. 44 # new_line (Suc level) @ i) (tl items))
             @ new_line level @ [b])"

fun json_pretty :: "(real \<Rightarrow> pystr) \<Rightarrow> nat \<Rightarrow> json \<Rightarrow> pystr" where
  "json_pretty fr level (JList xs) = brackets 91 93 level (map (json_pretty fr (Suc level)) xs)"
| "json_pretty fr level (JObj d) =
     brackets 123 125 level
       (map (\<lambda>p. json_string (fst p) @ [58, 32] @ snd p)
         (sort_entries (map (\<lambda>p. (fst p, json_pretty fr (Suc level) (snd p))) d)))"
| "json_pretty fr level v = json_dumps fr v"

definition canonical :: "(real \<Rightarrow> pystr) \<Rightarrow> json \<Rightarrow> bytes" where
  "canonical fr v = json_pretty fr 0 v @ [10]"

section \<open>Writing a receipt\<close>

definition TOOLS :: "(string \<times> string) list" where
  "TOOLS = [(''node'', ''--version''), (''rustc'', ''--version''), (''cargo'', ''--version''), (''go'', ''version''),
            (''xcodebuild'', ''-version'')]"

text \<open>A tool that is installed prints its version, or running it fails; \<open>py_version\<close> is the head of \<open>sys.version\<close>.\<close>

fun tool_versions :: "(string \<Rightarrow> string \<Rightarrow> pystr result option) \<Rightarrow> (string \<times> string) list \<Rightarrow> json_dict result" where
  "tool_versions run [] = Inr []"
| "tool_versions run ((name, argument) # ts) =
     (case run name argument of
        None \<Rightarrow> tool_versions run ts
      | Some out \<Rightarrow>
          bind_r out (\<lambda>s.
          guard_r (strip s \<noteq> [] \<and> length (strip s) \<le> 4096) (ValueError ''Invalid toolchain version output'')
         (bind_r (tool_versions run ts) (\<lambda>d. Inr ((lit name, JStr (strip s)) # d)))))"

definition capture_toolchain ::
  "pystr \<Rightarrow> pystr \<Rightarrow> (string \<Rightarrow> pystr option) \<Rightarrow> (string \<Rightarrow> string \<Rightarrow> pystr result option) \<Rightarrow> json_dict result" where
  "capture_toolchain platform py_version environ run =
     bind_r (tool_versions run TOOLS) (\<lambda>d.
       Inr ([(lit ''platform'', JStr platform), (lit ''python'', JStr py_version)]
            @ concat (map (\<lambda>n. if environ_text environ n \<noteq> [] then [(lit n, JStr (environ_text environ n))] else [])
                [''ImageOS'', ''ImageVersion'', ''RUNNER_OS'', ''RUNNER_ARCH''])
            @ d))"

fun package_entries :: "sha256 \<Rightarrow> pystr list \<Rightarrow> (pystr \<times> entry_kind) list \<Rightarrow> json list result" where
  "package_entries sha folded [] = Inr []"
| "package_entries sha folded ((name, kind) # es) =
     guard_r (\<not> (startswith name (lit ''release-inputs-'') \<and> endswith name (lit ''.json'')))
       (ValueError ''Package directory already contains a version receipt'')
    (case kind of
       RegularFile b \<Rightarrow>
         guard_r (alower name \<notin> set folded \<and> fullmatch NAME_RE name) (ValueError ''Unsafe or duplicate package name'')
        (bind_r (package_entries sha (alower name # folded) es) (\<lambda>ps.
           Inr (JObj [(lit ''name'', JStr name), (lit ''size'', JInt (int (length b))), (lit ''sha256'', JStr (sha b))] # ps)))
     | _ \<Rightarrow> Inl (ValueError ''Package must be a flat regular file''))"

definition receipt_packages :: "sha256 \<Rightarrow> (pystr \<times> entry_kind) list \<Rightarrow> json list result" where
  "receipt_packages sha entries =
     bind_r (package_entries sha [] (sort_entries entries)) (\<lambda>ps.
       guard_r (ps \<noteq> []) (ValueError ''Cannot attest an empty package directory'') (Inr ps))"

text \<open>
  The checkout: which paths are symbolic links, the link count and size of a confined regular file, and what
  opening a path finds (a regular file or not, its link count, its bytes).
\<close>

record worktree =
  wt_symlink :: "pystr \<Rightarrow> bool"
  wt_file :: "pystr \<Rightarrow> (nat \<times> nat) option"
  wt_open :: "pystr \<Rightarrow> (bool \<times> nat \<times> bytes) result"

definition MAX_METADATA :: nat where
  "MAX_METADATA = 2000000"

definition prefixes_of :: "pystr \<Rightarrow> pystr list" where
  "prefixes_of path =
     (let parts = split_on 47 path in map (\<lambda>n. join_on 47 (take n parts)) [1..<Suc (length parts)])"

definition input_path :: "worktree \<Rightarrow> json \<Rightarrow> pystr result" where
  "input_path wt name =
     bind_r (relative name) (\<lambda>path.
     vreq (list_all (\<lambda>p. \<not> wt_symlink wt p) (prefixes_of path)) ''Symlink version input is forbidden''
    (case wt_file wt path of
       None \<Rightarrow> Inl (VersionError ''Version input is not a confined regular file'')
     | Some (links, bytes_count) \<Rightarrow>
         vreq (links = 1) ''Hard-linked version input is forbidden''
        (vreq (bytes_count \<le> MAX_METADATA) ''Version input is too large'' (Inr path))))"

definition verify_current_input :: "sha256 \<Rightarrow> worktree \<Rightarrow> json \<Rightarrow> unit result" where
  "verify_current_input sha wt item =
     bind_r (py_getitem item (lit ''path'')) (\<lambda>name.
     bind_r (input_path wt name) (\<lambda>path.
     bind_r (wt_open wt path) (\<lambda>(regular, links, data).
     guard_r (regular \<and> links = 1 \<and> length data \<le> MAX_METADATA)
       (ValueError ''Build input is not a bounded regular file'')
    (bind_r (py_getitem item (lit ''after_sha256'')) (\<lambda>expected.
     guard_r (JStr (sha data) = expected) (ValueError ''Build input changed after version sync'') (Inr ()))))))"

definition verify_current_inputs :: "sha256 \<Rightarrow> worktree \<Rightarrow> json \<Rightarrow> unit result" where
  "verify_current_inputs sha wt files = bind_r (py_iter files) (each_r (verify_current_input sha wt))"

text \<open>The digest of the effective inputs: the paths and digests of the files the build used, by path.\<close>

fun effective_entries :: "pystr list \<Rightarrow> json list \<Rightarrow> (pystr \<times> pystr) list result" where
  "effective_entries seen [] = Inr []"
| "effective_entries seen (item # items) =
     bind_r (py_getitem item (lit ''path'')) (\<lambda>name.
     bind_r (relative name) (\<lambda>path.
     vreq (path \<notin> set seen) ''Duplicate effective input path''
    (bind_r (py_getitem item (lit ''after_sha256'')) (\<lambda>v.
       case v of
         JStr d \<Rightarrow>
           vreq (SHA256 d) ''Invalid effective input digest''
          (bind_r (effective_entries (path # seen) items) (\<lambda>es. Inr ((path, d) # es)))
       | _ \<Rightarrow> Inl TypeError))))"

definition effective_inputs_digest :: "sha256 \<Rightarrow> (real \<Rightarrow> pystr) \<Rightarrow> json \<Rightarrow> pystr result" where
  "effective_inputs_digest sha fr files =
     bind_r (py_iter files) (\<lambda>items.
     bind_r (effective_entries [] items) (\<lambda>es.
       Inr (sha (json_bytes fr (JList (map (\<lambda>(p, d). JObj [(lit ''path'', JStr p), (lit ''sha256'', JStr d)]) (sort_entries es)))))))"

text \<open>The plan and the inputs a receipt is bound to.\<close>

definition bound_inputs :: "sha256 \<Rightarrow> (real \<Rightarrow> pystr) \<Rightarrow> plan \<Rightarrow> json_dict \<Rightarrow> string \<Rightarrow> string \<Rightarrow> unit result" where
  "bound_inputs sha fr p evidence plan_error source_error =
     bind_r (plan_digest sha fr (plan_json p)) (\<lambda>d.
     guard_r (jget evidence ''plan_sha256'' = JStr d) (ValueError plan_error)
    (guard_r (jget evidence ''source_sha'' = JStr (pl_source_sha p) \<and> truthy (jget evidence ''files''))
       (ValueError source_error) (Inr ())))"

definition inputs_digest_matches :: "sha256 \<Rightarrow> (real \<Rightarrow> pystr) \<Rightarrow> json_dict \<Rightarrow> string \<Rightarrow> unit result" where
  "inputs_digest_matches sha fr evidence msg =
     bind_r (effective_inputs_digest sha fr (jget evidence ''files'')) (\<lambda>d.
       guard_r (jget evidence ''effective_inputs_sha256'' = JStr d) (ValueError msg) (Inr ()))"

text \<open>The receipt and the bytes written; \<open>target\<close> tells whether the output lies in the assets and exists.\<close>

definition create_receipt ::
  "sha256 \<Rightarrow> (real \<Rightarrow> pystr) \<Rightarrow> worktree \<Rightarrow> (string \<Rightarrow> pystr option) \<Rightarrow> json_dict result \<Rightarrow> json \<Rightarrow> json
   \<Rightarrow> (pystr \<times> entry_kind) list option \<Rightarrow> pystr \<Rightarrow> bool \<times> bool \<Rightarrow> (json_dict \<times> bytes) result" where
  "create_receipt sha fr wt environ toolchain plan_value evidence_value assets output_name target =
     bind_r (validate_plan sha fr plan_value None None) (\<lambda>p.
     bind_r (as_dict evidence_value) (\<lambda>evidence.
     bind_r (bound_inputs sha fr p evidence ''Build inputs belong to a different release plan''
               ''Missing source-bound version inputs'') (\<lambda>_.
     bind_r (inputs_digest_matches sha fr evidence ''Build input evidence digest mismatch'') (\<lambda>_.
       case assets of
         None \<Rightarrow> Inl (ValueError ''Assets must be a regular directory'')
       | Some entries \<Rightarrow>
           guard_r (fst target \<and> receipt_name output_name) (ValueError ''Receipt must have a unique release-inputs-TARGET.json name'')
          (bind_r (receipt_packages sha entries) (\<lambda>packages.
           bind_r toolchain (\<lambda>tools.
           bind_r (current_producer environ (pl_source_sha p)) (\<lambda>producer.
           bind_r (verify_current_inputs sha wt (jget evidence ''files'')) (\<lambda>_.
             let base = AList.update (lit ''toolchain'') (JObj tools) (AList.update (lit ''artifacts'') (JList packages) evidence);
                 receipt = (case producer of Some d \<Rightarrow> AList.update (lit ''producer'') (JObj d) base | None \<Rightarrow> base)
             in guard_r (\<not> snd target) (OSError ''exists'') (Inr (receipt, canonical fr (JObj receipt))))))))))))"

section \<open>Projections in a receipt\<close>

definition declared_field :: "plan \<Rightarrow> json \<Rightarrow> (json \<times> json) result" where
  "declared_field p declaration =
     bind_r (py_getitem declaration (lit ''format'')) (\<lambda>fmt.
     bind_r (as_dict declaration) (\<lambda>d.
     bind_r (projected_value p d) (\<lambda>v.
     bind_r (py_getitem declaration (lit ''path'')) (\<lambda>path.
       if hashable path
       then Inr (path, JObj [(lit ''format'', fmt), (lit ''field'', jget d ''field''), (lit ''package'', jget d ''package''),
                             (lit ''projection'', dict_get d (lit ''value'') (JStr (lit ''package''))), (lit ''value'', v)])
       else Inl TypeError))))"

definition receipt_field :: "json \<Rightarrow> json result" where
  "receipt_field item =
     bind_r (as_dict item) (\<lambda>d.
       Inr (JObj (map (\<lambda>k. (lit k, jget d k)) [''format'', ''field'', ''package'', ''projection'', ''value''])))"

text \<open>\<open>sorted\<close> lists are equal when the multisets of their elements are.\<close>

definition file_fields :: "(real \<Rightarrow> pystr) \<Rightarrow> (json \<times> json) list \<Rightarrow> json \<Rightarrow> unit result" where
  "file_fields fr declared item =
     bind_r (as_dict item) (\<lambda>d.
     case jget d ''fields'' of
       JList rows \<Rightarrow>
         bind_r (map_r receipt_field rows) (\<lambda>actual.
         bind_r (py_getitem item (lit ''path'')) (\<lambda>path.
         let expected = map snd (filter (\<lambda>e. fst e = path) declared)
         in guard_r (expected \<noteq> []) (if hashable path then KeyError else TypeError)
           (guard_r (mset (map (canonical fr) actual) = mset (map (canonical fr) expected))
              (ValueError ''Receipt field values do not match the frozen plan'') (Inr ()))))
     | _ \<Rightarrow> Inl TypeError)"

definition versioning_files :: "json \<Rightarrow> json list result" where
  "versioning_files policy =
     bind_r (py_getitem policy (lit ''versioning'')) (\<lambda>v.
     bind_r (py_getitem v (lit ''files'')) py_iter)"

definition validate_input_fields :: "(real \<Rightarrow> pystr) \<Rightarrow> json \<Rightarrow> json \<Rightarrow> plan \<Rightarrow> unit result" where
  "validate_input_fields fr files policy p =
     bind_r (versioning_files policy) (\<lambda>declarations.
     bind_r (map_r (declared_field p) declarations) (\<lambda>declared.
     bind_r (py_iter files) (each_r (file_fields fr declared))))"

section \<open>Verifying receipts\<close>

definition item_path :: "json \<Rightarrow> json result" where
  "item_path item = bind_r (py_getitem item (lit ''path'')) (\<lambda>v. if hashable v then Inr v else Inl TypeError)"

definition covers_declared_files :: "json_dict \<Rightarrow> json \<Rightarrow> unit result" where
  "covers_declared_files receipt policy =
     bind_r (bind_r (py_iter (jget receipt ''files'')) (map_r item_path)) (\<lambda>paths.
     bind_r (bind_r (versioning_files policy) (map_r item_path)) (\<lambda>declared.
       guard_r (set paths = set declared) (ValueError ''Receipt does not cover every declared version source'') (Inr ())))"

definition verify_receipt_evidence ::
  "sha256 \<Rightarrow> (real \<Rightarrow> pystr) \<Rightarrow> json_dict \<Rightarrow> plan \<Rightarrow> json option \<Rightarrow> json_dict option \<Rightarrow> unit result" where
  "verify_receipt_evidence sha fr receipt p policy expected_producer =
     bind_r (bound_inputs sha fr p receipt ''Build used a different release plan''
               ''Receipt lacks source-bound version input evidence'') (\<lambda>_.
     bind_r (case expected_producer of Some e \<Rightarrow> verify_producer_identity receipt e | None \<Rightarrow> Inr ()) (\<lambda>_.
     guard_r (case jget receipt ''toolchain'' of JObj t \<Rightarrow> truthy (jget t ''python'') | _ \<Rightarrow> False)
       (ValueError ''Receipt lacks actual build toolchain versions'')
    (bind_r (inputs_digest_matches sha fr receipt ''Receipt version input digest mismatch'') (\<lambda>_.
       case policy of
         None \<Rightarrow> Inr ()
       | Some pol \<Rightarrow>
           bind_r (covers_declared_files receipt pol) (\<lambda>_.
             validate_input_fields fr (jget receipt ''files'') pol p)))))"

text \<open>\<open>{entry["name"]: entry for entry in payloads}\<close>; a name that is no string fails in the pattern.\<close>

definition payload_entry :: "json \<Rightarrow> (pystr \<times> json) result" where
  "payload_entry entry =
     bind_r (py_getitem entry (lit ''name'')) (\<lambda>v. case v of JStr s \<Rightarrow> Inr (s, entry) | _ \<Rightarrow> Inl TypeError)"

fun cover_artifacts :: "(pystr \<times> json) list \<Rightarrow> pystr list \<Rightarrow> pystr list \<Rightarrow> json list \<Rightarrow> pystr list result" where
  "cover_artifacts expected receipts covered [] = Inr covered"
| "cover_artifacts expected receipts covered (artifact # rest) =
     bind_r (as_dict artifact) (\<lambda>d.
       case jget d ''name'' of
         JStr name \<Rightarrow>
           guard_r (name \<notin> set covered \<and> name \<notin> set receipts) (ValueError ''Payload has duplicate or recursive build coverage'')
          (guard_r (case map_of expected name of Some entry \<Rightarrow> json_eq entry artifact | None \<Rightarrow> False)
             (ValueError ''Receipt does not match staged payload'')
           (cover_artifacts expected receipts (covered @ [name]) rest))
       | _ \<Rightarrow> Inl (if hashable (jget d ''name'') then ValueError ''Receipt does not match staged payload'' else TypeError))"

definition cover_receipt_artifacts :: "json_dict \<Rightarrow> (pystr \<times> json) list \<Rightarrow> pystr list \<Rightarrow> pystr list \<Rightarrow> pystr list result" where
  "cover_receipt_artifacts receipt expected receipts covered =
     (case jget receipt ''artifacts'' of
        JList artifacts \<Rightarrow>
          guard_r (artifacts \<noteq> []) (ValueError ''Empty receipt artifact inventory'')
            (cover_artifacts expected receipts covered artifacts)
      | _ \<Rightarrow> Inl (ValueError ''Empty receipt artifact inventory''))"

definition MAX_RECEIPT_BYTES :: nat where
  "MAX_RECEIPT_BYTES = 2000000"

record receipt_result =
  rr_name :: pystr
  rr_sha256 :: pystr
  rr_inputs :: json_dict

fun verify_each ::
  "sha256 \<Rightarrow> (real \<Rightarrow> pystr) \<Rightarrow> (bytes \<Rightarrow> json result) \<Rightarrow> staged list \<Rightarrow> plan \<Rightarrow> json option \<Rightarrow> json_dict option
   \<Rightarrow> (pystr \<times> json) list \<Rightarrow> pystr list \<Rightarrow> pystr list \<Rightarrow> pystr list \<Rightarrow> (receipt_result list \<times> pystr list) result" where
  "verify_each sha fr loads directory p policy producer expected receipts covered [] = Inr ([], covered)"
| "verify_each sha fr loads directory p policy producer expected receipts covered (name # names) =
     (case map_of directory name of
        None \<Rightarrow> Inl (OSError ''missing'')
      | Some raw \<Rightarrow>
          guard_r (length raw \<le> MAX_RECEIPT_BYTES) (ValueError ''Oversized build receipt'')
         (bind_r (loads raw) (\<lambda>v.
          bind_r (as_dict v) (\<lambda>receipt.
          bind_r (verify_receipt_evidence sha fr receipt p policy producer) (\<lambda>_.
          bind_r (cover_receipt_artifacts receipt expected receipts covered) (\<lambda>covered'.
          bind_r (verify_each sha fr loads directory p policy producer expected receipts covered' names) (\<lambda>(rs, all_covered).
            Inr (\<lparr>rr_name = name, rr_sha256 = sha raw, rr_inputs = receipt\<rparr> # rs, all_covered))))))))"

definition DETACHED_PROVENANCE_REQUIRED :: bool where
  "DETACHED_PROVENANCE_REQUIRED = False"

text \<open>\<open>provenance\<close> is \<open>release_provenance.verify_all\<close> on this directory.\<close>

definition detached_provenance :: "unit result \<Rightarrow> json option \<Rightarrow> unit result" where
  "detached_provenance provenance policy =
     (case policy of
        None \<Rightarrow> Inr ()
      | Some pol \<Rightarrow>
          bind_r (py_get pol (lit ''detached_provenance'') JNull) (\<lambda>v.
            if DETACHED_PROVENANCE_REQUIRED \<or> truthy v then provenance else Inr ()))"

definition sorted_names :: "pystr list \<Rightarrow> pystr list" where
  "sorted_names names = map fst (sort_entries (map (\<lambda>n. (n, ())) names))"

definition verify_receipts ::
  "sha256 \<Rightarrow> (real \<Rightarrow> pystr) \<Rightarrow> (bytes \<Rightarrow> json result) \<Rightarrow> unit result \<Rightarrow> staged list \<Rightarrow> plan \<Rightarrow> json list
   \<Rightarrow> json option \<Rightarrow> json_dict option \<Rightarrow> receipt_result list result" where
  "verify_receipts sha fr loads provenance directory p payloads policy producer =
     bind_r (map_r payload_entry payloads) (\<lambda>entries.
     let expected = py_update [] entries;
         receipts = filter receipt_name (map fst expected)
     in guard_r (receipts \<noteq> []) (ValueError ''Versioned release has no build receipts'')
       (bind_r (verify_each sha fr loads directory p policy producer expected receipts [] (sorted_names receipts)) (\<lambda>(results, covered).
        guard_r (set covered = set (map fst expected) - set receipts)
          (ValueError ''Some release payloads lack version input evidence'')
       (bind_r (detached_provenance provenance policy) (\<lambda>_. Inr results)))))"

definition verify_required_build_receipts :: "receipt_result list \<Rightarrow> json \<Rightarrow> unit result" where
  "verify_required_build_receipts receipts policy =
     bind_r (py_getitem policy (lit ''versioning'')) (\<lambda>v.
     bind_r (as_dict v) (\<lambda>config.
     bind_r (required_build_receipts config) (\<lambda>required.
       case required of
         None \<Rightarrow> Inr ()
       | Some names \<Rightarrow>
           guard_r (distinct (map rr_name receipts)) (ValueError ''Duplicate authenticated build receipts'')
          (guard_r (set (map rr_name receipts) = set names) (ValueError ''Build receipt inventory differs from source policy'')
            (Inr ())))))"

section \<open>Declared packages\<close>

text \<open>\<open>fnmatch.fnmatchcase\<close>: the characters of a bracket expression, and the matcher.\<close>

fun class_items :: "pystr \<Rightarrow> (nat \<times> nat) list" where
  "class_items (a # m # b # r) = (if m = 45 then (a, b) # class_items r else (a, a) # class_items (m # b # r))"
| "class_items [] = []"
| "class_items (a # r) = (a, a) # class_items r"

text \<open>What stands between the brackets and what follows, when the bracket is closed.\<close>

definition bracket_skip :: "pystr \<Rightarrow> nat" where
  "bracket_skip p =
     (let skip = (if p \<noteq> [] \<and> hd p = 33 then 1 else 0)
      in if skip < length p \<and> p ! skip = 93 then Suc skip else skip)"

definition bracket_body :: "pystr \<Rightarrow> (pystr \<times> pystr) option" where
  "bracket_body p =
     (let rest = dropWhile (\<lambda>c. c \<noteq> 93) (drop (bracket_skip p) p)
      in if rest = [] then None else Some (take (length p - length rest) p, tl rest))"

definition in_bracket :: "pystr \<Rightarrow> nat \<Rightarrow> bool" where
  "in_bracket body c =
     (if body \<noteq> [] \<and> hd body = 33 then \<not> list_ex (\<lambda>(a, b). a \<le> c \<and> c \<le> b) (class_items (tl body))
      else list_ex (\<lambda>(a, b). a \<le> c \<and> c \<le> b) (class_items body))"

text \<open>One character against the head of a pattern: what is left of the pattern.\<close>

definition match_one :: "pystr \<Rightarrow> nat \<Rightarrow> pystr option" where
  "match_one p c =
     (if hd p = 63 then Some (tl p)
      else if hd p = 91
      then (case bracket_body (tl p) of
              Some (body, rest) \<Rightarrow> if in_bracket body c then Some rest else None
            | None \<Rightarrow> if c = 91 then Some (tl p) else None)
      else if c = hd p then Some (tl p) else None)"

lemma bracket_body_shorter:
  assumes "bracket_body p = Some (body, rest)"
  shows "length rest < length p"
proof -
  let ?r = "dropWhile (\<lambda>c. c \<noteq> 93) (drop (bracket_skip p) p)"
  from assms have "?r \<noteq> []" "rest = tl ?r" by (simp_all add: bracket_body_def Let_def split: if_splits)
  moreover have "length ?r \<le> length p"
    using length_dropWhile_le [of "\<lambda>c. c \<noteq> 93" "drop (bracket_skip p) p"] by simp
  ultimately show ?thesis by (cases ?r) simp_all
qed

lemma match_one_shorter:
  assumes "match_one p c = Some r"
  shows "length r \<le> length p"
proof (cases "bracket_body (tl p)")
  case None
  with assms show ?thesis by (simp add: match_one_def split: if_splits) (metis length_tl diff_le_self)+
next
  case (Some q)
  obtain body rest where q: "q = (body, rest)" by (cases q)
  with Some bracket_body_shorter [of "tl p" body rest] have "length rest \<le> length p" by simp
  moreover have "r = rest \<or> r = tl p" using assms Some q by (simp add: match_one_def split: if_splits)
  ultimately show ?thesis by auto
qed

function fnmatch :: "pystr \<Rightarrow> pystr \<Rightarrow> bool" where
  "fnmatch p s =
     (if p = [] then s = []
      else if hd p = 42 then fnmatch (tl p) s \<or> (case s of [] \<Rightarrow> False | _ # t \<Rightarrow> fnmatch p t)
      else (case s of
              [] \<Rightarrow> False
            | c # t \<Rightarrow> (case match_one p c of None \<Rightarrow> False | Some r \<Rightarrow> fnmatch r t)))"
  by pat_completeness auto

termination fnmatch
  by (relation "measure (\<lambda>(p, s). length p + length s)") (auto dest!: match_one_shorter)

declare fnmatch.simps [simp del]

definition inspect_package ::
  "(staged \<Rightarrow> json_dict \<Rightarrow> plan \<Rightarrow> json_dict result) \<Rightarrow> json_dict \<Rightarrow> plan \<Rightarrow> staged \<Rightarrow> json result" where
  "inspect_package verify_artifact d p f =
     bind_r (verify_artifact f d p) (\<lambda>inspected. Inr (JObj (AList.update (lit ''path'') (JStr (fst f)) inspected)))"

definition declared_packages ::
  "(staged \<Rightarrow> json_dict \<Rightarrow> plan \<Rightarrow> json_dict result) \<Rightarrow> staged list \<Rightarrow> plan \<Rightarrow> json \<Rightarrow> json list result" where
  "declared_packages verify_artifact directory p declaration =
     bind_r (as_dict declaration) (\<lambda>d.
       case jget d ''path'' of
         JStr pattern \<Rightarrow>
           guard_r (47 \<notin> set pattern \<and> 92 \<notin> set pattern)
             (ValueError ''Published artifact selectors must match flat asset names'')
          (let matches = sort_entries (filter (\<lambda>f. fnmatch pattern (fst f)) directory)
           in guard_r (matches \<noteq> []) (ValueError ''Declared package metadata target is missing'')
                (map_r (inspect_package verify_artifact d p) matches))
       | _ \<Rightarrow> Inl (ValueError ''Published artifact selectors must match flat asset names''))"

definition verify_declared_artifacts ::
  "(staged \<Rightarrow> json_dict \<Rightarrow> plan \<Rightarrow> json_dict result) \<Rightarrow> staged list \<Rightarrow> json \<Rightarrow> plan \<Rightarrow> json list result" where
  "verify_declared_artifacts verify_artifact directory policy p =
     bind_r (py_getitem policy (lit ''versioning'')) (\<lambda>v.
     bind_r (py_get v (lit ''artifacts'') (JList [])) (\<lambda>a.
     bind_r (py_iter a) (\<lambda>declarations.
     bind_r (map_r (declared_packages verify_artifact directory p) declarations) (\<lambda>rows. Inr (concat rows)))))"

section \<open>Coverage\<close>

definition artifact_name :: "json \<Rightarrow> pystr" where
  "artifact_name a = (case a of JObj d \<Rightarrow> jstr_val (jget d ''name'') | _ \<Rightarrow> [])"

definition receipt_items :: "receipt_result \<Rightarrow> json list" where
  "receipt_items r = (case jget (rr_inputs r) ''artifacts'' of JList as \<Rightarrow> as | _ \<Rightarrow> [])"

definition staged_as :: "(pystr \<times> json) list \<Rightarrow> json \<Rightarrow> bool" where
  "staged_as expected a \<longleftrightarrow> (\<exists>e. map_of expected (artifact_name a) = Some e \<and> json_eq e a)"

lemma cover_artifacts_sound:
  assumes "cover_artifacts expected receipts covered arts = Inr covered'" and "distinct covered"
  shows "covered' = covered @ map artifact_name arts \<and> distinct covered'
    \<and> set (map artifact_name arts) \<inter> set receipts = {} \<and> list_all (staged_as expected) arts"
  using assms
proof (induction arts arbitrary: covered)
  case (Cons a arts)
  from Cons.prems(1) obtain d name entry where a: "a = JObj d" "jget d ''name'' = JStr name"
    and new: "name \<notin> set covered" "name \<notin> set receipts"
    and entry: "map_of expected name = Some entry" "json_eq entry a"
    and rest: "cover_artifacts expected receipts (covered @ [name]) arts = Inr covered'"
    by (cases a) (auto simp: as_dict_def json_case_Inr split: option.splits)
  have name: "artifact_name a = name" by (simp add: artifact_name_def a)
  from new Cons.prems(2) have "distinct (covered @ [name])" by simp
  note ih = Cons.IH [OF rest this]
  show ?case
  proof (intro conjI)
    show "covered' = covered @ map artifact_name (a # arts)" using ih name by simp
    show "distinct covered'" using ih by blast
    show "set (map artifact_name (a # arts)) \<inter> set receipts = {}" using ih name new by simp
    show "list_all (staged_as expected) (a # arts)" using ih name entry by (simp add: staged_as_def [of _ a])
  qed
qed simp

text \<open>One verified receipt: its bytes, its evidence, its artifacts.\<close>

definition sound_receipt ::
  "sha256 \<Rightarrow> (real \<Rightarrow> pystr) \<Rightarrow> (bytes \<Rightarrow> json result) \<Rightarrow> staged list \<Rightarrow> plan \<Rightarrow> json option \<Rightarrow> json_dict option
   \<Rightarrow> (pystr \<times> json) list \<Rightarrow> receipt_result \<Rightarrow> bool" where
  "sound_receipt sha fr loads directory p policy producer expected r \<longleftrightarrow>
     (\<exists>raw. map_of directory (rr_name r) = Some raw \<and> rr_sha256 r = sha raw \<and> loads raw = Inr (JObj (rr_inputs r)))
     \<and> verify_receipt_evidence sha fr (rr_inputs r) p policy producer = Inr ()
     \<and> list_all (staged_as expected) (receipt_items r)"

lemma verify_each_sound:
  assumes "verify_each sha fr loads directory p policy producer expected receipts covered names = Inr (results, all_covered)"
    and "distinct covered" and "set covered \<inter> set receipts = {}"
  shows "map rr_name results = names \<and> all_covered = covered @ concat (map (\<lambda>r. map artifact_name (receipt_items r)) results)
    \<and> distinct all_covered \<and> set all_covered \<inter> set receipts = {}
    \<and> list_all (sound_receipt sha fr loads directory p policy producer expected) results"
  using assms
proof (induction names arbitrary: covered results)
  case (Cons name names)
  from Cons.prems(1) obtain raw receipt covered' rs where
    raw: "map_of directory name = Some raw" "loads raw = Inr (JObj receipt)"
    and evidence: "verify_receipt_evidence sha fr receipt p policy producer = Inr ()"
    and cover: "cover_receipt_artifacts receipt expected receipts covered = Inr covered'"
    and rest: "verify_each sha fr loads directory p policy producer expected receipts covered' names = Inr (rs, all_covered)"
    and results: "results = \<lparr>rr_name = name, rr_sha256 = sha raw, rr_inputs = receipt\<rparr> # rs"
    by (auto simp: bind_r_Inr_iff as_dict_def json_case_Inr split: option.splits prod.splits)
  from cover obtain arts where arts: "jget receipt ''artifacts'' = JList arts"
    "cover_artifacts expected receipts covered arts = Inr covered'"
    by (auto simp: cover_receipt_artifacts_def split: json.splits)
  note c = cover_artifacts_sound [OF arts(2) Cons.prems(2)]
  have fresh: "distinct covered'" using c by blast
  have apart: "set covered' \<inter> set receipts = {}"
    using c Cons.prems(3) by (simp add: Int_Un_distrib2)
  note ih = Cons.IH [OF rest fresh apart]
  have items: "receipt_items \<lparr>rr_name = name, rr_sha256 = sha raw, rr_inputs = receipt\<rparr> = arts"
    by (simp add: receipt_items_def arts(1))
  show ?case
  proof (intro conjI)
    show "map rr_name results = name # names" using ih results by simp
    show "all_covered = covered @ concat (map (\<lambda>r. map artifact_name (receipt_items r)) results)"
      using ih c items results by simp
    show "distinct all_covered" "set all_covered \<inter> set receipts = {}" using ih by blast+
    show "list_all (sound_receipt sha fr loads directory p policy producer expected) results"
      using ih c items results raw evidence by (simp add: sound_receipt_def [of _ _ _ _ _ _ _ _ "\<lparr>rr_name = name, rr_sha256 = sha raw, rr_inputs = receipt\<rparr>"])
  qed
qed simp

lemma py_update_fresh: "distinct (map fst kvs) \<Longrightarrow> fst ` set d \<inter> fst ` set kvs = {} \<Longrightarrow> py_update d kvs = d @ kvs"
proof (induction kvs arbitrary: d)
  case (Cons kv kvs)
  have "AList.update (fst kv) (snd kv) d = d @ [kv]" if "fst kv \<notin> fst ` set d"
    using that by (induction d) auto
  with Cons show ?case by (force simp: py_update_def)
qed (simp add: py_update_def)

text \<open>
  C24: Every payload is attested exactly once. When the receipts of a staged directory are accepted, there is
  one result per receipt file, in order; each is the file's own bytes, bound to the plan, the policy and the
  producer; the names the receipts cover are the payloads that are no receipt, each of them once; and every
  covered artifact equals the staged payload of its name.
\<close>

theorem every_payload_has_one_receipt:
  assumes "verify_receipts sha fr loads provenance directory p payloads policy producer = Inr results"
    and "map_r payload_entry payloads = Inr entries" and "distinct (map fst entries)"
  shows "map rr_name results = sorted_names (filter receipt_name (map fst entries))
    \<and> mset (concat (map (\<lambda>r. map artifact_name (receipt_items r)) results))
        = mset (filter (\<lambda>n. \<not> receipt_name n) (map fst entries))
    \<and> list_all (sound_receipt sha fr loads directory p policy producer entries) results"
proof -
  have expected: "py_update [] entries = entries" using py_update_fresh [OF assms(3), of "[]"] by simp
  from assms(1) obtain covered where
    each: "verify_each sha fr loads directory p policy producer entries (filter receipt_name (map fst entries)) []
      (sorted_names (filter receipt_name (map fst entries))) = Inr (results, covered)"
    and all: "set covered = set (map fst entries) - set (filter receipt_name (map fst entries))"
    by (auto simp: verify_receipts_def assms(2) expected Let_def bind_r_Inr_iff)
  from verify_each_sound [OF each] have s: "map rr_name results = sorted_names (filter receipt_name (map fst entries))"
    "covered = concat (map (\<lambda>r. map artifact_name (receipt_items r)) results)" "distinct covered"
    "list_all (sound_receipt sha fr loads directory p policy producer entries) results"
    by fastforce+
  have "set covered = set (filter (\<lambda>n. \<not> receipt_name n) (map fst entries))" using all by auto
  with s(3) assms(3) have "mset covered = mset (filter (\<lambda>n. \<not> receipt_name n) (map fst entries))"
    by (metis distinct_filter set_eq_iff_mset_eq_distinct)
  with s show ?thesis by simp
qed

section \<open>Witness\<close>

definition zero_digest :: pystr where
  "zero_digest = replicate 64 48"

definition receipt_plan :: plan where
  "receipt_plan = \<lparr>pl_base_version = lit ''1.2.3'', pl_version = lit ''1.2.3-beta.4'', pl_channel = lit ''beta'',
     pl_sequence = JInt 4, pl_tag = lit ''v1.2.3-beta.4'', pl_source_sha = replicate 40 48, pl_build_number = Some 7,
     pl_policy_sha256 = zero_digest, pl_promotion = lit ''promote-bytes''\<rparr>"

definition receipt_field_row :: json where
  "receipt_field_row = JObj [(lit ''format'', JStr (lit ''text'')), (lit ''field'', JNull), (lit ''package'', JNull),
     (lit ''projection'', JStr (lit ''package'')), (lit ''value'', JStr (lit ''1.2.3-beta.4''))]"

definition sample_artifact :: json where
  "sample_artifact = JObj [(lit ''name'', JStr (lit ''a'')), (lit ''size'', JInt 1), (lit ''sha256'', JStr zero_digest)]"

definition sample_inputs :: json_dict where
  "sample_inputs =
     [(lit ''plan_sha256'', JStr zero_digest), (lit ''source_sha'', JStr (replicate 40 48)),
      (lit ''files'', JList [JObj [(lit ''path'', JStr (lit ''VERSION'')), (lit ''after_sha256'', JStr zero_digest),
         (lit ''fields'', JList [receipt_field_row])]]),
      (lit ''toolchain'', JObj [(lit ''python'', JStr (lit ''3''))]), (lit ''effective_inputs_sha256'', JStr zero_digest),
      (lit ''artifacts'', JList [sample_artifact])]"

definition receipt_file :: pystr where
  "receipt_file = lit ''release-inputs-x.json''"

definition receipt_payload :: json where
  "receipt_payload = JObj [(lit ''name'', JStr receipt_file), (lit ''size'', JInt 1), (lit ''sha256'', JStr zero_digest)]"

lemma receipt_plan_digest: "plan_digest sample_sha (\<lambda>_. []) (plan_json receipt_plan) = Inr zero_digest"
proof -
  have tag: "lit ''v1.2.3-beta.4'' = lit ''v'' @ lit ''1.2.3-beta.4''" by (simp add: lit_def)
  show ?thesis
    by (simp add: plan_digest_def validate_plan_def receipt_plan_def plan_json_def plan_dict_def plan_keys_def dict_get_def
        sample_identity SHA_def SHA256_def zero_digest_def is_hex_lower_def is_digit_def promotion_ok_def in_strings_def
        build_ok_def opt_int_def jint_def sample_sha_def list_all_iff tag insert_commute)
qed

lemma receipt_name_sample: "receipt_name receipt_file" "\<not> receipt_name (lit ''a'')"
  by (simp_all add: receipt_name_def receipt_file_def lit_def startswith_def is_digit_def Let_def)

lemma sample_evidence:
  "verify_receipt_evidence sample_sha (\<lambda>_. []) sample_inputs receipt_plan (Some sample_policy) None = Inr ()"
proof -
  have path: "relative (JStr (lit ''VERSION'')) = Inr (lit ''VERSION'')"
    by (simp add: relative_def startswith_def lit_def)
  have "bound_inputs sample_sha (\<lambda>_. []) receipt_plan sample_inputs a b = Inr ()" for a b
    by (simp add: bound_inputs_def receipt_plan_digest sample_inputs_def dict_get_def)
      (simp add: receipt_plan_def)
  moreover have "inputs_digest_matches sample_sha (\<lambda>_. []) sample_inputs a = Inr ()" for a
    by (simp add: inputs_digest_matches_def effective_inputs_digest_def sample_inputs_def dict_get_def py_iter_def
        py_getitem_def path SHA256_def zero_digest_def is_hex_lower_def is_digit_def sample_sha_def list_all_iff)
  moreover have "covers_declared_files sample_inputs sample_policy = Inr ()"
    by (simp add: covers_declared_files_def sample_inputs_def dict_get_def py_iter_def item_path_def py_getitem_def
        hashable_def versioning_files_def sample_policy_def)
  moreover have "validate_input_fields (\<lambda>_. []) (jget sample_inputs ''files'') sample_policy receipt_plan = Inr ()"
    by (simp add: validate_input_fields_def versioning_files_def sample_policy_def sample_inputs_def dict_get_def py_iter_def
        py_getitem_def declared_field_def as_dict_def projected_value_def projections_def in_strings_def receipt_plan_def
        hashable_def file_fields_def receipt_field_def receipt_field_row_def)
  ultimately show ?thesis
    by (simp add: verify_receipt_evidence_def) (simp add: sample_inputs_def dict_get_def)
qed

theorem every_payload_has_one_receipt_witness:
  "list_all (sound_receipt sample_sha (\<lambda>_. []) (\<lambda>_. Inr (JObj sample_inputs)) [(receipt_file, [1])] receipt_plan
      (Some sample_policy) None [(lit ''a'', sample_artifact), (receipt_file, receipt_payload)])
     [\<lparr>rr_name = receipt_file, rr_sha256 = zero_digest, rr_inputs = sample_inputs\<rparr>]"
proof -
  have payloads: "payload_entry sample_artifact = Inr (lit ''a'', sample_artifact)"
    "payload_entry receipt_payload = Inr (receipt_file, receipt_payload)"
    by (simp_all add: payload_entry_def sample_artifact_def receipt_payload_def py_getitem_def)
  then have entries: "map_r payload_entry [sample_artifact, receipt_payload]
      = Inr [(lit ''a'', sample_artifact), (receipt_file, receipt_payload)]" by simp
  have names: "lit ''a'' \<noteq> receipt_file" by (simp add: receipt_file_def)
  have cover: "cover_receipt_artifacts sample_inputs [(lit ''a'', sample_artifact), (receipt_file, receipt_payload)]
      [receipt_file] [] = Inr [lit ''a'']"
    using names
    by (simp add: cover_receipt_artifacts_def sample_inputs_def dict_get_def sample_artifact_def as_dict_def)
  have provenance: "detached_provenance (Inr ()) (Some sample_policy) = Inr ()"
    by (simp add: detached_provenance_def py_get_def sample_policy_def dict_get_def)
  have each: "verify_each sample_sha (\<lambda>_. []) (\<lambda>_. Inr (JObj sample_inputs)) [(receipt_file, [1])] receipt_plan
      (Some sample_policy) None [(lit ''a'', sample_artifact), (receipt_file, receipt_payload)] [receipt_file] [] [receipt_file]
      = Inr ([\<lparr>rr_name = receipt_file, rr_sha256 = zero_digest, rr_inputs = sample_inputs\<rparr>], [lit ''a''])"
    using cover by (simp add: MAX_RECEIPT_BYTES_def as_dict_def sample_evidence) (simp add: sample_sha_def zero_digest_def)
  have sorted: "sorted_names [receipt_file] = [receipt_file]"
    by (simp add: sorted_names_def sort_entries_def)
  have update: "py_update [] [(lit ''a'', sample_artifact), (receipt_file, receipt_payload)]
      = [(lit ''a'', sample_artifact), (receipt_file, receipt_payload)]"
    using names by (simp add: py_update_def)
  have "verify_receipts sample_sha (\<lambda>_. []) (\<lambda>_. Inr (JObj sample_inputs)) (Inr ()) [(receipt_file, [1])] receipt_plan
      [sample_artifact, receipt_payload] (Some sample_policy) None
      = Inr [\<lparr>rr_name = receipt_file, rr_sha256 = zero_digest, rr_inputs = sample_inputs\<rparr>]"
    unfolding verify_receipts_def entries bind_r_simps update Let_def
    using names receipt_name_sample each provenance by (simp add: sorted insert_Diff_if)
  from every_payload_has_one_receipt [OF this entries] names show ?thesis by simp
qed

end
