(* ===== verification/Toolchains.thy ===== *)
theory Toolchains
  imports Version_Receipt
begin

text \<open>
  The comparison of build toolchains in \<open>scripts/release_versioned.py\<close>: an accepted candidate and its final
  build must name equal toolchains in every receipt; the differences are listed without their values, at most
  a hundred of them. The loop over the stack of pending values ends because every child is smaller.
\<close>

section \<open>Labels\<close>

text \<open>\<open>encode("utf-8", "surrogatepass")\<close>.\<close>

definition pass_cp :: "nat \<Rightarrow> bytes" where
  "pass_cp c =
     (case utf8_cp c of
        Some bs \<Rightarrow> bs
      | None \<Rightarrow> [224 + c div 4096, 128 + c div 64 mod 64, 128 + c mod 64])"

definition label_char :: "nat \<Rightarrow> bool" where
  "label_char c \<longleftrightarrow>
     is_digit c \<or> 65 \<le> c \<and> c \<le> 90 \<or> 97 \<le> c \<and> c \<le> 122 \<or> c \<in> {95, 46, 47, 126, 45}"

definition diagnostic_label :: "sha256 \<Rightarrow> pystr \<Rightarrow> pystr" where
  "diagnostic_label sha s =
     (if s \<noteq> [] \<and> length s \<le> 200 \<and> list_all label_char s then s
      else lit ''redacted-sha256-'' @ sha (concat (map pass_cp s)))"

section \<open>Differences\<close>

text \<open>A value that may be missing on one side, and a pending comparison with its path.\<close>

type_synonym pending = "pystr \<times> json option \<times> json option"

definition type_name :: "json \<Rightarrow> string" where
  "type_name v =
     (case v of
        JNull \<Rightarrow> ''NoneType'' | JBool _ \<Rightarrow> ''bool'' | JInt _ \<Rightarrow> ''int'' | JFloat _ \<Rightarrow> ''float''
      | JStr _ \<Rightarrow> ''str'' | JList _ \<Rightarrow> ''list'' | JObj _ \<Rightarrow> ''dict'')"

definition escape_key :: "pystr \<Rightarrow> pystr" where
  "escape_key k = concat (map (\<lambda>c. if c = 126 then [126, 48] else if c = 47 then [126, 49] else [c]) k)"

definition mapping_keys :: "json_dict \<Rightarrow> json_dict \<Rightarrow> pystr list" where
  "mapping_keys before after = sorted_names (remdups (map fst before @ map fst after))"

definition queue_mapping :: "sha256 \<Rightarrow> pystr \<Rightarrow> json_dict \<Rightarrow> json_dict \<Rightarrow> pending list" where
  "queue_mapping sha path before after =
     map (\<lambda>k. (diagnostic_label sha (path @ [47] @ escape_key k), map_of before k, map_of after k))
       (mapping_keys before after)"

definition nth_opt :: "'a list \<Rightarrow> nat \<Rightarrow> 'a option" where
  "nth_opt xs i = (if i < length xs then Some (xs ! i) else None)"

definition queue_list :: "sha256 \<Rightarrow> pystr \<Rightarrow> json list \<Rightarrow> json list \<Rightarrow> pending list" where
  "queue_list sha path before after =
     map (\<lambda>i. (diagnostic_label sha (path @ [47] @ nat_digits i), nth_opt before i, nth_opt after i))
       [0..<max (length before) (length after)]"

text \<open>One pending comparison: what it reports, and the comparisons it pushes, the next one to pop first.\<close>

fun change_step :: "sha256 \<Rightarrow> pending \<Rightarrow> (pystr \<times> pystr) list \<times> pending list" where
  "change_step sha (path, None, after) = ([(path, lit ''missing in accepted RC'')], [])"
| "change_step sha (path, Some b, None) = ([(path, lit ''missing in final build'')], [])"
| "change_step sha (path, Some b, Some a) =
     (if json_eq b a then ([], [])
      else if type_name b \<noteq> type_name a
      then ([(path, lit ''type changed ('' @ lit (type_name b) @ lit '' -> '' @ lit (type_name a) @ lit '')'')], [])
      else (case (b, a) of
              (JObj d, JObj e) \<Rightarrow> ([], queue_mapping sha path d e)
            | (JList xs, JList ys) \<Rightarrow> ([], queue_list sha path xs ys)
            | _ \<Rightarrow> ([(path, lit ''value changed'')], [])))"

text \<open>The size of a value, and of a pending comparison: children are smaller.\<close>

fun jsize :: "json \<Rightarrow> nat" where
  "jsize (JObj d) = Suc (sum_list (map (\<lambda>p. Suc (jsize (snd p))) d))"
| "jsize (JList xs) = Suc (sum_list (map (\<lambda>x. Suc (jsize x)) xs))"
| "jsize v = 1"

definition side :: "json option \<Rightarrow> nat" where
  "side v = (case v of None \<Rightarrow> 0 | Some x \<Rightarrow> Suc (jsize x))"

definition pending_size :: "pending \<Rightarrow> nat" where
  "pending_size p = side (fst (snd p)) + side (snd (snd p))"

lemma sum_map_of: "distinct ks \<Longrightarrow> sum_list (map (\<lambda>k. side (map_of d k)) ks) \<le> sum_list (map (\<lambda>p. Suc (jsize (snd p))) d)"
proof (induction d arbitrary: ks)
  case Nil
  then show ?case by (simp add: side_def)
next
  case (Cons p d)
  let ?f = "\<lambda>k. side (map_of d k)" and ?g = "\<lambda>k. side (map_of (p # d) k)"
  have others: "sum_list (map ?g (filter (\<lambda>k. k \<noteq> fst p) ks)) = sum_list (map ?f (filter (\<lambda>k. k \<noteq> fst p) ks))"
    by (induction ks) auto
  have at: "sum_list (map ?g (filter (\<lambda>k. k = fst p) ks)) \<le> Suc (jsize (snd p))"
  proof -
    have "filter (\<lambda>k. k = fst p) ks = (if fst p \<in> set ks then [fst p] else [])"
      using Cons.prems by (induction ks) auto
    then show ?thesis by (simp add: side_def)
  qed
  have split: "sum_list (map ?g ks) = sum_list (map ?g (filter (\<lambda>k. k = fst p) ks)) + sum_list (map ?g (filter (\<lambda>k. k \<noteq> fst p) ks))"
    by (induction ks) auto
  have "sum_list (map ?f (filter (\<lambda>k. k \<noteq> fst p) ks)) \<le> sum_list (map (\<lambda>p. Suc (jsize (snd p))) d)"
    using Cons.IH Cons.prems by simp
  with at others split show ?case by simp
qed

lemma sum_nth_opt:
  assumes "length xs \<le> n"
  shows "sum_list (map (\<lambda>i. side (nth_opt xs i)) [0..<n]) = sum_list (map (\<lambda>x. Suc (jsize x)) xs)"
proof -
  have split: "[0..<n] = [0..<length xs] @ [length xs..<n]"
    using upt_add_eq_append [of 0 "length xs" "n - length xs"] assms by simp
  have first: "map (\<lambda>i. side (nth_opt xs i)) [0..<length xs] = map (\<lambda>x. Suc (jsize x)) xs"
    by (rule nth_equalityI) (auto simp: nth_opt_def side_def)
  have rest: "sum_list (map (\<lambda>i. side (nth_opt xs i)) [length xs..<n]) = 0"
    by (simp add: nth_opt_def side_def)
  show ?thesis using first rest by (simp add: split)
qed

lemma distinct_sorted_names: "distinct names \<Longrightarrow> distinct (sorted_names names)"
  unfolding sorted_names_def by (rule distinct_sort_entries) (simp add: comp_def)

lemma change_step_smaller: "sum_list (map pending_size (snd (change_step sha p))) < pending_size p \<or> snd (change_step sha p) = []"
proof (cases "(sha, p)" rule: change_step.cases)
  case (3 sha' path b a)
  show ?thesis
  proof (cases "json_eq b a \<or> type_name b \<noteq> type_name a")
    case False
    show ?thesis
    proof (cases "\<exists>d e. b = JObj d \<and> a = JObj e")
      case True
      then obtain d e where de: "b = JObj d" "a = JObj e" by blast
      have "distinct (mapping_keys d e)"
        by (simp add: mapping_keys_def distinct_sorted_names)
      with sum_map_of [of "mapping_keys d e" d] sum_map_of [of "mapping_keys d e" e] False de 3 show ?thesis
        by (simp add: queue_mapping_def pending_size_def side_def comp_def sum_list_addf)
    next
      case no_obj: False
      show ?thesis
      proof (cases "\<exists>xs ys. b = JList xs \<and> a = JList ys")
        case True
        then obtain xs ys where l: "b = JList xs" "a = JList ys" by blast
        with sum_nth_opt [of xs "max (length xs) (length ys)"] sum_nth_opt [of ys "max (length xs) (length ys)"] False 3
        show ?thesis by (simp add: queue_list_def pending_size_def side_def comp_def sum_list_addf)
      next
        case no_list: False
        with no_obj False 3 show ?thesis by (cases b; cases a) (simp_all add: type_name_def)
      qed
    qed
  qed (use 3 in auto)
qed auto

function change_loop :: "sha256 \<Rightarrow> pending list \<Rightarrow> (pystr \<times> pystr) list" where
  "change_loop sha [] = []"
| "change_loop sha (p # ps) = fst (change_step sha p) @ change_loop sha (snd (change_step sha p) @ ps)"
  by pat_completeness auto

termination change_loop
proof (relation "measures [\<lambda>(sha, ps). sum_list (map pending_size ps), \<lambda>(sha, ps). length ps]")
  fix sha p ps
  show "((sha, snd (change_step sha p) @ ps), (sha, p # ps))
      \<in> measures [\<lambda>(sha, ps). sum_list (map pending_size ps), \<lambda>(sha, ps). length ps]"
    using change_step_smaller [of sha p] by auto
qed simp

declare change_loop.simps(2) [simp del]

definition toolchain_changes :: "sha256 \<Rightarrow> json \<Rightarrow> json \<Rightarrow> (pystr \<times> pystr) list" where
  "toolchain_changes sha original current = change_loop sha [(lit ''toolchain'', Some original, Some current)]"

section \<open>The differences are exact\<close>

lemma dict_sub_iff: "dict_sub d e \<longleftrightarrow> (\<forall>p\<in>set d. \<exists>v. map_of e (fst p) = Some v \<and> json_eq (snd p) v)"
  by (induction d) (auto split: option.splits)

lemma list_eq_iff: "list_eq xs ys \<longleftrightarrow> list_all2 json_eq xs ys"
proof (induction xs arbitrary: ys)
  case (Cons x xs)
  then show ?case by (cases ys) auto
qed auto

definition same_side :: "pending \<Rightarrow> bool" where
  "same_side p \<longleftrightarrow> (\<exists>x y. snd p = (Some x, Some y) \<and> json_eq x y)"

definition wf_opt :: "json option \<Rightarrow> bool" where
  "wf_opt v = (case v of None \<Rightarrow> True | Some x \<Rightarrow> json_wf x)"

definition wf_side :: "pending \<Rightarrow> bool" where
  "wf_side p \<longleftrightarrow> wf_opt (fst (snd p)) \<and> wf_opt (snd (snd p))"

lemma wf_map_of: "\<forall>p\<in>set d. json_wf (snd p) \<Longrightarrow> wf_opt (map_of d k)"
  by (force simp: wf_opt_def dest: map_of_SomeD split: option.splits)

lemma wf_nth_opt: "\<forall>x\<in>set xs. json_wf x \<Longrightarrow> wf_opt (nth_opt xs i)"
  by (simp add: wf_opt_def nth_opt_def)

lemma set_mapping_keys: "set (mapping_keys d e) = fst ` set d \<union> fst ` set e"
  by (simp add: mapping_keys_def sorted_names_def image_image)

lemma same_mapping:
  assumes "json_wf (JObj d)" and "json_wf (JObj e)" and "list_all same_side (queue_mapping sha path d e)"
  shows "json_eq (JObj d) (JObj e)"
proof -
  have keys: "\<exists>x y. map_of d k = Some x \<and> map_of e k = Some y \<and> json_eq x y" if "k \<in> fst ` set d \<union> fst ` set e" for k
    using assms(3) that by (auto simp: queue_mapping_def list_all_iff same_side_def set_mapping_keys)
  then have "fst ` set d = fst ` set e"
    by (metis (no_types, lifting) UnCI domI dom_map_of_conv_image_fst subsetI subset_antisym)
  then have "length d = length e"
    using assms(1,2) by (metis distinct_card json_wf.simps(1) length_map list.set_map)
  moreover have "dict_sub d e"
    unfolding dict_sub_iff
  proof
    fix p assume p: "p \<in> set d"
    with assms(1) have "map_of d (fst p) = Some (snd p)" by (simp add: map_of_is_SomeI)
    with keys [of "fst p"] p show "\<exists>v. map_of e (fst p) = Some v \<and> json_eq (snd p) v" by auto
  qed
  ultimately show ?thesis by simp
qed

lemma same_list:
  assumes "list_all same_side (queue_list sha path xs ys)"
  shows "json_eq (JList xs) (JList ys)"
proof -
  have at: "i < length xs \<and> i < length ys \<and> json_eq (xs ! i) (ys ! i)" if "i < max (length xs) (length ys)" for i
  proof -
    from assms that have "same_side (diagnostic_label sha (path @ [47] @ nat_digits i), nth_opt xs i, nth_opt ys i)"
      by (simp add: queue_list_def list_all_iff)
    then show ?thesis by (simp add: same_side_def nth_opt_def split: if_splits)
  qed
  have "length xs = length ys"
    using at [of "length xs"] at [of "length ys"] by (cases "length xs" "length ys" rule: linorder_cases) auto
  with at show ?thesis by (simp add: list_eq_iff list_all2_conv_all_nth)
qed

lemma change_step_exact:
  assumes "wf_side p"
  shows "fst (change_step sha p) = [] \<and> list_all same_side (snd (change_step sha p)) \<longleftrightarrow> same_side p"
proof (cases "(sha, p)" rule: change_step.cases)
  case (3 sha' path b a)
  show ?thesis
  proof (cases "json_eq b a")
    case True
    with 3 show ?thesis by (simp add: same_side_def)
  next
    case False
    have "\<not> (fst (change_step sha p) = [] \<and> list_all same_side (snd (change_step sha p)))"
    proof (cases "(\<exists>d e. b = JObj d \<and> a = JObj e) \<or> (\<exists>xs ys. b = JList xs \<and> a = JList ys)")
      case True
      with False 3 assms same_mapping [of _ _ sha path] same_list [of sha path] show ?thesis
        by (auto simp: wf_side_def wf_opt_def type_name_def)
    next
      case no: False
      with False 3 show ?thesis by (cases b; cases a) (simp_all add: type_name_def)
    qed
    with False 3 show ?thesis by (simp add: same_side_def)
  qed
qed (auto simp: same_side_def)

lemma change_step_wf: "wf_side p \<Longrightarrow> list_all wf_side (snd (change_step sha p))"
proof (cases "(sha, p)" rule: change_step.cases)
  case (3 sha' path b a)
  assume "wf_side p"
  with 3 show ?thesis
    by (cases b; cases a)
      (auto simp: wf_side_def wf_opt_def [of "Some _"] queue_mapping_def queue_list_def list_all_iff wf_map_of wf_nth_opt)
qed auto

lemma change_loop_exact: "list_all wf_side ps \<Longrightarrow> change_loop sha ps = [] \<longleftrightarrow> list_all same_side ps"
proof (induction sha ps rule: change_loop.induct)
  case (2 sha p ps)
  then show ?case
    using change_step_exact [of p sha] change_step_wf [of p sha] by (auto simp: change_loop.simps(2))
qed simp



section \<open>The toolchains of a final build\<close>

definition MAX_TOOLCHAIN_DIAGNOSTICS :: nat where
  "MAX_TOOLCHAIN_DIAGNOSTICS = 100"

text \<open>The receipts the accepted candidate lists, the last one of a name first.\<close>

definition candidate_receipts :: "json_dict \<Rightarrow> (json \<times> json_dict) list result" where
  "candidate_receipts candidate =
     bind_r (py_iter (dict_get candidate (lit ''build_receipts'') (JList []))) (\<lambda>items.
     bind_r (map_r named_asset items) (\<lambda>named. Inr (rev named)))"

definition asset_named :: "json_dict list \<Rightarrow> pystr \<Rightarrow> json_dict option" where
  "asset_named assets name = map_of (rev (map (\<lambda>a. (jget a ''name'', a)) assets)) (JStr name)"

text \<open>The toolchain the candidate's receipt of this name holds, from bytes with the listed digest.\<close>

definition accepted_toolchain :: "sha256 \<Rightarrow> github \<Rightarrow> json_dict list \<Rightarrow> (json \<times> json_dict) list \<Rightarrow> pystr \<Rightarrow> json gh" where
  "accepted_toolchain sha gh assets expected name =
     (case asset_named assets name of
        None \<Rightarrow> gh_lift (Inl (ReleaseError ''RC platform receipt is missing''))
      | Some asset \<Rightarrow>
          gh_bind (gh_lift (bind_r (py_getitem (JObj asset) (lit ''id'')) positive)) (\<lambda>i.
          gh_bind (binary gh (asset_path i)) (\<lambda>raw.
          gh_bind (gh_lift (case map_of expected (JStr name) of
                              Some d \<Rightarrow> py_getitem (JObj d) (lit ''sha256'') | None \<Rightarrow> Inl KeyError)) (\<lambda>digest.
          gh_require (JStr (sha raw) = digest) ''RC toolchain receipt changed''
         (gh_bind (gh_lift (parse_json (jc_loads (gh_codec gh)) raw)) (\<lambda>v.
            case v of
              JObj original \<Rightarrow> gh_lift (Inr (jget original ''toolchain''))
            | _ \<Rightarrow> gh_lift (Inl (ReleaseError ''Invalid toolchain receipt object''))))))))"

type_synonym drift = "nat \<times> nat \<times> pystr list"

definition add_drift :: "sha256 \<Rightarrow> pystr \<Rightarrow> json \<Rightarrow> json \<Rightarrow> drift \<Rightarrow> drift" where
  "add_drift sha name before after d =
     (if json_eq before after then d
      else (case d of (platforms, counted, lines) \<Rightarrow>
              let changes = toolchain_changes sha before after;
                  text_of = (\<lambda>(path, change). lit ''  '' @ diagnostic_label sha name @ lit '': '' @ path @ lit '': '' @ change)
              in (Suc platforms, counted + length changes,
                  lines @ take (MAX_TOOLCHAIN_DIAGNOSTICS - length lines) (map text_of changes))))"

fun final_drift :: "sha256 \<Rightarrow> github \<Rightarrow> json_dict list \<Rightarrow> (json \<times> json_dict) list \<Rightarrow> receipt_result list \<Rightarrow> drift \<Rightarrow> drift gh" where
  "final_drift sha gh assets expected [] d = gh_lift (Inr d)"
| "final_drift sha gh assets expected (r # rs) d =
     gh_bind (accepted_toolchain sha gh assets expected (rr_name r)) (\<lambda>before.
       final_drift sha gh assets expected rs (add_drift sha (rr_name r) before (jget (rr_inputs r) ''toolchain'') d))"

text \<open>What is printed: the lines, and how many were left out.\<close>

definition drift_lines :: "drift \<Rightarrow> pystr list" where
  "drift_lines d =
     (case d of (platforms, counted, lines) \<Rightarrow>
        lines @ (if counted > length lines
                 then [lit ''  '' @ nat_digits (counted - length lines) @ lit '' further field differences omitted (log limit)'']
                 else []))"

definition sort_receipts :: "receipt_result list \<Rightarrow> receipt_result list" where
  "sort_receipts rs = map snd (sort_entries (map (\<lambda>r. (rr_name r, r)) rs))"

definition verify_final_toolchains :: "sha256 \<Rightarrow> github \<Rightarrow> json_dict \<Rightarrow> receipt_result list \<Rightarrow> unit gh" where
  "verify_final_toolchains sha gh candidate receipts =
     gh_bind (gh_lift (py_getitem (JObj candidate) (lit ''tag''))) (\<lambda>tag.
     gh_bind (release_snapshot gh (jstr_val tag)) (\<lambda>(_, _, assets).
     gh_bind (gh_lift (candidate_receipts candidate)) (\<lambda>expected.
     gh_require (fst ` set expected = (\<lambda>r. JStr (rr_name r)) ` set receipts)
       ''Final platform receipt inventory differs from RC''
    (gh_bind (final_drift sha gh assets expected (sort_receipts receipts) (0, 0, [])) (\<lambda>d.
     gh_require (fst d = 0) ''Build toolchain differs from accepted RC'' (gh_lift (Inr ())))))))"

lemma drift_lines_bounded: "length (snd (snd d)) \<le> 100 \<Longrightarrow> length (snd (snd (add_drift sha name before after d))) \<le> 100"
  by (auto simp: add_drift_def MAX_TOOLCHAIN_DIAGNOSTICS_def Let_def split: prod.splits)

lemma final_drift_bounded:
  "length (snd (snd d)) \<le> 100 \<Longrightarrow> final_drift sha gh assets expected rs d h = (Inr d', h') \<Longrightarrow> length (drift_lines d') \<le> 101"
proof (induction rs arbitrary: d h)
  case (Cons r rs)
  from Cons.prems(2) obtain before h1 where
    "final_drift sha gh assets expected rs
        (add_drift sha (rr_name r) before (jget (rr_inputs r) ''toolchain'') d) h1 = (Inr d', h')"
    by (auto simp: gh_success)
  from Cons.IH [OF drift_lines_bounded [OF Cons.prems(1)] this] show ?case .
qed (auto simp: gh_success drift_lines_def)

text \<open>When no platform drifted, every receipt of the final build names the toolchain of the candidate.\<close>

definition same_toolchain :: "sha256 \<Rightarrow> github \<Rightarrow> json_dict list \<Rightarrow> (json \<times> json_dict) list \<Rightarrow> receipt_result \<Rightarrow> bool" where
  "same_toolchain sha gh assets expected r \<longleftrightarrow>
     (\<exists>before h h'. accepted_toolchain sha gh assets expected (rr_name r) h = (Inr before, h')
        \<and> json_eq before (jget (rr_inputs r) ''toolchain''))"

lemma final_drift_none:
  "final_drift sha gh assets expected rs d h = (Inr d', h') \<Longrightarrow> fst d \<le> fst d'
     \<and> (fst d' = fst d \<longrightarrow> list_all (same_toolchain sha gh assets expected) rs)"
proof (induction rs arbitrary: d h)
  case (Cons r rs)
  from Cons.prems obtain before h1 where before: "accepted_toolchain sha gh assets expected (rr_name r) h = (Inr before, h1)"
    and rest: "final_drift sha gh assets expected rs
        (add_drift sha (rr_name r) before (jget (rr_inputs r) ''toolchain'') d) h1 = (Inr d', h')"
    by (auto simp: gh_success)
  note ih = Cons.IH [OF rest]
  show ?case
  proof (cases "json_eq before (jget (rr_inputs r) ''toolchain'')")
    case True
    with ih before show ?thesis by (auto simp: add_drift_def same_toolchain_def)
  next
    case False
    with ih show ?thesis by (auto simp: add_drift_def Let_def split: prod.splits)
  qed
qed simp

lemma final_toolchains_sound:
  assumes "verify_final_toolchains sha gh candidate receipts h = (Inr u, h')"
  shows "\<exists>assets expected. list_all (same_toolchain sha gh assets expected) receipts
    \<and> fst ` set expected = (\<lambda>r. JStr (rr_name r)) ` set receipts"
proof -
  from assms obtain assets expected d h1 h2 where
    names: "fst ` set expected = (\<lambda>r. JStr (rr_name r)) ` set receipts"
    and drift: "final_drift sha gh assets expected (sort_receipts receipts) (0, 0, []) h1 = (Inr d, h2)" and none: "fst d = 0"
    by (auto simp: verify_final_toolchains_def gh_success split: prod.splits)
  from final_drift_none [OF drift] none have "list_all (same_toolchain sha gh assets expected) (sort_receipts receipts)" by simp
  then have "list_all (same_toolchain sha gh assets expected) receipts"
    by (simp add: sort_receipts_def list_all_iff image_image)
  with names show ?thesis by blast
qed

end
