(* ===== verification/Release_Fuzz.thy ===== *)
theory Release_Fuzz
  imports Release_Validation Change_Scope
begin

text \<open>
  \<open>scripts/release_fuzz.py\<close>: the reviewed manifest of fuzz targets, the runner of a campaign and the checks
  of its report. The file system of the checkout, the processes and the clocks are arguments. Every command
  the runner starts is recorded, with its time limit and whether it runs without a network; what a process
  answers may depend on all commands before it.
\<close>

section \<open>The manifest\<close>

definition PATH_CHARS :: rexp where
  "PATH_CHARS = r_plus (RClass True [(65, 90), (97, 122), (48, 57), (95, 95), (46, 46), (47, 47), (45, 45)])"

definition fuzz_relative :: "json \<Rightarrow> pystr result" where
  "fuzz_relative v =
     (case v of
        JStr s \<Rightarrow>
          guard_r (fullmatch PATH_CHARS s) (ValueError ''Fuzz paths must be literal relative paths'')
         (guard_r (s = [46] \<or> \<not> (startswith s [47] \<or> list_ex (\<lambda>p. p \<in> {[], [46], [46, 46]}) (split_on 47 s)))
            (ValueError ''Fuzz path escapes the source tree'') (Inr s))
      | _ \<Rightarrow> Inl (ValueError ''Fuzz paths must be literal relative paths''))"

definition command_word :: "json \<Rightarrow> bool" where
  "command_word v \<longleftrightarrow>
     (case v of JStr s \<Rightarrow> s \<noteq> [] \<and> length s \<le> 2048 \<and> list_all (\<lambda>c. c \<ge> 32) s | _ \<Rightarrow> False)"

definition fuzz_argv :: "json \<Rightarrow> pystr list result" where
  "fuzz_argv v =
     (case v of
        JList vs \<Rightarrow>
          guard_r (1 \<le> length vs \<and> length vs \<le> 64 \<and> list_all command_word vs)
            (ValueError ''Fuzz commands must be nonempty bounded argument arrays'') (Inr (map jstr_val vs))
      | _ \<Rightarrow> Inl (ValueError ''Fuzz commands must be nonempty bounded argument arrays''))"

text \<open>
  The checkout: whether a relative path stays inside it once links are resolved, and whether it is an
  existing regular file.
\<close>

record checkout =
  ck_inside :: "pystr \<Rightarrow> bool"
  ck_regular :: "pystr \<Rightarrow> bool"

definition confined :: "checkout \<Rightarrow> pystr \<Rightarrow> pystr result" where
  "confined rt p = guard_r (ck_inside rt p) (ValueError ''Fuzz path resolves outside source'') (Inr p)"

definition go_module_directory :: "checkout \<Rightarrow> json \<Rightarrow> pystr result" where
  "go_module_directory rt v =
     bind_r (fuzz_relative v) (\<lambda>p.
     bind_r (confined rt p) (\<lambda>file_path.
     guard_r (ck_regular rt file_path) (ValueError ''go-version-file must be an existing regular file without symlinks'')
       (Inr file_path)))"

definition list_of :: "json \<Rightarrow> json list option" where
  "list_of v = (case v of JList vs \<Rightarrow> Some vs | _ \<Rightarrow> None)"

definition bounded_list :: "nat \<Rightarrow> nat \<Rightarrow> json \<Rightarrow> bool" where
  "bounded_list lo hi v \<longleftrightarrow> (case v of JList vs \<Rightarrow> lo \<le> length vs \<and> length vs \<le> hi | _ \<Rightarrow> False)"

definition validate_manifest_shape :: "json \<Rightarrow> json_dict result" where
  "validate_manifest_shape v =
     (case v of
        JObj data \<Rightarrow>
          guard_r (only_keys data [''schema'', ''language'', ''setup'', ''targets'', ''go-version-file'', ''preflight'', ''preflight-paths'']
                   \<and> jget data ''schema'' = JInt 1) (ValueError ''Invalid fuzz manifest'')
         (bind_r (in_strings (jget data ''language'') [''go'', ''rust'', ''python'', ''javascript'', ''c'', ''jvm'']) (\<lambda>known.
          guard_r (known \<and> bounded_list 0 16 (jget data ''setup'') \<and> bounded_list 1 12 (jget data ''targets''))
            (ValueError ''Invalid fuzz manifest'') (Inr data)))
      | _ \<Rightarrow> Inl (ValueError ''Invalid fuzz manifest''))"

definition TARGET_NAME :: rexp where
  "TARGET_NAME = RSeq (RClass True [(97, 122)]) (r_upto 49 (RClass True [(97, 122), (48, 57), (45, 45)]))"

definition MODULE_NAME :: rexp where
  "MODULE_NAME = RSeq (RClass True [(65, 90), (97, 122), (95, 95)])
     (RStar (RClass True [(65, 90), (97, 122), (48, 57), (95, 95), (46, 46), (45, 45)]))"

definition FUNCTION_NAME :: rexp where
  "FUNCTION_NAME = RSeq (RClass True [(65, 90), (97, 122), (95, 95)])
     (RStar (RClass True [(65, 90), (97, 122), (48, 57), (95, 95), (46, 46)]))"

definition declaration_ok :: "json \<Rightarrow> bool" where
  "declaration_ok v \<longleftrightarrow>
     (case v of
        JObj d \<Rightarrow>
          fst ` set d = {lit ''module'', lit ''functions''} \<and> str_matches MODULE_NAME (jget d ''module'')
          \<and> (case jget d ''functions'' of
               JList fs \<Rightarrow> 1 \<le> length fs \<and> length fs \<le> 32 \<and> list_all (str_matches FUNCTION_NAME) fs
             | _ \<Rightarrow> False)
      | _ \<Rightarrow> False)"

definition validate_instrumentation :: "json_dict \<Rightarrow> unit result" where
  "validate_instrumentation target =
     (if \<not> has_key target ''instrumentation'' then Inr ()
      else
        guard_r (jget target ''engine'' = JStr (lit ''atheris'') \<and> bounded_list 1 32 (jget target ''instrumentation''))
          (ValueError ''Instrumentation declarations require bounded Atheris functions'')
       (guard_r (case jget target ''instrumentation'' of JList ds \<Rightarrow> list_all declaration_ok ds | _ \<Rightarrow> False)
          (ValueError ''Invalid production instrumentation declaration'') (Inr ())))"

text \<open>The limits and the crash destination are the runner's.\<close>

definition reserved_flags :: "string list" where
  "reserved_flags =
     [''-fuzztime'', ''-fuzzminimizetime'', ''-parallel'', ''-timeout'', ''-max_total_time'', ''-rss_limit_mb'',
      ''-artifact_prefix'', ''-runs'', ''-jobs'', ''-workers'']"

definition flag_name :: "pystr \<Rightarrow> pystr" where
  "flag_name arg = takeWhile (\<lambda>c. c \<noteq> 61) arg"

definition reserved_flag :: "pystr \<Rightarrow> bool" where
  "reserved_flag arg \<longleftrightarrow> flag_name arg \<in> set (map lit reserved_flags)"

definition seconds_ok :: "json_dict \<Rightarrow> bool" where
  "seconds_ok target \<longleftrightarrow> (case jget target ''seconds'' of JInt s \<Rightarrow> 1 \<le> s \<and> s \<le> 120 | _ \<Rightarrow> False)"

definition validate_target :: "checkout \<Rightarrow> json \<Rightarrow> pystr list \<Rightarrow> pystr result" where
  "validate_target rt v names =
     (case v of
        JObj target \<Rightarrow>
          guard_r (only_keys target [''name'', ''engine'', ''command'', ''seconds'', ''cwd'', ''corpus'', ''instrumentation'']
                   \<and> str_matches TARGET_NAME (jget target ''name'') \<and> jstr_val (jget target ''name'') \<notin> set names)
            (ValueError ''Invalid, duplicated or unbounded fuzz target'')
         (bind_r (in_strings (jget target ''engine'') [''go'', ''libfuzzer'', ''atheris'']) (\<lambda>engine.
          guard_r (engine \<and> seconds_ok target) (ValueError ''Invalid, duplicated or unbounded fuzz target'')
         (bind_r (fuzz_argv (jget target ''command'')) (\<lambda>command.
          bind_r (bind_r (fuzz_relative (dict_get target (lit ''cwd'') (JStr [46]))) (confined rt)) (\<lambda>_.
          bind_r (if has_key target ''corpus'' then bind_r (fuzz_relative (jget target ''corpus'')) (confined rt) else Inr [])
            (\<lambda>_.
          bind_r (validate_instrumentation target) (\<lambda>_.
          guard_r (\<not> list_ex reserved_flag command) (ValueError ''Fuzz target cannot override runner limits'')
            (Inr (jstr_val (jget target ''name''))))))))))
      | _ \<Rightarrow> Inl (ValueError ''Invalid, duplicated or unbounded fuzz target''))"

fun validate_targets :: "checkout \<Rightarrow> json list \<Rightarrow> pystr list \<Rightarrow> unit result" where
  "validate_targets rt [] names = Inr ()"
| "validate_targets rt (v # vs) names =
     bind_r (validate_target rt v names) (\<lambda>name. validate_targets rt vs (name # names))"

definition dict_of :: "json \<Rightarrow> json_dict" where
  "dict_of v = (case v of JObj d \<Rightarrow> d | _ \<Rightarrow> [])"

definition json_items :: "json \<Rightarrow> json list" where
  "json_items v = (case v of JList vs \<Rightarrow> vs | _ \<Rightarrow> [])"

definition int_of :: "json \<Rightarrow> int" where
  "int_of v = (case v of JInt i \<Rightarrow> i | _ \<Rightarrow> 0)"

definition fuzz_targets :: "json_dict \<Rightarrow> json_dict list" where
  "fuzz_targets data = map dict_of (json_items (jget data ''targets''))"

definition target_seconds :: "json_dict \<Rightarrow> int" where
  "target_seconds target = int_of (jget target ''seconds'')"

text \<open>\<open>raw\<close> is the file, \<open>loads\<close> is \<open>json.loads\<close>: a dictionary it returns has each key once.\<close>

definition fuzz_manifest :: "(bytes \<Rightarrow> json result) \<Rightarrow> checkout \<Rightarrow> bytes \<Rightarrow> json_dict result" where
  "fuzz_manifest loads rt raw =
     guard_r (length raw \<le> 65536) (ValueError ''Fuzz manifest is too large'')
    (bind_r (loads raw) (\<lambda>v.
     bind_r (validate_manifest_shape v) (\<lambda>data.
     bind_r (map_r fuzz_argv (json_items (jget data ''setup''))) (\<lambda>_.
     guard_r (bounded_list 0 16 (dict_get data (lit ''preflight'') (JList [])))
       (ValueError ''Preflight commands must be a bounded list'')
    (bind_r (map_r fuzz_argv (json_items (jget data ''preflight''))) (\<lambda>_.
     guard_r (bounded_list 0 128 (dict_get data (lit ''preflight-paths'') (JList [])))
       (ValueError ''Preflight paths must be a bounded list'')
    (bind_r (map_r (\<lambda>p. bind_r (fuzz_relative p) (confined rt)) (json_items (jget data ''preflight-paths''))) (\<lambda>_.
     bind_r (if has_key data ''go-version-file''
             then guard_r (jget data ''language'' = JStr (lit ''go'')) (ValueError ''go-version-file is only valid for Go'')
                    (go_module_directory rt (jget data ''go-version-file''))
             else Inr []) (\<lambda>_.
     bind_r (validate_targets rt (json_items (jget data ''targets'')) []) (\<lambda>_.
     guard_r (sum_list (map target_seconds (fuzz_targets data)) \<le> 600)
       (ValueError ''Fuzz campaign budget exceeds ten minutes'') (Inr data)))))))))))"

section \<open>Who may run a campaign\<close>

definition event_contract :: "json \<Rightarrow> string \<Rightarrow> pystr \<Rightarrow> pystr \<Rightarrow> pystr \<Rightarrow> unit result" where
  "event_contract event event_name ref repository sha =
     bind_r (py_get event (lit ''repository'') (JObj [])) (\<lambda>repo.
     guard_r (event_name = ''workflow_dispatch'') (ValueError ''Fuzz campaigns require a public default-branch RC dispatch'')
    (bind_r (py_get event (lit ''inputs'') (JObj [])) (\<lambda>inputs.
     bind_r (py_get inputs (lit ''channel'') JNull) (\<lambda>channel.
     guard_r (channel = JStr (lit ''rc'')) (ValueError ''Fuzz campaigns require a public default-branch RC dispatch'')
    (bind_r (as_dict repo) (\<lambda>r.
     guard_r (jget r ''private'' = JBool False \<and> jget r ''full_name'' = JStr repository
              \<and> ref = lit ''refs/heads/'' @ py_str (jget r ''default_branch'') \<and> fullmatch SHA_RE sha)
       (ValueError ''Fuzz campaigns require a public default-branch RC dispatch'') (Inr ())))))))"


section \<open>What an engine reports\<close>

text \<open>
  \<open>re.findall\<close> of a pattern given as the number of characters it takes and the value of its groups; the
  pattern also sees the character before it.
\<close>

fun findall :: "(nat option \<Rightarrow> pystr \<Rightarrow> (nat \<times> 'a) option) \<Rightarrow> nat option \<Rightarrow> pystr \<Rightarrow> 'a list" where
  "findall f before [] = []"
| "findall f before (c # s) =
     (case f before (c # s) of
        Some (n, x) \<Rightarrow> x # findall f (Some (last (take n (c # s)))) (drop (n - 1) s)
      | None \<Rightarrow> findall f (Some c) s)"

text \<open>A label, white space and the longest run of ASCII digits.\<close>

definition number_after :: "string \<Rightarrow> pystr \<Rightarrow> (nat \<times> nat) option" where
  "number_after label s =
     (if startswith s (lit label)
      then (let r = dropWhile is_space (drop (length label) s); ds = takeWhile is_digit r
            in if ds = [] then None else Some (length s - length (drop (length ds) r), digits_val ds))
      else None)"

text \<open>\<open>.*?\<close>: the fewest characters, none of them a line end.\<close>

fun lazy_after :: "string \<Rightarrow> nat \<Rightarrow> pystr \<Rightarrow> (nat \<times> nat) option" where
  "lazy_after label k s =
     (case number_after label s of
        Some (n, x) \<Rightarrow> Some (k + n, x)
      | None \<Rightarrow> (case s of [] \<Rightarrow> None | c # cs \<Rightarrow> if c = 10 then None else lazy_after label (Suc k) cs))"

declare lazy_after.simps [simp del]

definition go_execs :: "nat option \<Rightarrow> pystr \<Rightarrow> (nat \<times> nat) option" where
  "go_execs before s = (if startswith s (lit ''fuzz:'') then lazy_after ''execs:'' 5 (drop 5 s) else None)"

definition done_runs :: "nat option \<Rightarrow> pystr \<Rightarrow> (nat \<times> nat) option" where
  "done_runs before s =
     (if startswith s (lit ''Done '')
      then (let r = drop 5 s; ds = takeWhile is_digit r
            in if ds \<noteq> [] \<and> startswith (drop (length ds) r) (lit '' runs in'') then Some (5 + length ds + 8, digits_val ds) else None)
      else None)"

definition new_interesting :: "nat option \<Rightarrow> pystr \<Rightarrow> (nat \<times> nat) option" where
  "new_interesting before s = number_after ''new interesting:'' s"

text \<open>\<open>\b\<close>: the character before is no word character; \<open>word\<close> tells which are.\<close>

definition coverage :: "(nat \<Rightarrow> bool) \<Rightarrow> nat option \<Rightarrow> pystr \<Rightarrow> (nat \<times> nat \<times> nat) option" where
  "coverage word before s =
     (if (case before of Some c \<Rightarrow> word c | None \<Rightarrow> False) then None
      else case number_after ''cov:'' s of
        None \<Rightarrow> None
      | Some (n, edges) \<Rightarrow>
          (let r = drop n s; gap = takeWhile is_space r
           in if gap = [] then None
              else case number_after ''ft:'' (drop (length gap) r) of
                None \<Rightarrow> None
              | Some (m, features) \<Rightarrow> Some (n + length gap + m, edges, features)))"

definition executions_pattern :: "pystr \<Rightarrow> nat option \<Rightarrow> pystr \<Rightarrow> (nat \<times> nat) option" where
  "executions_pattern engine = (if engine = lit ''go'' then go_execs else done_runs)"

definition exercised :: "pystr \<Rightarrow> pystr \<Rightarrow> bool" where
  "exercised engine run_log = list_ex (\<lambda>n. n > 0) (findall (executions_pattern engine) None run_log)"

definition executions :: "pystr \<Rightarrow> pystr \<Rightarrow> nat" where
  "executions engine run_log = fold max (findall (executions_pattern engine) None run_log) 0"

definition engine_metrics :: "(nat \<Rightarrow> bool) \<Rightarrow> pystr \<Rightarrow> pystr \<Rightarrow> json_dict" where
  "engine_metrics word engine run_log =
     [(lit ''engine'', JStr engine), (lit ''executions'', JInt (int (executions engine run_log)))]
     @ (if engine = lit ''go''
        then (case rev (findall new_interesting None run_log) of
                [] \<Rightarrow> [] | n # _ \<Rightarrow> [(lit ''new_interesting'', JInt (int n))])
        else (case rev (findall (coverage word) None run_log) of
                [] \<Rightarrow> []
              | (edges, features) # _ \<Rightarrow>
                  [(lit ''coverage_edges'', JInt (int edges)), (lit ''coverage_features'', JInt (int features))]))"

section \<open>Retained inputs\<close>

definition CORPUS_FILES :: nat where
  "CORPUS_FILES = 10000"

definition CORPUS_BYTES :: nat where
  "CORPUS_BYTES = 64 * 1024 * 1024"

text \<open>A directory tree as the walk sees it: the entries by name, a link to a directory being a link.\<close>

datatype node =
    Regular nat
  | Special
  | Link
  | Dir "(pystr \<times> node) list"
  | Unreadable

definition is_link :: "node \<Rightarrow> bool" where
  "is_link n \<longleftrightarrow> (case n of Link \<Rightarrow> True | _ \<Rightarrow> False)"

definition regular_files :: "pystr \<Rightarrow> (pystr \<times> node) list \<Rightarrow> (pystr \<times> nat) list" where
  "regular_files path es =
     concat (map (\<lambda>(name, n). case n of Regular n_bytes \<Rightarrow> [(path @ [47] @ name, n_bytes)] | _ \<Rightarrow> []) (sort_entries es))"

text \<open>
  The files in the order of the walk, and the error that stops it: a directory's own files come before those
  of its subdirectories, both in the order of their names.
\<close>

type_synonym walk = "(pystr \<times> nat) list \<times> exn option"

definition then_walk :: "walk \<Rightarrow> walk \<Rightarrow> walk" where
  "then_walk w1 w2 = (case snd w1 of Some e \<Rightarrow> w1 | None \<Rightarrow> (fst w1 @ fst w2, snd w2))"

text \<open>Subdirectories are walked in the order of their names; the recursion meets them in the listed order first.\<close>

fun walk_node :: "bool \<Rightarrow> pystr \<Rightarrow> node \<Rightarrow> walk option" where
  "walk_node required path (Dir es) =
     Some
       (if required \<and> list_ex (\<lambda>e. is_link (snd e)) es
        then ([], Some (ValueError ''Declared preflight corpus must not contain symlinks''))
        else
          fold (\<lambda>w acc. case snd w of Some w' \<Rightarrow> then_walk acc w' | None \<Rightarrow> acc)
            (sort_entries (map (\<lambda>e. (fst e, walk_node required (path @ [47] @ fst e) (snd e))) es))
            (regular_files path es, None))"
| "walk_node required path Unreadable = Some ([], Some (OSError ''scandir''))"
| "walk_node required path n = None"

definition corpus_files :: "bool \<Rightarrow> node \<Rightarrow> walk" where
  "corpus_files required source = (case walk_node required [] source of Some w \<Rightarrow> w | None \<Rightarrow> ([], None))"

record corpus =
  co_files :: nat
  co_bytes :: nat
  co_truncated :: bool
  co_copied :: "(pystr \<times> nat) list"

fun retain_files :: "bool \<Rightarrow> exn option \<Rightarrow> corpus \<Rightarrow> (pystr \<times> nat) list \<Rightarrow> corpus result" where
  "retain_files required err r [] =
     (case err of
        Some e \<Rightarrow> Inl e
      | None \<Rightarrow>
          guard_r (\<not> (required \<and> co_files r = 0))
            (ValueError ''Declared preflight corpus must contain at least one regular seed file'') (Inr r))"
| "retain_files required err r (f # fs) =
     (if co_files r \<ge> CORPUS_FILES \<or> co_bytes r + snd f > CORPUS_BYTES then Inr (r\<lparr>co_truncated := True\<rparr>)
      else retain_files required err
             (r\<lparr>co_files := co_files r + 1, co_bytes := co_bytes r + snd f, co_copied := co_copied r @ [f]\<rparr>) fs)"

definition is_directory :: "node \<Rightarrow> bool" where
  "is_directory n \<longleftrightarrow> (case n of Dir _ \<Rightarrow> True | Unreadable \<Rightarrow> True | _ \<Rightarrow> False)"

definition empty_corpus :: corpus where
  "empty_corpus = \<lparr>co_files = 0, co_bytes = 0, co_truncated = False, co_copied = []\<rparr>"

text \<open>\<open>None\<close> is a path where there is nothing.\<close>

definition retain_corpus :: "node option \<Rightarrow> bool \<Rightarrow> corpus result" where
  "retain_corpus source required =
     (case source of
        Some n \<Rightarrow>
          if is_directory n
          then retain_files required (snd (corpus_files required n)) empty_corpus (fst (corpus_files required n))
          else if required
          then Inl (ValueError ''Declared preflight corpus must be an existing directory without symlinks'')
          else Inr empty_corpus
      | None \<Rightarrow>
          if required
          then Inl (ValueError ''Declared preflight corpus must be an existing directory without symlinks'')
          else Inr empty_corpus)"

definition corpus_json :: "corpus \<Rightarrow> json" where
  "corpus_json r =
     JObj [(lit ''files'', JInt (int (co_files r))), (lit ''bytes'', JInt (int (co_bytes r))),
           (lit ''truncated'', JBool (co_truncated r))]"


section \<open>The checks of a report\<close>

definition verify_target_inventory :: "json \<Rightarrow> json_dict list \<Rightarrow> json_dict list result" where
  "verify_target_inventory v configured =
     (case v of
        JList ts \<Rightarrow>
          guard_r
            (list_all (\<lambda>t. is_obj t \<and> jint (jget (dict_of t) ''seconds'') \<noteq> None \<and> jint (jget (dict_of t) ''exit_code'') \<noteq> None) ts
             \<and> map (\<lambda>t. (jget (dict_of t) ''name'', jget (dict_of t) ''seconds'', jget (dict_of t) ''exit_code'')) ts
               = map (\<lambda>t. (jget t ''name'', jget t ''seconds'', JInt 0)) configured)
            (ValueError ''Fuzz report target inventory mismatch'') (Inr (map dict_of ts))
      | _ \<Rightarrow> Inl (ValueError ''Fuzz report target inventory mismatch''))"

definition declared_functions :: "json_dict \<Rightarrow> (json \<times> json) list" where
  "declared_functions target =
     concat (map (\<lambda>item. map (\<lambda>f. (jget (dict_of item) ''module'', f)) (json_items (jget (dict_of item) ''functions'')))
       (json_items (jget target ''instrumentation'')))"

definition positive_executions :: "json_dict \<Rightarrow> bool" where
  "positive_executions d \<longleftrightarrow> (case jint (jget d ''executions'') of Some n \<Rightarrow> n > 0 | None \<Rightarrow> False)"

definition verify_python_proof :: "json \<Rightarrow> json_dict \<Rightarrow> unit result" where
  "verify_python_proof v target =
     (case v of
        JObj proof \<Rightarrow>
          guard_r (jget proof ''target'' = jget target ''name'' \<and> declared_functions target \<noteq> [])
            (ValueError ''Python instrumentation evidence differs from declared functions'')
         (guard_r (jget proof ''engine'' = JStr (lit ''atheris'') \<and> positive_executions proof)
            (ValueError ''Python preflight evidence requires positive engine execution metrics'')
         (case jget proof ''instrumentation'' of
            JList actual \<Rightarrow>
              guard_r (list_all is_obj actual) (ValueError ''Malformed Python instrumentation evidence'')
             (guard_r (map (\<lambda>i. (jget (dict_of i) ''module'', jget (dict_of i) ''function'')) actual = declared_functions target)
                (ValueError ''Python instrumentation evidence differs from declared functions'') (Inr ()))
          | _ \<Rightarrow> Inl (ValueError ''Malformed Python instrumentation evidence'')))
      | _ \<Rightarrow> Inl (ValueError ''Python instrumentation evidence differs from declared functions''))"

definition preflight_commands :: "json_dict \<Rightarrow> json list" where
  "preflight_commands data = json_items (jget data ''preflight'')"

definition verify_preflight_evidence :: "json_dict \<Rightarrow> json_dict list \<Rightarrow> json_dict \<Rightarrow> unit result" where
  "verify_preflight_evidence data targets config =
     (if json_eq (jget data ''schema'') (JInt 1)
      then guard_r (\<not> (truthy (jget config ''preflight'')
                        \<or> list_ex (\<lambda>t. truthy (jget t ''instrumentation'')) (fuzz_targets config)))
             (ValueError ''Declared preflight evidence requires a schema-2 fuzz report'') (Inr ())
      else
        case jget data ''preflight'' of
          JObj evidence \<Rightarrow>
            guard_r (json_eq (jget evidence ''commands'') (JInt (int (length (preflight_commands config)))))
              (ValueError ''Fuzz report preflight command inventory mismatch'')
           (guard_r (list_all (\<lambda>(t, declared). jget t ''engine'' = jget declared ''engine'' \<and> positive_executions t)
                       (zip targets (fuzz_targets config)))
              (ValueError ''Fuzz report requires positive engine execution metrics'')
           (if jget config ''language'' \<noteq> JStr (lit ''python'') then Inr ()
            else
              case jget evidence ''python_targets'' of
                JList proofs \<Rightarrow>
                  guard_r (length proofs = length (fuzz_targets config))
                    (ValueError ''Fuzz report requires Python instrumentation evidence'')
                    (each_r (\<lambda>(proof, target). verify_python_proof proof target) (zip proofs (fuzz_targets config)))
              | _ \<Rightarrow> Inl (ValueError ''Fuzz report requires Python instrumentation evidence'')))
        | _ \<Rightarrow> Inl (ValueError ''Fuzz report preflight command inventory mismatch''))"

text \<open>What the report of a passed run must name; \<open>raw_manifest\<close> is the manifest file of the checkout.\<close>

definition report_identity :: "sha256 \<Rightarrow> bytes \<Rightarrow> pystr \<Rightarrow> pystr \<Rightarrow> int \<Rightarrow> int \<Rightarrow> json_dict" where
  "report_identity sha raw_manifest repository commit run_id attempt =
     [(lit ''repository'', JStr repository), (lit ''source_sha'', JStr commit), (lit ''run_id'', JInt run_id),
      (lit ''run_attempt'', JInt attempt), (lit ''channel'', JStr (lit ''rc'')), (lit ''private'', JBool False),
      (lit ''manifest_sha256'', JStr (sha raw_manifest)), (lit ''status'', JStr (lit ''passed'')),
      (lit ''network'', JStr (lit ''isolated''))]"

definition verify_report ::
  "sha256 \<Rightarrow> (bytes \<Rightarrow> json result) \<Rightarrow> checkout \<Rightarrow> bytes \<Rightarrow> bytes \<Rightarrow> pystr \<Rightarrow> pystr \<Rightarrow> int \<Rightarrow> int \<Rightarrow> unit result" where
  "verify_report sha loads rt raw_manifest raw_report repository commit run_id attempt =
     bind_r (loads raw_report) (\<lambda>v.
     bind_r (fuzz_manifest loads rt raw_manifest) (\<lambda>config.
     bind_r (as_dict v) (\<lambda>data.
     guard_r (jget data ''schema'' \<in> {JInt 1, JInt 2}
              \<and> list_all (\<lambda>(k, expected). dict_get data k JNull = expected)
                  (report_identity sha raw_manifest repository commit run_id attempt))
       (ValueError ''Fuzz report identity or outcome mismatch'')
    (bind_r (verify_target_inventory (dict_get data (lit ''targets'') (JList [])) (fuzz_targets config)) (\<lambda>targets.
       verify_preflight_evidence data targets config)))))"

text \<open>The receipt of the report is no toolchain input of the package builds.\<close>

definition FUZZ_REPORT :: string where
  "FUZZ_REPORT = ''fuzz-report.json''"

definition fuzz_receipt :: "json_dict \<Rightarrow> bool result" where
  "fuzz_receipt r =
     bind_r (py_getitem (JObj r) (lit ''name'')) (\<lambda>name. Inr (name = JStr (lit ''release-inputs-fuzz.json'')))"

definition split_receipts :: "json_dict list \<Rightarrow> (json_dict list \<times> json_dict list) result" where
  "split_receipts receipts =
     bind_r (map_r fuzz_receipt receipts) (\<lambda>flags.
     case map fst (filter snd (zip receipts flags)) of
       [receipt] \<Rightarrow>
         bind_r (py_getitem (JObj receipt) (lit ''inputs'')) (\<lambda>inputs.
         bind_r (py_get inputs (lit ''artifacts'') (JList [])) (\<lambda>v.
         bind_r (py_iter v) (\<lambda>artifacts.
         bind_r (map_r (\<lambda>a. bind_r (as_dict a) (\<lambda>d. Inr (jget d ''name''))) artifacts) (\<lambda>names.
         guard_r (names = [JStr (lit FUZZ_REPORT)]) (ValueError ''Fuzz validation receipt must cover exactly the RC report'')
           (Inr (filter (\<lambda>r. \<not> json_eq (JObj r) (JObj receipt)) receipts, [receipt]))))))
     | _ \<Rightarrow> Inl (ValueError ''Fuzz validation receipt must cover exactly the RC report''))"

section \<open>Commands and processes\<close>

record fuzz_exec =
  fx_argv :: "pystr list"
  fx_cwd :: pystr
  fx_log :: pystr
  fx_timeout :: int
  fx_isolated :: bool

type_synonym 'a fz = "fuzz_exec list \<Rightarrow> 'a result \<times> fuzz_exec list"

definition fz_lift :: "'a result \<Rightarrow> 'a fz" where
  "fz_lift r h = (r, h)"

definition fz_bind :: "'a fz \<Rightarrow> ('a \<Rightarrow> 'b fz) \<Rightarrow> 'b fz" where
  "fz_bind m f h = (case m h of (Inl e, h') \<Rightarrow> (Inl e, h') | (Inr x, h') \<Rightarrow> f x h')"

text \<open>
  The machine. A process that could not be started raises, one that hit its limit is \<open>None\<close>; codes, logs and
  clocks may depend on everything started so far.
\<close>

record machine =
  mc_code :: "fuzz_exec list \<Rightarrow> int option result"
  mc_elapsed :: "fuzz_exec list \<Rightarrow> real"
  mc_log :: "fuzz_exec list \<Rightarrow> pystr"
  mc_start :: "fuzz_exec list \<Rightarrow> real"
  mc_clock :: "fuzz_exec list \<Rightarrow> real"
  mc_which :: "pystr \<Rightarrow> pystr option"
  mc_abspath :: "pystr \<Rightarrow> pystr \<Rightarrow> pystr"
  mc_environ :: "string \<Rightarrow> pystr option"
  mc_ids :: "int \<times> int"
  mc_tree :: "pystr \<Rightarrow> node option"
  mc_gocache :: "fuzz_exec list \<Rightarrow> node option result"
  mc_proof :: "fuzz_exec list \<Rightarrow> json result option"
  mc_root :: pystr
  mc_script :: pystr
  mc_word :: "nat \<Rightarrow> bool"

definition isolated_environment :: "string list" where
  "isolated_environment =
     [''PATH'', ''HOME'', ''GOROOT'', ''GOPATH'', ''GOCACHE'', ''GOMODCACHE'', ''GOTOOLCHAIN'', ''RUSTUP_HOME'', ''CARGO_HOME'',
      ''LD_LIBRARY_PATH'', ''PYTHONPATH'', ''JAVA_HOME'']"

definition isolated_prefix :: "machine \<Rightarrow> pystr list" where
  "isolated_prefix m =
     map lit [''sudo'', ''-n'', ''unshare'', ''--net''] @ [lit ''--setgid='' @ int_str (fst (mc_ids m)), lit ''--setuid='' @ int_str (snd (mc_ids m))]
       @ map lit [''--'', ''/usr/bin/env'', ''-i'']
       @ concat (map (\<lambda>k. case mc_environ m k of Some v \<Rightarrow> [lit k @ [61] @ v] | None \<Rightarrow> []) isolated_environment)
       @ [lit ''GOMEMLIMIT=1536MiB'']"

definition isolated_command :: "machine \<Rightarrow> pystr list \<Rightarrow> pystr \<Rightarrow> pystr list result" where
  "isolated_command m command cwd =
     (case (if 47 \<in> set (hd command) then Some (mc_abspath m cwd (hd command)) else mc_which m (hd command)) of
        None \<Rightarrow> Inl (ValueError ''Fuzz executable is unavailable'')
      | Some executable \<Rightarrow> Inr (isolated_prefix m @ [executable] @ tl command))"

definition start_process :: "machine \<Rightarrow> fuzz_exec \<Rightarrow> int fz" where
  "start_process m x h =
     (case mc_code m (h @ [x]) of
        Inl e \<Rightarrow> (Inl e, h @ [x])
      | Inr None \<Rightarrow> (Inr 124, h @ [x])
      | Inr (Some code) \<Rightarrow> (Inr code, h @ [x]))"

definition execute :: "machine \<Rightarrow> pystr list \<Rightarrow> pystr \<Rightarrow> pystr \<Rightarrow> int \<Rightarrow> bool \<Rightarrow> int fz" where
  "execute m command cwd run_log timeout isolated =
     fz_bind (fz_lift (if isolated then isolated_command m command cwd else Inr command)) (\<lambda>argv.
       start_process m \<lparr>fx_argv = argv, fx_cwd = cwd, fx_log = run_log, fx_timeout = timeout, fx_isolated = isolated\<rparr>)"


section \<open>Targets\<close>

definition child :: "pystr \<Rightarrow> pystr \<Rightarrow> pystr" where
  "child path name = path @ [47] @ name"

definition RUN_LOG :: pystr where
  "RUN_LOG = lit ''run.log''"

text \<open>The committed inputs of a target, or an empty directory.\<close>

definition committed_corpus :: "machine \<Rightarrow> checkout \<Rightarrow> json_dict \<Rightarrow> string \<Rightarrow> unit result" where
  "committed_corpus m rt target msg =
     (if has_key target ''corpus''
      then bind_r (confined rt (jstr_val (jget target ''corpus''))) (\<lambda>path.
           bind_r (retain_corpus (mc_tree m path) True) (\<lambda>r.
             guard_r (\<not> co_truncated r) (ValueError msg) (Inr ())))
      else Inr ())"

definition target_command :: "json_dict \<Rightarrow> pystr list" where
  "target_command target = map jstr_val (json_items (jget target ''command''))"

definition target_engine :: "json_dict \<Rightarrow> pystr" where
  "target_engine target = jstr_val (jget target ''engine'')"

definition target_name :: "json_dict \<Rightarrow> pystr" where
  "target_name target = jstr_val (jget target ''name'')"

definition target_cwd :: "json_dict \<Rightarrow> pystr" where
  "target_cwd target = jstr_val (dict_get target (lit ''cwd'') (JStr [46]))"

definition engine_limits :: "pystr \<Rightarrow> int \<Rightarrow> pystr \<Rightarrow> pystr list" where
  "engine_limits engine s target_dir =
     (if engine = lit ''go''
      then [lit ''-fuzztime='' @ int_str s @ lit ''s'', lit ''-fuzzminimizetime=10s'', lit ''-parallel=2'',
            lit ''-timeout='' @ int_str (s + 60) @ lit ''s'']
      else [lit ''-max_total_time='' @ int_str s, lit ''-timeout=10'', lit ''-rss_limit_mb=2048'',
            lit ''-artifact_prefix='' @ target_dir @ [47], child target_dir (lit ''corpus'')])"

definition retain_go_diagnostics :: "machine \<Rightarrow> checkout \<Rightarrow> json \<Rightarrow> fuzz_exec list \<Rightarrow> corpus result" where
  "retain_go_diagnostics m rt go_version_file h =
     bind_r (if truthy go_version_file then bind_r (go_module_directory rt go_version_file) (\<lambda>_. Inr ()) else Inr ()) (\<lambda>_.
     bind_r (mc_gocache m h) (\<lambda>cache. retain_corpus cache False))"

definition target_result :: "json_dict \<Rightarrow> int \<Rightarrow> real \<Rightarrow> json_dict \<Rightarrow> json_dict" where
  "target_result target code elapsed metrics =
     [(lit ''name'', JStr (target_name target)), (lit ''seconds'', JInt (target_seconds target)),
      (lit ''exit_code'', JInt code), (lit ''elapsed_seconds'', JFloat elapsed)] @ metrics"

definition run_target :: "machine \<Rightarrow> checkout \<Rightarrow> pystr \<Rightarrow> json_dict \<Rightarrow> json \<Rightarrow> json_dict fz" where
  "run_target m rt output target go_version_file =
     (let s = target_seconds target; engine = target_engine target; target_dir = child output (target_name target)
      in fz_bind (fz_lift (committed_corpus m rt target ''Committed fuzz corpus exceeds the bounded input budget'')) (\<lambda>_.
         fz_bind (fz_lift (confined rt (target_cwd target))) (\<lambda>cwd.
         fz_bind (execute m (target_command target @ engine_limits engine s target_dir) cwd (child target_dir RUN_LOG) (s + 300) True)
           (\<lambda>code h.
              let metrics = engine_metrics (mc_word m) engine (mc_log m h);
                  n = executions engine (mc_log m h);
                  final = (if code = 0 \<and> n = 0 then 125 else code)
              in fz_bind
                   (fz_lift (if engine = lit ''go''
                             then bind_r (retain_go_diagnostics m rt go_version_file h) (\<lambda>r.
                                    Inr (metrics @ [(lit ''generated_corpus'', corpus_json r)]))
                             else Inr metrics))
                   (\<lambda>ms. fz_lift (Inr (target_result target final (mc_elapsed m h) ms))) h))))"

section \<open>The deterministic preflight\<close>

text \<open>\<open>int(x)\<close> of a float.\<close>

definition truncate :: "real \<Rightarrow> int" where
  "truncate x = (if x \<ge> 0 then \<lfloor>x\<rfloor> else \<lceil>x\<rceil>)"

definition bounded_preflight ::
  "machine \<Rightarrow> pystr list \<Rightarrow> pystr \<Rightarrow> pystr \<Rightarrow> int \<Rightarrow> bool \<Rightarrow> real \<Rightarrow> int fz" where
  "bounded_preflight m command cwd run_log limit isolated deadline h =
     (let remaining = truncate (deadline - mc_clock m h)
      in if remaining \<le> 0 then (Inl (ValueError ''Deterministic preflight exceeded its four-minute budget''), h)
         else execute m command cwd run_log (min limit remaining) isolated h)"

definition must_pass :: "int \<Rightarrow> string \<Rightarrow> unit fz" where
  "must_pass code msg = fz_lift (guard_r (code = 0) (ValueError msg) (Inr ()))"

definition replay_command :: "machine \<Rightarrow> pystr \<Rightarrow> json_dict \<Rightarrow> pystr list" where
  "replay_command m target_dir target =
     [hd (target_command target), mc_script m, lit ''--root'', mc_root m, lit ''--target'', target_name target,
      lit ''--output'', child target_dir (lit ''instrumentation.json''), lit ''--''] @ tl (target_command target)
     @ [lit ''-runs=0'', lit ''-timeout=10'', lit ''-rss_limit_mb=2048'', lit ''-artifact_prefix='' @ target_dir @ [47],
        child target_dir (lit ''corpus'')]"

definition replay_python_target :: "machine \<Rightarrow> checkout \<Rightarrow> pystr \<Rightarrow> json_dict \<Rightarrow> real \<Rightarrow> json fz" where
  "replay_python_target m rt output target deadline =
     (let target_dir = child output (target_name target)
      in fz_bind (fz_lift (committed_corpus m rt target ''Committed preflight corpus exceeds the bounded input budget'')) (\<lambda>_.
         fz_bind (fz_lift (confined rt (target_cwd target))) (\<lambda>cwd.
         fz_bind (bounded_preflight m (replay_command m target_dir target) cwd (child target_dir RUN_LOG) 90 True deadline)
           (\<lambda>code h.
              fz_lift
               (case mc_proof m h of
                  None \<Rightarrow> Inl (ValueError ''Deterministic Python preflight failed'')
                | Some loaded \<Rightarrow>
                    guard_r (code = 0) (ValueError ''Deterministic Python preflight failed'')
                   (guard_r (executions (lit ''atheris'') (mc_log m h) \<noteq> 0)
                      (ValueError ''Python preflight requires positive engine execution metrics'')
                   (bind_r loaded (\<lambda>v. case v of
                      JObj proof \<Rightarrow> Inr (JObj (py_update proof (engine_metrics (mc_word m) (lit ''atheris'') (mc_log m h))))
                    | _ \<Rightarrow> Inl TypeError)))) h))))"

text \<open>The interpreters whose dependencies were checked so far, by working directory.\<close>

fun preflight_targets ::
  "machine \<Rightarrow> checkout \<Rightarrow> pystr \<Rightarrow> real \<Rightarrow> (pystr \<times> pystr) list \<Rightarrow> json_dict list \<Rightarrow> json list fz" where
  "preflight_targets m rt output deadline interpreters [] = fz_lift (Inr [])"
| "preflight_targets m rt output deadline interpreters (target # targets) =
     fz_bind (fz_lift (guard_r (target_engine target = lit ''atheris'' \<and> length (target_command target) \<ge> 2)
        (ValueError ''Python preflight requires Atheris script targets'') (confined rt (target_cwd target)))) (\<lambda>cwd.
     let interpreter = hd (target_command target); key = (cwd, interpreter); seen = key \<in> set interpreters
     in fz_bind
          (if seen then fz_lift (Inr ())
           else fz_bind (bounded_preflight m (interpreter # map lit [''-m'', ''pip'', ''check'']) cwd
                   (child output (lit ''pip-check-'' @ int_str (int (length interpreters)) @ lit ''.log'')) 60 True deadline)
                  (\<lambda>code. must_pass code ''Fuzz dependency environment failed pip check'')) (\<lambda>_.
        fz_bind (replay_python_target m rt output target deadline) (\<lambda>proof.
        fz_bind (preflight_targets m rt output deadline (if seen then interpreters else key # interpreters) targets) (\<lambda>proofs.
          fz_lift (Inr (proof # proofs))))))"

definition validate_python_preflight :: "json_dict \<Rightarrow> unit result" where
  "validate_python_preflight data =
     guard_r (\<not> (jget data ''language'' = JStr (lit ''python'')
        \<and> list_ex (\<lambda>t. target_engine t \<noteq> lit ''atheris'' \<or> length (target_command t) < 2
                      \<or> \<not> truthy (jget t ''instrumentation'')) (fuzz_targets data)))
       (ValueError ''Python preflight requires Atheris scripts with production instrumentation declarations'') (Inr ())"

definition argv_of :: "json \<Rightarrow> pystr list" where
  "argv_of v = map jstr_val (json_items v)"

fun preflight_setup :: "machine \<Rightarrow> pystr \<Rightarrow> real \<Rightarrow> nat \<Rightarrow> json list \<Rightarrow> unit fz" where
  "preflight_setup m output deadline i [] = fz_lift (Inr ())"
| "preflight_setup m output deadline i (c # cs) =
     fz_bind (bounded_preflight m (argv_of c) (mc_root m) (child output (lit ''setup-'' @ int_str (int i) @ lit ''.log'')) 180 False deadline)
       (\<lambda>code. fz_bind (must_pass code ''Preflight dependency setup failed'') (\<lambda>_. preflight_setup m output deadline (Suc i) cs))"

fun preflight_checks :: "machine \<Rightarrow> pystr \<Rightarrow> real \<Rightarrow> nat \<Rightarrow> json list \<Rightarrow> unit fz" where
  "preflight_checks m output deadline i [] = fz_lift (Inr ())"
| "preflight_checks m output deadline i (c # cs) =
     fz_bind (bounded_preflight m (argv_of c) (mc_root m) (child output (lit ''command-'' @ int_str (int i) @ lit ''.log'')) 90 True deadline)
       (\<lambda>code. fz_bind (must_pass code ''Deterministic preflight command failed'') (\<lambda>_. preflight_checks m output deadline (Suc i) cs))"

definition run_preflight :: "machine \<Rightarrow> checkout \<Rightarrow> pystr \<Rightarrow> json_dict \<Rightarrow> bool \<Rightarrow> json_dict fz" where
  "run_preflight m rt output data setup h =
     (let python = (jget data ''language'' = JStr (lit ''python'')); deadline = mc_start m h + 240
      in fz_bind (fz_lift (validate_python_preflight data)) (\<lambda>_.
         fz_bind (if setup \<and> python then preflight_setup m output deadline 0 (json_items (jget data ''setup'')) else fz_lift (Inr ()))
           (\<lambda>_.
         fz_bind (if python then preflight_targets m rt output deadline [] (fuzz_targets data) else fz_lift (Inr [])) (\<lambda>proofs.
         fz_bind (preflight_checks m output deadline 0 (preflight_commands data)) (\<lambda>_.
           fz_lift (Inr [(lit ''python_targets'', JList proofs),
                         (lit ''commands'', JInt (int (length (preflight_commands data))))]))))) h)"

section \<open>The campaign\<close>

fun campaign_setup :: "machine \<Rightarrow> pystr \<Rightarrow> nat \<Rightarrow> json list \<Rightarrow> unit fz" where
  "campaign_setup m output i [] = fz_lift (Inr ())"
| "campaign_setup m output i (c # cs) =
     fz_bind (execute m (argv_of c) (mc_root m) (child output (lit ''setup-'' @ int_str (int i) @ lit ''.log'')) 600 False)
       (\<lambda>code. fz_bind (must_pass code ''Fuzz build/setup failed'') (\<lambda>_. campaign_setup m output (Suc i) cs))"

text \<open>The results so far survive the target that raises: the report is written in any case.\<close>

fun campaign_targets ::
  "machine \<Rightarrow> checkout \<Rightarrow> pystr \<Rightarrow> json \<Rightarrow> json_dict list \<Rightarrow> fuzz_exec list
   \<Rightarrow> (json_dict list \<times> unit result) \<times> fuzz_exec list" where
  "campaign_targets m rt output go_version_file [] h = (([], Inr ()), h)"
| "campaign_targets m rt output go_version_file (t # ts) h =
     (case run_target m rt output t go_version_file h of
        (Inl e, h1) \<Rightarrow> (([], Inl e), h1)
      | (Inr r, h1) \<Rightarrow>
          (case campaign_targets m rt output go_version_file ts h1 of ((rs, res), h2) \<Rightarrow> ((r # rs, res), h2)))"

definition campaign_report ::
  "sha256 \<Rightarrow> bytes \<Rightarrow> pystr \<Rightarrow> pystr \<Rightarrow> int \<Rightarrow> int \<Rightarrow> string \<Rightarrow> json_dict list \<Rightarrow> json_dict \<Rightarrow> json_dict" where
  "campaign_report sha raw_manifest repository commit run_id attempt status targets preflight =
     [(lit ''schema'', JInt 2), (lit ''repository'', JStr repository), (lit ''source_sha'', JStr commit),
      (lit ''run_id'', JInt run_id), (lit ''run_attempt'', JInt attempt), (lit ''channel'', JStr (lit ''rc'')),
      (lit ''private'', JBool False), (lit ''network'', JStr (lit ''isolated'')), (lit ''status'', JStr (lit status)),
      (lit ''manifest_sha256'', JStr (sha raw_manifest)), (lit ''targets'', JList (map JObj targets))] @ preflight"

definition exit_failure :: "json_dict \<Rightarrow> bool" where
  "exit_failure t \<longleftrightarrow> truthy (jget t ''exit_code'')"

text \<open>
  \<open>event\<close>, the reference and the repository come from the environment of the run, \<open>actual\<close> is the commit
  that is checked out. The report is \<open>None\<close> when the run is refused before it starts.
\<close>

definition campaign ::
  "sha256 \<Rightarrow> (bytes \<Rightarrow> json result) \<Rightarrow> machine \<Rightarrow> checkout \<Rightarrow> bytes \<Rightarrow> pystr \<Rightarrow> json \<Rightarrow> string \<Rightarrow> pystr \<Rightarrow> pystr
   \<Rightarrow> pystr \<Rightarrow> pystr \<Rightarrow> int \<Rightarrow> int \<Rightarrow> fuzz_exec list \<Rightarrow> (unit result \<times> json_dict option) \<times> fuzz_exec list" where
  "campaign sha loads m rt raw_manifest output event event_name ref repository commit actual run_id attempt h =
     (case bind_r (event_contract event event_name ref repository commit) (\<lambda>_.
           bind_r (fuzz_manifest loads rt raw_manifest) (\<lambda>data.
           bind_r (validate_python_preflight data) (\<lambda>_.
           guard_r (actual = commit) (ValueError ''Fuzz checkout differs from RC source'') (Inr data)))) of
        Inl e \<Rightarrow> ((Inl e, None), h)
      | Inr data \<Rightarrow>
          (let report = campaign_report sha raw_manifest repository actual run_id attempt
           in case fz_bind (campaign_setup m output 0 (json_items (jget data ''setup'')))
                     (\<lambda>_. run_preflight m rt (child output (lit ''preflight'')) data False) h of
                (Inl e, h1) \<Rightarrow> ((Inl e, Some (report ''failed'' [] [])), h1)
              | (Inr evidence, h1) \<Rightarrow>
                  (let preflight = [(lit ''preflight'', JObj evidence)]
                   in case campaign_targets m rt output (jget data ''go-version-file'') (fuzz_targets data) h1 of
                        ((rs, Inl e), h2) \<Rightarrow> ((Inl e, Some (report ''failed'' rs preflight)), h2)
                      | ((rs, Inr _), h2) \<Rightarrow>
                          if list_ex exit_failure rs
                          then ((Inl (ValueError ''One or more fuzz targets failed; inspect diagnostics''),
                                 Some (report ''failed'' rs preflight)), h2)
                          else ((Inr (), Some (report ''passed'' rs preflight)), h2))))"

section \<open>Whether a change needs the preflight\<close>

definition preflight_inputs :: "pystr list" where
  "preflight_inputs =
     map lit [''.github/fuzz.json'', ''.github/requirements-fuzz.txt'', ''.release-policy.json'', ''scripts/change_scope.py'',
       ''scripts/release_fuzz.py'', ''scripts/fuzz_python_preflight.py'', ''.github/workflows'']"

text \<open>\<open>diff\<close> runs the fixed Git query for a range.\<close>

definition preflight_changed_paths :: "(pystr \<Rightarrow> bytes result) \<Rightarrow> string \<Rightarrow> json \<Rightarrow> pystr list result" where
  "preflight_changed_paths diff event_name event =
     bind_r (event_revisions event_name event) (\<lambda>(base, head, separator).
     guard_r (fullmatch SHA_RE base \<and> fullmatch SHA_RE head \<and> separator \<in> {lit ''..'', lit ''...''})
       (ValueError ''Git revisions must be full object IDs with a fixed range separator'')
    (bind_r (diff (base @ separator @ head)) (\<lambda>raw.
       map_r utf8_decode (filter (\<lambda>p. p \<noteq> []) (split_on 0 raw)))))"

fun evidence_error :: "exn \<Rightarrow> bool" where
  "evidence_error (ValueError _) = True"
| "evidence_error UnicodeError = True"
| "evidence_error KeyError = True"
| "evidence_error (OSError _) = True"
| "evidence_error SubprocessError = True"
| "evidence_error _ = False"

definition preflight_needed ::
  "(pystr \<Rightarrow> bytes result) \<Rightarrow> json \<Rightarrow> json \<Rightarrow> string option \<Rightarrow> json_dict \<Rightarrow> bool result" where
  "preflight_needed diff event repository_env event_name data =
     bind_r (py_get event (lit ''repository'') (JObj [])) (\<lambda>r.
     bind_r (as_dict r) (\<lambda>repository.
     guard_r (jget repository ''private'' = JBool False \<and> jget repository ''full_name'' = repository_env)
       (ValueError ''Hosted fuzz preflight requires a public repository'')
    (case event_name of
       None \<Rightarrow> Inr False
     | Some name \<Rightarrow>
         if name \<notin> {''pull_request'', ''merge_group'', ''push''} then Inr False
         else
           let required = map jstr_val (json_items (jget data ''preflight-paths''))
           in if required = [] \<or> [46] \<in> set required then Inr True
              else
                case preflight_changed_paths diff name event of
                  Inl e \<Rightarrow> if evidence_error e then Inr True else Inl e
                | Inr changed \<Rightarrow>
                    Inr (list_ex (\<lambda>path. list_ex (\<lambda>wanted. path = wanted \<or> startswith path (wanted @ [47]))
                                   (required @ preflight_inputs)) changed))))"


section \<open>What an accepted manifest allows\<close>

definition sound_target :: "json_dict \<Rightarrow> bool" where
  "sound_target t \<longleftrightarrow>
     jget t ''name'' = JStr (target_name t) \<and> jget t ''engine'' = JStr (target_engine t)
     \<and> jget t ''seconds'' = JInt (target_seconds t) \<and> 1 \<le> target_seconds t \<and> target_seconds t \<le> 120
     \<and> target_command t \<noteq> [] \<and> list_all (\<lambda>a. \<not> reserved_flag a) (target_command t)"

lemma fuzz_argv_Inr: "fuzz_argv v = Inr cs \<Longrightarrow> cs = argv_of v \<and> cs \<noteq> [] \<and> length cs \<le> 64"
  by (cases v) (auto simp: fuzz_argv_def guard_r_Inr_iff argv_of_def json_items_def)

lemma in_strings_JStr: "in_strings v names = Inr True \<Longrightarrow> \<exists>s. v = JStr s"
  by (cases v) (simp_all add: in_strings_def)

lemma validate_target_sound:
  assumes "validate_target rt v names = Inr name"
  obtains t where "v = JObj t" "sound_target t" "name = target_name t" "name \<notin> set names"
proof -
  from assms obtain t where v: "v = JObj t" by (cases v) (auto simp: validate_target_def)
  from assms [unfolded v] obtain command where
    c: "fuzz_argv (jget t ''command'') = Inr command" "\<not> list_ex reserved_flag command"
    and rest: "str_matches TARGET_NAME (jget t ''name'')" "jstr_val (jget t ''name'') \<notin> set names"
      "in_strings (jget t ''engine'') [''go'', ''libfuzzer'', ''atheris''] = Inr True" "seconds_ok t" "name = jstr_val (jget t ''name'')"
    by (auto simp: validate_target_def gh_success guard_r_Inr_iff)
  have "jget t ''name'' = JStr (target_name t)"
    using rest(1) by (cases "jget t ''name''") (auto simp: str_matches_def target_name_def)
  moreover have "jget t ''engine'' = JStr (target_engine t)"
    using in_strings_JStr [OF rest(3)] by (auto simp: target_engine_def)
  moreover have "jget t ''seconds'' = JInt (target_seconds t) \<and> 1 \<le> target_seconds t \<and> target_seconds t \<le> 120"
    using rest(4) by (cases "jget t ''seconds''") (auto simp: seconds_ok_def target_seconds_def int_of_def)
  moreover have "target_command t = command" "command \<noteq> []"
    using fuzz_argv_Inr [OF c(1)] by (auto simp: target_command_def argv_of_def)
  ultimately have "sound_target t"
    using c(2) by (auto simp: sound_target_def list_all_iff list_ex_iff)
  with that v rest(2,5) show ?thesis by (simp add: target_name_def)
qed

lemma validate_targets_sound:
  "validate_targets rt vs names = Inr () \<Longrightarrow>
     list_all sound_target (map dict_of vs) \<and> list_all is_obj vs
     \<and> distinct (map target_name (map dict_of vs)) \<and> set (map target_name (map dict_of vs)) \<inter> set names = {}"
proof (induction vs arbitrary: names)
  case (Cons v vs)
  from Cons.prems obtain name where n: "validate_target rt v names = Inr name" "validate_targets rt vs (name # names) = Inr ()"
    by (auto simp: bind_r_Inr_iff)
  from validate_target_sound [OF n(1)] obtain t where "v = JObj t" "sound_target t" "name = target_name t" "name \<notin> set names" .
  with Cons.IH [OF n(2)] show ?case by (auto simp: dict_of_def is_obj_def)
qed simp

lemma fuzz_manifest_sound:
  assumes "fuzz_manifest loads rt raw = Inr data"
  shows "1 \<le> length (fuzz_targets data) \<and> length (fuzz_targets data) \<le> 12 \<and> list_all sound_target (fuzz_targets data)
     \<and> distinct (map target_name (fuzz_targets data)) \<and> sum_list (map target_seconds (fuzz_targets data)) \<le> 600
     \<and> length (json_items (jget data ''setup'')) \<le> 16 \<and> length (preflight_commands data) \<le> 16"
proof -
  from assms obtain v where v: "validate_manifest_shape v = Inr data" "validate_targets rt (json_items (jget data ''targets'')) [] = Inr ()"
    "bounded_list 0 16 (dict_get data (lit ''preflight'') (JList []))" "sum_list (map target_seconds (fuzz_targets data)) \<le> 600"
    by (auto simp: fuzz_manifest_def gh_success guard_r_Inr_iff)
  from v(1) have b: "bounded_list 0 16 (jget data ''setup'')" "bounded_list 1 12 (jget data ''targets'')"
    by (auto simp: validate_manifest_shape_def gh_success guard_r_Inr_iff)
  have items: "bounded_list lo hi w \<Longrightarrow> lo \<le> length (json_items w) \<and> length (json_items w) \<le> hi" for lo hi w
    by (cases w) (simp_all add: bounded_list_def json_items_def)
  have "length (preflight_commands data) \<le> 16"
    using v(3) by (auto simp: preflight_commands_def bounded_list_def json_items_def dict_get_def split: option.splits json.splits)
  with items [OF b(1)] items [OF b(2)] validate_targets_sound [OF v(2)] v(4) show ?thesis
    by (simp add: fuzz_targets_def)
qed

section \<open>A campaign is bounded\<close>

text \<open>Only installation steps use the network; everything else is started in its own network namespace.\<close>

definition exec_limits :: "machine \<Rightarrow> fuzz_exec \<Rightarrow> bool" where
  "exec_limits m x \<longleftrightarrow>
     fx_timeout x > 0
     \<and> (if fx_isolated x then take (length (isolated_prefix m)) (fx_argv x) = isolated_prefix m \<and> fx_timeout x \<le> 420
        else fx_timeout x \<le> 600)"

text \<open>
  Whatever an action returns, it starts at most \<open>n\<close> processes, at most \<open>a\<close> of them with a network, and
  their time limits add up to at most \<open>t\<close> seconds.
\<close>

definition bounded_work :: "machine \<Rightarrow> nat \<Rightarrow> nat \<Rightarrow> int \<Rightarrow> (fuzz_exec list \<Rightarrow> 'a \<times> fuzz_exec list) \<Rightarrow> bool" where
  "bounded_work m a n t f \<longleftrightarrow>
     (\<forall>h. \<exists>xs. snd (f h) = h @ xs \<and> list_all (exec_limits m) xs \<and> length (filter (\<lambda>x. \<not> fx_isolated x) xs) \<le> a
        \<and> length xs \<le> n \<and> sum_list (map fx_timeout xs) \<le> t)"

lemma bounded_work_mono: "bounded_work m a n t f \<Longrightarrow> a \<le> a' \<Longrightarrow> n \<le> n' \<Longrightarrow> t \<le> t' \<Longrightarrow> bounded_work m a' n' t' f"
  unfolding bounded_work_def by (meson order_trans)

lemma bounded_snd: "bounded_work m a n t g \<Longrightarrow> (\<And>h. snd (f h) = snd (g h)) \<Longrightarrow> bounded_work m a n t f"
  by (simp add: bounded_work_def)

lemma bounded_lift: "bounded_work m 0 0 0 (fz_lift r)"
  by (auto simp: bounded_work_def fz_lift_def)

lemma bounded_then:
  assumes "bounded_work m a n t f" and "\<And>x h. fst (f h) = x \<Longrightarrow> bounded_work m a' n' t' (g x)"
  shows "bounded_work m (a + a') (n + n') (t + t') (\<lambda>h. g (fst (f h)) (snd (f h)))"
  unfolding bounded_work_def
proof
  fix h
  from assms(1) obtain xs where "snd (f h) = h @ xs" "list_all (exec_limits m) xs"
    "length (filter (\<lambda>x. \<not> fx_isolated x) xs) \<le> a" "length xs \<le> n" "sum_list (map fx_timeout xs) \<le> t"
    unfolding bounded_work_def by blast
  moreover from assms(2) [OF refl, of h] obtain ys where "snd (g (fst (f h)) (h @ xs)) = (h @ xs) @ ys" "list_all (exec_limits m) ys"
    "length (filter (\<lambda>x. \<not> fx_isolated x) ys) \<le> a'" "length ys \<le> n'" "sum_list (map fx_timeout ys) \<le> t'"
    unfolding bounded_work_def by blast
  ultimately show "\<exists>zs. snd (g (fst (f h)) (snd (f h))) = h @ zs \<and> list_all (exec_limits m) zs
      \<and> length (filter (\<lambda>x. \<not> fx_isolated x) zs) \<le> a + a' \<and> length zs \<le> n + n' \<and> sum_list (map fx_timeout zs) \<le> t + t'"
    by (intro exI [of _ "xs @ ys"]) simp
qed

lemma bounded_bind:
  assumes "bounded_work m a n t f" and "\<And>x. bounded_work m a' n' t' (g x)" and "0 \<le> t'"
  shows "bounded_work m (a + a') (n + n') (t + t') (fz_bind f g)"
proof -
  let ?g = "\<lambda>r h. case r of Inl e \<Rightarrow> (Inl e, h) | Inr x \<Rightarrow> g x h"
  have "bounded_work m a' n' t' (?g r)" for r
    using assms(2,3) by (cases r) (auto simp: bounded_work_def)
  then have "bounded_work m (a + a') (n + n') (t + t') (\<lambda>h. ?g (fst (f h)) (snd (f h)))"
    by (rule bounded_then [OF assms(1), where g = ?g])
  moreover have "fz_bind f g = (\<lambda>h. ?g (fst (f h)) (snd (f h)))"
    by (auto simp: fz_bind_def fun_eq_iff split: prod.splits sum.splits)
  ultimately show ?thesis by simp
qed

lemma bounded_bind0: "bounded_work m a n t f \<Longrightarrow> (\<And>x. bounded_work m 0 0 0 (g x)) \<Longrightarrow> bounded_work m a n t (fz_bind f g)"
  using bounded_bind [of m a n t f 0 0 0 g] by simp

lemma bounded_lift_bind: "(\<And>x. r = Inr x \<Longrightarrow> bounded_work m a n t (g x)) \<Longrightarrow> 0 \<le> t \<Longrightarrow> bounded_work m a n t (fz_bind (fz_lift r) g)"
  by (cases r) (auto simp: fz_bind_def fz_lift_def bounded_work_def)

lemma bounded_execute:
  assumes "0 < timeout" and "timeout \<le> (if isolated then 420 else 600)"
  shows "bounded_work m (if isolated then 0 else 1) 1 timeout (execute m command cwd run_log timeout isolated)"
proof -
  have "bounded_work m (if isolated then 0 else 1) 1 timeout (start_process m x)"
    if "exec_limits m x" "fx_timeout x = timeout" "fx_isolated x = isolated" for x
    unfolding bounded_work_def
  proof
    fix h
    have "snd (start_process m x h) = h @ [x]" by (simp add: start_process_def split: sum.splits option.splits)
    with that show "\<exists>xs. snd (start_process m x h) = h @ xs \<and> list_all (exec_limits m) xs
        \<and> length (filter (\<lambda>x. \<not> fx_isolated x) xs) \<le> (if isolated then 0 else 1) \<and> length xs \<le> 1
        \<and> sum_list (map fx_timeout xs) \<le> timeout"
      by (intro exI [of _ "[x]"]) simp
  qed
  moreover have "isolated_command m command cwd = Inr argv \<Longrightarrow> take (length (isolated_prefix m)) argv = isolated_prefix m" for argv
    by (auto simp: isolated_command_def split: option.splits if_splits)
  ultimately show ?thesis
    unfolding execute_def using assms by (intro bounded_lift_bind) (auto simp: exec_limits_def split: if_splits)
qed

lemma bounded_pure: "(\<And>h. snd (f h) = h) \<Longrightarrow> bounded_work m 0 0 0 f"
  by (simp add: bounded_work_def)

lemma fz_lift_bind: "fz_bind (fz_lift r) g = (case r of Inl e \<Rightarrow> fz_lift (Inl e) | Inr x \<Rightarrow> g x)"
  by (auto simp: fz_bind_def fz_lift_def fun_eq_iff split: sum.splits)

lemma bounded_must_pass: "bounded_work m 0 0 0 (must_pass code msg)"
  unfolding must_pass_def by (rule bounded_lift)

lemma bounded_run_target:
  assumes "sound_target t"
  shows "bounded_work m 0 1 (target_seconds t + 300) (run_target m rt output t go_version_file)"
proof -
  have "bounded_work m 0 1 (target_seconds t + 300)
      (execute m command cwd run_log (target_seconds t + 300) True)" for command cwd run_log
    using bounded_execute [of "target_seconds t + 300" True m] assms by (simp add: sound_target_def)
  then show ?thesis
    unfolding run_target_def Let_def using assms
    by (intro bounded_lift_bind bounded_bind0 bounded_pure)
      (auto simp: sound_target_def fz_lift_bind fz_lift_def split: sum.splits)
qed

lemma bounded_bounded_preflight:
  assumes "0 < limit" and "limit \<le> 420"
  shows "bounded_work m (if isolated then 0 else 1) 1 limit (bounded_preflight m command cwd run_log limit isolated deadline)"
  unfolding bounded_work_def
proof
  fix h
  let ?r = "truncate (deadline - mc_clock m h)"
  show "\<exists>xs. snd (bounded_preflight m command cwd run_log limit isolated deadline h) = h @ xs \<and> list_all (exec_limits m) xs
      \<and> length (filter (\<lambda>x. \<not> fx_isolated x) xs) \<le> (if isolated then 0 else 1) \<and> length xs \<le> 1
      \<and> sum_list (map fx_timeout xs) \<le> limit"
  proof (cases "?r \<le> 0")
    case True
    with assms show ?thesis by (simp add: bounded_preflight_def Let_def)
  next
    case False
    then have "bounded_work m (if isolated then 0 else 1) 1 (min limit ?r)
        (execute m command cwd run_log (min limit ?r) isolated)"
      using assms by (intro bounded_execute) auto
    then obtain xs where "snd (execute m command cwd run_log (min limit ?r) isolated h) = h @ xs" "list_all (exec_limits m) xs"
      "length (filter (\<lambda>x. \<not> fx_isolated x) xs) \<le> (if isolated then 0 else 1)" "length xs \<le> 1"
      "sum_list (map fx_timeout xs) \<le> min limit ?r"
      unfolding bounded_work_def by blast
    with False show ?thesis by (intro exI [of _ xs]) (simp add: bounded_preflight_def Let_def)
  qed
qed

lemma bounded_replay: "bounded_work m 0 1 90 (replay_python_target m rt output t deadline)"
proof -
  have "bounded_work m 0 1 90 (bounded_preflight m command cwd run_log 90 True deadline)" for command cwd run_log
    using bounded_bounded_preflight [of 90 m True] by simp
  then show ?thesis
    unfolding replay_python_target_def Let_def
    by (intro bounded_lift_bind bounded_bind0 bounded_pure) (auto simp: fz_lift_def)
qed

lemma bounded_preflight_targets:
  "bounded_work m 0 (2 * length ts) (150 * int (length ts)) (preflight_targets m rt output deadline interpreters ts)"
proof (induction ts arbitrary: interpreters)
  case (Cons t ts)
  have pip: "bounded_work m 0 1 60 (if c then fz_lift (Inr ()) else fz_bind (bounded_preflight m command cwd run_log 60 True deadline)
      (\<lambda>code. must_pass code msg))" for c command cwd run_log msg
    using bounded_bounded_preflight [of 60 m True command cwd run_log deadline]
    by (auto intro: bounded_bind0 bounded_must_pass bounded_work_mono [OF bounded_lift])
  have "bounded_work m 0 (1 + (1 + 2 * length ts)) (60 + (90 + 150 * int (length ts)))
      (preflight_targets m rt output deadline interpreters (t # ts))"
    unfolding preflight_targets.simps Let_def
    by (intro bounded_lift_bind bounded_bind [where a = 0 and a' = 0, simplified] pip bounded_replay bounded_bind0 Cons.IH bounded_lift)
      simp_all
  then show ?case by simp
qed (simp add: bounded_lift)

lemma bounded_preflight_checks:
  "bounded_work m 0 (length cs) (90 * int (length cs)) (preflight_checks m output deadline i cs)"
proof (induction cs arbitrary: i)
  case (Cons c cs)
  have "bounded_work m 0 1 90 (bounded_preflight m command cwd run_log 90 True deadline)" for command cwd run_log
    using bounded_bounded_preflight [of 90 m True] by simp
  then have "bounded_work m 0 (1 + (0 + length cs)) (90 + (0 + 90 * int (length cs))) (preflight_checks m output deadline i (c # cs))"
    unfolding preflight_checks.simps
    by (intro bounded_bind [where a = 0 and a' = 0, simplified] bounded_must_pass Cons.IH) simp_all
  then show ?case by simp
qed (simp add: bounded_lift)

lemma bounded_campaign_setup:
  "bounded_work m (length cs) (length cs) (600 * int (length cs)) (campaign_setup m output i cs)"
proof (induction cs arbitrary: i)
  case (Cons c cs)
  have "bounded_work m 1 1 600 (execute m command cwd run_log 600 False)" for command cwd run_log
    using bounded_execute [of 600 False m] by simp
  then have "bounded_work m (1 + (0 + length cs)) (1 + (0 + length cs)) (600 + (0 + 600 * int (length cs)))
      (campaign_setup m output i (c # cs))"
    unfolding campaign_setup.simps by (intro bounded_bind bounded_must_pass Cons.IH) simp_all
  then show ?case by simp
qed (simp add: bounded_lift)

lemma bounded_campaign_targets:
  "list_all sound_target ts \<Longrightarrow>
     bounded_work m 0 (length ts) (sum_list (map (\<lambda>t. target_seconds t + 300) ts)) (campaign_targets m rt output go_version_file ts)"
proof (induction ts)
  case (Cons t ts)
  let ?g = "\<lambda>r h. case r of Inl e \<Rightarrow> (([], Inl e), h)
    | Inr x \<Rightarrow> (case campaign_targets m rt output go_version_file ts h of ((rs, res), h2) \<Rightarrow> ((x # rs, res), h2))"
  have "bounded_work m 0 (length ts) (sum_list (map (\<lambda>t. target_seconds t + 300) ts)) (?g r)" for r
  proof (cases r)
    case (Inl e)
    have "0 \<le> sum_list (map (\<lambda>t. target_seconds t + 300) ts)"
      using Cons.prems by (intro sum_list_nonneg) (auto simp: sound_target_def list_all_iff)
    with Inl show ?thesis by (simp add: bounded_work_def)
  next
    case (Inr x)
    then have "snd (?g r h) = snd (campaign_targets m rt output go_version_file ts h)" for h
      by (simp split: prod.splits)
    with Cons show ?thesis by (simp add: bounded_work_def)
  qed
  moreover have "bounded_work m 0 1 (target_seconds t + 300) (run_target m rt output t go_version_file)"
    using Cons.prems by (intro bounded_run_target) simp
  ultimately have "bounded_work m (0 + 0) (1 + length ts) (target_seconds t + 300 + sum_list (map (\<lambda>t. target_seconds t + 300) ts))
      (\<lambda>h. ?g (fst (run_target m rt output t go_version_file h)) (snd (run_target m rt output t go_version_file h)))"
    by (intro bounded_then)
  moreover have "campaign_targets m rt output go_version_file (t # ts)
      = (\<lambda>h. ?g (fst (run_target m rt output t go_version_file h)) (snd (run_target m rt output t go_version_file h)))"
    by (auto simp: fun_eq_iff split: prod.splits sum.splits)
  ultimately show ?case by simp
qed (simp add: bounded_work_def)

lemma bounded_run_preflight:
  assumes "length (fuzz_targets data) \<le> 12" and "length (preflight_commands data) \<le> 16"
  shows "bounded_work m 0 40 3240 (run_preflight m rt output data False)"
proof -
  have step: "bounded_work m 0 (2 * length (fuzz_targets data) + length (preflight_commands data))
      (150 * int (length (fuzz_targets data)) + 90 * int (length (preflight_commands data)))
      (fz_bind (if python then preflight_targets m rt output deadline [] (fuzz_targets data) else fz_lift (Inr [])) (\<lambda>proofs.
         fz_bind (preflight_checks m output deadline 0 (preflight_commands data)) (\<lambda>_. fz_lift (Inr (g proofs)))))" for python deadline g
  proof (intro bounded_bind [where a = 0 and a' = 0, simplified] bounded_bind0 bounded_lift bounded_preflight_checks)
    show "bounded_work m 0 (2 * length (fuzz_targets data)) (150 * int (length (fuzz_targets data)))
        (if python then preflight_targets m rt output deadline [] (fuzz_targets data) else fz_lift (Inr []))"
      using bounded_preflight_targets [of m "fuzz_targets data"] by (auto intro: bounded_work_mono [OF bounded_lift])
  qed simp
  have all: "bounded_work m 0 40 3240
      (fz_bind (fz_lift (validate_python_preflight data)) (\<lambda>_. fz_bind (fz_lift (Inr ())) (\<lambda>_.
         fz_bind (if python then preflight_targets m rt output deadline [] (fuzz_targets data) else fz_lift (Inr [])) (\<lambda>proofs.
         fz_bind (preflight_checks m output deadline 0 (preflight_commands data)) (\<lambda>_. fz_lift (Inr (g proofs)))))))"
    for python deadline g
  proof (rule bounded_lift_bind, rule bounded_lift_bind)
    show "bounded_work m 0 40 3240
        (fz_bind (if python then preflight_targets m rt output deadline [] (fuzz_targets data) else fz_lift (Inr [])) (\<lambda>proofs.
           fz_bind (preflight_checks m output deadline 0 (preflight_commands data)) (\<lambda>_. fz_lift (Inr (g proofs)))))"
      by (rule bounded_work_mono [OF step]) (use assms in simp_all)
  qed simp_all
  show ?thesis
    unfolding bounded_work_def
  proof
    fix h
    show "\<exists>xs. snd (run_preflight m rt output data False h) = h @ xs \<and> list_all (exec_limits m) xs
        \<and> length (filter (\<lambda>x. \<not> fx_isolated x) xs) \<le> 0 \<and> length xs \<le> 40 \<and> sum_list (map fx_timeout xs) \<le> 3240"
      using all [of "jget data ''language'' = JStr (lit ''python'')" "mc_start m h + 240"
          "\<lambda>proofs. [(lit ''python_targets'', JList proofs), (lit ''commands'', JInt (int (length (preflight_commands data))))]",
          unfolded bounded_work_def, THEN spec [where x = h]]
      by (simp add: run_preflight_def Let_def)
  qed
qed


section \<open>A retained corpus is bounded\<close>

definition corpus_ok :: "corpus \<Rightarrow> bool" where
  "corpus_ok r \<longleftrightarrow> co_files r \<le> CORPUS_FILES \<and> co_bytes r \<le> CORPUS_BYTES
     \<and> co_files r = length (co_copied r) \<and> co_bytes r = sum_list (map snd (co_copied r))"

lemma retain_files_ok: "retain_files required err r fs = Inr r' \<Longrightarrow> corpus_ok r \<Longrightarrow> corpus_ok r'"
  by (induction required err r fs rule: retain_files.induct)
    (auto simp: corpus_ok_def guard_r_Inr_iff split: option.splits if_splits)

lemma retained_corpus_is_bounded: "retain_corpus source required = Inr r \<Longrightarrow> corpus_ok r"
proof -
  have "corpus_ok empty_corpus" by (simp add: corpus_ok_def empty_corpus_def)
  then show "retain_corpus source required = Inr r \<Longrightarrow> corpus_ok r"
    by (auto simp: retain_corpus_def dest: retain_files_ok split: option.splits if_splits)
qed

section \<open>The report of a passed campaign\<close>

lemma fz_bind_Inr: "fz_bind m f h = (Inr y, h') \<longleftrightarrow> (\<exists>x h1. m h = (Inr x, h1) \<and> f x h1 = (Inr y, h'))"
  by (auto simp: fz_bind_def split: prod.splits sum.splits)

lemma fz_lift_Inr [simp]: "fz_lift r h = (r', h') \<longleftrightarrow> r = r' \<and> h = h'"
  by (auto simp: fz_lift_def)

definition reports_target :: "json_dict \<Rightarrow> json_dict \<Rightarrow> bool" where
  "reports_target t r \<longleftrightarrow>
     (\<exists>code n elapsed ms. r = target_result t code elapsed ([(lit ''engine'', JStr (target_engine t)), (lit ''executions'', JInt (int n))] @ ms)
        \<and> (code = 0 \<longrightarrow> n \<noteq> 0))"

lemma run_target_reports:
  assumes "run_target m rt output t go_version_file h = (Inr r, h')"
  shows "reports_target t r"
proof -
  have metrics: "\<exists>ms. engine_metrics word engine out @ x
      = [(lit ''engine'', JStr engine), (lit ''executions'', JInt (int (executions engine out)))] @ ms" for word engine out x
    unfolding engine_metrics_def by simp
  let ?out = "\<lambda>h. mc_log m h" and ?e = "target_engine t"
  have ext: "(if c then bind_r q (\<lambda>y. Inr (v @ [f y])) else Inr v) = Inr ms \<Longrightarrow> \<exists>x. ms = v @ x" for c q v f and ms :: json_dict
    by (cases c; cases q) auto
  from assms obtain code h1 ms where
    a: "(if ?e = lit ''go'' then bind_r (retain_go_diagnostics m rt go_version_file h1) (\<lambda>y.
        Inr (engine_metrics (mc_word m) ?e (?out h1) @ [(lit ''generated_corpus'', corpus_json y)]))
      else Inr (engine_metrics (mc_word m) ?e (?out h1))) = Inr ms"
    and r: "r = target_result t (if code = 0 \<and> executions ?e (?out h1) = 0 then 125 else code) (mc_elapsed m h1) ms"
    unfolding run_target_def Let_def by (fastforce simp only: fz_bind_Inr fz_lift_Inr sum.inject)
  from ext [OF a] r obtain x where
    x: "r = target_result t (if code = 0 \<and> executions ?e (?out h1) = 0 then 125 else code) (mc_elapsed m h1)
        (engine_metrics (mc_word m) ?e (?out h1) @ x)"
    by blast
  from metrics obtain ms' where
    "engine_metrics (mc_word m) ?e (?out h1) @ x
       = [(lit ''engine'', JStr ?e), (lit ''executions'', JInt (int (executions ?e (?out h1))))] @ ms'" by blast
  with x show ?thesis
    unfolding reports_target_def
    by (intro exI [of _ "if code = 0 \<and> executions ?e (?out h1) = 0 then 125 else code"]
        exI [of _ "executions ?e (?out h1)"] exI [of _ "mc_elapsed m h1"] exI [of _ ms']) simp
qed

lemma campaign_targets_report:
  "campaign_targets m rt output go_version_file ts h = ((rs, Inr ()), h') \<Longrightarrow> list_all2 reports_target ts rs"
proof (induction ts arbitrary: h h' rs)
  case (Cons t ts)
  from Cons.prems obtain r rs' h1 h2 where
    "run_target m rt output t go_version_file h = (Inr r, h1)"
    "campaign_targets m rt output go_version_file ts h1 = ((rs', Inr ()), h2)" "rs = r # rs'"
    by (auto split: prod.splits sum.splits)
  with Cons.IH [of h1 rs'] run_target_reports show ?case by auto
qed simp

lemma reported_fields:
  assumes "reports_target t r" and "\<not> exit_failure r" and "sound_target t"
  shows "jget r ''name'' = jget t ''name'' \<and> jget r ''seconds'' = jget t ''seconds'' \<and> jget r ''exit_code'' = JInt 0
     \<and> jget r ''engine'' = jget t ''engine'' \<and> positive_executions r"
proof -
  from assms(1) obtain code n elapsed ms where
    r: "r = target_result t code elapsed ([(lit ''engine'', JStr (target_engine t)), (lit ''executions'', JInt (int n))] @ ms)"
      "code = 0 \<longrightarrow> n \<noteq> 0"
    unfolding reports_target_def by blast
  have "jget r ''exit_code'' = JInt code" "jget r ''name'' = JStr (target_name t)" "jget r ''seconds'' = JInt (target_seconds t)"
    "jget r ''engine'' = JStr (target_engine t)" "jget r ''executions'' = JInt (int n)"
    by (simp_all add: r(1) target_result_def dict_get_def)
  with assms(2,3) r(2) show ?thesis
    by (simp add: exit_failure_def sound_target_def positive_executions_def jint_def)
qed

text \<open>
  C30: What a campaign reports, the verification accepts. When a campaign over a manifest in another language
  than Python returns without an error, the report it has written passes the check of the release: right
  repository, commit, run and attempt, the digest of this manifest, every declared target with its time and
  exit code zero, the right engine and a positive number of executions, and every preflight command.
\<close>

theorem campaign_report_verifies:
  assumes "campaign sha loads m rt raw_manifest output event event_name ref repository commit actual run_id attempt h
      = ((Inr (), Some report), h')"
    and "loads raw_report = Inr (JObj report)"
    and "fuzz_manifest loads rt raw_manifest = Inr data" and "jget data ''language'' \<noteq> JStr (lit ''python'')"
  shows "verify_report sha loads rt raw_manifest raw_report repository commit run_id attempt = Inr ()"
proof -
  note s = fuzz_manifest_sound [OF assms(3)]
  from assms(1,3) obtain evidence rs h0 h1 h2 where
    actual: "actual = commit" and pre: "run_preflight m rt (child output (lit ''preflight'')) data False h0 = (Inr evidence, h1)"
    and targets: "campaign_targets m rt output (jget data ''go-version-file'') (fuzz_targets data) h1 = ((rs, Inr ()), h2)"
    and ok: "\<not> list_ex exit_failure rs"
    and report: "report = campaign_report sha raw_manifest repository actual run_id attempt ''passed'' rs [(lit ''preflight'', JObj evidence)]"
    by (auto simp: campaign_def Let_def fz_bind_Inr bind_r_Inr_iff guard_r_Inr_iff split: sum.splits prod.splits if_splits)
  have rs: "list_all2 reports_target (fuzz_targets data) rs" using campaign_targets_report [OF targets] .
  have evidence: "jget evidence ''commands'' = JInt (int (length (preflight_commands data)))"
    using pre by (auto simp: run_preflight_def Let_def fz_bind_Inr dict_get_def)
  have each: "list_all2 (\<lambda>t r. jget r ''name'' = jget t ''name'' \<and> jget r ''seconds'' = jget t ''seconds'' \<and> jget r ''exit_code'' = JInt 0
      \<and> jget r ''engine'' = jget t ''engine'' \<and> positive_executions r \<and> jint (jget r ''seconds'') \<noteq> None) (fuzz_targets data) rs"
    using rs ok s
    by (auto simp: list_all2_conv_all_nth list_all_length list_ex_length sound_target_def jint_def dest!: reported_fields [unfolded sound_target_def])
  have fields: "jget report ''schema'' = JInt 2" "dict_get report (lit ''targets'') (JList []) = JList (map JObj rs)"
    "jget report ''preflight'' = JObj evidence"
    "list_all (\<lambda>(k, expected). dict_get report k JNull = expected)
        (report_identity sha raw_manifest repository commit run_id attempt)"
    by (simp_all add: report actual campaign_report_def report_identity_def dict_get_def)
  have "verify_target_inventory (JList (map JObj rs)) (fuzz_targets data) = Inr rs"
  proof -
    from each have "list_all (\<lambda>r. jint (jget r ''seconds'') \<noteq> None \<and> jint (jget r ''exit_code'') \<noteq> None) rs"
      "map (\<lambda>r. (jget r ''name'', jget r ''seconds'', jget r ''exit_code'')) rs
         = map (\<lambda>t. (jget t ''name'', jget t ''seconds'', JInt 0)) (fuzz_targets data)"
      by (induction rule: list_all2_induct) (auto simp: jint_def)
    then show ?thesis by (simp add: verify_target_inventory_def dict_of_def is_obj_def list_all_iff comp_def)
  qed
  moreover have "verify_preflight_evidence report rs data = Inr ()"
  proof -
    from each have "list_all (\<lambda>(r, t). jget r ''engine'' = jget t ''engine'' \<and> positive_executions r) (zip rs (fuzz_targets data))"
      by (induction rule: list_all2_induct) auto
    with fields(1,3) evidence assms(4) show ?thesis by (simp add: verify_preflight_evidence_def)
  qed
  ultimately show ?thesis
    using fields(1,2,4) assms(2,3) by (simp add: verify_report_def as_dict_def)
qed

definition sample_fuzz_target :: json_dict where
  "sample_fuzz_target =
     [(lit ''name'', JStr (lit ''t'')), (lit ''engine'', JStr (lit ''libfuzzer'')), (lit ''command'', JList [JStr (lit ''f'')]),
      (lit ''seconds'', JInt 1)]"

definition sample_fuzz_manifest :: json_dict where
  "sample_fuzz_manifest =
     [(lit ''schema'', JInt 1), (lit ''language'', JStr (lit ''c'')), (lit ''setup'', JList []),
      (lit ''targets'', JList [JObj sample_fuzz_target])]"

definition sample_fuzz_event :: json where
  "sample_fuzz_event =
     JObj [(lit ''repository'', JObj [(lit ''private'', JBool False), (lit ''full_name'', JStr (lit ''o/r'')),
                                    (lit ''default_branch'', JStr (lit ''m''))]),
           (lit ''inputs'', JObj [(lit ''channel'', JStr (lit ''rc''))])]"

definition sample_commit_id :: pystr where
  "sample_commit_id = replicate 40 48"

definition sample_evidence :: json_dict where
  "sample_evidence = [(lit ''preflight'', JObj [(lit ''python_targets'', JList []), (lit ''commands'', JInt 0)])]"

definition sample_report :: json_dict where
  "sample_report =
     campaign_report (\<lambda>_. []) [0] (lit ''o/r'') sample_commit_id 7 1 ''passed''
       [target_result sample_fuzz_target 0 0 [(lit ''engine'', JStr (lit ''libfuzzer'')), (lit ''executions'', JInt 7)]] sample_evidence"

definition sample_fuzz_loads :: "bytes \<Rightarrow> json result" where
  "sample_fuzz_loads raw = Inr (JObj (if raw = [0] then sample_fuzz_manifest else sample_report))"

definition sample_checkout :: checkout where
  "sample_checkout = \<lparr>ck_inside = (\<lambda>_. True), ck_regular = (\<lambda>_. True)\<rparr>"

definition sample_machine :: machine where
  "sample_machine =
     \<lparr>mc_code = (\<lambda>_. Inr (Some 0)), mc_elapsed = (\<lambda>_. 0), mc_log = (\<lambda>_. lit ''Done 7 runs in''), mc_start = (\<lambda>_. 0),
      mc_clock = (\<lambda>_. 0), mc_which = Some, mc_abspath = (\<lambda>_ p. p), mc_environ = (\<lambda>_. None), mc_ids = (0, 0),
      mc_tree = (\<lambda>_. None), mc_gocache = (\<lambda>_. Inr None), mc_proof = (\<lambda>_. None), mc_root = lit ''/r'', mc_script = lit ''p'',
      mc_word = (\<lambda>_. False)\<rparr>"

lemma sample_event_ok: "event_contract sample_fuzz_event ''workflow_dispatch'' (lit ''refs/heads/m'') (lit ''o/r'') sample_commit_id = Inr ()"
proof -
  have "fullmatch SHA_RE sample_commit_id"
    by (simp add: sample_commit_id_def SHA_RE_def r_hex_def fullmatch_denotes denotes_rep_class in_class_def list_all_iff)
  then show ?thesis
    by (simp add: event_contract_def sample_fuzz_event_def py_get_def dict_get_def as_dict_def) (simp add: lit_def)
qed

lemma sample_target_ok: "validate_target sample_checkout (JObj sample_fuzz_target) [] = Inr (lit ''t'')"
proof -
  have "denotes (r_upto n r) []" for n r
    unfolding r_upto_def by (induction n) (auto simp: denotes_seq_Cons simp del: r_seq.simps(3))
  then have "fullmatch TARGET_NAME (lit ''t'')"
    unfolding TARGET_NAME_def fullmatch_denotes denotes.simps(5)
    by (intro exI [of _ "[116]"] exI [of _ "[]"]) (simp add: in_class_def lit_def)
  moreover have "fullmatch PATH_CHARS [46]" by code_simp
  moreover have "\<not> reserved_flag (lit ''f'')" by code_simp
  moreover have "command_word (JStr (lit ''f''))" by code_simp
  ultimately show ?thesis
    by (simp add: validate_target_def sample_fuzz_target_def only_keys_def dict_get_def str_matches_def in_strings_def
        seconds_ok_def fuzz_argv_def fuzz_relative_def confined_def sample_checkout_def has_key_def validate_instrumentation_def)
qed

lemma sample_fuzz_accepted: "fuzz_manifest sample_fuzz_loads sample_checkout [0] = Inr sample_fuzz_manifest"
  by (simp add: fuzz_manifest_def sample_fuzz_loads_def validate_manifest_shape_def sample_fuzz_manifest_def only_keys_def
      dict_get_def in_strings_def bounded_list_def json_items_def has_key_def sample_target_ok fuzz_targets_def dict_of_def)
    (simp add: target_seconds_def sample_fuzz_target_def dict_get_def int_of_def)

lemma sample_target_runs:
  "\<exists>xs. run_target sample_machine sample_checkout output sample_fuzz_target JNull [] =
     (Inr (target_result sample_fuzz_target 0 0 [(lit ''engine'', JStr (lit ''libfuzzer'')), (lit ''executions'', JInt 7)]), xs)"
proof -
  have "executions (lit ''libfuzzer'') (lit ''Done 7 runs in'') = 7"
    "engine_metrics (\<lambda>_. False) (lit ''libfuzzer'') (lit ''Done 7 runs in'')
       = [(lit ''engine'', JStr (lit ''libfuzzer'')), (lit ''executions'', JInt 7)]" by code_simp+
  then show ?thesis
    by (simp add: run_target_def Let_def fz_bind_def fz_lift_def committed_corpus_def has_key_def sample_fuzz_target_def
        confined_def sample_checkout_def execute_def isolated_command_def sample_machine_def start_process_def
        target_engine_def dict_get_def)
qed

lemma sample_campaign_passes:
  "\<exists>h'. campaign (\<lambda>_. []) sample_fuzz_loads sample_machine sample_checkout [0] (lit ''/o'') sample_fuzz_event ''workflow_dispatch''
      (lit ''refs/heads/m'') (lit ''o/r'') sample_commit_id sample_commit_id 7 1 [] = ((Inr (), Some sample_report), h')"
proof -
  have targets: "fuzz_targets sample_fuzz_manifest = [sample_fuzz_target]" "jget sample_fuzz_manifest ''go-version-file'' = JNull"
    "json_items (jget sample_fuzz_manifest ''setup'') = []" "preflight_commands sample_fuzz_manifest = []"
    "jget sample_fuzz_manifest ''language'' = JStr (lit ''c'')"
    by (simp_all add: sample_fuzz_manifest_def fuzz_targets_def preflight_commands_def json_items_def dict_get_def dict_of_def)
  have "validate_python_preflight sample_fuzz_manifest = Inr ()"
    by (simp add: validate_python_preflight_def targets)
  then have "run_preflight sample_machine sample_checkout out sample_fuzz_manifest False h
      = (Inr [(lit ''python_targets'', JList []), (lit ''commands'', JInt 0)], h)" for out h
    by (simp add: run_preflight_def Let_def targets fz_bind_def fz_lift_def)
  moreover have "\<not> exit_failure (target_result sample_fuzz_target 0 e ms)" for e ms
    by (simp add: exit_failure_def target_result_def dict_get_def)
  moreover obtain xs where "run_target sample_machine sample_checkout (lit ''/o'') sample_fuzz_target JNull [] =
      (Inr (target_result sample_fuzz_target 0 0 [(lit ''engine'', JStr (lit ''libfuzzer'')), (lit ''executions'', JInt 7)]), xs)"
    using sample_target_runs by blast
  ultimately show ?thesis
    using sample_event_ok sample_fuzz_accepted \<open>validate_python_preflight sample_fuzz_manifest = Inr ()\<close>
    by (simp add: campaign_def Let_def targets fz_bind_def fz_lift_def sample_report_def sample_evidence_def)
qed

theorem campaign_report_verifies_witness:
  "verify_report (\<lambda>_. []) sample_fuzz_loads sample_checkout [0] [1] (lit ''o/r'') sample_commit_id 7 1 = Inr ()"
proof -
  obtain h' where "campaign (\<lambda>_. []) sample_fuzz_loads sample_machine sample_checkout [0] (lit ''/o'') sample_fuzz_event ''workflow_dispatch''
      (lit ''refs/heads/m'') (lit ''o/r'') sample_commit_id sample_commit_id 7 1 [] = ((Inr (), Some sample_report), h')"
    using sample_campaign_passes by blast
  moreover have "sample_fuzz_loads [1] = Inr (JObj sample_report)" by (simp add: sample_fuzz_loads_def)
  moreover have "jget sample_fuzz_manifest ''language'' \<noteq> JStr (lit ''python'')"
    by (simp add: sample_fuzz_manifest_def dict_get_def)
  ultimately show ?thesis
    using sample_fuzz_accepted by (intro campaign_report_verifies) auto
qed

end
