(* ===== verification/Release_Versioned.thy ===== *)
theory Release_Versioned
  imports Release_Create Toolchains Release_Fuzz
begin

text \<open>
  What both commands of \<open>scripts/release_versioned.py\<close> check: the context of the job, the accepted candidate
  and, for a scheduled build, an earlier release of the same inputs. The environment of the commands is the record \<open>job\<close>; resolving the configured base version and checking the committed
  version files (\<open>release.py\<close>, \<open>version_plan.py\<close>), inspecting a package, verifying detached provenance and the
  optional signature verifier are its fields. A command ends in \<open>None\<close> when the readings of the clock end before the run is ready.
\<close>

section \<open>The environment of a job\<close>

record job =
  jb_uni :: "nat \<Rightarrow> pystr"
  jb_digits :: "(nat \<times> nat) list"
  jb_sha1 :: sha256
  jb_sha :: sha256
  jb_fr :: "real \<Rightarrow> pystr"
  jb_unzip :: unzip
  jb_ob :: observer
  jb_environ :: "string \<Rightarrow> pystr option"
  jb_head :: proc
  jb_read :: "pystr \<Rightarrow> bytes result"
  jb_loads :: "bytes \<Rightarrow> json result"
  jb_start :: real
  jb_readings :: "real list"
  jb_created :: pystr
  jb_stamp :: pystr
  jb_nonce :: pystr
  jb_checkout :: checkout
  jb_resolve :: "json_dict \<Rightarrow> json \<Rightarrow> pystr result"
  jb_check_base :: "json_dict \<Rightarrow> pystr \<Rightarrow> unit result"
  jb_inspect :: "staged \<Rightarrow> json_dict \<Rightarrow> plan \<Rightarrow> json_dict result"
  jb_provenance :: "staged list \<Rightarrow> json list \<Rightarrow> unit result"
  jb_signing :: "json_dict result"
  jb_verify_signing :: "staged list \<Rightarrow> json_dict \<Rightarrow> pystr \<Rightarrow> unit result"

abbreviation jb_gh :: "job \<Rightarrow> github" where
  "jb_gh j \<equiv> ob_gh (jb_ob j)"

definition PLAN :: string where
  "PLAN = ''.release-plan.json''"

definition run_commit :: "json_dict \<Rightarrow> pystr" where
  "run_commit run = jstr_val (jget run ''head_sha'')"

text \<open>\<open>json.loads(path.read_text(encoding="utf-8"))\<close>.\<close>

definition read_json :: "job \<Rightarrow> string \<Rightarrow> json result" where
  "read_json j path =
     bind_r (jb_read j (lit path)) (\<lambda>raw.
     bind_r (utf8_decode raw) (\<lambda>_. jb_loads j raw))"

definition versioned_context :: "job \<Rightarrow> string \<Rightarrow> bool \<Rightarrow> (json_dict \<times> json_dict \<times> json_dict) option gh" where
  "versioned_context j channel gate =
     gh_bind (gh_lift (positive (env_json (jb_environ j) ''GITHUB_RUN_ID''))) (\<lambda>run_id.
     gh_bind (gh_lift (positive (env_json (jb_environ j) ''GITHUB_RUN_ATTEMPT''))) (\<lambda>attempt.
     gh_bind (repository_info (jb_uni j) (jb_gh j)) (\<lambda>info.
     gh_bind (gh_lift (checked_out_sha (jb_head j))) (\<lambda>commit.
     gh_bind (wait_for_executing_run (jb_uni j) (jb_gh j) (jb_environ j) (jb_head j) (jb_read j) run_id channel info
                commit attempt gate (jb_start j) (jb_readings j)) (\<lambda>waited.
     case waited of
       None \<Rightarrow> gh_lift (Inr None)
     | Some run \<Rightarrow>
         gh_bind (source_policy_snapshot (jb_uni j) (jb_sha1 j) (jb_sha j) (jb_gh j) (run_commit run)) (\<lambda>snapshot.
         gh_bind (gh_lift (require_release_policy (jb_uni j) (jget snapshot ''data'') (gh_repo (jb_gh j))
                    (channel \<in> {''rc'', ''stable''}))) (\<lambda>_.
         gh_bind (gh_lift (as_dict (jget snapshot ''data''))) (\<lambda>policy.
         gh_require (truthy (jget policy ''versioning'')) ''Repository has not enabled version plans''
        (gh_bind (gh_lift (read_json j POLICY)) (\<lambda>local_policy.
         gh_require (json_eq local_policy (JObj policy)) ''Working policy differs from source commit''
        (gh_bind (check_ancestry (jb_gh j) (run_commit run) (branch_of info)) (\<lambda>_.
         gh_bind (if gate then validate_validation_run (jb_gh j) run policy (lit channel) else gh_lift (Inr ())) (\<lambda>_.
           gh_lift (Inr (Some (info, run, snapshot))))))))))))))))"

definition create_marker :: "(real \<Rightarrow> pystr) \<Rightarrow> pystr \<Rightarrow> json_dict \<Rightarrow> pystr \<Rightarrow> pystr \<Rightarrow> pystr" where
  "create_marker fr repository run digest nonce =
     [10, 10] @ lit ''<!-- release-create ''
       @ json_dumps fr (JObj
           [(lit ''repository'', JStr repository), (lit ''source'', jget run ''head_sha''), (lit ''run'', jget run ''id''),
            (lit ''attempt'', jget run ''run_attempt''), (lit ''plan'', JStr digest), (lit ''nonce'', JStr nonce)])
       @ lit '' -->''"

definition event_inputs :: "job \<Rightarrow> json_dict result" where
  "event_inputs j =
     (case jb_environ j ''GITHUB_EVENT_PATH'' of
        None \<Rightarrow> Inl KeyError
      | Some path \<Rightarrow>
          bind_r (jb_read j path) (\<lambda>raw.
          bind_r (parse_json (jc_loads (gh_codec (jb_gh j))) raw) (\<lambda>event.
            case event of
              JObj d \<Rightarrow>
                (case jget d ''inputs'' of
                   JNull \<Rightarrow> Inr []
                 | JObj inputs \<Rightarrow> Inr inputs
                 | _ \<Rightarrow> Inl (ReleaseError ''Workflow inputs must be a JSON object''))
            | _ \<Rightarrow> Inl (ReleaseError ''Workflow event must be a JSON object''))))"

section \<open>The accepted candidate\<close>

definition rc_manifest_bytes :: "github \<Rightarrow> json_dict list \<Rightarrow> (json_dict \<times> bytes) gh" where
  "rc_manifest_bytes gh assets =
     (case filter (\<lambda>a. jget a ''name'' = JStr (lit MANIFEST)) assets of
        [asset] \<Rightarrow>
          gh_bind (gh_lift (bind_r (py_getitem (JObj asset) (lit ''id'')) positive)) (\<lambda>i.
          gh_bind (binary gh (asset_path i)) (\<lambda>raw. gh_lift (Inr (asset, raw))))
      | _ \<Rightarrow> gh_lift (Inl (ReleaseError ''RC manifest is missing'')))"

definition rc_source_run :: "job \<Rightarrow> json_dict \<Rightarrow> json_dict \<Rightarrow> json_dict \<Rightarrow> unit gh" where
  "rc_source_run j info policy manifest =
     gh_bind (gh_get (jb_gh j) (lit ''actions/runs/'' @ py_str (jget manifest ''run_id''))) (\<lambda>v.
     gh_bind (gh_lift (as_dict v)) (\<lambda>run.
     gh_bind (validate_validation_run (jb_gh j) run policy (lit ''rc'')) (\<lambda>_.
     gh_require (json_eq (jget run ''id'') (jget manifest ''run_id'')) ''RC source run identity mismatch''
    (gh_bind (gh_lift (manifest_attempt manifest)) (\<lambda>attempt.
     gh_bind (validate_run (jb_uni j) (jb_gh j) run info (manifest_commit manifest) attempt True True) (\<lambda>_.
     gh_require (jget run ''event'' = JStr (lit ''workflow_dispatch'')) ''RC must be explicitly requested''
       (gh_lift (Inr ()))))))))"

text \<open>One payload of the candidate: the bytes on the service have the size and digest of the manifest.\<close>

definition verify_payload :: "sha256 \<Rightarrow> github \<Rightarrow> json_dict \<Rightarrow> json_dict \<Rightarrow> unit gh" where
  "verify_payload sha gh manifest item =
     (if jget item ''name'' = JStr (lit MANIFEST) then gh_lift (Inr ())
      else
        gh_bind (gh_lift (py_getitem (JObj item) (lit ''id''))) (\<lambda>i.
        gh_bind (download_asset gh i) (\<lambda>b.
        gh_require (json_eq (jget item ''size'') (JInt (int (length b)))) ''RC asset size mismatch''
       (gh_require
          (case expected_item manifest (jstr_val (jget item ''name'')) of
             Some declared \<Rightarrow> json_eq (JInt (int (length b))) (jget declared ''size'') \<and> JStr (sha b) = jget declared ''sha256''
           | None \<Rightarrow> False)
          ''RC payload checksum mismatch'' (gh_lift (Inr ()))))))"

definition verified_rc :: "job \<Rightarrow> json \<Rightarrow> json_dict \<Rightarrow> json_dict \<Rightarrow> (json_dict \<times> json_dict) gh" where
  "verified_rc j tag_value info current_run =
     gh_require (str_matches PROMOTED_TAG tag_value) ''Stable requires an explicit vX.Y.Z-rc.N''
    (let gh = jb_gh j; tag = jstr_val tag_value
     in gh_bind (release_snapshot gh tag) (\<lambda>initial.
        case initial of (ref, _, assets) \<Rightarrow>
        gh_bind (rc_manifest_bytes gh assets) (\<lambda>(asset, raw).
        gh_bind (gh_lift (validate_manifest (jb_uni j) (jb_digits j) (jb_sha j) (jb_fr j) (gh_codec gh) raw (gh_repo gh) tag False))
          (\<lambda>manifest.
        gh_bind (source_policy_snapshot (jb_uni j) (jb_sha1 j) (jb_sha j) gh (manifest_commit manifest)) (\<lambda>source_policy.
        gh_require (json_eq (JObj source_policy) (jget manifest ''source_policy'')) ''RC source policy changed''
       (gh_bind (gh_lift (as_dict (jget source_policy ''data''))) (\<lambda>policy.
        gh_bind (require_current_fuzzing (jb_uni j) (jb_sha1 j) (jb_sha j) gh policy (run_commit current_run)) (\<lambda>_.
        gh_bind (gh_lift (bind_r (as_dict ref) (\<lambda>r. nested_get r ''object'' ''sha''))) (\<lambda>tagged.
        gh_require (tagged = jget manifest ''source_sha'') ''RC source tag mismatch''
       (gh_require (\<not> json_eq (jget manifest ''run_id'') (jget current_run ''id'')) ''RC must come from a separate run''
       (gh_bind (rc_source_run j info policy manifest) (\<lambda>_.
        gh_bind (check_ancestry gh (manifest_commit manifest) (branch_of info)) (\<lambda>_.
        gh_bind (verify_evidence (jb_sha j) (jb_unzip j) gh manifest raw) (\<lambda>_.
        gh_require (inventory_is_manifest manifest assets) ''RC asset inventory differs from immutable evidence''
       (gh_require (json_eq (jget asset ''size'') (JInt (int (length raw)))) ''RC asset size mismatch''
       (gh_bind (gh_each (verify_payload (jb_sha j) gh manifest) assets) (\<lambda>_.
        gh_bind (release_snapshot gh tag) (\<lambda>latest.
        gh_bind (gh_lift (snapshot_identity (jc_dumps (gh_codec gh)) latest)) (\<lambda>now.
        gh_bind (gh_lift (snapshot_identity (jc_dumps (gh_codec gh)) initial)) (\<lambda>before.
        gh_require (now = before) ''RC changed during verification''
          (gh_lift (Inr (manifest,
             [(lit ''tag'', tag_value), (lit ''manifest_sha256'', JStr (jb_sha j raw)),
              (lit ''source_sha'', jget manifest ''source_sha''), (lit ''run_id'', jget manifest ''run_id'')])))))))))))))))))))))))"

section \<open>Reusing a release of the same inputs\<close>

definition published_plan_snapshot :: "github \<Rightarrow> pystr \<Rightarrow> pystr \<Rightarrow> bool \<Rightarrow> release_snapshot gh" where
  "published_plan_snapshot gh tag source prerelease =
     gh_bind (gh_get gh (lit ''git/ref/tags/'' @ tag)) (\<lambda>rv.
     gh_bind (gh_get gh (lit ''releases/tags/'' @ tag)) (\<lambda>v.
     gh_bind (gh_lift (as_dict rv)) (\<lambda>ref.
     gh_bind (gh_lift (if jget ref ''ref'' = JStr (lit ''refs/tags/'' @ tag) then nested_get ref ''object'' ''type'' else Inr JNull))
       (\<lambda>kind.
     gh_bind (gh_lift (if kind = JStr (lit ''commit'') then nested_get ref ''object'' ''sha'' else Inr JNull)) (\<lambda>commit.
     gh_require (commit = JStr source) ''Qualified release tag/source mismatch''
    (gh_bind (gh_lift (as_dict v)) (\<lambda>release.
     gh_require (jget release ''tag_name'' = JStr tag \<and> jget release ''draft'' = JBool False
                 \<and> jget release ''prerelease'' = JBool prerelease) ''Qualified release is not published''
    (gh_bind (gh_lift (positive (jget release ''id''))) (\<lambda>rid.
     gh_bind (pages gh (lit ''releases/'' @ int_str rid @ lit ''/assets'') None) (\<lambda>rows.
     gh_bind (gh_lift (map_r as_dict rows)) (\<lambda>assets.
     gh_require (asset_names_ok assets \<and> distinct (folded_names assets)
                 \<and> list_all (\<lambda>a. jget a ''state'' = JStr (lit ''uploaded'')) assets)
       ''Qualified release has invalid or incomplete assets'' (gh_lift (Inr (rv, release, assets))))))))))))))"

text \<open>A number at most the bound; \<open>None\<close> and other values do not compare.\<close>

definition at_most :: "real \<Rightarrow> json \<Rightarrow> bool result" where
  "at_most bound v = (case json_num v of Some r \<Rightarrow> Inr (r \<le> bound) | None \<Rightarrow> Inl TypeError)"

definition qualified_manifest :: "job \<Rightarrow> json_dict \<Rightarrow> json_dict \<Rightarrow> int \<Rightarrow> json_dict \<Rightarrow> bool result" where
  "qualified_manifest j snapshot plan source_run_id m =
     bind_r (plan_digest (jb_sha j) (jb_fr j) (JObj plan)) (\<lambda>digest.
       Inr (json_eq (jget m ''repository'') (JStr (gh_repo (jb_gh j))) \<and> json_eq (jget m ''source_sha'') (jget plan ''source_sha'')
            \<and> json_eq (jget m ''version'') (jget plan ''base_version'') \<and> json_eq (jget m ''channel'') (jget plan ''channel'')
            \<and> json_eq (jget m ''tag'') (jget plan ''tag'') \<and> json_eq (jget m ''version_plan'') (JObj plan)
            \<and> jget m ''plan_sha256'' = JStr digest \<and> json_eq (jget m ''source_policy'') (JObj snapshot)
            \<and> jget m ''workflow_path'' = JStr WORKFLOW \<and> json_eq (jget m ''run_id'') (JInt source_run_id)))"

text \<open>Every declared payload and the manifest itself have the size and the digest the service reports.\<close>

definition declared_payloads :: "json_dict \<Rightarrow> (json \<times> json_dict) list result" where
  "declared_payloads manifest =
     (case jget manifest ''assets'' of
        JList items \<Rightarrow>
          rreq (items \<noteq> []) ''Qualified payloads missing'' (bind_r (map_r named_asset items) (\<lambda>named. Inr (rev named)))
      | _ \<Rightarrow> Inl (ReleaseError ''Qualified payloads missing''))"

definition payload_metadata :: "json_dict list \<Rightarrow> json \<times> json_dict \<Rightarrow> unit result" where
  "payload_metadata assets entry =
     (case map_of (rev (map (\<lambda>a. (jget a ''name'', a)) assets)) (fst entry) of
        None \<Rightarrow> Inl KeyError
      | Some a \<Rightarrow>
          bind_r (py_getitem (JObj (snd entry)) (lit ''size'')) (\<lambda>n.
          rreq (json_eq (jget a ''size'') n) ''Qualified asset metadata mismatch''
         (bind_r (py_getitem (JObj (snd entry)) (lit ''sha256'')) (\<lambda>d.
            case d of
              JStr s \<Rightarrow> rreq (jget a ''digest'' = JStr (lit ''sha256:'' @ s)) ''Qualified asset metadata mismatch'' (Inr ())
            | _ \<Rightarrow> Inl TypeError))))"

definition qualified_inventory :: "sha256 \<Rightarrow> json_dict list \<Rightarrow> json_dict \<Rightarrow> bytes \<Rightarrow> unit result" where
  "qualified_inventory sha assets manifest raw =
     bind_r (declared_payloads manifest) (\<lambda>declared.
     rreq (distinct (map fst declared)
           \<and> (\<lambda>a. jget a ''name'') ` set assets = fst ` set declared \<union> {JStr (lit MANIFEST)})
       ''Qualified asset inventory mismatch''
    (each_r (payload_metadata assets)
       (filter (\<lambda>e. fst e \<noteq> JStr (lit MANIFEST)) (rev declared)
        @ [(JStr (lit MANIFEST), [(lit ''size'', JInt (int (length raw))), (lit ''sha256'', JStr (sha raw))])])))"

definition qualified_gate :: "json_dict list \<Rightarrow> pystr list \<Rightarrow> pystr \<Rightarrow> bool" where
  "qualified_gate jobs names source =
     (case filter (\<lambda>job. jget job ''name'' \<in> JStr ` set names) jobs of
        [gate] \<Rightarrow> succeeded gate \<and> jget gate ''head_sha'' = JStr source
      | _ \<Rightarrow> False)"

definition verify_scheduled_reuse ::
  "job \<Rightarrow> json_dict \<Rightarrow> json_dict \<Rightarrow> json_dict \<Rightarrow> int \<Rightarrow> pystr \<Rightarrow> unit gh" where
  "verify_scheduled_reuse j info snapshot plan source_run_id tag =
     (let gh = jb_gh j; source = jstr_val (jget plan ''source_sha'');
          prerelease = (tag \<noteq> lit ''v'' @ py_str (jget plan ''base_version''))
      in gh_bind (published_plan_snapshot gh tag source prerelease) (\<lambda>initial.
         gh_bind (gh_lift (snapshot_identity (jc_dumps (gh_codec gh)) initial)) (\<lambda>before.
         gh_bind (gh_lift (case asset_named (snd (snd initial)) (lit MANIFEST) of Some a \<Rightarrow> Inr a | None \<Rightarrow> Inl KeyError)) (\<lambda>asset.
         gh_bind (gh_lift (bind_r (py_getitem (JObj asset) (lit ''size'')) (at_most 2000000))) (\<lambda>small.
         gh_require small ''Qualified manifest is too large''
        (gh_bind (gh_lift (bind_r (py_getitem (JObj asset) (lit ''id'')) positive)) (\<lambda>i.
         gh_bind (binary gh (asset_path i)) (\<lambda>raw.
         gh_bind (gh_lift (parse_json (jc_loads (gh_codec gh)) raw)) (\<lambda>v.
         gh_bind (gh_lift (case v of
             JObj m \<Rightarrow> if jint (jget m ''schema'') = Some 1 then qualified_manifest j snapshot plan source_run_id m else Inr False
           | _ \<Rightarrow> Inr False)) (\<lambda>same.
         gh_require same ''Qualified manifest differs from its source and durable plan''
        (gh_bind (gh_lift (as_dict v)) (\<lambda>manifest.
         gh_bind (gh_lift (validate_validation_manifest (jc_dumps (gh_codec gh)) manifest)) (\<lambda>_.
         gh_bind (gh_lift (qualified_inventory (jb_sha j) (snd (snd initial)) manifest raw)) (\<lambda>_.
         gh_bind (gh_get gh (lit ''actions/runs/'' @ int_str source_run_id)) (\<lambda>rv.
         gh_bind (gh_lift (as_dict rv)) (\<lambda>source_run.
         gh_bind (gh_lift (bind_r (py_getitem (JObj snapshot) (lit ''data'')) as_dict)) (\<lambda>policy.
         gh_bind (validate_validation_run gh source_run policy (jstr_val (jget plan ''channel''))) (\<lambda>_.
         gh_require (json_eq (jget source_run ''id'') (JInt source_run_id)) ''Qualified run ID mismatch''
        (gh_bind (gh_lift (positive (jget manifest ''run_attempt''))) (\<lambda>attempt.
         gh_bind (validate_run (jb_uni j) gh source_run info source attempt True False) (\<lambda>_.
         gh_bind (pages gh (attempt_path source_run_id attempt @ lit ''/jobs'') (Some ''jobs'')) (\<lambda>js.
         gh_bind (gh_lift (map_r as_dict js)) (\<lambda>jobs.
         gh_require (qualified_gate jobs [lit ''Release gate''] source
                     \<and> qualified_gate jobs [lit ''CI gate'', lit ''checks / CI gate''] source)
           ''Qualified run has no successful CI and Release gates''
        (gh_bind (verify_evidence (jb_sha j) (jb_unzip j) gh manifest raw) (\<lambda>_.
         gh_bind (published_plan_snapshot gh tag source prerelease) (\<lambda>current.
         gh_bind (gh_lift (snapshot_identity (jc_dumps (gh_codec gh)) current)) (\<lambda>now.
         gh_require (now = before) ''Qualified release changed during verification'' (gh_lift (Inr ())))))))))))))))))))))))))))))"

text \<open>The reservations of the same source, version and policy on a publishing channel, newest build first, ten at most.\<close>

definition reusable_plan :: "pystr \<Rightarrow> pystr \<Rightarrow> pystr \<Rightarrow> json_dict \<Rightarrow> bool" where
  "reusable_plan commit base digest plan \<longleftrightarrow>
     jget plan ''source_sha'' = JStr commit \<and> jget plan ''base_version'' = JStr base
     \<and> jget plan ''policy_sha256'' = JStr digest
     \<and> jget plan ''channel'' \<in> JStr ` set (map lit [''beta'', ''rc'', ''stable''])"

definition reuse_records :: "json_dict \<Rightarrow> pystr \<Rightarrow> pystr \<Rightarrow> pystr \<Rightarrow> (int \<times> json_dict) list result" where
  "reuse_records ledger commit base digest =
     bind_r (map_r (\<lambda>e. bind_r (positive (JStr (fst e))) (\<lambda>i. Inr (i, record_plan (snd e))))
       (filter (\<lambda>e. reusable_plan commit base digest (record_plan (snd e))) (ledger_plans ledger))) (\<lambda>records.
       Inr (take 10 (sort_key (\<lambda>r. - plan_build (snd r)) records)))"

definition reuse_tags :: "pystr \<Rightarrow> json_dict \<Rightarrow> pystr list" where
  "reuse_tags base plan =
     jstr_val (jget plan ''tag'') #
       (if jget plan ''channel'' = JStr (lit ''rc'') \<and> jget plan ''promotion'' = JStr (lit ''promote-bytes'')
        then [lit ''v'' @ base] else [])"

definition reuse_caught :: "exn \<Rightarrow> bool" where
  "reuse_caught e \<longleftrightarrow>
     (case e of
        ReleaseError _ \<Rightarrow> True | GitHubError _ \<Rightarrow> True | ValueError _ \<Rightarrow> True | VersionError _ \<Rightarrow> True | UnicodeError \<Rightarrow> True
      | KeyError \<Rightarrow> True | TypeError \<Rightarrow> True | _ \<Rightarrow> False)"

text \<open>The first tag that verifies decides: it is returned when the default branch has not moved.\<close>

fun first_reusable ::
  "(json_dict \<Rightarrow> int \<Rightarrow> pystr \<Rightarrow> unit gh) \<Rightarrow> bool gh \<Rightarrow> (int \<times> json_dict \<times> pystr) list \<Rightarrow> pystr gh" where
  "first_reusable verify still [] h = (Inr [], h)"
| "first_reusable verify still ((source_run_id, plan, tag) # rest) h =
     (case verify plan source_run_id tag h of
        (Inl e, h') \<Rightarrow> if reuse_caught e then first_reusable verify still rest h' else (Inl e, h')
      | (Inr _, h') \<Rightarrow> gh_bind still (\<lambda>b. gh_lift (Inr (if b then tag else []))) h')"

definition head_is :: "github \<Rightarrow> json_dict \<Rightarrow> json_dict \<Rightarrow> bool gh" where
  "head_is gh info run =
     gh_bind (gh_lift (heads_path info)) (\<lambda>path.
     gh_bind (gh_get gh path) (\<lambda>v.
       gh_lift (bind_r (as_dict v) (\<lambda>d. bind_r (nested_get d ''object'' ''sha'') (\<lambda>s. Inr (s = JStr (run_commit run)))))))"

definition scheduled_reuse :: "job \<Rightarrow> json_dict \<Rightarrow> json_dict \<Rightarrow> json_dict \<Rightarrow> pystr \<Rightarrow> pystr gh" where
  "scheduled_reuse j info run snapshot base =
     gh_bind (head_is (jb_gh j) info run) (\<lambda>current.
     if \<not> current then gh_lift (Inr [])
     else
       gh_bind (read_state (jb_sha j) (jb_fr j) (jb_gh j)) (\<lambda>(ledger, _).
       gh_bind (gh_lift (reuse_records ledger (run_commit run) base
                  (policy_digest (jb_sha j) (jb_fr j) (jget snapshot ''data'')))) (\<lambda>records.
         first_reusable (verify_scheduled_reuse j info snapshot) (head_is (jb_gh j) info run)
           (concat (map (\<lambda>(i, plan). map (\<lambda>tag. (i, plan, tag)) (reuse_tags base plan)) records)))))"

end
