(* ===== verification/Versioned_Publish.thy ===== *)
theory Versioned_Publish
  imports Release_Versioned
begin

text \<open>
  The commands of \<open>scripts/release_versioned.py\<close>: \<open>prepare\<close> freezes and reserves a plan before anything is
  built; \<open>publish_versioned\<close> publishes exactly the payloads whose receipts belong to that plan, after the
  checks of the run, the accepted candidate, the ledger and, for a nightly build, a reusable earlier release.
  A command ends in \<open>None\<close> when the readings of the clock end before the run is ready.
\<close>

section \<open>The text and the marker of a release\<close>

definition candidate_provenance :: "pystr \<Rightarrow> pystr \<Rightarrow> pystr \<Rightarrow> json \<Rightarrow> json_dict option \<Rightarrow> pystr" where
  "candidate_provenance repository channel source run_id parent =
     (case parent of
        Some p \<Rightarrow> lit ''Final build from accepted '' @ jstr_val (jget p ''tag'') @ lit ''; new verified package bytes.''
      | None \<Rightarrow> channel @ lit '' candidate with a version fixed before compilation.'')
     @ [10, 10] @ lit ''Source: `'' @ source @ lit ''`'' @ [10, 10]
     @ lit ''Validation: https://github.com/'' @ repository @ lit ''/actions/runs/'' @ py_str run_id
     @ [10, 10] @ lit ''See `'' @ lit MANIFEST @ lit ''` for package hashes and version input evidence.''"

section \<open>Preparing a plan\<close>

text \<open>The channel that the event asks for.\<close>

definition requested_channel :: "job \<Rightarrow> json_dict \<Rightarrow> string result" where
  "requested_channel j inputs =
     (let kind = jb_environ j ''GITHUB_EVENT_NAME'';
          channel = (if kind = Some (lit ''schedule'') then JStr (lit ''nightly'')
                     else if kind = Some (lit ''push'') then JStr (lit ''beta'') else jget inputs ''channel'')
      in bind_r (in_strings channel [''nightly'', ''beta'', ''rc'', ''stable'']) (\<lambda>known.
         rreq known ''Invalid release channel''
        (rreq (kind = Some (lit ''workflow_dispatch'') \<and> channel \<noteq> JStr (lit ''nightly'')
               \<longrightarrow> jb_environ j ''PUBLICATION_ENABLED'' = Some (lit ''true''))
           ''Release channels are not enabled'' (Inr (map char_of (jstr_val channel))))))"

definition versioning_promotion :: "json_dict \<Rightarrow> json result" where
  "versioning_promotion policy =
     bind_r (py_getitem (JObj policy) (lit ''versioning'')) (\<lambda>v. py_getitem v (lit ''promotion''))"

text \<open>What an unchanged promotion returns, without a build.\<close>

definition unbuilt :: "string \<Rightarrow> pystr \<Rightarrow> json_dict" where
  "unbuilt channel base =
     [(lit ''channel'', JStr (lit channel)), (lit ''version'', JStr base), (lit ''build'', JStr (lit ''false'')),
      (lit ''plan_artifact'', JStr [])]"

text \<open>The base version of a stable build is the accepted candidate's; \<open>Answer\<close> ends the command without a build.\<close>

datatype 'a step = Answer json_dict | Continue 'a

definition candidate_final_build :: "json_dict \<Rightarrow> bool result" where
  "candidate_final_build cand =
     bind_r (py_getitem (JObj cand) (lit ''source_policy'')) (\<lambda>v.
     bind_r (as_dict v) (\<lambda>snapshot.
     bind_r (py_getitem (JObj snapshot) (lit ''data'')) (\<lambda>data.
     bind_r (as_dict data) (\<lambda>policy.
     bind_r (nested_get policy ''versioning'' ''promotion'') (\<lambda>promotion. Inr (promotion = JStr (lit ''final-build'')))))))"

definition stable_base :: "job \<Rightarrow> json_dict \<Rightarrow> json_dict \<Rightarrow> json_dict \<Rightarrow> json_dict \<Rightarrow> (pystr \<times> json_dict option) step gh" where
  "stable_base j inputs info run policy =
     gh_bind (require_reviewers (jb_gh j)) (\<lambda>_.
     gh_bind (verified_rc j (jget inputs ''rc_tag'') info run) (\<lambda>(cand, parent).
     gh_bind (gh_lift (versioning_promotion policy)) (\<lambda>promotion.
     if promotion = JStr (lit ''promote-bytes'')
     then gh_bind (gh_lift (candidate_final_build cand)) (\<lambda>final.
          gh_require (\<not> final) ''A final-build RC cannot be promoted unchanged''
            (gh_lift (Inr (Answer (unbuilt ''stable'' (jstr_val (jget cand ''version'')))))))
     else
       gh_require (jget cand ''source_sha'' = jget run ''head_sha'')
         ''Final build requires the accepted RC at current HEAD; create a new RC after source/recipe changes''
      (gh_bind (gh_lift (if truthy (jget cand ''version_plan'')
                         then bind_r (as_dict (jget cand ''version_plan'')) (\<lambda>d. Inr (jget d ''promotion'' = JStr (lit ''final-build'')))
                         else Inr False)) (\<lambda>final.
       gh_require final ''Final build requires an RC created under the same versioned policy''
      (gh_bind (gh_lift (validate_plan (jb_sha j) (jb_fr j) (jget cand ''version_plan'') (Some (JObj policy))
                 (Some (run_commit run)))) (\<lambda>_.
         gh_lift (Inr (Continue (jstr_val (jget cand ''version''), Some parent))))))))))"

definition planned_base :: "job \<Rightarrow> json_dict \<Rightarrow> json_dict \<Rightarrow> json_dict \<Rightarrow> json_dict \<Rightarrow> string
   \<Rightarrow> (pystr \<times> json_dict option) step gh" where
  "planned_base j inputs info run policy channel =
     (if channel = ''stable'' then stable_base j inputs info run policy
      else gh_bind (gh_lift (jb_resolve j policy (dict_get inputs (lit ''version'') (JStr [])))) (\<lambda>base.
             gh_lift (Inr (Continue (base, None)))))"

definition zero_text :: pystr where
  "zero_text = replicate 64 48"

text \<open>The result, and the bytes of the plan file when one is written.\<close>

definition frozen_plan :: "job \<Rightarrow> json_dict \<Rightarrow> json_dict \<Rightarrow> string \<Rightarrow> pystr \<Rightarrow> json_dict option \<Rightarrow> int \<Rightarrow> int
   \<Rightarrow> (json_dict \<times> bytes option) gh" where
  "frozen_plan j policy run channel base parent run_id attempt =
     (let gh = jb_gh j; commit = run_commit run
      in gh_bind (if channel \<in> {''beta'', ''rc'', ''stable''} then ensure_absent gh (lit ''v'' @ base) else gh_lift (Inr ())) (\<lambda>_.
         gh_bind (if jget policy ''release_notes'' \<noteq> JNull
                  then gh_bind (release_notes (jb_uni j) (jb_sha1 j) (jb_sha j) gh (lit ''v'' @ base) commit
                          (candidate_provenance (gh_repo gh) (lit channel) commit (jget run ''id'') parent
                           @ create_marker (jb_fr j) (gh_repo gh) run zero_text zero_text)) (\<lambda>_. gh_lift (Inr ()))
                  else gh_lift (Inr ())) (\<lambda>_.
         gh_bind (reserve_plan (jb_sha j) (jb_fr j) gh (JObj policy) base (lit channel) commit run_id attempt (jb_stamp j)
                    (case parent of Some p \<Rightarrow> JObj p | None \<Rightarrow> JNull)) (\<lambda>p.
           gh_lift (Inr (
             [(lit ''channel'', JStr (lit channel)), (lit ''version'', JStr base), (lit ''build'', JStr (lit ''true'')),
              (lit ''plan_artifact'', JStr (lit ''release-plan-'' @ int_str run_id @ lit ''-'' @ int_str attempt))],
             Some (json_lines (jc_dumps (gh_codec gh)) (plan_json p))))))))"

definition prepare :: "job \<Rightarrow> (json_dict \<times> bytes option) option gh" where
  "prepare j =
     gh_bind (gh_lift (event_inputs j)) (\<lambda>inputs.
     gh_bind (gh_lift (requested_channel j inputs)) (\<lambda>channel.
     gh_bind (open_github (jb_uni j) (jb_environ j) (jb_gh j)) (\<lambda>_.
     gh_bind (versioned_context j channel False) (\<lambda>context.
     case context of
       None \<Rightarrow> gh_lift (Inr None)
     | Some (info, run, snapshot) \<Rightarrow>
         gh_bind (gh_lift (as_dict (jget snapshot ''data''))) (\<lambda>policy.
         gh_require (\<not> truthy (jget policy ''release_blockers'')) ''Release policy has unresolved blockers''
        (gh_require (\<not> truthy (jget inputs ''expected_sha'') \<or> jget inputs ''expected_sha'' = jget run ''head_sha'')
           ''Default branch changed since dispatch; refresh and retry''
        (gh_bind (planned_base j inputs info run policy channel) (\<lambda>base_step.
         case base_step of
           Answer result \<Rightarrow> gh_lift (Inr (Some (result, None)))
         | Continue (base, parent) \<Rightarrow>
             gh_bind (gh_lift (jb_check_base j policy base)) (\<lambda>_.
             gh_bind (closed_push_cycle (jb_gh j) base
                        (map char_of (case jb_environ j ''GITHUB_EVENT_NAME'' of Some k \<Rightarrow> k | None \<Rightarrow> []))) (\<lambda>closed.
             case closed of
               Some result \<Rightarrow> gh_lift (Inr (Some (result, None)))
             | None \<Rightarrow>
                 gh_bind (gh_lift (positive (jget run ''id''))) (\<lambda>run_id.
                 gh_bind (gh_lift (positive (jget run ''run_attempt''))) (\<lambda>attempt.
                 gh_bind (frozen_plan j policy run channel base parent run_id attempt) (\<lambda>planned.
                   gh_lift (Inr (Some planned)))))))))))))))"

section \<open>Verifying the staged payloads\<close>

definition staged_bytes :: "staged list \<Rightarrow> string \<Rightarrow> bytes result" where
  "staged_bytes files name = (case map_of files (lit name) of Some b \<Rightarrow> Inr b | None \<Rightarrow> Inl (OSError name))"

definition verify_candidate_fuzz_report :: "job \<Rightarrow> staged list \<Rightarrow> json_dict \<Rightarrow> plan \<Rightarrow> int \<Rightarrow> int \<Rightarrow> unit result" where
  "verify_candidate_fuzz_report j files policy p run_id attempt =
     (if \<not> has_key policy ''fuzzing'' \<or> pl_channel p \<noteq> lit ''rc'' then Inr ()
      else bind_r (staged_bytes files FUZZ_REPORT) (\<lambda>raw_report.
           bind_r (jb_loads j raw_report) (\<lambda>_.
           bind_r (jb_read j (lit FUZZ_MANIFEST)) (\<lambda>raw_manifest.
             verify_report (jb_sha j) (jb_loads j) (jb_checkout j) raw_manifest raw_report (gh_repo (jb_gh j))
               (pl_source_sha p) run_id attempt))))"

text \<open>The results of the receipts as the dictionaries the source keeps.\<close>

definition receipt_dict :: "receipt_result \<Rightarrow> json_dict" where
  "receipt_dict r =
     [(lit ''name'', JStr (rr_name r)), (lit ''sha256'', JStr (rr_sha256 r)), (lit ''inputs'', JObj (rr_inputs r))]"

definition dict_receipt :: "json_dict \<Rightarrow> receipt_result" where
  "dict_receipt d =
     \<lparr>rr_name = jstr_val (jget d ''name''), rr_sha256 = jstr_val (jget d ''sha256''),
      rr_inputs = (case jget d ''inputs'' of JObj i \<Rightarrow> i | _ \<Rightarrow> [])\<rparr>"

definition candidate_fuzz_receipts ::
  "json_dict \<Rightarrow> pystr \<Rightarrow> receipt_result list \<Rightarrow> (receipt_result list \<times> receipt_result list) result" where
  "candidate_fuzz_receipts policy channel receipts =
     (if \<not> has_key policy ''fuzzing'' \<or> channel \<noteq> lit ''rc'' then Inr (receipts, [])
      else bind_r (split_receipts (map receipt_dict receipts)) (\<lambda>(others, validation).
             Inr (map dict_receipt others, map dict_receipt validation)))"

text \<open>The optional signature verifier is no part of this repository: nothing is required.\<close>

definition verify_required_signatures ::
  "json_dict result \<Rightarrow> (json_dict \<Rightarrow> pystr \<Rightarrow> unit result) \<Rightarrow> pystr \<Rightarrow> pystr \<Rightarrow> unit result" where
  "verify_required_signatures signing_policy verify repository source =
     (if \<not> RELEASE_SIGNATURES_REQUIRED then Inr ()
      else bind_r signing_policy (\<lambda>p.
           rreq (jget p ''repository'' = JStr repository \<and> jget p ''sign_releases'' = JBool True)
             ''Trusted release-signing policy does not match this repository'' (verify p source)))"

definition receipt_rows :: "receipt_result list \<Rightarrow> json" where
  "receipt_rows receipts =
     JList (map (\<lambda>r. JObj [(lit ''name'', JStr (rr_name r)), (lit ''sha256'', JStr (rr_sha256 r))]) receipts)"

definition fuzz_manifest_fields :: "json_dict \<Rightarrow> pystr \<Rightarrow> receipt_result list \<Rightarrow> json_dict result" where
  "fuzz_manifest_fields policy channel validation =
     (if \<not> has_key policy ''fuzzing'' then Inr []
      else bind_r (fuzz_profile policy channel) (\<lambda>selected.
             Inr [(lit ''fuzzing_profile'', selected), (lit ''validation_receipts'', receipt_rows validation)]))"

definition versioned_manifest ::
  "json \<Rightarrow> json \<Rightarrow> plan \<Rightarrow> json_dict \<Rightarrow> int \<Rightarrow> int \<Rightarrow> pystr \<Rightarrow> json list \<Rightarrow> pystr \<Rightarrow> receipt_result list \<Rightarrow> json list
   \<Rightarrow> json_dict option \<Rightarrow> json \<Rightarrow> json_dict \<Rightarrow> json_dict" where
  "versioned_manifest repository pv p snapshot run_id attempt created assets digest receipts packages parent selected extra =
     [(lit ''schema'', JInt 1), (lit ''repository'', repository), (lit ''version'', JStr (pl_base_version p)),
      (lit ''channel'', JStr (pl_channel p)), (lit ''tag'', JStr (pl_tag p)), (lit ''source_sha'', JStr (pl_source_sha p)),
      (lit ''source_policy'', JObj snapshot), (lit ''workflow_path'', JStr WORKFLOW), (lit ''run_id'', JInt run_id),
      (lit ''run_attempt'', JInt attempt), (lit ''created_at'', JStr created), (lit ''assets'', JList assets),
      (lit ''version_plan'', pv), (lit ''plan_sha256'', JStr digest), (lit ''build_receipts'', receipt_rows receipts),
      (lit ''package_versions'', JList packages)]
     @ (case parent of Some d \<Rightarrow> [(lit ''derived_from_rc'', JObj d)] | None \<Rightarrow> [])
     @ (if selected = JNull then [] else [(lit ''validation_profile'', selected)])
     @ extra"

text \<open>What is published: the staged files, and the manifest that describes them.\<close>

record release_input =
  ri_info :: json_dict
  ri_run :: json_dict
  ri_snapshot :: json_dict
  ri_policy :: json_dict
  ri_plan_json :: json
  ri_plan :: plan
  ri_run_id :: int
  ri_attempt :: int
  ri_parent :: "(json_dict \<times> json_dict) option"

definition parent_record :: "release_input \<Rightarrow> json_dict option" where
  "parent_record i = map_option snd (ri_parent i)"

definition parent_json :: "release_input \<Rightarrow> json" where
  "parent_json i = (case parent_record i of Some d \<Rightarrow> JObj d | None \<Rightarrow> JNull)"

definition verified_payloads :: "job \<Rightarrow> release_input \<Rightarrow> json list \<Rightarrow> staged list
   \<Rightarrow> (receipt_result list \<times> receipt_result list) result" where
  "verified_payloads j i assets files =
     bind_r (verify_candidate_fuzz_report j files (ri_policy i) (ri_plan i) (ri_run_id i) (ri_attempt i)) (\<lambda>_.
     bind_r (producer_identity (JStr (gh_repo (jb_gh j))) (JInt (ri_run_id i)) (JInt (ri_attempt i))
               (jget (ri_run i) ''head_sha'')) (\<lambda>producer.
     bind_r (verify_receipts (jb_sha j) (jb_fr j) (jb_loads j) (jb_provenance j files assets) files (ri_plan i) assets
               (Some (JObj (ri_policy i))) (Some producer)) (\<lambda>receipts.
     bind_r (candidate_fuzz_receipts (ri_policy i) (pl_channel (ri_plan i)) receipts) (\<lambda>(builds, validation).
     bind_r (verify_required_build_receipts builds (JObj (ri_policy i))) (\<lambda>_.
     bind_r (verify_required_signatures (jb_signing j) (jb_verify_signing j files) (gh_repo (jb_gh j))
               (pl_source_sha (ri_plan i))) (\<lambda>_. Inr (builds, validation)))))))"

definition described_release :: "job \<Rightarrow> release_input \<Rightarrow> json list \<Rightarrow> staged list
   \<Rightarrow> receipt_result list \<times> receipt_result list \<Rightarrow> json_dict result" where
  "described_release j i assets files split =
     bind_r (verify_declared_artifacts (jb_inspect j) files (JObj (ri_policy i)) (ri_plan i)) (\<lambda>packages.
     bind_r (py_getitem (JObj (ri_info i)) (lit ''full_name'')) (\<lambda>repository.
     bind_r (plan_digest (jb_sha j) (jb_fr j) (ri_plan_json i)) (\<lambda>digest.
     bind_r (validation_profile (ri_policy i) (pl_channel (ri_plan i))) (\<lambda>selected.
     bind_r (fuzz_manifest_fields (ri_policy i) (pl_channel (ri_plan i)) (snd split)) (\<lambda>extra.
       Inr (versioned_manifest repository (ri_plan_json i) (ri_plan i) (ri_snapshot i) (ri_run_id i) (ri_attempt i)
              (jb_created j) assets digest (fst split) packages (parent_record i) selected extra))))))"

definition staged_release :: "job \<Rightarrow> (pystr \<times> entry_kind) list option \<Rightarrow> release_input \<Rightarrow> (json_dict \<times> staged list) gh" where
  "staged_release j source i =
     gh_bind (gh_lift (stage_assets (jb_sha j) source)) (\<lambda>(assets, files).
     gh_bind (gh_lift (verified_payloads j i assets files)) (\<lambda>split.
     gh_bind (case ri_parent i of
                Some (accepted_rc, _) \<Rightarrow> verify_final_toolchains (jb_sha j) (jb_gh j) accepted_rc (fst split)
              | None \<Rightarrow> gh_lift (Inr ())) (\<lambda>_.
     gh_bind (gh_lift (described_release j i assets files split)) (\<lambda>manifest.
       gh_lift (Inr (manifest, sort_entries ((lit MANIFEST, json_lines (jc_dumps (gh_codec (jb_gh j))) (JObj manifest)) # files)))))))"

section \<open>Publishing the plan\<close>

definition is_automatic :: "json_dict \<Rightarrow> pystr \<Rightarrow> bool" where
  "is_automatic run channel \<longleftrightarrow>
     jget run ''event'' = JStr (lit ''push'') \<and> channel = lit ''beta''
     \<or> jget run ''event'' = JStr (lit ''schedule'') \<and> channel = lit ''nightly''"

definition captured_source :: "json_dict \<Rightarrow> json_dict \<Rightarrow> json \<Rightarrow> bool" where
  "captured_source info run captured \<longleftrightarrow>
     (case captured of
        JObj c \<Rightarrow>
          jget c ''ref'' = JStr (lit ''refs/heads/'' @ branch_of info)
          \<and> (case jget c ''object'' of
               JObj ob \<Rightarrow> jget ob ''type'' = JStr (lit ''commit'') \<and> jget ob ''sha'' = jget run ''head_sha''
             | _ \<Rightarrow> False)
      | _ \<Rightarrow> False)"

definition versioned_body :: "job \<Rightarrow> release_input \<Rightarrow> pystr \<Rightarrow> pystr" where
  "versioned_body j i digest =
     candidate_provenance (gh_repo (jb_gh j)) (pl_channel (ri_plan i)) (pl_source_sha (ri_plan i)) (JInt (ri_run_id i))
       (parent_record i)
     @ create_marker (jb_fr j) (gh_repo (jb_gh j)) (ri_run i) digest (jb_nonce j)"

text \<open>The number is consumed and the transaction runs with its two confirmations.\<close>

definition confirmed_release :: "job \<Rightarrow> bool \<Rightarrow> staging \<Rightarrow> release_input \<Rightarrow> staged list \<Rightarrow> json_dict gh" where
  "confirmed_release j scope st i files =
     (let gh = jb_gh j; p = ri_plan i; automatic = is_automatic (ri_run i) (pl_channel p)
      in gh_bind (gh_lift (plan_digest (jb_sha j) (jb_fr j) (ri_plan_json i))) (\<lambda>digest.
         gh_bind (release_notes (jb_uni j) (jb_sha1 j) (jb_sha j) gh (pl_tag p) (pl_source_sha p) (versioned_body j i digest))
           (\<lambda>body.
         gh_bind (gh_lift (heads_path (ri_info i))) (\<lambda>path.
         gh_bind (gh_get gh path) (\<lambda>captured.
         gh_require (automatic \<longrightarrow> captured_source (ri_info i) (ri_run i) captured)
           ''Default branch moved before source snapshot''
        (gh_bind (begin_publication (jb_sha j) (jb_fr j) gh (ri_plan_json i) (ri_run_id i) (parent_json i) False) (\<lambda>consumed.
         gh_bind (publish_confirmed (jb_uni j) (jb_sha j) (jb_ob j) scope (pl_tag p) (pl_source_sha p)
                    (st\<lparr>st_files := files\<rparr>) (pl_channel p \<noteq> lit ''stable'') body
                    (Some (create_confirmation (jb_ob j) (ri_run i) (path, captured) consumed))
                    (if automatic
                     then Some (confirm_automatic_source (jb_uni j) gh (jget (ri_info i) ''default_branch'') (path, captured))
                     else None)) (\<lambda>release.
         gh_bind (gh_lift (py_getitem (JObj release) (lit ''html_url''))) (\<lambda>url.
           gh_lift (Inr [(lit ''status'', JStr (lit ''published'')), (lit ''tag'', JStr (pl_tag p)), (lit ''release_url'', url),
                         (lit ''manifest_path'', JStr evidence_path)]))))))))))"

text \<open>The checks repeated immediately before the first public mutation.\<close>

definition published_release :: "job \<Rightarrow> bool \<Rightarrow> staging \<Rightarrow> release_input \<Rightarrow> staged list \<Rightarrow> json_dict gh" where
  "published_release j scope st i files =
     (let gh = jb_gh j; p = ri_plan i
      in gh_bind (verify_reservation (jb_sha j) (jb_fr j) gh (ri_plan_json i) (ri_run_id i) (parent_json i)) (\<lambda>_.
         gh_bind (if pl_channel p = lit ''stable'' then require_reviewers gh else gh_lift (Inr ())) (\<lambda>_.
         gh_bind (superseded_candidate (jb_uni j) gh (ri_info i) (ri_run i) (map char_of (pl_channel p))) (\<lambda>superseded.
         case superseded of
           Some result \<Rightarrow> gh_lift (Inr result)
         | None \<Rightarrow>
             gh_bind (check_workflow_publication (jb_uni j) gh scope (pl_source_sha p)) (\<lambda>_.
             gh_bind (if pl_channel p = lit ''nightly'' \<and> jget (ri_run i) ''event'' = JStr (lit ''schedule'')
                      then scheduled_reuse j (ri_info i) (ri_run i) (ri_snapshot i) (pl_base_version p)
                      else gh_lift (Inr [])) (\<lambda>reused.
               if reused \<noteq> []
               then gh_lift (Inr [(lit ''status'', JStr (lit ''reused'')), (lit ''tag'', JStr reused),
                      (lit ''reason'', JStr (lit ''Qualified same-input release; fresh nightly checks and builds passed''))])
               else confirmed_release j scope st i files))))))"

definition accepted_parent :: "job \<Rightarrow> json_dict \<Rightarrow> json_dict \<Rightarrow> plan \<Rightarrow> (json_dict \<times> json_dict) option gh" where
  "accepted_parent j info run p =
     (if pl_channel p \<noteq> lit ''stable'' then gh_lift (Inr None)
      else
        gh_require (pl_promotion p = lit ''final-build'') ''Stable build must explicitly select final-build''
       (gh_bind (require_reviewers (jb_gh j)) (\<lambda>_.
        gh_bind (gh_lift (event_inputs j)) (\<lambda>inputs.
        gh_bind (verified_rc j (jget inputs ''rc_tag'') info run) (\<lambda>(cand, parent).
        gh_require (jget cand ''source_sha'' = JStr (pl_source_sha p) \<and> jget cand ''version'' = JStr (pl_base_version p))
          ''Final build differs from the accepted RC source/base''
       (gh_bind (gh_lift (nested_get cand ''version_plan'' ''promotion'')) (\<lambda>promotion.
        gh_require (promotion = JStr (lit ''final-build'')) ''Accepted RC does not permit a final rebuild''
          (gh_lift (Inr (Some (cand, parent)))))))))))"

definition absent_tags :: "github \<Rightarrow> plan \<Rightarrow> unit gh" where
  "absent_tags gh p =
     gh_bind (ensure_absent gh (pl_tag p)) (\<lambda>_.
       if pl_channel p \<in> {lit ''beta'', lit ''rc''} then ensure_absent gh (lit ''v'' @ pl_base_version p) else gh_lift (Inr ()))"

definition publish_versioned :: "job \<Rightarrow> (pystr \<times> entry_kind) list option \<Rightarrow> staging \<Rightarrow> json_dict option gh" where
  "publish_versioned j source st =
     gh_bind (gh_lift (read_json j PLAN)) (\<lambda>pv.
     gh_bind (gh_lift (validate_plan (jb_sha j) (jb_fr j) pv None None)) (\<lambda>p.
     gh_bind (open_github (jb_uni j) (jb_environ j) (jb_gh j)) (\<lambda>scope.
     gh_bind (versioned_context j (map char_of (pl_channel p)) True) (\<lambda>context.
     case context of
       None \<Rightarrow> gh_lift (Inr None)
     | Some (info, run, snapshot) \<Rightarrow>
         gh_bind (gh_lift (as_dict (jget snapshot ''data''))) (\<lambda>policy.
         gh_bind (gh_lift (validate_plan (jb_sha j) (jb_fr j) pv (Some (JObj policy)) (Some (run_commit run)))) (\<lambda>_.
         gh_bind (accepted_parent j info run p) (\<lambda>parent.
         gh_bind (gh_lift (positive (jget run ''id''))) (\<lambda>run_id.
         gh_bind (gh_lift (positive (jget run ''run_attempt''))) (\<lambda>attempt.
         let i = \<lparr>ri_info = info, ri_run = run, ri_snapshot = snapshot, ri_policy = policy, ri_plan_json = pv,
                  ri_plan = p, ri_run_id = run_id, ri_attempt = attempt, ri_parent = parent\<rparr>
         in gh_bind (verify_reservation (jb_sha j) (jb_fr j) (jb_gh j) pv run_id (parent_json i)) (\<lambda>_.
            gh_bind (absent_tags (jb_gh j) p) (\<lambda>_.
            gh_bind (superseded_candidate (jb_uni j) (jb_gh j) info run (map char_of (pl_channel p))) (\<lambda>superseded.
            case superseded of
              Some result \<Rightarrow> gh_lift (Inr (Some result))
            | None \<Rightarrow>
                gh_bind (staged_release j source i) (\<lambda>(_, files).
                gh_bind (published_release j scope st i files) (\<lambda>result.
                  gh_lift (Inr (Some result))))))))))))))))"

section \<open>Steps that publish nothing\<close>

lemma quiet_permissions [quiet_intros]: "quiet (verify_publication_permissions uni environ gh)"
  unfolding verify_publication_permissions_def
  by (intro quiet_intros quiet_run) (simp add: command_method_def permission_command_def)

lemma quiet_open [quiet_intros]: "quiet (open_github uni environ gh)"
  unfolding open_github_def by (intro quiet_intros)

lemma quiet_context [quiet_intros]: "quiet (versioned_context j channel gate)"
  unfolding versioned_context_def by (auto intro!: quiet_intros split: option.splits)

lemma quiet_state_request [quiet_intros]:
  assumes "http_method \<noteq> ''PATCH''"
  shows "quiet (state_request gh path http_method body mode)"
proof -
  have "command_method (state_command gh path http_method body) \<noteq> lit ''PATCH''"
    using assms by (simp add: command_method_def state_command_def)
  then show ?thesis
    unfolding state_request_def Let_def by (intro quiet_intros quiet_run assms)
qed

lemma quiet_state_api [quiet_intros]: "http_method \<noteq> ''PATCH'' \<Longrightarrow> quiet (state_api gh path http_method body)"
  unfolding state_api_def by (intro quiet_intros)

lemma quiet_state_optional [quiet_intros]: "quiet (state_optional gh path)"
proof -
  have "snd (state_optional gh path h) = snd (state_api gh path ''GET'' None h)" for h
    by (simp add: state_optional_def split: prod.splits sum.splits)
  moreover have "quiet (state_api gh path ''GET'' None)" by (intro quiet_intros) simp
  ultimately show ?thesis by (simp add: quiet_def)
qed

lemma quiet_read_state [quiet_intros]: "quiet (read_state sha fr gh)"
  unfolding read_state_def by (intro quiet_intros)

lemma quiet_write_state [quiet_intros]: "quiet (write_state gh state previous)"
  unfolding write_state_def by (intro quiet_intros) simp

lemma quiet_check_reserved [quiet_intros]: "quiet (check_reserved sha fr gh state plan run_id parent)"
  unfolding check_reserved_def by (auto intro!: quiet_intros)

lemma quiet_verify_reservation [quiet_intros]: "quiet (verify_reservation sha fr gh plan run_id parent)"
  unfolding verify_reservation_def by (auto intro!: quiet_intros split: prod.splits)

lemma quiet_begin_publication [quiet_intros]: "quiet (begin_publication sha fr gh plan run_id parent promotion)"
  unfolding begin_publication_def by (auto intro!: quiet_intros split: prod.splits)

lemma quiet_verified_rc [quiet_intros]: "quiet (verified_rc j tag_value info current_run)"
  unfolding verified_rc_def rc_manifest_bytes_def rc_source_run_def verify_payload_def Let_def
  by (auto intro!: quiet_intros split: prod.splits list.splits)

lemma quiet_parent [quiet_intros]: "quiet (accepted_parent j info run p)"
  unfolding accepted_parent_def by (auto intro!: quiet_intros split: prod.splits)

lemma quiet_absent_tags [quiet_intros]: "quiet (absent_tags gh p)"
  unfolding absent_tags_def by (intro quiet_intros)

lemma quiet_plan_snapshot [quiet_intros]: "quiet (published_plan_snapshot gh tag source prerelease)"
  unfolding published_plan_snapshot_def by (intro quiet_intros)

lemma quiet_scheduled [quiet_intros]: "quiet (verify_scheduled_reuse j info snapshot plan run_id tag)"
  unfolding verify_scheduled_reuse_def Let_def by (intro quiet_intros)

lemma quiet_head_is [quiet_intros]: "quiet (head_is gh info run)"
  unfolding head_is_def by (intro quiet_intros)

lemma quiet_first_reusable [quiet_intros]:
  assumes "\<And>plan run_id tag. quiet (verify plan run_id tag)" and "quiet still"
  shows "quiet (first_reusable verify still rows)"
proof -
  have "publishing (snd (first_reusable verify still rows h)) = publishing h" for h
  proof (induction rows arbitrary: h)
    case (Cons row rows)
    obtain run_id plan tag where row: "row = (run_id, plan, tag)" by (cases row)
    obtain r h1 where v: "verify plan run_id tag h = (r, h1)" by (cases "verify plan run_id tag h")
    then have h1: "publishing h1 = publishing h" using assms(1) [of plan run_id tag] by (metis quiet_def snd_conv)
    have "quiet (gh_bind still (\<lambda>b. gh_lift (Inr (if b then tag else []))))" by (intro quiet_intros assms(2))
    then show ?case using Cons.IH h1 by (auto simp: row v quiet_def split: sum.splits)
  qed simp
  then show ?thesis by (simp add: quiet_def)
qed

lemma quiet_reuse [quiet_intros]: "quiet (scheduled_reuse j info run snapshot base)"
  unfolding scheduled_reuse_def by (auto intro!: quiet_intros split: prod.splits)

lemma quiet_toolchain [quiet_intros]: "quiet (accepted_toolchain sha gh assets expected name)"
  unfolding accepted_toolchain_def by (auto intro!: quiet_intros split: option.splits json.splits)

lemma quiet_drift [quiet_intros]: "quiet (final_drift sha gh assets expected rs d)"
proof (induction rs arbitrary: d)
  case (Cons r rs)
  then show ?case unfolding final_drift.simps by (intro quiet_intros)
qed (simp add: quiet_intros)

lemma quiet_toolchains [quiet_intros]: "quiet (verify_final_toolchains sha gh cand receipts)"
  unfolding verify_final_toolchains_def by (auto intro!: quiet_intros split: prod.splits)

lemma quiet_staged [quiet_intros]: "quiet (staged_release j source i)"
  unfolding staged_release_def by (auto intro!: quiet_intros split: prod.splits option.splits)

lemma quiet_readback:
  "quiet (reconcile_created_release ob tag commit payload (create_confirmation ob run source_ref consumed))"
  unfolding quiet_def
proof
  fix h
  obtain cs where "snd (reconcile_created_release ob tag commit payload (create_confirmation ob run source_ref consumed) h) = h @ cs"
    "list_all (\<lambda>c. command_method c = lit ''GET'') cs"
    using readback_is_bounded by metis
  then show "publishing (snd (reconcile_created_release ob tag commit payload (create_confirmation ob run source_ref consumed) h))
      = publishing h"
    by (auto simp: publishing_def filter_empty_conv list_all_iff)
qed

lemma quiet_create_once [quiet_intros]: "quiet (create_release_once gh body)"
  unfolding create_release_once_def
  by (intro quiet_intros quiet_run) (simp add: command_method_def create_command_def)

lemma quiet_draft [quiet_intros]:
  "quiet (create_draft ob tag commit payload (Some (create_confirmation ob run source_ref consumed)))"
  unfolding create_draft_def option.case
  by (auto intro!: quiet_intros quiet_readback split: created.split)

lemma quiet_automatic [quiet_intros]: "quiet (confirm_automatic_source uni gh branch source_ref)"
  unfolding confirm_automatic_source_def by (intro quiet_intros)

section \<open>What a publication has established\<close>

definition automatic_confirmed :: "job \<Rightarrow> release_input \<Rightarrow> json \<Rightarrow> pystr \<times> json \<Rightarrow> bool" where
  "automatic_confirmed j i captured source_ref \<longleftrightarrow>
     captured_source (ri_info i) (ri_run i) captured
     \<and> (\<exists>h0 h1. confirm_automatic_source (jb_uni j) (jb_gh j) (jget (ri_info i) ''default_branch'') source_ref h0 = (Inr (), h1))"

text \<open>The plan is the frozen one, valid for the policy at the commit of a run that waits for this publication.\<close>

definition authorized_input :: "job \<Rightarrow> release_input \<Rightarrow> bool" where
  "authorized_input j i \<longleftrightarrow>
     read_json j PLAN = Inr (ri_plan_json i)
     \<and> validate_plan (jb_sha j) (jb_fr j) (ri_plan_json i) None None = Inr (ri_plan i)
     \<and> jget (ri_snapshot i) ''data'' = JObj (ri_policy i)
     \<and> validate_plan (jb_sha j) (jb_fr j) (ri_plan_json i) (Some (JObj (ri_policy i))) (Some (run_commit (ri_run i))) \<in> range Inr
     \<and> positive (jget (ri_run i) ''id'') = Inr (ri_run_id i) \<and> positive (jget (ri_run i) ''run_attempt'') = Inr (ri_attempt i)
     \<and> require_release_policy (jb_uni j) (JObj (ri_policy i)) (gh_repo (jb_gh j))
          (map char_of (pl_channel (ri_plan i)) \<in> {''rc'', ''stable''}) = Inr ()
     \<and> (\<exists>h0 h1. check_ancestry (jb_gh j) (run_commit (ri_run i)) (branch_of (ri_info i)) h0 = (Inr (), h1))
     \<and> (\<exists>n a c. positive (env_json (jb_environ j) ''GITHUB_RUN_ID'') = Inr n
          \<and> positive (env_json (jb_environ j) ''GITHUB_RUN_ATTEMPT'') = Inr a \<and> checked_out_sha (jb_head j) = Inr c
          \<and> ready_run (jb_uni j) (jb_gh j) n (ri_info i) c a True (ri_run i))
     \<and> (\<exists>h0 h1. accepted_parent j (ri_info i) (ri_run i) (ri_plan i) h0 = (Inr (ri_parent i), h1))"

text \<open>The files are the staged ones whose receipts were verified, and the manifest that describes them.\<close>

definition verified_files :: "job \<Rightarrow> (pystr \<times> entry_kind) list option \<Rightarrow> release_input \<Rightarrow> staged list \<Rightarrow> bool" where
  "verified_files j source i files \<longleftrightarrow>
     (\<exists>assets staged split manifest.
        stage_assets (jb_sha j) source = Inr (assets, staged)
        \<and> verified_payloads j i assets staged = Inr split
        \<and> (\<forall>cand parent. ri_parent i = Some (cand, parent)
             \<longrightarrow> (\<exists>h0 h1. verify_final_toolchains (jb_sha j) (jb_gh j) cand (fst split) h0 = (Inr (), h1)))
        \<and> described_release j i assets staged split = Inr manifest
        \<and> files = sort_entries ((lit MANIFEST, json_lines (jc_dumps (gh_codec (jb_gh j))) (JObj manifest)) # staged))"

lemma staged_release_sound:
  assumes "staged_release j source i h = (Inr (manifest, files), h')"
  shows "verified_files j source i files \<and> distinct (map fst files)"
proof -
  from assms obtain assets staged split h1 where
    s: "stage_assets (jb_sha j) source = Inr (assets, staged)" "verified_payloads j i assets staged = Inr split"
      "(case ri_parent i of Some (accepted_rc, _) \<Rightarrow> verify_final_toolchains (jb_sha j) (jb_gh j) accepted_rc (fst split)
        | None \<Rightarrow> gh_lift (Inr ())) h = (Inr (), h1)"
      "described_release j i assets staged split = Inr manifest"
      "files = sort_entries ((lit MANIFEST, json_lines (jc_dumps (gh_codec (jb_gh j))) (JObj manifest)) # staged)"
    by (auto simp: staged_release_def gh_success split: prod.splits)
  from s(3) have "\<forall>cand parent. ri_parent i = Some (cand, parent)
      \<longrightarrow> (\<exists>h0 h1. verify_final_toolchains (jb_sha j) (jb_gh j) cand (fst split) h0 = (Inr (), h1))"
    by auto blast
  then have "verified_files j source i files"
    unfolding verified_files_def
    using s by (intro exI [of _ assets] exI [of _ staged] exI [of _ split] exI [of _ manifest]) simp
  with s(5) stage_assets_files [OF s(1)] show ?thesis by (simp add: distinct_sort_entries)
qed

lemma versioned_context_sound:
  assumes "versioned_context j channel True h = (Inr (Some (info, run, snapshot)), h')"
  shows "require_release_policy (jb_uni j) (jget snapshot ''data'') (gh_repo (jb_gh j)) (channel \<in> {''rc'', ''stable''}) = Inr ()
    \<and> (\<exists>h0 h1. check_ancestry (jb_gh j) (run_commit run) (branch_of info) h0 = (Inr (), h1))
    \<and> (\<exists>n a c. positive (env_json (jb_environ j) ''GITHUB_RUN_ID'') = Inr n
          \<and> positive (env_json (jb_environ j) ''GITHUB_RUN_ATTEMPT'') = Inr a \<and> checked_out_sha (jb_head j) = Inr c
          \<and> ready_run (jb_uni j) (jb_gh j) n info c a True run)"
  using assms
  by (auto simp: versioned_context_def gh_success split: option.splits dest!: waited_run) blast+

lemma public_make:
  assumes "Q (h @ [api_command gh (lit ''releases/'' @ int_str rid) ''PATCH'' (Some (publish_body prerelease)) ''json''])"
  shows "public_only (make_public gh tag rid prerelease) h Q"
  unfolding public_only_def using assms make_public_history by metis

lemma publish_confirmed_public:
  assumes "quiet (case confirm_publish of Some c \<Rightarrow> c | None \<Rightarrow> gh_lift (Inr ()))"
    and "\<And>rid h1 h2 h3. verify_draft sha (ob_gh ob) tag commit rid (st_files st) h1 = (Inr (), h2)
      \<Longrightarrow> (case confirm_publish of Some c \<Rightarrow> c | None \<Rightarrow> gh_lift (Inr ())) h2 = (Inr (), h3) \<Longrightarrow> publishing h3 = publishing h
      \<Longrightarrow> Q (h3 @ [api_command (ob_gh ob) (lit ''releases/'' @ int_str rid) ''PATCH'' (Some (publish_body prerelease)) ''json''])"
  shows "public_only (publish_confirmed uni sha ob scope tag commit st prerelease body
    (Some (create_confirmation ob run source_ref consumed)) confirm_publish) h Q"
  unfolding publish_confirmed_def Let_def
  by (rule public_make assms(1) public_intros quiet_intros | simp)+ (rule assms(2); simp)

text \<open>The last command of a publication, and what preceded it.\<close>

definition verified_publication ::
  "job \<Rightarrow> release_input \<Rightarrow> staged list \<Rightarrow> command list \<Rightarrow> command list \<Rightarrow> bool" where
  "verified_publication j i files h h' \<longleftrightarrow>
     (\<exists>path captured consumed rid h2.
        (\<exists>h0 h1. begin_publication (jb_sha j) (jb_fr j) (jb_gh j) (ri_plan_json i) (ri_run_id i) (parent_json i) False h0
                  = (Inr consumed, h1))
        \<and> (is_automatic (ri_run i) (pl_channel (ri_plan i)) \<longrightarrow> automatic_confirmed j i captured (path, captured))
        \<and> (\<forall>f\<in>set files. read_back (jb_sha j) (jb_gh j) f)
        \<and> (\<exists>h0 h1. check_tag_ref (jb_gh j) (pl_tag (ri_plan i)) (pl_source_sha (ri_plan i)) h0 = (Inr (), h1))
        \<and> publishing h2 = publishing h
        \<and> h' = h2 @ [api_command (jb_gh j) (lit ''releases/'' @ int_str rid) ''PATCH''
                       (Some (publish_body (pl_channel (ri_plan i) \<noteq> lit ''stable''))) ''json''])"

lemma public_then2:
  "public_only m h Q \<Longrightarrow> public_only (gh_bind m (\<lambda>x. gh_bind (gh_lift (f x)) (\<lambda>y. gh_lift (g x y)))) h Q"
  by (simp add: public_only_def snd_then_lift2)

lemma public_if: "(c \<Longrightarrow> public_only m h Q) \<Longrightarrow> (\<not> c \<Longrightarrow> public_only m' h Q) \<Longrightarrow> public_only (if c then m else m') h Q"
  by simp

lemma public_mono: "public_only m h Q \<Longrightarrow> (\<And>h'. Q h' \<Longrightarrow> R h') \<Longrightarrow> public_only m h R"
  by (auto simp: public_only_def)

lemma confirmed_release_public:
  assumes "distinct (map fst files)"
  shows "public_only (confirmed_release j scope st i files) h (verified_publication j i files h)"
  unfolding confirmed_release_def Let_def
  apply (rule public_then2 publish_confirmed_public public_intros quiet_intros | (simp add: quiet_intros; fail))+
  subgoal premises prems for digest h1 body h2 path h3 captured h4 consumed h5 rid h6 h7 h8
  proof -
    have taken: "\<exists>h0 h1. begin_publication (jb_sha j) (jb_fr j) (jb_gh j) (ri_plan_json i) (ri_run_id i) (parent_json i) False h0
        = (Inr consumed, h1)" using prems(10) by blast
    have confirmed: "is_automatic (ri_run i) (pl_channel (ri_plan i)) \<longrightarrow> automatic_confirmed j i captured (path, captured)"
      using prems(9,13) by (auto simp: automatic_confirmed_def) blast
    have same: "publishing h8 = publishing h" using prems by simp
    from verify_draft_sound [OF prems(12)] assms have reread: "\<forall>f\<in>set files. read_back (jb_sha j) (jb_gh j) f"
      and tag: "\<exists>h0 h1. check_tag_ref (jb_gh j) (pl_tag (ri_plan i)) (pl_source_sha (ri_plan i)) h0 = (Inr (), h1)" by auto
    show ?thesis
      unfolding verified_publication_def
      by (rule exI [of _ path], rule exI [of _ captured], rule exI [of _ consumed], rule exI [of _ rid], rule exI [of _ h8])
        (intro conjI taken confirmed reread tag same refl)
  qed
  done

lemma verified_publication_cong:
  "publishing h1 = publishing h \<Longrightarrow> verified_publication j i files h1 = verified_publication j i files h"
  by (simp add: verified_publication_def fun_eq_iff)

lemma published_release_public:
  assumes "distinct (map fst files)"
  shows "public_only (published_release j scope st i files) h (verified_publication j i files h)"
proof -
  have last: "public_only (confirmed_release j scope st i files) h1 (verified_publication j i files h)"
    if "publishing h1 = publishing h" for h1
    using confirmed_release_public [OF assms] verified_publication_cong [OF that] by metis
  show ?thesis
    unfolding published_release_def Let_def
    by (rule last public_intros public_if quiet_intros | simp)+
qed


end
