(* ===== verification/Json_Edit.thy ===== *)
theory Json_Edit
  imports Version_Plan Release_Control
begin

text \<open>
  The editing of JSON version files in \<open>scripts/version_plan.py\<close>: the scanner \<open>_JsonDocument\<close>, which keeps the
  offsets of every scalar, and \<open>_json_edit\<close>, which replaces only the tokens of the owned fields.
  \<open>json.JSONDecoder.raw_decode\<close> is an argument: from a suffix of the text it returns a value and one less than
  the number of characters the value takes. The depth of the interpreter's stack is not modelled.
\<close>

section \<open>Paths\<close>

datatype step_key = Key pystr | Index nat

type_synonym json_path = "step_key list"

fun get_step :: "json \<Rightarrow> step_key \<Rightarrow> json option" where
  "get_step (JObj d) (Key k) = map_of d k"
| "get_step (JList xs) (Index i) = (if i < length xs then Some (xs ! i) else None)"
| "get_step v s = None"

fun get_path :: "json \<Rightarrow> json_path \<Rightarrow> json result" where
  "get_path v [] = Inr v"
| "get_path v (s # p) =
     (case get_step v s of Some w \<Rightarrow> get_path w p | None \<Rightarrow> Inl (VersionError ''Missing version field''))"

section \<open>The scanner\<close>

type_synonym decoder = "pystr \<Rightarrow> (json \<times> nat) result"

definition raw_decode :: "decoder \<Rightarrow> pystr \<Rightarrow> nat \<Rightarrow> (json \<times> nat) result" where
  "raw_decode d doc i =
     (if length doc \<le> i then Inl (ValueError ''Expecting value'')
      else bind_r (d (drop i doc)) (\<lambda>(v, n). Inr (v, i + Suc n)))"

definition json_space :: "nat \<Rightarrow> bool" where
  "json_space c \<longleftrightarrow> c \<in> {32, 10, 13, 9}"

definition skip_space :: "pystr \<Rightarrow> nat \<Rightarrow> nat" where
  "skip_space doc i = i + length (takeWhile json_space (drop i doc))"

definition char_at :: "pystr \<Rightarrow> nat \<Rightarrow> nat \<Rightarrow> bool" where
  "char_at doc i c \<longleftrightarrow> i < length doc \<and> doc ! i = c"

type_synonym span = "json_path \<times> nat \<times> nat"

type_synonym parsed = "(json \<times> nat \<times> span list) result option"

definition then_parse :: "parsed \<Rightarrow> (json \<Rightarrow> nat \<Rightarrow> span list \<Rightarrow> parsed) \<Rightarrow> parsed" where
  "then_parse m f =
     (case m of None \<Rightarrow> None | Some (Inl e) \<Rightarrow> Some (Inl e) | Some (Inr (v, i, spans)) \<Rightarrow> f v i spans)"

definition fails :: "string \<Rightarrow> parsed" where
  "fails msg = Some (Inl (VersionError msg))"

text \<open>What is left to read: a value, or the rest of an object or of an array with what it holds so far.\<close>

datatype task =
    Value nat json_path
  | Members nat json_path json_dict
  | Elements nat json_path "json list"

fun task_start :: "task \<Rightarrow> nat" where
  "task_start (Value i path) = i"
| "task_start (Members i path members) = i"
| "task_start (Elements i path elements) = i"

definition parse_value :: "decoder \<Rightarrow> pystr \<Rightarrow> (task \<Rightarrow> parsed) \<Rightarrow> nat \<Rightarrow> json_path \<Rightarrow> parsed" where
  "parse_value d doc self start path =
     (let i = skip_space doc start; k = skip_space doc (Suc i)
      in if length doc \<le> i then fails ''Truncated JSON input''
         else if doc ! i = 123
         then if char_at doc k 125 then Some (Inr (JObj [], Suc k, [])) else self (Members k path [])
         else if doc ! i = 91
         then if char_at doc k 93 then Some (Inr (JList [], Suc k, [])) else self (Elements k path [])
         else Some (bind_r (raw_decode d doc i) (\<lambda>(v, e). Inr (v, e, [(path, i, e)]))))"

text \<open>After a member or an element: the closing character, or a comma and the rest.\<close>

definition parse_more :: "pystr \<Rightarrow> (task \<Rightarrow> parsed) \<Rightarrow> nat \<Rightarrow> json \<Rightarrow> (nat \<Rightarrow> task) \<Rightarrow> nat \<Rightarrow> span list \<Rightarrow> parsed" where
  "parse_more doc self close whole rest e spans =
     (let j = skip_space doc e
      in if length doc \<le> j then fails ''Truncated JSON input''
         else if doc ! j = close then Some (Inr (whole, Suc j, spans))
         else if doc ! j \<noteq> 44 then fails ''Malformed JSON delimiter''
         else then_parse (self (rest (skip_space doc (Suc j)))) (\<lambda>w e' more_spans. Some (Inr (w, e', spans @ more_spans))))"

definition parse_object :: "decoder \<Rightarrow> pystr \<Rightarrow> (task \<Rightarrow> parsed) \<Rightarrow> nat \<Rightarrow> json_path \<Rightarrow> json_dict \<Rightarrow> parsed" where
  "parse_object d doc self i path members =
     (case raw_decode d doc i of
        Inl e \<Rightarrow> Some (Inl e)
      | Inr (name, e) \<Rightarrow>
          let key = jstr_val name; k = skip_space doc e
          in if \<not> is_jstr name \<or> key \<in> fst ` set members then fails ''Duplicate or invalid JSON key''
             else if \<not> char_at doc k 58 then fails ''Malformed JSON object''
             else then_parse (self (Value (Suc k) (path @ [Key key]))) (\<lambda>v e' spans.
                    parse_more doc self 125 (JObj (members @ [(key, v)])) (\<lambda>m. Members m path (members @ [(key, v)])) e' spans))"

definition parse_array :: "pystr \<Rightarrow> (task \<Rightarrow> parsed) \<Rightarrow> nat \<Rightarrow> json_path \<Rightarrow> json list \<Rightarrow> parsed" where
  "parse_array doc self i path elements =
     then_parse (self (Value i (path @ [Index (length elements)]))) (\<lambda>v e spans.
       parse_more doc self 93 (JList (elements @ [v])) (\<lambda>m. Elements m path (elements @ [v])) e spans)"

definition parse_task :: "decoder \<Rightarrow> pystr \<Rightarrow> (task \<Rightarrow> parsed) \<Rightarrow> task \<Rightarrow> parsed" where
  "parse_task d doc self t =
     (case t of
        Value i path \<Rightarrow> parse_value d doc self i path
      | Members i path members \<Rightarrow> parse_object d doc self i path members
      | Elements i path elements \<Rightarrow> parse_array doc self i path elements)"

text \<open>
  \<open>None\<close> is fuel that ran out: the three methods call each other at later offsets, or from an object or an
  array for its first part, so twice the length of the text is enough.
\<close>

primrec parse :: "decoder \<Rightarrow> pystr \<Rightarrow> nat \<Rightarrow> task \<Rightarrow> parsed" where
  "parse d doc 0 t = None"
| "parse d doc (Suc n) t = parse_task d doc (parse d doc n) t"

definition parse_fuel :: "pystr \<Rightarrow> nat" where
  "parse_fuel doc = 2 * length doc + 2"

definition json_document :: "decoder \<Rightarrow> bytes \<Rightarrow> (pystr \<times> json \<times> span list) result" where
  "json_document d raw =
     bind_r (utf8_decode raw) (\<lambda>doc.
     case parse d doc (parse_fuel doc) (Value 0 []) of
       None \<Rightarrow> Inl (RuntimeError ''fuel'')
     | Some r \<Rightarrow>
         bind_r r (\<lambda>(data, e, spans).
         vreq (skip_space doc e = length doc) ''Unexpected content after JSON document'' (Inr (doc, data, spans))))"

section \<open>Editing\<close>

text \<open>\<open>json.dumps(s, ensure_ascii=False)\<close> of a string.\<close>

definition plain_char :: "nat \<Rightarrow> pystr" where
  "plain_char c = (if c < 32 \<or> c = 34 \<or> c = 92 then json_escape_char c else [c])"

definition plain_string :: "pystr \<Rightarrow> pystr" where
  "plain_string s = 34 # concat (map plain_char s) @ [34]"

definition scalar_token :: "json \<Rightarrow> pystr" where
  "scalar_token v = (case v of JStr s \<Rightarrow> plain_string s | _ \<Rightarrow> py_str v)"

text \<open>\<open>_scalar\<close>: a number is replaced by a number, a string by the text of the value.\<close>

definition scalar :: "json \<Rightarrow> json \<Rightarrow> json result" where
  "scalar v old =
     (case old of
        JInt _ \<Rightarrow> (case v of JInt i \<Rightarrow> Inr (JInt i)
                   | _ \<Rightarrow> Inl (VersionError ''A numeric version field requires a numeric build projection''))
      | JStr _ \<Rightarrow> Inr (JStr (py_str v))
      | _ \<Rightarrow> Inl (VersionError ''Owned version field must be a string or integer''))"

definition npm_fields :: "json \<Rightarrow> json_dict \<Rightarrow> json_path list result" where
  "npm_fields data declaration =
     (case data of
        JObj d \<Rightarrow>
          vreq (json_eq (jget d ''name'') (jget declaration ''package'')) ''npm lock does not own the selected package''
           (if \<not> has_key d ''packages'' then Inr [[Key (lit ''version'')]]
            else bind_r (get_path data [Key (lit ''packages''), Key []]) (\<lambda>own.
                 case own of
                   JObj own_members \<Rightarrow>
                     vreq (json_eq (dict_get own_members (lit ''name'') (jget d ''name'')) (jget declaration ''package''))
                       ''npm lock root package identity mismatch''
                       (Inr [[Key (lit ''version'')], [Key (lit ''packages''), Key [], Key (lit ''version'')]])
                 | _ \<Rightarrow> Inl (VersionError ''npm lock root package identity mismatch'')))
      | _ \<Rightarrow> Inl (VersionError ''npm lock does not own the selected package''))"

definition json_fields :: "json \<Rightarrow> json_dict \<Rightarrow> json_path list result" where
  "json_fields data declaration =
     (if jget declaration ''format'' = JStr (lit ''npm-lock'') then npm_fields data declaration
      else bind_r (py_getitem (JObj declaration) (lit ''field'')) (\<lambda>f.
           bind_r (field f) (\<lambda>names.
           if \<not> has_key declaration ''package'' then Inr [map Key names]
           else (case data of
                   JObj d \<Rightarrow>
                     vreq (json_eq (jget d ''name'') (jget declaration ''package''))
                       ''JSON manifest does not own the selected package'' (Inr [map Key names])
                 | _ \<Rightarrow> Inl (VersionError ''JSON manifest does not own the selected package'')))))"

text \<open>One field: its edit, unless it has the value already, and its previous value.\<close>

type_synonym edit = "nat \<times> nat \<times> pystr"

definition field_edit :: "json \<Rightarrow> span list \<Rightarrow> json \<Rightarrow> json_path \<Rightarrow> (edit list \<times> json) result" where
  "field_edit data spans v path =
     bind_r (get_path data path) (\<lambda>old.
     case map_of spans path of
       None \<Rightarrow> Inl (VersionError ''JSON version field is not a scalar'')
     | Some (start, stop) \<Rightarrow>
         bind_r (scalar v old) (\<lambda>new.
           Inr (if old \<noteq> new then [(start, stop, scalar_token new)] else [], old)))"

text \<open>\<open>sorted(edits, reverse=True)\<close>, and the replacement of one token.\<close>

definition replace_at :: "pystr \<Rightarrow> edit \<Rightarrow> pystr" where
  "replace_at doc e = (case e of (start, stop, token) \<Rightarrow> take start doc @ token @ drop stop doc)"

definition apply_edits :: "pystr \<Rightarrow> edit list \<Rightarrow> pystr" where
  "apply_edits doc edits = fold (\<lambda>e t. replace_at t e) (rev (sort_key fst edits)) doc"

definition json_edit :: "decoder \<Rightarrow> bytes \<Rightarrow> json_dict \<Rightarrow> json \<Rightarrow> (bytes \<times> json list) result" where
  "json_edit d raw declaration v =
     bind_r (json_document d raw) (\<lambda>(doc, data, spans).
     bind_r (json_fields data declaration) (\<lambda>paths.
     bind_r (map_r (field_edit data spans v) paths) (\<lambda>rows.
     bind_r (utf8_encode (apply_edits doc (concat (map fst rows)))) (\<lambda>out. Inr (out, map snd rows)))))"

section \<open>The fuel is enough\<close>

lemma skip_space_le: "i \<le> skip_space doc i"
  by (simp add: skip_space_def)

lemma raw_decode_Inr: "raw_decode d doc i = Inr (v, e) \<Longrightarrow> i < length doc \<and> i < e"
  by (auto simp: raw_decode_def bind_r_Inr_iff split: if_splits)

lemma then_parse_Some_Inr:
  "then_parse m f = Some (Inr r) \<longleftrightarrow> (\<exists>v i spans. m = Some (Inr (v, i, spans)) \<and> f v i spans = Some (Inr r))"
  by (auto simp: then_parse_def split: option.splits sum.splits prod.splits)

lemma fails_Inr [simp]: "fails msg \<noteq> Some (Inr r)" "fails msg \<noteq> None"
  by (simp_all add: fails_def)

definition advancing :: "(task \<Rightarrow> parsed) \<Rightarrow> bool" where
  "advancing self \<longleftrightarrow> (\<forall>t v e spans. self t = Some (Inr (v, e, spans)) \<longrightarrow> task_start t < e)"

lemma parse_more_advances:
  assumes "advancing self" and "parse_more doc self close whole rest e spans = Some (Inr (v, e', spans'))"
    and "\<And>m. task_start (rest m) = m"
  shows "e < e'"
  using assms skip_space_le [of e doc] skip_space_le [of "Suc (skip_space doc e)" doc]
  by (fastforce simp: parse_more_def then_parse_Some_Inr advancing_def Let_def split: if_splits)

lemma skip_space_in: "skip_space doc i < length doc \<Longrightarrow> i < length doc"
  using skip_space_le [of i doc] by simp

lemma parse_task_advances:
  assumes "advancing self"
  shows "advancing (parse_task d doc self)"
  unfolding advancing_def
proof (intro allI impI)
  fix t v e spans
  assume run: "parse_task d doc self t = Some (Inr (v, e, spans))"
  have up: "i \<le> skip_space doc i" for i by (rule skip_space_le)
  show "task_start t < e"
  proof (cases t)
    case (Value i path)
    from run have "parse_value d doc self i path = Some (Inr (v, e, spans))" by (simp add: parse_task_def Value)
    with up [of i] up [of "Suc (skip_space doc i)"] assms show ?thesis
      unfolding Value
      by (fastforce simp: parse_value_def Let_def advancing_def bind_r_Inr_iff split: if_splits dest: raw_decode_Inr)
  next
    case (Members i path members)
    from run obtain name e1 where d: "raw_decode d doc i = Inr (name, e1)"
      by (auto simp: parse_task_def Members parse_object_def Let_def split: sum.splits)
    with run obtain v1 e2 spans1 where
      r: "self (Value (Suc (skip_space doc e1)) (path @ [Key (jstr_val name)])) = Some (Inr (v1, e2, spans1))"
        "parse_more doc self 125 (JObj (members @ [(jstr_val name, v1)])) (\<lambda>m. Members m path (members @ [(jstr_val name, v1)])) e2 spans1
          = Some (Inr (v, e, spans))"
      by (auto simp: parse_task_def Members parse_object_def Let_def then_parse_Some_Inr split: if_splits)
    from r(1) assms have "Suc (skip_space doc e1) < e2" by (force simp: advancing_def)
    moreover have "e2 < e" using parse_more_advances [OF assms r(2)] by simp
    ultimately show ?thesis using up [of e1] raw_decode_Inr [OF d] by (simp add: Members)
  next
    case (Elements i path elements)
    from run obtain v1 e1 spans1 where
      r: "self (Value i (path @ [Index (length elements)])) = Some (Inr (v1, e1, spans1))"
        "parse_more doc self 93 (JList (elements @ [v1])) (\<lambda>m. Elements m path (elements @ [v1])) e1 spans1 = Some (Inr (v, e, spans))"
      by (auto simp: parse_task_def Elements parse_array_def then_parse_Some_Inr)
    from r(1) assms have "i < e1" by (force simp: advancing_def)
    moreover have "e1 < e" using parse_more_advances [OF assms r(2)] by simp
    ultimately show ?thesis by (simp add: Elements)
  qed
qed

lemma parse_advances: "advancing (parse d doc n)"
proof (induction n)
  case (Suc n)
  from parse_task_advances [OF Suc] show ?case by (simp add: advancing_def)
qed (simp add: advancing_def)

definition task_need :: "pystr \<Rightarrow> task \<Rightarrow> nat" where
  "task_need doc t = 2 * (length doc - task_start t) + (case t of Elements _ _ _ \<Rightarrow> 1 | _ \<Rightarrow> 0)"

lemma then_parse_None:
  "m \<noteq> None \<Longrightarrow> (\<And>v i spans. m = Some (Inr (v, i, spans)) \<Longrightarrow> f v i spans \<noteq> None) \<Longrightarrow> then_parse m f \<noteq> None"
  by (auto simp: then_parse_def split: option.splits sum.splits)

lemma parse_more_total:
  assumes "\<And>m. e < m \<Longrightarrow> e < length doc \<Longrightarrow> self (rest m) \<noteq> None"
  shows "parse_more doc self close whole rest e spans \<noteq> None"
  using assms [of "skip_space doc (Suc (skip_space doc e))"] skip_space_le [of e doc]
    skip_space_le [of "Suc (skip_space doc e)" doc]
  by (cases "e < length doc") (auto simp: parse_more_def Let_def then_parse_def simp del: not_None_eq split: option.splits sum.splits)

lemma parse_task_total:
  assumes "\<And>u. task_need doc u < task_need doc t \<Longrightarrow> self u \<noteq> None" and "advancing self"
    and sound: "\<And>u v e spans. self u = Some (Inr (v, e, spans)) \<Longrightarrow> task_start u < length doc"
  shows "parse_task d doc self t \<noteq> None"
proof (cases t)
  case (Value i path)
  have "self (Members k p m) \<noteq> None" "self (Elements k p l) \<noteq> None" if "i < k" "i < length doc" for k p m l
    using that by (auto intro!: assms(1) simp: task_need_def Value simp del: not_None_eq)
  then show ?thesis
    using skip_space_le [of i doc] skip_space_le [of "Suc (skip_space doc i)" doc]
    by (auto simp: parse_task_def Value parse_value_def Let_def simp del: not_None_eq)
next
  case (Members i path members)
  have step: "self u \<noteq> None" if "u = Value k p \<or> u = Members k p m" "i < k" "i < length doc" for u k p m
    using that by (auto intro!: assms(1) simp: task_need_def Members simp del: not_None_eq)
  show ?thesis
  proof (cases "raw_decode d doc i")
    case (Inr r)
    obtain name e where r: "r = (name, e)" by (cases r)
    have i: "i < length doc" "i < Suc (skip_space doc e)"
      using Inr r raw_decode_Inr skip_space_le [of e doc] by force+
    have "then_parse (self (Value (Suc (skip_space doc e)) (path @ [Key (jstr_val name)]))) (\<lambda>v e' spans.
        parse_more doc self 125 (JObj (members @ [(jstr_val name, v)])) (\<lambda>m. Members m path (members @ [(jstr_val name, v)])) e' spans) \<noteq> None"
    proof (rule then_parse_None)
      show "self (Value (Suc (skip_space doc e)) (path @ [Key (jstr_val name)])) \<noteq> None" using step i by blast
      fix v e' spans
      assume "self (Value (Suc (skip_space doc e)) (path @ [Key (jstr_val name)])) = Some (Inr (v, e', spans))"
      with assms(2) i(2) have "i < e'" by (force simp: advancing_def)
      then show "parse_more doc self 125 (JObj (members @ [(jstr_val name, v)])) (\<lambda>m. Members m path (members @ [(jstr_val name, v)])) e' spans \<noteq> None"
        using i(1) by (intro parse_more_total step [OF disjI2 [OF refl]]) auto
    qed
    then show ?thesis by (simp add: parse_task_def Members parse_object_def Inr r Let_def del: not_None_eq)
  qed (simp add: parse_task_def Members parse_object_def)
next
  case (Elements i path elements)
  have "then_parse (self (Value i (path @ [Index (length elements)]))) (\<lambda>v e spans.
      parse_more doc self 93 (JList (elements @ [v])) (\<lambda>m. Elements m path (elements @ [v])) e spans) \<noteq> None"
  proof (rule then_parse_None)
    show "self (Value i (path @ [Index (length elements)])) \<noteq> None" by (rule assms(1)) (simp add: task_need_def Elements)
    fix v e spans
    assume v: "self (Value i (path @ [Index (length elements)])) = Some (Inr (v, e, spans))"
    with assms(2) have "i < e" by (force simp: advancing_def)
    moreover from sound [OF v] have "i < length doc" by simp
    ultimately have "self (Elements m path (elements @ [v])) \<noteq> None" if "e < m" for m
      using that by (intro assms(1)) (simp add: task_need_def Elements)
    then show "parse_more doc self 93 (JList (elements @ [v])) (\<lambda>m. Elements m path (elements @ [v])) e spans \<noteq> None"
      by (intro parse_more_total) blast
  qed
  then show ?thesis by (simp add: parse_task_def Elements parse_array_def)
qed

lemma parse_started: "parse d doc n t = Some (Inr (v, e, spans)) \<Longrightarrow> task_start t < length doc"
proof (induction n arbitrary: t v e spans)
  case (Suc n)
  show ?case
  proof (cases t)
    case (Value i path)
    with Suc.prems have "skip_space doc i < length doc"
      by (auto simp: parse_task_def parse_value_def Let_def not_le split: if_splits)
    then show ?thesis using skip_space_in by (simp add: Value)
  next
    case (Members i path members)
    with Suc.prems show ?thesis
      by (auto simp: parse_task_def parse_object_def Let_def split: sum.splits dest: raw_decode_Inr)
  next
    case (Elements i path elements)
    with Suc.prems obtain v1 e1 spans1 where "parse d doc n (Value i (path @ [Index (length elements)])) = Some (Inr (v1, e1, spans1))"
      by (auto simp: parse_task_def parse_array_def then_parse_Some_Inr)
    from Suc.IH [OF this] show ?thesis by (simp add: Elements)
  qed
qed simp

lemma parse_total: "task_need doc t < n \<Longrightarrow> parse d doc n t \<noteq> None"
proof (induction n arbitrary: t)
  case (Suc n)
  have "parse d doc n u \<noteq> None" if "task_need doc u < task_need doc t" for u
    using Suc that by simp
  with parse_task_total [of doc t "parse d doc n" d] parse_advances parse_started show ?case by auto
qed simp

lemma document_parses: "parse d doc (parse_fuel doc) (Value 0 []) \<noteq> None"
  by (rule parse_total) (simp add: parse_fuel_def task_need_def)

section \<open>The recorded spans\<close>

text \<open>Spans in order, without overlap, between two offsets.\<close>

fun tidy :: "pystr \<Rightarrow> nat \<Rightarrow> span list \<Rightarrow> nat \<Rightarrow> bool" where
  "tidy doc i [] e \<longleftrightarrow> i \<le> e"
| "tidy doc i ((path, s, t) # r) e \<longleftrightarrow> i \<le> s \<and> s < t \<and> s < length doc \<and> tidy doc t r e"

lemma tidy_le: "tidy doc i xs e \<Longrightarrow> i \<le> e"
  by (induction doc i xs e rule: tidy.induct) auto

lemma tidy_start: "i' \<le> i \<Longrightarrow> tidy doc i xs e \<Longrightarrow> tidy doc i' xs e"
  by (cases xs) auto

lemma tidy_end: "e \<le> e' \<Longrightarrow> tidy doc i xs e \<Longrightarrow> tidy doc i xs e'"
  by (induction doc i xs e rule: tidy.induct) auto

lemma tidy_after: "tidy doc i spans e \<Longrightarrow> (p, s, t) \<in> set spans \<Longrightarrow> i \<le> s \<and> s < t \<and> s < length doc"
  by (induction doc i spans e rule: tidy.induct) force+

lemma tidy_append: "tidy doc i xs m \<Longrightarrow> tidy doc m ys e \<Longrightarrow> tidy doc i (xs @ ys) e"
  by (induction doc i xs m rule: tidy.induct) (auto intro: tidy_start)

definition tidy_parser :: "pystr \<Rightarrow> (task \<Rightarrow> parsed) \<Rightarrow> bool" where
  "tidy_parser doc self \<longleftrightarrow> (\<forall>t v e spans. self t = Some (Inr (v, e, spans)) \<longrightarrow> tidy doc (task_start t) spans e)"

lemma parse_more_tidy:
  assumes "tidy_parser doc self" and "parse_more doc self close whole rest e spans = Some (Inr (v, e', spans'))"
    and "\<And>m. task_start (rest m) = m" and "tidy doc i spans e"
  shows "tidy doc i spans' e'"
proof -
  have le: "e \<le> skip_space doc e" "Suc (skip_space doc e) \<le> skip_space doc (Suc (skip_space doc e))"
    by (rule skip_space_le)+
  show ?thesis
  proof (cases "spans' = spans")
    case True
    with assms(2) le(1) have "e \<le> e'"
      using tidy_le assms(1,3) le
      by (auto simp: parse_more_def Let_def then_parse_Some_Inr tidy_parser_def split: if_splits) (metis le_trans tidy_le Suc_leD)+
    with True assms(4) show ?thesis by (simp add: tidy_end)
  next
    case False
    with assms(2) obtain more_spans where
      m: "self (rest (skip_space doc (Suc (skip_space doc e)))) = Some (Inr (v, e', more_spans))" "spans' = spans @ more_spans"
      by (auto simp: parse_more_def Let_def then_parse_Some_Inr split: if_splits)
    with assms(1,3) have "tidy doc (skip_space doc (Suc (skip_space doc e))) more_spans e'"
      unfolding tidy_parser_def by metis
    then have "tidy doc e more_spans e'" using le by (intro tidy_start [of e "skip_space doc (Suc (skip_space doc e))"]) simp_all
    with m(2) assms(4) show ?thesis by (simp add: tidy_append)
  qed
qed

text \<open>What a step of each method returns, once its parts have succeeded.\<close>

lemma parse_value_cases:
  assumes "parse_value d doc self start path = Some (Inr (v, e, spans))"
  obtains (scalar) i where "start \<le> i" "raw_decode d doc i = Inr (v, e)" "spans = [(path, i, e)]"
  | (no_members) "v = JObj []" "spans = []" "start < e"
  | (no_elements) "v = JList []" "spans = []" "start < e"
  | (members) k where "start < k" "self (Members k path []) = Some (Inr (v, e, spans))"
  | (elements) k where "start < k" "self (Elements k path []) = Some (Inr (v, e, spans))"
proof -
  let ?i = "skip_space doc start"
  let ?k = "skip_space doc (Suc ?i)"
  have le: "start \<le> ?i" "start < ?k" using skip_space_le [of start doc] skip_space_le [of "Suc ?i" doc] by simp_all
  from assms have i: "\<not> length doc \<le> ?i" by (auto simp: parse_value_def Let_def split: if_splits)
  show ?thesis
  proof (cases "doc ! ?i = 123")
    case True
    show ?thesis
    proof (cases "char_at doc ?k 125")
      case True
      with \<open>doc ! ?i = 123\<close> assms i le no_members show ?thesis by (auto simp: parse_value_def Let_def)
    next
      case False
      with \<open>doc ! ?i = 123\<close> assms i le members [of ?k] show ?thesis by (simp add: parse_value_def Let_def)
    qed
  next
    case False
    show ?thesis
    proof (cases "doc ! ?i = 91")
      case True
      show ?thesis
      proof (cases "char_at doc ?k 93")
        case True
        with \<open>doc ! ?i = 91\<close> assms i le no_elements show ?thesis by (auto simp: parse_value_def Let_def)
      next
        case False
        with \<open>doc ! ?i = 91\<close> assms i le elements [of ?k] show ?thesis by (simp add: parse_value_def Let_def)
      qed
    next
      case False
      with \<open>doc ! ?i \<noteq> 123\<close> assms i le scalar [of ?i] show ?thesis by (auto simp: parse_value_def Let_def bind_r_Inr_iff)
    qed
  qed
qed

lemma parse_object_cases:
  assumes "parse_object d doc self i path members = Some (Inr (v, e, spans))"
  obtains key e1 k w e2 spans1 where "raw_decode d doc i = Inr (JStr key, e1)" "key \<notin> fst ` set members" "e1 < Suc k"
    "self (Value (Suc k) (path @ [Key key])) = Some (Inr (w, e2, spans1))"
    "parse_more doc self 125 (JObj (members @ [(key, w)])) (\<lambda>m. Members m path (members @ [(key, w)])) e2 spans1 = Some (Inr (v, e, spans))"
proof -
  from assms obtain name e1 where d: "raw_decode d doc i = Inr (name, e1)"
    by (auto simp: parse_object_def Let_def split: sum.splits)
  with assms have n: "is_jstr name" "jstr_val name \<notin> fst ` set members"
    by (auto simp: parse_object_def Let_def split: if_splits)
  then obtain key where key: "name = JStr key" by (cases name) auto
  with assms d obtain w e2 spans1 where
    "self (Value (Suc (skip_space doc e1)) (path @ [Key key])) = Some (Inr (w, e2, spans1))"
    "parse_more doc self 125 (JObj (members @ [(key, w)])) (\<lambda>m. Members m path (members @ [(key, w)])) e2 spans1 = Some (Inr (v, e, spans))"
    by (auto simp: parse_object_def Let_def then_parse_Some_Inr split: if_splits)
  with that [of key e1 "skip_space doc e1"] d n key skip_space_le [of e1 doc] show ?thesis by simp
qed

lemma parse_array_cases:
  assumes "parse_array doc self i path elements = Some (Inr (v, e, spans))"
  obtains w e1 spans1 where "self (Value i (path @ [Index (length elements)])) = Some (Inr (w, e1, spans1))"
    "parse_more doc self 93 (JList (elements @ [w])) (\<lambda>m. Elements m path (elements @ [w])) e1 spans1 = Some (Inr (v, e, spans))"
  using assms by (auto simp: parse_array_def then_parse_Some_Inr)

lemma parse_task_tidy:
  assumes "tidy_parser doc self"
  shows "tidy_parser doc (parse_task d doc self)"
  unfolding tidy_parser_def
proof (intro allI impI)
  fix t v e spans
  assume run: "parse_task d doc self t = Some (Inr (v, e, spans))"
  have known: "self u = Some (Inr r) \<Longrightarrow> tidy doc (task_start u) (snd (snd r)) (fst (snd r))" for u r
    using assms unfolding tidy_parser_def by (metis prod.collapse)
  show "tidy doc (task_start t) spans e"
  proof (cases t)
    case (Value i path)
    with run have "parse_value d doc self i path = Some (Inr (v, e, spans))" by (simp add: parse_task_def)
    then show ?thesis
    proof (cases rule: parse_value_cases)
      case (scalar k)
      then show ?thesis using raw_decode_Inr [OF scalar(2)] by (simp add: Value)
    next
      case (members k)
      then show ?thesis using known [OF members(2)] tidy_start [of i k doc spans e] by (simp add: Value)
    next
      case (elements k)
      then show ?thesis using known [OF elements(2)] tidy_start [of i k doc spans e] by (simp add: Value)
    qed (simp_all add: Value)
  next
    case (Members i path members)
    with run have "parse_object d doc self i path members = Some (Inr (v, e, spans))" by (simp add: parse_task_def)
    then show ?thesis
    proof (cases rule: parse_object_cases)
      case (1 key e1 k w e2 spans1)
      have "tidy doc i spans1 e2"
        using known [OF 1(4)] raw_decode_Inr [OF 1(1)] 1(3) tidy_start [of i "Suc k" doc spans1 e2] by simp
      with parse_more_tidy [OF assms 1(5)] show ?thesis by (simp add: Members)
    qed
  next
    case (Elements i path elements)
    with run have "parse_array doc self i path elements = Some (Inr (v, e, spans))" by (simp add: parse_task_def)
    then show ?thesis
    proof (cases rule: parse_array_cases)
      case (1 w e1 spans1)
      with parse_more_tidy [OF assms 1(2)] known [OF 1(1)] show ?thesis by (simp add: Elements)
    qed
  qed
qed

lemma parse_tidy: "tidy_parser doc (parse d doc n)"
proof (induction n)
  case (Suc n)
  from parse_task_tidy [OF Suc] show ?case by (simp add: tidy_parser_def)
qed (simp add: tidy_parser_def)

text \<open>A span is where the value of its path stands: it is what the decoder reads there.\<close>

definition recorded :: "decoder \<Rightarrow> pystr \<Rightarrow> json_path \<Rightarrow> json \<Rightarrow> span \<Rightarrow> bool" where
  "recorded d doc path v sp \<longleftrightarrow>
     (\<exists>q w. fst sp = path @ q \<and> get_path v q = Inr w \<and> raw_decode d doc (fst (snd sp)) = Inr (w, snd (snd sp)))"

fun task_path :: "task \<Rightarrow> json_path" where
  "task_path (Value i path) = path"
| "task_path (Members i path members) = path"
| "task_path (Elements i path elements) = path"

text \<open>The result extends what a task holds already.\<close>

fun extends :: "task \<Rightarrow> json \<Rightarrow> bool" where
  "extends (Value i path) v = True"
| "extends (Members i path members) v = (\<exists>r. v = JObj (members @ r))"
| "extends (Elements i path elements) v = (\<exists>r. v = JList (elements @ r))"

definition exact_parser :: "decoder \<Rightarrow> pystr \<Rightarrow> (task \<Rightarrow> parsed) \<Rightarrow> bool" where
  "exact_parser d doc self \<longleftrightarrow>
     (\<forall>t v e spans. self t = Some (Inr (v, e, spans))
        \<longrightarrow> list_all (recorded d doc (task_path t) v) spans \<and> extends t v)"

lemma recorded_step:
  "recorded d doc (path @ [k]) w sp \<Longrightarrow> get_step v k = Some w \<Longrightarrow> recorded d doc path v sp"
  unfolding recorded_def by (elim exE conjE, rule exI, rule exI) (auto intro: conjI)

lemma parse_more_exact:
  assumes "exact_parser d doc self" and "parse_more doc self close whole rest e spans = Some (Inr (v, e', spans'))"
    and "\<And>m. task_path (rest m) = path" and "\<And>m v. extends (rest m) v \<Longrightarrow> extends t v" and "extends t whole"
    and "\<And>v. extends t v \<Longrightarrow> list_all (recorded d doc path v) spans"
  shows "list_all (recorded d doc path v) spans' \<and> extends t v"
proof (cases "spans' = spans \<and> v = whole")
  case True
  with assms(5,6) show ?thesis by simp
next
  case False
  with assms(2) obtain more_spans where
    m: "self (rest (skip_space doc (Suc (skip_space doc e)))) = Some (Inr (v, e', more_spans))" "spans' = spans @ more_spans"
    by (auto simp: parse_more_def Let_def then_parse_Some_Inr split: if_splits)
  with assms(1,3) have "list_all (recorded d doc path v) more_spans" "extends (rest (skip_space doc (Suc (skip_space doc e)))) v"
    unfolding exact_parser_def by metis+
  with assms(4,6) m(2) show ?thesis by auto
qed

lemma parse_task_exact:
  assumes "exact_parser d doc self"
  shows "exact_parser d doc (parse_task d doc self)"
  unfolding exact_parser_def
proof (intro allI impI)
  fix t v e spans
  assume run: "parse_task d doc self t = Some (Inr (v, e, spans))"
  have known: "self u = Some (Inr (v, e, spans)) \<Longrightarrow> list_all (recorded d doc (task_path u) v) spans" for u v e spans
    using assms unfolding exact_parser_def by blast
  show "list_all (recorded d doc (task_path t) v) spans \<and> extends t v"
  proof (cases t)
    case (Value i path)
    with run have "parse_value d doc self i path = Some (Inr (v, e, spans))" by (simp add: parse_task_def)
    then show ?thesis
    proof (cases rule: parse_value_cases)
      case (scalar k)
      then show ?thesis by (auto simp: Value recorded_def intro: exI [of _ "[]"])
    next
      case (members k)
      then show ?thesis using known [OF members(2)] by (simp add: Value)
    next
      case (elements k)
      then show ?thesis using known [OF elements(2)] by (simp add: Value)
    qed (simp_all add: Value)
  next
    case (Members i path members)
    with run have "parse_object d doc self i path members = Some (Inr (v, e, spans))" by (simp add: parse_task_def)
    then show ?thesis
    proof (cases rule: parse_object_cases)
      case (1 key e1 k w e2 spans1)
      let ?t = "Members 0 path (members @ [(key, w)])"
      have "list_all (recorded d doc path u) spans1" if "extends ?t u" for u
      proof -
        have "map_of members key = None" using 1(2) by (simp add: map_of_eq_None_iff)
        then have "get_step u (Key key) = Some w" using that by (auto simp: map_add_def)
        with known [OF 1(4)] recorded_step [of d doc path "Key key" w] show ?thesis by (simp add: list_all_iff)
      qed
      then have "list_all (recorded d doc path v) spans \<and> extends ?t v"
        by (intro parse_more_exact [OF assms 1(5)]) auto
      then show ?thesis by (auto simp: Members)
    qed
  next
    case (Elements i path elements)
    with run have "parse_array doc self i path elements = Some (Inr (v, e, spans))" by (simp add: parse_task_def)
    then show ?thesis
    proof (cases rule: parse_array_cases)
      case (1 w e1 spans1)
      let ?t = "Elements 0 path (elements @ [w])"
      have "list_all (recorded d doc path u) spans1" if "extends ?t u" for u
      proof -
        have "get_step u (Index (length elements)) = Some w" using that by (auto simp: nth_append)
        with known [OF 1(1)] recorded_step [of d doc path "Index (length elements)" w] show ?thesis by (simp add: list_all_iff)
      qed
      then have "list_all (recorded d doc path v) spans \<and> extends ?t v"
        by (intro parse_more_exact [OF assms 1(2)]) auto
      then show ?thesis by (auto simp: Elements)
    qed
  qed
qed

lemma parse_exact: "exact_parser d doc (parse d doc n)"
proof (induction n)
  case (Suc n)
  from parse_task_exact [OF Suc] show ?case by (simp add: exact_parser_def)
qed (simp add: exact_parser_def)

section \<open>The edited text\<close>

text \<open>The reference: one pass over the text that copies everything between the edits.\<close>

fun splice :: "nat \<Rightarrow> pystr \<Rightarrow> edit list \<Rightarrow> pystr" where
  "splice pos doc [] = drop pos doc"
| "splice pos doc ((s, t, token) # es) = drop pos (take s doc) @ token @ splice t doc es"

fun chain :: "pystr \<Rightarrow> nat \<Rightarrow> edit list \<Rightarrow> bool" where
  "chain doc pos [] = True"
| "chain doc pos ((s, t, token) # es) = (pos \<le> s \<and> s < t \<and> s < length doc \<and> chain doc t es)"

lemma replace_chain:
  assumes "chain doc pos es"
  shows "foldr (\<lambda>e d. replace_at d e) es doc = take pos doc @ splice pos doc es"
  using assms
proof (induction doc pos es rule: chain.induct)
  case (2 doc pos s t token es)
  let ?later = "foldr (\<lambda>e d. replace_at d e) es doc"
  from 2 have later: "?later = take t doc @ splice t doc es" by simp
  have c: "pos \<le> s" "s < t" "s < length doc" using "2.prems" by simp_all
  have "take s ?later = take s doc" using later c by (simp add: take_append min_absorb1)
  moreover have "drop t ?later = splice t doc es"
  proof (cases "t \<le> length doc")
    case False
    then have "es = []" using "2.prems" by (cases es) auto
    with later show ?thesis by simp
  qed (simp add: later)
  moreover have "take s doc = take pos doc @ drop pos (take s doc)"
    using append_take_drop_id [of pos "take s doc"] c by (simp add: min_absorb1)
  ultimately show ?case by (simp add: replace_at_def)
qed simp

lemma apply_chain:
  assumes "chain doc 0 (sort_key fst edits)"
  shows "apply_edits doc edits = splice 0 doc (sort_key fst edits)"
  using replace_chain [OF assms] by (simp add: apply_edits_def foldr_conv_fold)

lemma tidy_disjoint:
  assumes "tidy doc i spans e" "(p, s, t) \<in> set spans" "(p', s', t') \<in> set spans" "p \<noteq> p'"
  shows "t \<le> s' \<or> t' \<le> s"
  using assms
proof (induction doc i spans e rule: tidy.induct)
  case (2 doc i path a b r e)
  have after: "b \<le> x" if "(q, x, y) \<in> set r" for q x y
    using that "2.prems"(1) by (auto dest: tidy_after)
  with 2 show ?case by auto
qed simp

text \<open>An edit of an owned field that differs: the token of its value is replaced by the token of the new one.\<close>

definition owned_edit :: "decoder \<Rightarrow> pystr \<Rightarrow> json \<Rightarrow> json \<Rightarrow> json_path list \<Rightarrow> edit \<Rightarrow> bool" where
  "owned_edit d doc data v paths e \<longleftrightarrow>
     (\<exists>path\<in>set paths. \<exists>old new. get_path data path = Inr old \<and> scalar v old = Inr new \<and> old \<noteq> new
        \<and> raw_decode d doc (fst e) = Inr (old, fst (snd e)) \<and> snd (snd e) = scalar_token new)"

lemma json_document_sound:
  assumes "json_document d raw = Inr (doc, data, spans)"
  shows "utf8_decode raw = Inr doc \<and> (\<exists>e. tidy doc 0 spans e) \<and> list_all (recorded d doc [] data) spans"
proof -
  from assms obtain e where doc: "utf8_decode raw = Inr doc"
    and run: "parse d doc (parse_fuel doc) (Value 0 []) = Some (Inr (data, e, spans))"
    by (auto simp: json_document_def bind_r_Inr_iff guard_r_Inr_iff split: option.splits)
  from run parse_tidy [of doc d "parse_fuel doc"] have "tidy doc 0 spans e"
    unfolding tidy_parser_def by fastforce
  moreover from run parse_exact [of d doc "parse_fuel doc"] have "list_all (recorded d doc [] data) spans"
    unfolding exact_parser_def by fastforce
  ultimately show ?thesis using doc by blast
qed

lemma npm_fields_few:
  assumes "npm_fields data declaration = Inr paths"
  shows "(\<exists>p. paths = [p]) \<or> (\<exists>p q. paths = [p, q] \<and> p \<noteq> q)"
proof (cases data)
  case (JObj members)
  show ?thesis
  proof (cases "has_key members ''packages''")
    case True
    with assms obtain own where
      "(case own of JObj own_members \<Rightarrow>
          vreq (json_eq (dict_get own_members (lit ''name'') (jget members ''name'')) (jget declaration ''package''))
            ''npm lock root package identity mismatch''
            (Inr [[Key (lit ''version'')], [Key (lit ''packages''), Key [], Key (lit ''version'')]])
        | _ \<Rightarrow> Inl (VersionError ''npm lock root package identity mismatch'')) = Inr paths"
      unfolding npm_fields_def JObj json.case guard_r_Inr_iff by (simp add: bind_r_Inr_iff) blast
    then show ?thesis by (cases own) (auto simp: guard_r_Inr_iff)
  next
    case False
    with assms show ?thesis unfolding npm_fields_def JObj json.case guard_r_Inr_iff by auto
  qed
qed (use assms in \<open>simp_all add: npm_fields_def\<close>)

lemma json_fields_few:
  assumes "json_fields data declaration = Inr paths"
  shows "(\<exists>p. paths = [p]) \<or> (\<exists>p q. paths = [p, q] \<and> p \<noteq> q)"
proof (cases "jget declaration ''format'' = JStr (lit ''npm-lock'')")
  case True
  with assms npm_fields_few show ?thesis by (simp add: json_fields_def)
next
  case False
  with assms obtain names where
    "(if \<not> has_key declaration ''package'' then Inr [map Key names]
      else (case data of
              JObj members \<Rightarrow>
                vreq (json_eq (jget members ''name'') (jget declaration ''package''))
                  ''JSON manifest does not own the selected package'' (Inr [map Key names])
            | _ \<Rightarrow> Inl (VersionError ''JSON manifest does not own the selected package''))) = Inr paths"
    unfolding json_fields_def by (simp add: bind_r_Inr_iff) blast
  then show ?thesis by (cases data) (auto simp: guard_r_Inr_iff split: if_splits)
qed

lemma field_edit_sound:
  assumes "field_edit data spans v path = Inr (es, old)" and "list_all (recorded d doc [] data) spans"
  shows "get_path data path = Inr old
    \<and> (\<exists>s t new. (path, s, t) \<in> set spans \<and> scalar v old = Inr new \<and> raw_decode d doc s = Inr (old, t)
        \<and> es = (if old = new then [] else [(s, t, scalar_token new)]))"
proof -
  from assms(1) obtain s t new where f: "get_path data path = Inr old" "map_of spans path = Some (s, t)" "scalar v old = Inr new"
    "es = (if old = new then [] else [(s, t, scalar_token new)])"
    by (auto simp: field_edit_def bind_r_Inr_iff split: option.splits)
  from f(2) have m: "(path, s, t) \<in> set spans" by (rule map_of_SomeD)
  with assms(2) f(1) have "raw_decode d doc s = Inr (old, t)" by (force simp: list_all_iff recorded_def)
  with f m show ?thesis by blast
qed

lemma edits_of_fields:
  assumes "map_r (field_edit data spans v) paths = Inr rows" and "list_all (recorded d doc [] data) spans"
    and "tidy doc 0 spans e" and "(\<exists>p. paths = [p]) \<or> (\<exists>p q. paths = [p, q] \<and> p \<noteq> q)"
  shows "chain doc 0 (sort_key fst (concat (map fst rows)))
    \<and> list_all (owned_edit d doc data v paths) (concat (map fst rows))
    \<and> map_r (get_path data) paths = Inr (map snd rows)
    \<and> length (concat (map fst rows)) = length (filter (\<lambda>old. scalar v old \<noteq> Inr old) (map snd rows))"
  using assms(4)
proof (elim disjE exE conjE)
  fix p
  assume p: "paths = [p]"
  with assms(1) obtain es old where r: "rows = [(es, old)]" "field_edit data spans v p = Inr (es, old)"
    by (auto simp: bind_r_Inr_iff)
  from field_edit_sound [OF r(2) assms(2)] tidy_after [OF assms(3)] show ?thesis
    by (auto simp: p r owned_edit_def)
next
  fix p q
  assume p: "paths = [p, q]" "p \<noteq> q"
  with assms(1) obtain es old es' old' where r: "rows = [(es, old), (es', old')]"
    "field_edit data spans v p = Inr (es, old)" "field_edit data spans v q = Inr (es', old')"
    by (auto simp: bind_r_Inr_iff)
  from field_edit_sound [OF r(2) assms(2)] obtain s t new where
    a: "get_path data p = Inr old" "(p, s, t) \<in> set spans" "scalar v old = Inr new" "raw_decode d doc s = Inr (old, t)"
      "es = (if old = new then [] else [(s, t, scalar_token new)])" by blast
  from field_edit_sound [OF r(3) assms(2)] obtain s' t' new' where
    b: "get_path data q = Inr old'" "(q, s', t') \<in> set spans" "scalar v old' = Inr new'" "raw_decode d doc s' = Inr (old', t')"
      "es' = (if old' = new' then [] else [(s', t', scalar_token new')])" by blast
  from tidy_after [OF assms(3) a(2)] tidy_after [OF assms(3) b(2)] tidy_disjoint [OF assms(3) a(2) b(2) p(2)]
  have "chain doc 0 (sort_key fst (es @ es'))" using a(5) b(5) by auto
  with a b show ?thesis by (auto simp: p r owned_edit_def)
qed


definition sample_decoder :: decoder where
  "sample_decoder s =
     (case s of
        [] \<Rightarrow> Inl (ValueError ''Expecting value'')
      | c # r \<Rightarrow>
          if c = 34 then (let w = takeWhile (\<lambda>x. x \<noteq> 34) r in Inr (JStr w, Suc (length w)))
          else Inl (ValueError ''Expecting value''))"

definition sample_file :: "pystr \<Rightarrow> bytes" where
  "sample_file version_text = [123, 34, 118, 34, 58, 32, 34] @ version_text @ [34, 125, 10]"

definition sample_selector :: json_dict where
  "sample_selector = [(lit ''format'', JStr (lit ''json'')), (lit ''field'', JStr (lit ''v''))]"

lemma sample_edit:
  "json_edit sample_decoder (sample_file [49]) sample_selector (JStr [50]) = Inr (sample_file [50], [JStr [49]])"
  by code_simp


end
