(* ===== verification/Source_Edit.thy ===== *)
theory Source_Edit
  imports Json_Edit Version_Receipt
begin

text \<open>
  The editors of Python, property list and Xcode project files in \<open>scripts/version_plan.py\<close>. Python's own parsers
  (\<open>ast\<close>, \<open>plistlib\<close>, \<open>tomllib\<close>), \<open>repr\<close> and its tables of letters and digits are the fields of the record
  \<open>editors\<close>. The regular expressions of the Xcode editor are deterministic: a run of blanks or digits is followed by
  a character of another kind, so each is written as a scan that returns where the match ends.
\<close>

section \<open>Python's own parsers\<close>

datatype assign_target = NameTarget pystr | OtherTarget

record literal =
  li_value :: json
  li_line :: nat
  li_col :: nat
  li_end_line :: nat
  li_end_col :: nat

text \<open>A value that is not a literal is \<open>None\<close>; of the other statements only their absence matters.\<close>

datatype statement =
    Assign "assign_target list" "literal option"
  | AnnAssign assign_target "literal option"
  | OtherStatement

record editors =
  ed_decode :: decoder
  ed_toml :: "pystr \<Rightarrow> json result"
  ed_digit :: "nat \<Rightarrow> bool"
  ed_word :: "nat \<Rightarrow> bool"
  ed_identifier :: "pystr \<Rightarrow> bool"
  ed_parse :: "pystr \<Rightarrow> statement list result"
  ed_compiles :: "bytes \<Rightarrow> unit result"
  ed_repr :: "json \<Rightarrow> pystr"
  ed_plist :: "bytes \<Rightarrow> json result"
  ed_plist_dumps :: "bool \<Rightarrow> json \<Rightarrow> bytes"

definition occurs_at :: "pystr \<Rightarrow> nat \<Rightarrow> pystr \<Rightarrow> bool" where
  "occurs_at line i s \<longleftrightarrow> take (length s) (drop i line) = s"

section \<open>Python files\<close>

fun stmt_targets :: "statement \<Rightarrow> assign_target list" where
  "stmt_targets (Assign targets v) = targets"
| "stmt_targets (AnnAssign t v) = [t]"
| "stmt_targets OtherStatement = []"

fun stmt_value :: "statement \<Rightarrow> literal option" where
  "stmt_value (Assign targets v) = v"
| "stmt_value (AnnAssign t v) = v"
| "stmt_value OtherStatement = None"

fun constant_matches :: "pystr \<Rightarrow> statement list \<Rightarrow> literal list result" where
  "constant_matches name [] = Inr []"
| "constant_matches name (st # rest) =
     (if NameTarget name \<notin> set (stmt_targets st) then constant_matches name rest
      else vreq (length (stmt_targets st) = 1 \<and> stmt_value st \<noteq> None)
             ''Version constant must be an unshared literal assignment''
             (bind_r (constant_matches name rest) (\<lambda>ls. Inr (the (stmt_value st) # ls))))"

text \<open>\<open>bytes.splitlines(keepends=True)\<close>: the bytes end a line at a line feed, a carriage return, or both.\<close>

fun byte_lines :: "bytes \<Rightarrow> bytes list" where
  "byte_lines [] = []"
| "byte_lines [b] = [[b]]"
| "byte_lines (b # c # r) =
     (if b = 13 \<and> c = 10 then [b, c] # byte_lines r
      else if b \<in> {10, 13} then [b] # byte_lines (c # r)
      else (case byte_lines (c # r) of [] \<Rightarrow> [[b]] | l # ls \<Rightarrow> (b # l) # ls))"

definition line_offset :: "bytes \<Rightarrow> nat \<Rightarrow> nat" where
  "line_offset raw n = sum_list (map length (take (n - 1) (byte_lines raw)))"

definition python_edit :: "editors \<Rightarrow> bytes \<Rightarrow> json_dict \<Rightarrow> json \<Rightarrow> (bytes \<times> json list) result" where
  "python_edit ed raw declaration v =
     bind_r (py_getitem (JObj declaration) (lit ''field'')) (\<lambda>f.
     let name = jstr_val f
     in vreq (is_jstr f \<and> ed_identifier ed name) ''Python selector must be a module-level constant name''
       (bind_r (utf8_decode raw) (\<lambda>doc.
        bind_r (ed_parse ed doc) (\<lambda>body.
        bind_r (constant_matches name body) (\<lambda>matches.
        vreq (length matches = 1) ''Python selector must identify exactly one module-level constant''
       (let l = hd matches; old = li_value l
        in bind_r (scalar v old) (\<lambda>new.
           if new = old then Inr (raw, [old])
           else let start = line_offset raw (li_line l) + li_col l;
                    stop = line_offset raw (li_end_line l) + li_end_col l;
                    token = (if is_jstr new \<and> take 1 (take (stop - start) (drop start raw)) = [34]
                             then plain_string (jstr_val new) else ed_repr ed new)
                in bind_r (utf8_encode token) (\<lambda>literal.
                   let out = take start raw @ literal @ drop stop raw
                   in bind_r (ed_compiles ed out) (\<lambda>_. Inr (out, [old]))))))))))"

section \<open>Property lists\<close>

text \<open>\<open>[1-9]\d{0,3}(?:\.\d{1,2}){0,2}\<close>.\<close>

definition apple_number :: "(nat \<Rightarrow> bool) \<Rightarrow> pystr \<Rightarrow> bool" where
  "apple_number digit s \<longleftrightarrow>
     (case split_on 46 s of
        [] \<Rightarrow> False
      | major # rest \<Rightarrow>
          length rest \<le> 2 \<and> list_all (\<lambda>p. length p \<in> {1, 2} \<and> list_all digit p) rest
          \<and> (case major of [] \<Rightarrow> False
             | c # ds \<Rightarrow> 49 \<le> c \<and> c \<le> 57 \<and> length ds \<le> 3 \<and> list_all digit ds))"

fun set_path :: "json \<Rightarrow> pystr list \<Rightarrow> json \<Rightarrow> json" where
  "set_path (JObj d) (k # ks) v =
     JObj (AList.update k (if ks = [] then v else set_path (dict_get d k JNull) ks v) d)"
| "set_path w ks v = w"

definition plist_edit :: "editors \<Rightarrow> bytes \<Rightarrow> json_dict \<Rightarrow> json \<Rightarrow> (bytes \<times> json list) result" where
  "plist_edit ed raw declaration v =
     bind_r (py_getitem (JObj declaration) (lit ''field'')) (\<lambda>f.
     bind_r (field f) (\<lambda>names.
     bind_r (ed_plist ed raw) (\<lambda>data.
     bind_r (get_path data (map Key names)) (\<lambda>old.
     bind_r (get_path data (map Key (butlast names))) (\<lambda>parent.
     vreq (is_obj parent) ''Plist version parent must be a dictionary''
    (bind_r (scalar v old) (\<lambda>new.
     vreq (last names = lit ''CFBundleShortVersionString'' \<longrightarrow> is_jstr new \<and> BASE (jstr_val new))
       ''Apple marketing version requires numeric X.Y.Z''
    (vreq (last names = lit ''CFBundleVersion'' \<longrightarrow> is_jstr new \<and> apple_number (ed_digit ed) (jstr_val new))
       ''Apple bundle version exceeds numeric component limits''
    (if old = new then Inr (raw, [old])
     else Inr (ed_plist_dumps ed (take 6 raw = lit ''bplist'') (set_path data names new), [old]))))))))))"

section \<open>Xcode projects\<close>

text \<open>A run of blanks, and a word at an offset: where they end.\<close>

definition skip_sp :: "pystr \<Rightarrow> nat \<Rightarrow> nat" where
  "skip_sp doc i = i + length (takeWhile is_space (drop i doc))"

definition word_end :: "pystr \<Rightarrow> pystr \<Rightarrow> nat \<Rightarrow> nat option" where
  "word_end doc w i = (if occurs_at doc i w then Some (i + length w) else None)"

definition then_end :: "nat option \<Rightarrow> (nat \<Rightarrow> nat option) \<Rightarrow> nat option" where
  "then_end m f = (case m of None \<Rightarrow> None | Some i \<Rightarrow> f i)"

definition line_start :: "pystr \<Rightarrow> nat \<Rightarrow> bool" where
  "line_start doc i \<longleftrightarrow> i = 0 \<or> char_at doc (i - 1) 10"

text \<open>\<open>\s*=\s*\{\<close>.\<close>

definition assigned_brace :: "pystr \<Rightarrow> nat \<Rightarrow> nat option" where
  "assigned_brace doc i =
     then_end (word_end doc [61] (skip_sp doc i)) (\<lambda>j. word_end doc [123] (skip_sp doc j))"

text \<open>The comment ends at the first closing mark on its line behind which the rest matches.\<close>

function comment_then_brace :: "pystr \<Rightarrow> nat \<Rightarrow> nat option" where
  "comment_then_brace doc p =
     (if length doc \<le> p then None
      else if occurs_at doc p [42, 47] \<and> assigned_brace doc (p + 2) \<noteq> None then assigned_brace doc (p + 2)
      else if doc ! p = 10 then None
      else comment_then_brace doc (p + 1))"
  by pat_completeness auto

termination by (relation "measure (\<lambda>(doc, p). length doc - p)") auto

text \<open>\<open>^\s*OWNER(?:\s*/\*[^\n]*?\*/)?\s*=\s*\{\<close> at a line start.\<close>

definition owner_end :: "pystr \<Rightarrow> pystr \<Rightarrow> nat \<Rightarrow> nat option" where
  "owner_end doc owner i =
     (if \<not> line_start doc i then None
      else then_end (word_end doc owner (skip_sp doc i)) (\<lambda>j.
           let k = skip_sp doc j
           in if occurs_at doc k [47, 42] then comment_then_brace doc (k + 2) else assigned_brace doc j))"

text \<open>\<open>re.finditer\<close>: the matches from the left, each search from the end of the one before.\<close>

function all_matches :: "(nat \<Rightarrow> nat option) \<Rightarrow> nat \<Rightarrow> nat \<Rightarrow> (nat \<times> nat) list" where
  "all_matches f n i =
     (if n < i then []
      else case f i of
             Some e \<Rightarrow> (i, e) # all_matches f n (max (i + 1) e)
           | None \<Rightarrow> all_matches f n (i + 1))"
  by pat_completeness auto

termination by (relation "measure (\<lambda>(f, n, i). Suc n - i)") auto

text \<open>The tokens that the search for the closing brace knows: strings, comments and braces.\<close>

fun quoted_length :: "pystr \<Rightarrow> nat option" where
  "quoted_length [] = None"
| "quoted_length (c # s) =
     (if c = 34 then Some 1
      else if c = 92 then (case s of [] \<Rightarrow> None | d # r \<Rightarrow> map_option (\<lambda>n. n + 2) (quoted_length r))
      else map_option Suc (quoted_length s))"

fun block_comment_length :: "pystr \<Rightarrow> nat option" where
  "block_comment_length (c # d # s) =
     (if c = 42 \<and> d = 47 then Some 2 else map_option Suc (block_comment_length (d # s)))"
| "block_comment_length _ = None"

definition pbx_token :: "pystr \<Rightarrow> nat \<Rightarrow> nat option" where
  "pbx_token doc i =
     (if char_at doc i 34 then map_option (\<lambda>n. i + 1 + n) (quoted_length (drop (i + 1) doc))
      else if occurs_at doc i [47, 42] then map_option (\<lambda>n. i + 2 + n) (block_comment_length (drop (i + 2) doc))
      else if occurs_at doc i [47, 47] then Some (i + length (takeWhile (\<lambda>c. c \<noteq> 10) (drop i doc)))
      else if char_at doc i 123 \<or> char_at doc i 125 then Some (i + 1)
      else None)"

text \<open>The end of the block whose opening brace is the first token.\<close>

fun closing_brace :: "pystr \<Rightarrow> int \<Rightarrow> (nat \<times> nat) list \<Rightarrow> nat option" where
  "closing_brace doc depth [] = None"
| "closing_brace doc depth ((i, e) # tokens) =
     (if take (e - i) (drop i doc) = [123] then closing_brace doc (depth + 1) tokens
      else if take (e - i) (drop i doc) = [125]
      then (if depth - 1 = 0 then Some e else closing_brace doc (depth - 1) tokens)
      else closing_brace doc depth tokens)"

text \<open>\<open>\bisa\s*=\s*XCBuildConfiguration\s*;\<close>.\<close>

definition isa_at :: "(nat \<Rightarrow> bool) \<Rightarrow> pystr \<Rightarrow> nat \<Rightarrow> nat option" where
  "isa_at word block i =
     (if i \<noteq> 0 \<and> word (block ! (i - 1)) then None
      else then_end (word_end block (lit ''isa'') i) (\<lambda>j.
           then_end (word_end block [61] (skip_sp block j)) (\<lambda>k.
           then_end (word_end block (lit ''XCBuildConfiguration'') (skip_sp block k)) (\<lambda>l.
             word_end block [59] (skip_sp block l)))))"

text \<open>
  \<open>^(\s*FIELD\s*=\s*)(\"?[0-9.]+\"?)(\s*;)\<close>: where the value starts and ends.
\<close>

definition value_span :: "pystr \<Rightarrow> pystr \<Rightarrow> nat \<Rightarrow> (nat \<times> nat \<times> nat) option" where
  "value_span block name i =
     (if \<not> line_start block i then None
      else case then_end (word_end block name (skip_sp block i)) (\<lambda>j. word_end block [61] (skip_sp block j)) of
             None \<Rightarrow> None
           | Some k \<Rightarrow>
               let start = skip_sp block k;
                   a = (if char_at block start 34 then start + 1 else start);
                   b = a + length (takeWhile (\<lambda>c. 48 \<le> c \<and> c \<le> 57 \<or> c = 46) (drop a block));
                   stop = (if char_at block b 34 then b + 1 else b)
               in if a = b then None
                  else map_option (\<lambda>e. (start, stop, e)) (word_end block [59] (skip_sp block stop)))"

definition value_end :: "pystr \<Rightarrow> pystr \<Rightarrow> nat \<Rightarrow> nat option" where
  "value_end block name i = map_option (\<lambda>(_, _, e). e) (value_span block name i)"

definition hex_id :: "pystr \<Rightarrow> bool" where
  "hex_id s \<longleftrightarrow> length s = 24 \<and> list_all (\<lambda>c. 48 \<le> c \<and> c \<le> 57 \<or> 65 \<le> c \<and> c \<le> 70 \<or> 97 \<le> c \<and> c \<le> 102) s"

definition strip_quotes :: "pystr \<Rightarrow> pystr" where
  "strip_quotes s = rev (dropWhile (\<lambda>c. c = 34) (rev (dropWhile (\<lambda>c. c = 34) s)))"

text \<open>The block of the configuration: its offsets in the text.\<close>

definition pbx_block :: "editors \<Rightarrow> pystr \<Rightarrow> pystr \<Rightarrow> (nat \<times> nat) result" where
  "pbx_block ed doc owner =
     (let starts = all_matches (owner_end doc owner) (length doc) 0
      in vreq (length starts = 1) ''PBX owner UUID must identify one configuration''
          (let start = snd (hd starts) - 1
           in case closing_brace doc 0 (all_matches (pbx_token doc) (length doc) start) of
                None \<Rightarrow> Inl (VersionError ''Unterminated PBX configuration'')
              | Some e \<Rightarrow>
                  let block = take (e - start) (drop start doc)
                  in vreq (list_ex (\<lambda>i. isa_at (ed_word ed) block i \<noteq> None) [0..<length block])
                       ''PBX owner is not a build configuration'' (Inr (start, e))))"

definition pbx_value :: "pystr \<Rightarrow> pystr \<Rightarrow> (nat \<times> nat) result" where
  "pbx_value block name =
     (let matches = all_matches (value_end block name) (length block) 0
      in vreq (length matches = 1) ''PBX field must have one numeric assignment in selected configuration''
          (case value_span block name (fst (hd matches)) of
             Some (start, stop, _) \<Rightarrow> Inr (start, stop)
           | None \<Rightarrow> Inl (VersionError ''PBX field must have one numeric assignment in selected configuration'')))"

definition pbx_edit :: "editors \<Rightarrow> bytes \<Rightarrow> json_dict \<Rightarrow> json \<Rightarrow> (bytes \<times> json list) result" where
  "pbx_edit ed raw declaration v =
     bind_r (utf8_decode raw) (\<lambda>doc.
     bind_r (py_getitem (JObj declaration) (lit ''package'')) (\<lambda>own.
     case own of
       JStr owner \<Rightarrow>
         vreq (hex_id owner) ''PBX selector requires an exact configuration UUID''
        (bind_r (py_getitem (JObj declaration) (lit ''field'')) (\<lambda>f.
         bind_r (in_strings f [''MARKETING_VERSION'', ''CURRENT_PROJECT_VERSION'']) (\<lambda>known.
         vreq known ''Unsupported PBX numeric version field''
        (bind_r (pbx_block ed doc owner) (\<lambda>(start, e).
         let block = take (e - start) (drop start doc)
         in bind_r (pbx_value block (jstr_val f)) (\<lambda>(a, b).
            let new = py_str v; token = take (b - a) (drop a block)
            in vreq (if f = JStr (lit ''MARKETING_VERSION'') then BASE new else apple_number (ed_digit ed) new)
                 ''PBX numeric version is outside platform limits''
              (bind_r (utf8_encode (take (start + a) doc
                         @ (if take 1 token = [34] then [34] @ new @ [34] else new) @ drop (start + b) doc)) (\<lambda>out.
                 Inr (out, [JStr (strip_quotes token)])))))))))
     | _ \<Rightarrow> Inl TypeError))"

end
