(* ===== verification/Version_Edit.thy ===== *)
theory Version_Edit
  imports Source_Edit
begin

text \<open>
  The editing of version files in \<open>scripts/version_plan.py\<close>: the TOML scanner, which finds the one assignment of
  an owned field without reading string contents as syntax, plain text files, and the synchronisation of all
  declared files with a plan. \<open>tomllib.loads\<close>, the JSON decoder and the decimal digits of the interpreter are
  fields of the record \<open>editors\<close>. The file system is read through a \<open>worktree\<close> at each moment the code reads it.
\<close>

section \<open>TOML keys\<close>

fun key_names :: "json \<Rightarrow> pystr list \<times> json" where
  "key_names (JObj [(k, v)]) = (case key_names v of (ks, w) \<Rightarrow> (k # ks, w))"
| "key_names v = ([], v)"

definition toml_key :: "editors \<Rightarrow> pystr \<Rightarrow> json_path result" where
  "toml_key ed key =
     (case ed_toml ed (key @ lit '' = 0'') of
        Inl (ValueError _) \<Rightarrow> Inl (VersionError ''Unsupported TOML key'')
      | Inl e \<Rightarrow> Inl e
      | Inr data \<Rightarrow>
          (case key_names data of (names, v) \<Rightarrow>
             vreq (json_eq v (JInt 0) \<and> names \<noteq> []) ''Unsupported TOML key'' (Inr (map Key names))))"

section \<open>Quotes and nesting\<close>

text \<open>A step inside a string; the empty quote is \<open>None\<close>.\<close>

definition quote_step :: "pystr \<Rightarrow> nat \<Rightarrow> pystr \<Rightarrow> nat \<times> pystr" where
  "quote_step line i q =
     (if take 1 q = [34] \<and> char_at line i 92 then (i + 2, q)
      else if occurs_at line i q then (i + length q, [])
      else (i + 1, q))"

lemma quote_step_later: "q \<noteq> [] \<Longrightarrow> i < fst (quote_step line i q)"
  by (auto simp: quote_step_def)

function lexical_state :: "pystr \<Rightarrow> nat \<Rightarrow> pystr \<Rightarrow> int \<Rightarrow> pystr \<times> int" where
  "lexical_state line i q depth =
     (if length line \<le> i then (q, depth)
      else if q \<noteq> [] then lexical_state line (fst (quote_step line i q)) (snd (quote_step line i q)) depth
      else if line ! i = 35 then (q, depth)
      else if occurs_at line i [34, 34, 34] \<or> occurs_at line i [39, 39, 39]
      then lexical_state line (i + 3) (take 3 (drop i line)) depth
      else if line ! i \<in> {34, 39} then lexical_state line (i + 1) [line ! i] depth
      else lexical_state line (i + 1) []
             (if line ! i \<in> {91, 123} then depth + 1 else if line ! i \<in> {93, 125} then depth - 1 else depth))"
  by pat_completeness auto

termination
  by (relation "measure (\<lambda>(line, i, q, depth). length line - i)")
    (auto simp: quote_step_later diff_less_mono2 case_prod_beta)

text \<open>The unquoted equals sign before any comment.\<close>

function separator_from :: "pystr \<Rightarrow> nat \<Rightarrow> pystr \<Rightarrow> nat option" where
  "separator_from line i q =
     (if length line \<le> i then None
      else if q \<noteq> [] then separator_from line (fst (quote_step line i q)) (snd (quote_step line i q))
      else if line ! i \<in> {34, 39} then separator_from line (i + 1) [line ! i]
      else if line ! i \<in> {35, 13, 10} then None
      else if line ! i = 61 then Some i
      else separator_from line (i + 1) [])"
  by pat_completeness auto

termination
  by (relation "measure (\<lambda>(line, i, q). length line - i)")
    (auto simp: quote_step_later diff_less_mono2 case_prod_beta)

definition assignment_separator :: "pystr \<Rightarrow> nat option" where
  "assignment_separator line = separator_from line 0 []"

section \<open>Table headers\<close>

definition is_comment :: "pystr \<Rightarrow> bool" where
  "is_comment s \<longleftrightarrow> take 1 s = [35]"

text \<open>The number of brackets, and the text of the key.\<close>

definition header_end :: "pystr \<Rightarrow> nat \<Rightarrow> nat \<Rightarrow> (nat \<times> pystr) option result" where
  "header_end line opening i =
     (let closing = (if occurs_at line i [93, 93] then 2 else 1);
          suffix = strip (drop (i + closing) line)
      in if suffix \<noteq> [] \<and> \<not> is_comment suffix then Inr None
         else vreq (opening = closing) ''Malformed TOML table header''
                (Inr (Some (opening, drop opening (take i line)))))"

function header_from :: "pystr \<Rightarrow> nat \<Rightarrow> nat \<Rightarrow> pystr \<Rightarrow> (nat \<times> pystr) option result" where
  "header_from line opening i q =
     (if length line \<le> i then Inr None
      else if q \<noteq> [] then header_from line opening (fst (quote_step line i q)) (snd (quote_step line i q))
      else if line ! i \<in> {34, 39} then header_from line opening (i + 1) [line ! i]
      else if line ! i = 93 then header_end line opening i
      else header_from line opening (i + 1) [])"
  by pat_completeness auto

termination
  by (relation "measure (\<lambda>(line, opening, i, q). length line - i)")
    (auto simp: quote_step_later diff_less_mono2 case_prod_beta)

definition toml_header :: "pystr \<Rightarrow> (nat \<times> pystr) option result" where
  "toml_header s =
     (let line = lstrip s
      in if take 1 line \<noteq> [91] then Inr None
         else let opening = (if take 2 line = [91, 91] then 2 else 1) in header_from line opening opening [])"

section \<open>Assignments\<close>

text \<open>The length of a scalar at the start of a text: a string on one line, or an integer with underscores.\<close>

fun basic_rest :: "pystr \<Rightarrow> nat option" where
  "basic_rest [] = None"
| "basic_rest (c # r) =
     (if c = 34 then Some 1
      else if c = 92 then (case r of [] \<Rightarrow> None | d # r' \<Rightarrow> if d = 10 then None else map_option (\<lambda>n. n + 2) (basic_rest r'))
      else if c \<in> {13, 10} then None
      else map_option Suc (basic_rest r))"

definition literal_rest :: "pystr \<Rightarrow> nat option" where
  "literal_rest s =
     (let body = takeWhile (\<lambda>c. c \<notin> {39, 13, 10}) s
      in if take 1 (drop (length body) s) = [39] then Some (Suc (length body)) else None)"

definition integer_length :: "(nat \<Rightarrow> bool) \<Rightarrow> pystr \<Rightarrow> nat option" where
  "integer_length dig s =
     (let signed = (if take 1 s = [43] \<or> take 1 s = [45] then 1 else 0); digits = drop signed s
      in if digits \<noteq> [] \<and> dig (hd digits)
         then Some (signed + length (takeWhile (\<lambda>c. dig c \<or> c = 95) digits)) else None)"

definition scalar_length :: "(nat \<Rightarrow> bool) \<Rightarrow> pystr \<Rightarrow> nat option" where
  "scalar_length dig s =
     (case s of
        [] \<Rightarrow> None
      | c # r \<Rightarrow>
          if c = 34 then map_option Suc (basic_rest r)
          else if c = 39 then map_option Suc (literal_rest r)
          else integer_length dig s)"

definition toml_token :: "json \<Rightarrow> pystr \<Rightarrow> pystr" where
  "toml_token replacement original =
     (case replacement of
        JStr s \<Rightarrow> if take 1 original = [39] \<and> 39 \<notin> set s then [39] @ s @ [39] else json_string s
      | _ \<Rightarrow> py_str replacement)"

definition skip_blank :: "pystr \<Rightarrow> nat \<Rightarrow> nat" where
  "skip_blank line i = i + length (takeWhile is_space (drop i line))"

definition toml_assignment :: "editors \<Rightarrow> pystr \<Rightarrow> json_path \<Rightarrow> json_path \<Rightarrow> json \<Rightarrow> edit option result" where
  "toml_assignment ed line current target replacement =
     (case assignment_separator line of
        None \<Rightarrow> Inr None
      | Some separator \<Rightarrow>
          if strip (take separator line) = [] then Inr None
          else bind_r (toml_key ed (strip (take separator line))) (\<lambda>key.
               if current @ key \<noteq> target then Inr None
               else
                 let start = skip_blank line (separator + 1)
                 in (case scalar_length (ed_digit ed) (drop start line) of
                       None \<Rightarrow> Inl (VersionError ''Owned TOML value must be a single-line scalar'')
                     | Some n \<Rightarrow>
                         let suffix = lstrip (drop (start + n) line)
                         in vreq (suffix = [] \<or> is_comment suffix) ''Unsupported TOML expression after version value''
                              (Inr (Some (start, start + n, toml_token replacement (take n (drop start line))))))))"

text \<open>\<open>str.splitlines(keepends=True)\<close>.\<close>

definition line_break :: "nat \<Rightarrow> bool" where
  "line_break c \<longleftrightarrow> 10 \<le> c \<and> c \<le> 13 \<or> 28 \<le> c \<and> c \<le> 30 \<or> c \<in> {133, 8232, 8233}"

fun split_lines :: "pystr \<Rightarrow> pystr list" where
  "split_lines [] = []"
| "split_lines (c # s) =
     (if c = 13 \<and> take 1 s = [10]
      then (case split_lines s of l # ls \<Rightarrow> (c # l) # ls | [] \<Rightarrow> [[c]])
      else if line_break c then [c] # split_lines s
      else (case split_lines s of
              [] \<Rightarrow> [[c]]
            | l # ls \<Rightarrow> (c # l) # ls))"

record toml_scan =
  ts_current :: json_path
  ts_arrays :: "(json_path \<times> nat) list"
  ts_offset :: nat
  ts_found :: "edit list"
  ts_quote :: pystr
  ts_depth :: int

definition next_index :: "(json_path \<times> nat) list \<Rightarrow> json_path \<Rightarrow> nat" where
  "next_index arrays path = (case map_of arrays path of Some n \<Rightarrow> Suc n | None \<Rightarrow> 0)"

text \<open>One line: inside a string or a bracket it is skipped, a header changes the table, an assignment may be the owned one.\<close>

definition toml_line :: "editors \<Rightarrow> json_path \<Rightarrow> json \<Rightarrow> toml_scan \<Rightarrow> pystr \<Rightarrow> toml_scan result" where
  "toml_line ed target replacement ts line =
     (let continuation = (ts_quote ts \<noteq> [] \<or> ts_depth ts > 0);
          lexed = lexical_state line 0 (ts_quote ts) (ts_depth ts);
          ts' = ts\<lparr>ts_quote := fst lexed, ts_depth := snd lexed, ts_offset := ts_offset ts + length line\<rparr>
      in if continuation then Inr ts'
         else bind_r (toml_header line) (\<lambda>header.
              case header of
                Some (opening, key) \<Rightarrow>
                  bind_r (toml_key ed key) (\<lambda>path.
                    Inr (if opening = 2
                         then ts'\<lparr>ts_arrays := AList.update path (next_index (ts_arrays ts) path) (ts_arrays ts),
                                  ts_current := path @ [Index (next_index (ts_arrays ts) path)]\<rparr>
                         else ts'\<lparr>ts_current := path\<rparr>))
              | None \<Rightarrow>
                  bind_r (toml_assignment ed line (ts_current ts) target replacement) (\<lambda>found.
                    Inr (case found of
                           None \<Rightarrow> ts'
                         | Some (start, stop, token) \<Rightarrow>
                             ts'\<lparr>ts_found := ts_found ts @ [(ts_offset ts + start, ts_offset ts + stop, token)]\<rparr>))))"

fun toml_lines :: "editors \<Rightarrow> json_path \<Rightarrow> json \<Rightarrow> toml_scan \<Rightarrow> pystr list \<Rightarrow> toml_scan result" where
  "toml_lines ed target replacement ts [] = Inr ts"
| "toml_lines ed target replacement ts (line # rest) =
     bind_r (toml_line ed target replacement ts line) (\<lambda>ts'. toml_lines ed target replacement ts' rest)"

definition toml_assignments :: "editors \<Rightarrow> pystr \<Rightarrow> json_path \<Rightarrow> json \<Rightarrow> edit list result" where
  "toml_assignments ed doc target replacement =
     bind_r (toml_lines ed target replacement
        \<lparr>ts_current = [], ts_arrays = [], ts_offset = 0, ts_found = [], ts_quote = [], ts_depth = 0\<rparr> (split_lines doc))
       (\<lambda>ts. Inr (ts_found ts))"

section \<open>TOML files\<close>

definition local_lock_package :: "json_dict \<Rightarrow> pystr \<Rightarrow> bool" where
  "local_lock_package entry kind =
     (if kind = lit ''cargo-lock'' then \<not> has_key entry ''source''
      else (case dict_get entry (lit ''source'') (JObj []) of
              JObj [(k, _)] \<Rightarrow> k \<in> set (map lit [''editable'', ''virtual'', ''directory''])
            | _ \<Rightarrow> False))"

fun lock_matches :: "json_dict \<Rightarrow> nat \<Rightarrow> json list \<Rightarrow> nat list result" where
  "lock_matches declaration i [] = Inr []"
| "lock_matches declaration i (v # vs) =
     (case v of
        JObj entry \<Rightarrow>
          bind_r (lock_matches declaration (Suc i) vs) (\<lambda>rest.
            Inr (if json_eq (jget entry ''name'') (jget declaration ''package'')
                    \<and> local_lock_package entry (jstr_val (jget declaration ''format''))
                 then i # rest else rest))
      | _ \<Rightarrow> Inl AttributeError)"

definition toml_target :: "json_dict \<Rightarrow> json_dict \<Rightarrow> json_path result" where
  "toml_target data declaration =
     (if jget declaration ''format'' \<in> JStr ` set (map lit [''cargo-lock'', ''uv-lock''])
      then (case dict_get data (lit ''package'') (JList []) of
              JList entries \<Rightarrow>
                bind_r (lock_matches declaration 0 entries) (\<lambda>matches.
                  case matches of
                    [i] \<Rightarrow> Inr [Key (lit ''package''), Index i, Key (lit ''version'')]
                  | _ \<Rightarrow> Inl (VersionError ''Lock selector must identify exactly one owned local package''))
            | _ \<Rightarrow> Inl (VersionError ''Lock file requires package array''))
      else bind_r (py_getitem (JObj declaration) (lit ''field'')) (\<lambda>f.
           bind_r (field f) (\<lambda>names.
           if \<not> has_key declaration ''package'' then Inr (map Key names)
           else bind_r (get_path (JObj data) (map Key (butlast names) @ [Key (lit ''name'')])) (\<lambda>owner.
                vreq (json_eq owner (jget declaration ''package'')) ''TOML manifest package identity mismatch''
                  (Inr (map Key names))))))"

definition toml_edit :: "editors \<Rightarrow> bytes \<Rightarrow> json_dict \<Rightarrow> json \<Rightarrow> (bytes \<times> json list) result" where
  "toml_edit ed raw declaration v =
     bind_r (utf8_decode raw) (\<lambda>doc.
     bind_r (ed_toml ed doc) (\<lambda>parsed.
     bind_r (as_dict parsed) (\<lambda>data.
     bind_r (toml_target data declaration) (\<lambda>target.
     bind_r (get_path (JObj data) target) (\<lambda>old.
     bind_r (scalar v old) (\<lambda>replacement.
     bind_r (toml_assignments ed doc target replacement) (\<lambda>found.
       case found of
         [e] \<Rightarrow>
           bind_r (ed_toml ed (replace_at doc e)) (\<lambda>edited.
           bind_r (get_path edited target) (\<lambda>now.
           vreq (json_eq now replacement) ''TOML replacement did not update selected field''
             (bind_r (utf8_encode (replace_at doc e)) (\<lambda>out. Inr (out, [old])))))
       | _ \<Rightarrow> Inl (VersionError ''TOML selector must identify exactly one explicit scalar assignment''))))))))"

section \<open>One edit\<close>

text \<open>A text file is a single value between blanks.\<close>

definition text_edit :: "bytes \<Rightarrow> json \<Rightarrow> (bytes \<times> json list) result" where
  "text_edit raw v =
     bind_r (utf8_decode raw) (\<lambda>doc.
     let before = takeWhile is_space doc; rest = drop (length before) doc;
         old = takeWhile (\<lambda>c. \<not> is_space c) rest; after = drop (length old) rest
     in vreq (old \<noteq> [] \<and> list_all is_space after) ''Text version must contain exactly one non-whitespace value''
          (bind_r (utf8_encode (before @ py_str v @ after)) (\<lambda>out. Inr (out, [JStr old]))))"

definition edit_file :: "editors \<Rightarrow> bytes \<Rightarrow> json_dict \<Rightarrow> json \<Rightarrow> (bytes \<times> json list) result" where
  "edit_file ed raw declaration v =
     (let kind = jget declaration ''format''
      in if kind \<in> JStr ` set (map lit [''json'', ''npm-lock'']) then json_edit (ed_decode ed) raw declaration v
         else if kind \<in> JStr ` set (map lit [''toml'', ''cargo-lock'', ''uv-lock'']) then toml_edit ed raw declaration v
         else if kind = JStr (lit ''python'') then python_edit ed raw declaration v
         else if kind = JStr (lit ''plist'') then plist_edit ed raw declaration v
         else if kind = JStr (lit ''pbxproj'') then pbx_edit ed raw declaration v
         else if kind = JStr (lit ''text'') then text_edit raw v
         else Inl (VersionError ''Unsupported version format''))"

section \<open>All declared files\<close>

record sync_file =
  sf_original :: bytes
  sf_edited :: bytes
  sf_path :: pystr
  sf_fields :: "json list"

type_synonym sync_files = "(pystr \<times> sync_file) list"

definition read_input :: "worktree \<Rightarrow> pystr \<Rightarrow> bytes result" where
  "read_input wt path = bind_r (wt_open wt path) (\<lambda>(_, _, data). Inr data)"

definition policy_files :: "json \<Rightarrow> json_dict list result" where
  "policy_files policy =
     bind_r (py_getitem policy (lit ''versioning'')) (\<lambda>config.
     bind_r (py_getitem config (lit ''files'')) (\<lambda>v.
     bind_r (py_iter v) (map_r as_dict)))"

definition change_row :: "json_dict \<Rightarrow> json \<Rightarrow> json list \<Rightarrow> json" where
  "change_row declaration v old =
     JObj [(lit ''format'', jget declaration ''format''), (lit ''field'', jget declaration ''field''),
           (lit ''package'', jget declaration ''package''),
           (lit ''projection'', dict_get declaration (lit ''value'') (JStr (lit ''package''))), (lit ''value'', v),
           (lit ''previous'', JList old)]"

definition sync_declaration :: "editors \<Rightarrow> worktree \<Rightarrow> plan \<Rightarrow> sync_files \<Rightarrow> json_dict \<Rightarrow> sync_files result" where
  "sync_declaration ed wt p files declaration =
     bind_r (py_getitem (JObj declaration) (lit ''path'')) (\<lambda>name_value.
     bind_r (input_path wt name_value) (\<lambda>path.
     let name = jstr_val name_value
     in bind_r (case map_of files name of
                  Some f \<Rightarrow> Inr f
                | None \<Rightarrow> bind_r (read_input wt path) (\<lambda>raw.
                    Inr \<lparr>sf_original = raw, sf_edited = raw, sf_path = path, sf_fields = []\<rparr>)) (\<lambda>f.
        bind_r (projected_value p declaration) (\<lambda>v.
        bind_r (edit_file ed (sf_edited f) declaration v) (\<lambda>(updated, old).
          Inr (AList.update name (f\<lparr>sf_edited := updated, sf_fields := sf_fields f @ [change_row declaration v old]\<rparr>) files))))))"

fun sync_all :: "editors \<Rightarrow> worktree \<Rightarrow> plan \<Rightarrow> sync_files \<Rightarrow> json_dict list \<Rightarrow> sync_files result" where
  "sync_all ed wt p files [] = Inr files"
| "sync_all ed wt p files (declaration # rest) =
     bind_r (sync_declaration ed wt p files declaration) (\<lambda>files'. sync_all ed wt p files' rest)"

text \<open>No selector undoes another: every declared expectation still holds after all edits.\<close>

definition settled :: "editors \<Rightarrow> plan \<Rightarrow> sync_files \<Rightarrow> json_dict \<Rightarrow> unit result" where
  "settled ed p files declaration =
     bind_r (py_getitem (JObj declaration) (lit ''path'')) (\<lambda>name.
     case map_of files (jstr_val name) of
       None \<Rightarrow> Inl KeyError
     | Some f \<Rightarrow>
         bind_r (projected_value p declaration) (\<lambda>v.
         bind_r (edit_file ed (sf_edited f) declaration v) (\<lambda>(checked, _).
         vreq (checked = sf_edited f) ''Conflicting version selectors'' (Inr ()))))"

definition sync_evidence :: "sha256 \<Rightarrow> sync_files \<Rightarrow> json list" where
  "sync_evidence sha files =
     map (\<lambda>(name, f). JObj
        [(lit ''path'', JStr name), (lit ''before_sha256'', JStr (sha (sf_original f))),
         (lit ''after_sha256'', JStr (sha (sf_edited f))), (lit ''changed'', JBool (sf_original f \<noteq> sf_edited f)),
         (lit ''fields'', JList (sf_fields f))])
       (sort_entries files)"

definition drift_of :: "sync_files \<Rightarrow> sync_files" where
  "drift_of files = filter (\<lambda>(name, f). sf_original f \<noteq> sf_edited f) (sort_entries files)"

text \<open>A file is as it was read: the same confined path and the same bytes.\<close>

definition unchanged_input :: "worktree \<Rightarrow> string \<Rightarrow> pystr \<times> sync_file \<Rightarrow> unit result" where
  "unchanged_input wt msg entry =
     bind_r (input_path wt (JStr (fst entry))) (\<lambda>path.
     vreq (path = sf_path (snd entry)) msg
       (bind_r (read_input wt path) (\<lambda>data. vreq (data = sf_original (snd entry)) msg (Inr ()))))"

text \<open>
  The files replaced one after the other, each checked again just before; what was replaced before a failure
  stays. \<open>before\<close> is the file system at the first check, \<open>during\<close> at the replacement of each file.
\<close>

fun replace_files :: "(pystr \<Rightarrow> worktree) \<Rightarrow> sync_files \<Rightarrow> unit result \<times> (pystr \<times> bytes) list" where
  "replace_files during [] = (Inr (), [])"
| "replace_files during (entry # rest) =
     (case unchanged_input (during (fst entry)) ''Version input changed before replace'' entry of
        Inl e \<Rightarrow> (Inl e, [])
      | Inr _ \<Rightarrow>
          (case replace_files during rest of
             (r, written) \<Rightarrow> (r, (fst entry, sf_edited (snd entry)) # written)))"

definition apply_version_edits ::
  "worktree \<Rightarrow> (pystr \<Rightarrow> worktree) \<Rightarrow> sync_files \<Rightarrow> unit result \<times> (pystr \<times> bytes) list" where
  "apply_version_edits before during files =
     (case each_r (unchanged_input before ''Version input changed during sync'') files of
        Inl e \<Rightarrow> (Inl e, [])
      | Inr _ \<Rightarrow> replace_files during (drift_of files))"

definition planned_edits :: "sha256 \<Rightarrow> (real \<Rightarrow> pystr) \<Rightarrow> editors \<Rightarrow> worktree \<Rightarrow> json \<Rightarrow> json \<Rightarrow> sync_files result" where
  "planned_edits sha fr ed wt policy plan_value =
     bind_r (validate_plan sha fr plan_value (Some policy) None) (\<lambda>p.
     bind_r (policy_files policy) (\<lambda>declarations.
     bind_r (sync_all ed wt p [] declarations) (\<lambda>files.
     bind_r (each_r (settled ed p files) declarations) (\<lambda>_. Inr files))))"

definition sync_versions ::
  "sha256 \<Rightarrow> (real \<Rightarrow> pystr) \<Rightarrow> editors \<Rightarrow> worktree \<Rightarrow> worktree \<Rightarrow> (pystr \<Rightarrow> worktree) \<Rightarrow> json \<Rightarrow> json \<Rightarrow> bool
   \<Rightarrow> json list result \<times> (pystr \<times> bytes) list" where
  "sync_versions sha fr ed wt before during policy plan_value check =
     (case planned_edits sha fr ed wt policy plan_value of
        Inl e \<Rightarrow> (Inl e, [])
      | Inr files \<Rightarrow>
          if check
          then (vreq (drift_of files = []) ''Version inputs do not match release plan'' (Inr (sync_evidence sha files)), [])
          else (case apply_version_edits before during files of
                  (r, written) \<Rightarrow> (bind_r r (\<lambda>_. Inr (sync_evidence sha files)), written)))"

section \<open>The committed base version\<close>

definition read_base_version :: "editors \<Rightarrow> worktree \<Rightarrow> json \<Rightarrow> pystr result" where
  "read_base_version ed wt policy =
     bind_r (validate_policy policy) (\<lambda>config.
     bind_r (as_dict policy) (\<lambda>pd.
     vreq (is_jstr (jget pd ''version_file'')) ''Committed version checks require version_file''
    (bind_r (bind_r (py_iter (jget config ''files'')) (map_r as_dict)) (\<lambda>files.
       case filter (\<lambda>item. jget item ''path'' = jget pd ''version_file''
              \<and> dict_get item (lit ''value'') (JStr (lit ''package'')) \<in> JStr ` set (map lit [''base'', ''full'', ''package''])) files of
         [item] \<Rightarrow>
           bind_r (input_path wt (jget pd ''version_file'')) (\<lambda>path.
           bind_r (read_input wt path) (\<lambda>raw.
           bind_r (edit_file ed raw item (JStr (lit ''0.0.0''))) (\<lambda>(_, old).
           vreq (old \<noteq> [] \<and> list_all (\<lambda>v. json_eq v (hd old)) old) ''Base source version fields disagree''
          (case hd old of
             JStr s \<Rightarrow>
               let prefix = jstr_val (dict_get item (lit ''prefix'') (JStr []))
               in vreq (startswith s prefix) ''Base version source prefix mismatch''
                   (vreq (BASE (drop (length prefix) s)) ''Committed base source must contain strict X.Y.Z''
                      (Inr (drop (length prefix) s)))
           | _ \<Rightarrow> Inl (VersionError ''Base version source must be a string'')))))
       | _ \<Rightarrow> Inl (VersionError ''version_file must have one explicit version selector'')))))"

text \<open>The policy without the fields that hold allocated native build counters.\<close>

definition allocated :: "json \<Rightarrow> bool" where
  "allocated item \<longleftrightarrow>
     (case item of
        JObj d \<Rightarrow> dict_get d (lit ''value'') (JStr (lit ''package'')) \<in> JStr ` set (map lit [''build'', ''apple-build''])
      | _ \<Rightarrow> False)"

definition without_allocated :: "json_dict \<Rightarrow> json_dict \<Rightarrow> json list \<Rightarrow> json" where
  "without_allocated pd config files =
     JObj (AList.update (lit ''versioning'') (JObj (AList.update (lit ''files'') (JList (filter (\<lambda>v. \<not> allocated v) files)) config)) pd)"

definition check_base_versions ::
  "sha256 \<Rightarrow> (real \<Rightarrow> pystr) \<Rightarrow> editors \<Rightarrow> worktree \<Rightarrow> json \<Rightarrow> pystr \<Rightarrow> json list result" where
  "check_base_versions sha fr ed wt policy requested =
     bind_r (validate_policy policy) (\<lambda>config.
     bind_r (if requested = [] then read_base_version ed wt policy else Inr requested) (\<lambda>base.
     bind_r (as_dict policy) (\<lambda>pd.
     bind_r (py_iter (jget config ''files'')) (\<lambda>files.
     vreq (filter (\<lambda>v. \<not> allocated v) files \<noteq> []) ''No committed base version fields are declared''
    (let filtered = without_allocated pd config files
     in bind_r (create_plan sha fr (JStr base) (JStr (lit ''stable'')) JNull (JStr (replicate 40 48)) filtered JNull) (\<lambda>p.
          fst (sync_versions sha fr ed wt wt (\<lambda>_. wt) filtered (plan_json p) True)))))))"

section \<open>The owned assignment of a TOML file\<close>

lemma concat_split_lines: "concat (split_lines s) = s"
  by (induction s rule: split_lines.induct) (auto split: list.splits)

definition inside :: "nat \<Rightarrow> edit \<Rightarrow> bool" where
  "inside n e \<longleftrightarrow> fst e < fst (snd e) \<and> fst (snd e) \<le> n"

lemma basic_rest_bounds: "basic_rest s = Some n \<Longrightarrow> 0 < n \<and> n \<le> length s"
proof (induction s arbitrary: n rule: basic_rest.induct)
  case (2 c r)
  from 2(3) 2(1,2) show ?case by (fastforce split: if_splits list.splits)
qed simp

lemma literal_rest_bounds: "literal_rest s = Some n \<Longrightarrow> n \<le> length s"
proof -
  let ?body = "takeWhile (\<lambda>c. c \<notin> {39, 13, 10}) s"
  assume "literal_rest s = Some n"
  then have "n = Suc (length ?body)" "take 1 (drop (length ?body) s) = [39]"
    by (simp_all add: literal_rest_def Let_def split: if_splits)
  then show "n \<le> length s" by (cases "length ?body < length s") (simp_all add: not_less)
qed

lemma if_Some_eq: "(if c then Some x else None) = Some y \<longleftrightarrow> c \<and> x = y"
  by simp

lemma integer_length_bounds: "integer_length dig s = Some n \<Longrightarrow> 0 < n \<and> n \<le> length s"
proof -
  let ?k = "if take 1 s = [43] \<or> take 1 s = [45] then 1 else 0 :: nat"
  assume n: "integer_length dig s = Some n"
  then have d: "drop ?k s \<noteq> []" "dig (hd (drop ?k s))"
    "n = ?k + length (takeWhile (\<lambda>c. dig c \<or> c = 95) (drop ?k s))"
    unfolding integer_length_def Let_def if_Some_eq by simp_all
  have "takeWhile (\<lambda>c. dig c \<or> c = 95) (drop ?k s) \<noteq> []" using d(1,2) by (cases "drop ?k s") auto
  moreover have "length (takeWhile (\<lambda>c. dig c \<or> c = 95) (drop ?k s)) \<le> length (drop ?k s)" by (rule length_takeWhile_le)
  moreover have "?k < length s" using d(1) by (simp split: if_splits)
  ultimately show "0 < n \<and> n \<le> length s" using d(3) by auto
qed

lemma scalar_length_bounds: "scalar_length dig s = Some n \<Longrightarrow> 0 < n \<and> n \<le> length s"
  by (auto simp: scalar_length_def split: list.splits if_splits
      dest: basic_rest_bounds literal_rest_bounds integer_length_bounds)

lemma toml_assignment_inside:
  assumes "toml_assignment ed line current target replacement = Inr (Some e)"
  shows "inside (length line) e"
proof -
  from assms obtain start n token where e: "e = (start, start + n, token)" "scalar_length (ed_digit ed) (drop start line) = Some n"
    by (auto simp: toml_assignment_def bind_r_Inr_iff guard_r_Inr_iff Let_def split: option.splits if_splits)
  with scalar_length_bounds [OF e(2)] show ?thesis by (auto simp: inside_def)
qed

definition found_inside :: "toml_scan \<Rightarrow> bool" where
  "found_inside ts \<longleftrightarrow> list_all (inside (ts_offset ts)) (ts_found ts)"

lemma inside_mono: "m \<le> n \<Longrightarrow> list_all (inside m) es \<Longrightarrow> list_all (inside n) es"
  by (auto simp: inside_def list_all_iff)

lemma toml_line_inside:
  assumes "toml_line ed target replacement ts line = Inr ts'" and "found_inside ts"
  shows "found_inside ts' \<and> ts_offset ts' = ts_offset ts + length line"
proof -
  let ?lexed = "lexical_state line 0 (ts_quote ts) (ts_depth ts)"
  let ?ts = "ts\<lparr>ts_quote := fst ?lexed, ts_depth := snd ?lexed, ts_offset := ts_offset ts + length line\<rparr>"
  have old: "list_all (inside (ts_offset ts + length line)) (ts_found ts)"
    using assms(2) inside_mono [of "ts_offset ts" "ts_offset ts + length line"] by (simp add: found_inside_def)
  show ?thesis
  proof (cases "ts_quote ts \<noteq> [] \<or> ts_depth ts > 0")
    case True
    with assms(1) have "ts' = ?ts" unfolding toml_line_def Let_def by simp
    with old show ?thesis by (simp add: found_inside_def)
  next
    case False
    with assms(1) obtain header where h: "toml_header line = Inr header"
      unfolding toml_line_def Let_def by (auto simp: bind_r_Inr_iff)
    show ?thesis
    proof (cases header)
      case None
      with assms(1) False h obtain found where f: "toml_assignment ed line (ts_current ts) target replacement = Inr found"
        "ts' = (case found of None \<Rightarrow> ?ts
          | Some (start, stop, token) \<Rightarrow> ?ts\<lparr>ts_found := ts_found ts @ [(ts_offset ts + start, ts_offset ts + stop, token)]\<rparr>)"
        unfolding toml_line_def Let_def by (auto simp: bind_r_Inr_iff)
      show ?thesis
      proof (cases found)
        case (Some e)
        obtain start stop token where e: "e = (start, stop, token)" by (cases e)
        have "inside (length line) e" using toml_assignment_inside f(1) Some by blast
        then have "inside (ts_offset ts + length line) (ts_offset ts + start, ts_offset ts + stop, token)"
          by (simp add: inside_def e)
        moreover have "ts' = ?ts\<lparr>ts_found := ts_found ts @ [(ts_offset ts + start, ts_offset ts + stop, token)]\<rparr>"
          using f(2) Some e by simp
        ultimately show ?thesis using old by (simp add: found_inside_def)
      qed (use f old in \<open>simp add: found_inside_def\<close>)
    next
      case (Some entry)
      obtain brackets key where entry: "entry = (brackets, key)" by (cases entry)
      have "bind_r (toml_key ed key) (\<lambda>path.
          Inr (if brackets = 2
             then ?ts\<lparr>ts_arrays := AList.update path (next_index (ts_arrays ts) path) (ts_arrays ts),
                      ts_current := path @ [Index (next_index (ts_arrays ts) path)]\<rparr>
             else ?ts\<lparr>ts_current := path\<rparr>)) = Inr ts'"
        using assms(1) False h Some entry unfolding toml_line_def Let_def by simp
      then obtain path where "ts' = (if brackets = 2
           then ?ts\<lparr>ts_arrays := AList.update path (next_index (ts_arrays ts) path) (ts_arrays ts),
                    ts_current := path @ [Index (next_index (ts_arrays ts) path)]\<rparr>
           else ?ts\<lparr>ts_current := path\<rparr>)"
        unfolding bind_r_Inr_iff by blast
      with old show ?thesis by (simp add: found_inside_def)
    qed
  qed
qed

lemma toml_lines_inside:
  "toml_lines ed target replacement ts lines = Inr ts' \<Longrightarrow> found_inside ts
     \<Longrightarrow> found_inside ts' \<and> ts_offset ts' = ts_offset ts + length (concat lines)"
proof (induction lines arbitrary: ts)
  case (Cons line lines)
  from Cons.prems(1) obtain ts1 where t: "toml_line ed target replacement ts line = Inr ts1"
    "toml_lines ed target replacement ts1 lines = Inr ts'" by (auto simp: bind_r_Inr_iff)
  from toml_line_inside [OF t(1) Cons.prems(2)] Cons.IH [OF t(2)] show ?case by simp
qed simp

lemma toml_assignments_inside:
  assumes "toml_assignments ed doc target replacement = Inr found"
  shows "list_all (inside (length doc)) found"
proof -
  from assms obtain ts where "toml_lines ed target replacement
      \<lparr>ts_current = [], ts_arrays = [], ts_offset = 0, ts_found = [], ts_quote = [], ts_depth = 0\<rparr> (split_lines doc) = Inr ts"
    "found = ts_found ts" by (auto simp: toml_assignments_def bind_r_Inr_iff)
  with toml_lines_inside [OF this(1)] show ?thesis by (auto simp: found_inside_def concat_split_lines)
qed

text \<open>
  An accepted edit of a TOML file replaces one token inside the text, and what the parser reads from the result
  at the owned field is the projected version.
\<close>

lemma toml_edit_replaces_one_token:
  assumes "toml_edit ed raw declaration v = Inr (out, previous)"
  shows "\<exists>doc data target old new s t token edited now. utf8_decode raw = Inr doc \<and> ed_toml ed doc = Inr (JObj data)
    \<and> toml_target data declaration = Inr target \<and> get_path (JObj data) target = Inr old \<and> previous = [old]
    \<and> scalar v old = Inr new \<and> s < t \<and> t \<le> length doc
    \<and> utf8_decode out = Inr (take s doc @ token @ drop t doc)
    \<and> ed_toml ed (take s doc @ token @ drop t doc) = Inr edited \<and> get_path edited target = Inr now \<and> json_eq now new"
proof -
  from assms obtain doc parsed data target old new found where
    t: "utf8_decode raw = Inr doc" "ed_toml ed doc = Inr parsed" "as_dict parsed = Inr data" "toml_target data declaration = Inr target"
      "get_path (JObj data) target = Inr old" "scalar v old = Inr new" "toml_assignments ed doc target new = Inr found"
    and r: "(case found of
         [e] \<Rightarrow>
           bind_r (ed_toml ed (replace_at doc e)) (\<lambda>edited.
           bind_r (get_path edited target) (\<lambda>now.
           vreq (json_eq now new) ''TOML replacement did not update selected field''
             (bind_r (utf8_encode (replace_at doc e)) (\<lambda>out. Inr (out, [old])))))
       | _ \<Rightarrow> Inl (VersionError ''TOML selector must identify exactly one explicit scalar assignment'')) = Inr (out, previous)"
    unfolding toml_edit_def bind_r_Inr_iff by blast
  from t(3) have data: "parsed = JObj data" by (cases parsed) (simp_all add: as_dict_def)
  from r obtain e where e: "found = [e]" by (auto split: list.splits)
  obtain s u token where pos: "e = (s, u, token)" by (cases e)
  from r e obtain edited now where f: "ed_toml ed (replace_at doc e) = Inr edited" "get_path edited target = Inr now"
    "json_eq now new" "utf8_encode (replace_at doc e) = Inr out" "previous = [old]"
    by (auto simp: bind_r_Inr_iff guard_r_Inr_iff)
  from toml_assignments_inside [OF t(7)] e pos have "s < u" "u \<le> length doc" by (simp_all add: inside_def)
  moreover have "replace_at doc e = take s doc @ token @ drop u doc" by (simp add: replace_at_def pos)
  ultimately show ?thesis using t(1,2,4,5,6) data f utf8_decode_encode [OF f(4)] by metis
qed

section \<open>A finished synchronisation\<close>

text \<open>The bytes a file started from were read through its confined path.\<close>

definition read_from :: "worktree \<Rightarrow> pystr \<times> sync_file \<Rightarrow> bool" where
  "read_from wt entry \<longleftrightarrow>
     (\<exists>name. jstr_val name = fst entry \<and> input_path wt name = Inr (sf_path (snd entry)))
     \<and> read_input wt (sf_path (snd entry)) = Inr (sf_original (snd entry))"

text \<open>A written file holds the edited bytes, and just before it still was as it had been read.\<close>

definition replaced :: "(pystr \<Rightarrow> worktree) \<Rightarrow> sync_files \<Rightarrow> pystr \<times> bytes \<Rightarrow> bool" where
  "replaced during files w \<longleftrightarrow>
     (\<exists>f. (fst w, f) \<in> set files \<and> snd w = sf_edited f \<and> sf_original f \<noteq> sf_edited f
        \<and> input_path (during (fst w)) (JStr (fst w)) = Inr (sf_path f)
        \<and> read_input (during (fst w)) (sf_path f) = Inr (sf_original f))"

lemma replacedI:
  assumes "(name, f) \<in> set files" and "sf_original f \<noteq> sf_edited f" and "unchanged_input (during name) msg (name, f) = Inr u"
  shows "replaced during files (name, sf_edited f)"
  using assms by (auto simp: replaced_def unchanged_input_def bind_r_Inr_iff guard_r_Inr_iff)

text \<open>Editing the result for a declaration again changes nothing.\<close>

definition fixed_point :: "editors \<Rightarrow> plan \<Rightarrow> sync_files \<Rightarrow> json_dict \<Rightarrow> bool" where
  "fixed_point ed p files d \<longleftrightarrow>
     (\<exists>name f v previous.
        py_getitem (JObj d) (lit ''path'') = Inr name \<and> map_of files (jstr_val name) = Some f
        \<and> projected_value p d = Inr v \<and> edit_file ed (sf_edited f) d v = Inr (sf_edited f, previous))"

lemma settled_fixed_point: "settled ed p files d = Inr u \<Longrightarrow> fixed_point ed p files d"
  by (auto simp: settled_def fixed_point_def bind_r_Inr_iff guard_r_Inr_iff split: option.splits)

lemma set_update_cases: "e \<in> set (AList.update k v xs) \<Longrightarrow> e = (k, v) \<or> e \<in> set xs"
  by (induction xs) (auto split: if_splits)

lemma sync_declaration_reads:
  assumes "sync_declaration ed wt p files declaration = Inr files'" and "list_all (read_from wt) files"
  shows "list_all (read_from wt) files'"
proof -
  from assms(1) obtain name_value path f updated old v where
    s: "input_path wt name_value = Inr path"
      "(case map_of files (jstr_val name_value) of
          Some f \<Rightarrow> Inr f
        | None \<Rightarrow> bind_r (read_input wt path) (\<lambda>raw.
            Inr \<lparr>sf_original = raw, sf_edited = raw, sf_path = path, sf_fields = []\<rparr>)) = Inr f"
      "files' = AList.update (jstr_val name_value)
         (f\<lparr>sf_edited := updated, sf_fields := sf_fields f @ [change_row declaration v old]\<rparr>) files"
    by (auto simp: sync_declaration_def Let_def bind_r_Inr_iff)
  have "read_from wt (jstr_val name_value, f)"
  proof (cases "map_of files (jstr_val name_value)")
    case None
    with s(1,2) show ?thesis by (auto simp: read_from_def bind_r_Inr_iff)
  next
    case (Some g)
    with s(2) assms(2) show ?thesis by (auto simp: list_all_iff dest: map_of_SomeD)
  qed
  then have "read_from wt (jstr_val name_value,
      f\<lparr>sf_edited := updated, sf_fields := sf_fields f @ [change_row declaration v old]\<rparr>)"
    by (simp add: read_from_def)
  with assms(2) s(3) show ?thesis by (auto simp: list_all_iff dest!: set_update_cases)
qed

lemma sync_all_reads:
  "sync_all ed wt p files declarations = Inr files' \<Longrightarrow> list_all (read_from wt) files \<Longrightarrow> list_all (read_from wt) files'"
proof (induction declarations arbitrary: files)
  case (Cons item rest)
  from Cons.prems(1) obtain files1 where "sync_declaration ed wt p files item = Inr files1"
    "sync_all ed wt p files1 rest = Inr files'" by (auto simp: bind_r_Inr_iff)
  with Cons.IH sync_declaration_reads Cons.prems(2) show ?case by blast
qed simp

lemma replace_files_sound:
  assumes "replace_files during entries = (r, written)" and "set entries \<subseteq> set files"
    and "list_all (\<lambda>(name, f). sf_original f \<noteq> sf_edited f) entries"
  shows "list_all (replaced during files) written
    \<and> (r = Inr () \<longrightarrow> written = map (\<lambda>(name, f). (name, sf_edited f)) entries)"
  using assms
proof (induction entries arbitrary: r written)
  case (Cons entry rest)
  obtain name f where e: "entry = (name, f)" by (cases entry)
  show ?case
  proof (cases "unchanged_input (during name) ''Version input changed before replace'' entry")
    case (Inl x)
    with Cons.prems(1) show ?thesis by (auto simp: e)
  next
    case (Inr u)
    obtain r1 w1 where rest: "replace_files during rest = (r1, w1)" by (cases "replace_files during rest")
    with Cons.prems(1) Inr have "r = r1" "written = (name, sf_edited f) # w1" by (simp_all add: e)
    moreover have "list_all (replaced during files) w1 \<and> (r1 = Inr () \<longrightarrow> w1 = map (\<lambda>(name, f). (name, sf_edited f)) rest)"
      using Cons.IH [OF rest] Cons.prems(2,3) by simp
    moreover have "replaced during files (name, sf_edited f)"
      using Cons.prems(2,3) Inr e by (auto intro: replacedI)
    ultimately show ?thesis by (simp add: e)
  qed
qed simp

text \<open>
  C32: A synchronisation settles every declared selector and replaces only files that are still what it read.
  Whatever happens to the file system in between, each file that was written had its original bytes when it was
  checked last and now holds its edited bytes. When the synchronisation succeeds, editing any file again for any
  of its selectors changes nothing; in check mode nothing is written and no file differs from the plan,
  otherwise exactly the differing files were written.
\<close>

theorem sync_settles_every_selector:
  "case sync_versions sha fr ed wt before during policy plan_value check of (r, written) \<Rightarrow>
     (case planned_edits sha fr ed wt policy plan_value of
        Inl e \<Rightarrow> written = [] \<and> r = Inl e
      | Inr files \<Rightarrow>
          list_all (read_from wt) files \<and> list_all (replaced during files) written
          \<and> (\<exists>p declarations. validate_plan sha fr plan_value (Some policy) None = Inr p \<and> policy_files policy = Inr declarations
               \<and> list_all (fixed_point ed p files) declarations)
          \<and> (case r of
               Inl e \<Rightarrow> True
             | Inr evidence \<Rightarrow>
                 evidence = sync_evidence sha files
                 \<and> (if check then written = [] \<and> drift_of files = []
                    else written = map (\<lambda>(name, f). (name, sf_edited f)) (drift_of files))))"
proof (cases "planned_edits sha fr ed wt policy plan_value")
  case (Inl e)
  then show ?thesis by (simp add: sync_versions_def)
next
  case (Inr files)
  then obtain p declarations where p: "validate_plan sha fr plan_value (Some policy) None = Inr p"
    "policy_files policy = Inr declarations" "sync_all ed wt p [] declarations = Inr files"
    "list_all (fixed_point ed p files) declarations"
    by (auto simp: planned_edits_def bind_r_Inr_iff each_r_Inr_iff list_all_iff settled_fixed_point)
  note reads = sync_all_reads [OF p(3)]
  have drift: "set (drift_of files) \<subseteq> set files" "list_all (\<lambda>(name, f). sf_original f \<noteq> sf_edited f) (drift_of files)"
    by (auto simp: drift_of_def list_all_iff)
  show ?thesis
  proof (cases check)
    case True
    with Inr p reads show ?thesis by (auto simp: sync_versions_def guard_r_Inr_iff split: sum.splits)
  next
    case False
    obtain r written where a: "apply_version_edits before during files = (r, written)"
      by (cases "apply_version_edits before during files")
    have "list_all (replaced during files) written
        \<and> (r = Inr () \<longrightarrow> written = map (\<lambda>(name, f). (name, sf_edited f)) (drift_of files))"
      using a replace_files_sound [OF _ drift, of during] by (auto simp: apply_version_edits_def split: sum.splits)
    with False Inr p reads a show ?thesis by (cases r) (auto simp: sync_versions_def)
  qed
qed

end
