(* ===== verification/Json_Roundtrip.thy ===== *)
theory Json_Roundtrip
  imports Json_Edit
begin

text \<open>
  The canonical encoder (\<open>json.dumps\<close> with sorted keys, \<open>json_bytes\<close>) against the scanner of
  \<open>scripts/version_plan.py\<close> (\<open>_JsonDocument\<close>): a document that the release scripts write is read back as the
  same value. Python's scalar decoder is a parameter; what is used of it is that it reads the text of a scalar.
\<close>

section \<open>Scalars\<close>

text \<open>
  \<open>raw_decode\<close> at the text of a scalar that ends the input or is followed by a delimiter: it returns the scalar and
  stops behind it. The text is ASCII and starts neither with a space nor with a bracket.
\<close>

definition ends_token :: "pystr \<Rightarrow> bool" where
  "ends_token s \<longleftrightarrow> (case s of [] \<Rightarrow> True | c # _ \<Rightarrow> c \<in> {44, 58, 93, 125})"

definition reads_scalar :: "decoder \<Rightarrow> (real \<Rightarrow> pystr) \<Rightarrow> json \<Rightarrow> bool" where
  "reads_scalar d fr v \<longleftrightarrow>
     (case json_dumps fr v of
        [] \<Rightarrow> False
      | c # s \<Rightarrow> \<not> json_space c \<and> c \<notin> {91, 93, 123, 125} \<and> list_all (\<lambda>x. x < 128) (c # s)
                 \<and> (\<forall>rest. ends_token rest \<longrightarrow> d ((c # s) @ rest) = Inr (v, length s)))"

fun scalars :: "json \<Rightarrow> json list" where
  "scalars (JList xs) = concat (map scalars xs)"
| "scalars (JObj m) = concat (map (\<lambda>p. JStr (fst p) # scalars (snd p)) m)"
| "scalars v = [v]"

section \<open>Fuel\<close>

definition agree :: "(task \<Rightarrow> parsed) \<Rightarrow> (task \<Rightarrow> parsed) \<Rightarrow> bool" where
  "agree f g \<longleftrightarrow> (\<forall>t r. f t = Some r \<longrightarrow> g t = Some r)"

lemma then_parse_agree:
  "then_parse m f = Some r \<Longrightarrow> (\<And>x. m = Some x \<Longrightarrow> m' = Some x) \<Longrightarrow> (\<And>v i spans x. f v i spans = Some x \<Longrightarrow> f' v i spans = Some x)
   \<Longrightarrow> then_parse m' f' = Some r"
  by (auto simp: then_parse_def split: option.splits sum.splits)

lemma else_agree:
  "(if c then a else x) = Some r \<Longrightarrow> (x = Some r \<Longrightarrow> y = Some r) \<Longrightarrow> (if c then a else y) = Some r"
  by (simp split: if_splits)

lemma parse_more_agree:
  "agree f g \<Longrightarrow> parse_more doc f c whole rest e spans = Some r \<Longrightarrow> parse_more doc g c whole rest e spans = Some r"
  by (auto simp: parse_more_def Let_def agree_def split: if_splits elim!: then_parse_agree)

lemma parse_task_agree:
  assumes "agree f g"
  shows "agree (parse_task d doc f) (parse_task d doc g)"
  unfolding agree_def
proof (intro allI impI)
  fix t r
  assume run: "parse_task d doc f t = Some r"
  have fg: "f u = Some x \<Longrightarrow> g u = Some x" for u x using assms unfolding agree_def by blast
  show "parse_task d doc g t = Some r"
  proof (cases t)
    case (Value i path)
    with run fg show ?thesis by (auto simp: parse_task_def parse_value_def Let_def split: if_splits)
  next
    case (Members i path members)
    show ?thesis
    proof (cases "raw_decode d doc i")
      case (Inr x)
      obtain name e where x: "x = (name, e)" by (cases x)
      from run show ?thesis
        by (simp only: parse_task_def parse_object_def Let_def Members Inr x task.case sum.case prod.case)
           (elim else_agree then_parse_agree fg parse_more_agree[OF assms])
    qed (use run Members in \<open>simp add: parse_task_def parse_object_def\<close>)
  next
    case (Elements i path elements)
    with run show ?thesis
      by (auto simp: parse_task_def parse_array_def elim!: then_parse_agree fg parse_more_agree[OF assms])
  qed
qed

lemma parse_agree: "agree (parse d doc n) (parse d doc (n + k))"
proof (induction n)
  case (Suc n)
  from parse_task_agree[OF this] show ?case by (simp add: agree_def)
qed (simp add: agree_def)

text \<open>The task ends with this value at this offset, whatever the fuel, if there is enough.\<close>

definition reaches :: "decoder \<Rightarrow> pystr \<Rightarrow> task \<Rightarrow> json \<Rightarrow> nat \<Rightarrow> bool" where
  "reaches d doc t v e \<longleftrightarrow> (\<exists>n spans. parse d doc n t = Some (Inr (v, e, spans)))"

lemma reachesI: "parse d doc n t = Some (Inr (v, e, spans)) \<Longrightarrow> reaches d doc t v e"
  unfolding reaches_def by blast

lemma parse_more_fuel: "parse d doc n t = Some r \<Longrightarrow> n \<le> m \<Longrightarrow> parse d doc m t = Some r"
  using parse_agree[of d doc n "m - n"] unfolding agree_def by simp

section \<open>One step of the scanner\<close>

lemma at_char:
  assumes "drop i doc = c # s"
  shows "i < length doc" "doc ! i = c" "drop (Suc i) doc = s" "\<not> json_space c \<Longrightarrow> skip_space doc i = i"
proof -
  show "i < length doc" using assms by (metis drop_all list.distinct(1) not_le)
  then show "doc ! i = c" using assms by (metis hd_drop_conv_nth list.sel(1))
  show "drop (Suc i) doc = s" using assms by (metis drop_Suc list.sel(3) tl_drop)
  show "\<not> json_space c \<Longrightarrow> skip_space doc i = i" using assms by (simp add: skip_space_def)
qed

lemma behind: "drop i doc = s @ post \<Longrightarrow> drop (i + length s) doc = post"
  by (metis add.commute append_eq_conv_conj drop_drop)

lemma delimiters_are_no_space [simp]:
  "\<not> json_space 44" "\<not> json_space 58" "\<not> json_space 91" "\<not> json_space 93" "\<not> json_space 123" "\<not> json_space 125"
  by (simp_all add: json_space_def)

lemma raw_decode_scalar:
  assumes "reads_scalar d fr v" and "drop i doc = json_dumps fr v @ post" and "ends_token post"
  shows "raw_decode d doc i = Inr (v, i + length (json_dumps fr v))"
  using assms at_char(1)[of i doc] by (cases "json_dumps fr v") (auto simp: reads_scalar_def raw_decode_def)

lemma reaches_scalar:
  assumes r: "reads_scalar d fr v" and t: "drop i doc = json_dumps fr v @ post" and e: "ends_token post"
  shows "reaches d doc (Value i path) v (i + length (json_dumps fr v))"
proof -
  from r obtain c s where s: "json_dumps fr v = c # s" "\<not> json_space c" "c \<notin> {91, 123}"
    by (auto simp: reads_scalar_def split: list.splits)
  note c = at_char[of i doc c "s @ post"]
  have "parse d doc (Suc 0) (Value i path) = Some (Inr (v, i + length (json_dumps fr v), [(path, i, i + length (json_dumps fr v))]))"
    using raw_decode_scalar[OF r t e] c t s by (simp add: parse_task_def parse_value_def)
  then show ?thesis unfolding reaches_def by blast
qed

lemma parse_more_close:
  "drop e doc = c # post \<Longrightarrow> \<not> json_space c \<Longrightarrow> parse_more doc self c whole rest e spans = Some (Inr (whole, Suc e, spans))"
  using at_char[of e doc c post] by (simp add: parse_more_def)

lemma parse_more_comma:
  assumes "drop e doc = 44 # c # s" and "\<not> json_space c" and "close \<noteq> 44"
  shows "parse_more doc self close whole rest e spans =
    then_parse (self (rest (Suc e))) (\<lambda>w e' more_spans. Some (Inr (w, e', spans @ more_spans)))"
  using at_char[OF assms(1)] at_char[of "Suc e" doc c s] assms(2,3) by (simp add: parse_more_def)

text \<open>An array: the last element, or an element and the rest.\<close>

lemma reaches_last_element:
  assumes "reaches d doc (Value i (path @ [Index (length acc)])) v e" and "drop e doc = 93 # post"
  shows "reaches d doc (Elements i path acc) (JList (acc @ [v])) (Suc e)"
proof -
  from assms(1) obtain n spans where n: "parse d doc n (Value i (path @ [Index (length acc)])) = Some (Inr (v, e, spans))"
    unfolding reaches_def by blast
  have "parse d doc (Suc n) (Elements i path acc) = Some (Inr (JList (acc @ [v]), Suc e, spans))"
    by (simp add: parse_task_def parse_array_def n then_parse_def parse_more_close[OF assms(2)])
  then show ?thesis unfolding reaches_def by blast
qed

lemma reaches_element:
  assumes "reaches d doc (Value i (path @ [Index (length acc)])) v e" and "drop e doc = 44 # c # s" and "\<not> json_space c"
    and "reaches d doc (Elements (Suc e) path (acc @ [v])) w e'"
  shows "reaches d doc (Elements i path acc) w e'"
proof -
  from assms(1,4) obtain n spans m spans' where
    "parse d doc n (Value i (path @ [Index (length acc)])) = Some (Inr (v, e, spans))"
    "parse d doc m (Elements (Suc e) path (acc @ [v])) = Some (Inr (w, e', spans'))"
    unfolding reaches_def by blast
  then have n: "parse d doc (n + m) (Value i (path @ [Index (length acc)])) = Some (Inr (v, e, spans))"
    "parse d doc (n + m) (Elements (Suc e) path (acc @ [v])) = Some (Inr (w, e', spans'))"
    by (auto elim: parse_more_fuel)
  have "parse d doc (Suc (n + m)) (Elements i path acc) = Some (Inr (w, e', spans @ spans'))"
    by (simp add: parse_task_def parse_array_def n then_parse_def parse_more_comma[OF assms(2,3)])
  then show ?thesis unfolding reaches_def by blast
qed

text \<open>An object: the same for a member.\<close>

lemma parse_member:
  assumes "reads_scalar d fr (JStr k)" and "drop i doc = json_string k @ 58 # txt" and "k \<notin> fst ` set members"
  shows "parse_object d doc self i path members =
    then_parse (self (Value (Suc (i + length (json_string k))) (path @ [Key k]))) (\<lambda>v e' spans.
      parse_more doc self 125 (JObj (members @ [(k, v)])) (\<lambda>m. Members m path (members @ [(k, v)])) e' spans)"
proof -
  from assms(1,2) have "raw_decode d doc i = Inr (JStr k, i + length (json_string k))"
    using raw_decode_scalar[of d fr "JStr k" i doc "58 # txt"] by (simp add: ends_token_def)
  moreover from at_char[OF behind[OF assms(2)]]
  have "skip_space doc (i + length (json_string k)) = i + length (json_string k)" "char_at doc (i + length (json_string k)) 58"
    by (simp_all add: char_at_def)
  ultimately show ?thesis using assms(3) by (simp add: parse_object_def)
qed

lemma reaches_last_member:
  assumes "reads_scalar d fr (JStr k)" and "drop i doc = json_string k @ 58 # txt" and "k \<notin> fst ` set members"
    and "reaches d doc (Value (Suc (i + length (json_string k))) (path @ [Key k])) v e" and "drop e doc = 125 # post"
  shows "reaches d doc (Members i path members) (JObj (members @ [(k, v)])) (Suc e)"
proof -
  from assms(4) obtain n spans where
    n: "parse d doc n (Value (Suc (i + length (json_string k))) (path @ [Key k])) = Some (Inr (v, e, spans))"
    unfolding reaches_def by blast
  have "parse d doc (Suc n) (Members i path members) = Some (Inr (JObj (members @ [(k, v)]), Suc e, spans))"
    by (simp add: parse_task_def parse_member[OF assms(1-3)] n then_parse_def parse_more_close[OF assms(5)])
  then show ?thesis unfolding reaches_def by blast
qed

lemma reaches_member:
  assumes "reads_scalar d fr (JStr k)" and "drop i doc = json_string k @ 58 # txt" and "k \<notin> fst ` set members"
    and "reaches d doc (Value (Suc (i + length (json_string k))) (path @ [Key k])) v e"
    and "drop e doc = 44 # c # s" and "\<not> json_space c"
    and "reaches d doc (Members (Suc e) path (members @ [(k, v)])) w e'"
  shows "reaches d doc (Members i path members) w e'"
proof -
  from assms(4,7) obtain n spans m spans' where
    "parse d doc n (Value (Suc (i + length (json_string k))) (path @ [Key k])) = Some (Inr (v, e, spans))"
    "parse d doc m (Members (Suc e) path (members @ [(k, v)])) = Some (Inr (w, e', spans'))"
    unfolding reaches_def by blast
  then have n: "parse d doc (n + m) (Value (Suc (i + length (json_string k))) (path @ [Key k])) = Some (Inr (v, e, spans))"
    "parse d doc (n + m) (Members (Suc e) path (members @ [(k, v)])) = Some (Inr (w, e', spans'))"
    by (auto elim: parse_more_fuel)
  have "parse d doc (Suc (n + m)) (Members i path members) = Some (Inr (w, e', spans @ spans'))"
    by (simp add: parse_task_def parse_member[OF assms(1-3)] n then_parse_def parse_more_comma[OF assms(5,6)])
  then show ?thesis unfolding reaches_def by blast
qed

section \<open>A whole value\<close>

definition reads :: "decoder \<Rightarrow> (real \<Rightarrow> pystr) \<Rightarrow> json \<Rightarrow> bool" where
  "reads d fr v \<longleftrightarrow>
     (\<exists>c s. json_dumps fr v = c # s \<and> \<not> json_space c \<and> c \<notin> {93, 125})
     \<and> (\<forall>doc i path post. drop i doc = json_dumps fr v @ post \<longrightarrow> ends_token post \<longrightarrow>
           reaches d doc (Value i path) (sort_json v) (i + length (json_dumps fr v)))"

lemma readsD:
  "reads d fr v \<Longrightarrow> drop i doc = json_dumps fr v @ post \<Longrightarrow> ends_token post \<Longrightarrow>
     reaches d doc (Value i path) (sort_json v) (i + length (json_dumps fr v))"
  unfolding reads_def by blast

lemma reads_start: "reads d fr v \<Longrightarrow> \<exists>c s. json_dumps fr v = c # s \<and> \<not> json_space c \<and> c \<notin> {93, 125}"
  unfolding reads_def by blast

lemma reads_leaf: "reads_scalar d fr v \<Longrightarrow> sort_json v = v \<Longrightarrow> reads d fr v"
  unfolding reads_def using reaches_scalar[of d fr v] by (auto simp: reads_scalar_def split: list.splits)

lemma reaches_elements:
  assumes "\<And>x. x \<in> set xs \<Longrightarrow> reads d fr x" and "xs \<noteq> []"
    and "drop i doc = join_on 44 (map (json_dumps fr) xs) @ 93 # post"
  shows "reaches d doc (Elements i path acc) (JList (acc @ map sort_json xs)) (Suc (i + length (join_on 44 (map (json_dumps fr) xs))))"
  using assms
proof (induction xs arbitrary: i acc)
  case (Cons x xs)
  let ?e = "i + length (json_dumps fr x)"
  have x: "reads d fr x" using Cons.prems by simp
  show ?case
  proof (cases xs)
    case Nil
    then have t: "drop i doc = json_dumps fr x @ 93 # post" using Cons.prems by simp
    from reaches_last_element[OF readsD[OF x t] behind[OF t]] Nil show ?thesis by (simp add: ends_token_def)
  next
    case (Cons y ys)
    then have t: "drop i doc = json_dumps fr x @ 44 # join_on 44 (map (json_dumps fr) xs) @ 93 # post"
      using Cons.prems by (simp add: join_on_Cons)
    note rest = behind[OF t]
    from Cons.prems Cons have "reads d fr y" by simp
    then obtain c s where c: "json_dumps fr y = c # s" "\<not> json_space c" using reads_start by blast
    obtain tail where "join_on 44 (map (json_dumps fr) xs) @ 93 # post = c # tail"
      using Cons c by (cases ys) auto
    then have next_char: "drop ?e doc = 44 # c # tail" using rest by simp
    have "reaches d doc (Value i (path @ [Index (length acc)])) (sort_json x) ?e"
      using readsD[OF x t] by (simp add: ends_token_def)
    moreover have "reaches d doc (Elements (Suc ?e) path (acc @ [sort_json x]))
        (JList ((acc @ [sort_json x]) @ map sort_json xs)) (Suc (Suc ?e + length (join_on 44 (map (json_dumps fr) xs))))"
      using Cons.IH[of "Suc ?e" "acc @ [sort_json x]"] Cons.prems Cons at_char(3)[OF rest] by simp
    ultimately show ?thesis
      using reaches_element[OF _ next_char c(2)] Cons by (simp add: join_on_Cons add.assoc)
  qed
qed simp

lemma insert_entry_values:
  "insert_entry (k, f v) (map (\<lambda>p. (fst p, f (snd p))) qs) = map (\<lambda>p. (fst p, f (snd p))) (insert_entry (k, v) qs)"
  by (induction qs) auto

lemma sort_entries_values:
  "sort_entries (map (\<lambda>p. (fst p, f (snd p))) ps) = map (\<lambda>p. (fst p, f (snd p))) (sort_entries ps)"
  by (induction ps) (auto simp: sort_entries_def insert_entry_values)

definition entry_text :: "(real \<Rightarrow> pystr) \<Rightarrow> pystr \<times> json \<Rightarrow> pystr" where
  "entry_text fr p = json_string (fst p) @ [58] @ json_dumps fr (snd p)"

lemma entry_text_pair: "entry_text fr (k, v) = json_string k @ 58 # json_dumps fr v"
  by (simp add: entry_text_def)

lemma json_dumps_object: "json_dumps fr (JObj m) = 123 # join_on 44 (map (entry_text fr) (sort_entries m)) @ [125]"
  by (simp add: sort_entries_values[of "json_dumps fr" m] comp_def render_entry_def entry_text_def[abs_def])

lemma reaches_members:
  assumes "\<And>p. p \<in> set es \<Longrightarrow> reads_scalar d fr (JStr (fst p)) \<and> reads d fr (snd p)" and "es \<noteq> []"
    and "distinct (map fst acc @ map fst es)"
    and "drop i doc = join_on 44 (map (entry_text fr) es) @ 125 # post"
  shows "reaches d doc (Members i path acc) (JObj (acc @ map (\<lambda>p. (fst p, sort_json (snd p))) es))
           (Suc (i + length (join_on 44 (map (entry_text fr) es))))"
  using assms
proof (induction es arbitrary: i acc)
  case (Cons p es)
  obtain k v where p: "p = (k, v)" by (cases p)
  let ?i = "Suc (i + length (json_string k))"
  let ?e = "?i + length (json_dumps fr v)"
  have k: "reads_scalar d fr (JStr k)" and v: "reads d fr v" using Cons.prems(1)[of p] p by simp_all
  have new: "k \<notin> fst ` set acc" using Cons.prems(3) p by auto
  show ?case
  proof (cases es)
    case Nil
    then have t: "drop i doc = json_string k @ 58 # json_dumps fr v @ 125 # post"
      using Cons.prems(4) p by (simp add: entry_text_pair)
    note value_text = at_char(3)[OF behind[OF t]]
    from reaches_last_member[OF k t new readsD[OF v value_text] behind[OF value_text]] Nil p
    show ?thesis by (simp add: ends_token_def entry_text_pair add.assoc)
  next
    case (Cons q qs)
    then have t: "drop i doc = json_string k @ 58 # json_dumps fr v @ 44 # join_on 44 (map (entry_text fr) es) @ 125 # post"
      using Cons.prems(4) p by (simp add: join_on_Cons entry_text_pair)
    note value_text = at_char(3)[OF behind[OF t]]
    note rest = behind[OF value_text]
    obtain tail where "join_on 44 (map (entry_text fr) es) @ 125 # post = 34 # tail"
      using Cons by (cases qs) (auto simp: entry_text_def json_string_def)
    then have next_char: "drop ?e doc = 44 # 34 # tail" using rest by simp
    have "reaches d doc (Value ?i (path @ [Key k])) (sort_json v) ?e"
      using readsD[OF v value_text] by (simp add: ends_token_def)
    moreover have "reaches d doc (Members (Suc ?e) path (acc @ [(k, sort_json v)]))
        (JObj ((acc @ [(k, sort_json v)]) @ map (\<lambda>p. (fst p, sort_json (snd p))) es))
        (Suc (Suc ?e + length (join_on 44 (map (entry_text fr) es))))"
      using Cons.IH[of "acc @ [(k, sort_json v)]" "Suc ?e"] Cons.prems Cons p at_char(3)[OF rest] by simp
    ultimately show ?thesis
      using reaches_member[OF k t new _ next_char] Cons p by (simp add: join_on_Cons entry_text_pair json_space_def add.assoc)
  qed
qed simp

lemma scalars_read:
  assumes "list_all (reads_scalar d fr) (scalars v)" and "json_wf v"
  shows "reads d fr v"
  using assms
proof (induction v)
  case (JList xs)
  have each: "reads d fr x" if "x \<in> set xs" for x
    using JList that by (auto simp: list_all_iff)
  show ?case
    unfolding reads_def
  proof (intro conjI allI impI)
    fix doc i path post
    assume t: "drop i doc = json_dumps fr (JList xs) @ post"
    then have t': "drop i doc = 91 # join_on 44 (map (json_dumps fr) xs) @ 93 # post" by simp
    note c = at_char[OF t']
    show "reaches d doc (Value i path) (sort_json (JList xs)) (i + length (json_dumps fr (JList xs)))"
    proof (cases xs)
      case Nil
      then have "parse d doc (Suc 0) (Value i path) = Some (Inr (JList [], i + 2, []))"
        using c at_char[OF c(3)[unfolded Nil, simplified]] by (simp add: parse_task_def parse_value_def char_at_def)
      from reachesI[OF this] Nil show ?thesis by simp
    next
      case (Cons y ys)
      obtain z s where z: "json_dumps fr y = z # s" "\<not> json_space z" "z \<noteq> 93" using reads_start[OF each[of y]] Cons by auto
      then obtain tail where tail: "drop (Suc i) doc = z # tail" using c(3) Cons by (cases ys) auto
      from reaches_elements[OF each _ c(3), of path "[]"] Cons obtain n spans where
        n: "parse d doc n (Elements (Suc i) path []) =
          Some (Inr (JList (map sort_json xs), Suc (Suc i + length (join_on 44 (map (json_dumps fr) xs))), spans))"
        unfolding reaches_def by auto
      have "parse d doc (Suc n) (Value i path) =
          Some (Inr (JList (map sort_json xs), Suc (Suc i + length (join_on 44 (map (json_dumps fr) xs))), spans))"
        using c at_char[OF tail] z n by (simp add: parse_task_def parse_value_def char_at_def)
      from reachesI[OF this] show ?thesis by simp
    qed
  qed simp
next
  case (JObj m)
  let ?es = "sort_entries m"
  have each: "reads_scalar d fr (JStr (fst p)) \<and> reads d fr (snd p)" if "p \<in> set ?es" for p
    using JObj that by (cases p) (force simp: list_all_iff snds.simps)
  have keys: "distinct (map fst [] @ map fst ?es)" using JObj.prems by (simp add: distinct_sort_entries)
  show ?case
    unfolding reads_def
  proof (intro conjI allI impI)
    show "\<exists>c s. json_dumps fr (JObj m) = c # s \<and> \<not> json_space c \<and> c \<notin> {93, 125}" by (simp add: json_dumps_object del: json_dumps.simps)
    fix doc i path post
    assume t: "drop i doc = json_dumps fr (JObj m) @ post"
    then have t': "drop i doc = 123 # join_on 44 (map (entry_text fr) ?es) @ 125 # post" by (simp add: json_dumps_object del: json_dumps.simps)
    note c = at_char[OF t']
    have out: "sort_json (JObj m) = JObj (map (\<lambda>p. (fst p, sort_json (snd p))) ?es)" by (simp add: sort_entries_values)
    show "reaches d doc (Value i path) (sort_json (JObj m)) (i + length (json_dumps fr (JObj m)))"
    proof (cases ?es)
      case Nil
      then have "parse d doc (Suc 0) (Value i path) = Some (Inr (JObj [], i + 2, []))"
        using c at_char[OF c(3)[unfolded Nil, simplified]] by (simp add: parse_task_def parse_value_def char_at_def)
      from reachesI[OF this] show ?thesis unfolding out json_dumps_object using Nil by (simp del: json_dumps.simps sort_json.simps)
    next
      case (Cons q qs)
      then obtain tail where tail: "drop (Suc i) doc = 34 # tail" using c(3) by (cases qs) (auto simp: entry_text_def json_string_def)
      from reaches_members[OF each _ keys c(3), of path] Cons obtain n spans where
        n: "parse d doc n (Members (Suc i) path []) =
          Some (Inr (JObj (map (\<lambda>p. (fst p, sort_json (snd p))) ?es), Suc (Suc i + length (join_on 44 (map (entry_text fr) ?es))), spans))"
        unfolding reaches_def by auto
      have "parse d doc (Suc n) (Value i path) =
          Some (Inr (JObj (map (\<lambda>p. (fst p, sort_json (snd p))) ?es), Suc (Suc i + length (join_on 44 (map (entry_text fr) ?es))), spans))"
        using c at_char[OF tail] n by (simp add: parse_task_def parse_value_def char_at_def json_space_def)
      from reachesI[OF this] show ?thesis unfolding out json_dumps_object by (simp del: json_dumps.simps sort_json.simps)
    qed
  qed
qed (auto intro!: reads_leaf)

text \<open>The text is ASCII, so its bytes decode to it.\<close>

lemma ascii_join: "(\<And>l. l \<in> set ls \<Longrightarrow> \<forall>c\<in>set l. c < (128::nat)) \<Longrightarrow> \<forall>c\<in>set (join_on 44 ls). c < 128"
  using set_join_on[of 44 ls] by fastforce

lemma ascii_dumps:
  assumes "list_all (reads_scalar d fr) (scalars v)"
  shows "\<forall>c\<in>set (json_dumps fr v). c < 128"
  using assms
proof (induction v)
  case (JList xs)
  then have "\<forall>c\<in>set (join_on 44 (map (json_dumps fr) xs)). c < 128"
    by (intro ascii_join) (auto simp: list_all_iff)
  then show ?case by auto
next
  case (JObj m)
  have "\<forall>c\<in>set (entry_text fr p). c < 128" if "p \<in> set m" for p
  proof -
    from that JObj.prems have "reads_scalar d fr (JStr (fst p))" "list_all (reads_scalar d fr) (scalars (snd p))"
      by (auto simp: list_all_iff)
    moreover from this(1) have "\<forall>c\<in>set (json_string (fst p)). c < 128"
      by (auto simp: reads_scalar_def list_all_iff split: list.splits)
    ultimately show ?thesis using that JObj.IH[of p "snd p"] by (cases p) (auto simp: entry_text_def snds.simps)
  qed
  then have "\<forall>c\<in>set (join_on 44 (map (entry_text fr) (sort_entries m))). c < 128"
    by (intro ascii_join) auto
  then show ?case unfolding json_dumps_object by auto
qed (auto simp: reads_scalar_def list_all_iff split: list.splits)

lemma canonical_document:
  assumes "list_all (reads_scalar d fr) (scalars v)" and "json_wf v"
  shows "\<exists>spans. json_document d (json_bytes fr v) = Inr (json_bytes fr v, sort_json v, spans)"
proof -
  let ?doc = "json_dumps fr v"
  have "utf8_decode ?doc = Inr ?doc"
    using ascii_dumps[OF assms(1)] by (intro utf8_decode_encode utf8_encode_ascii) simp
  moreover have "reaches d ?doc (Value 0 []) (sort_json v) (length ?doc)"
    using readsD[OF scalars_read[OF assms], of 0 ?doc "[]" "[]"] by (simp add: ends_token_def)
  then obtain n spans where n: "parse d ?doc n (Value 0 []) = Some (Inr (sort_json v, length ?doc, spans))"
    unfolding reaches_def by blast
  have "parse d ?doc (parse_fuel ?doc) (Value 0 []) = Some (Inr (sort_json v, length ?doc, spans))"
  proof -
    obtain r where "parse d ?doc (parse_fuel ?doc) (Value 0 []) = Some r" using document_parses[of d ?doc] by blast
    then show ?thesis
      using n parse_more_fuel[of d ?doc n "Value 0 []" _ "max n (parse_fuel ?doc)"]
        parse_more_fuel[of d ?doc "parse_fuel ?doc" "Value 0 []" r "max n (parse_fuel ?doc)"] by simp
  qed
  ultimately show ?thesis by (simp add: json_document_def json_bytes_def skip_space_def)
qed

section \<open>A decoder of plain scalars\<close>

definition plain_scalars :: decoder where
  "plain_scalars s =
     (case s of
        [] \<Rightarrow> Inl (ValueError ''Expecting value'')
      | c # r \<Rightarrow>
          if c = 34 then (let w = takeWhile (\<lambda>x. x \<noteq> 34) r in Inr (JStr w, Suc (length w)))
          else (let w = takeWhile is_digit s
                in if w = [] then Inl (ValueError ''Expecting value'')
                   else Inr (JInt (int (foldl (\<lambda>n x. n * 10 + (x - 48)) 0 w)), length w - 1)))"

definition plain_text :: "pystr \<Rightarrow> bool" where
  "plain_text s \<longleftrightarrow> list_all (\<lambda>c. 32 \<le> c \<and> c \<le> 126 \<and> c \<noteq> 34 \<and> c \<noteq> 92) s"

lemma plain_json_string: "plain_text s \<Longrightarrow> json_string s = 34 # s @ [34]"
  unfolding json_string_def plain_text_def by (induction s) (auto simp: json_escape_char_def)

lemma reads_plain_string: "plain_text s \<Longrightarrow> reads_scalar plain_scalars fr (JStr s)"
proof -
  assume s: "plain_text s"
  then have "list_all (\<lambda>x. x < 128) s" and "takeWhile (\<lambda>x. x \<noteq> 34) (s @ 34 # rest) = s" for rest
    by (auto simp: plain_text_def list_all_iff takeWhile_append2)
  with s show ?thesis by (simp add: reads_scalar_def plain_json_string json_space_def plain_scalars_def)
qed

lemma reads_plain_int:
  assumes "int_str i = w" and "w \<noteq> []" and "list_all is_digit w" and "int (foldl (\<lambda>n x. n * 10 + (x - 48)) 0 w) = i"
  shows "reads_scalar plain_scalars fr (JInt i)"
proof -
  from assms obtain c s where w: "w = c # s" "is_digit c" by (cases w) auto
  have stop: "takeWhile is_digit (w @ rest) = w" if "ends_token rest" for rest
  proof -
    have "takeWhile is_digit rest = []" using that by (cases rest) (auto simp: ends_token_def is_digit_def)
    then show ?thesis using assms(3) by (simp add: list_all_iff takeWhile_append2)
  qed
  have "list_all (\<lambda>x. x < 128) w" using assms(3) by (auto simp: list_all_iff is_digit_def)
  moreover have "c \<notin> {9, 10, 13, 32, 34, 91, 93, 123, 125}" using w by (auto simp: is_digit_def)
  ultimately show ?thesis
    using assms(1,4) w stop by (simp add: reads_scalar_def plain_scalars_def json_space_def)
qed

lemma reads_plain_digit: "reads_scalar plain_scalars fr (JInt 2)"
  by (rule reads_plain_int[of _ "[50]"]) (simp_all add: is_digit_def, code_simp)

text \<open>
  C34: Reading back a document that the canonical encoder wrote: if the scalar decoder reads the text of every
  string, number and constant of the value, then the scanner of the version plan accepts the document and returns
  the value, with the members of its objects in the order of their keys.
\<close>

theorem canonical_json_reads_back:
  assumes "list_all (reads_scalar d fr) (scalars v)" and "json_wf v"
  shows "\<exists>spans. json_document d (json_bytes fr v) = Inr (json_bytes fr v, sort_json v, spans)"
  by (rule canonical_document[OF assms])

theorem canonical_json_reads_back_witness:
  "\<exists>spans. json_document plain_scalars (json_bytes (\<lambda>_. []) (JObj [(lit ''b'', JStr (lit ''x y'')), (lit ''a'', JList [JInt 2, JObj []])]))
     = Inr (lit ''{\"a\":[2,{}],\"b\":\"x y\"}'', JObj [(lit ''a'', JList [JInt 2, JObj []]), (lit ''b'', JStr (lit ''x y''))], spans)"
proof -
  let ?v = "JObj [(lit ''b'', JStr (lit ''x y'')), (lit ''a'', JList [JInt 2, JObj []])]"
  have "list_all (reads_scalar plain_scalars (\<lambda>_. [])) (scalars ?v)"
    using reads_plain_digit by (auto intro!: reads_plain_string simp: plain_text_def lit_def)
  moreover have "json_wf ?v" by simp
  moreover have "json_bytes (\<lambda>_. []) ?v = lit ''{\"a\":[2,{}],\"b\":\"x y\"}''"
    "sort_json ?v = JObj [(lit ''a'', JList [JInt 2, JObj []]), (lit ''b'', JStr (lit ''x y''))]" by code_simp+
  ultimately show ?thesis using canonical_json_reads_back[of plain_scalars "\<lambda>_. []" ?v] by simp
qed

end
