(* ===== verification/Oci_Graph.thy ===== *)
theory Oci_Graph
  imports Version_Edit Json_Roundtrip
begin

text \<open>
  The verification of a container archive in \<open>scripts/version_plan.py\<close> (\<open>_OciMetadata\<close>): the bounded walk over the
  digest graph of indexes, manifests, configs and attestations. The archive is the list of its members as the
  tar reader gives them; \<open>oc_str\<close> is Python's \<open>str\<close> of a parsed value. A method is a function from the state of
  the object to a result and the next state; after an exception the object is not used again.
\<close>

section \<open>Archives\<close>

record member =
  mb_file :: bool
  mb_size :: nat
  mb_content :: bytes

record tar_entry =
  te_name :: pystr
  te_dir :: bool
  te_member :: member

text \<open>Leading \<open>./\<close> is dropped, a path that is not confined has no name.\<close>

fun strip_dot :: "pystr \<Rightarrow> pystr" where
  "strip_dot (c # d # s) = (if c = 46 \<and> d = 47 then strip_dot s else c # d # s)"
| "strip_dot s = s"

definition archive_name :: "pystr \<Rightarrow> pystr option" where
  "archive_name s = (case relative (JStr (strip_dot s)) of Inr p \<Rightarrow> Some p | Inl _ \<Rightarrow> None)"

fun collect_members :: "nat \<Rightarrow> (pystr \<times> member) list \<Rightarrow> tar_entry list \<Rightarrow> (pystr \<times> member) list result" where
  "collect_members n members [] = Inr members"
| "collect_members n members (e # es) =
     vreq (n < 100000) ''OCI archive has too many members''
      (if te_dir e then collect_members (Suc n) members es
       else (case archive_name (te_name e) of
               None \<Rightarrow> Inl (VersionError ''Unsafe or duplicate OCI archive member'')
             | Some name \<Rightarrow>
                 vreq (name \<notin> fst ` set members) ''Unsafe or duplicate OCI archive member''
                   (collect_members (Suc n) (members @ [(name, te_member e)]) es)))"

section \<open>The object\<close>

type_synonym descriptor_id = "json \<times> json \<times> json"

record oci_env =
  oc_sha :: sha256
  oc_decode :: decoder
  oc_str :: "json \<Rightarrow> pystr"
  oc_field :: "pystr list"
  oc_expected :: pystr
  oc_members :: "(pystr \<times> member) list"

record oci_state =
  os_images :: "json_dict list"
  os_verified :: "pystr list"
  os_runnable :: "(descriptor_id \<times> json_dict) list"
  os_subjects :: "(descriptor_id \<times> json) list"
  os_legacy :: "pystr list"
  os_visited :: nat
  os_bytes :: nat

definition oci_start :: oci_state where
  "oci_start = \<lparr>os_images = [], os_verified = [], os_runnable = [], os_subjects = [], os_legacy = [], os_visited = 0, os_bytes = 0\<rparr>"

type_synonym 'a oci = "oci_state \<Rightarrow> ('a \<times> oci_state) result"

definition oci_lift :: "'a result \<Rightarrow> 'a oci" where
  "oci_lift r s = bind_r r (\<lambda>x. Inr (x, s))"

definition oci_bind :: "'a oci \<Rightarrow> ('a \<Rightarrow> 'b oci) \<Rightarrow> 'b oci" where
  "oci_bind m f s = bind_r (m s) (\<lambda>(x, s'). f x s')"

definition oci_require :: "bool \<Rightarrow> string \<Rightarrow> 'a oci \<Rightarrow> 'a oci" where
  "oci_require c msg m s = vreq c msg (m s)"

definition oci_update :: "(oci_state \<Rightarrow> oci_state) \<Rightarrow> unit oci" where
  "oci_update f s = Inr ((), f s)"

primrec oci_each :: "('a \<Rightarrow> unit oci) \<Rightarrow> 'a list \<Rightarrow> unit oci" where
  "oci_each f [] = oci_lift (Inr ())"
| "oci_each f (x # xs) = oci_bind (f x) (\<lambda>_. oci_each f xs)"

section \<open>Reading blobs\<close>

definition MAX_OCI_METADATA :: nat where
  "MAX_OCI_METADATA = 32000000"

definition oci_read :: "oci_env \<Rightarrow> pystr \<Rightarrow> bytes oci" where
  "oci_read env name =
     (case map_of (oc_members env) name of
        None \<Rightarrow> oci_lift (Inl (VersionError ''Missing or oversized OCI metadata''))
      | Some e \<Rightarrow>
          let raw = take (MAX_METADATA + 1) (mb_content e)
          in oci_require (mb_file e \<and> 0 < mb_size e \<and> mb_size e \<le> MAX_METADATA) ''Missing or oversized OCI metadata''
            (oci_require (length raw = mb_size e) ''Truncated OCI metadata''
            (oci_bind (oci_update (\<lambda>s. s\<lparr>os_bytes := os_bytes s + length raw\<rparr>)) (\<lambda>_ s.
               vreq (os_bytes s \<le> MAX_OCI_METADATA) ''OCI metadata exceeds aggregate limit'' (Inr (raw, s))))))"

definition is_oci_digest :: "pystr \<Rightarrow> bool" where
  "is_oci_digest s \<longleftrightarrow> take 7 s = lit ''sha256:'' \<and> SHA256 (drop 7 s)"

text \<open>A descriptor that names a present blob of its size: the digest without its prefix.\<close>

definition present_blob :: "oci_env \<Rightarrow> json \<Rightarrow> pystr result" where
  "present_blob env descriptor =
     (case descriptor of
        JObj d \<Rightarrow>
          vreq (case dict_get d (lit ''digest'') (JStr []) of JStr s \<Rightarrow> is_oci_digest s | _ \<Rightarrow> False)
            ''OCI descriptor requires a sha256 digest''
         (let name = drop 7 (jstr_val (jget d ''digest''))
          in case jget d ''size'' of
               JInt n \<Rightarrow>
                 vreq (0 \<le> n) ''Invalid OCI descriptor size''
                  (case map_of (oc_members env) (lit ''blobs/sha256/'' @ name) of
                     Some e \<Rightarrow> vreq (mb_file e \<and> int (mb_size e) = n)
                                 ''OCI descriptor blob is missing or has a different size'' (Inr name)
                   | None \<Rightarrow> Inl (VersionError ''OCI descriptor blob is missing or has a different size''))
             | _ \<Rightarrow> Inl (VersionError ''Invalid OCI descriptor size''))
      | _ \<Rightarrow> Inl (VersionError ''OCI descriptor must be an object''))"

definition oci_blob :: "oci_env \<Rightarrow> json \<Rightarrow> json_dict oci" where
  "oci_blob env descriptor =
     oci_bind (oci_lift (present_blob env descriptor)) (\<lambda>name.
     oci_bind (oci_read env (lit ''blobs/sha256/'' @ name)) (\<lambda>raw.
     oci_require (oc_sha env raw = name) ''OCI metadata digest mismatch''
    (oci_bind (oci_update (\<lambda>s. s\<lparr>os_verified := os_verified s @ [lit ''sha256:'' @ name]\<rparr>)) (\<lambda>_.
     oci_bind (oci_lift (json_document (oc_decode env) raw)) (\<lambda>(_, data, _).
       oci_lift (case data of JObj d \<Rightarrow> Inr d | _ \<Rightarrow> Inl (VersionError ''OCI metadata must be an object'')))))))"

section \<open>Media types\<close>

definition INDEX_TYPES :: "string list" where
  "INDEX_TYPES =
     [''application/vnd.oci.image.index.v1+json'', ''application/vnd.docker.distribution.manifest.list.v2+json'']"

definition OCI_MANIFEST :: string where
  "OCI_MANIFEST = ''application/vnd.oci.image.manifest.v1+json''"

definition MANIFEST_TYPES :: "string list" where
  "MANIFEST_TYPES = [OCI_MANIFEST, ''application/vnd.docker.distribution.manifest.v2+json'']"

definition CONFIG_TYPES :: "string list" where
  "CONFIG_TYPES = [''application/vnd.oci.image.config.v1+json'', ''application/vnd.docker.container.image.v1+json'']"

definition ATTESTATION_TYPE :: string where
  "ATTESTATION_TYPE = ''application/vnd.docker.attestation.manifest.v1+json''"

definition EMPTY_CONFIG_TYPE :: string where
  "EMPTY_CONFIG_TYPE = ''application/vnd.oci.empty.v1+json''"

definition descriptor_key :: "json_dict \<Rightarrow> descriptor_id" where
  "descriptor_key d = (jget d ''mediaType'', jget d ''digest'', jget d ''size'')"

definition none_or_strings :: "json \<Rightarrow> string list \<Rightarrow> bool result" where
  "none_or_strings v names = (if v = JNull then Inr True else in_strings v names)"

text \<open>\<open>descriptor.get(k) or {}\<close>, an object.\<close>

definition object_or_empty :: "json_dict \<Rightarrow> string \<Rightarrow> string \<Rightarrow> json_dict result" where
  "object_or_empty d k msg =
     (if \<not> truthy (jget d k) then Inr []
      else (case jget d k of JObj inner \<Rightarrow> Inr inner | _ \<Rightarrow> Inl (VersionError msg)))"

definition bounded_items :: "json \<Rightarrow> nat \<Rightarrow> nat \<Rightarrow> string \<Rightarrow> json list result" where
  "bounded_items v low high msg =
     (case v of
        JList xs \<Rightarrow> vreq (low \<le> length xs \<and> length xs \<le> high) msg (Inr xs)
      | _ \<Rightarrow> Inl (VersionError msg))"

section \<open>Attestations\<close>

definition empty_config :: "oci_env \<Rightarrow> json \<Rightarrow> bool" where
  "empty_config env config =
     (case config of
        JObj c \<Rightarrow>
          jget c ''mediaType'' = JStr (lit EMPTY_CONFIG_TYPE)
          \<and> jget c ''digest'' = JStr (lit ''sha256:'' @ oc_sha env (lit ''{}'')) \<and> json_eq (jget c ''size'') (JInt 2)
          \<and> (has_key c ''data'' \<longrightarrow> jget c ''data'' = JStr (lit ''e30=''))
      | _ \<Rightarrow> False)"

definition artifact_attestation :: "oci_env \<Rightarrow> json_dict \<Rightarrow> json_dict \<Rightarrow> json \<Rightarrow> unit oci" where
  "artifact_attestation env descriptor data reference =
     oci_bind (oci_lift (if jget data ''artifactType'' = JStr (lit ATTESTATION_TYPE)
                            \<and> jget descriptor ''mediaType'' = JStr (lit OCI_MANIFEST)
                         then none_or_strings (jget descriptor ''artifactType'') [ATTESTATION_TYPE] else Inr False)) (\<lambda>typed.
     oci_require typed ''Invalid OCI attestation artifact type''
    (oci_require (empty_config env (jget data ''config'')) ''Invalid OCI attestation config''
    (oci_bind (oci_blob env (jget data ''config'')) (\<lambda>contents.
     oci_require (contents = []) ''Invalid OCI attestation config contents''
    (case jget data ''subject'' of
       JObj subject \<Rightarrow>
         oci_require (jget subject ''mediaType'' = JStr (lit OCI_MANIFEST) \<and> \<not> has_key subject ''artifactType'')
           ''Invalid OCI attestation subject''
        (oci_bind (oci_lift (present_blob env (JObj subject))) (\<lambda>_.
         oci_require (jget subject ''platform'' = JNull \<or> is_obj (jget subject ''platform''))
           ''Invalid OCI attestation subject platform''
        (oci_require (reference = JNull \<or> json_eq reference (jget subject ''digest''))
           ''OCI attestation reference differs from subject''
          (oci_update (\<lambda>s. s\<lparr>os_subjects := os_subjects s @ [(descriptor_key subject, jget subject ''platform'')]\<rparr>)))))
     | _ \<Rightarrow> oci_lift (Inl (VersionError ''Invalid OCI attestation subject'')))))))"

definition legacy_attestation :: "oci_env \<Rightarrow> json_dict \<Rightarrow> json \<Rightarrow> json \<Rightarrow> unit oci" where
  "legacy_attestation env descriptor config reference =
     oci_bind (oci_lift (case config of
         JObj c \<Rightarrow> if jget descriptor ''artifactType'' = JNull then in_strings (jget c ''mediaType'') CONFIG_TYPES else Inr False
       | _ \<Rightarrow> Inr False)) (\<lambda>typed.
     oci_require typed ''Invalid OCI attestation config''
    (oci_bind (oci_blob env config) (\<lambda>details.
     oci_require (jget details ''os'' = JStr (lit ''unknown'') \<and> jget details ''architecture'' = JStr (lit ''unknown''))
       ''OCI attestation contains a runnable image''
      (if reference = JNull then oci_lift (Inr ())
       else oci_update (\<lambda>s. s\<lparr>os_legacy := os_legacy s @ [jstr_val reference]\<rparr>)))))"

definition attestation_layer :: "oci_env \<Rightarrow> json \<Rightarrow> unit oci" where
  "attestation_layer env layer =
     (case layer of
        JObj l \<Rightarrow>
          oci_require (jget l ''mediaType'' = JStr (lit ''application/vnd.in-toto+json'')) ''Unsupported OCI attestation layer''
            (oci_bind (oci_lift (present_blob env layer)) (\<lambda>_. oci_lift (Inr ())))
      | _ \<Rightarrow> oci_lift (Inl (VersionError ''Unsupported OCI attestation layer'')))"

definition attestation :: "oci_env \<Rightarrow> json_dict \<Rightarrow> json_dict \<Rightarrow> json_dict \<Rightarrow> json_dict \<Rightarrow> unit oci" where
  "attestation env descriptor data platform annotations =
     (let reference = jget annotations ''vnd.docker.reference.digest''
      in oci_bind (oci_lift (bind_r (in_strings (jget descriptor ''mediaType'') MANIFEST_TYPES) (\<lambda>known.
           if known \<and> jget platform ''os'' = JStr (lit ''unknown'') \<and> jget platform ''architecture'' = JStr (lit ''unknown'')
           then none_or_strings (jget annotations ''vnd.docker.reference.type'') [''attestation-manifest''] else Inr False)))
           (\<lambda>unambiguous.
         oci_require unambiguous ''Ambiguous OCI attestation descriptor''
        (oci_require (reference = JNull \<or> (case reference of JStr r \<Rightarrow> is_oci_digest r | _ \<Rightarrow> False))
           ''Invalid OCI attestation reference digest''
        (oci_bind (if jget data ''artifactType'' \<noteq> JNull then artifact_attestation env descriptor data reference
                   else legacy_attestation env descriptor (jget data ''config'') reference) (\<lambda>_.
         oci_bind (oci_lift (bounded_items (jget data ''layers'') 1 4096 ''Invalid OCI attestation layers'')) (\<lambda>layers.
           oci_each (attestation_layer env) layers)))))) "

section \<open>Images\<close>

definition platform_identity :: "json_dict \<Rightarrow> json_dict \<Rightarrow> string \<Rightarrow> unit result" where
  "platform_identity details platform k =
     vreq (case jget details k of JStr s \<Rightarrow> s \<notin> {[], lit ''unknown''} | _ \<Rightarrow> False)
       ''OCI runnable image has no platform identity''
      (vreq (has_key platform k \<longrightarrow> json_eq (jget platform k) (jget details k))
         ''OCI platform descriptor differs from config'' (Inr ()))"

definition image_row :: "oci_env \<Rightarrow> json_dict \<Rightarrow> json_dict \<Rightarrow> json \<Rightarrow> json_dict" where
  "image_row env config details actual =
     [(lit ''config_sha256'', JStr (drop 7 (jstr_val (jget config ''digest'')))), (lit ''os'', jget details ''os''),
      (lit ''architecture'', jget details ''architecture''), (lit ''version'', JStr (oc_str env actual))]"

definition runnable :: "oci_env \<Rightarrow> json_dict \<Rightarrow> json_dict \<Rightarrow> json_dict \<Rightarrow> unit oci" where
  "runnable env descriptor data platform =
     oci_bind (oci_lift (in_strings (jget descriptor ''mediaType'') MANIFEST_TYPES)) (\<lambda>known.
     oci_require known ''Unsupported OCI descriptor media type''
    (case jget data ''config'' of
       JObj config \<Rightarrow>
         oci_bind (oci_lift (in_strings (jget config ''mediaType'') CONFIG_TYPES)) (\<lambda>typed.
         oci_require typed ''OCI image requires a supported config descriptor''
        (oci_bind (oci_blob env (JObj config)) (\<lambda>details.
         oci_bind (oci_lift (each_r (platform_identity details platform) [''os'', ''architecture''])) (\<lambda>_.
         oci_bind (oci_lift (get_path (JObj details) (map Key (oc_field env)))) (\<lambda>actual.
         oci_require (oc_str env actual = oc_expected env) ''OCI image version mismatch''
        (oci_bind (oci_lift (bounded_items (jget data ''layers'') 0 4096 ''Invalid OCI layer inventory'')) (\<lambda>layers.
         oci_bind (oci_lift (each_r (\<lambda>layer. bind_r (present_blob env layer) (\<lambda>_. Inr ())) layers)) (\<lambda>_.
           oci_update (\<lambda>s. s\<lparr>
             os_runnable := AList.update (descriptor_key descriptor)
               [(lit ''os'', jget details ''os''), (lit ''architecture'', jget details ''architecture'')] (os_runnable s),
             os_images := os_images s @ [image_row env config details actual]\<rparr>)))))))))
     | _ \<Rightarrow> oci_lift (Inl (VersionError ''OCI image requires a supported config descriptor''))))"

section \<open>The graph\<close>

text \<open>The first argument is how many levels are left: nine at the roots, none beyond the depth the source allows.\<close>

primrec oci_walk :: "nat \<Rightarrow> oci_env \<Rightarrow> json \<Rightarrow> unit oci" where
  "oci_walk 0 env descriptor = oci_lift (Inl (VersionError ''OCI metadata graph exceeds limits''))"
| "oci_walk (Suc levels) env descriptor =
     oci_bind (oci_update (\<lambda>s. s\<lparr>os_visited := Suc (os_visited s)\<rparr>)) (\<lambda>_.
     oci_bind (\<lambda>s. vreq (os_visited s \<le> 1024) ''OCI metadata graph exceeds limits'' (Inr ((), s))) (\<lambda>_.
     oci_bind (oci_blob env descriptor) (\<lambda>data.
     oci_bind (oci_lift (as_dict descriptor)) (\<lambda>d.
     oci_require (json_eq (jget data ''schemaVersion'') (JInt 2)
                  \<and> json_eq (dict_get data (lit ''mediaType'') (jget d ''mediaType'')) (jget d ''mediaType''))
       ''OCI manifest schema or media type mismatch''
    (oci_bind (oci_lift (object_or_empty d ''platform'' ''Invalid OCI platform descriptor'')) (\<lambda>platform.
     oci_bind (oci_lift (object_or_empty d ''annotations'' ''Invalid OCI annotations'')) (\<lambda>annotations.
       if jget annotations ''vnd.docker.reference.type'' = JStr (lit ''attestation-manifest'')
          \<or> jget data ''artifactType'' = JStr (lit ATTESTATION_TYPE)
       then attestation env d data platform annotations
       else
         oci_bind (oci_lift (in_strings (jget d ''mediaType'') INDEX_TYPES)) (\<lambda>is_index.
           if is_index
           then oci_bind (oci_lift (bounded_items (jget data ''manifests'') 1 1024 ''OCI index requires a bounded manifest list''))
                  (oci_each (oci_walk levels env))
           else runnable env d data platform))))))))"

definition subject_matches :: "oci_state \<Rightarrow> descriptor_id \<times> json \<Rightarrow> unit result" where
  "subject_matches s subject =
     (case map_of (os_runnable s) (fst subject) of
        None \<Rightarrow> Inl (VersionError ''OCI attestation subject is not a runnable image'')
      | Some target \<Rightarrow>
          (case snd subject of
             JObj p \<Rightarrow>
               vreq (list_all (\<lambda>k. has_key p k \<longrightarrow> json_eq (jget p k) (jget target k)) [''os'', ''architecture''])
                 ''OCI attestation subject platform differs from image'' (Inr ())
           | _ \<Rightarrow> Inr ()))"

definition legacy_matches :: "oci_state \<Rightarrow> pystr \<Rightarrow> unit result" where
  "legacy_matches s reference =
     vreq (JStr reference \<in> (\<lambda>r. fst (snd (fst r))) ` set (os_runnable s)) ''OCI attestation reference is not a runnable image'' (Inr ())"

definition parsed_object :: "oci_env \<Rightarrow> pystr \<Rightarrow> string \<Rightarrow> (bytes \<times> json_dict) oci" where
  "parsed_object env name msg =
     oci_bind (oci_read env name) (\<lambda>raw.
     oci_bind (oci_lift (json_document (oc_decode env) raw)) (\<lambda>(_, data, _).
       oci_lift (case data of JObj d \<Rightarrow> Inr (raw, d) | _ \<Rightarrow> Inl (VersionError msg))))"

definition oci_verify :: "oci_env \<Rightarrow> (bytes \<times> oci_state) oci" where
  "oci_verify env =
     oci_bind (parsed_object env (lit ''oci-layout'') ''Unsupported OCI image layout'') (\<lambda>(_, layout).
     oci_require (jget layout ''imageLayoutVersion'' = JStr (lit ''1.0.0'')) ''Unsupported OCI image layout''
    (oci_bind (parsed_object env (lit ''index.json'') ''Invalid OCI root index'') (\<lambda>(raw, index).
     oci_bind (oci_lift (if json_eq (jget index ''schemaVersion'') (JInt 2)
                         then in_strings (dict_get index (lit ''mediaType'') (JStr (lit (hd INDEX_TYPES)))) INDEX_TYPES else Inr False))
       (\<lambda>valid.
     oci_require valid ''Invalid OCI root index''
    (oci_bind (oci_lift (bounded_items (jget index ''manifests'') 1 1024 ''OCI root index requires a bounded manifest list''))
       (\<lambda>manifests.
     oci_bind (oci_each (oci_walk 9 env) manifests) (\<lambda>_ s.
       bind_r (each_r (subject_matches s) (os_subjects s)) (\<lambda>_.
       bind_r (each_r (legacy_matches s) (os_legacy s)) (\<lambda>_.
       vreq (os_images s \<noteq> []) ''OCI archive has no runnable images'' (Inr ((raw, s), s)))))))))))"

definition oci_evidence :: "oci_env \<Rightarrow> (real \<Rightarrow> pystr) \<Rightarrow> bytes \<Rightarrow> oci_state \<Rightarrow> bytes" where
  "oci_evidence env fr raw s =
     json_bytes fr (JObj
       [(lit ''index_sha256'', JStr (oc_sha env raw)),
        (lit ''metadata'', JList (map JStr (sorted_names (remdups (os_verified s)))))])"

definition oci_metadata ::
  "sha256 \<Rightarrow> decoder \<Rightarrow> (json \<Rightarrow> pystr) \<Rightarrow> (real \<Rightarrow> pystr) \<Rightarrow> tar_entry list \<Rightarrow> pystr list \<Rightarrow> pystr
   \<Rightarrow> (bytes \<times> json_dict list) result" where
  "oci_metadata sha decode str_of fr entries names expected =
     bind_r (collect_members 0 [] entries) (\<lambda>members.
     let env = \<lparr>oc_sha = sha, oc_decode = decode, oc_str = str_of, oc_field = names, oc_expected = expected, oc_members = members\<rparr>
     in bind_r (oci_verify env oci_start) (\<lambda>((raw, s), _). Inr (oci_evidence env fr raw s, os_images s)))"

section \<open>What a verified graph promises\<close>

text \<open>A digest is verified when its blob is a member of the archive and hashes to it.\<close>

definition verified_blob :: "oci_env \<Rightarrow> pystr \<Rightarrow> bool" where
  "verified_blob env name \<longleftrightarrow>
     (case map_of (oc_members env) (lit ''blobs/sha256/'' @ name) of
        None \<Rightarrow> False | Some e \<Rightarrow> mb_file e \<and> oc_sha env (mb_content e) = name)"

text \<open>The object that such a blob holds.\<close>

definition blob_object :: "oci_env \<Rightarrow> pystr \<Rightarrow> json_dict \<Rightarrow> bool" where
  "blob_object env name details \<longleftrightarrow>
     verified_blob env name \<and>
     (case map_of (oc_members env) (lit ''blobs/sha256/'' @ name) of
        None \<Rightarrow> False
      | Some e \<Rightarrow> (case json_document (oc_decode env) (mb_content e) of
                    Inr (_, data, _) \<Rightarrow> data = JObj details | Inl _ \<Rightarrow> False))"

text \<open>A reported image is what a verified config blob says, and the version field of the blob reads as expected.\<close>

definition config_image :: "oci_env \<Rightarrow> json_dict \<Rightarrow> bool" where
  "config_image env row \<longleftrightarrow>
     (\<exists>name details actual.
        blob_object env name details
        \<and> get_path (JObj details) (map Key (oc_field env)) = Inr actual \<and> oc_str env actual = oc_expected env
        \<and> row = [(lit ''config_sha256'', JStr name), (lit ''os'', jget details ''os''),
                   (lit ''architecture'', jget details ''architecture''), (lit ''version'', JStr (oc_expected env))])"

definition sound_graph :: "oci_env \<Rightarrow> nat \<Rightarrow> oci_state \<Rightarrow> bool" where
  "sound_graph env spare s \<longleftrightarrow>
     os_visited s \<le> 1024 \<and> os_bytes s \<le> MAX_OCI_METADATA \<and> length (os_images s) + spare \<le> os_visited s
     \<and> (\<forall>d \<in> set (os_verified s). verified_blob env (drop 7 d))
     \<and> (\<forall>row \<in> set (os_images s). config_image env row)"

text \<open>A step that keeps the graph sound; \<open>spare\<close> counts the visited descriptors that may still add an image.\<close>

definition sound_step :: "oci_env \<Rightarrow> nat \<Rightarrow> 'a oci \<Rightarrow> nat \<Rightarrow> ('a \<Rightarrow> bool) \<Rightarrow> bool" where
  "sound_step env a m b R \<longleftrightarrow>
     (\<forall>s x s'. sound_graph env a s \<longrightarrow> m s = Inr (x, s') \<longrightarrow> sound_graph env b s' \<and> R x)"

lemma sound_stepD: "sound_step env a m b R \<Longrightarrow> m s = Inr (x, s') \<Longrightarrow> sound_graph env a s \<Longrightarrow> sound_graph env b s' \<and> R x"
  unfolding sound_step_def by blast

lemma sound_lift: "(\<And>x. r = Inr x \<Longrightarrow> R x) \<Longrightarrow> sound_step env a (oci_lift r) a R"
  unfolding sound_step_def oci_lift_def by (cases r) (auto simp: bind_r_def)

lemma sound_bind:
  assumes "sound_step env a m b R" and "\<And>x. R x \<Longrightarrow> sound_step env b (f x) c Q"
  shows "sound_step env a (oci_bind m f) c Q"
  unfolding sound_step_def oci_bind_def
proof (intro allI impI)
  fix s y s'
  assume pre: "sound_graph env a s" and run: "bind_r (m s) (\<lambda>(x, s'). f x s') = Inr (y, s')"
  then obtain x s1 where "m s = Inr (x, s1)" and "f x s1 = Inr (y, s')" by (auto simp: bind_r_Inr_iff)
  then show "sound_graph env c s' \<and> Q y" using assms pre unfolding sound_step_def by blast
qed

lemma sound_require: "(c \<Longrightarrow> sound_step env a m b R) \<Longrightarrow> sound_step env a (oci_require c msg m) b R"
  unfolding sound_step_def oci_require_def by (auto simp: guard_r_def split: if_splits)

lemma sound_graph_mono: "sound_graph env a' s \<Longrightarrow> a \<le> a' \<Longrightarrow> sound_graph env a s"
  unfolding sound_graph_def by simp

lemma sound_weaken: "sound_step env a m b R \<Longrightarrow> a \<le> a' \<Longrightarrow> (\<And>x. R x \<Longrightarrow> Q x) \<Longrightarrow> sound_step env a' m b Q"
  unfolding sound_step_def using sound_graph_mono by blast

lemma sound_each: "(\<And>x. sound_step env a (f x) a (\<lambda>_. True)) \<Longrightarrow> sound_step env a (oci_each f xs) a (\<lambda>_. True)"
  by (induction xs) (auto intro!: sound_bind[where R = "\<lambda>_. True"] sound_lift)

lemma sound_update:
  "(\<And>s. sound_graph env a s \<Longrightarrow> sound_graph env b (f s)) \<Longrightarrow> sound_step env a (oci_update f) b (\<lambda>_. True)"
  unfolding sound_step_def oci_update_def by auto

text \<open>The steps of the object.\<close>

lemma sound_read:
  "sound_step env a (oci_read env name) a
     (\<lambda>raw. case map_of (oc_members env) name of None \<Rightarrow> False | Some e \<Rightarrow> mb_file e \<and> raw = mb_content e)"
proof (cases "map_of (oc_members env) name")
  case None
  then show ?thesis by (auto simp: oci_read_def intro: sound_lift)
next
  case (Some e)
  show ?thesis
    unfolding sound_step_def
  proof (intro allI impI)
    fix s raw s'
    assume pre: "sound_graph env a s" and run: "oci_read env name s = Inr (raw, s')"
    from run Some have regular: "mb_file e" "mb_size e \<le> MAX_METADATA" "length (take (MAX_METADATA + 1) (mb_content e)) = mb_size e"
      and raw: "raw = take (MAX_METADATA + 1) (mb_content e)"
      and s': "s' = s\<lparr>os_bytes := os_bytes s + length raw\<rparr>" "os_bytes s' \<le> MAX_OCI_METADATA"
      by (auto simp: oci_read_def oci_require_def oci_bind_def oci_update_def bind_r_def guard_r_def Let_def split: if_splits)
    have "raw = mb_content e" using regular raw by (metis add_leE length_take min_def not_less_eq_eq plus_1_eq_Suc take_all add.commute)
    moreover have "sound_graph env a s'" using pre s' unfolding sound_graph_def by simp
    ultimately show "sound_graph env a s' \<and> (case map_of (oc_members env) name of None \<Rightarrow> False | Some e \<Rightarrow> mb_file e \<and> raw = mb_content e)"
      using Some regular by simp
  qed
qed

lemma present_blob_digest:
  "present_blob env descriptor = Inr name \<Longrightarrow> \<exists>d. descriptor = JObj d \<and> name = drop 7 (jstr_val (jget d ''digest''))"
  by (cases descriptor; simp add: present_blob_def guard_r_Inr_iff Let_def)
     (cases "jget (case descriptor of JObj d \<Rightarrow> d | _ \<Rightarrow> []) ''size''"; simp add: guard_r_Inr_iff split: option.splits)

lemma sound_blob:
  "sound_step env a (oci_blob env descriptor) a
     (\<lambda>details. \<exists>d. descriptor = JObj d \<and> blob_object env (drop 7 (jstr_val (jget d ''digest''))) details)"
  unfolding oci_blob_def
proof (rule sound_bind[OF sound_lift[where R = "\<lambda>name. \<exists>d. descriptor = JObj d \<and> name = drop 7 (jstr_val (jget d ''digest''))"]])
  fix name
  assume "\<exists>d. descriptor = JObj d \<and> name = drop 7 (jstr_val (jget d ''digest''))"
  then obtain d where d: "descriptor = JObj d" "name = drop 7 (jstr_val (jget d ''digest''))" by blast
  show "sound_step env a
     (oci_bind (oci_read env (lit ''blobs/sha256/'' @ name)) (\<lambda>raw.
        oci_require (oc_sha env raw = name) ''OCI metadata digest mismatch''
         (oci_bind (oci_update (\<lambda>s. s\<lparr>os_verified := os_verified s @ [lit ''sha256:'' @ name]\<rparr>)) (\<lambda>_.
            oci_bind (oci_lift (json_document (oc_decode env) raw)) (\<lambda>(_, data, _).
              oci_lift (case data of JObj d \<Rightarrow> Inr d | _ \<Rightarrow> Inl (VersionError ''OCI metadata must be an object''))))))) a
     (\<lambda>details. \<exists>d. descriptor = JObj d \<and> blob_object env (drop 7 (jstr_val (jget d ''digest''))) details)"
  proof (rule sound_bind[OF sound_read sound_require])
    fix raw
    assume "case map_of (oc_members env) (lit ''blobs/sha256/'' @ name) of None \<Rightarrow> False | Some e \<Rightarrow> mb_file e \<and> raw = mb_content e"
      and "oc_sha env raw = name"
    then obtain e where e: "map_of (oc_members env) (lit ''blobs/sha256/'' @ name) = Some e" "mb_file e" "raw = mb_content e"
      and hashed: "verified_blob env name"
      by (auto simp: verified_blob_def split: option.splits)
    have grown: "sound_step env a (oci_update (\<lambda>s. s\<lparr>os_verified := os_verified s @ [lit ''sha256:'' @ name]\<rparr>)) a (\<lambda>_. True)"
      using hashed by (intro sound_update) (auto simp: sound_graph_def lit_def)
    show "sound_step env a
       (oci_bind (oci_update (\<lambda>s. s\<lparr>os_verified := os_verified s @ [lit ''sha256:'' @ name]\<rparr>)) (\<lambda>_.
          oci_bind (oci_lift (json_document (oc_decode env) raw)) (\<lambda>(_, data, _).
            oci_lift (case data of JObj d \<Rightarrow> Inr d | _ \<Rightarrow> Inl (VersionError ''OCI metadata must be an object''))))) a
       (\<lambda>details. \<exists>d. descriptor = JObj d \<and> blob_object env (drop 7 (jstr_val (jget d ''digest''))) details)"
    proof (rule sound_bind[OF grown sound_bind[OF sound_lift[where R = "\<lambda>x. json_document (oc_decode env) raw = Inr x"]]])
      fix parsed
      assume "json_document (oc_decode env) raw = Inr parsed"
      then show "sound_step env a
          ((\<lambda>(_, data, _). oci_lift (case data of JObj d \<Rightarrow> Inr d | _ \<Rightarrow> Inl (VersionError ''OCI metadata must be an object''))) parsed) a
          (\<lambda>details. \<exists>d. descriptor = JObj d \<and> blob_object env (drop 7 (jstr_val (jget d ''digest''))) details)"
        using d e hashed by (cases parsed; cases "fst (snd parsed)") (auto intro!: sound_lift simp: blob_object_def)
    qed simp
  qed
qed (rule present_blob_digest)

lemma sound_fail: "sound_step env a (oci_lift (Inl e)) b R"
  unfolding sound_step_def oci_lift_def by simp

lemma sound_if:
  "(c \<Longrightarrow> sound_step env a m b R) \<Longrightarrow> (\<not> c \<Longrightarrow> sound_step env a m' b R) \<Longrightarrow> sound_step env a (if c then m else m') b R"
  by simp

lemma sound_keep: "sound_step env a (oci_lift r) a (\<lambda>_. True)"
  by (rule sound_lift) simp

lemma sound_then:
  "sound_step env a m a (\<lambda>_. True) \<Longrightarrow> (\<And>x. sound_step env a (f x) b Q) \<Longrightarrow> sound_step env a (oci_bind m f) b Q"
  by (rule sound_bind)

lemma sound_some_blob: "sound_step env a (oci_blob env descriptor) a (\<lambda>_. True)"
  by (rule sound_weaken[OF sound_blob]) simp_all

lemma sound_bookkeeping:
  "sound_step env a (oci_update (\<lambda>s. s\<lparr>os_subjects := f s\<rparr>)) a (\<lambda>_. True)"
  "sound_step env a (oci_update (\<lambda>s. s\<lparr>os_legacy := g s\<rparr>)) a (\<lambda>_. True)"
  by (auto intro!: sound_update simp: sound_graph_def)

lemma sound_attestation: "sound_step env a (attestation env descriptor data platform annotations) a (\<lambda>_. True)"
proof -
  have artifact: "sound_step env a (artifact_attestation env descriptor data r) a (\<lambda>_. True)" for r
    unfolding artifact_attestation_def
    by (intro sound_then sound_keep sound_require sound_some_blob)
       (cases "jget data ''subject''"; simp; intro sound_then sound_keep sound_require sound_bookkeeping)
  have legacy: "sound_step env a (legacy_attestation env descriptor c r) a (\<lambda>_. True)" for c r
    unfolding legacy_attestation_def
    by (intro sound_then sound_keep sound_require sound_some_blob)
       (simp; intro conjI impI sound_keep sound_bookkeeping)
  have layer: "sound_step env a (attestation_layer env l) a (\<lambda>_. True)" for l
    unfolding attestation_layer_def
    by (cases l; simp; intro sound_then sound_keep sound_require)
  show ?thesis
    unfolding attestation_def Let_def
    by (intro sound_then sound_keep sound_require sound_each layer) (simp add: artifact legacy)
qed

lemma sound_runnable: "sound_step env (Suc a) (runnable env descriptor data platform) a (\<lambda>_. True)"
proof -
  have report: "sound_step env (Suc a) (oci_update (\<lambda>s. s\<lparr>os_runnable := f s, os_images := os_images s @ [row]\<rparr>)) a (\<lambda>_. True)"
    if "config_image env row" for f row
    using that by (intro sound_update) (auto simp: sound_graph_def)
  have image: "config_image env (image_row env config details actual)"
    if "\<exists>d. JObj config = JObj d \<and> blob_object env (drop 7 (jstr_val (jget d ''digest''))) details"
      and "get_path (JObj details) (map Key (oc_field env)) = Inr actual" and "oc_str env actual = oc_expected env"
    for config details actual
    using that unfolding config_image_def image_row_def by auto
  show ?thesis
  proof (cases "jget data ''config''")
    case (JObj config)
    then show ?thesis
      unfolding runnable_def
      by (simp only: json.case)
         (intro sound_then[OF sound_keep] sound_require sound_bind[OF sound_blob]
            sound_bind[OF sound_lift[where R = "\<lambda>actual. get_path (JObj _) (map Key (oc_field env)) = Inr actual"]] report image)
  qed (simp_all add: runnable_def sound_then[OF sound_keep] sound_require sound_fail)
qed

lemma sound_walk: "sound_step env a (oci_walk levels env descriptor) a (\<lambda>_. True)"
proof (induction levels arbitrary: a descriptor)
  case 0
  show ?case by (simp add: sound_keep)
next
  case (Suc levels)
  have visit: "sound_step env a (oci_bind (oci_update (\<lambda>s. s\<lparr>os_visited := Suc (os_visited s)\<rparr>))
      (\<lambda>_. oci_bind (\<lambda>s. vreq (os_visited s \<le> 1024) msg (Inr ((), s))) f)) a (\<lambda>_. True)"
    if rest: "\<And>x. sound_step env (Suc a) (f x) a (\<lambda>_. True)" for f msg
    unfolding sound_step_def
  proof (intro allI impI)
    fix s s' :: oci_state and y
    let ?s = "s\<lparr>os_visited := Suc (os_visited s)\<rparr>"
    assume pre: "sound_graph env a s"
      and run: "oci_bind (oci_update (\<lambda>s. s\<lparr>os_visited := Suc (os_visited s)\<rparr>))
        (\<lambda>_. oci_bind (\<lambda>s. vreq (os_visited s \<le> 1024) msg (Inr ((), s))) f) s = Inr (y, s')"
    from run have "f () ?s = Inr (y, s')" and "os_visited ?s \<le> 1024"
      by (auto simp: oci_bind_def oci_update_def bind_r_Inr_iff guard_r_Inr_iff)
    moreover from this pre have "sound_graph env (Suc a) ?s" unfolding sound_graph_def by simp
    ultimately show "sound_graph env a s' \<and> True" using rest unfolding sound_step_def by blast
  qed
  have drop_spare: "sound_step env (Suc a) m a (\<lambda>_. True)" if "sound_step env a m a (\<lambda>_. True)" for m :: "unit oci"
    by (rule sound_weaken[OF that]) simp_all
  show ?case
    unfolding oci_walk.simps
    by (intro visit sound_then[OF sound_some_blob] sound_then[OF sound_keep] sound_require sound_if
          drop_spare[OF sound_attestation] sound_runnable drop_spare[OF sound_each] Suc.IH)
qed

lemma sound_parsed_object:
  "sound_step env a (parsed_object env name msg) a
     (\<lambda>(raw, d). case map_of (oc_members env) name of None \<Rightarrow> False | Some e \<Rightarrow> raw = mb_content e)"
  unfolding parsed_object_def
proof (rule sound_bind[OF sound_read])
  fix raw
  assume raw: "case map_of (oc_members env) name of None \<Rightarrow> False | Some e \<Rightarrow> mb_file e \<and> raw = mb_content e"
  show "sound_step env a
     (oci_bind (oci_lift (json_document (oc_decode env) raw))
       (\<lambda>(_, data, _). oci_lift (case data of JObj d \<Rightarrow> Inr (raw, d) | _ \<Rightarrow> Inl (VersionError msg)))) a
     (\<lambda>(raw, d). case map_of (oc_members env) name of None \<Rightarrow> False | Some e \<Rightarrow> raw = mb_content e)"
  proof (rule sound_then[OF sound_keep])
    fix parsed :: "pystr \<times> json \<times> span list"
    show "sound_step env a
       ((\<lambda>(_, data, _). oci_lift (case data of JObj d \<Rightarrow> Inr (raw, d) | _ \<Rightarrow> Inl (VersionError msg))) parsed) a
       (\<lambda>(raw, d). case map_of (oc_members env) name of None \<Rightarrow> False | Some e \<Rightarrow> raw = mb_content e)"
      using raw by (cases parsed; cases "fst (snd parsed)") (auto intro!: sound_lift split: option.splits)
  qed
qed

lemma distinct_members:
  assumes "collect_members n [] es = Inr out"
  shows "distinct (map fst out)"
proof -
  have "distinct (map fst out)" if "collect_members n members es = Inr out" "distinct (map fst members)" for members
    using that
  proof (induction n members es rule: collect_members.induct)
    case (2 n members e es)
    then show ?case by (cases "archive_name (te_name e)") (auto simp: guard_r_Inr_iff split: if_splits)
  qed simp
  from this[of "[]"] assms show ?thesis by simp
qed

lemma sound_start: "sound_graph env 0 oci_start"
  unfolding sound_graph_def oci_start_def by simp

text \<open>Every attestation names an image of the archive.\<close>

definition attested :: "oci_state \<Rightarrow> bool" where
  "attested s \<longleftrightarrow>
     list_all (\<lambda>subject. fst subject \<in> fst ` set (os_runnable s)) (os_subjects s)
     \<and> list_all (\<lambda>r. JStr r \<in> (\<lambda>run. fst (snd (fst run))) ` set (os_runnable s)) (os_legacy s)"

lemma attested_by_checks:
  assumes "each_r (subject_matches s) (os_subjects s) = Inr u" and "each_r (legacy_matches s) (os_legacy s) = Inr w"
  shows "attested s"
proof -
  have "fst subject \<in> fst ` set (os_runnable s)" if "subject_matches s subject = Inr v" for subject v
    using that map_of_eq_None_iff[of "os_runnable s" "fst subject"] by (cases "map_of (os_runnable s) (fst subject)") (auto simp: subject_matches_def)
  then show ?thesis
    using assms unfolding attested_def legacy_matches_def by (auto simp: each_r_Inr_iff guard_r_Inr_iff list_all_iff)
qed

lemma verified_archive:
  assumes "oci_verify env oci_start = Inr ((raw, s), s')"
  shows "sound_graph env 0 s \<and> attested s \<and> os_images s \<noteq> []
     \<and> (case map_of (oc_members env) (lit ''index.json'') of None \<Rightarrow> False | Some e \<Rightarrow> raw = mb_content e)"
proof -
  obtain layout s1 where layout: "parsed_object env (lit ''oci-layout'') ''Unsupported OCI image layout'' oci_start = Inr (layout, s1)"
    using assms by (auto simp: oci_verify_def oci_bind_def bind_r_Inr_iff)
  from assms layout obtain index s2 manifests u s3 where
    index: "parsed_object env (lit ''index.json'') ''Invalid OCI root index'' s1 = Inr ((raw, index), s2)"
    and walk: "oci_each (oci_walk 9 env) manifests s2 = Inr (u, s3)"
    and final: "s = s3" "each_r (subject_matches s3) (os_subjects s3) = Inr ()" "each_r (legacy_matches s3) (os_legacy s3) = Inr ()"
      "os_images s3 \<noteq> []"
    by (auto simp: oci_verify_def oci_bind_def oci_lift_def oci_require_def bind_r_Inr_iff guard_r_Inr_iff split: prod.splits)
  have "sound_graph env 0 s1" using sound_stepD[OF sound_parsed_object layout sound_start] by simp
  with sound_stepD[OF sound_parsed_object index]
  have step: "sound_graph env 0 s2" "case map_of (oc_members env) (lit ''index.json'') of None \<Rightarrow> False | Some e \<Rightarrow> raw = mb_content e"
    by auto
  have "sound_graph env 0 s3" using sound_stepD[OF sound_each[OF sound_walk] walk step(1)] by simp
  then show ?thesis using step(2) final attested_by_checks by simp
qed

text \<open>
  C35: When the inspection of a container archive succeeds, no member name occurred twice, at most 1024 descriptors
  and 32,000,000 bytes of metadata were read, there is an image and no more of them than descriptors, every digest
  listed in the evidence is that of a member of the archive, every reported image is the content of such a config
  blob whose version field reads as the expected version, every attestation refers to one of the images, and the
  evidence carries the digest of the root index.
\<close>

theorem oci_images_are_verified_configs:
  assumes "oci_metadata sha decode str_of fr entries names expected = Inr (evidence, rows)"
  shows "\<exists>env raw s.
     collect_members 0 [] entries = Inr (oc_members env) \<and> distinct (map fst (oc_members env))
     \<and> oc_sha env = sha \<and> oc_decode env = decode \<and> oc_str env = str_of \<and> oc_field env = names \<and> oc_expected env = expected
     \<and> sound_graph env 0 s \<and> attested s \<and> rows = os_images s \<and> rows \<noteq> [] \<and> evidence = oci_evidence env fr raw s
     \<and> (case map_of (oc_members env) (lit ''index.json'') of None \<Rightarrow> False | Some e \<Rightarrow> raw = mb_content e)"
proof -
  let ?env_of = "\<lambda>members. \<lparr>oc_sha = sha, oc_decode = decode, oc_str = str_of, oc_field = names, oc_expected = expected,
    oc_members = members\<rparr>"
  from assms obtain members raw s s' where m: "collect_members 0 [] entries = Inr members"
    and v: "oci_verify (?env_of members) oci_start = Inr ((raw, s), s')"
    and e: "evidence = oci_evidence (?env_of members) fr raw s" "rows = os_images s"
    by (auto simp: oci_metadata_def Let_def bind_r_Inr_iff)
  let ?env = "?env_of members"
  show ?thesis
    by (rule exI[of _ ?env], rule exI[of _ raw], rule exI[of _ s]) (use m e verified_archive[OF v] distinct_members[OF m] in simp)
qed

section \<open>An archive of one image\<close>

text \<open>A regular member of its size is read; a descriptor of a blob whose content is an object gives the object.\<close>

lemma oci_read_whole:
  assumes "map_of (oc_members env) name = Some e" and "mb_file e" and "mb_size e = length (mb_content e)" and "0 < mb_size e"
    and "mb_size e \<le> MAX_METADATA" and "os_bytes s + mb_size e \<le> MAX_OCI_METADATA"
  shows "oci_read env name s = Inr (mb_content e, s\<lparr>os_bytes := os_bytes s + mb_size e\<rparr>)"
  using assms by (simp add: oci_read_def oci_require_def oci_bind_def oci_update_def Let_def)

lemma oci_blob_whole:
  assumes "jget d ''digest'' = JStr (lit ''sha256:'' @ name)" and "SHA256 name" and "jget d ''size'' = JInt (int (mb_size e))"
    and "map_of (oc_members env) (lit ''blobs/sha256/'' @ name) = Some e" and "mb_file e" and "mb_size e = length (mb_content e)"
    and "0 < mb_size e" and "mb_size e \<le> MAX_METADATA" and "os_bytes s + mb_size e \<le> MAX_OCI_METADATA"
    and "oc_sha env (mb_content e) = name" and "json_document (oc_decode env) (mb_content e) = Inr (doc, JObj data, spans)"
  shows "oci_blob env (JObj d) s =
    Inr (data, s\<lparr>os_bytes := os_bytes s + mb_size e, os_verified := os_verified s @ [lit ''sha256:'' @ name]\<rparr>)"
proof -
  have "length (lit ''sha256:'') = 7" by (simp add: lit_def)
  moreover from assms(1) have "dict_get d (lit ''digest'') (JStr []) = JStr (lit ''sha256:'' @ name)"
    by (simp add: dict_get_def split: option.splits)
  ultimately have "present_blob env (JObj d) = Inr name"
    using assms by (simp add: present_blob_def is_oci_digest_def)
  then show ?thesis
    using oci_read_whole[OF assms(4-9)] assms(10,11)
    by (simp add: oci_blob_def oci_bind_def oci_lift_def oci_require_def oci_update_def)
qed

definition sample_digest :: "nat \<Rightarrow> pystr" where
  "sample_digest c = replicate 64 c"

definition sample_config :: json where
  "sample_config =
     JObj [(lit ''architecture'', JStr (lit ''amd64'')), (lit ''os'', JStr (lit ''linux'')), (lit ''v'', JStr [49])]"

definition sample_descriptor :: "string \<Rightarrow> nat \<Rightarrow> int \<Rightarrow> json" where
  "sample_descriptor media c n =
     JObj [(lit ''digest'', JStr (lit ''sha256:'' @ sample_digest c)), (lit ''mediaType'', JStr (lit media)), (lit ''size'', JInt n)]"

definition sample_manifest :: json where
  "sample_manifest =
     JObj [(lit ''config'', sample_descriptor (hd CONFIG_TYPES) 97 45), (lit ''layers'', JList []), (lit ''schemaVersion'', JInt 2)]"

definition sample_index :: json where
  "sample_index = JObj [(lit ''manifests'', JList [sample_descriptor OCI_MANIFEST 98 190]), (lit ''schemaVersion'', JInt 2)]"

definition sample_layout :: json where
  "sample_layout = JObj [(lit ''imageLayoutVersion'', JStr (lit ''1.0.0''))]"

definition sample_blob :: "json \<Rightarrow> bytes" where
  "sample_blob v = json_bytes (\<lambda>_. []) v"

definition sample_member :: "json \<Rightarrow> member" where
  "sample_member v = \<lparr>mb_file = True, mb_size = length (sample_blob v), mb_content = sample_blob v\<rparr>"

definition oci_sample_sha :: sha256 where
  "oci_sample_sha b = sample_digest (if length b = 45 then 97 else 98)"

definition sample_files :: "(pystr \<times> member) list" where
  "sample_files =
     [(lit ''oci-layout'', sample_member sample_layout), (lit ''index.json'', sample_member sample_index),
      (lit ''blobs/sha256/'' @ sample_digest 97, sample_member sample_config),
      (lit ''blobs/sha256/'' @ sample_digest 98, sample_member sample_manifest)]"

definition sample_archive :: "tar_entry list" where
  "sample_archive = map (\<lambda>(name, m). \<lparr>te_name = lit ''./'' @ name, te_dir = False, te_member = m\<rparr>) sample_files"

definition sample_env :: oci_env where
  "sample_env = \<lparr>oc_sha = oci_sample_sha, oc_decode = plain_scalars, oc_str = py_str, oc_field = [lit ''v''], oc_expected = [49],
     oc_members = sample_files\<rparr>"

lemma sample_lengths:
  "length (sample_blob sample_layout) = 30" "length (sample_blob sample_index) = 186"
  "length (sample_blob sample_config) = 45" "length (sample_blob sample_manifest) = 190"
  by code_simp+

lemma reads_sample_int: "reads_scalar plain_scalars fr (JInt 45)" "reads_scalar plain_scalars fr (JInt 190)"
  by (rule reads_plain_int[of _ "[52, 53]"], simp_all add: is_digit_def, code_simp)
     (rule reads_plain_int[of _ "[49, 57, 48]"], simp_all add: is_digit_def, code_simp)

lemma sample_scalars:
  assumes "v \<in> {sample_layout, sample_index, sample_config, sample_manifest}"
  shows "list_all (reads_scalar plain_scalars (\<lambda>_. [])) (scalars v)" "json_wf v" "sort_json v = v"
proof -
  have "plain_text (lit ''sha256:'' @ sample_digest c)" if "c \<in> {97, 98}" for c
    using that by (auto simp: plain_text_def lit_def sample_digest_def list_all_iff)
  then show "list_all (reads_scalar plain_scalars (\<lambda>_. [])) (scalars v)"
    using assms reads_sample_int reads_plain_digit
    by (auto simp: sample_layout_def sample_index_def sample_config_def sample_manifest_def sample_descriptor_def
          CONFIG_TYPES_def OCI_MANIFEST_def intro!: reads_plain_string) (simp_all add: plain_text_def lit_def)
  show "json_wf v" "sort_json v = v"
    using assms by (elim insertE emptyE; simp; code_simp)+
qed

lemma sample_blob_document:
  assumes "v \<in> {sample_layout, sample_index, sample_config, sample_manifest}"
  shows "\<exists>spans. json_document (oc_decode sample_env) (sample_blob v) = Inr (sample_blob v, v, spans)"
  using canonical_document[OF sample_scalars(1,2)[OF assms]] sample_scalars(3)[OF assms]
  by (simp add: sample_env_def sample_blob_def)

lemma sample_names:
  "archive_name (lit ''./'' @ lit ''oci-layout'') = Some (lit ''oci-layout'')"
  "archive_name (lit ''./'' @ lit ''index.json'') = Some (lit ''index.json'')"
  "archive_name (lit ''./'' @ lit ''blobs/sha256/'' @ sample_digest 97) = Some (lit ''blobs/sha256/'' @ sample_digest 97)"
  "archive_name (lit ''./'' @ lit ''blobs/sha256/'' @ sample_digest 98) = Some (lit ''blobs/sha256/'' @ sample_digest 98)"
  by code_simp+

lemma sample_keys:
  "lit ''oci-layout'' \<noteq> lit ''blobs/sha256/'' @ sample_digest 97" "lit ''oci-layout'' \<noteq> lit ''blobs/sha256/'' @ sample_digest 98"
  "lit ''index.json'' \<noteq> lit ''blobs/sha256/'' @ sample_digest 97" "lit ''index.json'' \<noteq> lit ''blobs/sha256/'' @ sample_digest 98"
  "sample_digest 97 \<noteq> sample_digest 98"
  by code_simp+

lemma sample_collected: "collect_members 0 [] sample_archive = Inr sample_files"
  using sample_keys sample_keys[symmetric] by (simp add: sample_archive_def sample_files_def sample_names guard_r_def)

lemma sample_lookup:
  "map_of (oc_members sample_env) (lit ''oci-layout'') = Some (sample_member sample_layout)"
  "map_of (oc_members sample_env) (lit ''index.json'') = Some (sample_member sample_index)"
  "map_of (oc_members sample_env) (lit ''blobs/sha256/'' @ sample_digest 97) = Some (sample_member sample_config)"
  "map_of (oc_members sample_env) (lit ''blobs/sha256/'' @ sample_digest 98) = Some (sample_member sample_manifest)"
  using sample_keys sample_keys[symmetric] by (auto simp: sample_env_def sample_files_def)

lemma sample_sha: "SHA256 (sample_digest 97)" "SHA256 (sample_digest 98)"
  by code_simp+

text \<open>The run: the layout, the root index, the manifest and the config are read in this order.\<close>

lemma sample_read:
  assumes "map_of (oc_members sample_env) name = Some (sample_member v)" and "length (sample_blob v) \<in> {30, 186}" and "os_bytes s \<le> 30"
  shows "oci_read sample_env name s = Inr (sample_blob v, s\<lparr>os_bytes := os_bytes s + length (sample_blob v)\<rparr>)"
  using oci_read_whole[OF assms(1), of s] assms(2,3) by (auto simp: sample_member_def MAX_METADATA_def MAX_OCI_METADATA_def simp del: length_greater_0_conv)

lemma sample_parsed:
  assumes "v \<in> {sample_layout, sample_index}" and "v = JObj d"
    and "map_of (oc_members sample_env) name = Some (sample_member v)" and "os_bytes s \<le> 30"
  shows "parsed_object sample_env name msg s = Inr ((sample_blob v, d), s\<lparr>os_bytes := os_bytes s + length (sample_blob v)\<rparr>)"
proof -
  from assms(1) have v: "v \<in> {sample_layout, sample_index, sample_config, sample_manifest}" "length (sample_blob v) \<in> {30, 186}"
    using sample_lengths by auto
  from sample_blob_document[OF v(1)] obtain spans where "json_document (oc_decode sample_env) (sample_blob v) = Inr (sample_blob v, v, spans)" ..
  with sample_read[OF assms(3) v(2) assms(4)] assms(2) show ?thesis
    by (simp add: parsed_object_def oci_bind_def oci_lift_def)
qed

lemma sample_blob_read:
  assumes "v \<in> {sample_config, sample_manifest}" and "v = JObj data" and "c = (if v = sample_config then 97 else 98)"
    and "os_bytes s \<le> 1000" and "sample_descriptor media c (int (length (sample_blob v))) = JObj d"
  shows "oci_blob sample_env (JObj d) s = Inr (data, s\<lparr>os_bytes := os_bytes s + length (sample_blob v),
    os_verified := os_verified s @ [lit ''sha256:'' @ sample_digest c]\<rparr>)"
proof -
  from assms(1) have v: "v \<in> {sample_layout, sample_index, sample_config, sample_manifest}" by auto
  from sample_blob_document[OF v] obtain spans where j: "json_document (oc_decode sample_env) (sample_blob v) = Inr (sample_blob v, v, spans)" ..
  have d: "jget d ''digest'' = JStr (lit ''sha256:'' @ sample_digest c)" "jget d ''size'' = JInt (int (length (sample_blob v)))"
    using assms(5) by (auto simp: sample_descriptor_def dict_get_def)
  have c: "SHA256 (sample_digest c)" "map_of (oc_members sample_env) (lit ''blobs/sha256/'' @ sample_digest c) = Some (sample_member v)"
    "oc_sha sample_env (sample_blob v) = sample_digest c" "length (sample_blob v) \<in> {45, 190}"
    using assms(1,3) sample_sha sample_lookup sample_lengths by (auto simp: sample_env_def oci_sample_sha_def sample_member_def)
  show ?thesis
    using oci_blob_whole[OF d(1) c(1) _ c(2), of s "sample_blob v" data spans] d(2) c(3,4) j assms(2,4)
    by (auto simp: sample_member_def MAX_METADATA_def MAX_OCI_METADATA_def simp del: length_greater_0_conv)
qed

lemma dict_get_Nil: "dict_get [] k v = v"
  by (simp add: dict_get_def)

lemma sample_config_read:
  assumes "os_bytes s \<le> 1000"
  shows "oci_blob sample_env (sample_descriptor (hd CONFIG_TYPES) 97 45) s =
      Inr ([(lit ''architecture'', JStr (lit ''amd64'')), (lit ''os'', JStr (lit ''linux'')), (lit ''v'', JStr [49])],
        s\<lparr>os_bytes := os_bytes s + 45, os_verified := os_verified s @ [lit ''sha256:'' @ sample_digest 97]\<rparr>)"
  using sample_blob_read[of sample_config _ 97 s "hd CONFIG_TYPES"] assms sample_lengths
  by (auto simp: sample_config_def sample_descriptor_def)

lemma sample_image:
  assumes "os_bytes s \<le> 1000" and "jget d ''mediaType'' = JStr (lit OCI_MANIFEST)"
  shows "\<exists>s'. runnable sample_env d
      [(lit ''config'', sample_descriptor (hd CONFIG_TYPES) 97 45), (lit ''layers'', JList []), (lit ''schemaVersion'', JInt 2)] [] s
        = Inr ((), s') \<and> os_images s' \<noteq> [] \<and> os_subjects s' = os_subjects s \<and> os_legacy s' = os_legacy s"
proof -
  have "lit ''linux'' \<noteq> []" "lit ''amd64'' \<noteq> []" by (simp_all add: lit_def)
  moreover obtain c where c: "sample_descriptor (hd CONFIG_TYPES) 97 45 = JObj c" "jget c ''mediaType'' = JStr (lit (hd CONFIG_TYPES))"
    by (simp add: sample_descriptor_def dict_get_def)
  moreover note sample_config_read[OF assms(1), unfolded c(1)]
  ultimately show ?thesis
    using assms(2)
    by (simp add: runnable_def oci_bind_def oci_lift_def oci_require_def oci_update_def in_strings_def MANIFEST_TYPES_def
        platform_identity_def has_key_def bounded_items_def dict_get_def CONFIG_TYPES_def) (simp add: sample_env_def)
qed

lemma sample_manifest_walked:
  assumes "os_bytes s \<le> 500" and "os_visited s \<le> 1"
  shows "\<exists>s'. oci_walk (Suc n) sample_env (sample_descriptor OCI_MANIFEST 98 190) s = Inr ((), s')
     \<and> os_images s' \<noteq> [] \<and> os_subjects s' = os_subjects s \<and> os_legacy s' = os_legacy s"
proof -
  obtain d where d: "sample_descriptor OCI_MANIFEST 98 190 = JObj d" "jget d ''mediaType'' = JStr (lit OCI_MANIFEST)"
    "jget d ''platform'' = JNull" "jget d ''annotations'' = JNull"
    by (simp add: sample_descriptor_def dict_get_def)
  let ?m = "[(lit ''config'', sample_descriptor (hd CONFIG_TYPES) 97 45), (lit ''layers'', JList []), (lit ''schemaVersion'', JInt 2)]"
  let ?s = "s\<lparr>os_visited := Suc (os_visited s), os_bytes := os_bytes s + 190,
    os_verified := os_verified s @ [lit ''sha256:'' @ sample_digest 98]\<rparr>"
  have "sample_config \<noteq> sample_manifest" by code_simp
  then have pick: "98 = (if sample_manifest = sample_config then 97 else 98 :: nat)" by (simp add: eq_commute)
  have d': "sample_descriptor OCI_MANIFEST 98 (int (length (sample_blob sample_manifest))) = JObj d"
    using d(1) sample_lengths(4) by simp
  have "os_bytes (s\<lparr>os_visited := Suc (os_visited s)\<rparr>) \<le> 1000" using assms(1) by simp
  from sample_blob_read[OF _ sample_manifest_def pick this d']
  have blob: "oci_blob sample_env (JObj d) (s\<lparr>os_visited := Suc (os_visited s)\<rparr>) = Inr (?m, ?s)"
    by (simp add: sample_lengths(4))
  obtain s' where s': "runnable sample_env d ?m [] ?s = Inr ((), s')" "os_images s' \<noteq> []"
      "os_subjects s' = os_subjects s" "os_legacy s' = os_legacy s"
    using sample_image[of ?s d] assms d(2) by auto
  have m: "jget ?m ''schemaVersion'' = JInt 2" "dict_get ?m (lit ''mediaType'') v = v" "jget ?m ''artifactType'' = JNull" for v
    by (simp_all add: dict_get_def)
  have "oci_walk (Suc n) sample_env (JObj d) s = runnable sample_env d ?m [] ?s"
    using assms(2)
    by (simp add: oci_bind_def oci_lift_def oci_require_def oci_update_def blob m d(2-4) as_dict_def object_or_empty_def in_strings_def
        INDEX_TYPES_def OCI_MANIFEST_def dict_get_Nil)
  with s' d(1) show ?thesis by simp
qed

lemma sample_verified: "\<exists>raw s s'. oci_verify sample_env oci_start = Inr ((raw, s), s') \<and> os_images s \<noteq> []"
proof -
  let ?layout = "[(lit ''imageLayoutVersion'', JStr (lit ''1.0.0''))]"
  let ?index = "[(lit ''manifests'', JList [sample_descriptor OCI_MANIFEST 98 190]), (lit ''schemaVersion'', JInt 2)]"
  let ?s1 = "oci_start\<lparr>os_bytes := 30\<rparr>" and ?s2 = "oci_start\<lparr>os_bytes := 216\<rparr>"
  have layout: "parsed_object sample_env (lit ''oci-layout'') msg oci_start = Inr ((sample_blob sample_layout, ?layout), ?s1)" for msg
    using sample_parsed[OF _ sample_layout_def sample_lookup(1), of oci_start msg] sample_lengths(1) by (simp add: oci_start_def)
  have index: "parsed_object sample_env (lit ''index.json'') msg ?s1 = Inr ((sample_blob sample_index, ?index), ?s2)" for msg
    using sample_parsed[OF _ sample_index_def sample_lookup(2), of ?s1 msg] sample_lengths(2) by (simp add: oci_start_def)
  obtain s' where walk: "oci_walk 9 sample_env (sample_descriptor OCI_MANIFEST 98 190) ?s2 = Inr ((), s')" "os_images s' \<noteq> []"
    "os_subjects s' = []" "os_legacy s' = []"
    using sample_manifest_walked[of ?s2 8] by (auto simp: oci_start_def)
  have m: "jget ?layout ''imageLayoutVersion'' = JStr (lit ''1.0.0'')" "jget ?index ''schemaVersion'' = JInt 2"
    "dict_get ?index (lit ''mediaType'') v = v" "jget ?index ''manifests'' = JList [sample_descriptor OCI_MANIFEST 98 190]" for v
    by (simp_all add: dict_get_def)
  have "oci_verify sample_env oci_start = Inr ((sample_blob sample_index, s'), s')"
    using walk
    by (simp add: oci_verify_def oci_bind_def oci_lift_def oci_require_def layout index m in_strings_def INDEX_TYPES_def
        bounded_items_def)
  with walk(2) show ?thesis by blast
qed

theorem oci_images_are_verified_configs_witness:
  "\<exists>evidence rows s. oci_metadata oci_sample_sha plain_scalars py_str (\<lambda>_. []) sample_archive [lit ''v''] [49] = Inr (evidence, rows)
     \<and> sound_graph sample_env 0 s \<and> rows = os_images s \<and> rows \<noteq> []"
proof -
  obtain raw s s' where "oci_verify sample_env oci_start = Inr ((raw, s), s')" using sample_verified by blast
  then have run: "oci_metadata oci_sample_sha plain_scalars py_str (\<lambda>_. []) sample_archive [lit ''v''] [49]
      = Inr (oci_evidence sample_env (\<lambda>_. []) raw s, os_images s)"
    by (simp add: oci_metadata_def sample_collected sample_env_def)
  from oci_images_are_verified_configs[OF run] obtain env t where
    "Inr sample_files = (Inr (oc_members env) :: (pystr \<times> member) list result)" "oc_sha env = oci_sample_sha"
    "oc_decode env = plain_scalars" "oc_str env = py_str" "oc_field env = [lit ''v'']" "oc_expected env = [49]"
    and t: "sound_graph env 0 t" "os_images s = os_images t" "os_images s \<noteq> []"
    unfolding sample_collected by metis
  then have "env = sample_env" unfolding sample_env_def by (cases env) simp
  with run t show ?thesis by auto
qed

end
