(* ===== verification/Artifacts.thy ===== *)
theory Artifacts
  imports Oci_Graph
begin

text \<open>
  The inspection of built artifacts in \<open>scripts/version_plan.py\<close> (\<open>verify_artifact\<close> and its checkers), the binding
  of the checkout to the commit of a plan, and the evidence file of a synchronisation. An artifact is what the
  readers of the standard library see of its file: its bytes, and the entries of it as a zip or tar archive. The
  header parser of \<open>email\<close>, \<open>json.loads\<close>, Python's \<open>str\<close> and its table of lower-case letters are arguments.
\<close>

section \<open>Archives of packages\<close>

record zip_entry =
  ze_name :: pystr
  ze_dir :: bool
  ze_size :: nat
  ze_link :: bool
  ze_content :: bytes

definition zip_metadata :: "zip_entry list \<Rightarrow> (pystr \<Rightarrow> bool) \<Rightarrow> bytes result" where
  "zip_metadata entries predicate =
     vreq (length entries \<le> 100000) ''Archive has too many members''
       (case filter (\<lambda>e. \<not> ze_dir e \<and> predicate (ze_name e)) entries of
          [e] \<Rightarrow>
            vreq (ze_size e \<le> MAX_METADATA) ''Archive must contain exactly one bounded metadata file''
           (vreq (\<not> ze_link e) ''Archive metadata must not be a symlink''
           (let content = take (MAX_METADATA + 1) (ze_content e)
            in vreq (length content \<le> MAX_METADATA) ''Archive metadata exceeds limit'' (Inr content)))
        | _ \<Rightarrow> Inl (VersionError ''Archive must contain exactly one bounded metadata file''))"

text \<open>The tar reader sees one entry after the other; \<open>matches\<close> holds at most one content.\<close>

fun tar_matches :: "(pystr \<Rightarrow> bool) \<Rightarrow> nat \<Rightarrow> bytes list \<Rightarrow> tar_entry list \<Rightarrow> bytes list result" where
  "tar_matches predicate n matches [] = Inr matches"
| "tar_matches predicate n matches (e # es) =
     vreq (n < 100000) ''Archive has too many members''
       (if \<not> predicate (te_name e) then tar_matches predicate (Suc n) matches es
        else let m = te_member e; content = take (MAX_METADATA + 1) (mb_content m)
             in vreq (mb_file m \<and> mb_size m \<le> MAX_METADATA) ''Archive metadata must be a bounded regular file''
               (vreq (length content \<le> MAX_METADATA) ''Archive metadata exceeds limit''
               (vreq (matches = []) ''Ambiguous archive metadata'' (tar_matches predicate (Suc n) [content] es))))"

definition tar_metadata :: "tar_entry list \<Rightarrow> (pystr \<Rightarrow> bool) \<Rightarrow> bytes result" where
  "tar_metadata entries predicate =
     bind_r (tar_matches predicate 0 [] entries) (\<lambda>matches.
       case matches of [content] \<Rightarrow> Inr content | _ \<Rightarrow> Inl (VersionError ''Archive metadata is missing''))"

section \<open>Artifacts\<close>

text \<open>What opening a file as an archive gives; a file that is none raises.\<close>

record artifact =
  ar_path :: pystr
  ar_regular :: bool
  ar_size :: nat
  ar_bytes :: bytes
  ar_is_zip :: bool
  ar_zip :: "zip_entry list result"
  ar_tar :: "tar_entry list result"

record readers =
  rd_sha :: sha256
  rd_floats :: "real \<Rightarrow> pystr"
  rd_decode :: decoder
  rd_toml :: "pystr \<Rightarrow> json result"
  rd_plist :: "bytes \<Rightarrow> json result"
  rd_loads :: "bytes \<Rightarrow> json result"
  rd_str :: "json \<Rightarrow> pystr"
  rd_lower :: "nat \<Rightarrow> pystr"
  rd_headers :: "bytes \<Rightarrow> string \<Rightarrow> pystr list"

text \<open>\<open>re.sub(r"[-_.]+", "-", name).lower()\<close>.\<close>

fun squeeze :: "bool \<Rightarrow> pystr \<Rightarrow> pystr" where
  "squeeze run [] = []"
| "squeeze run (c # s) =
     (if c \<in> {45, 95, 46} then (if run then squeeze True s else 45 # squeeze True s) else c # squeeze False s)"

definition normalize :: "readers \<Rightarrow> pystr \<Rightarrow> pystr" where
  "normalize rd name = py_lower (rd_lower rd) (squeeze False name)"

definition metadata_message :: "readers \<Rightarrow> bytes \<Rightarrow> pystr \<Rightarrow> pystr \<Rightarrow> json_dict result" where
  "metadata_message rd raw expected_name expected_version =
     vreq (length raw \<le> MAX_METADATA) ''Package metadata is too large''
       (case (rd_headers rd raw ''Name'', rd_headers rd raw ''Version'') of
          ([name], [found]) \<Rightarrow>
            vreq (normalize rd name = normalize rd expected_name) ''Artifact package name mismatch''
           (vreq (found = expected_version) ''Artifact version mismatch''
              (Inr [(lit ''package'', JStr name), (lit ''version'', JStr found)]))
        | _ \<Rightarrow> Inl (VersionError ''Package metadata requires one Name and Version''))"

type_synonym inspected = "(bytes \<times> json_dict) result"

definition oci_artifact :: "readers \<Rightarrow> artifact \<Rightarrow> json_dict \<Rightarrow> pystr \<Rightarrow> inspected" where
  "oci_artifact rd a declaration expected =
     vreq (has_key declaration ''field'' \<and> \<not> has_key declaration ''package'')
       ''OCI artifact requires an exact config field and no package selector''
      (bind_r (field (jget declaration ''field'')) (\<lambda>names.
       bind_r (ar_tar a) (\<lambda>entries.
       bind_r (oci_metadata (rd_sha rd) (rd_decode rd) (rd_str rd) (rd_floats rd) entries names expected) (\<lambda>(raw, images).
         Inr (raw, [(lit ''field'', jget declaration ''field''), (lit ''version'', JStr expected),
                    (lit ''images'', JList (map JObj images))])))))"

definition wheel_file :: "pystr \<Rightarrow> bool" where
  "wheel_file name \<longleftrightarrow> length (split_on 47 name) = 2 \<and> endswith name (lit ''.dist-info/METADATA'')"

definition sdist_file :: "pystr \<Rightarrow> bool" where
  "sdist_file name \<longleftrightarrow> length (split_on 47 name) = 2 \<and> endswith name (lit ''/PKG-INFO'')"

definition python_artifact :: "readers \<Rightarrow> artifact \<Rightarrow> json_dict \<Rightarrow> pystr \<Rightarrow> inspected" where
  "python_artifact rd a declaration expected =
     vreq (has_key declaration ''package'') ''Package artifact requires an owned name''
      (bind_r (if jget declaration ''format'' = JStr (lit ''wheel'')
               then bind_r (ar_zip a) (\<lambda>entries. zip_metadata entries wheel_file)
               else if ar_is_zip a then bind_r (ar_zip a) (\<lambda>entries. zip_metadata entries sdist_file)
               else bind_r (ar_tar a) (\<lambda>entries. tar_metadata entries sdist_file)) (\<lambda>raw.
       bind_r (metadata_message rd raw (jstr_val (jget declaration ''package'')) expected) (\<lambda>found. Inr (raw, found))))"

definition npm_artifact :: "readers \<Rightarrow> artifact \<Rightarrow> json_dict \<Rightarrow> pystr \<Rightarrow> inspected" where
  "npm_artifact rd a declaration expected =
     vreq (has_key declaration ''package'') ''npm artifact requires an owned name''
      (bind_r (ar_tar a) (\<lambda>entries.
       bind_r (tar_metadata entries (\<lambda>name. name = lit ''package/package.json'')) (\<lambda>raw.
       bind_r (rd_loads rd raw) (\<lambda>v.
       bind_r (as_dict v) (\<lambda>data.
       vreq (json_eq (jget data ''name'') (jget declaration ''package'') \<and> jget data ''version'' = JStr expected)
         ''npm artifact identity mismatch''
         (Inr (raw, [(lit ''package'', jget data ''name''), (lit ''version'', jget data ''version'')])))))))"

text \<open>The version of a member: the only value of a text, or the field of a document whose package is owned.\<close>

definition text_version :: "bytes \<Rightarrow> json result" where
  "text_version raw =
     bind_r (utf8_decode raw) (\<lambda>doc.
     vreq (strip doc \<noteq> [] \<and> list_all (\<lambda>c. \<not> is_space c) (strip doc)) ''Text artifact version must be one value''
       (Inr (JStr (strip doc))))"

definition member_document :: "readers \<Rightarrow> bool \<Rightarrow> bytes \<Rightarrow> json result" where
  "member_document rd toml raw =
     (if toml then bind_r (utf8_decode raw) (rd_toml rd)
      else bind_r (json_document (rd_decode rd) raw) (\<lambda>(_, data, _). Inr data))"

definition field_version :: "readers \<Rightarrow> bool \<Rightarrow> json_dict \<Rightarrow> bytes \<Rightarrow> json result" where
  "field_version rd toml declaration raw =
     vreq (has_key declaration ''field'') ''Artifact metadata requires an exact field''
      (bind_r (member_document rd toml raw) (\<lambda>data.
       bind_r (field (jget declaration ''field'')) (\<lambda>names.
       bind_r (get_path data (map Key names)) (\<lambda>actual.
       if \<not> has_key declaration ''package'' then Inr actual
       else bind_r (get_path data (map Key (if toml then butlast names @ [lit ''name''] else [lit ''name'']))) (\<lambda>own.
            vreq (json_eq own (jget declaration ''package'')) ''Archive metadata package identity mismatch'' (Inr actual))))))"

definition archive_artifact :: "readers \<Rightarrow> artifact \<Rightarrow> json_dict \<Rightarrow> pystr \<Rightarrow> inspected" where
  "archive_artifact rd a declaration expected =
     (let kind = jget declaration ''format''; selects = (\<lambda>name. map_option JStr (archive_name name) = Some (jget declaration ''member''))
      in bind_r (if startswith (jstr_val kind) (lit ''zip-'') then bind_r (ar_zip a) (\<lambda>entries. zip_metadata entries selects)
                 else bind_r (ar_tar a) (\<lambda>entries. tar_metadata entries selects)) (\<lambda>raw.
         bind_r (if kind = JStr (lit ''tar-text'') then text_version raw
                 else field_version rd (kind = JStr (lit ''tar-toml'')) declaration raw) (\<lambda>actual.
         vreq (rd_str rd actual = expected) ''Artifact field mismatch''
           (Inr (raw, [(lit ''member'', jget declaration ''member''), (lit ''field'', jget declaration ''field''),
                       (lit ''version'', JStr (rd_str rd actual))])))))"

definition info_plist :: "pystr \<Rightarrow> bool" where
  "info_plist name \<longleftrightarrow>
     startswith name (lit ''Payload/'') \<and> count_list name 47 = 2 \<and> endswith name (lit ''.app/Info.plist'')"

definition field_artifact :: "readers \<Rightarrow> artifact \<Rightarrow> json_dict \<Rightarrow> pystr \<Rightarrow> inspected" where
  "field_artifact rd a declaration expected =
     (let kind = jget declaration ''format''
      in vreq (has_key declaration ''field'') ''Artifact metadata requires an exact field''
        (bind_r (if kind = JStr (lit ''ipa'')
                 then bind_r (ar_zip a) (\<lambda>entries. bind_r (zip_metadata entries info_plist) (\<lambda>raw.
                      bind_r (rd_plist rd raw) (\<lambda>data. Inr (raw, data))))
                 else vreq (ar_size a \<le> MAX_METADATA) ''Artifact metadata is too large''
                       (bind_r (if kind = JStr (lit ''plist'') then rd_plist rd (ar_bytes a)
                                else member_document rd False (ar_bytes a)) (\<lambda>data. Inr (ar_bytes a, data)))) (\<lambda>(raw, data).
         bind_r (field (jget declaration ''field'')) (\<lambda>names.
         bind_r (get_path data (map Key names)) (\<lambda>actual.
         vreq (rd_str rd actual = expected) ''Artifact field mismatch''
           (Inr (raw, [(lit ''field'', jget declaration ''field''), (lit ''version'', JStr (rd_str rd actual))])))))))"

definition checker :: "json \<Rightarrow> readers \<Rightarrow> artifact \<Rightarrow> json_dict \<Rightarrow> pystr \<Rightarrow> inspected" where
  "checker kind =
     (if kind = JStr (lit ''oci'') then oci_artifact
      else if kind \<in> JStr ` set (map lit [''wheel'', ''sdist'']) then python_artifact
      else if kind = JStr (lit ''npm-tar'') then npm_artifact
      else if kind \<in> JStr ` set (map lit [''tar-text'', ''tar-toml'', ''tar-json'', ''zip-json'']) then archive_artifact
      else field_artifact)"

definition verify_artifact :: "readers \<Rightarrow> artifact \<Rightarrow> json \<Rightarrow> json \<Rightarrow> json_dict result" where
  "verify_artifact rd a declaration_value plan_value =
     bind_r (validate_plan (rd_sha rd) (rd_floats rd) plan_value None None) (\<lambda>p.
     bind_r (check_declaration True declaration_value) (\<lambda>d.
     vreq (ar_regular a) ''Artifact must be a regular file''
    (bind_r (projected_value p d) (\<lambda>v.
     bind_r (checker (jget d ''format'') rd a d (rd_str rd v)) (\<lambda>(raw, found).
     bind_r (plan_digest (rd_sha rd) (rd_floats rd) plan_value) (\<lambda>identity.
       Inr ([(lit ''path'', JStr (ar_path a)), (lit ''format'', jget d ''format''), (lit ''plan_sha256'', JStr identity),
             (lit ''metadata_sha256'', JStr (rd_sha rd raw))] @ found)))))))"

section \<open>The checkout\<close>

text \<open>
  The commit that is checked out and its files, as \<open>git\<close> gives them, and the tree as it is; a source export
  without a \<open>.git\<close> is not checked.
\<close>

record checkout =
  co_git :: bool
  co_head :: "pystr result"
  co_committed :: "pystr \<Rightarrow> pystr \<Rightarrow> bytes result"
  co_tree :: worktree

fun group_files :: "(pystr \<times> json_dict list) list \<Rightarrow> json_dict list \<Rightarrow> (pystr \<times> json_dict list) list result" where
  "group_files groups [] = Inr groups"
| "group_files groups (item # rest) =
     bind_r (py_getitem (JObj item) (lit ''path'')) (\<lambda>v.
     let name = jstr_val v; so_far = (case map_of groups name of Some items \<Rightarrow> items | None \<Rightarrow> [])
     in group_files (AList.update name (so_far @ [item]) groups) rest)"

definition base_plan :: "plan \<Rightarrow> plan" where
  "base_plan p = p\<lparr>pl_channel := lit ''stable'', pl_sequence := JNull, pl_version := pl_base_version p,
     pl_tag := 118 # pl_base_version p\<rparr>"

text \<open>The committed file has the base version already; with the fields of the plan it is the expected file.\<close>

fun expected_input :: "editors \<Rightarrow> plan \<Rightarrow> bytes \<Rightarrow> bytes \<Rightarrow> json_dict list \<Rightarrow> bytes result" where
  "expected_input ed p original expected [] = Inr expected"
| "expected_input ed p original expected (item # rest) =
     bind_r (if allocated (JObj item) then Inr ()
             else bind_r (projected_value (base_plan p) item) (\<lambda>v.
                  bind_r (edit_file ed original item v) (\<lambda>(checked, _).
                  vreq (checked = original) ''Committed version input differs from planned base'' (Inr ())))) (\<lambda>_.
     bind_r (projected_value p item) (\<lambda>v.
     bind_r (edit_file ed expected item v) (\<lambda>(updated, _). expected_input ed p original updated rest)))"

definition verify_input :: "editors \<Rightarrow> checkout \<Rightarrow> pystr \<Rightarrow> plan \<Rightarrow> pystr \<times> json_dict list \<Rightarrow> unit result" where
  "verify_input ed co head p entry =
     bind_r (relative (JStr (fst entry))) (\<lambda>_.
     bind_r (co_committed co head (fst entry)) (\<lambda>original.
     bind_r (expected_input ed p original original (snd entry)) (\<lambda>expected.
     bind_r (input_path (co_tree co) (JStr (fst entry))) (\<lambda>path.
     bind_r (read_input (co_tree co) path) (\<lambda>current.
     vreq (current = original \<or> current = expected) ''Undeclared changes in version input'' (Inr ()))))))"

definition verify_checkout :: "editors \<Rightarrow> checkout \<Rightarrow> json \<Rightarrow> plan \<Rightarrow> unit result" where
  "verify_checkout ed co policy p =
     (if \<not> co_git co then Inr ()
      else bind_r (co_head co) (\<lambda>head.
           vreq (head = pl_source_sha p) ''Checkout HEAD differs from release plan source SHA''
          (bind_r (policy_files policy) (\<lambda>files.
           bind_r (group_files [] files) (each_r (verify_input ed co head p))))))"

section \<open>The evidence of a synchronisation\<close>

text \<open>Where the evidence goes: whether its directory is the checkout, whether it is a link, and its name.\<close>

definition input_evidence ::
  "sha256 \<Rightarrow> (real \<Rightarrow> pystr) \<Rightarrow> bool \<times> bool \<times> pystr \<Rightarrow> json \<Rightarrow> json \<Rightarrow> plan \<Rightarrow> json list \<Rightarrow> (pystr \<times> bytes) result" where
  "input_evidence sha fr target policy plan_value p rows =
     (case target of (plain_parent, link, name) \<Rightarrow>
        vreq (plain_parent \<and> \<not> link) ''Evidence output must be a plain file in the checkout root''
       (bind_r (policy_files policy) (\<lambda>files.
        bind_r (map_r (\<lambda>d. py_getitem (JObj d) (lit ''path'')) files) (\<lambda>paths.
        vreq (JStr name \<notin> set paths) ''Evidence output must not overwrite a version input''
       (bind_r (plan_digest sha fr plan_value) (\<lambda>identity.
        bind_r (effective_inputs_digest sha fr (JList rows)) (\<lambda>inputs.
          Inr (name, json_bytes fr (JObj
            [(lit ''schema'', JInt 1), (lit ''plan_sha256'', JStr identity), (lit ''source_sha'', JStr (pl_source_sha p)),
             (lit ''files'', JList rows), (lit ''effective_inputs_sha256'', JStr inputs)]) @ [10]))))))))"

text \<open>The command \<open>sync\<close>: the plan, the checkout, the edits, and what is written, the evidence last.\<close>

definition sync_command ::
  "sha256 \<Rightarrow> (real \<Rightarrow> pystr) \<Rightarrow> editors \<Rightarrow> checkout \<Rightarrow> worktree \<Rightarrow> (pystr \<Rightarrow> worktree) \<Rightarrow> bool \<times> bool \<times> pystr \<Rightarrow> json \<Rightarrow> json \<Rightarrow> bool
   \<Rightarrow> json list result \<times> (pystr \<times> bytes) list" where
  "sync_command sha fr ed co before during target policy plan_value check =
     (case bind_r (validate_plan sha fr plan_value (Some policy) None) (\<lambda>p.
             bind_r (verify_checkout ed co policy p) (\<lambda>_. Inr p)) of
        Inl e \<Rightarrow> (Inl e, [])
      | Inr p \<Rightarrow>
          (case sync_versions sha fr ed (co_tree co) before during policy plan_value check of
             (Inl e, written) \<Rightarrow> (Inl e, written)
           | (Inr rows, written) \<Rightarrow>
               if check then (Inr rows, written)
               else (case input_evidence sha fr target policy plan_value p rows of
                       Inl e \<Rightarrow> (Inl e, written)
                     | Inr evidence \<Rightarrow> (Inr rows, written @ [evidence]))))"

section \<open>What an accepted artifact holds\<close>

lemma zip_metadata_member:
  assumes "zip_metadata entries predicate = Inr raw"
  shows "\<exists>e. filter (\<lambda>e. \<not> ze_dir e \<and> predicate (ze_name e)) entries = [e] \<and> raw = ze_content e \<and> \<not> ze_link e"
proof -
  from assms obtain e where e: "filter (\<lambda>e. \<not> ze_dir e \<and> predicate (ze_name e)) entries = [e]"
    "\<not> ze_link e" "raw = take (MAX_METADATA + 1) (ze_content e)" "length raw \<le> MAX_METADATA"
    by (auto simp: zip_metadata_def Let_def guard_r_Inr_iff split: list.splits)
  then have "raw = ze_content e" by simp
  with e show ?thesis by blast
qed

lemma tar_matches_member:
  assumes "tar_matches predicate n matches es = Inr out" and "length matches \<le> 1"
  shows "length out \<le> 1 \<and> length out = length matches + length (filter (\<lambda>e. predicate (te_name e)) es)
    \<and> set out \<subseteq> set matches \<union> (\<lambda>e. mb_content (te_member e)) ` set (filter (\<lambda>e. predicate (te_name e)) es)"
  using assms
proof (induction predicate n matches es rule: tar_matches.induct)
  case (2 predicate n matches e es)
  show ?case
  proof (cases "predicate (te_name e)")
    case True
    let ?content = "take (MAX_METADATA + 1) (mb_content (te_member e))"
    from 2(3) True have r: "tar_matches predicate (Suc n) [?content] es = Inr out" "matches = []" "length ?content \<le> MAX_METADATA"
      "n < 100000" "mb_file (te_member e)" "mb_size (te_member e) \<le> MAX_METADATA"
      by (auto simp: Let_def guard_r_Inr_iff)
    then have "?content = mb_content (te_member e)" by simp
    moreover have "length out \<le> 1 \<and> length out = length [?content] + length (filter (\<lambda>e. predicate (te_name e)) es)
        \<and> set out \<subseteq> set [?content] \<union> (\<lambda>e. mb_content (te_member e)) ` set (filter (\<lambda>e. predicate (te_name e)) es)"
      by (rule 2(2)[OF _ refl refl]) (use True r(1) in simp_all)
    ultimately show ?thesis using r(2) True by auto
  next
    case False
    with 2 show ?thesis by (auto simp: guard_r_Inr_iff)
  qed
qed simp

lemma tar_metadata_member:
  assumes "tar_metadata entries predicate = Inr raw"
  shows "\<exists>e. filter (\<lambda>e. predicate (te_name e)) entries = [e] \<and> raw = mb_content (te_member e)"
proof -
  from assms obtain matches where "tar_matches predicate 0 [] entries = Inr matches"
      "(case matches of [content] \<Rightarrow> Inr content | _ \<Rightarrow> Inl (VersionError ''Archive metadata is missing'')) = Inr raw"
    by (auto simp: tar_metadata_def bind_r_Inr_iff)
  then have "tar_matches predicate 0 [] entries = Inr [raw]" by (auto split: list.splits)
  from tar_matches_member[OF this] have one: "length (filter (\<lambda>e. predicate (te_name e)) entries) = 1"
    and raw: "raw \<in> (\<lambda>e. mb_content (te_member e)) ` set (filter (\<lambda>e. predicate (te_name e)) entries)" by auto
  from one obtain e where "filter (\<lambda>e. predicate (te_name e)) entries = [e]"
    by (cases "filter (\<lambda>e. predicate (te_name e)) entries") auto
  with raw show ?thesis by auto
qed

text \<open>The metadata comes from the one member that the format names, or from the file itself.\<close>

definition metadata_of :: "artifact \<Rightarrow> bytes \<Rightarrow> bool" where
  "metadata_of a raw \<longleftrightarrow>
     raw = ar_bytes a
     \<or> (\<exists>entries predicate e. ar_zip a = Inr entries \<and> raw = ze_content e
          \<and> filter (\<lambda>e. \<not> ze_dir e \<and> predicate (ze_name e)) entries = [e])
     \<or> (\<exists>entries predicate e. ar_tar a = Inr entries \<and> raw = mb_content (te_member e)
          \<and> filter (\<lambda>e. predicate (te_name e)) entries = [e])"

lemma metadata_of_zip: "ar_zip a = Inr entries \<Longrightarrow> zip_metadata entries predicate = Inr raw \<Longrightarrow> metadata_of a raw"
  unfolding metadata_of_def by (blast dest: zip_metadata_member)

lemma metadata_of_tar: "ar_tar a = Inr entries \<Longrightarrow> tar_metadata entries predicate = Inr raw \<Longrightarrow> metadata_of a raw"
  unfolding metadata_of_def by (blast dest: tar_metadata_member)

text \<open>What each checker vouches for.\<close>

definition vouches :: "readers \<Rightarrow> artifact \<Rightarrow> json_dict \<Rightarrow> pystr \<Rightarrow> bytes \<times> json_dict \<Rightarrow> bool" where
  "vouches rd a d expected result \<longleftrightarrow>
     jget (snd result) ''version'' = JStr expected
     \<and> (if jget d ''format'' = JStr (lit ''oci'')
        then \<exists>entries names rows. ar_tar a = Inr entries
               \<and> oci_metadata (rd_sha rd) (rd_decode rd) (rd_str rd) (rd_floats rd) entries names expected = Inr (fst result, rows)
               \<and> jget (snd result) ''images'' = JList (map JObj rows)
        else metadata_of a (fst result))"

lemma message_version: "metadata_message rd raw name expected = Inr found \<Longrightarrow> jget found ''version'' = JStr expected"
  by (auto simp: metadata_message_def dict_get_def guard_r_Inr_iff split: list.splits)

lemma checker_vouches:
  assumes "checker (jget d ''format'') rd a d expected = Inr result"
  shows "vouches rd a d expected result"
proof -
  let ?k = "jget d ''format''"
  consider (oci) "?k = JStr (lit ''oci'')" "oci_artifact rd a d expected = Inr result"
    | (python) "?k \<noteq> JStr (lit ''oci'')" "python_artifact rd a d expected = Inr result"
    | (npm) "?k \<noteq> JStr (lit ''oci'')" "npm_artifact rd a d expected = Inr result"
    | (archive) "?k \<noteq> JStr (lit ''oci'')" "archive_artifact rd a d expected = Inr result"
    | (other) "?k \<noteq> JStr (lit ''oci'')" "field_artifact rd a d expected = Inr result"
    using assms by (auto simp: checker_def split: if_splits)
  then show ?thesis
  proof cases
    case oci
    then obtain names entries rows where "ar_tar a = Inr entries"
      "oci_metadata (rd_sha rd) (rd_decode rd) (rd_str rd) (rd_floats rd) entries names expected = Inr (fst result, rows)"
      "snd result = [(lit ''field'', jget d ''field''), (lit ''version'', JStr expected), (lit ''images'', JList (map JObj rows))]"
      by (auto simp: oci_artifact_def bind_r_Inr_iff guard_r_Inr_iff)
    with oci(1) show ?thesis unfolding vouches_def by (auto simp: dict_get_def)
  next
    case python
    then obtain raw found where r: "result = (raw, found)" "metadata_message rd raw (jstr_val (jget d ''package'')) expected = Inr found"
      "metadata_of a raw"
      by (auto simp: python_artifact_def bind_r_Inr_iff guard_r_Inr_iff split: if_splits intro: metadata_of_zip metadata_of_tar)
    with python message_version show ?thesis by (simp add: vouches_def)
  next
    case npm
    then show ?thesis
      by (auto simp: npm_artifact_def vouches_def bind_r_Inr_iff guard_r_Inr_iff dict_get_def intro: metadata_of_tar)
  next
    case archive
    then show ?thesis
      by (auto simp: archive_artifact_def Let_def vouches_def bind_r_Inr_iff guard_r_Inr_iff dict_get_def
          intro: metadata_of_zip metadata_of_tar split: if_splits)
  next
    case other
    then show ?thesis
      by (auto simp: field_artifact_def Let_def vouches_def bind_r_Inr_iff guard_r_Inr_iff dict_get_def
          intro: metadata_of_zip split: if_splits) (simp_all add: metadata_of_def)
  qed
qed


section \<open>A text in an archive\<close>

definition sample_readers :: readers where
  "sample_readers = \<lparr>rd_sha = sample_sha, rd_floats = \<lambda>_. [], rd_decode = plain_scalars, rd_toml = \<lambda>_. Inl KeyError,
     rd_plist = \<lambda>_. Inl KeyError, rd_loads = \<lambda>_. Inl KeyError, rd_str = py_str, rd_lower = \<lambda>c. [c], rd_headers = \<lambda>_ _. []\<rparr>"

definition sample_artifact :: artifact where
  "sample_artifact = \<lparr>ar_path = lit ''app.tar'', ar_regular = True, ar_size = 100, ar_bytes = [], ar_is_zip = False,
     ar_zip = Inl KeyError,
     ar_tar = Inr [\<lparr>te_name = lit ''VERSION'', te_dir = False,
       te_member = \<lparr>mb_file = True, mb_size = 13, mb_content = lit ''1.2.3-beta.4'' @ [10]\<rparr>\<rparr>]\<rparr>"

definition sample_selector_json :: json_dict where
  "sample_selector_json = [(lit ''format'', JStr (lit ''tar-text'')), (lit ''member'', JStr (lit ''VERSION''))]"

lemma sample_artifact_accepted:
  assumes "validate_plan sample_sha (\<lambda>_. []) plan_value None None = Inr p" and "pl_version p = lit ''1.2.3-beta.4''"
    and "pl_channel p = lit ''beta''"
  shows "\<exists>out. verify_artifact sample_readers sample_artifact (JObj sample_selector_json) plan_value = Inr out"
proof -
  have d: "check_declaration True (JObj sample_selector_json) = Inr sample_selector_json" by code_simp
  have v: "projected_value p sample_selector_json = Inr (JStr (lit ''1.2.3-beta.4''))"
    using assms(2,3) by (simp add: projected_value_def projections_def sample_selector_json_def dict_get_def in_strings_def)
  have m: "jget sample_selector_json ''format'' = JStr (lit ''tar-text'')" "jget sample_selector_json ''member'' = JStr (lit ''VERSION'')"
    by code_simp+
  have n: "archive_name (lit ''VERSION'') = Some (lit ''VERSION'')" by code_simp
  have u: "utf8_decode (lit ''1.2.3-beta.4'' @ [10]) = Inr (lit ''1.2.3-beta.4'' @ [10])"
    by (rule utf8_decode_encode[OF utf8_encode_ascii]) (simp add: lit_def)
  have t: "text_version (lit ''1.2.3-beta.4'' @ [10]) = Inr (JStr (lit ''1.2.3-beta.4''))"
    by (simp add: text_version_def u) (simp add: strip_def is_space_def lit_def)
  have z: "\<not> startswith (lit ''tar-text'') (lit ''zip-'')" by code_simp
  have l: "length (lit ''1.2.3-beta.4'' @ [10]) = 13" by code_simp
  have r: "tar_metadata [\<lparr>te_name = lit ''VERSION'', te_dir = False,
       te_member = \<lparr>mb_file = True, mb_size = 13, mb_content = lit ''1.2.3-beta.4'' @ [10]\<rparr>\<rparr>]
      (\<lambda>name. archive_name name = Some (lit ''VERSION'')) = Inr (lit ''1.2.3-beta.4'' @ [10])"
    using l by (simp add: tar_metadata_def n Let_def MAX_METADATA_def)
  have "archive_artifact sample_readers sample_artifact sample_selector_json (lit ''1.2.3-beta.4'') =
      Inr (lit ''1.2.3-beta.4'' @ [10], [(lit ''member'', JStr (lit ''VERSION'')), (lit ''field'', jget sample_selector_json ''field''),
         (lit ''version'', JStr (lit ''1.2.3-beta.4''))])"
    by (simp add: archive_artifact_def Let_def m z sample_artifact_def r t sample_readers_def)
  then show ?thesis
    using assms(1) d v m
    by (simp add: verify_artifact_def plan_digest_def checker_def sample_readers_def sample_artifact_def)
qed


end
