(* ===== verification/Spec2Isabelle.thy ===== *)
theory Spec2Isabelle
  imports Gateway Change_Scope Ledger Versioned_Publish Artifacts
begin

text \<open>
  A verification development of the FastAPI MQTT gateway: the service under \<open>src/src/fastapi_mqtt_gateway\<close>
  and the release scripts under \<open>src/scripts\<close>. This theory holds no definition of its own; it imports all
  others, which are listed here with the part of the program they model.

  \<^bold>\<open>Values.\<close> Python strings and bytes are lists of numbers (\<open>pystr\<close>, \<open>bytes\<close>), \<open>lit ''..''\<close> is an ASCII
  literal; integers are unbounded; a dictionary is an association list in insertion order; parsed JSON is
  the datatype \<open>json\<close>. A call that can raise returns \<open>exn + 'a\<close>. Code that talks to a library or to the
  machine (PBKDF2, JWT, paho, OpenSSL, SHA-1 and SHA-256, JSON parsing, \<open>git\<close>, \<open>gh\<close>, clocks, files) takes
  that library as an argument; the properties quantify over it, and where they need a promise of it the
  promise is a named hypothesis with an instance in the property's witness.

  \<^bold>\<open>The gateway.\<close>
  \<^item> \<open>Prelude\<close>: results, strings, dictionaries, bounded queues, and the locales \<open>bounded_buffer\<close> and
    \<open>transition_system\<close> that the components interpret. \<open>Utf8\<close>: the two decoders and the encoder.
  \<^item> \<open>Passwords\<close> (\<open>core/passwords.py\<close>, \<open>password_hash.py\<close>), \<open>Config\<close> (\<open>core/config.py\<close>), \<open>Models\<close>
    (\<open>models/__init__.py\<close>), \<open>Auth\<close> (\<open>core/auth.py\<close>): verifiers, settings, request models, tokens.
  \<^item> \<open>Topics\<close> (\<open>core/topics.py\<close>): validation, containment and overlap of filters, proved equal to set
    inclusion and intersection of the topics MQTT lets them match, and the authorization built on them.
  \<^item> \<open>Tls_Policy\<close> (\<open>tls_policy.py\<close>, \<open>mqtt/tls.py\<close>, \<open>_darwin_certificate.py\<close>): minimum keys of peers.
  \<^item> \<open>Mqtt_Client\<close> (\<open>mqtt/client.py\<close>): connection, subscriptions, and the queue between the network thread
    and the event loop. \<open>Mqtt_Service\<close> (\<open>services/mqtt_service.py\<close>): owners of shared subscriptions,
    retained queries, statistics.
  \<^item> \<open>Api_Rest\<close> and \<open>Websocket\<close> (\<open>api/__init__.py\<close>): endpoints and streams.
  \<^item> \<open>Gateway\<close> (\<open>main.py\<close>): every interleaving of sessions, queries, callbacks and connection changes as one
    step relation, with the invariants that hold in every reachable state.

  \<^bold>\<open>The release scripts.\<close>
  \<^item> \<open>Py_Json\<close>, \<open>Regex\<close>, \<open>Base64\<close>: Python's operations on parsed JSON, regular expressions decided by
    derivatives with the proof that the decision is exact, and the Base64 codec with its round trip.
  \<^item> \<open>Version_Plan\<close> (\<open>version_plan.py\<close>): policies, identities, plans and their projections.
  \<^item> \<open>Json_Edit\<close>, \<open>Version_Edit\<close> (the same file): the JSON scanner that keeps the offsets of scalars, with the
    proof that an edit replaces exactly the owned tokens; the TOML scanner and, in \<open>Source_Edit\<close>, the editors of
    Python, property list and Xcode files over Python's own parsers; the synchronisation of all declared
    files with a plan, which writes only when no selector undoes another. \<open>Json_Roundtrip\<close>: what the scripts
    write as canonical JSON is read back by that scanner. \<open>Oci_Graph\<close>: the bounded walk over the digest graph of
    a container archive, with an invariant that every step keeps. \<open>Artifacts\<close>: the inspection of built packages
    and the binding of the checkout to the commit of a plan.
  \<^item> \<open>Change_Scope\<close> (\<open>change_scope.py\<close>): when the pipeline may be skipped.
  \<^item> \<open>Github_Api\<close>, \<open>Release_Control\<close>, \<open>Release_Notes\<close>, \<open>Release_Manifest\<close>, \<open>Publication\<close>,
    \<open>Promotion\<close>, \<open>Release_Create\<close> (\<open>release_control.py\<close>): the client, the checks before a publication, the
    change log scanner, the manifest of a candidate, the transaction that makes a release public, the two
    commands that run it, and the creation whose lost answer is reconciled by a bounded readback. A command of
    the client is a value, the history of commands is threaded through every action, and the service is a
    function from that history and the next command to an outcome, so that nothing is assumed about it.
  \<^item> \<open>Release_Validation\<close> (\<open>release_validation.py\<close> and the policy part of \<open>release_fuzz.py\<close>): the validators a
    policy selects and the gate over their results. \<open>Release_Fuzz\<close> (\<open>release_fuzz.py\<close>): the fuzz manifest, the
    campaign runner with its processes as a recorded history, and the checks of its report.
  \<^item> \<open>Version_Receipt\<close> (\<open>version_receipt.py\<close>): the receipt each platform writes about its build, and the check
    that every payload of a release is covered by exactly one of them. \<open>Toolchains\<close>, \<open>Release_Versioned\<close>,
    \<open>Versioned_Publish\<close> (\<open>release_versioned.py\<close>): the comparison of the toolchains of a candidate and its
    final build, and the two commands of the publisher of planned versions.
  \<^item> \<open>Release_State\<close> (\<open>release_state.py\<close>) and \<open>Ledger\<close>: the ledger of reserved versions, its abstract
    specification, and the step relation of concurrent runs whose writes are delayed, reordered or lost.

  \<^bold>\<open>Loops.\<close> Every loop is a structural recursion or a \<open>function\<close> with a termination proof. The only bounds
  are the program's own (three attempts of a read, nine levels of a container archive); polling loops take the
  list of clock readings they see. The JSON scanner has fuel, twice the length of the text, and \<open>document_parses\<close>
  proves that it never runs out.

  \<^bold>\<open>Not modelled.\<close> The
  remaining scripts (archive merging, packaging, workflow contracts, command lines), which
  mostly move files or start processes. Log output is left out everywhere.
\<close>

end
